(* ===== verification/App_Prelude.thy ===== *)
theory App_Prelude
  imports Main "HOL-Library.Sublist" "HOL-Library.More_List"
begin

text \<open>
  Shared automation and generic facts of the development: the collections of the
  component proofs, lists cut into pages, windows over a growing list, association lists
  used as the code uses object literals, and runs of a step function over a list of events.
\<close>

named_theorems page_defs \<open>definitions of the page models that proofs unfold together\<close>
named_theorems frame_simps \<open>what an operation leaves unchanged\<close>

subsection \<open>Object literals used as lookup tables\<close>

text \<open>
  \<open>T[k] || d\<close> on a literal table with no falsy values: the first entry of the key, or the
  default.
\<close>

definition lookup_or :: "'v \<Rightarrow> ('k \<times> 'v) list \<Rightarrow> 'k \<Rightarrow> 'v" where
  "lookup_or d t k = (case map_of t k of Some v \<Rightarrow> v | None \<Rightarrow> d)"

lemma lookup_or_default: "k \<notin> fst ` set t \<Longrightarrow> lookup_or d t k = d"
  by (simp add: lookup_or_def map_of_eq_None_iff [THEN iffD2])

lemma lookup_or_in: "lookup_or d t k \<in> insert d (snd ` set t)"
  by (force simp: lookup_or_def split: option.split dest: map_of_SomeD)

subsection \<open>Pages of a list\<close>

definition page_of :: "nat \<Rightarrow> nat \<Rightarrow> 'a list \<Rightarrow> 'a list" where
  "page_of n p xs = take n (drop (p * n) xs)"

lemma length_page_of: "length (page_of n p xs) \<le> n"
  by (simp add: page_of_def)

lemma set_page_of: "set (page_of n p xs) \<subseteq> set xs"
  by (auto simp: page_of_def dest: in_set_takeD in_set_dropD)

lemma page_of_Nil [simp]: "page_of n p [] = []"
  by (simp add: page_of_def)

lemma concat_pages:
  assumes "length xs \<le> k * n"
  shows "concat (map (\<lambda>p. page_of n p xs) [0..<k]) = xs"
proof -
  have "concat (map (\<lambda>p. page_of n p xs) [0..<j]) = take (j * n) xs" for j
    by (induction j) (simp_all add: page_of_def take_add [symmetric] add.commute)
  then show ?thesis using assms by simp
qed

lemma page_of_nonempty:
  "0 < n \<Longrightarrow> p * n < length xs \<Longrightarrow> page_of n p xs \<noteq> []"
  by (simp add: page_of_def)

subsection \<open>The last n elements, as slice(-n) takes them\<close>

definition last_n :: "nat \<Rightarrow> 'a list \<Rightarrow> 'a list" where
  "last_n n xs = drop (length xs - n) xs"

lemma length_last_n: "length (last_n n xs) = min n (length xs)"
  by (simp add: last_n_def)

lemma set_last_n: "set (last_n n xs) \<subseteq> set xs"
  by (auto simp: last_n_def dest: in_set_dropD)

lemma last_n_suffix: "suffix (last_n n xs) xs"
  by (simp add: last_n_def suffix_drop)

lemma last_n_snoc: "last_n n (last_n n xs @ [x]) = last_n n (xs @ [x])"
  by (cases "length xs \<le> n") (simp_all add: last_n_def Suc_diff_le drop_drop)

subsection \<open>Runs of a step function\<close>

text \<open>An event loop: every event is handled against the state the previous one left.\<close>

fun run :: "('e \<Rightarrow> 's \<Rightarrow> 's) \<Rightarrow> 'e list \<Rightarrow> 's \<Rightarrow> 's" where
  "run f [] s = s"
| "run f (e # es) s = run f es (f e s)"

lemma run_append [simp]: "run f (es @ fs) s = run f fs (run f es s)"
  by (induction es arbitrary: s) auto

text \<open>
  What a stateful component promises: an invariant of its start state that every step keeps.
  Each component interprets this locale on its own step function.
\<close>

locale stepper =
  fixes start :: 's
    and step :: "'e \<Rightarrow> 's \<Rightarrow> 's"
    and inv :: "'s \<Rightarrow> bool"
  assumes inv_start: "inv start"
    and inv_step: "inv s \<Longrightarrow> inv (step e s)"
begin

lemma run_inv_from: "inv s \<Longrightarrow> inv (run step es s)"
  by (induction es arbitrary: s) (auto intro: inv_step)

lemma run_inv: "inv (run step es start)"
  by (rule run_inv_from [OF inv_start])

end

text \<open>
  A page whose loading waits for a set of first answers (Promise.allSettled): every event settles at
  most one of them, and the invariant ties the loading state to those still wanted. The loading then
  depends on which answers came, not on their order or on what came between.
\<close>

locale settling = stepper start step inv
  for start :: 's and step :: "'e \<Rightarrow> 's \<Rightarrow> 's" and inv :: "'s \<Rightarrow> bool" +
  fixes loading :: "'s \<Rightarrow> bool"
    and settled :: "'s \<Rightarrow> nat set"
    and answered :: "'e \<Rightarrow> nat option"
    and wanted :: "nat set"
  assumes settled_start: "settled start = {}"
    and settled_step: "settled (step e s) = settled s \<union> set_option (answered e)"
    and inv_loading: "inv s \<Longrightarrow> loading s = (\<not> wanted \<subseteq> settled s)"
begin

lemma settled_run: "settled (run step es s) = settled s \<union> {k. \<exists>e \<in> set es. answered e = Some k}"
proof (induction es arbitrary: s)
  case (Cons e es)
  show ?case by (cases "answered e") (auto simp: Cons settled_step)
qed simp

lemma loading_run:
  "loading (run step es start) \<longleftrightarrow> \<not> wanted \<subseteq> {k. \<exists>e \<in> set es. answered e = Some k}"
  using inv_loading [OF run_inv, of es] by (simp add: settled_run settled_start)

lemma loading_order: "set es = set fs \<Longrightarrow> loading (run step es start) = loading (run step fs start)"
  by (simp add: loading_run)

end

subsection \<open>Counting and distinctness\<close>

lemma length_filter_split:
  "length (filter P xs) + length (filter (\<lambda>x. \<not> P x) xs) = length xs"
  by (induction xs) auto

lemma length_filter_eq_all: "length (filter P xs) = length xs \<longleftrightarrow> (\<forall>x \<in> set xs. P x)"
  by (metis filter_True length_filter_less less_irrefl)

lemma filter_le_count: "(\<And>x. P x \<Longrightarrow> Q x) \<Longrightarrow> length (filter P xs) \<le> length (filter Q xs)"
  by (induction xs) auto

lemma distinct_map_filter: "distinct (map f xs) \<Longrightarrow> distinct (map f (filter P xs))"
  by (induction xs) auto

text \<open>\<open>[...new Set(xs)]\<close>: the first occurrences, in order.\<close>

fun uniq :: "'a list \<Rightarrow> 'a list" where
  "uniq [] = []"
| "uniq (x # xs) = x # uniq (filter (\<lambda>y. y \<noteq> x) xs)"

lemma set_uniq [simp]: "set (uniq xs) = set xs"
  by (induction xs rule: uniq.induct) auto

lemma distinct_uniq [simp]: "distinct (uniq xs)"
  by (induction xs rule: uniq.induct) auto

end
