(* ===== verification/Js_Text.thy ===== *)
theory Js_Text
  imports App_Prelude
begin

text \<open>
  JavaScript strings as lists of UTF-16 code units, with the string operations the dashboard
  uses. \<open>u\<close> embeds an ASCII literal, \<open>ux\<close> a literal whose non-ASCII units are written
  \<open>{hex}\<close>. Case conversion depends on the Unicode tables of the engine: functions that use it
  take it as an argument (\<open>lc\<close> for toLowerCase, \<open>uc\<close> for toUpperCase).
\<close>

type_synonym jstr = "nat list"

definition u :: "string \<Rightarrow> jstr" where
  "u s = map of_char s"

lemma u_eq_iff [simp]: "u s = u t \<longleftrightarrow> s = t"
proof -
  have "inj (of_char :: char \<Rightarrow> nat)" by (simp add: inj_def)
  then show ?thesis by (simp add: u_def inj_map_eq_map)
qed

lemma u_Nil [simp]: "u [] = []"
  by (simp add: u_def)

lemma u_eq_Nil [simp]: "u s = [] \<longleftrightarrow> s = []" "[] = u s \<longleftrightarrow> s = []"
  by (auto simp: u_def)

lemma length_u [simp]: "length (u s) = length s"
  by (simp add: u_def)

lemma u_append: "u (s @ t) = u s @ u t"
  by (simp add: u_def)

fun hex_digit :: "nat \<Rightarrow> nat" where
  "hex_digit n = (if n \<ge> 97 then n - 87 else n - 48)"

text \<open>\<open>ux_go None s\<close> is outside an escape, \<open>ux_go (Some a) s\<close> inside one with value \<open>a\<close>.\<close>

fun ux_go :: "nat option \<Rightarrow> string \<Rightarrow> jstr" where
  "ux_go st [] = []"
| "ux_go None (c # cs) =
     (if c = CHR ''{'' then ux_go (Some 0) cs else of_char c # ux_go None cs)"
| "ux_go (Some a) (c # cs) =
     (if c = CHR ''}'' then a # ux_go None cs else ux_go (Some (16 * a + hex_digit (of_char c))) cs)"

definition ux :: "string \<Rightarrow> jstr" where
  "ux s = ux_go None s"

subsection \<open>Slices, search, trimming\<close>

text \<open>\<open>s.slice(a, b)\<close> for indices that are not negative.\<close>

definition jslice :: "nat \<Rightarrow> nat \<Rightarrow> 'a list \<Rightarrow> 'a list" where
  "jslice a b s = take (b - a) (drop a s)"

fun contains :: "jstr \<Rightarrow> jstr \<Rightarrow> bool" where
  "contains [] n = (n = [])"
| "contains (x # xs) n = (take (length n) (x # xs) = n \<or> contains xs n)"

lemma contains_iff_sublist: "contains h n \<longleftrightarrow> sublist n h"
proof (induction h)
  case Nil
  then show ?case by simp
next
  case (Cons x xs)
  have "take (length n) (x # xs) = n \<longleftrightarrow> prefix n (x # xs)"
    by (metis append_eq_conv_conj append_take_drop_id prefix_def)
  with Cons show ?case by (simp add: sublist_Cons_right)
qed

lemma contains_refl [simp]: "contains s s"
  by (simp add: contains_iff_sublist)

lemma contains_Nil [simp]: "contains h []"
  by (simp add: contains_iff_sublist)

lemma contains_append: "contains a n \<Longrightarrow> contains (a @ b) n" "contains b n \<Longrightarrow> contains (a @ b) n"
  unfolding contains_iff_sublist
  by (metis sublist_append)+

definition starts_with :: "jstr \<Rightarrow> jstr \<Rightarrow> bool" where
  "starts_with s p = (take (length p) s = p)"

lemma starts_with_iff_prefix: "starts_with s p \<longleftrightarrow> prefix p s"
  unfolding starts_with_def
  by (metis append_eq_conv_conj append_take_drop_id prefix_def)

text \<open>The white space and line terminators of ECMAScript, which \<open>trim\<close> removes.\<close>

definition is_space :: "nat \<Rightarrow> bool" where
  "is_space c = (c \<in> {9, 10, 11, 12, 13, 32, 160, 5760, 8232, 8233, 8239, 8287, 12288, 65279}
     \<or> (8192 \<le> c \<and> c \<le> 8202))"

definition trim :: "jstr \<Rightarrow> jstr" where
  "trim s = rev (dropWhile is_space (rev (dropWhile is_space s)))"

lemma trim_Nil [simp]: "trim [] = []"
  by (simp add: trim_def)

lemma dropWhile_all_iff: "(\<forall>x \<in> set (dropWhile P xs). P x) \<longleftrightarrow> (\<forall>x \<in> set xs. P x)"
  by (induction xs) auto

lemma trim_eq_Nil_iff: "trim s = [] \<longleftrightarrow> (\<forall>c \<in> set s. is_space c)"
  unfolding trim_def rev_is_Nil_conv dropWhile_eq_Nil_conv set_rev
  by (rule dropWhile_all_iff)

lemma dropWhile_space_idem: "dropWhile P (dropWhile P xs) = dropWhile P xs"
  by (induction xs) auto

lemma trim_ends:
  assumes "trim s \<noteq> []"
  shows "\<not> is_space (last (trim s))"
proof -
  let ?r = "dropWhile is_space (rev (dropWhile is_space s))"
  have "?r \<noteq> []" using assms by (auto simp: trim_def)
  then have "\<not> is_space (hd ?r)" by (rule hd_dropWhile)
  then show ?thesis by (simp add: trim_def last_rev)
qed

lemma trim_starts:
  assumes "trim s \<noteq> []"
  shows "\<not> is_space (hd (trim s))"
proof -
  let ?d = "dropWhile is_space s"
  have "?d = trim s @ rev (takeWhile is_space (rev ?d))"
    by (metis takeWhile_dropWhile_id rev_append rev_rev_ident trim_def)
  then have "hd ?d = hd (trim s)" "?d \<noteq> []"
    using assms by (metis hd_append2, metis append_is_Nil_conv)
  then show ?thesis using hd_dropWhile [of is_space s] by simp
qed

lemma trim_trim [simp]: "trim (trim s) = trim s"
proof (cases "trim s = []")
  case False
  then have "dropWhile is_space (trim s) = trim s"
    using trim_starts [OF False] by (cases "trim s") simp_all
  then show ?thesis by (simp add: trim_def dropWhile_space_idem)
qed simp

lemma set_trim: "set (trim s) \<subseteq> set s"
  by (auto simp: trim_def dest!: set_dropWhileD)

text \<open>\<open>s.split(c)\<close> for a one-unit separator: always at least one piece.\<close>

fun split_on :: "nat \<Rightarrow> jstr \<Rightarrow> jstr list" where
  "split_on c [] = [[]]"
| "split_on c (x # xs) =
     (if x = c then [] # split_on c xs
      else (case split_on c xs of [] \<Rightarrow> [[x]] | p # ps \<Rightarrow> (x # p) # ps))"

fun join_with :: "jstr \<Rightarrow> jstr list \<Rightarrow> jstr" where
  "join_with s [] = []"
| "join_with s [p] = p"
| "join_with s (p # q # ps) = p @ s @ join_with s (q # ps)"

lemma split_on_nonempty [simp]: "split_on c s \<noteq> []"
  by (induction s) (auto split: list.split)

lemma join_split [simp]: "join_with [c] (split_on c s) = s"
proof (induction s)
  case Nil
  then show ?case by simp
next
  case (Cons x xs)
  obtain p ps where p: "split_on c xs = p # ps" by (cases "split_on c xs") auto
  with Cons show ?case by (cases ps) auto
qed

lemma split_on_pieces: "p \<in> set (split_on c s) \<Longrightarrow> c \<notin> set p"
  by (induction s arbitrary: p) (auto split: list.splits if_splits)

text \<open>\<open>s.replace(/^pre/, r)\<close>.\<close>

definition replace_prefix :: "jstr \<Rightarrow> jstr \<Rightarrow> jstr \<Rightarrow> jstr" where
  "replace_prefix pre r s = (if starts_with s pre then r @ drop (length pre) s else s)"

subsection \<open>Numbers as text\<close>

fun nshow :: "nat \<Rightarrow> jstr" where
  "nshow n = (if n < 10 then [48 + n] else nshow (n div 10) @ [48 + n mod 10])"

declare nshow.simps [simp del]

lemma nshow_nonempty [simp]: "nshow n \<noteq> []"
  by (subst nshow.simps) simp

lemma nshow_digits: "\<forall>d \<in> set (nshow n). 48 \<le> d \<and> d \<le> 57"
proof (induction n rule: nshow.induct)
  case (1 n)
  then show ?case by (subst nshow.simps) auto
qed

definition digits_value :: "jstr \<Rightarrow> nat" where
  "digits_value s = foldl (\<lambda>a d. 10 * a + (d - 48)) 0 s"

lemma nshow_value [simp]: "digits_value (nshow n) = n"
proof (induction n rule: nshow.induct)
  case (1 n)
  then show ?case
    by (cases "n < 10") (simp_all add: nshow.simps [of n] digits_value_def)
qed

lemma nshow_inj [simp]: "nshow m = nshow n \<longleftrightarrow> m = n"
  by (metis nshow_value)

definition ishow :: "int \<Rightarrow> jstr" where
  "ishow i = (if i < 0 then 45 # nshow (nat (- i)) else nshow (nat i))"

text \<open>\<open>s.padStart(n, c)\<close> for a one-unit filler.\<close>

definition pad_start :: "nat \<Rightarrow> nat \<Rightarrow> jstr \<Rightarrow> jstr" where
  "pad_start n c s = replicate (n - length s) c @ s"

lemma length_pad_start: "length (pad_start n c s) = max n (length s)"
  by (simp add: pad_start_def)

subsection \<open>short\<close>

text \<open>\<open>short(id, n)\<close> of ui.tsx: cut to \<open>n\<close> units and mark the cut with an ellipsis (U+2026).\<close>

definition short :: "jstr \<Rightarrow> nat \<Rightarrow> jstr" where
  "short i n = (if length i > n then take n i @ [8230] else i)"

lemma length_short: "length (short i n) \<le> n + 1"
  by (simp add: short_def)

end
