(* ===== verification/Js_Number.thy ===== *)
theory Js_Number
  imports Js_Text Complex_Main "HOL-Library.Log_Nat"
begin

text \<open>
  JavaScript numbers, as far as the dashboard computes with them: finite IEEE 754 doubles,
  represented by their exact rational value. Every arithmetic operation rounds its exact result
  with \<open>fl\<close>: 53 significant bits, ties to even. Overflow to infinity and subnormal numbers
  (results beyond \<open>2^1023\<close> or below \<open>2^-1022\<close>) do not occur in the code's ranges and are not
  modelled; NaN cannot arise because the code guards every division whose divisor can be zero.
\<close>

subsection \<open>Round half to even, on integers\<close>

definition rne :: "rat \<Rightarrow> int" where
  "rne x = (let f = \<lfloor>x\<rfloor>; r = x - of_int f in
     if r < 1/2 then f else if r > 1/2 then f + 1 else if even f then f else f + 1)"

lemma rne_of_int [simp]: "rne (of_int n) = n"
  by (simp add: rne_def)

lemma rne_bounds: "\<lfloor>x\<rfloor> \<le> rne x" "rne x \<le> \<lfloor>x\<rfloor> + 1"
  by (auto simp: rne_def Let_def)

lemma rne_mono:
  assumes "x \<le> y"
  shows "rne x \<le> rne y"
proof (cases "\<lfloor>x\<rfloor> = \<lfloor>y\<rfloor>")
  case True
  with assms show ?thesis by (auto simp: rne_def Let_def)
next
  case False
  with floor_mono [OF assms] have "\<lfloor>x\<rfloor> + 1 \<le> \<lfloor>y\<rfloor>" by simp
  with rne_bounds(2) [of x] rne_bounds(1) [of y] show ?thesis by linarith
qed

lemma rne_le: "x \<le> of_int n \<Longrightarrow> rne x \<le> n"
  using rne_mono [of x "of_int n"] by simp

lemma rne_ge: "of_int n \<le> x \<Longrightarrow> n \<le> rne x"
  using rne_mono [of "of_int n" x] by simp

subsection \<open>The binary exponent of a positive rational\<close>

definition expo :: "rat \<Rightarrow> int" where
  "expo q = (let (n, d) = quotient_of q; k = bitlen n - bitlen d in
     if 2 powi k \<le> q then k else k - 1)"

lemma bitlen_powi: "0 < n \<Longrightarrow> 2 powi (bitlen n - 1) \<le> (of_int n :: rat) \<and> of_int n < (2 powi bitlen n :: rat)"
proof -
  assume n: "0 < n"
  then have b: "2 ^ nat (bitlen n - 1) \<le> n" "n < 2 ^ nat (bitlen n)" "0 < bitlen n"
    using bitlen_bounds [of n] bitlen_nonneg [of n] bitlen_eq_zero_iff [of n] by auto
  have "(2 ^ nat (bitlen n - 1) :: rat) \<le> of_int n" "(of_int n :: rat) < 2 ^ nat (bitlen n)"
    using b(1,2) by (metis of_int_le_iff of_int_numeral of_int_power)
      (metis b(2) of_int_less_iff of_int_numeral of_int_power)
  with b(3) show ?thesis by (simp add: power_int_def)
qed

lemma expo_bounds:
  assumes q: "0 < q"
  shows "2 powi expo q \<le> q" "q < 2 powi (expo q + 1)"
proof -
  obtain n d where nd: "quotient_of q = (n, d)" by (cases "quotient_of q")
  have d: "0 < d" using quotient_of_denom_pos [OF nd] .
  have qe: "q = of_int n / of_int d" using quotient_of_div [OF nd] .
  have n: "0 < n" using q d by (simp add: qe zero_less_divide_iff)
  let ?k = "bitlen n - bitlen d"
  note bn = bitlen_powi [OF n] and bd = bitlen_powi [OF d]
  have dp: "(0::rat) < of_int d" using d by simp
  have "(2::rat) powi (?k - 1) * of_int d \<le> 2 powi (?k - 1) * 2 powi bitlen d"
    using bd by (intro mult_left_mono) auto
  also have "\<dots> = 2 powi (bitlen n - 1)"
    by (simp add: power_int_add [symmetric])
  also have "\<dots> \<le> of_int n" using bn by simp
  finally have lo: "2 powi (?k - 1) \<le> q" using dp by (simp add: qe pos_le_divide_eq)
  have "(of_int n :: rat) < 2 powi bitlen n" using bn by simp
  also have "\<dots> = 2 powi (?k + 1) * 2 powi (bitlen d - 1)"
    by (simp add: power_int_add [symmetric])
  also have "\<dots> \<le> 2 powi (?k + 1) * of_int d"
    using bd by (intro mult_left_mono) auto
  finally have hi: "q < 2 powi (?k + 1)" using dp by (simp add: qe pos_divide_less_eq)
  show "2 powi expo q \<le> q" "q < 2 powi (expo q + 1)"
    using lo hi by (auto simp: expo_def nd Let_def)
qed

lemma powi_less_D: "(2::rat) powi a < 2 powi b \<Longrightarrow> a < b"
  by (metis power_int_increasing one_le_numeral not_le)

lemma expo_mono:
  assumes "0 < x" "x \<le> y"
  shows "expo x \<le> expo y"
proof -
  have "2 powi expo x < (2::rat) powi (expo y + 1)"
    using expo_bounds(1) [of x] expo_bounds(2) [of y] assms by linarith
  from powi_less_D [OF this] show ?thesis by simp
qed

subsection \<open>Rounding to a double\<close>

definition fl_pos :: "rat \<Rightarrow> rat" where
  "fl_pos q = (let e = expo q - 52 in of_int (rne (q / 2 powi e)) * 2 powi e)"

definition fl :: "rat \<Rightarrow> rat" where
  "fl q = (if q = 0 then 0 else if q < 0 then - fl_pos (- q) else fl_pos q)"

lemma fl_0 [simp]: "fl 0 = 0"
  by (simp add: fl_def)

lemma fl_uminus: "fl (- q) = - fl q"
  by (simp add: fl_def)

lemma scaled_bounds:
  assumes "0 < q"
  shows "2 ^ 52 \<le> q / 2 powi (expo q - 52)" "q / 2 powi (expo q - 52) < 2 ^ 53"
proof -
  have p: "(0::rat) < 2 powi (expo q - 52)" by simp
  have e1: "(2::rat) ^ 52 * 2 powi (expo q - 52) = 2 powi expo q"
    using power_int_add [of "2::rat" 52 "expo q - 52"] by simp
  have e2: "(2::rat) ^ 53 * 2 powi (expo q - 52) = 2 powi (expo q + 1)"
    using power_int_add [of "2::rat" 53 "expo q - 52"] by (simp add: algebra_simps)
  show "2 ^ 52 \<le> q / 2 powi (expo q - 52)" "q / 2 powi (expo q - 52) < 2 ^ 53"
    using expo_bounds [OF assms] p by (simp_all add: pos_le_divide_eq pos_divide_less_eq e1 e2 del: power_numeral)
qed

lemma fl_pos_bounds:
  assumes "0 < q"
  shows "2 powi expo q \<le> fl_pos q" "fl_pos q \<le> 2 powi (expo q + 1)"
proof -
  let ?e = "expo q - 52" and ?m = "rne (q / 2 powi (expo q - 52))"
  have p: "(0::rat) \<le> 2 powi ?e" by simp
  have lo: "2 ^ 52 \<le> ?m" and hi: "?m \<le> 2 ^ 53"
    using scaled_bounds [OF assms] by (auto intro!: rne_le rne_ge)
  have e1: "(2::rat) ^ 52 * 2 powi ?e = 2 powi expo q"
    using power_int_add [of "2::rat" 52 ?e] by simp
  have e2: "(2::rat) ^ 53 * 2 powi ?e = 2 powi (expo q + 1)"
    using power_int_add [of "2::rat" 53 ?e] by (simp add: algebra_simps)
  have "(of_int (2 ^ 52) :: rat) \<le> of_int ?m" "(of_int ?m :: rat) \<le> of_int (2 ^ 53)"
    using lo hi by (simp_all only: of_int_le_iff)
  then have "(2::rat) ^ 52 \<le> of_int ?m" "of_int ?m \<le> (2::rat) ^ 53"
    by (simp_all only: of_int_power of_int_numeral)
  then have "(2::rat) ^ 52 * 2 powi ?e \<le> of_int ?m * 2 powi ?e" "of_int ?m * 2 powi ?e \<le> (2::rat) ^ 53 * 2 powi ?e"
    using p by (blast intro: mult_right_mono)+
  then show "2 powi expo q \<le> fl_pos q" "fl_pos q \<le> 2 powi (expo q + 1)"
    unfolding e1 e2 fl_pos_def Let_def .
qed

lemma fl_pos_mono:
  assumes x: "0 < x" and xy: "x \<le> y"
  shows "fl_pos x \<le> fl_pos y"
proof (cases "expo x = expo y")
  case True
  have "rne (x / 2 powi (expo y - 52)) \<le> rne (y / 2 powi (expo y - 52))"
    using xy by (intro rne_mono divide_right_mono) auto
  then have "(of_int (rne (x / 2 powi (expo y - 52))) :: rat) \<le> of_int (rne (y / 2 powi (expo y - 52)))"
    by simp
  then show ?thesis
    by (simp add: fl_pos_def Let_def True mult_right_mono)
next
  case False
  with expo_mono [OF x xy] have "expo x + 1 \<le> expo y" by simp
  then have "(2::rat) powi (expo x + 1) \<le> 2 powi expo y" by (intro power_int_increasing) auto
  with fl_pos_bounds(2) [OF x] fl_pos_bounds(1) [of y] x xy show ?thesis by linarith
qed

lemma fl_pos_ge_0: "0 < q \<Longrightarrow> 0 \<le> fl_pos q"
  using fl_pos_bounds(1) [of q] by (metis order_trans zero_le_power_int zero_le_numeral)

lemma fl_mono: "x \<le> y \<Longrightarrow> fl x \<le> fl y"
proof (cases "0 < x")
  case True
  assume "x \<le> y"
  with True show ?thesis by (simp add: fl_def fl_pos_mono)
next
  case False
  assume xy: "x \<le> y"
  show ?thesis
  proof (cases "y < 0")
    case True
    with xy show ?thesis using fl_pos_mono [of "- y" "- x"] by (simp add: fl_def)
  next
    case False': False
    have "fl x \<le> 0" using False fl_pos_ge_0 [of "- x"] by (auto simp: fl_def)
    also have "0 \<le> fl y" using False' fl_pos_ge_0 [of y] by (auto simp: fl_def)
    finally show ?thesis .
  qed
qed

text \<open>The relative error of rounding is at most \<open>2^-53\<close>.\<close>

lemma rne_error: "\<bar>of_int (rne x) - x\<bar> \<le> 1/2"
proof -
  have "of_int \<lfloor>x\<rfloor> \<le> x" "x < of_int \<lfloor>x\<rfloor> + 1" by linarith+
  then show ?thesis by (auto simp: rne_def Let_def)
qed

lemma fl_pos_error:
  assumes q: "0 < q"
  shows "\<bar>fl_pos q - q\<bar> \<le> q / 2 ^ 53"
proof -
  let ?p = "2 powi (expo q - 52) :: rat"
  have p: "0 < ?p" by simp
  have "fl_pos q - q = (of_int (rne (q / ?p)) - q / ?p) * ?p"
    using p by (simp add: fl_pos_def Let_def left_diff_distrib)
  then have "\<bar>fl_pos q - q\<bar> = \<bar>of_int (rne (q / ?p)) - q / ?p\<bar> * ?p"
    using p by (simp add: abs_mult)
  also have "\<dots> \<le> 1/2 * ?p"
    using rne_error [of "q / ?p"] p by (intro mult_right_mono) auto
  also have "\<dots> \<le> q / 2 ^ 53"
    using scaled_bounds(1) [OF q] p by (simp add: pos_le_divide_eq field_simps)
  finally show ?thesis .
qed

text \<open>Integers of magnitude up to \<open>2^53\<close> are doubles, so rounding leaves them alone.\<close>

lemma fl_pos_nat:
  assumes n: "0 < n" and b: "n < 2 ^ 53"
  shows "fl_pos (of_int n) = of_int n"
proof -
  have q: "(0::rat) < of_int n" using n by simp
  have "2 powi expo (of_int n) \<le> (of_int n :: rat)" by (rule expo_bounds(1) [OF q])
  also have "\<dots> < 2 ^ 53" using b by (metis of_int_less_iff of_int_numeral of_int_power)
  also have "\<dots> = 2 powi 53" by simp
  finally have "expo (of_int n :: rat) < 53" by (rule powi_less_D)
  then obtain j :: nat where j: "expo (of_int n :: rat) - 52 = - int j"
    using that [of "nat (52 - expo (of_int n :: rat))"] by simp
  have "(of_int n :: rat) / 2 powi (- int j) = of_int (n * 2 ^ j)"
    by (simp add: power_int_minus field_simps)
  then show ?thesis
    by (simp add: fl_pos_def j del: of_int_mult) (simp add: power_int_minus field_simps)
qed

lemma fl_of_int: "\<bar>n\<bar> < 2 ^ 53 \<Longrightarrow> fl (of_int n) = of_int n"
proof (cases "n = 0")
  case False
  assume b: "\<bar>n\<bar> < 2 ^ 53"
  have "fl_pos (of_int \<bar>n\<bar>) = of_int \<bar>n\<bar>" using False b by (intro fl_pos_nat) auto
  with False show ?thesis by (cases "n < 0") (auto simp: fl_def)
qed simp

lemma fl_numeral_1 [simp]: "fl 1 = 1"
  using fl_of_int [of 1] by simp

lemma fl_0_le: "0 \<le> x \<Longrightarrow> 0 \<le> fl x"
  using fl_mono [of 0 x] by simp

lemma fl_le_1: "x \<le> 1 \<Longrightarrow> fl x \<le> 1"
  using fl_mono [of x 1] by simp

lemma fl_le_int: "x \<le> of_int n \<Longrightarrow> \<bar>n\<bar> < 2 ^ 53 \<Longrightarrow> fl x \<le> of_int n"
  using fl_mono [of x "of_int n"] by (simp add: fl_of_int)

lemma fl_ge_int: "of_int n \<le> x \<Longrightarrow> \<bar>n\<bar> < 2 ^ 53 \<Longrightarrow> of_int n \<le> fl x"
  using fl_mono [of "of_int n" x] by (simp add: fl_of_int)

subsection \<open>Arithmetic of the code\<close>

definition jadd :: "rat \<Rightarrow> rat \<Rightarrow> rat" where "jadd a b = fl (a + b)"
definition jsub :: "rat \<Rightarrow> rat \<Rightarrow> rat" where "jsub a b = fl (a - b)"
definition jmul :: "rat \<Rightarrow> rat \<Rightarrow> rat" where "jmul a b = fl (a * b)"
definition jdiv :: "rat \<Rightarrow> rat \<Rightarrow> rat" where "jdiv a b = fl (a / b)"

lemma jdiv_error:
  assumes "0 \<le> a" "0 < b"
  shows "\<bar>jdiv a b * b - a\<bar> \<le> a / 2 ^ 53"
proof (cases "a = 0")
  case False
  with assms have q: "0 < a / b" by simp
  then have "jdiv a b * b - a = (fl_pos (a / b) - a / b) * b"
    using assms(2) False by (simp add: jdiv_def fl_def left_diff_distrib)
  then have "\<bar>jdiv a b * b - a\<bar> = \<bar>fl_pos (a / b) - a / b\<bar> * b"
    using assms(2) by (simp add: abs_mult)
  also have "\<dots> \<le> (a / b) / 2 ^ 53 * b"
    using fl_pos_error [OF q] assms(2) by (intro mult_right_mono) auto
  finally show ?thesis using assms(2) by simp
qed (simp add: jdiv_def)

text \<open>Math.round: the nearest integer, halves towards plus infinity.\<close>

definition jround :: "rat \<Rightarrow> int" where
  "jround x = \<lfloor>x + 1/2\<rfloor>"

lemma jround_range: "of_int a \<le> x \<Longrightarrow> x \<le> of_int b \<Longrightarrow> a \<le> jround x \<and> jround x \<le> b"
proof -
  assume a: "of_int a \<le> x" and b: "x \<le> of_int b"
  have "x + 1/2 < of_int (b + 1)" using b by simp
  with a show ?thesis unfolding jround_def by (simp add: le_floor_iff floor_le_iff)
qed

text \<open>\<open>toFixed(d)\<close>: the integer \<open>n\<close> nearest to \<open>x * 10^d\<close> (the larger one on a tie), with \<open>d\<close>
  digits after the point and a minus sign when \<open>x\<close> is negative.\<close>

definition to_fixed :: "nat \<Rightarrow> rat \<Rightarrow> jstr" where
  "to_fixed d x =
     (let n = nat \<lfloor>\<bar>x\<bar> * 10 ^ d + 1/2\<rfloor>;
          body = (if d = 0 then nshow n
                  else nshow (n div 10 ^ d) @ 46 # pad_start d 48 (nshow (n mod 10 ^ d)))
      in if x < 0 then 45 # body else body)"

lemma percent_range:
  assumes "0 \<le> a" "a \<le> b" "0 < b"
  shows "0 \<le> jdiv (100 * a) b" "jdiv (100 * a) b \<le> 100"
proof -
  have "100 * a / b \<le> 100" "0 \<le> 100 * a / b" using assms by (simp_all add: divide_le_eq)
  then show "0 \<le> jdiv (100 * a) b" "jdiv (100 * a) b \<le> 100"
    using fl_le_int [of _ 100] by (auto simp: jdiv_def intro: fl_0_le)
qed

end
