(* ===== verification/Browser.thy ===== *)
theory Browser
  imports Js_Number
begin

text \<open>
  The browser around the components: local storage, the current location and the navigations
  asked for, JSON values with the accessors the code uses on them, and the commands (effects) a
  handler issues. A handler is a function from an event and a state to a new state and a list of
  commands; \<open>perform\<close> interprets the commands that act on the browser, and the answer to a
  \<open>Send\<close> comes back later as an event that carries the command's tag; so does the end of a program
  run in the shell of the desktop application (\<open>Exec\<close>). Local storage is taken to be
  available, so the \<open>try\<close> blocks around it do not matter.
\<close>

subsection \<open>JSON\<close>

datatype json =
    JUndef
  | JNull
  | JBool bool
  | JNum rat
  | JStr jstr
  | JArr "json list"
  | JObj "(jstr \<times> json) list"

text \<open>\<open>r?.k\<close>: undefined unless \<open>r\<close> is an object with that key (a repeated key keeps its last value).\<close>

fun jget :: "jstr \<Rightarrow> json \<Rightarrow> json" where
  "jget k (JObj kvs) = (case map_of (rev kvs) k of Some v \<Rightarrow> v | None \<Rightarrow> JUndef)"
| "jget k _ = JUndef"

fun truthy :: "json \<Rightarrow> bool" where
  "truthy JUndef = False"
| "truthy JNull = False"
| "truthy (JBool b) = b"
| "truthy (JNum x) = (x \<noteq> 0)"
| "truthy (JStr s) = (s \<noteq> [])"
| "truthy (JArr _) = True"
| "truthy (JObj _) = True"

lemma jget_empty [simp]: "jget k (JObj []) = JUndef"
  by simp

text \<open>The text of a message field: \<open>m || d\<close> where \<open>m\<close> is a string or missing.\<close>

fun jtext_or :: "jstr \<Rightarrow> json \<Rightarrow> jstr" where
  "jtext_or d (JStr s) = (if s = [] then d else s)"
| "jtext_or d _ = d"

lemma jtext_or_nonempty: "d \<noteq> [] \<Longrightarrow> jtext_or d j \<noteq> []"
  by (cases j) auto

fun jstr_of :: "json \<Rightarrow> jstr option" where
  "jstr_of (JStr s) = Some s"
| "jstr_of _ = None"

lemma jstr_of_Some [simp]: "jstr_of j = Some s \<longleftrightarrow> j = JStr s"
  by (cases j) auto

subsection \<open>Requests, answers, commands\<close>

datatype http_method = GET | POST | DELETE

datatype 'r outcome = Resolved 'r | Rejected jstr

datatype tkind = Success | Error | Info

datatype 'k cmd =
    Send http_method jstr "json option" 'k
  | SetItem jstr jstr
  | DelItem jstr
  | GoTo jstr
  | ReplaceTo jstr
  | ReloadPage
  | Toast jstr tkind
  | OpenUrl jstr
  | Broadcast string
  | Exec jstr "jstr list" 'k
  | RewriteUrl jstr
  | Alert jstr

datatype navigation = Assigned jstr | Replaced jstr | Reloaded

record browser =
  has_window :: bool
  storage :: "jstr \<rightharpoonup> jstr"
  pathname :: jstr
  search :: jstr
  navs :: "navigation list"

fun perform :: "'k cmd \<Rightarrow> browser \<Rightarrow> browser" where
  "perform (SetItem k v) b = b\<lparr>storage := (storage b)(k \<mapsto> v)\<rparr>"
| "perform (DelItem k) b = b\<lparr>storage := (storage b)(k := None)\<rparr>"
| "perform (GoTo l) b = b\<lparr>navs := navs b @ [Assigned l]\<rparr>"
| "perform (ReplaceTo l) b = b\<lparr>navs := navs b @ [Replaced l]\<rparr>"
| "perform ReloadPage b = b\<lparr>navs := navs b @ [Reloaded]\<rparr>"
| "perform (Send _ _ _ _) b = b"
| "perform (Toast _ _) b = b"
| "perform (OpenUrl _) b = b"
| "perform (Broadcast _) b = b"
| "perform (Exec _ _ _) b = b"
| "perform (RewriteUrl p) b = b\<lparr>pathname := p, search := []\<rparr>"
| "perform (Alert _) b = b"

definition perform_all :: "'k cmd list \<Rightarrow> browser \<Rightarrow> browser" where
  "perform_all cs b = fold perform cs b"

lemma perform_all_simps [simp]:
  "perform_all [] b = b"
  "perform_all (c # cs) b = perform_all cs (perform c b)"
  "perform_all (cs @ ds) b = perform_all ds (perform_all cs b)"
  by (simp_all add: perform_all_def)

lemma perform_frame [frame_simps]:
  "has_window (perform c b) = has_window b"
  by (cases c) simp_all

text \<open>The requests among the commands of a handler.\<close>

fun sends :: "'k cmd list \<Rightarrow> (http_method \<times> jstr \<times> json option \<times> 'k) list" where
  "sends [] = []"
| "sends (Send m p b k # cs) = (m, p, b, k) # sends cs"
| "sends (_ # cs) = sends cs"

lemma sends_append [simp]: "sends (cs @ ds) = sends cs @ sends ds"
  by (induction cs rule: sends.induct) auto

end
