(* ===== verification/Js_View.thy ===== *)
theory Js_View
  imports Js_Number
begin

text \<open>
  What a component renders: a tree of elements. An element keeps its tag, its children and the
  attributes that carry behaviour or data: keys, handlers, values, disabled flags, links, and the
  style properties whose value depends on the state, \<open>StyPct\<close> a percentage (constant inline styles and the paths of the
  decorative icons are left out). A handler is the event it raises, so the events a user can raise
  in a given state are read off the tree; \<open>Comp\<close> is the instance of a component with a state of
  its own, which another theory models. \<open>NoPointer\<close> is the style that takes an element out of the
  reach of the pointer; such an element answers no click (the keyboard is not considered).
\<close>

datatype (dead 'e) attr =
    Key jstr
  | OnClick 'e
  | OnInput "jstr \<Rightarrow> 'e"
  | OnEnter 'e
  | OnHover 'e
  | OnEscape 'e
  | StopClick
  | Disabled bool
  | NoPointer bool
  | Value jstr
  | Placeholder jstr
  | Href jstr
  | Title jstr
  | ClassName jstr
  | Sty string jstr
  | StyPct string rat

datatype (dead 'e) node =
    Txt jstr
  | El string "'e attr list" "'e node list"
  | Comp string

abbreviation dv :: "'e node list \<Rightarrow> 'e node" where "dv cs \<equiv> El ''div'' [] cs"
abbreviation sp :: "'e node list \<Rightarrow> 'e node" where "sp cs \<equiv> El ''span'' [] cs"
abbreviation spt :: "jstr \<Rightarrow> 'e node" where "spt s \<equiv> El ''span'' [] [Txt s]"
abbreviation dvt :: "jstr \<Rightarrow> 'e node" where "dvt s \<equiv> El ''div'' [] [Txt s]"
abbreviation svg :: "'e node" where "svg \<equiv> El ''svg'' [] []"
abbreviation btn_el :: "'e \<Rightarrow> bool \<Rightarrow> 'e node list \<Rightarrow> 'e node" where
  "btn_el e d cs \<equiv> El ''button'' [OnClick e, Disabled d] cs"

abbreviation opt :: "jstr \<Rightarrow> 'e node" where "opt s \<equiv> El ''option'' [] [Txt s]"
abbreviation optv :: "jstr \<Rightarrow> jstr \<Rightarrow> 'e node" where "optv v s \<equiv> El ''option'' [Value v] [Txt s]"
abbreviation sel_el :: "jstr \<Rightarrow> (jstr \<Rightarrow> 'e) \<Rightarrow> 'e node list \<Rightarrow> 'e node" where
  "sel_el v f cs \<equiv> El ''select'' [Value v, OnInput f] cs"
abbreviation inp :: "jstr \<Rightarrow> (jstr \<Rightarrow> 'e) \<Rightarrow> jstr \<Rightarrow> 'e node" where
  "inp v f p \<equiv> El ''input'' [Value v, OnInput f, Placeholder p] []"
abbreviation thx :: "jstr \<Rightarrow> 'e node" where "thx s \<equiv> El ''th'' [] [Txt s]"
abbreviation td :: "'e node list \<Rightarrow> 'e node" where "td cs \<equiv> El ''td'' [] cs"
abbreviation trow :: "jstr \<Rightarrow> 'e node list \<Rightarrow> 'e node" where "trow k cs \<equiv> El ''tr'' [Key k] cs"
abbreviation btn :: "'e \<Rightarrow> 'e node list \<Rightarrow> 'e node" where "btn e cs \<equiv> El ''button'' [OnClick e] cs"

text \<open>\<open>{c && x}\<close> renders \<open>x\<close> when the condition holds and nothing otherwise.\<close>

definition shown :: "bool \<Rightarrow> 'a list \<Rightarrow> 'a list" where
  "shown c xs = (if c then xs else [])"

lemma shown_simps [simp]: "shown True xs = xs" "shown False xs = []" "shown c [] = []"
  by (simp_all add: shown_def)

lemma set_shown [simp]: "set (shown c xs) = (if c then set xs else {})"
  by (simp add: shown_def)

subsection \<open>What a user can do, and read\<close>

definition is_disabled :: "'e attr list \<Rightarrow> bool" where
  "is_disabled as = list_ex (\<lambda>a. case a of Disabled d \<Rightarrow> d | NoPointer d \<Rightarrow> d | _ \<Rightarrow> False) as"

fun attr_clicks :: "'e attr list \<Rightarrow> 'e list" where
  "attr_clicks [] = []"
| "attr_clicks (OnClick e # as) = e # attr_clicks as"
| "attr_clicks (_ # as) = attr_clicks as"

fun attr_inputs :: "'e attr list \<Rightarrow> (jstr \<Rightarrow> 'e) list" where
  "attr_inputs [] = []"
| "attr_inputs (OnInput f # as) = f # attr_inputs as"
| "attr_inputs (_ # as) = attr_inputs as"

fun attr_keys :: "'e attr list \<Rightarrow> 'e list" where
  "attr_keys [] = []"
| "attr_keys (OnEnter e # as) = e # attr_keys as"
| "attr_keys (OnEscape e # as) = e # attr_keys as"
| "attr_keys (_ # as) = attr_keys as"

fun clicks :: "'e node \<Rightarrow> 'e list" where
  "clicks (Txt _) = []"
| "clicks (Comp _) = []"
| "clicks (El t as cs) = (if is_disabled as then [] else attr_clicks as) @ concat (map clicks cs)"

fun inputs :: "'e node \<Rightarrow> (jstr \<Rightarrow> 'e) list" where
  "inputs (Txt _) = []"
| "inputs (Comp _) = []"
| "inputs (El t as cs) = attr_inputs as @ concat (map inputs cs)"

fun keys_of :: "'e node \<Rightarrow> 'e list" where
  "keys_of (Txt _) = []"
| "keys_of (Comp _) = []"
| "keys_of (El t as cs) = attr_keys as @ concat (map keys_of cs)"

fun texts :: "'e node \<Rightarrow> jstr list" where
  "texts (Txt s) = [s]"
| "texts (Comp _) = []"
| "texts (El t as cs) = concat (map texts cs)"

definition all_clicks :: "'e node list \<Rightarrow> 'e list" where
  "all_clicks ns = concat (map clicks ns)"

definition all_texts :: "'e node list \<Rightarrow> jstr list" where
  "all_texts ns = concat (map texts ns)"

lemma is_disabled_simps [simp]:
  "\<not> is_disabled []"
  "is_disabled (Disabled d # as) \<longleftrightarrow> d \<or> is_disabled as"
  "is_disabled (NoPointer d # as) \<longleftrightarrow> d \<or> is_disabled as"
  "is_disabled (Key k # as) \<longleftrightarrow> is_disabled as"
  "is_disabled (OnClick e # as) \<longleftrightarrow> is_disabled as"
  "is_disabled (OnInput f # as) \<longleftrightarrow> is_disabled as"
  "is_disabled (OnEnter e # as) \<longleftrightarrow> is_disabled as"
  "is_disabled (OnHover e # as) \<longleftrightarrow> is_disabled as"
  "is_disabled (OnEscape e # as) \<longleftrightarrow> is_disabled as"
  "is_disabled (StopClick # as) \<longleftrightarrow> is_disabled as"
  "is_disabled (Value v # as) \<longleftrightarrow> is_disabled as"
  "is_disabled (Placeholder v # as) \<longleftrightarrow> is_disabled as"
  "is_disabled (Href v # as) \<longleftrightarrow> is_disabled as"
  "is_disabled (Title v # as) \<longleftrightarrow> is_disabled as"
  "is_disabled (ClassName v # as) \<longleftrightarrow> is_disabled as"
  "is_disabled (Sty p v # as) \<longleftrightarrow> is_disabled as"
  "is_disabled (StyPct p r # as) \<longleftrightarrow> is_disabled as"
  by (simp_all add: is_disabled_def)

lemma all_clicks_simps [simp]:
  "all_clicks [] = []"
  "all_clicks (n # ns) = clicks n @ all_clicks ns"
  "all_clicks (ns @ ms) = all_clicks ns @ all_clicks ms"
  by (simp_all add: all_clicks_def)

lemma all_texts_simps [simp]:
  "all_texts [] = []"
  "all_texts (n # ns) = texts n @ all_texts ns"
  "all_texts (ns @ ms) = all_texts ns @ all_texts ms"
  by (simp_all add: all_texts_def)

lemma clicks_El [simp]:
  "clicks (El t as cs) = (if is_disabled as then [] else attr_clicks as) @ all_clicks cs"
  by (simp add: all_clicks_def)

lemma texts_El [simp]: "texts (El t as cs) = all_texts cs"
  by (simp add: all_texts_def)

declare clicks.simps(3) [simp del] texts.simps(3) [simp del]

lemma all_clicks_shown [simp]: "all_clicks (shown c ns) = (if c then all_clicks ns else [])"
  by (simp add: shown_def)

lemma all_texts_shown [simp]: "all_texts (shown c ns) = (if c then all_texts ns else [])"
  by (simp add: shown_def)

lemma set_all_clicks_map: "set (all_clicks (map f xs)) = (\<Union>x \<in> set xs. set (clicks (f x)))"
  by (induction xs) auto

lemma set_all_texts_map: "set (all_texts (map f xs)) = (\<Union>x \<in> set xs. set (texts (f x)))"
  by (induction xs) auto

lemma all_clicks_map_Nil: "(\<And>x. x \<in> set xs \<Longrightarrow> clicks (f x) = []) \<Longrightarrow> all_clicks (map f xs) = []"
  by (induction xs) auto

end
