(* ===== verification/Toasts.thy ===== *)
theory Toasts
  imports Browser Js_View
begin

text \<open>
  The toast queue of app/ui.tsx: the sequence counter of the module, the window event, and the
  container that shows an item until its 3500 ms timer fires. A toast raised while no container is
  mounted uses up its number and is not shown.
\<close>

record toast_item =
  t_id :: nat
  t_msg :: jstr
  t_kind :: tkind

record toasts =
  seq :: nat
  mounted :: bool
  items :: "toast_item list"
  timers :: "nat list"

datatype toast_event =
    Raise jstr tkind
  | Timer nat
  | Mount_container

definition toasts_start :: toasts where
  "toasts_start = \<lparr>seq = 0, mounted = False, items = [], timers = []\<rparr>"

fun toast_step :: "toast_event \<Rightarrow> toasts \<Rightarrow> toasts" where
  "toast_step (Raise m k) s =
     (let i = Suc (seq s) in
      if mounted s then
        s\<lparr>seq := i, items := items s @ [\<lparr>t_id = i, t_msg = m, t_kind = k\<rparr>], timers := timers s @ [i]\<rparr>
      else s\<lparr>seq := i\<rparr>)"
| "toast_step (Timer i) s =
     (if i \<in> set (timers s) then
        s\<lparr>items := filter (\<lambda>x. t_id x \<noteq> i) (items s), timers := removeAll i (timers s)\<rparr>
      else s)"
| "toast_step Mount_container s = s\<lparr>mounted := True\<rparr>"

fun toast_color :: "tkind \<Rightarrow> jstr \<times> jstr" where
  "toast_color Success = ((u ''var(--green)''), (u ''var(--green-tint)''))"
| "toast_color Error = ((u ''var(--red)''), (u ''var(--red-tint)''))"
| "toast_color Info = ((u ''var(--accent)''), (u ''var(--accent-tint)''))"

fun toast_icon :: "tkind \<Rightarrow> jstr" where
  "toast_icon Success = (ux ''{2713}'')"
| "toast_icon Error = (ux ''{2715}'')"
| "toast_icon Info = (u ''i'')"

definition toasts_view :: "toasts \<Rightarrow> 'e node list" where
  "toasts_view s =
     (if items s = [] then []
      else [dv (map (\<lambda>t. El ''div'' [Key (nshow (t_id t)), Sty ''border-color'' (snd (toast_color (t_kind t)))]
              [El ''span'' [Sty ''background'' (snd (toast_color (t_kind t))), Sty ''color'' (fst (toast_color (t_kind t)))]
                 [Txt (toast_icon (t_kind t))],
               spt (t_msg t)]) (items s))])"

text \<open>
  The queue is sound: numbers are distinct and were handed out, and exactly the shown items have a
  pending timer, so nothing stays on screen for ever.
\<close>

definition toasts_inv :: "toasts \<Rightarrow> bool" where
  "toasts_inv s = (distinct (map t_id (items s)) \<and> (\<forall>x \<in> set (items s). t_id x \<le> seq s)
     \<and> timers s = map t_id (items s))"

lemma map_id_filter: "map t_id (filter (\<lambda>x. t_id x \<noteq> i) xs) = removeAll i (map t_id xs)"
  by (induction xs) auto

lemma toasts_inv_step: "toasts_inv s \<Longrightarrow> toasts_inv (toast_step e s)"
  by (cases e) (fastforce simp: toasts_inv_def Let_def map_id_filter distinct_removeAll)+

interpretation toast_queue: stepper toasts_start toast_step toasts_inv
  by unfold_locales (simp_all add: toasts_inv_step, simp add: toasts_inv_def toasts_start_def)

lemma timers_drain:
  "toasts_inv s \<Longrightarrow> items (run toast_step (map Timer (timers s)) s) = []"
proof (induction "items s" arbitrary: s)
  case Nil
  then show ?case by (simp add: toasts_inv_def)
next
  case (Cons x xs)
  let ?s1 = "toast_step (Timer (t_id x)) s"
  have it: "items s = x # xs" using Cons.hyps(2) by simp
  then have t: "timers s = t_id x # map t_id xs" and d: "t_id x \<notin> set (map t_id xs)"
    using Cons.prems by (simp_all add: toasts_inv_def)
  have f: "filter (\<lambda>y. t_id y \<noteq> t_id x) xs = xs" using d by (intro filter_True) (metis image_eqI set_map)
  have i1: "items ?s1 = xs" using t f by (simp add: it)
  have t1: "timers ?s1 = map t_id xs" using t d by simp
  have "items (run toast_step (map Timer (timers ?s1)) ?s1) = []"
    by (rule Cons.hyps(1) [OF i1 [symmetric] toasts_inv_step [OF Cons.prems]])
  with t t1 show ?case by simp
qed

end
