(* ===== verification/Api_Client.thy ===== *)
theory Api_Client
  imports Browser
begin

text \<open>
  The API client of app/ui.tsx (session token, request headers, tolerant parsing of answers,
  the three verbs). \<open>api_base\<close> takes the build-time NEXT_PUBLIC_API_BASE. A response body is its
  text as JSON.parse sees it: empty, a JSON value, or text that does not parse.
\<close>

subsection \<open>Session token\<close>

definition token_key :: jstr where "token_key = (u ''apifor_token'')"
definition wsp_key :: jstr where "wsp_key = (u ''apifor_wsp'')"

definition getToken :: "browser \<Rightarrow> jstr option" where
  "getToken b = (if has_window b then storage b token_key else None)"

text \<open>\<open>None\<close> is null; an empty token removes the entry too.\<close>

definition setToken :: "jstr option \<Rightarrow> browser \<Rightarrow> browser" where
  "setToken tk b =
     (if \<not> has_window b then b
      else case tk of
        Some t \<Rightarrow> (if t \<noteq> [] then perform (SetItem token_key t :: unit cmd) b else perform (DelItem token_key :: unit cmd) b)
      | None \<Rightarrow> perform (DelItem token_key :: unit cmd) b)"

definition authHeaders :: "browser \<Rightarrow> (jstr \<times> jstr) list" where
  "authHeaders b =
     (case getToken b of
        Some t \<Rightarrow> (if t \<noteq> [] then [(u ''Authorization'', (u ''Bearer '') @ t)] else [])
      | None \<Rightarrow> [])
     @ (case (if has_window b then storage b wsp_key else None) of
          Some w \<Rightarrow> (if w \<noteq> [] then [(u ''X-Workspace-ID'', w)] else [])
        | None \<Rightarrow> [])"

subsection \<open>Requests\<close>

record request =
  r_method :: http_method
  r_url :: jstr
  r_headers :: "(jstr \<times> jstr) list"
  r_body :: "json option"

definition api_base :: "jstr option \<Rightarrow> jstr" where
  "api_base env = (case env of Some s \<Rightarrow> (if s \<noteq> [] then s else (u ''/api'')) | None \<Rightarrow> (u ''/api''))"

definition API :: "jstr option \<Rightarrow> jstr \<Rightarrow> jstr" where
  "API env p = api_base env @ p"

definition sseURL :: "jstr option \<Rightarrow> jstr \<Rightarrow> jstr" where
  "sseURL env p = api_base env @ p"

text \<open>apiGet, apiPost and apiDelete: the request they send.\<close>

fun api_request :: "jstr option \<Rightarrow> browser \<Rightarrow> http_method \<Rightarrow> jstr \<Rightarrow> json option \<Rightarrow> request" where
  "api_request env b GET p _ =
     \<lparr>r_method = GET, r_url = API env p, r_headers = authHeaders b, r_body = None\<rparr>"
| "api_request env b POST p body =
     \<lparr>r_method = POST, r_url = API env p,
      r_headers = (u ''content-type'', (u ''application/json'')) # authHeaders b, r_body = body\<rparr>"
| "api_request env b DELETE p _ =
     \<lparr>r_method = DELETE, r_url = API env p, r_headers = authHeaders b, r_body = None\<rparr>"

subsection \<open>Answers\<close>

datatype body = Empty_body | Json_body json | Bad_body

record response =
  status :: nat
  body :: body

datatype fetched = Network_error jstr | Answered response

definition safeJson :: "response \<Rightarrow> browser \<Rightarrow> browser \<times> json" where
  "safeJson r b =
     (if status r = 401 then
        (let b1 = setToken None b in
         (if has_window b1 \<and> \<not> starts_with (pathname b1) (u ''/login'')
          then perform (ReplaceTo (u ''/login'') :: unit cmd) b1 else b1, JObj []))
      else (b, case body r of Empty_body \<Rightarrow> JObj [] | Json_body j \<Rightarrow> j | Bad_body \<Rightarrow> JObj []))"

text \<open>The settled promise of an api call: fetch rejects on a network error, safeJson never does.\<close>

definition api_settle :: "fetched \<Rightarrow> browser \<Rightarrow> browser \<times> json outcome" where
  "api_settle f b =
     (case f of
        Network_error m \<Rightarrow> (b, Rejected m)
      | Answered r \<Rightarrow> (let (b1, j) = safeJson r b in (b1, Resolved j)))"

subsection \<open>Facts\<close>

lemma keys_distinct [simp]: "token_key \<noteq> wsp_key" "wsp_key \<noteq> token_key"
  by (simp_all add: token_key_def wsp_key_def)

lemma getToken_setToken:
  "has_window b \<Longrightarrow> getToken (setToken tk b) = (case tk of Some t \<Rightarrow> if t = [] then None else Some t | None \<Rightarrow> None)"
  by (auto simp: getToken_def setToken_def split: option.splits)

lemma setToken_storage:
  "k \<noteq> token_key \<Longrightarrow> storage (setToken tk b) k = storage b k"
  by (auto simp: setToken_def split: option.splits)

lemma setToken_frame [frame_simps]:
  "has_window (setToken tk b) = has_window b" "pathname (setToken tk b) = pathname b"
  "search (setToken tk b) = search b" "navs (setToken tk b) = navs b"
  by (auto simp: setToken_def split: option.splits)

lemma safeJson_other: "status r \<noteq> 401 \<Longrightarrow> fst (safeJson r b) = b"
  by (simp add: safeJson_def)

lemma api_settle_401:
  "status r = 401 \<Longrightarrow> has_window b \<Longrightarrow> getToken (fst (api_settle (Answered r) b)) = None"
  by (auto simp: api_settle_def safeJson_def Let_def getToken_def setToken_def)

lemma authorization_header:
  "(u ''Authorization'', v) \<in> set (authHeaders b) \<longleftrightarrow>
     (\<exists>t. getToken b = Some t \<and> t \<noteq> [] \<and> v = (u ''Bearer '') @ t)"
  by (auto simp: authHeaders_def split: option.splits if_splits)

lemma workspace_header:
  "(u ''X-Workspace-ID'', v) \<in> set (authHeaders b) \<longleftrightarrow> has_window b \<and> storage b wsp_key = Some v \<and> v \<noteq> []"
  by (auto simp: authHeaders_def split: option.splits if_splits)

end
