(* ===== verification/I18n.thy ===== *)
theory I18n
  imports Browser
begin

text \<open>
  Theme and language of app/ui.tsx: the shell dictionaries, the dictionary of page content, the
  translation functions, and the hooks that keep the choice in local storage. A language is the
  string in storage, so any string can occur; only the tables' own keys are entries.
\<close>

subsection \<open>Dictionaries\<close>

definition STR_pt :: "(jstr \<times> jstr) list" where
  "STR_pt = [
    ((u ''search''), (ux ''Buscar{2026}'')), ((u ''op''), (ux ''Opera{e7}{e3}o'')), ((u ''sys''), (u ''Conhecimento & sistema'')),
    ((u ''acct''), (ux ''Conta & cobran{e7}a'')), ((u ''wsp''), (u ''workspace'')), ((u ''pool''), (u ''Pool ok'')),
    ((u ''newWsp''), (u ''Novo workspace'')), ((u ''noRes''), (u ''Nenhum resultado'')), ((u ''cmdHint''), (u ''navegar''))]"

definition STR_en :: "(jstr \<times> jstr) list" where
  "STR_en = [
    ((u ''search''), (ux ''Search{2026}'')), ((u ''op''), (u ''Operations'')), ((u ''sys''), (u ''Knowledge & system'')),
    ((u ''acct''), (u ''Account & billing'')), ((u ''wsp''), (u ''workspace'')), ((u ''pool''), (u ''Pool ok'')),
    ((u ''newWsp''), (u ''New workspace'')), ((u ''noRes''), (u ''No results'')), ((u ''cmdHint''), (u ''navigate''))]"

definition EN_LABEL :: "(jstr \<times> jstr) list" where
  "EN_LABEL = [
    ((u ''/''), (u ''Dashboard'')), ((u ''/live''), (u ''Live'')), ((u ''/queue''), (u ''Queue'')), ((u ''/tasks''), (u ''Tasks'')),
    ((u ''/prs''), (u ''Pull Requests'')), ((u ''/interventions''), (u ''Intervention'')), ((u ''/ci''), (u ''CI'')), ((u ''/qa''), (u ''QA'')),
    ((u ''/routines''), (u ''Routines'')), ((u ''/telemetry''), (u ''Telemetry'')), ((u ''/knowledge''), (u ''Knowledge'')),
    ((u ''/logs''), (u ''Logs'')), ((u ''/config''), (u ''Settings'')), ((u ''/audit''), (u ''Audit'')), ((u ''/org''), (u ''Organization'')),
    ((u ''/usage''), (u ''Usage'')), ((u ''/invoices''), (u ''Invoices'')), ((u ''/pricing''), (u ''Plans'')), ((u ''/web''), (u ''Web'')),
    ((u ''/cloud''), (u ''Cloud'')), ((u ''/conta''), (u ''Account'')), ((u ''/ajuda''), (u ''Help''))]"

definition TR :: "(jstr \<times> jstr) list" where
  "TR = [
    ((u ''Fila''), (u ''Queue'')), ((u ''Tarefas''), (u ''Tasks'')), ((ux ''Interven{e7}{e3}o''), (u ''Intervention'')),
    ((u ''Rotinas''), (u ''Routines'')), ((u ''Telemetria''), (u ''Telemetry'')), ((u ''Conhecimento''), (u ''Knowledge'')),
    ((ux ''Configura{e7}{e3}o''), (u ''Settings'')), ((u ''Auditoria''), (u ''Audit'')), ((ux ''Organiza{e7}{e3}o''), (u ''Organization'')),
    ((u ''Uso''), (u ''Usage'')), ((u ''Faturas''), (u ''Invoices'')), ((u ''Planos''), (u ''Plans'')), ((u ''Conta''), (u ''Account'')),
    ((u ''Ajuda''), (u ''Help'')), ((ux ''Notifica{e7}{f5}es''), (u ''Notifications'')),
    ((u ''Bem-vindo ao apifor.dev''), (u ''Welcome to apifor.dev'')), ((u ''Web & API''), (u ''Web & API'')),
    ((ux ''Opera{e7}{e3}o''), (u ''Operations'')), ((u ''Sistema''), (u ''System'')),
    ((u ''Conhecimento & sistema''), (u ''Knowledge & system'')), ((ux ''Conta & cobran{e7}a''), (u ''Account & billing'')),
    ((u ''Estados das tarefas e reprocessamento.''), (u ''Task states and reprocessing.'')),
    ((u ''Crie e acompanhe as tarefas dos workers.''), (u ''Create and track worker tasks.'')),
    ((ux ''Status de revis{e3}o e CI, com links pro GitHub.''), (u ''Review and CI status, with GitHub links.'')),
    ((ux ''Integra{e7}{e3}o cont{ed}nua {2014} execu{e7}{f5}es de build/teste.''), (ux ''Continuous integration {2014} build/test runs.'')),
    ((ux ''Relat{f3}rios de teste por tarefa.''), (u ''Test reports per task.'')),
    ((ux ''Gate de revis{e3}o humana {2014} destrava o merge.''), (ux ''Human review gate {2014} unblocks the merge.'')),
    ((u ''Gatilhos agendados e manuais.''), (u ''Scheduled and manual triggers.'')),
    ((ux ''M{e9}tricas agregadas da org.''), (u ''Aggregated org metrics.'')),
    ((u ''Feed do pipeline (steps dos workers) em tempo real.''), (u ''Pipeline feed (worker steps) in real time.'')),
    ((u ''Workers e tarefas em tempo real.''), (u ''Workers and tasks in real time.'')),
    ((ux ''Mem{f3}ria e base de conhecimento.''), (u ''Memory and knowledge base.'')),
    ((ux ''Reposit{f3}rios e segredos.''), (u ''Repositories and secrets.'')),
    ((ux ''Acesso program{e1}tico ao control plane (REST + SSE).''), (u ''Programmatic access to the control plane (REST + SSE).'')),
    ((u ''Workers gerenciados na nuvem (add-on Enterprise).''), (u ''Managed cloud workers (Enterprise add-on).'')),
    ((ux ''Quem fez o qu{ea} {2014} server-side.''), (ux ''Who did what {2014} server-side.'')),
    ((ux ''Sess{e3}o, membros e workspaces.''), (u ''Session, members and workspaces.'')),
    ((u ''Consumo do ciclo atual frente aos limites do plano.''), (u ''Current cycle usage vs plan limits.'')),
    ((u ''Faturas emitidas (webhooks do Stripe).''), (u ''Issued invoices (Stripe webhooks).'')),
    ((u ''Comece no Free, suba quando precisar.''), (u ''Start on Free, upgrade when you need.'')),
    ((ux ''Perfil, sess{e3}o e prefer{ea}ncias.''), (u ''Profile, session and preferences.'')),
    ((u ''Primeiros passos, docs e a fronteira de privacidade.''), (u ''Getting started, docs and the privacy boundary.'')),
    ((ux ''Eventos do c{e9}rebro em tempo real (SSE).''), (u ''Brain events in real time (SSE).'')),
    ((u ''4 passos pra primeira tarefa.''), (u ''4 steps to your first task.'')),
    ((u ''Pull requests''), (u ''Pull requests'')), ((ux ''Execu{e7}{f5}es de CI''), (u ''CI runs'')),
    ((ux ''Relat{f3}rios de QA''), (u ''QA reports'')), ((u ''Estado das tarefas''), (u ''Task state'')), ((u ''Workers''), (u ''Workers'')),
    ((u ''Tarefas em andamento''), (u ''In-progress tasks'')), ((u ''Nova tarefa''), (u ''New task'')),
    ((ux ''Registrar reposit{f3}rio''), (u ''Register repository'')), ((ux ''Reposit{f3}rios''), (u ''Repositories'')),
    ((u ''Segredos''), (u ''Secrets'')), ((u ''Nova rotina''), (u ''New routine'')), ((ux ''Sess{e3}o''), (u ''Session'')),
    ((u ''Membros''), (u ''Members'')), ((u ''Workspaces''), (u ''Workspaces'')), ((ux ''Mem{f3}ria''), (u ''Memory'')),
    ((u ''Base de conhecimento (KB)''), (u ''Knowledge base (KB)'')), ((u ''Assinatura''), (u ''Subscription'')),
    ((u ''Dispositivos''), (u ''Devices'')), ((ux ''Aguardando revis{e3}o humana''), (u ''Awaiting human review'')),
    ((u ''Trilha de auditoria''), (u ''Audit trail'')), ((u ''Perfil''), (u ''Profile'')), ((ux ''Prefer{ea}ncias''), (u ''Preferences'')),
    ((ux ''Come{e7}ar em 4 passos''), (u ''Get started in 4 steps'')), ((ux ''Documenta{e7}{e3}o''), (u ''Documentation'')),
    ((u ''Base da API''), (u ''API base'')), ((u ''Endpoints principais''), (u ''Main endpoints'')),
    ((u ''O que vem no add-on''), (ux ''What{27}s in the add-on'')), ((u ''Workers ao vivo''), (u ''Live workers'')),
    ((u ''Estado do pool''), (u ''Pool state'')), ((u ''Cloud workers''), (u ''Cloud workers'')),
    ((u ''Workers ativos''), (u ''Active workers'')), ((u ''PRs abertos''), (u ''Open PRs'')), ((ux ''Conclu{ed}das''), (u ''Completed'')),
    ((ux ''Aprova{e7}{e3}o IA''), (u ''AI approval'')), ((u ''Total''), (u ''Total'')), ((u ''Abertos''), (u ''Open'')),
    ((u ''CI verde''), (u ''CI green'')), ((u ''Merged''), (u ''Merged'')), ((ux ''Execu{e7}{f5}es''), (u ''Runs'')), ((u ''Falhas''), (u ''Failures'')),
    ((u ''Verde''), (u ''Green'')), ((ux ''Aprova{e7}{e3}o''), (u ''Approval'')), ((ux ''Relat{f3}rios''), (u ''Reports'')),
    ((u ''Aprovados''), (u ''Approved'')), ((u ''Ativas''), (u ''Active'')), ((u ''Tokens''), (u ''Tokens'')),
    ((u ''Worker-hours''), (u ''Worker-hours'')), ((ux ''Workers simult{e2}neos''), (u ''Concurrent workers'')),
    ((u ''Worker-hours (semana)''), (u ''Worker-hours (week)'')), ((u ''Plano''), (u ''Plan'')),
    ((u ''pull requests''), (u ''pull requests'')), ((ux ''em revis{e3}o/merge''), (u ''review/merge'')),
    ((ux ''revis{e3}o/merge''), (u ''review/merge'')), ((u ''testes passaram''), (u ''tests passed'')),
    ((ux ''conclu{ed}dos''), (u ''completed'')), ((u ''no pool''), (u ''in pool'')), ((u ''aguardando''), (u ''waiting'')),
    ((u ''vermelhas''), (u ''red'')), ((u ''passaram''), (u ''passed'')), ((u ''status passed''), (u ''status passed'')),
    ((u ''status failed''), (u ''status failed'')), ((ux ''conclu{ed}das''), (u ''completed'')), ((u ''gate vermelho''), (u ''red gate'')),
    ((u ''em andamento''), (u ''running'')), ((u ''abertos + merged''), (u ''open + merged'')),
    ((u ''relay/coder/review''), (u ''relay/coder/review'')), ((u ''na semana''), (u ''this week'')),
    ((ux ''renova{e7}{e3}o por heartbeat''), (u ''heartbeat renewal'')), ((u ''total''), (u ''total'')), ((u ''Todos''), (u ''All'')),
    ((u ''Na fila''), (u ''In queue'')), ((ux ''Em execu{e7}{e3}o''), (u ''Running'')), ((u ''Encerradas''), (u ''Closed'')),
    ((ux ''Em revis{e3}o''), (u ''In review'')), ((u ''CI falhou''), (u ''CI failed'')), ((u ''Falhou''), (u ''Failed'')), ((u ''OK''), (u ''OK'')),
    ((u ''Tarefa''), (u ''Task'')), ((ux ''T{ed}tulo''), (u ''Title'')), ((u ''Estado''), (u ''State'')), ((u ''Branch''), (u ''Branch'')),
    ((u ''Status''), (u ''Status'')), ((u ''Nome''), (u ''Name'')), ((u ''Tipo''), (u ''Type'')), ((u ''Data''), (u ''Date'')),
    ((u ''Provider''), (u ''Provider'')), ((ux ''A{e7}{f5}es''), (u ''Actions'')), ((u ''Quando''), (u ''When'')), ((u ''Ator''), (u ''Actor'')),
    ((ux ''A{e7}{e3}o''), (u ''Action'')), ((u ''Alvo''), (u ''Target'')), ((u ''Humano''), (u ''Human'')), ((ux ''Conclu{ed}do''), (u ''Finished'')),
    ((u ''Testes''), (u ''Tests'')), ((ux ''Execu{e7}{e3}o''), (u ''Run'')), ((u ''Local''), (u ''Location'')), ((u ''Fingerprint''), (u ''Fingerprint'')),
    ((u ''Clone URL''), (u ''Clone URL'')), ((u ''Escopo''), (u ''Scope'')), ((ux ''Instru{e7}{e3}o''), (u ''Instruction'')),
    ((u ''Origem''), (u ''Source'')), ((u ''Categoria''), (u ''Category'')), ((u ''Indexado''), (u ''Indexed'')), ((u ''Email''), (u ''Email'')),
    ((u ''Papel''), (u ''Role'')), ((ux ''Visto por {fa}ltimo''), (u ''Last seen'')), ((u ''Device''), (u ''Device'')),
    ((u ''Trigger''), (u ''Trigger'')), ((ux ''{da}ltimo''), (u ''Last'')), ((u ''Detalhe''), (u ''Detail'')), ((u ''PR''), (u ''PR'')),
    ((u ''Adicionar''), (u ''Add'')), ((u ''Registrar''), (u ''Register'')), ((u ''Criar''), (u ''Create'')),
    ((u ''Criar rotina''), (u ''Create routine'')), ((ux ''Criar {2192} planejar''), (ux ''Create {2192} plan'')), ((u ''Entrar''), (u ''Sign in'')),
    ((u ''remover''), (u ''remove'')), ((u ''excluir''), (u ''delete'')), ((u ''exportar CSV''), (u ''export CSV'')),
    ((u ''marcar todas como lidas''), (u ''mark all as read'')), ((u ''ver plano''), (u ''view plan'')), ((u ''ocultar''), (u ''hide'')),
    ((u ''abrir''), (u ''open'')), ((u ''aprovar''), (u ''approve'')), ((u ''reprovar''), (u ''reject'')), ((u ''run''), (u ''run'')),
    ((u ''pausar''), (u ''pause'')), ((u ''ativar''), (u ''enable'')), ((u ''conectar''), (u ''connect'')), ((u ''sair''), (u ''sign out'')),
    ((u ''registrar''), (u ''register'')), ((u ''fazer login''), (u ''sign in'')),
    ((u ''Assinar Pro (Stripe)''), (u ''Subscribe Pro (Stripe)'')), ((ux ''Buscar tarefa{2026}''), (ux ''Search task{2026}'')),
    ((ux ''Buscar PR{2026}''), (ux ''Search PR{2026}'')), ((ux ''Buscar execu{e7}{e3}o{2026}''), (ux ''Search run{2026}'')),
    ((ux ''Buscar log{2026}''), (ux ''Search log{2026}'')), ((u ''nome''), (u ''name'')), ((ux ''t{ed}tulo''), (u ''title'')), ((u ''senha''), (u ''password'')),
    ((u ''branch''), (u ''branch'')), ((u ''nenhuma tarefa''), (u ''no tasks'')), ((u ''nenhum PR ainda''), (u ''no PRs yet'')),
    ((u ''fila vazia''), (u ''empty queue'')), ((ux ''nenhuma execu{e7}{e3}o de CI''), (u ''no CI runs'')),
    ((ux ''nenhum relat{f3}rio de QA''), (u ''no QA reports'')), ((u ''nenhum worker ligado''), (u ''no worker connected'')),
    ((u ''nenhuma rotina''), (u ''no routines'')), ((ux ''nenhum reposit{f3}rio''), (u ''no repositories'')),
    ((u ''nenhum segredo registrado''), (u ''no secret registered'')), ((ux ''nenhuma mem{f3}ria''), (u ''no memory'')),
    ((u ''nenhum documento de KB''), (u ''no KB document'')),
    ((ux ''nenhum membro (fa{e7}a login)''), (u ''no members (sign in)'')), ((u ''nenhum workspace''), (u ''no workspace'')),
    ((ux ''nenhuma interven{e7}{e3}o pendente''), (u ''no pending intervention'')),
    ((u ''nenhum evento de auditoria''), (u ''no audit event'')), ((ux ''nenhuma notifica{e7}{e3}o''), (u ''no notification'')),
    ((u ''nenhum device''), (u ''no device'')), ((u ''nenhuma fatura''), (u ''no invoice'')),
    ((u ''nenhum log ainda''), (u ''no logs yet''))]"

definition pt :: jstr where "pt = (u ''pt'')"
definition en :: jstr where "en = (u ''en'')"

definition STR_table :: "jstr \<Rightarrow> (jstr \<times> jstr) list option" where
  "STR_table lang = (if lang = pt then Some STR_pt else if lang = en then Some STR_en else None)"

subsection \<open>Translation\<close>

text \<open>
  \<open>(STR[lang] || STR.pt)[k] || STR.pt[k] || k\<close>; a missing or empty entry falls through.
\<close>

definition or_else :: "jstr option \<Rightarrow> jstr \<Rightarrow> jstr" where
  "or_else x d = (case x of Some s \<Rightarrow> (if s = [] then d else s) | None \<Rightarrow> d)"

definition t_shell :: "jstr \<Rightarrow> jstr \<Rightarrow> jstr" where
  "t_shell lang k =
     or_else (map_of (case STR_table lang of Some m \<Rightarrow> m | None \<Rightarrow> STR_pt) k) (or_else (map_of STR_pt k) k)"

definition tr :: "jstr \<Rightarrow> jstr \<Rightarrow> jstr" where
  "tr lang s = (if lang = en \<and> s \<noteq> [] then or_else (map_of TR s) s else s)"

text \<open>useT: the given English text, else the dictionary's, else the Portuguese text.\<close>

definition useT :: "jstr \<Rightarrow> jstr \<Rightarrow> jstr option \<Rightarrow> jstr" where
  "useT lang p e =
     (if lang = en then (case e of Some s \<Rightarrow> s | None \<Rightarrow> (case map_of TR p of Some s \<Rightarrow> s | None \<Rightarrow> p))
      else p)"

definition navLabel :: "jstr \<Rightarrow> jstr \<Rightarrow> jstr \<Rightarrow> jstr" where
  "navLabel lang href p = (if lang = en then or_else (map_of EN_LABEL href) p else p)"

subsection \<open>Language hook instances\<close>

text \<open>
  Every component that calls useLang has its own state; \<open>langs\<close> lists the mounted instances.
  Mounting reads storage in an effect; setLang stores the choice, sets its own instance and
  raises the window event on which every instance reads storage again.
\<close>

record lang_sys =
  lstore :: "jstr option"
  langs :: "jstr list"

definition lang_read :: "lang_sys \<Rightarrow> jstr" where
  "lang_read s = or_else (lstore s) pt"

datatype lang_event = Mount | Unmount nat | SetLang nat jstr

definition on_lang_event :: "lang_sys \<Rightarrow> lang_sys" where
  "on_lang_event s = s\<lparr>langs := map (\<lambda>_. lang_read s) (langs s)\<rparr>"

fun lang_step :: "lang_event \<Rightarrow> lang_sys \<Rightarrow> lang_sys" where
  "lang_step Mount s = s\<lparr>langs := langs s @ [lang_read s]\<rparr>"
| "lang_step (Unmount i) s = s\<lparr>langs := take i (langs s) @ drop (Suc i) (langs s)\<rparr>"
| "lang_step (SetLang i l) s =
     on_lang_event (s\<lparr>lstore := Some l, langs := (langs s)[i := l]\<rparr>)"

definition langs_agree :: "lang_sys \<Rightarrow> bool" where
  "langs_agree s = (\<forall>l \<in> set (langs s). l = lang_read s)"

lemma lang_read_update [simp]: "lang_read (s\<lparr>langs := x\<rparr>) = lang_read s"
  by (simp add: lang_read_def)

interpretation lang_hooks: stepper "\<lparr>lstore = st, langs = []\<rparr>" lang_step langs_agree
  for st
proof
  show "langs_agree \<lparr>lstore = st, langs = []\<rparr>" by (simp add: langs_agree_def)
  show "langs_agree (lang_step e s)" if "langs_agree s" for e s
    using that
    by (cases e) (auto simp: langs_agree_def on_lang_event_def dest: in_set_takeD in_set_dropD)
qed

lemma lang_step_store:
  "lstore (lang_step e s) = (case e of SetLang i l \<Rightarrow> Some l | _ \<Rightarrow> lstore s)"
  by (cases e) (auto simp: on_lang_event_def)

fun chosen :: "lang_event list \<Rightarrow> jstr list" where
  "chosen [] = []"
| "chosen (SetLang i l # es) = l # chosen es"
| "chosen (_ # es) = chosen es"

lemma run_lang_store:
  "lstore (run lang_step es s) = (if chosen es = [] then lstore s else Some (last (chosen es)))"
  by (induction es arbitrary: s rule: chosen.induct) (auto simp: lang_step_store simp del: lang_step.simps)

subsection \<open>Theme hook\<close>

record theme_sys =
  theme :: jstr
  data_theme :: "jstr option"
  tstore :: "jstr option"

definition dark :: jstr where "dark = (u ''dark'')"
definition light :: jstr where "light = (u ''light'')"

definition theme_mount :: "theme_sys \<Rightarrow> theme_sys" where
  "theme_mount s = s\<lparr>theme := or_else (data_theme s) dark\<rparr>"

definition theme_toggle :: "theme_sys \<Rightarrow> theme_sys" where
  "theme_toggle s =
     (let nxt = (if theme s = dark then light else dark) in
      s\<lparr>theme := nxt, data_theme := Some nxt, tstore := Some nxt\<rparr>)"

lemma dark_light [simp]: "dark \<noteq> light" "light \<noteq> dark"
  by (simp_all add: dark_def light_def)

lemma theme_toggle_simps [simp]:
  "theme (theme_toggle s) = (if theme s = dark then light else dark)"
  "data_theme (theme_toggle s) = Some (theme (theme_toggle s))"
  "tstore (theme_toggle s) = Some (theme (theme_toggle s))"
  by (simp_all add: theme_toggle_def Let_def)

subsection \<open>Facts\<close>

lemma en_pt [simp]: "en \<noteq> pt" "pt \<noteq> en"
  by (simp_all add: en_def pt_def)

lemma tr_not_en: "lang \<noteq> en \<Longrightarrow> tr lang s = s"
  by (simp add: tr_def)

lemma or_else_nonempty: "d \<noteq> [] \<Longrightarrow> or_else x d \<noteq> []"
  by (auto simp: or_else_def split: option.split)

lemma tr_nonempty: "s \<noteq> [] \<Longrightarrow> tr lang s \<noteq> []"
  by (auto simp: tr_def or_else_nonempty)

lemma t_shell_nonempty: "k \<noteq> [] \<Longrightarrow> t_shell lang k \<noteq> []"
  by (simp add: t_shell_def or_else_nonempty)

lemma t_shell_unknown_lang: "lang \<noteq> pt \<Longrightarrow> lang \<noteq> en \<Longrightarrow> t_shell lang k = t_shell pt k"
  by (simp add: t_shell_def STR_table_def)

end
