(* ===== verification/Ui_Kit.thy ===== *)
theory Ui_Kit
  imports I18n Js_View Js_Number
begin

text \<open>
  The shared components of app/ui.tsx without a state of their own: status badges, page and card
  heads, the modal frame, state bar, toggle, pills, sparkline, stat and meter cards; and the hook
  useSeries. Each takes the language its useLang hook returns.
\<close>

subsection \<open>Status badges\<close>

definition TONE :: "(jstr \<times> jstr \<times> jstr) list" where
  "TONE = [
    ((u ''merged''), (u ''--green''), (u ''--green-tint'')), ((u ''open''), (u ''--green''), (u ''--green-tint'')),
    ((u ''in_review''), (u ''--accent''), (u ''--accent-tint'')),
    ((u ''running''), (u ''--blue''), (u ''--blue-tint'')), ((u ''planning''), (u ''--blue''), (u ''--blue-tint'')),
    ((u ''queued''), (u ''--orange''), (u ''--orange-tint'')),
    ((u ''assigned''), (u ''--orange''), (u ''--orange-tint'')), ((u ''idle''), (u ''--dim''), (u ''--border'')),
    ((u ''failed''), (u ''--red''), (u ''--red-tint'')), ((u ''blocked''), (u ''--red''), (u ''--red-tint''))]"

definition css_var :: "jstr \<Rightarrow> jstr" where
  "css_var c = (u ''var('') @ c @ (u '')'')"

definition badge :: "jstr \<Rightarrow> 'e attr list" where
  "badge s = (let (c, tt) = lookup_or ((u ''--dim''), (u ''--border'')) TONE s in
     [Sty ''background'' (css_var tt), Sty ''color'' (css_var c)])"

subsection \<open>Heads and frames\<close>

definition pageHead :: "jstr \<Rightarrow> jstr option \<Rightarrow> jstr \<Rightarrow> jstr option \<Rightarrow> 'e node list \<Rightarrow> 'e node" where
  "pageHead lang eyebrow title subtitle right =
     dv ([dv ((case eyebrow of Some e \<Rightarrow> shown (e \<noteq> []) [dvt (tr lang e)] | None \<Rightarrow> [])
           @ [El ''h1'' [] [Txt (tr lang title)]]
           @ (case subtitle of Some s \<Rightarrow> shown (s \<noteq> []) [dvt (tr lang s)] | None \<Rightarrow> []))]
        @ right)"

text \<open>Modal: the backdrop, Escape and the cross close it; a click inside the box does not.\<close>

definition modal :: "jstr \<Rightarrow> jstr \<Rightarrow> 'e \<Rightarrow> 'e node list \<Rightarrow> 'e node list option \<Rightarrow> 'e node" where
  "modal lang title onClose children footer =
     El ''div'' [OnClick onClose, OnEscape onClose]
       [El ''div'' [StopClick]
         ([dv [El ''b'' [] [Txt (tr lang title)], El ''button'' [OnClick onClose] [Txt (ux ''{2715}'')]],
           dv children]
          @ (case footer of Some f \<Rightarrow> [dv f] | None \<Rightarrow> []))]"

definition cardHead :: "jstr \<Rightarrow> jstr \<Rightarrow> 'e node list \<Rightarrow> 'e node" where
  "cardHead lang title right = dv ([El ''b'' [] [Txt (tr lang title)]] @ right)"

subsection \<open>StateBar\<close>

record bucket =
  b_label :: jstr
  b_n :: nat
  b_tone :: jstr

definition stateBar_total :: "bucket list \<Rightarrow> nat" where
  "stateBar_total counts = foldl (\<lambda>a c. a + b_n c) 0 counts"

definition stateBar_segments :: "bucket list \<Rightarrow> bucket list" where
  "stateBar_segments counts = filter (\<lambda>c. b_n c \<noteq> 0) counts"

definition tone_var :: "jstr \<Rightarrow> jstr" where
  "tone_var t = (u ''var(--'') @ t @ (u '')'')"

definition stateBar :: "jstr \<Rightarrow> jstr \<Rightarrow> bucket list \<Rightarrow> 'e node" where
  "stateBar lang title counts =
     dv [dv [El ''b'' [] [Txt (tr lang title)],
             sp [Txt (nshow (stateBar_total counts)), Txt (u '' ''),
                 Txt (if lang = en then (u ''in pipeline'') else (u ''no pipeline''))]],
         dv (map (\<lambda>c. El ''div'' [Sty ''flex'' (nshow (b_n c)), Sty ''background'' (tone_var (b_tone c))] [])
               (stateBar_segments counts)),
         dv (map (\<lambda>c. dv [sp [El ''span'' [Sty ''background'' (tone_var (b_tone c))] [],
                              Txt (tr lang (b_label c))],
                          El ''b'' [] [Txt (nshow (b_n c))]]) counts)]"

subsection \<open>Toggle and Pills\<close>

definition toggle_el :: "bool \<Rightarrow> (bool \<Rightarrow> 'e) \<Rightarrow> 'e node" where
  "toggle_el on onChange =
     El ''button'' [OnClick (onChange (\<not> on)),
                    Sty ''background'' (if on then (u ''var(--green)'') else (u ''var(--border)''))]
       [El ''span'' [Sty ''left'' (if on then (u ''21'') else (u ''3''))] []]"

definition pills :: "jstr \<Rightarrow> (jstr \<times> jstr) list \<Rightarrow> jstr \<Rightarrow> (jstr \<Rightarrow> 'e) \<Rightarrow> 'e node" where
  "pills lang options value onChange =
     dv (map (\<lambda>(val, label).
       El ''button'' [Key val, OnClick (onChange val),
           Sty ''background'' (if value = val then (u ''var(--card)'') else (u ''transparent'')),
           Sty ''color'' (if value = val then (u ''var(--ink)'') else (u ''var(--dim)''))]
         [Txt (tr lang label)]) options)"

lemma clicks_pills [simp]: "clicks (pills lang options value f) = map f (map fst options)"
  by (induction options) (auto simp: pills_def)

subsection \<open>Series and sparkline\<close>

text \<open>\<open>[...cur, value].slice(-n)\<close>; \<open>slice(-0)\<close> is the whole list.\<close>

definition useSeries_push :: "nat \<Rightarrow> 'a \<Rightarrow> 'a list \<Rightarrow> 'a list" where
  "useSeries_push n v cur = (if n = 0 then cur @ [v] else last_n n (cur @ [v]))"

fun useSeries_run :: "nat \<Rightarrow> 'a list \<Rightarrow> 'a list \<Rightarrow> 'a list" where
  "useSeries_run n cur [] = cur"
| "useSeries_run n cur (v # vs) = useSeries_run n (useSeries_push n v cur) vs"

lemma useSeries_run_last:
  assumes n: "0 < n"
  shows "useSeries_run n (last_n n pre) vs = last_n n (pre @ vs)"
proof (induction vs arbitrary: pre)
  case Nil
  then show ?case by simp
next
  case (Cons v vs)
  have "useSeries_push n v (last_n n pre) = last_n n (pre @ [v])"
    using n by (simp add: useSeries_push_def last_n_snoc)
  with Cons.IH [of "pre @ [v]"] show ?case by simp
qed

definition spark_data :: "rat list \<Rightarrow> rat list" where
  "spark_data data =
     (if length data < 2 then (let v = (case data of [] \<Rightarrow> 0 | x # _ \<Rightarrow> x) in [v, v]) else data)"

definition jmax :: "rat list \<Rightarrow> rat \<Rightarrow> rat" where "jmax d a = foldr max d a"
definition jmin :: "rat list \<Rightarrow> rat \<Rightarrow> rat" where "jmin d a = foldr min d a"

text \<open>\<open>max - min || 1\<close>.\<close>

definition spark_span :: "rat list \<Rightarrow> rat" where
  "spark_span d = (let s = jsub (jmax d 1) (jmin d 0) in if s = 0 then 1 else s)"

definition spark_x :: "nat \<Rightarrow> nat \<Rightarrow> int \<Rightarrow> rat" where
  "spark_x len i w = jmul (jdiv (of_nat i) (of_nat (len - 1))) (of_int w)"

definition spark_unit :: "rat list \<Rightarrow> rat \<Rightarrow> rat" where
  "spark_unit d v = jdiv (jsub v (jmin d 0)) (spark_span d)"

definition spark_y :: "rat list \<Rightarrow> int \<Rightarrow> rat \<Rightarrow> rat" where
  "spark_y d h v = jadd (jsub (of_int (h - 3)) (jmul (spark_unit d v) (of_int (h - 6)))) 1"

definition sparkline_pts :: "rat list \<Rightarrow> int \<Rightarrow> int \<Rightarrow> (rat \<times> rat) list" where
  "sparkline_pts data w h =
     (let d = spark_data data in
      map (\<lambda>(i, v). (spark_x (length d) i w, spark_y d h v)) (enumerate 0 d))"

text \<open>The rendering keeps the colour; the points attribute is \<open>sparkline_pts\<close> printed.\<close>

definition sparkline :: "jstr \<Rightarrow> 'e node" where
  "sparkline color = El ''svg'' [] [El ''polyline'' [Sty ''stroke'' (css_var color)] []]"

subsection \<open>StatCard, MeterCard, count badge\<close>

definition statCard :: "jstr \<Rightarrow> jstr \<Rightarrow> 'e node list \<Rightarrow> jstr option \<Rightarrow> jstr \<Rightarrow> rat list option \<Rightarrow> jstr option \<Rightarrow> 'e node" where
  "statCard lang label value sfx tone series sub =
     dv ([dvt (tr lang label),
          dv ([dv (value @ (case sfx of Some s \<Rightarrow> shown (s \<noteq> []) [spt s] | None \<Rightarrow> []))]
              @ (case series of Some s \<Rightarrow> shown (length s > 1) [sparkline ((u ''--'') @ tone)] | None \<Rightarrow> []))]
         @ (case sub of Some s \<Rightarrow> shown (s \<noteq> []) [dvt (tr lang s)] | None \<Rightarrow> []))"

definition meter_p :: "rat \<Rightarrow> rat" where
  "meter_p pct = max 0 (min 100 pct)"

definition meterCard :: "jstr \<Rightarrow> jstr \<Rightarrow> 'e node list \<Rightarrow> 'e node list option \<Rightarrow> rat \<Rightarrow> jstr \<Rightarrow> jstr option \<Rightarrow> 'e node" where
  "meterCard lang label value limit pct tone sub =
     dv [dvt (tr lang label),
         dv (value @ (case limit of Some l \<Rightarrow> [sp (Txt (u '' / '') # l)] | None \<Rightarrow> [])),
         dv [El ''div'' [StyPct ''width'' (meter_p pct), Sty ''background'' (tone_var tone)] []],
         dvt (case sub of Some s \<Rightarrow> s | None \<Rightarrow> ishow (jround (meter_p pct)) @ (u ''% do limite''))]"

definition countBadge :: "nat option \<Rightarrow> jstr \<Rightarrow> 'e node list" where
  "countBadge n tone =
     (case n of
        Some k \<Rightarrow> shown (k \<noteq> 0)
          [El ''span'' [Sty ''background'' ((u ''var(--'') @ tone @ (u ''-tint)'')), Sty ''color'' (tone_var tone)]
             [Txt (nshow k)]]
      | None \<Rightarrow> [])"

subsection \<open>Facts\<close>

lemma stateBar_total_sum: "stateBar_total counts = sum_list (map b_n counts)"
proof -
  have "foldl (\<lambda>a c. a + b_n c) z counts = z + sum_list (map b_n counts)" for z
    by (induction counts arbitrary: z) auto
  then show ?thesis by (simp add: stateBar_total_def)
qed

lemma sum_segments: "sum_list (map b_n (stateBar_segments counts)) = sum_list (map b_n counts)"
  unfolding stateBar_segments_def by (induction counts) auto

lemma jmax_ge: "a \<le> jmax d a" "x \<in> set d \<Longrightarrow> x \<le> jmax d a"
  unfolding jmax_def by (induction d) (auto simp: le_max_iff_disj)

lemma jmin_le: "jmin d a \<le> a" "x \<in> set d \<Longrightarrow> jmin d a \<le> x"
  unfolding jmin_def by (induction d) (auto simp: min_le_iff_disj)

lemma spark_unit_range:
  assumes "v \<in> set d"
  shows "0 \<le> spark_unit d v" "spark_unit d v \<le> 1"
proof -
  let ?s = "jsub (jmax d 1) (jmin d 0)"
  have "1 \<le> jmax d 1 - jmin d 0" using jmax_ge(1) [of 1 d] jmin_le(1) [of d 0] by linarith
  then have s1: "1 \<le> ?s" using fl_mono [of 1 "jmax d 1 - jmin d 0"] by (simp add: jsub_def)
  then have span: "spark_span d = ?s" by (simp add: spark_span_def Let_def)
  have "0 \<le> v - jmin d 0" using jmin_le(2) [OF assms] by simp
  then have n0: "0 \<le> jsub v (jmin d 0)" by (simp add: jsub_def fl_0_le)
  have "v - jmin d 0 \<le> jmax d 1 - jmin d 0" using jmax_ge(2) [OF assms] by simp
  then have n1: "jsub v (jmin d 0) \<le> ?s" by (simp add: jsub_def fl_mono)
  show "0 \<le> spark_unit d v" using n0 s1 by (simp add: spark_unit_def span jdiv_def fl_0_le)
  have "jsub v (jmin d 0) / ?s \<le> 1" using n1 s1 by (simp add: divide_le_eq_1)
  then show "spark_unit d v \<le> 1"
    by (simp add: spark_unit_def span jdiv_def fl_le_1)
qed

text \<open>A fraction of an integer length, rounded, stays within the length.\<close>

lemma jmul_unit_range:
  assumes "0 \<le> q" "q \<le> 1" "0 \<le> w" "w < 2 ^ 53"
  shows "0 \<le> jmul q (of_int w)" "jmul q (of_int w) \<le> of_int w"
proof -
  have w: "(0::rat) \<le> of_int w" "\<bar>w\<bar> < 2 ^ 53" using assms by simp_all
  have p: "q * of_int w \<le> of_int w" "0 \<le> q * of_int w"
    by (rule mult_left_le_one_le [OF w(1) assms(1,2)], rule mult_nonneg_nonneg [OF assms(1) w(1)])
  show "0 \<le> jmul q (of_int w)" unfolding jmul_def by (rule fl_0_le [OF p(2)])
  show "jmul q (of_int w) \<le> of_int w" unfolding jmul_def by (rule fl_le_int [OF p(1) w(2)])
qed

lemma spark_data_length: "2 \<le> length (spark_data data)"
  by (auto simp: spark_data_def Let_def)

lemma spark_x_range:
  assumes "i < n" "2 \<le> n" "0 \<le> w" "w < 2 ^ 53"
  shows "0 \<le> spark_x n i w" "spark_x n i w \<le> of_int w"
proof -
  have "(of_nat i :: rat) / of_nat (n - 1) \<le> 1" "0 \<le> (of_nat i :: rat) / of_nat (n - 1)"
    using assms by (auto simp: divide_le_eq_1 of_nat_diff)
  then have "0 \<le> jdiv (of_nat i) (of_nat (n - 1))" "jdiv (of_nat i) (of_nat (n - 1)) \<le> 1"
    by (simp_all add: jdiv_def fl_0_le fl_le_1)
  then show "0 \<le> spark_x n i w" "spark_x n i w \<le> of_int w"
    using assms(3,4) by (simp_all add: spark_x_def jmul_unit_range)
qed

lemma spark_y_range:
  assumes "v \<in> set d" "6 \<le> h" "h < 2 ^ 53"
  shows "4 \<le> spark_y d h v" "spark_y d h v \<le> of_int h - 2"
proof -
  let ?m = "jmul (spark_unit d v) (of_int (h - 6))"
  have m: "0 \<le> ?m" "?m \<le> of_int (h - 6)"
    using jmul_unit_range [OF spark_unit_range [OF assms(1)], of "h - 6"] assms(2,3) by simp_all
  have "of_int 3 \<le> of_int (h - 3) - ?m" "of_int (h - 3) - ?m \<le> of_int (h - 3)"
    using m by simp_all
  then have s: "of_int 3 \<le> jsub (of_int (h - 3)) ?m" "jsub (of_int (h - 3)) ?m \<le> of_int (h - 3)"
    unfolding jsub_def using assms(2,3) by (intro fl_ge_int fl_le_int; simp)+
  then have "of_int 4 \<le> jsub (of_int (h - 3)) ?m + 1" "jsub (of_int (h - 3)) ?m + 1 \<le> of_int (h - 2)"
    by simp_all
  then have "of_int 4 \<le> spark_y d h v" "spark_y d h v \<le> of_int (h - 2)"
    unfolding spark_y_def jadd_def using assms(2,3) by (intro fl_ge_int fl_le_int; simp)+
  then show "4 \<le> spark_y d h v" "spark_y d h v \<le> of_int h - 2" by simp_all
qed

lemma meter_p_range: "0 \<le> meter_p pct" "meter_p pct \<le> 100"
  by (auto simp: meter_p_def)

end
