(* ===== verification/Url.thy ===== *)
theory Url
  imports Js_Text
begin

text \<open>
  The URL coding the session flow relies on: encodeURIComponent as the gate of app/ui.tsx calls
  it, and the reading of a query parameter as the login page does through useSearchParams.
  A string is encoded as the percent-escaped bytes of its UTF-8 form; a lone surrogate makes
  encodeURIComponent throw (\<open>None\<close>). The decoder is the UTF-8 decoder of the URL standard: a state
  machine over bytes that puts U+FFFD for a sequence that is cut short or out of range and reads the
  offending byte again. The address bar's query is ASCII, so every unit of it is a byte.
\<close>

definition unreserved :: "nat \<Rightarrow> bool" where
  "unreserved c = ((65 \<le> c \<and> c \<le> 90) \<or> (97 \<le> c \<and> c \<le> 122) \<or> (48 \<le> c \<and> c \<le> 57)
     \<or> c \<in> {45, 95, 46, 33, 126, 42, 39, 40, 41})"

definition hex_up :: "nat \<Rightarrow> nat" where
  "hex_up n = (if n < 10 then 48 + n else 55 + n)"

definition pct_byte :: "nat \<Rightarrow> jstr" where
  "pct_byte b = [37, hex_up (b div 16), hex_up (b mod 16)]"

fun encodeURIComponent :: "jstr \<Rightarrow> jstr option" where
  "encodeURIComponent [] = Some []"
| "encodeURIComponent (c # cs) =
     (if c < 128 then
        map_option (\<lambda>r. (if unreserved c then [c] else pct_byte c) @ r) (encodeURIComponent cs)
      else if c < 2048 then
        map_option (\<lambda>r. pct_byte (192 + c div 64) @ pct_byte (128 + c mod 64) @ r) (encodeURIComponent cs)
      else if 55296 \<le> c \<and> c < 56320 then
        (case cs of
           [] \<Rightarrow> None
         | d # ds \<Rightarrow>
             if 56320 \<le> d \<and> d < 57344 then
               (let v = 65536 + (c - 55296) * 1024 + (d - 56320) in
                map_option (\<lambda>r. pct_byte (240 + v div 262144) @ pct_byte (128 + v div 4096 mod 64)
                  @ pct_byte (128 + v div 64 mod 64) @ pct_byte (128 + v mod 64) @ r)
                  (encodeURIComponent ds))
             else None)
      else if 56320 \<le> c \<and> c < 57344 then None
      else
        map_option (\<lambda>r. pct_byte (224 + c div 4096) @ pct_byte (128 + c div 64 mod 64)
          @ pct_byte (128 + c mod 64) @ r) (encodeURIComponent cs))"

subsection \<open>Reading a query parameter\<close>

definition hex_val :: "nat \<Rightarrow> nat option" where
  "hex_val c =
     (if 48 \<le> c \<and> c \<le> 57 then Some (c - 48)
      else if 65 \<le> c \<and> c \<le> 70 then Some (c - 55)
      else if 97 \<le> c \<and> c \<le> 102 then Some (c - 87) else None)"

text \<open>Plus is a space, \<open>%XY\<close> a byte; anything else stands for itself.\<close>

fun form_bytes :: "jstr \<Rightarrow> nat list" where
  "form_bytes [] = []"
| "form_bytes (c # cs) =
     (if c = 37 then
        (case cs of
           a # b # ds \<Rightarrow>
             (case hex_val a of
                Some x \<Rightarrow> (case hex_val b of Some y \<Rightarrow> (16 * x + y) # form_bytes ds | None \<Rightarrow> 37 # form_bytes cs)
              | None \<Rightarrow> 37 # form_bytes cs)
         | _ \<Rightarrow> 37 # form_bytes cs)
      else (if c = 43 then 32 else c) # form_bytes cs)"

text \<open>The UTF-16 units of a code point.\<close>

definition units_of :: "nat \<Rightarrow> jstr" where
  "units_of v = (if v < 65536 then [v] else [55296 + (v - 65536) div 1024, 56320 + (v - 65536) mod 1024])"

text \<open>The code point read so far, the bytes still needed, the range of the next byte, the input.\<close>

function utf8_go :: "nat \<Rightarrow> nat \<Rightarrow> nat \<Rightarrow> nat \<Rightarrow> nat list \<Rightarrow> jstr" where
  "utf8_go cp n lo up [] = (if n = 0 then [] else [65533])"
| "utf8_go cp 0 lo up (b # bs) =
     (if b < 128 then b # utf8_go 0 0 128 191 bs
      else if 194 \<le> b \<and> b < 224 then utf8_go (b - 192) 1 128 191 bs
      else if 224 \<le> b \<and> b < 240 then
        utf8_go (b - 224) 2 (if b = 224 then 160 else 128) (if b = 237 then 159 else 191) bs
      else if 240 \<le> b \<and> b < 245 then
        utf8_go (b - 240) 3 (if b = 240 then 144 else 128) (if b = 244 then 143 else 191) bs
      else 65533 # utf8_go 0 0 128 191 bs)"
| "utf8_go cp (Suc n) lo up (b # bs) =
     (if b < lo \<or> up < b then 65533 # utf8_go 0 0 128 191 (b # bs)
      else if n = 0 then units_of (cp * 64 + (b - 128)) @ utf8_go 0 0 128 191 bs
      else utf8_go (cp * 64 + (b - 128)) n 128 191 bs)"
  by pat_completeness auto
termination
  by (relation "measure (\<lambda>(cp, n, lo, up, bs). 2 * length bs + (if n = 0 then 0 else 1))") auto

definition utf8_decode :: "nat list \<Rightarrow> jstr" where
  "utf8_decode bs = utf8_go 0 0 128 191 bs"

definition form_decode :: "jstr \<Rightarrow> jstr" where
  "form_decode s = utf8_decode (form_bytes s)"

definition split_eq :: "jstr \<Rightarrow> jstr \<times> jstr" where
  "split_eq p = (takeWhile (\<lambda>c. c \<noteq> 61) p, drop 1 (dropWhile (\<lambda>c. c \<noteq> 61) p))"

text \<open>URLSearchParams: pairs separated by \<open>&\<close>, empty pieces dropped, the first match wins.\<close>

definition query_pairs :: "jstr \<Rightarrow> (jstr \<times> jstr) list" where
  "query_pairs search =
     (let body = (case search of [] \<Rightarrow> [] | c # r \<Rightarrow> if c = 63 then r else search) in
      map (\<lambda>p. (form_decode (fst (split_eq p)), form_decode (snd (split_eq p))))
        (filter (\<lambda>p. p \<noteq> []) (split_on 38 body)))"

definition search_param :: "jstr \<Rightarrow> jstr \<Rightarrow> jstr option" where
  "search_param k search = map_of (query_pairs search) k"

subsection \<open>Round trip\<close>

definition units :: "jstr \<Rightarrow> bool" where
  "units s = list_all (\<lambda>c. c < 65536) s"

lemma units_simps [simp]: "units []" "units (c # s) \<longleftrightarrow> c < 65536 \<and> units s"
  by (simp_all add: units_def)

lemma hex_val_up [simp]: "n < 16 \<Longrightarrow> hex_val (hex_up n) = Some n"
  by (auto simp: hex_val_def hex_up_def)

lemma form_bytes_plain: "c \<noteq> 37 \<Longrightarrow> c \<noteq> 43 \<Longrightarrow> form_bytes (c # cs) = c # form_bytes cs"
  by simp

lemma form_bytes_pct: "b < 256 \<Longrightarrow> form_bytes (pct_byte b @ cs) = b # form_bytes cs"
  by (simp add: pct_byte_def)

lemma utf8_decode_ascii: "list_all (\<lambda>c. c < 128) s \<Longrightarrow> utf8_decode s = s"
  unfolding utf8_decode_def by (induction s) auto

text \<open>One escaped character of each length comes back as its units.\<close>

lemma six: "x mod 64 < (128::nat)"
  using mod_less_divisor [of 64 x] by simp

lemma utf8_go_three:
  assumes "a < 16" "b < 64" "c < 64" "a = 0 \<Longrightarrow> 32 \<le> b" "a = 13 \<Longrightarrow> b < 32"
  shows "utf8_go 0 0 128 191 ((224 + a) # (128 + b) # (128 + c) # bs)
    = units_of ((a * 64 + b) * 64 + c) @ utf8_go 0 0 128 191 bs"
  using assms by (auto simp: numeral_2_eq_2)

lemma utf8_go_four:
  assumes "a < 5" "b < 64" "c < 64" "d < 64" "a = 0 \<Longrightarrow> 16 \<le> b" "a = 4 \<Longrightarrow> b < 16"
  shows "utf8_go 0 0 128 191 ((240 + a) # (128 + b) # (128 + c) # (128 + d) # bs)
    = units_of (((a * 64 + b) * 64 + c) * 64 + d) @ utf8_go 0 0 128 191 bs"
  using assms by (auto simp: numeral_3_eq_3)

lemma utf8_two:
  assumes "128 \<le> c" "c < 2048"
  shows "utf8_go 0 0 128 191 ((192 + c div 64) # (128 + c mod 64) # bs) = c # utf8_go 0 0 128 191 bs"
proof -
  have "2 \<le> c div 64" "c div 64 < 32" "c mod 64 < 64" using assms by (auto simp: div_less_iff_less_mult)
  then show ?thesis using assms by (simp add: units_of_def)
qed

lemma utf8_three:
  assumes "2048 \<le> c" "c < 65536" "c < 55296 \<or> 57344 \<le> c"
  shows "utf8_go 0 0 128 191 ((224 + c div 4096) # (128 + c div 64 mod 64) # (128 + c mod 64) # bs)
    = c # utf8_go 0 0 128 191 bs"
proof -
  have hi: "c div 4096 < 16" using assms(2) by (simp add: div_less_iff_less_mult)
  have lo: "32 \<le> c div 64 mod 64" if "c div 4096 = 0"
  proof -
    have "c < 4096" using that by (simp add: div_eq_0_iff)
    then have "c div 64 mod 64 = c div 64" by (simp add: div_less_iff_less_mult)
    moreover have "32 \<le> c div 64" using assms(1) by simp
    ultimately show ?thesis by simp
  qed
  have su: "c div 64 mod 64 < 32" if "c div 4096 = 13"
  proof -
    have "53248 \<le> c" "c < 57344" using that by (simp_all add: div_eq_dividend_iff)
    then have "c < 55296" "832 \<le> c div 64" "c div 64 < 864" using assms(3) by simp_all
    then obtain j where j: "c div 64 = 832 + j" using le_Suc_ex by blast
    then have "j < 32" using \<open>c div 64 < 864\<close> by simp
    then show ?thesis using mod_mult_self3 [of 13 64 j] j by simp
  qed
  have "c div 4096 * 64 + c div 64 mod 64 = c div 64"
    using div_mult_mod_eq [of "c div 64" 64] by (simp add: div_mult2_eq [symmetric])
  then have v: "(c div 4096 * 64 + c div 64 mod 64) * 64 + c mod 64 = c" by simp
  have "utf8_go 0 0 128 191 ((224 + c div 4096) # (128 + c div 64 mod 64) # (128 + c mod 64) # bs)
      = units_of c @ utf8_go 0 0 128 191 bs"
    using utf8_go_three [OF hi _ _ lo su, of "c mod 64" bs] unfolding v by simp
  then show ?thesis using assms(2) by (simp add: units_of_def del: utf8_go.simps)
qed


lemma utf8_four:
  assumes "65536 \<le> v" "v < 1114112"
  shows "utf8_go 0 0 128 191 ((240 + v div 262144) # (128 + v div 4096 mod 64) # (128 + v div 64 mod 64) # (128 + v mod 64) # bs)
    = units_of v @ utf8_go 0 0 128 191 bs"
proof -
  have hi: "v div 262144 < 5" using assms(2) by (simp add: div_less_iff_less_mult)
  have lo: "16 \<le> v div 4096 mod 64" if "v div 262144 = 0"
  proof -
    have "v < 262144" using that by (simp add: div_eq_0_iff)
    then have "v div 4096 mod 64 = v div 4096" by (simp add: div_less_iff_less_mult)
    moreover have "16 \<le> v div 4096" using assms(1) by simp
    ultimately show ?thesis by simp
  qed
  have top: "v div 4096 mod 64 < 16" if "v div 262144 = 4"
  proof -
    have "1048576 \<le> v" using that by simp
    then have "256 \<le> v div 4096" "v div 4096 < 272" using assms(2) by (simp_all add: div_less_iff_less_mult)
    moreover from this(1) obtain j where j: "v div 4096 = 256 + j" using le_Suc_ex by blast
    ultimately show ?thesis using mod_mult_self3 [of 4 64 j] by simp
  qed
  have "v div 262144 * 64 + v div 4096 mod 64 = v div 4096"
    using div_mult_mod_eq [of "v div 4096" 64] by (simp add: div_mult2_eq [symmetric])
  moreover have "v div 4096 * 64 + v div 64 mod 64 = v div 64"
    using div_mult_mod_eq [of "v div 64" 64] by (simp add: div_mult2_eq [symmetric])
  ultimately have v: "((v div 262144 * 64 + v div 4096 mod 64) * 64 + v div 64 mod 64) * 64 + v mod 64 = v"
    by simp
  show ?thesis using utf8_go_four [OF hi _ _ _ lo top, of "v div 64 mod 64" "v mod 64" bs] unfolding v by simp
qed

lemma units_of_pair:
  assumes "55296 \<le> c" "c < 56320" "56320 \<le> d" "d < 57344"
  shows "units_of (65536 + (c - 55296) * 1024 + (d - 56320)) = [c, d]"
    and "65536 + (c - 55296) * 1024 + (d - 56320) < 1114112"
proof -
  obtain x where x: "c = 55296 + x" using assms(1) le_Suc_ex by blast
  obtain y where y: "d = 56320 + y" using assms(3) le_Suc_ex by blast
  have "y < 1024" "x < 1024" using assms(2,4) by (simp_all add: x y)
  then show "units_of (65536 + (c - 55296) * 1024 + (d - 56320)) = [c, d]"
    "65536 + (c - 55296) * 1024 + (d - 56320) < 1114112"
    by (simp_all add: x y units_of_def)
qed

lemma pct_byte_plain:
  assumes "b < 256" shows "38 \<notin> set (pct_byte b)" "61 \<notin> set (pct_byte b)"
  using assms by (auto simp: pct_byte_def hex_up_def)

lemma form_bytes_pct2:
  "b < 256 \<Longrightarrow> form_bytes (pct_byte b) = [b]"
  using form_bytes_pct [of b "[]"] by simp

definition well_coded :: "jstr \<Rightarrow> jstr \<Rightarrow> bool" where
  "well_coded e s \<longleftrightarrow> utf8_go 0 0 128 191 (form_bytes e) = s \<and> 38 \<notin> set e \<and> 61 \<notin> set e"

lemma well_coded_plain:
  assumes "c < 128" "unreserved c" "well_coded e s"
  shows "well_coded (c # e) (c # s)"
proof -
  have "c \<noteq> 37 \<and> c \<noteq> 43 \<and> c \<noteq> 38 \<and> c \<noteq> 61" using assms(2) by (auto simp: unreserved_def)
  then show ?thesis using assms by (auto simp: well_coded_def form_bytes_plain simp del: form_bytes.simps(2))
qed

lemma well_coded_pct:
  assumes "list_all (\<lambda>b. b < 256) bs" "well_coded e s"
    and "\<And>cs. utf8_go 0 0 128 191 (bs @ cs) = w @ utf8_go 0 0 128 191 cs"
  shows "well_coded (concat (map pct_byte bs) @ e) (w @ s)"
proof -
  have "form_bytes (concat (map pct_byte bs) @ e) = bs @ form_bytes e"
    using assms(1) by (induction bs) (simp_all add: form_bytes_pct)
  moreover have "38 \<notin> set (concat (map pct_byte bs)) \<and> 61 \<notin> set (concat (map pct_byte bs))"
    using assms(1) by (induction bs) (simp_all add: pct_byte_plain)
  ultimately show ?thesis using assms(2,3) by (simp add: well_coded_def)
qed

lemma encode_well_coded:
  "units s \<Longrightarrow> encodeURIComponent s = Some e \<Longrightarrow> well_coded e s"
proof (induction s arbitrary: e rule: encodeURIComponent.induct)
  case 1
  then show ?case by (simp add: well_coded_def)
next
  case (2 c cs)
  have u: "c < 65536" "units cs" using "2.prems"(1) by simp_all
  consider "c < 128" | "128 \<le> c" "c < 2048" | "55296 \<le> c" "c < 56320"
    | "2048 \<le> c" "c < 55296 \<or> 57344 \<le> c" | "56320 \<le> c" "c < 57344" by linarith
  then show ?case
  proof cases
    case 1
    then obtain r where r: "encodeURIComponent cs = Some r"
      "e = (if unreserved c then [c] else pct_byte c) @ r" using "2.prems"(2) by auto
    have "well_coded r cs" using "2.IH"(1) 1 u r(1) by simp
    then show ?thesis
      using well_coded_plain [OF 1, of r cs] well_coded_pct [of "[c]" r cs "[c]"] 1
      by (simp add: r(2))
  next
    case 2
    then obtain r where r: "encodeURIComponent cs = Some r"
      "e = pct_byte (192 + c div 64) @ pct_byte (128 + c mod 64) @ r" using "2.prems"(2) by auto
    have "well_coded r cs" using "2.IH"(2) 2 u r(1) by simp
    then have "well_coded (concat (map pct_byte [192 + c div 64, 128 + c mod 64]) @ r) ([c] @ cs)"
      using utf8_two [OF 2] 2 by (intro well_coded_pct) (simp_all add: div_less_iff_less_mult six del: utf8_go.simps)
    then show ?thesis by (simp add: r(2))
  next
    case 3
    then obtain d ds r where r: "cs = d # ds" "56320 \<le> d" "d < 57344" "encodeURIComponent ds = Some r"
      and e: "e = (let v = 65536 + (c - 55296) * 1024 + (d - 56320) in
          pct_byte (240 + v div 262144) @ pct_byte (128 + v div 4096 mod 64)
            @ pct_byte (128 + v div 64 mod 64) @ pct_byte (128 + v mod 64) @ r)"
      using "2.prems"(2) by (auto simp: Let_def split: list.splits if_splits)
    define v where "v = 65536 + (c - 55296) * 1024 + (d - 56320)"
    have w: "units_of v = [c, d]" "v < 1114112" "65536 \<le> v"
      using units_of_pair [OF 3 r(2,3)] by (simp_all add: v_def)
    have "well_coded r ds" using "2.IH"(3) 3 u r by simp
    moreover have "v div 262144 < 16" using w(2) by (simp add: div_less_iff_less_mult)
    ultimately have "well_coded (concat (map pct_byte
        [240 + v div 262144, 128 + v div 4096 mod 64, 128 + v div 64 mod 64, 128 + v mod 64]) @ r) (units_of v @ ds)"
      using utf8_four [OF w(3,2)] 
      by (intro well_coded_pct) (simp_all add: six del: utf8_go.simps)
    then show ?thesis by (simp add: e v_def [symmetric] r(1) w(1) Let_def)
  next
    case 4
    then obtain r where r: "encodeURIComponent cs = Some r"
      "e = pct_byte (224 + c div 4096) @ pct_byte (128 + c div 64 mod 64) @ pct_byte (128 + c mod 64) @ r"
      using "2.prems"(2) by auto
    have "well_coded r cs" using "2.IH"(4) 4 u r(1) by (auto simp: not_less)
    then have "well_coded (concat (map pct_byte [224 + c div 4096, 128 + c div 64 mod 64, 128 + c mod 64]) @ r) ([c] @ cs)"
      using utf8_three [OF 4(1) u(1) 4(2)] u(1)
      by (intro well_coded_pct) (simp_all add: div_less_iff_less_mult six del: utf8_go.simps)
    then show ?thesis by (simp add: r(2))
  next
    case 5
    then show ?thesis using "2.prems"(2) by simp
  qed
qed

lemma encode_total_ascii: "list_all (\<lambda>c. c < 128) s \<Longrightarrow> \<exists>e. encodeURIComponent s = Some e"
  by (induction s) auto

lemma split_on_absent: "c \<notin> set s \<Longrightarrow> split_on c s = [s]"
  by (induction s) auto

lemma form_decode_plain:
  assumes "list_all (\<lambda>c. c < 128) s" "37 \<notin> set s" "43 \<notin> set s"
  shows "form_decode s = s"
proof -
  have "form_bytes s = s" using assms(2,3) by (induction s) (auto simp: form_bytes_plain)
  then show ?thesis using assms(1) by (simp add: form_decode_def utf8_decode_ascii)
qed

lemma search_param_single:
  assumes k: "k = [110, 101, 120, 116]" and s: "units s" and e: "encodeURIComponent s = Some e"
  shows "search_param k (63 # k @ 61 # e) = Some s"
proof -
  have e': "form_decode e = s" "38 \<notin> set e"
    using encode_well_coded [OF s e] by (simp_all add: well_coded_def form_decode_def utf8_decode_def)
  have ne: "38 \<notin> set (k @ 61 # e)" using e' k by simp
  have "split_eq (k @ 61 # e) = (k, e)" by (simp add: split_eq_def k)
  moreover have "form_decode k = k" by (rule form_decode_plain) (simp_all add: k)
  ultimately show ?thesis
    by (simp add: search_param_def query_pairs_def split_on_absent [OF ne] e')
qed

end
