(* ===== verification/Session.thy ===== *)
theory Session
  imports Api_Client Ui_Kit Url
begin

text \<open>
  The session flow: the gate of the component Page in app/ui.tsx, the loading skeleton it shows,
  the login page of app/login/page.tsx, and the sign-out button of the profile menu.
\<close>

subsection \<open>The gate of Page\<close>

record gate =
  authed :: "bool option"

datatype gate_tag = Get_me

definition gate_start :: gate where "gate_start = \<lparr>authed = None\<rparr>"

text \<open>
  The effect on mount: without a token (missing or empty) the browser is sent to the login page
  with the current address as \<open>next\<close>; otherwise the profile is asked for. \<open>None\<close> is the URIError
  encodeURIComponent throws on a lone surrogate.
\<close>

definition gate_mount :: "browser \<Rightarrow> gate_tag cmd list option" where
  "gate_mount b =
     (if getToken b = None \<or> getToken b = Some [] then
        map_option (\<lambda>nxt. [ReplaceTo ((u ''/login?next='') @ nxt)]) (encodeURIComponent (pathname b @ search b))
      else Some [Send GET (u ''/v1/me'') None Get_me])"

definition gate_answer :: "json outcome \<Rightarrow> gate \<Rightarrow> gate \<times> gate_tag cmd list" where
  "gate_answer r g =
     (case r of
        Resolved j \<Rightarrow>
          (if jget (u ''role'') j = JStr (u ''superadmin'') then (g, [ReplaceTo (u ''/superadmin'')])
           else (g\<lparr>authed := Some True\<rparr>, []))
      | Rejected _ \<Rightarrow> (g\<lparr>authed := Some True\<rparr>, []))"

definition pageSkeleton :: "'e node" where
  "pageSkeleton =
     dv ([dv [dv [], dv [], dv []]]
       @ [dv (map (\<lambda>i. El ''div'' [Key (nshow i)] [dv [], dv []]) [1, 2, 3, 4])]
       @ map (\<lambda>(i, h). El ''div'' [Key (nshow i)]
              ([dv [], dv [], dv []] @ shown (h > 130) [dv []])) (enumerate 0 [180, 130, 100 :: nat]))"

definition page_view :: "gate \<Rightarrow> bool \<Rightarrow> 'e node list \<Rightarrow> 'e node list" where
  "page_view g loading children =
     (if authed g \<noteq> Some True then []
      else [dv ([Comp ''Sidebar'']
        @ [dv ([Comp ''Topbar'']
             @ shown loading [El ''div'' [ClassName (u ''apf-progress-bar''), Key (u ''true'')] []]
             @ [El ''main'' [] (if loading then [pageSkeleton] else children)])]
        @ [Comp ''CommandPalette'', Comp ''ToastContainer''])])"

subsection \<open>Login page\<close>

datatype mode = Login | Register

record login =
  l_mode :: mode
  email :: jstr
  password :: jstr
  org :: jstr
  err :: jstr

datatype field = Email | Password | Org

datatype login_event =
    Typed field jstr
  | Submit
  | Switch_mode
  | Auth_answer jstr "json outcome"

definition login_start :: login where
  "login_start = \<lparr>l_mode = Login, email = [], password = [], org = [], err = []\<rparr>"

text \<open>\<open>params.get("next") || "/"\<close>.\<close>

definition login_next :: "jstr \<Rightarrow> jstr" where
  "login_next srch = or_else (search_param (u ''next'') srch) (u ''/'')"

fun set_field :: "field \<Rightarrow> jstr \<Rightarrow> login \<Rightarrow> login" where
  "set_field Email v s = s\<lparr>email := v\<rparr>"
| "set_field Password v s = s\<lparr>password := v\<rparr>"
| "set_field Org v s = s\<lparr>org := v\<rparr>"

text \<open>
  The answer carries the e-mail of the submitted form (the closure's \<open>f\<close>). A rejected request, or
  an answer that is null (reading its token throws), is an unhandled rejection of \<open>submit\<close>: the state
  stays. The token and the message are the strings their type says they are.
\<close>

fun login_step :: "jstr \<Rightarrow> jstr \<Rightarrow> login_event \<Rightarrow> login \<Rightarrow> login \<times> jstr cmd list" where
  "login_step lang nxt (Typed k v) s = (set_field k v s, [])"
| "login_step lang nxt Submit s =
     (s\<lparr>err := []\<rparr>,
      [Send POST (if l_mode s = Login then (u ''/v1/auth/login'') else (u ''/v1/auth/register''))
         (Some (JObj [((u ''email''), JStr (email s)), ((u ''password''), JStr (password s)), ((u ''org''), JStr (org s))]))
         (email s)])"
| "login_step lang nxt Switch_mode s =
     (s\<lparr>l_mode := (if l_mode s = Login then Register else Login), err := []\<rparr>, [])"
| "login_step lang nxt (Auth_answer mail (Resolved r)) s =
     (if r = JNull \<or> r = JUndef then (s, [])
      else if truthy (jget (u ''access_token'') r) then
        (s, [SetItem token_key (case jstr_of (jget (u ''access_token'') r) of Some t \<Rightarrow> t | None \<Rightarrow> []),
             SetItem (u ''apifor_email'') mail,
             GoTo (if jget (u ''role'') r = JStr (u ''superadmin'') \<and> nxt = (u ''/'') then (u ''/superadmin'') else nxt)])
      else
        (s\<lparr>err := jtext_or (useT lang (ux ''falha na autentica{e7}{e3}o'') (Some (u ''authentication failed'')))
                 (jget (u ''message'') (jget (u ''error'') r))\<rparr>, []))"
| "login_step lang nxt (Auth_answer mail (Rejected m)) s = (s, [])"

definition login_input :: "jstr \<Rightarrow> jstr \<Rightarrow> field \<Rightarrow> login_event node" where
  "login_input ph v k = El ''input'' [Placeholder ph, Value v, OnInput (Typed k), OnEnter Submit] []"

definition login_view :: "jstr \<Rightarrow> login \<Rightarrow> login_event node list" where
  "login_view lang s =
     (let t = (\<lambda>p e. useT lang p (Some e)); lg = (l_mode s = Login) in
      [dv [dv
        ([dv [Txt (u ''apifor''), spt (u ''.''), spt (u ''DEV'')],
          dvt (if lg then t (ux ''Entre na sua organiza{e7}{e3}o'') (u ''Sign in to your organization'')
               else t (ux ''Crie sua organiza{e7}{e3}o'') (u ''Create your organization'')),
          dv ([login_input (t (u ''email'') (u ''email'')) (email s) Email,
               login_input (t (u ''senha'') (u ''password'')) (password s) Password]
              @ shown (\<not> lg) [login_input (t (ux ''nome da organiza{e7}{e3}o'') (u ''organization name'')) (org s) Org]
              @ [El ''button'' [OnClick Submit]
                   [Txt (if lg then t (u ''Entrar'') (u ''Sign in'') else t (ux ''Criar organiza{e7}{e3}o'') (u ''Create organization''))]])]
         @ shown (err s \<noteq> []) [dvt (err s)]
         @ [dv [Txt (if lg then t (ux ''N{e3}o tem conta?'') (u ''No account?'') else t (ux ''J{e1} tem conta?'') (u ''Have an account?'')),
                Txt (u '' ''),
                El ''a'' [OnClick Switch_mode]
                  [Txt (if lg then t (u ''criar org'') (u ''create org'') else t (u ''fazer login'') (u ''sign in''))]]])]])"

subsection \<open>Sign out\<close>

text \<open>\<open>setToken(null); location.href = "/login"\<close>.\<close>

definition sign_out :: "unit cmd list" where
  "sign_out = [DelItem token_key, GoTo (u ''/login'')]"

subsection \<open>Facts\<close>

lemma gate_content: "page_view g loading children = [] \<longleftrightarrow> authed g \<noteq> Some True"
  by (simp add: page_view_def)

lemma gate_answer_authed:
  "authed (fst (gate_answer r g)) = Some True \<or> fst (gate_answer r g) = g"
  by (simp add: gate_answer_def split: outcome.split)

lemma useT_nonempty: "p \<noteq> [] \<Longrightarrow> e \<noteq> [] \<Longrightarrow> useT lang p (Some e) \<noteq> []"
  by (simp add: useT_def)

text \<open>
  The gate opens the page even when the profile request is refused with 401: the session is
  cleared, and the page content is rendered all the same.
\<close>

lemma gate_opens_on_expired_session:
  assumes "has_window b" "status r = 401"
  shows "let (b1, out) = api_settle (Answered r) b in
    getToken b1 = None \<and> page_view (fst (gate_answer out g)) loading children \<noteq> []"
  using assms
  by (auto simp: api_settle_def safeJson_def Let_def setToken_def getToken_def gate_answer_def gate_content)

text \<open>
  The answer to the profile request opens the page for everyone but a superadmin, and that one
  is sent to the administration area with the page kept empty.
\<close>

lemma gate_keeps_superadmin_out:
  "(page_view (fst (gate_answer r gate_start)) loading children = []
      \<longleftrightarrow> (\<exists>j. r = Resolved j \<and> jget (u ''role'') j = JStr (u ''superadmin'')))
   \<and> (snd (gate_answer r gate_start) = [] \<or> snd (gate_answer r gate_start) = [ReplaceTo (u ''/superadmin'')])"
  by (cases r) (auto simp: gate_content gate_answer_def gate_start_def)

end
