(* ===== verification/Poll.thy ===== *)
theory Poll
  imports Browser
begin

text \<open>
  The polling hook usePoll of app/ui.tsx. The data of a poll is null until the first good answer;
  an answer without a \<open>data\<close> field (what safeJson gives for a failed request) or a rejected request
  leaves it as it is. Answers act when they arrive, whatever the order of their requests.
\<close>

datatype 'a pdata = Undef | Nul | Dat 'a

record 'a poll =
  pd :: "'a pdata"
  ticking :: bool

datatype 'a poll_event =
    Poll_mount
  | Poll_tick
  | Poll_reload
  | Poll_answer "'a pdata outcome"
  | Poll_unmount

definition poll_start :: "'a poll" where
  "poll_start = \<lparr>pd = Nul, ticking = False\<rparr>"

definition poll_accept :: "'a pdata outcome \<Rightarrow> 'a pdata \<Rightarrow> 'a pdata" where
  "poll_accept r cur = (case r of Resolved d \<Rightarrow> (if d \<noteq> Undef then d else cur) | Rejected _ \<Rightarrow> cur)"

fun poll_step :: "jstr \<Rightarrow> 'a poll_event \<Rightarrow> 'a poll \<Rightarrow> 'a poll \<times> unit cmd list" where
  "poll_step path Poll_mount p = (p\<lparr>ticking := True\<rparr>, [Send GET path None ()])"
| "poll_step path Poll_tick p = (p, if ticking p then [Send GET path None ()] else [])"
| "poll_step path Poll_reload p = (p, [Send GET path None ()])"
| "poll_step path (Poll_answer r) p = (p\<lparr>pd := poll_accept r (pd p)\<rparr>, [])"
| "poll_step path Poll_unmount p = (p\<lparr>ticking := False\<rparr>, [])"

text \<open>\<open>data || []\<close> and the loading effect of the pages: \<open>if (data !== undefined) setLoading(false)\<close>.\<close>

fun or_empty :: "'a list pdata \<Rightarrow> 'a list" where
  "or_empty (Dat xs) = xs"
| "or_empty Nul = []"
| "or_empty Undef = []"

definition loading_effect :: "'a pdata \<Rightarrow> bool \<Rightarrow> bool" where
  "loading_effect d l = (if d \<noteq> Undef then False else l)"

subsection \<open>What the hook shows\<close>

text \<open>The specification: the last payload among the events that was there, or null.\<close>

fun last_payload :: "'a pdata \<Rightarrow> 'a poll_event list \<Rightarrow> 'a pdata" where
  "last_payload d [] = d"
| "last_payload d (Poll_answer (Resolved x) # es) = last_payload (if x = Undef then d else x) es"
| "last_payload d (_ # es) = last_payload d es"

lemma poll_run_data:
  "pd (run (\<lambda>e p. fst (poll_step path e p)) es p) = last_payload (pd p) es"
proof (induction es arbitrary: p)
  case Nil
  then show ?case by simp
next
  case (Cons e es)
  show ?case
  proof (cases e)
    case (Poll_answer r)
    then show ?thesis by (cases r) (simp_all add: Cons.IH poll_accept_def)
  qed (simp_all add: Cons.IH)
qed

definition poll_defined :: "'a poll \<Rightarrow> bool" where
  "poll_defined p = (pd p \<noteq> Undef)"

interpretation polling: stepper poll_start "\<lambda>e p. fst (poll_step path e p)" poll_defined
  for path
proof
  show "poll_defined poll_start" by (simp add: poll_defined_def poll_start_def)
  show "poll_defined (fst (poll_step path e p))" if "poll_defined p" for e :: "'a poll_event" and p
    using that by (cases e) (auto simp: poll_defined_def poll_accept_def split: outcome.split)
qed

lemma poll_silent_when_stopped:
  "\<not> ticking p \<Longrightarrow> snd (poll_step path Poll_tick p) = []"
  by simp

lemma poll_accept_defined: "cur \<noteq> Undef \<Longrightarrow> poll_accept r cur \<noteq> Undef"
  by (simp add: poll_accept_def split: outcome.split)

end
