(* ===== verification/Nav.thy ===== *)
theory Nav
  imports Ui_Kit Poll
begin

text \<open>
  Navigation of app/ui.tsx: the menu table, the counters of the sidebar (useCounts), the sidebar,
  and the command palette as a state machine over its keys.
\<close>

subsection \<open>Menu table\<close>

record nav_item =
  n_href :: jstr
  n_label :: jstr
  n_count :: "jstr option"

definition item :: "jstr \<Rightarrow> jstr \<Rightarrow> jstr option \<Rightarrow> nav_item" where
  "item h l c = \<lparr>n_href = h, n_label = l, n_count = c\<rparr>"

definition NAV :: "(jstr \<times> nav_item list) list" where
  "NAV = [
    ((u ''op''), [item (u ''/'') (u ''Dashboard'') None, item (u ''/queue'') (u ''Fila'') (Some (u ''queue'')), item (u ''/tasks'') (u ''Tarefas'') None,
       item (u ''/prs'') (u ''Pull Requests'') (Some (u ''prs'')), item (u ''/interventions'') (ux ''Interven{e7}{e3}o'') (Some (u ''interv'')),
       item (u ''/live'') (u ''Live'') (Some (u ''workers'')), item (u ''/ci'') (u ''CI'') None, item (u ''/qa'') (u ''QA'') None,
       item (u ''/routines'') (u ''Rotinas'') None, item (u ''/telemetry'') (u ''Telemetria'') None, item (u ''/logs'') (u ''Logs'') None]),
    ((u ''sys''), [item (u ''/knowledge'') (u ''Conhecimento'') None, item (u ''/config'') (ux ''Configura{e7}{e3}o'') None,
       item (u ''/web'') (u ''Web'') None, item (u ''/cloud'') (u ''Cloud'') None, item (u ''/audit'') (u ''Auditoria'') None]),
    ((u ''acct''), [item (u ''/org'') (ux ''Organiza{e7}{e3}o'') None, item (u ''/usage'') (u ''Uso'') None, item (u ''/invoices'') (u ''Faturas'') None,
       item (u ''/pricing'') (u ''Planos'') None, item (u ''/conta'') (u ''Conta'') None, item (u ''/ajuda'') (u ''Ajuda'') None])]"

subsection \<open>Counters\<close>

record counts =
  c_workers :: nat
  c_queue :: nat
  c_prs :: nat
  c_interv :: nat

definition count_of :: "('a list \<Rightarrow> nat) \<Rightarrow> 'a list pdata outcome \<Rightarrow> nat" where
  "count_of f r = (case r of Resolved d \<Rightarrow> f (or_empty d) | Rejected _ \<Rightarrow> 0)"

definition waiting_states :: "jstr list" where
  "waiting_states = [(u ''queued''), (u ''planning''), (u ''assigned'')]"

text \<open>The four answers of one load: workers, task states, pull request states, interventions.\<close>

definition load_counts ::
  "'a list pdata outcome \<Rightarrow> jstr list pdata outcome \<Rightarrow> jstr list pdata outcome \<Rightarrow> 'b list pdata outcome \<Rightarrow> counts" where
  "load_counts workers tasks prs interv =
     \<lparr>c_workers = count_of length workers,
      c_queue = count_of (\<lambda>d. length (filter (\<lambda>s. s \<in> set waiting_states) d)) tasks,
      c_prs = count_of (\<lambda>d. length (filter (\<lambda>s. s \<noteq> (u ''merged'')) d)) prs,
      c_interv = count_of length interv\<rparr>"

definition count_key :: "counts option \<Rightarrow> jstr option \<Rightarrow> nat option" where
  "count_key c k =
     (case (c, k) of
        (Some c', Some k') \<Rightarrow>
          map_of [((u ''workers''), c_workers c'), ((u ''queue''), c_queue c'), ((u ''prs''), c_prs c'), ((u ''interv''), c_interv c')] k'
      | _ \<Rightarrow> None)"

subsection \<open>Sidebar\<close>

definition sidebar_item :: "jstr \<Rightarrow> jstr \<Rightarrow> counts option \<Rightarrow> nav_item \<Rightarrow> 'e node" where
  "sidebar_item lang path c i =
     (let active = (path = n_href i) in
      El ''a'' [Key (n_href i), Href (n_href i), ClassName (if active then [] else (u ''apf-navitem''))]
        (shown active [El ''span'' [] []]
         @ [El ''svg'' [Sty ''stroke'' (if active then (u ''var(--accent)'') else (u ''var(--mute)''))] [],
            Txt (navLabel lang (n_href i) (n_label i))]
         @ countBadge (count_key c (n_count i)) (if n_href i = (u ''/interventions'') then (u ''red'') else (u ''accent''))))"

definition workers_of :: "counts option \<Rightarrow> nat" where
  "workers_of c = (case c of Some x \<Rightarrow> c_workers x | None \<Rightarrow> 0)"

definition sidebar_view :: "jstr \<Rightarrow> jstr \<Rightarrow> counts option \<Rightarrow> 'e node" where
  "sidebar_view lang path c =
     El ''aside'' []
       [dv [sp [Txt (u ''apifor''), spt (u ''.'')], spt (u ''DEV'')],
        Comp ''WorkspaceMenu'',
        El ''nav'' [] (map (\<lambda>(key, its). El ''div'' [Key key]
            (dvt (t_shell lang key) # map (sidebar_item lang path c) its)) NAV),
        dv [El ''span'' [Sty ''color'' (if workers_of c \<noteq> 0 then (u ''var(--green)'') else (u ''var(--mute)''))] [Txt (ux ''{25cf}'')],
            Txt (t_shell lang (u ''pool'')), Txt (ux '' {b7} ''), Txt (nshow (workers_of c)), Txt (ux '' worker(s) {b7} v0.9'')]]"

subsection \<open>Command palette\<close>

record pal_item =
  i_href :: jstr
  i_label :: jstr
  i_group :: jstr

definition ALL_ITEMS :: "pal_item list" where
  "ALL_ITEMS =
     concat (map (\<lambda>(g, its). map (\<lambda>i. \<lparr>i_href = n_href i, i_label = n_label i, i_group = g\<rparr>) its) NAV)
     @ [\<lparr>i_href = (u ''/notifications''), i_label = (ux ''Notifica{e7}{f5}es''), i_group = (u ''op'')\<rparr>,
        \<lparr>i_href = (u ''/onboarding''), i_label = (ux ''In{ed}cio''), i_group = (u ''sys'')\<rparr>]"

record palette =
  p_open :: bool
  p_q :: jstr
  p_sel :: int

datatype pal_event =
    Ctrl_K
  | Escape_key
  | Open_event
  | Backdrop
  | Type_q jstr
  | Arrow_down
  | Arrow_up
  | Enter_key
  | Hover nat
  | Pick jstr

definition palette_start :: palette where
  "palette_start = \<lparr>p_open = False, p_q = [], p_sel = 0\<rparr>"

definition pal_matches :: "(jstr \<Rightarrow> jstr) \<Rightarrow> jstr \<Rightarrow> pal_item list" where
  "pal_matches lc q = filter (\<lambda>i. contains (lc (i_label i)) (lc q)) ALL_ITEMS"

text \<open>The effect on \<open>open\<close>: when it became true, the query and the selection are reset.\<close>

definition open_effect :: "palette \<Rightarrow> palette \<Rightarrow> palette" where
  "open_effect old new = (if p_open new \<and> \<not> p_open old then new\<lparr>p_q := [], p_sel := 0\<rparr> else new)"

definition pal_go :: "jstr \<Rightarrow> palette \<Rightarrow> palette \<times> unit cmd list" where
  "pal_go href s = (s\<lparr>p_open := False\<rparr>, [GoTo href])"

text \<open>Keys of the input and clicks in the list exist only while the palette is open.\<close>

fun pal_step :: "(jstr \<Rightarrow> jstr) \<Rightarrow> pal_event \<Rightarrow> palette \<Rightarrow> palette \<times> unit cmd list" where
  "pal_step lc Ctrl_K s = (open_effect s (s\<lparr>p_open := \<not> p_open s\<rparr>), [])"
| "pal_step lc Escape_key s = (s\<lparr>p_open := False\<rparr>, [])"
| "pal_step lc Open_event s = (open_effect s (s\<lparr>p_open := True\<rparr>), [])"
| "pal_step lc Backdrop s = (s\<lparr>p_open := False\<rparr>, [])"
| "pal_step lc (Type_q v) s = (if p_open s then (s\<lparr>p_q := v, p_sel := 0\<rparr>, []) else (s, []))"
| "pal_step lc Arrow_down s =
     (if p_open s then (s\<lparr>p_sel := min (p_sel s + 1) (int (length (pal_matches lc (p_q s))) - 1)\<rparr>, [])
      else (s, []))"
| "pal_step lc Arrow_up s = (if p_open s then (s\<lparr>p_sel := max (p_sel s - 1) 0\<rparr>, []) else (s, []))"
| "pal_step lc Enter_key s =
     (let ms = pal_matches lc (p_q s) in
      if p_open s \<and> 0 \<le> p_sel s \<and> p_sel s < int (length ms)
      then pal_go (i_href (ms ! nat (p_sel s))) s else (s, []))"
| "pal_step lc (Hover i) s =
     (if p_open s \<and> i < length (pal_matches lc (p_q s)) then (s\<lparr>p_sel := int i\<rparr>, []) else (s, []))"
| "pal_step lc (Pick h) s =
     (if p_open s \<and> (\<exists>m \<in> set (pal_matches lc (p_q s)). i_href m = h) then pal_go h s else (s, []))"

definition palette_view :: "(jstr \<Rightarrow> jstr) \<Rightarrow> palette \<Rightarrow> pal_event node list" where
  "palette_view lc s =
     (if \<not> p_open s then []
      else (let ms = pal_matches lc (p_q s) in
        [El ''div'' [OnClick Backdrop]
          [El ''div'' [StopClick]
            [El ''input'' [Value (p_q s), Placeholder (ux ''Ir para{2026}''), OnInput Type_q, OnEnter Enter_key] [],
             dv (map (\<lambda>(i, m). El ''div'' [Key (i_href m), OnHover (Hover i), OnClick (Pick (i_href m)),
                     Sty ''background'' (if int i = p_sel s then (u ''var(--accent-tint)'') else (u ''transparent'')),
                     Sty ''color'' (if int i = p_sel s then (u ''var(--accent)'') else (u ''var(--ink)''))]
                   [spt (i_label m), El ''code'' [] [Txt (i_href m)]]) (enumerate 0 ms)
                 @ shown (ms = []) [dvt (u ''Nenhum resultado'')])]]]))"

text \<open>The selection is an item of the list whenever the list has items.\<close>

definition palette_inv :: "(jstr \<Rightarrow> jstr) \<Rightarrow> palette \<Rightarrow> bool" where
  "palette_inv lc s =
     (pal_matches lc (p_q s) = [] \<or> (0 \<le> p_sel s \<and> p_sel s < int (length (pal_matches lc (p_q s)))))"

lemma pal_matches_Nil: "pal_matches lc q \<noteq> [] \<Longrightarrow> 0 < length (pal_matches lc q)"
  by simp

lemma palette_inv_step: "palette_inv lc s \<Longrightarrow> palette_inv lc (fst (pal_step lc e s))"
  by (cases e) (auto simp: palette_inv_def open_effect_def pal_go_def Let_def)

interpretation palette_machine: stepper palette_start "\<lambda>e s. fst (pal_step lc e s)" "palette_inv lc"
  for lc
  by unfold_locales (simp_all add: palette_inv_step, simp add: palette_inv_def palette_start_def)

lemma pal_matches_subset: "set (pal_matches lc q) \<subseteq> set ALL_ITEMS"
  by (auto simp: pal_matches_def)

lemma pal_step_go:
  "GoTo h \<in> set (snd (pal_step lc e s)) \<Longrightarrow> \<exists>m \<in> set (pal_matches lc (p_q s)). i_href m = h"
  by (cases e) (auto simp: pal_go_def Let_def split: if_splits)

end
