(* ===== verification/Notif_Menu.thy ===== *)
theory Notif_Menu
  imports Session Nav
begin

text \<open>
  The top bar of app/ui.tsx: the notification drop-down (NotifMenu, timeAgo), the unread counter
  fed by the event stream (useUnread), the language and profile menus, and the bar itself.
  Instants are milliseconds since the epoch; \<open>None\<close> is a date that does not parse.
\<close>

subsection \<open>Ages\<close>

text \<open>The differences are far below \<open>2^53\<close>, so Math.floor(x / n) is integer division.\<close>

definition timeAgo :: "int \<Rightarrow> int option \<Rightarrow> jstr" where
  "timeAgo now d =
     (case d of
        None \<Rightarrow> (u ''NaNd'')
      | Some t \<Rightarrow>
          (let s = (now - t) div 1000 in
           if s < 60 then (u ''agora'')
           else if s < 3600 then ishow (s div 60) @ (u ''m'')
           else if s < 86400 then ishow (s div 3600) @ (u ''h'')
           else ishow (s div 86400) @ (u ''d'')))"

subsection \<open>Notifications\<close>

record notif =
  nf_id :: jstr
  nf_type :: jstr
  nf_title :: jstr
  nf_body :: jstr
  nf_read :: bool
  nf_at :: "int option"

definition mk_notif :: "jstr \<Rightarrow> jstr \<Rightarrow> jstr \<Rightarrow> jstr \<Rightarrow> bool \<Rightarrow> int \<Rightarrow> notif" where
  "mk_notif i ty ti bo r w = \<lparr>nf_id = i, nf_type = ty, nf_title = ti, nf_body = bo, nf_read = r, nf_at = Some w\<rparr>"

text \<open>NOTIF_MOCK, with the instant at which the module was loaded.\<close>

definition NOTIF_MOCK :: "int \<Rightarrow> notif list" where
  "NOTIF_MOCK now = [
     mk_notif (u ''n1'') (u ''pr_merged'') (u ''PR mergeado'') (ux ''feat/workers-pinned {2192} main {b7} #44'') False (now - 18 * 60000),
     mk_notif (u ''n2'') (u ''task_done'') (ux ''Tarefa conclu{ed}da'') (u ''fix: auth middleware token expiry check'') False (now - 55 * 60000),
     mk_notif (u ''n3'') (u ''worker_error'') (u ''Worker interrompido'') (ux ''Conflito em migra{e7}{e3}o 0042_alter_invoice'') False (now - 2 * 3600000),
     mk_notif (u ''n4'') (u ''info'') (u ''Plano atualizado'') (u ''Conta migrada para o plano Pro com sucesso.'') True (now - 24 * 3600000),
     mk_notif (u ''n5'') (u ''task_done'') (ux ''Tarefa conclu{ed}da'') (u ''feat: config do pool funcional (liga/desliga)'') True (now - 2 * 86400000)]"

definition NOTIF_COLOR :: "(jstr \<times> jstr \<times> jstr) list" where
  "NOTIF_COLOR = [
     ((u ''pr_merged''), (u ''var(--blue)''), (u ''rgba(88,166,255,.12)'')),
     ((u ''task_done''), (u ''var(--green)''), (u ''var(--green-tint)'')),
     ((u ''worker_error''), (u ''var(--red)''), (u ''var(--red-tint)'')),
     ((u ''info''), (u ''var(--accent)''), (u ''var(--accent-tint)''))]"

definition notif_color :: "jstr \<Rightarrow> jstr \<times> jstr" where
  "notif_color ty = lookup_or ((u ''var(--accent)''), (u ''var(--accent-tint)'')) NOTIF_COLOR ty"

record notif_menu =
  nm_open :: bool
  notifs :: "notif list"
  nm_loading :: bool
  nm_rect :: bool

datatype notif_tag = Get_notifs | Get_mark_read

datatype notif_event =
    Bell
  | Close_panel
  | Notifs_answer "notif list pdata outcome"
  | Mark_all
  | Mark_one jstr

definition notif_start :: notif_menu where
  "notif_start = \<lparr>nm_open = False, notifs = [], nm_loading = False, nm_rect = False\<rparr>"

definition openMenu :: "notif_menu \<Rightarrow> notif_menu \<times> notif_tag cmd list" where
  "openMenu s =
     (let s1 = s\<lparr>nm_rect := True, nm_open := True\<rparr> in
      if notifs s1 \<noteq> [] then (s1, [])
      else (s1\<lparr>nm_loading := True\<rparr>, [Send GET (u ''/v1/notifications'') None Get_notifs]))"

definition markAll :: "notif_menu \<Rightarrow> notif_menu \<times> notif_tag cmd list" where
  "markAll s = (s\<lparr>notifs := map (\<lambda>n. n\<lparr>nf_read := True\<rparr>) (notifs s)\<rparr>,
                [Send GET (u ''/v1/notifications/mark-read'') None Get_mark_read])"

definition markOne :: "jstr \<Rightarrow> notif_menu \<Rightarrow> notif_menu" where
  "markOne i s = s\<lparr>notifs := map (\<lambda>n. if nf_id n = i then n\<lparr>nf_read := True\<rparr> else n) (notifs s)\<rparr>"

definition notifs_answer :: "int \<Rightarrow> notif list pdata outcome \<Rightarrow> notif_menu \<Rightarrow> notif_menu" where
  "notifs_answer t0 r s =
     (case r of
        Resolved d \<Rightarrow> s\<lparr>notifs := (if or_empty d \<noteq> [] then or_empty d else NOTIF_MOCK t0), nm_loading := False\<rparr>
      | Rejected _ \<Rightarrow> s\<lparr>notifs := NOTIF_MOCK t0, nm_loading := False\<rparr>)"

fun notif_step :: "int \<Rightarrow> notif_event \<Rightarrow> notif_menu \<Rightarrow> notif_menu \<times> notif_tag cmd list" where
  "notif_step t0 Bell s = (if nm_open s then (s\<lparr>nm_open := False\<rparr>, []) else openMenu s)"
| "notif_step t0 Close_panel s = (s\<lparr>nm_open := False\<rparr>, [])"
| "notif_step t0 (Notifs_answer r) s = (notifs_answer t0 r s, [])"
| "notif_step t0 Mark_all s = markAll s"
| "notif_step t0 (Mark_one i) s = (markOne i s, [])"

definition unread_in :: "notif list \<Rightarrow> nat" where
  "unread_in ns = length (filter (\<lambda>n. \<not> nf_read n) ns)"

text \<open>\<open>notifs.filter(unread).length || (open ? 0 : initUnread)\<close>.\<close>

definition unreadCount :: "nat \<Rightarrow> notif_menu \<Rightarrow> nat" where
  "unreadCount initUnread s =
     (if unread_in (notifs s) \<noteq> 0 then unread_in (notifs s) else if nm_open s then 0 else initUnread)"

definition badge_text :: "nat \<Rightarrow> jstr" where
  "badge_text n = (if n > 9 then (u ''9+'') else nshow n)"

definition notif_row :: "int \<Rightarrow> notif \<Rightarrow> notif_event node" where
  "notif_row now n =
     El ''div'' [Key (nf_id n), OnClick (Mark_one (nf_id n)),
         Sty ''background'' (if nf_read n then (u ''transparent'') else (u ''color-mix(in srgb, var(--accent-tint) 40%, transparent)''))]
       ([El ''span'' [Sty ''background'' (snd (notif_color (nf_type n))), Sty ''color'' (fst (notif_color (nf_type n)))] [svg],
         dv [dv [El ''span'' [Sty ''font-weight'' (if nf_read n then (u ''500'') else (u ''700''))] [Txt (nf_title n)],
                 spt (timeAgo now (nf_at n))],
             spt (nf_body n)]]
        @ shown (\<not> nf_read n) [sp []])"

definition notif_view :: "int \<Rightarrow> nat \<Rightarrow> notif_menu \<Rightarrow> notif_event node" where
  "notif_view now initUnread s =
     dv ([El ''button'' [OnClick Bell, Title (ux ''Notifica{e7}{f5}es'')]
            ([svg] @ shown (unreadCount initUnread s > 0) [spt (badge_text (unreadCount initUnread s))])]
         @ shown (nm_open s \<and> nm_rect s)
            [El ''div'' [OnClick Close_panel] [],
             dv [dv [spt (ux ''Notifica{e7}{f5}es''),
                     dv (shown (list_ex (\<lambda>n. \<not> nf_read n) (notifs s))
                           [El ''button'' [OnClick Mark_all] [Txt (u ''Marcar tudo como lido'')]]
                         @ [El ''button'' [OnClick Close_panel] [Txt (ux ''{2715}'')]])],
                 dv (shown (nm_loading s) [dvt (ux ''Carregando{2026}'')]
                     @ shown (\<not> nm_loading s \<and> notifs s = []) [dv [svg, spt (ux ''Nenhuma notifica{e7}{e3}o'')]]
                     @ shown (\<not> nm_loading s) (map (notif_row now) (notifs s))),
                 dv [El ''a'' [Href (u ''/notifications''), OnClick Close_panel]
                       [Txt (ux ''Ver todas as notifica{e7}{f5}es {2192}'')]]]])"

subsection \<open>The event stream\<close>

text \<open>A message is the \<open>unread\<close> field of its JSON (\<open>None\<close> when it does not parse: ignored).\<close>

definition unread_message :: "nat option option \<Rightarrow> nat \<Rightarrow> nat" where
  "unread_message m n = (case m of None \<Rightarrow> n | Some None \<Rightarrow> 0 | Some (Some k) \<Rightarrow> k)"

subsection \<open>Language and profile menus\<close>

datatype bar_event =
    Profile_mount
  | Me_answer "(jstr option \<times> jstr option) outcome"
  | Lang_toggle
  | Pick_lang jstr
  | Theme_toggle
  | Open_cmdk
  | Profile_toggle
  | Profile_outside
  | Profile_link
  | Logout

text \<open>LangMenu keeps its open flag; a choice is handed to setLang (the second component).\<close>

fun lang_menu_step :: "bar_event \<Rightarrow> bool \<Rightarrow> bool \<times> jstr option" where
  "lang_menu_step Lang_toggle opn = (\<not> opn, None)"
| "lang_menu_step (Pick_lang code) opn = (False, Some code)"
| "lang_menu_step _ opn = (opn, None)"

definition lang_menu_view :: "(jstr \<Rightarrow> jstr) \<Rightarrow> jstr \<Rightarrow> bool \<Rightarrow> bar_event node" where
  "lang_menu_view uc lang opn =
     dv ([El ''button'' [OnClick Lang_toggle, Title (u ''Idioma'')] [Txt (uc lang)]]
         @ shown opn
            [dv (map (\<lambda>(code, name). El ''div'' [Key code, OnClick (Pick_lang code),
                   Sty ''color'' (if lang = code then (u ''var(--accent)'') else (u ''var(--ink)''))] [Txt name])
                 [(pt, (ux ''Portugu{ea}s'')), (en, (u ''English''))])])"

record profile =
  pf_open :: bool
  pf_me :: "(jstr option \<times> jstr option) option"

text \<open>\<open>(me?.name || me?.user_id || "AP").slice(0, 2).toUpperCase()\<close>.\<close>

definition initials :: "(jstr \<Rightarrow> jstr) \<Rightarrow> (jstr option \<times> jstr option) option \<Rightarrow> jstr" where
  "initials uc me =
     uc (take 2 (case me of Some (name, user) \<Rightarrow> or_else name (or_else user (u ''AP'')) | None \<Rightarrow> (u ''AP'')))"

text \<open>The answer to /v1/me is its \<open>name\<close> and \<open>user_id\<close>, either possibly missing.\<close>

fun profile_step :: "bar_event \<Rightarrow> profile \<Rightarrow> profile \<times> unit cmd list" where
  "profile_step Profile_mount s = (s, [Send GET (u ''/v1/me'') None ()])"
| "profile_step (Me_answer r) s =
     (case r of Resolved m \<Rightarrow> (s\<lparr>pf_me := Some m\<rparr>, []) | Rejected _ \<Rightarrow> (s, []))"
| "profile_step Profile_toggle s = (s\<lparr>pf_open := \<not> pf_open s\<rparr>, [])"
| "profile_step Profile_outside s = (s\<lparr>pf_open := False\<rparr>, [])"
| "profile_step Profile_link s = (s\<lparr>pf_open := False\<rparr>, [])"
| "profile_step Logout s = (s\<lparr>pf_open := False\<rparr>, sign_out)"
| "profile_step _ s = (s, [])"

definition profile_view :: "(jstr \<Rightarrow> jstr) \<Rightarrow> jstr \<Rightarrow> profile \<Rightarrow> bar_event node" where
  "profile_view uc lang s =
     dv ([El ''button'' [OnClick Profile_toggle, Title (if lang = en then (u ''Profile'') else (u ''Perfil''))]
            [Txt (initials uc (pf_me s))]]
         @ shown (pf_open s)
            [dv [dv [dvt (or_else (case pf_me s of Some (n, _) \<Rightarrow> n | None \<Rightarrow> None) (ux ''{2014}'')),
                     dvt (or_else (case pf_me s of Some (_, i) \<Rightarrow> i | None \<Rightarrow> None) (ux ''{2014}''))],
                 El ''a'' [Key (u ''/conta''), Href (u ''/conta''), OnClick Profile_link]
                   [sp [svg], Txt (if lang = en then (u ''Account'') else (u ''Conta''))],
                 El ''a'' [Key (u ''/ajuda''), Href (u ''/ajuda''), OnClick Profile_link]
                   [sp [svg], Txt (if lang = en then (u ''Help'') else (u ''Ajuda''))],
                 dv [El ''button'' [OnClick Logout] [svg, Txt (if lang = en then (u ''Sign out'') else (u ''Sair''))]]]])"

definition topbar_view :: "jstr \<Rightarrow> jstr \<Rightarrow> counts option \<Rightarrow> bar_event node" where
  "topbar_view lang thm_name c =
     (let running = (workers_of c > 0) in
      El ''header'' []
        [El ''button'' [OnClick Open_cmdk] [spt (ux ''{d83d}{dd0d}''), spt (t_shell lang (u ''search'')), El ''kbd'' [] [Txt (ux ''{2318}K'')]],
         sp [],
         El ''span'' [Sty ''background'' (if running then (u ''var(--green-tint)'') else (u ''var(--border)'')),
                      Sty ''color'' (if running then (u ''var(--green)'') else (u ''var(--mute)''))]
           [El ''span'' [ClassName (if running then (u ''apf-live'') else [])] [],
            Txt (if running then (if lang = en then (u ''RUNNING'') else (u ''RODANDO''))
                 else (if lang = en then (u ''STOPPED'') else (u ''PARADO'')))],
         Comp ''LangMenu'',
         El ''button'' [OnClick Theme_toggle, Title (u ''Alternar tema'')]
           [Txt (if thm_name = dark then (ux ''{2600}{fe0f}'') else (ux ''{d83c}{df19}''))],
         Comp ''NotifMenu'',
         Comp ''ProfileMenu''])"

subsection \<open>Facts\<close>

lemma unread_in_markAll: "unread_in (notifs (fst (markAll s))) = 0"
  by (simp add: markAll_def unread_in_def filter_empty_conv)

lemma markOne_others:
  "n \<in> set (notifs s) \<Longrightarrow> nf_id n \<noteq> i \<Longrightarrow> n \<in> set (notifs (markOne i s))"
  by (simp add: markOne_def image_iff)

lemma map_id_markOne: "map nf_id (notifs (markOne i s)) = map nf_id (notifs s)"
  by (simp add: markOne_def)

lemma markOne_read: "\<forall>n \<in> set (notifs (markOne i s)). nf_id n = i \<longrightarrow> nf_read n"
  by (simp add: markOne_def ball_Un)

lemma markOne_count:
  assumes "distinct (map nf_id (notifs s))" "n \<in> set (notifs s)" "\<not> nf_read n"
  shows "Suc (unread_in (notifs (markOne (nf_id n) s))) = unread_in (notifs s)"
proof -
  have "Suc (unread_in (map (\<lambda>m. if nf_id m = nf_id n then m\<lparr>nf_read := True\<rparr> else m) ns)) = unread_in ns"
    if "distinct (map nf_id ns)" "n \<in> set ns" for ns
    using that
  proof (induction ns)
    case Nil
    then show ?case by simp
  next
    case (Cons m ns)
    have same: "map (\<lambda>m. if nf_id m = nf_id n then m\<lparr>nf_read := True\<rparr> else m) ns = ns"
      if "nf_id n \<notin> nf_id ` set ns"
    proof (intro map_idI)
      fix x
      assume "x \<in> set ns"
      then have "nf_id x \<noteq> nf_id n" using that by (metis imageI)
      then show "(if nf_id x = nf_id n then x\<lparr>nf_read := True\<rparr> else x) = x" by simp
    qed
    show ?case
    proof (cases "m = n")
      case True
      with Cons.prems same assms(3) show ?thesis by (simp add: unread_in_def)
    next
      case False
      with Cons.prems have "n \<in> set ns" "nf_id m \<noteq> nf_id n" by auto
      with Cons show ?thesis by (simp add: unread_in_def)
    qed
  qed
  with assms show ?thesis by (simp add: markOne_def)
qed

text \<open>
  An empty list of notifications, or a failed request, is shown as the five sample
  notifications, three of them unread.
\<close>

lemma no_notifications_shows_samples:
  assumes "r = Resolved (Dat []) \<or> r = Resolved Undef \<or> r = Rejected m"
  shows "notifs (fst (notif_step now (Notifs_answer r) s)) = NOTIF_MOCK now
    \<and> unreadCount 0 (fst (notif_step now (Notifs_answer r) s)) = 3"
  using assms by (auto simp: notifs_answer_def unreadCount_def unread_in_def NOTIF_MOCK_def mk_notif_def)

text \<open>
  Marking one unread notification read lowers the unread count by one and leaves every other
  notification as it was; marking all leaves none unread.
\<close>

lemma notifications_marked_read:
  assumes "distinct (map nf_id (notifs s))" "n \<in> set (notifs s)" "\<not> nf_read n"
  shows "Suc (unread_in (notifs (markOne (nf_id n) s))) = unread_in (notifs s)
    \<and> (\<forall>m \<in> set (notifs s). nf_id m \<noteq> nf_id n \<longrightarrow> m \<in> set (notifs (markOne (nf_id n) s)))
    \<and> unread_in (notifs (fst (markAll s))) = 0"
  using markOne_count [OF assms] by (simp add: markOne_others unread_in_markAll)

end
