(* ===== verification/Workspace.thy ===== *)
theory Workspace
  imports Api_Client Ui_Kit Poll
begin

text \<open>
  The workspace switcher of app/ui.tsx (WorkspaceMenu): the list and the current choice, which is
  mirrored in local storage and sent with every request as X-Workspace-ID, and the dialog that
  creates a workspace.
\<close>

record workspace =
  ws_id :: jstr
  ws_name :: jstr
  ws_initial :: jstr

record wsp_menu =
  w_open :: bool
  wsps :: "workspace list"
  curId :: jstr
  role :: jstr
  wspModal :: bool
  wspName :: jstr
  wspSaving :: bool

datatype wsp_tag = Get_wsps | Get_role | Post_wsp

datatype wsp_event =
    Wsp_mount
  | Wsps_answer "workspace list pdata outcome"
  | Role_answer "json outcome"
  | Toggle_menu
  | Outside_click
  | Switch_wsp jstr
  | Open_modal
  | Close_modal
  | Name_typed jstr
  | Create_wsp
  | Create_answer "json outcome"

text \<open>The initial state reads storage: \<open>localStorage.getItem("apifor_wsp") || ""\<close>.\<close>

definition wsp_start :: "browser \<Rightarrow> wsp_menu" where
  "wsp_start b =
     \<lparr>w_open = False, wsps = [], curId = or_else (storage b wsp_key) [], role = [],
      wspModal = False, wspName = [], wspSaving = False\<rparr>"

definition load_wsps :: "wsp_tag cmd list" where
  "load_wsps = [Send GET (u ''/v1/workspaces'') None Get_wsps, Send GET (u ''/v1/me'') None Get_role]"

definition failed_msg :: "jstr \<Rightarrow> jstr" where
  "failed_msg lang = (if lang = en then (u ''Failed to create workspace'') else (u ''Erro ao criar workspace''))"

fun wsp_step :: "jstr \<Rightarrow> wsp_event \<Rightarrow> wsp_menu \<Rightarrow> wsp_menu \<times> wsp_tag cmd list" where
  "wsp_step lang Wsp_mount s = (s, load_wsps)"
| "wsp_step lang (Wsps_answer (Resolved d)) s =
     (let list = or_empty d in
      if curId s = [] \<and> list \<noteq> [] then
        (s\<lparr>wsps := list, curId := ws_id (hd list)\<rparr>, [SetItem wsp_key (ws_id (hd list))])
      else (s\<lparr>wsps := list\<rparr>, []))"
| "wsp_step lang (Wsps_answer (Rejected m)) s = (s, [])"
| "wsp_step lang (Role_answer (Resolved r)) s = (s\<lparr>role := jtext_or [] (jget (u ''role'') r)\<rparr>, [])"
| "wsp_step lang (Role_answer (Rejected m)) s = (s, [])"
| "wsp_step lang Toggle_menu s = (s\<lparr>w_open := \<not> w_open s\<rparr>, [])"
| "wsp_step lang Outside_click s = (s\<lparr>w_open := False\<rparr>, [])"
| "wsp_step lang (Switch_wsp i) s = (s\<lparr>curId := i, w_open := False\<rparr>, [SetItem wsp_key i, ReloadPage])"
| "wsp_step lang Open_modal s = (s\<lparr>w_open := False, wspName := [], wspModal := True\<rparr>, [])"
| "wsp_step lang Close_modal s = (s\<lparr>wspModal := False\<rparr>, [])"
| "wsp_step lang (Name_typed v) s = (s\<lparr>wspName := v\<rparr>, [])"
| "wsp_step lang Create_wsp s =
     (if trim (wspName s) = [] then (s, [])
      else (s\<lparr>wspSaving := True\<rparr>,
            [Send POST (u ''/v1/workspaces'') (Some (JObj [((u ''name''), JStr (trim (wspName s)))])) Post_wsp]))"
| "wsp_step lang (Create_answer (Resolved r)) s =
     (case jget (u ''id'') r of
        JStr i \<Rightarrow>
          (if i \<noteq> [] then
             (s\<lparr>curId := i, wspModal := False, wspSaving := False\<rparr>,
              [SetItem wsp_key i,
               Toast (if lang = en then (u ''Workspace created!'') else (u ''Workspace criado com sucesso!'')) Success]
              @ load_wsps @ [ReloadPage])
           else (s\<lparr>wspSaving := False\<rparr>, [Toast (jtext_or (failed_msg lang) (jget (u ''message'') (jget (u ''error'') r))) Error]))
      | _ \<Rightarrow> (s\<lparr>wspSaving := False\<rparr>, [Toast (jtext_or (failed_msg lang) (jget (u ''message'') (jget (u ''error'') r))) Error]))"
| "wsp_step lang (Create_answer (Rejected m)) s =
     (s\<lparr>wspSaving := False\<rparr>, [Toast (failed_msg lang) Error])"

text \<open>\<open>wsps.find((w) => w.id === curId) || wsps[0]\<close>.\<close>

definition cur_wsp :: "wsp_menu \<Rightarrow> workspace option" where
  "cur_wsp s =
     (case find (\<lambda>w. ws_id w = curId s) (wsps s) of
        Some w \<Rightarrow> Some w
      | None \<Rightarrow> (case wsps s of [] \<Rightarrow> None | w # _ \<Rightarrow> Some w))"

definition create_disabled :: "wsp_menu \<Rightarrow> bool" where
  "create_disabled s = (wspSaving s \<or> trim (wspName s) = [])"

definition wsp_view :: "jstr \<Rightarrow> wsp_menu \<Rightarrow> wsp_event node list" where
  "wsp_view lang s =
     [dv ([El ''button'' [OnClick Toggle_menu]
            [spt (or_else (map_option ws_initial (cur_wsp s)) (u ''P'')),
             sp [El ''b'' [] [Txt (or_else (map_option ws_name (cur_wsp s)) (u ''Principal''))],
                 sp ([Txt (t_shell lang (u ''wsp''))] @ shown (role s \<noteq> []) [Txt ((ux '' {b7} '') @ role s)])],
             spt (ux ''{25be}'')]]
          @ shown (w_open s)
             [dv (map (\<lambda>w. El ''div'' [Key (ws_id w), OnClick (Switch_wsp (ws_id w)),
                       Sty ''background'' (if ws_id w = curId s then (u ''var(--accent-tint)'') else (u ''transparent'')),
                       Sty ''color'' (if ws_id w = curId s then (u ''var(--accent)'') else (u ''var(--ink)''))]
                     ([El ''span'' [Sty ''background'' (if ws_id w = curId s then (u ''var(--accent)'') else (u ''var(--accent-tint)''))]
                         [Txt (ws_initial w)],
                       Txt (ws_name w)]
                      @ shown (ws_id w = curId s) [spt (ux ''{2713}'')])) (wsps s)
                  @ [El ''div'' [OnClick Open_modal] [Txt (u ''+ ''), Txt (t_shell lang (u ''newWsp''))]])])]
     @ shown (wspModal s)
         [modal lang (u ''Novo workspace'') Close_modal
            [El ''label'' []
              [spt (if lang = en then (u ''Workspace name'') else (u ''Nome do workspace'')),
               El ''input'' [Value (wspName s), OnInput Name_typed, OnEnter Create_wsp,
                 Placeholder (if lang = en then (u ''e.g. Production'') else (ux ''ex: Produ{e7}{e3}o''))] []]]
            (Some [El ''button'' [OnClick Close_modal] [Txt (u ''Cancelar'')],
               El ''button'' [OnClick Create_wsp, Disabled (create_disabled s)]
                 [Txt (if wspSaving s then (if lang = en then (ux ''Creating{2026}'') else (ux ''Criando{2026}''))
                       else (if lang = en then (u ''Create'') else (u ''Criar'')))]])]"

subsection \<open>The choice and its copy in storage\<close>

text \<open>A step of the menu together with its effects on the browser.\<close>

fun wsp_world_step :: "jstr \<Rightarrow> wsp_event \<Rightarrow> browser \<times> wsp_menu \<Rightarrow> browser \<times> wsp_menu" where
  "wsp_world_step lang e (b, s) = (let (s', cs) = wsp_step lang e s in (perform_all cs b, s'))"

definition wsp_synced :: "browser \<times> wsp_menu \<Rightarrow> bool" where
  "wsp_synced w = (or_else (storage (fst w) wsp_key) [] = curId (snd w))"

lemma wsp_synced_start: "wsp_synced (b, wsp_start b)"
  by (simp add: wsp_synced_def wsp_start_def)

lemma or_else_Some [simp]: "or_else (Some v) [] = v"
  by (simp add: or_else_def)

lemma wsp_synced_step: "wsp_synced w \<Longrightarrow> wsp_synced (wsp_world_step lang e w)"
proof (cases w)
  case (Pair b s)
  assume "wsp_synced w"
  then show ?thesis
    unfolding Pair
    by (cases "(lang, e, s)" rule: wsp_step.cases)
       (auto simp: wsp_synced_def Let_def load_wsps_def split: json.split)
qed

interpretation wsp_world: stepper "(b, wsp_start b)" "wsp_world_step lang" wsp_synced
  for b lang
  by unfold_locales (rule wsp_synced_start, rule wsp_synced_step)

lemma perform_all_window [frame_simps]: "has_window (perform_all cs b) = has_window b"
  by (induction cs arbitrary: b) (simp_all add: frame_simps)

lemma create_click_guard:
  "Create_wsp \<in> set (all_clicks (wsp_view lang s)) \<longleftrightarrow> wspModal s \<and> \<not> create_disabled s"
  by (auto simp: wsp_view_def modal_def set_all_clicks_map)

text \<open>
  A stored choice that is no longer in the list survives the answer: the menu shows the first
  workspace while requests keep carrying the identifier of the lost one.
\<close>

lemma stale_workspace_is_sent:
  assumes "curId s \<noteq> []" "ws \<noteq> []" "\<forall>w \<in> set ws. ws_id w \<noteq> curId s"
  shows "let (s1, cs) = wsp_step lang (Wsps_answer (Resolved (Dat ws))) s in
    cur_wsp s1 = Some (hd ws) \<and> cs = [] \<and> curId s1 = curId s \<and> ws_id (hd ws) \<noteq> curId s1"
proof -
  have "find (\<lambda>w. ws_id w = curId s) ws = None" using assms(3) by (simp add: find_None_iff)
  then show ?thesis using assms by (cases ws) (auto simp: cur_wsp_def)
qed

text \<open>
  The button that creates a workspace answers a click exactly when the dialog is open, nothing
  is being saved and the name is not blank; the request then carries the trimmed name.
\<close>

lemma workspace_create_guard:
  "(Create_wsp \<in> set (all_clicks (wsp_view lang s)) \<longleftrightarrow> wspModal s \<and> \<not> wspSaving s \<and> trim (wspName s) \<noteq> [])
   \<and> sends (snd (wsp_step lang Create_wsp s)) =
       (if trim (wspName s) = [] then []
        else [(POST, (u ''/v1/workspaces''), Some (JObj [((u ''name''), JStr (trim (wspName s)))]), Post_wsp)])"
  by (auto simp: create_click_guard create_disabled_def)

end
