(* ===== verification/Console.thy ===== *)
theory Console
  imports Session Workspace
begin

text \<open>
  One tab of the console, seen from the network: the browser, the requests in flight and the tokens
  the login answers have carried. The components act on it in any order, as the inductive relation
  \<open>tab_step\<close> says: any of them sends a request, any request in flight is settled, a login answer
  arrives, the user signs out, the workspace menu handles an event, a page gate mounts.
\<close>

record tab =
  tb :: browser
  flight :: "request list"
  issued :: "jstr list"

datatype action = Sends | Settles | Signs_in | Signs_out | Menu | Gate

definition token_in :: "json \<Rightarrow> jstr list" where
  "token_in j = (case jget (u ''access_token'') j of JStr t \<Rightarrow> [t] | _ \<Rightarrow> [])"

inductive tab_step :: "jstr option \<Rightarrow> action \<Rightarrow> tab \<Rightarrow> tab \<Rightarrow> bool" for env where
  Sends: "tab_step env Sends T (T\<lparr>flight := flight T @ [api_request env (tb T) m p bd]\<rparr>)"
| Settles: "q \<in> set (flight T) \<Longrightarrow>
    tab_step env Settles T (T\<lparr>tb := fst (api_settle f (tb T)), flight := remove1 q (flight T)\<rparr>)"
| Signs_in: "tab_step env Signs_in T
    (T\<lparr>tb := perform_all (snd (login_step lang nxt (Auth_answer mail (Resolved j)) s)) (tb T),
       issued := token_in j @ issued T\<rparr>)"
| Signs_out: "tab_step env Signs_out T (T\<lparr>tb := perform_all sign_out (tb T)\<rparr>)"
| Menu: "tab_step env Menu T (T\<lparr>tb := perform_all (snd (wsp_step lang e s)) (tb T)\<rparr>)"
| Gate: "gate_mount (tb T) = Some cs \<Longrightarrow> tab_step env Gate T (T\<lparr>tb := perform_all cs (tb T)\<rparr>)"

inductive tab_path :: "jstr option \<Rightarrow> action list \<Rightarrow> tab \<Rightarrow> tab \<Rightarrow> bool" for env where
  Stay: "tab_path env [] T T"
| Go: "tab_step env a T U \<Longrightarrow> tab_path env as U V \<Longrightarrow> tab_path env (a # as) T V"

inductive_cases tab_step_elim: "tab_step env a T U"
inductive_simps tab_path_Nil [simp]: "tab_path env [] T V"
inductive_simps tab_path_Cons: "tab_path env (a # as) T V"

subsection \<open>What the steps do to the stored token\<close>

definition bearers :: "request \<Rightarrow> jstr set" where
  "bearers q = {v. ((u ''Authorization''), v) \<in> set (r_headers q)}"

definition signed_out :: "browser \<Rightarrow> bool" where
  "signed_out b = (getToken b = None \<or> getToken b = Some [])"

lemma header_names [simp]:
  "(u ''content-type'') \<noteq> (u ''Authorization'')" "(u ''Authorization'') \<noteq> (u ''content-type'')"
  "token_key \<noteq> (u ''apifor_email'')" "(u ''apifor_email'') \<noteq> token_key"
  by (simp_all add: u_def token_key_def)

lemma bearers_request:
  "v \<in> bearers (api_request env b m p bd) \<longleftrightarrow> (\<exists>t. getToken b = Some t \<and> t \<noteq> [] \<and> v = (u ''Bearer '') @ t)"
  by (cases m) (auto simp: bearers_def authorization_header)

lemma bearers_signed_out: "signed_out b \<Longrightarrow> bearers (api_request env b m p bd) = {}"
  by (auto simp: signed_out_def bearers_request)

lemma settle_token: "getToken (fst (api_settle f b)) = Some t \<Longrightarrow> getToken b = Some t"
  by (auto simp: api_settle_def safeJson_def Let_def getToken_def setToken_def frame_simps
      split: fetched.splits prod.splits body.splits if_splits)

lemma settle_signed_out: "signed_out b \<Longrightarrow> signed_out (fst (api_settle f b))"
  using settle_token [of f b] by (cases "getToken (fst (api_settle f b))") (auto simp: signed_out_def)

lemma wsp_token: "getToken (perform_all (snd (wsp_step lang e s)) b) = getToken b"
  by (cases "(lang, e, s)" rule: wsp_step.cases)
    (auto simp: getToken_def Let_def load_wsps_def split: json.split)

lemma gate_token: "gate_mount b = Some cs \<Longrightarrow> getToken (perform_all cs b) = getToken b"
  by (auto simp: gate_mount_def getToken_def split: if_splits)

lemma sign_out_token: "signed_out (perform_all sign_out b)"
  by (simp add: signed_out_def sign_out_def getToken_def)

lemma login_token:
  "getToken (perform_all (snd (login_step lang nxt (Auth_answer mail (Resolved j)) s)) b) \<in>
     {getToken b, Some []} \<union> Some ` set (token_in j)"
  by (auto simp: getToken_def token_in_def split: json.split option.split)

subsection \<open>Invariants\<close>

text \<open>The stored token and the tokens of the requests in flight come from login answers.\<close>

definition tokens_issued :: "tab \<Rightarrow> bool" where
  "tokens_issued T \<longleftrightarrow>
     (\<forall>t. getToken (tb T) = Some t \<longrightarrow> t = [] \<or> t \<in> set (issued T))
     \<and> (\<forall>q \<in> set (flight T). bearers q \<subseteq> (\<lambda>t. (u ''Bearer '') @ t) ` set (issued T))"

lemma tokens_issued_step: "tab_step env a T U \<Longrightarrow> tokens_issued T \<Longrightarrow> tokens_issued U"
proof (induction rule: tab_step.induct)
  case (Sends T m p bd)
  then show ?case by (auto simp: tokens_issued_def bearers_request)
next
  case (Settles q T f)
  then show ?case by (fastforce simp: tokens_issued_def dest: notin_set_remove1 settle_token)
next
  case (Signs_in T j lang nxt mail s)
  then show ?case
    using login_token [of lang nxt mail j s "tb T"] by (fastforce simp: tokens_issued_def)
next
  case (Signs_out T)
  then show ?case using sign_out_token [of "tb T"] by (auto simp: tokens_issued_def signed_out_def)
next
  case (Menu T lang e s)
  then show ?case by (auto simp: tokens_issued_def wsp_token)
next
  case (Gate T cs)
  then show ?case by (auto simp: tokens_issued_def gate_token)
qed

lemma tokens_issued_path: "tab_path env as T U \<Longrightarrow> tokens_issued T \<Longrightarrow> tokens_issued U"
  by (induction rule: tab_path.induct) (auto intro: tokens_issued_step)

text \<open>Without a login answer a signed-out tab stays so and adds no request with a token.\<close>

lemma silent_step:
  assumes "tab_step env a T U" "a \<noteq> Signs_in" "signed_out (tb T)"
  shows "signed_out (tb U) \<and> (\<forall>q \<in> set (flight U). q \<in> set (flight T) \<or> bearers q = {})"
  using assms
proof (induction rule: tab_step.induct)
  case (Settles q T f)
  then show ?case by (auto dest: notin_set_remove1 settle_signed_out)
next
  case (Signs_out T)
  then show ?case by (simp add: sign_out_token)
next
  case (Sends T m p bd)
  then show ?case by (simp add: bearers_signed_out)
next
  case (Menu T lang e s)
  then show ?case by (simp add: signed_out_def wsp_token)
next
  case (Gate T cs)
  then show ?case by (simp add: signed_out_def gate_token)
qed simp

lemma silent_path:
  "tab_path env as T U \<Longrightarrow> Signs_in \<notin> set as \<Longrightarrow> signed_out (tb T) \<Longrightarrow>
     signed_out (tb U) \<and> (\<forall>q \<in> set (flight U). q \<in> set (flight T) \<or> bearers q = {})"
proof (induction rule: tab_path.induct)
  case (Go a T U as V)
  then show ?case using silent_step [of env a T U] by (auto 4 3)
qed simp

definition fresh_tab :: tab where
  "fresh_tab = \<lparr>tb = \<lparr>has_window = True, storage = Map.empty, pathname = (u ''/login''), search = [], navs = []\<rparr>, flight = [], issued = []\<rparr>"

end
