(* ===== verification/Paging.thy ===== *)
theory Paging
  imports App_Prelude
begin

text \<open>
  The pagination every list page of the dashboard repeats: totalPages, safePage, the rows of the
  current page, and the handlers of the two arrow buttons. The lengths are small integers, so
  Math.ceil(len / size) is exact and written with \<open>div\<close>. The locale holds what the pages rely on;
  each page interprets it on its own state.
\<close>

definition total_pages :: "nat \<Rightarrow> 'a list \<Rightarrow> nat" where
  "total_pages n xs = max 1 ((length xs + n - 1) div n)"

definition safe_page :: "nat \<Rightarrow> 'a list \<Rightarrow> nat \<Rightarrow> nat" where
  "safe_page n xs p = min p (total_pages n xs - 1)"

definition page_rows :: "nat \<Rightarrow> 'a list \<Rightarrow> nat \<Rightarrow> 'a list" where
  "page_rows n xs p = page_of n (safe_page n xs p) xs"

text \<open>\<open>setPage((p) => Math.max(0, p - 1))\<close> and \<open>setPage((p) => Math.min(totalPages - 1, p + 1))\<close>.\<close>

definition prev_page :: "nat \<Rightarrow> nat" where
  "prev_page p = p - 1"

definition next_page :: "nat \<Rightarrow> 'a list \<Rightarrow> nat \<Rightarrow> nat" where
  "next_page n xs p = min (total_pages n xs - 1) (p + 1)"

lemma total_pages_pos [simp]: "0 < total_pages n xs" "Suc 0 \<le> total_pages n xs"
  by (simp_all add: total_pages_def less_max_iff_disj)

lemma safe_page_less: "safe_page n xs p < total_pages n xs"
proof -
  have "safe_page n xs p \<le> total_pages n xs - 1" by (simp add: safe_page_def)
  with total_pages_pos(1) [of n xs] show ?thesis by linarith
qed

lemma length_le_total_pages:
  assumes "0 < n"
  shows "length xs \<le> total_pages n xs * n"
proof -
  have "length xs \<le> ((length xs + n - 1) div n) * n"
    using div_mult_mod_eq [of "length xs + n - 1" n] mod_less_divisor [OF assms, of "length xs + n - 1"]
    by linarith
  also have "\<dots> \<le> total_pages n xs * n" by (simp add: total_pages_def)
  finally show ?thesis .
qed

lemma safe_page_start:
  assumes "0 < n" "xs \<noteq> []"
  shows "safe_page n xs p * n < length xs"
proof -
  have "length xs + n - 1 = (length xs - 1) + n" using assms by (cases xs) simp_all
  then have "(length xs + n - 1) div n = (length xs - 1) div n + 1"
    using assms(1) by (simp only: div_add_self2 neq0_conv)
  then have "safe_page n xs p \<le> (length xs - 1) div n"
    by (simp add: safe_page_def total_pages_def)
  then have "safe_page n xs p * n \<le> ((length xs - 1) div n) * n" by simp
  also have "\<dots> \<le> length xs - 1" by (rule div_times_less_eq_dividend)
  finally show ?thesis using assms by (cases xs) auto
qed

locale paged =
  fixes size :: nat
    and items :: "'s \<Rightarrow> 'a list"
    and page :: "'s \<Rightarrow> nat"
    and goto :: "nat \<Rightarrow> 's \<Rightarrow> 's"
  assumes size_pos: "0 < size"
    and items_goto: "items (goto p s) = items s"
    and page_goto: "page (goto p s) = p"
begin

definition rows :: "'s \<Rightarrow> 'a list" where
  "rows s = page_rows size (items s) (page s)"

definition press_next :: "'s \<Rightarrow> 's" where
  "press_next s = goto (next_page size (items s) (page s)) s"

definition press_prev :: "'s \<Rightarrow> 's" where
  "press_prev s = goto (prev_page (page s)) s"

lemma rows_subset: "set (rows s) \<subseteq> set (items s)"
  by (simp add: rows_def page_rows_def set_page_of)

lemma rows_bound: "length (rows s) \<le> size"
  by (simp add: rows_def page_rows_def length_page_of)

lemma rows_nonempty: "items s \<noteq> [] \<Longrightarrow> rows s \<noteq> []"
  by (simp add: rows_def page_rows_def page_of_nonempty size_pos safe_page_start)

lemma rows_goto: "p < total_pages size (items s) \<Longrightarrow> rows (goto p s) = page_of size p (items s)"
  by (simp add: rows_def page_rows_def items_goto page_goto safe_page_def)

lemma pages_partition:
  "concat (map (\<lambda>p. rows (goto p s)) [0..<total_pages size (items s)]) = items s"
proof -
  have "map (\<lambda>p. rows (goto p s)) [0..<total_pages size (items s)]
      = map (\<lambda>p. page_of size p (items s)) [0..<total_pages size (items s)]"
    by (simp add: rows_goto)
  also have "concat \<dots> = items s"
    by (rule concat_pages [OF length_le_total_pages [OF size_pos]])
  finally show ?thesis .
qed

lemma items_press [simp]: "items (press_next s) = items s" "items (press_prev s) = items s"
  by (simp_all add: press_next_def press_prev_def items_goto)

lemma page_press_next: "page (press_next s) = min (total_pages size (items s) - 1) (page s + 1)"
  by (simp add: press_next_def page_goto next_page_def)

lemma items_iterate [simp]: "items ((press_next ^^ k) s) = items s"
  by (induction k) auto

lemma page_iterate:
  assumes "page s = 0" "k < total_pages size (items s)"
  shows "page ((press_next ^^ k) s) = k"
  using assms(2)
proof (induction k)
  case 0
  then show ?case by (simp add: assms(1))
next
  case (Suc k)
  then show ?case by (simp add: page_press_next)
qed

lemma next_reaches_every_item:
  assumes "page s = 0" "x \<in> set (items s)"
  shows "\<exists>k < total_pages size (items s). x \<in> set (rows ((press_next ^^ k) s))"
proof -
  have "x \<in> set (concat (map (\<lambda>p. rows (goto p s)) [0..<total_pages size (items s)]))"
    using assms(2) by (simp only: pages_partition)
  then obtain k where k: "k < total_pages size (items s)" "x \<in> set (rows (goto k s))" by auto
  have "rows ((press_next ^^ k) s) = rows (goto k s)"
    by (simp add: rows_def page_iterate [OF assms(1) k(1)] items_goto page_goto)
  with k show ?thesis by auto
qed

text \<open>A page number left over from a longer list: the shown page does not move back at once.\<close>

lemma stale_prev_is_inert:
  "total_pages size (items s) \<le> page s \<Longrightarrow> rows (press_prev s) = rows s"
  by (simp add: rows_def press_prev_def items_goto page_goto page_rows_def prev_page_def safe_page_def)

lemma in_range_prev_moves:
  "page s < total_pages size (items s) \<Longrightarrow> rows (press_prev s) = page_of size (page s - 1) (items s)"
  by (simp add: press_prev_def rows_goto prev_page_def)

end

end
