(* ===== verification/Page_Kit.thy ===== *)
theory Page_Kit
  imports Session Paging Poll
begin

text \<open>
  What the list pages repeat: the arrow buttons (NavBtn), the pager in the footer of a list, the
  search test, and the query of a select whose options are the values of a column.
\<close>

definition navBtn :: "'e \<Rightarrow> bool \<Rightarrow> 'e node list \<Rightarrow> 'e node" where
  "navBtn onClick disabled children =
     El ''button'' [OnClick onClick, Disabled disabled,
         Sty ''color'' (if disabled then (u ''var(--border)'') else (u ''var(--dim)''))] children"

definition page_label :: "nat \<Rightarrow> nat \<Rightarrow> jstr" where
  "page_label tot safe = (if tot > 1 then nshow (safe + 1) @ (u '' / '') @ nshow tot else [])"

definition pager :: "nat \<Rightarrow> nat \<Rightarrow> 'e \<Rightarrow> 'e \<Rightarrow> 'e node list" where
  "pager tot safe prv nxt =
     shown (tot > 1)
       [dv [spt (page_label tot safe), navBtn prv (safe = 0) [svg], navBtn nxt (safe \<ge> tot - 1) [svg]]]"

text \<open>\<open>q === "" || text.toLowerCase().includes(q.toLowerCase())\<close>; \<open>lc\<close> is toLowerCase.\<close>

definition search_hit :: "(jstr \<Rightarrow> jstr) \<Rightarrow> jstr \<Rightarrow> jstr \<Rightarrow> bool" where
  "search_hit lc q s = (q = [] \<or> contains (lc s) (lc q))"

definition or_blank :: "jstr option \<Rightarrow> jstr" where
  "or_blank m = (case m of Some s \<Rightarrow> s | None \<Rightarrow> [])"

text \<open>\<open>id.slice(-8)\<close>, and \<open>m ? m.slice(0, n) : "-"\<close> with a dash for a missing or empty value.\<close>

definition tail8 :: "jstr \<Rightarrow> jstr" where "tail8 s = last_n 8 s"

definition cut_or_dash :: "nat \<Rightarrow> jstr option \<Rightarrow> jstr" where
  "cut_or_dash n m = (if or_blank m = [] then (ux ''{2014}'') else take n (or_blank m))"

text \<open>
  The age of an instant in minutes, hours or days, as app/prs/page.tsx and
  app/interventions/page.tsx write it; the floors of floors are nested divisions.
\<close>

definition elapsed :: "int \<Rightarrow> int option \<Rightarrow> jstr" where
  "elapsed now d =
     (case d of
        None \<Rightarrow> (u ''NaNd'')
      | Some t \<Rightarrow>
          (let m = (now - t) div 60000; h = m div 60 in
           if m < 60 then ishow m @ (u ''m'')
           else if h < 24 then ishow h @ (u ''h'')
           else ishow (h div 24) @ (u ''d'')))"

text \<open>\<open>{ ...obj, k: v }\<close>: an existing key keeps its place.\<close>

fun spread_set :: "jstr \<Rightarrow> json \<Rightarrow> json \<Rightarrow> json" where
  "spread_set k v (JObj kvs) =
     JObj (if k \<in> set (map fst kvs) then map (\<lambda>(k', v'). (k', if k' = k then v else v')) kvs else kvs @ [(k, v)])"
| "spread_set k v _ = JObj [(k, v)]"

lemma map_of_replace:
  "map_of (map (\<lambda>(k', v'). (k', if k' = k then v else v')) kvs) j =
     (if j = k then (if k \<in> fst ` set kvs then Some v else None) else map_of kvs j)"
  by (induction kvs) (auto, force)

lemma jget_spread_set:
  "jget j (spread_set k v (JObj kvs)) = (if j = k then v else jget j (JObj kvs))"
  by (simp add: rev_map map_of_replace)

text \<open>
  The pool configuration of app/interventions/page.tsx and app/live/page.tsx, kept as the JSON
  value the server sent: an answer with a truthy \<open>error\<close> is ignored, any other replaces it.
\<close>

definition pool_accept :: "json outcome \<Rightarrow> json \<Rightarrow> json" where
  "pool_accept r pool =
     (case r of Resolved x \<Rightarrow> (if truthy (jget (u ''error'') x) then pool else x) | Rejected _ \<Rightarrow> pool)"

text \<open>\<open>pool?.paused ?? false\<close>, as a condition.\<close>

definition pool_paused :: "json \<Rightarrow> bool" where
  "pool_paused pool = truthy (jget (u ''paused'') pool)"

text \<open>
  The answers of app/usage/page.tsx and app/invoices/page.tsx to a single GET: an object with a
  truthy \<open>error\<close> (ignored), an object without the fields (what a failed request gives, which every
  accessor of these pages reads like no data), or the data.
\<close>

datatype 'a answer = Err | Blank | Full 'a

definition take_answer :: "'a answer outcome \<Rightarrow> 'a option \<Rightarrow> 'a option" where
  "take_answer r cur =
     (case r of
        Resolved Err \<Rightarrow> cur
      | Resolved Blank \<Rightarrow> None
      | Resolved (Full x) \<Rightarrow> Some x
      | Rejected _ \<Rightarrow> cur)"

text \<open>
  The same answers on a page that tells null from an object without the fields (\<open>Undef\<close>): the loading
  effect of app/telemetry/page.tsx and app/pricing/page.tsx waits for the first of them.
\<close>

definition keep_answer :: "'a answer outcome \<Rightarrow> 'a pdata \<Rightarrow> 'a pdata" where
  "keep_answer r cur =
     (case r of
        Resolved Err \<Rightarrow> cur
      | Resolved Blank \<Rightarrow> Undef
      | Resolved (Full x) \<Rightarrow> Dat x
      | Rejected _ \<Rightarrow> cur)"

text \<open>
  \<open>r?.data || []\<close>: an answer without data empties the list, a rejected request leaves it. The
  session of app/org/page.tsx and app/conta/page.tsx is kept unless the answer has an error.
\<close>

definition take_list :: "'a list pdata outcome \<Rightarrow> 'a list \<Rightarrow> 'a list" where
  "take_list r cur = (case r of Resolved d \<Rightarrow> or_empty d | Rejected _ \<Rightarrow> cur)"

definition me_accept :: "json outcome \<Rightarrow> json \<Rightarrow> json" where
  "me_accept r cur =
     (case r of Resolved x \<Rightarrow> (if truthy (jget (u ''error'') x) then cur else x) | Rejected _ \<Rightarrow> cur)"

definition data_field :: "'b \<Rightarrow> ('a \<Rightarrow> 'b) \<Rightarrow> 'a pdata \<Rightarrow> 'b" where
  "data_field d f x = (case x of Dat v \<Rightarrow> f v | _ \<Rightarrow> d)"

text \<open>\<open>p ? p.charAt(0).toUpperCase() + p.slice(1) : "Free"\<close>.\<close>

definition capital :: "(jstr \<Rightarrow> jstr) \<Rightarrow> jstr \<Rightarrow> jstr" where
  "capital uc p = (if p \<noteq> [] then uc (take 1 p) @ drop 1 p else (u ''Free''))"

text \<open>The buttons of a pager that answer a click.\<close>

lemma clicks_pager [simp]:
  "all_clicks (pager tot safe prv nxt) =
     (if tot > 1 then (if safe = 0 then [] else [prv]) @ (if safe \<ge> tot - 1 then [] else [nxt]) else [])"
  by (simp add: pager_def navBtn_def shown_def)

lemma clicks_modal [simp]:
  "clicks (modal lang t e cs ft) = e # e # all_clicks cs @ (case ft of Some f \<Rightarrow> all_clicks f | None \<Rightarrow> [])"
  by (simp add: modal_def split: option.split)

lemma clicks_pageHead [simp]: "clicks (pageHead lang a b c rgt) = all_clicks rgt"
  by (simp add: pageHead_def split: option.split)

lemma clicks_stateBar [simp]: "clicks (stateBar lang t cs) = []"
  by (simp add: stateBar_def all_clicks_map_Nil)

end
