(* ===== verification/Settings_Conn.thy ===== *)
theory Settings_Conn
  imports Page_Kit
begin

text \<open>
  Connections of app/config/page.tsx: the dialogs that connect a code host, a task source or an
  integration (CI, observability, documentation), the GitHub authorisation they share, and the AI
  engine. The three dialogs have the same states and differ in their fields, guards and paths, so
  one record and one set of functions indexed by \<open>dlg_kind\<close> stand for the three triples of hooks. Every
  answer is an event of its own, so answers arrive in any order, also after the dialog has been
  closed. The pages opened in another tab are \<open>OpenUrl\<close>; opening one takes no time.
\<close>

record conn =
  cn_id :: jstr
  cn_type :: jstr
  cn_provider :: jstr
  cn_label :: jstr
  cn_status :: jstr
  cn_created :: jstr

datatype dlg_kind = K_git | K_task | K_int

datatype jfield = F_token | F_username | F_email | F_site | F_key | F_project

record form =
  fo_token :: jstr
  fo_username :: jstr
  fo_email :: jstr
  fo_site :: jstr
  fo_key :: jstr
  fo_project :: jstr

definition blank_form :: form where
  "blank_form = \<lparr>fo_token = [], fo_username = [], fo_email = [], fo_site = [], fo_key = [], fo_project = []\<rparr>"

fun form_get :: "jfield \<Rightarrow> form \<Rightarrow> jstr" where
  "form_get F_token f = fo_token f"
| "form_get F_username f = fo_username f"
| "form_get F_email f = fo_email f"
| "form_get F_site f = fo_site f"
| "form_get F_key f = fo_key f"
| "form_get F_project f = fo_project f"

fun form_set :: "jfield \<Rightarrow> jstr \<Rightarrow> form \<Rightarrow> form" where
  "form_set F_token v f = f\<lparr>fo_token := v\<rparr>"
| "form_set F_username v f = f\<lparr>fo_username := v\<rparr>"
| "form_set F_email v f = f\<lparr>fo_email := v\<rparr>"
| "form_set F_site v f = f\<lparr>fo_site := v\<rparr>"
| "form_set F_key v f = f\<lparr>fo_key := v\<rparr>"
| "form_set F_project v f = f\<lparr>fo_project := v\<rparr>"

record dialog =
  dg_modal :: "jstr option"
  dg_form :: form
  dg_busy :: bool
  dg_testing :: bool
  dg_test :: "(bool \<times> jstr) option"

definition blank_dialog :: dialog where
  "blank_dialog = \<lparr>dg_modal = None, dg_form = blank_form, dg_busy = False, dg_testing = False, dg_test = None\<rparr>"

datatype gh_method = Oauth | Token

record github =
  gh_method :: gh_method
  gh_device :: "(jstr \<times> jstr) option"
  gh_status :: jstr
  gh_err :: jstr
  gh_starting :: bool
  gh_poll :: "rat option"

definition blank_github :: github where
  "blank_github = \<lparr>gh_method = Oauth, gh_device = None, gh_status = [], gh_err = [], gh_starting = False, gh_poll = None\<rparr>"

datatype ia_modal = Subscription | Api
datatype ia_step = Idle | Await_code

record ia =
  iaModal :: "ia_modal option"
  iaApiKey :: jstr
  iaBusy :: bool
  iaStep :: ia_step
  iaUrl :: jstr
  iaCode :: jstr
  iaErr :: jstr
  iaTest :: "(bool \<times> jstr) option"
  iaTesting :: bool

definition blank_ia :: ia where
  "blank_ia = \<lparr>iaModal = None, iaApiKey = [], iaBusy = False, iaStep = Idle, iaUrl = [], iaCode = [], iaErr = [],
     iaTest = None, iaTesting = False\<rparr>"

record conns =
  c_conns :: "conn list pdata"
  c_git :: dialog
  c_task :: dialog
  c_int :: dialog
  c_gh :: github
  c_ia :: ia

definition conns_start :: conns where
  "conns_start = \<lparr>c_conns = Nul, c_git = blank_dialog, c_task = blank_dialog, c_int = blank_dialog,
     c_gh = blank_github, c_ia = blank_ia\<rparr>"

fun dlg :: "dlg_kind \<Rightarrow> conns \<Rightarrow> dialog" where
  "dlg K_git s = c_git s"
| "dlg K_task s = c_task s"
| "dlg K_int s = c_int s"

fun put_dlg :: "dlg_kind \<Rightarrow> dialog \<Rightarrow> conns \<Rightarrow> conns" where
  "put_dlg K_git d s = s\<lparr>c_git := d\<rparr>"
| "put_dlg K_task d s = s\<lparr>c_task := d\<rparr>"
| "put_dlg K_int d s = s\<lparr>c_int := d\<rparr>"

datatype conns_tag =
    Get_conns
  | Post_test dlg_kind
  | Post_connect dlg_kind
  | Delete_conn
  | Post_reuse
  | Post_oauth jstr
  | Post_device
  | Get_gh_status
  | Post_ia_test
  | Post_claude_start
  | Post_claude_code
  | Post_api_key

datatype conns_event =
    C_conns "conn list pdata outcome"
  | C_open dlg_kind jstr
  | C_close dlg_kind
  | C_field dlg_kind jfield jstr
  | C_method dlg_kind gh_method
  | C_test dlg_kind
  | C_tested dlg_kind "json outcome"
  | C_connect dlg_kind
  | C_connected dlg_kind "json outcome"
  | C_disconnect dlg_kind jstr
  | C_disconnected "json outcome"
  | C_reuse jstr jstr
  | C_reused "json outcome"
  | Gh_start jstr
  | Gh_oauth_answer jstr "json outcome"
  | Gh_device_answer "json outcome"
  | Gh_tick
  | Gh_status_answer "json outcome"
  | Gh_returned jstr
  | C_unmount
  | Ia_open ia_modal
  | Ia_close
  | Ia_key jstr
  | Ia_code_typed jstr
  | Ia_test_click
  | Ia_tested "json outcome"
  | Ia_start
  | Ia_started "json outcome"
  | Ia_submit
  | Ia_submitted "json outcome"
  | Ia_save
  | Ia_saved "json outcome"

definition reload_conns :: "conns_tag cmd list" where
  "reload_conns = [Send GET (u ''/v1/connections'') None Get_conns]"

subsection \<open>The three dialogs\<close>

text \<open>stopGhPoll, and resetGit, resetTask, resetInt.\<close>

definition stop_poll :: "conns \<Rightarrow> conns" where
  "stop_poll s = s\<lparr>c_gh := (c_gh s)\<lparr>gh_poll := None\<rparr>\<rparr>"

definition reset_dlg :: "dlg_kind \<Rightarrow> conns \<Rightarrow> conns" where
  "reset_dlg k s = put_dlg k blank_dialog (s\<lparr>c_gh := blank_github\<rparr>)"

fun dlg_path :: "dlg_kind \<Rightarrow> jstr" where
  "dlg_path K_git = (u ''/v1/connections/git'')"
| "dlg_path K_task = (u ''/v1/connections/tasks'')"
| "dlg_path K_int = (u ''/v1/connections/integration'')"

text \<open>The bodies; the integration dialog spreads its form as it was typed.\<close>

fun payload :: "dlg_kind \<Rightarrow> jstr \<Rightarrow> form \<Rightarrow> json" where
  "payload K_git p f =
     JObj [((u ''provider''), JStr p), ((u ''token''), JStr (trim (fo_token f))), ((u ''username''), JStr (trim (fo_username f)))]"
| "payload K_task p f =
     JObj [((u ''provider''), JStr p), ((u ''token''), JStr (trim (fo_token f))), ((u ''username''), JStr (trim (fo_username f))),
           ((u ''email''), JStr (trim (fo_email f))), ((u ''site''), JStr (trim (fo_site f))), ((u ''key''), JStr (trim (fo_key f)))]"
| "payload K_int p f =
     JObj [((u ''provider''), JStr p), ((u ''token''), JStr (fo_token f)), ((u ''username''), JStr (fo_username f)),
           ((u ''project''), JStr (fo_project f)), ((u ''email''), JStr (fo_email f)), ((u ''site''), JStr (fo_site f))]"

text \<open>The provider the guards of the test and connect handlers let through.\<close>

definition guarded :: "dlg_kind \<Rightarrow> dialog \<Rightarrow> jstr option" where
  "guarded k d = (if k = K_git \<and> trim (fo_token (dg_form d)) = [] then None else dg_modal d)"

definition test_dlg :: "dlg_kind \<Rightarrow> conns \<Rightarrow> conns \<times> conns_tag cmd list" where
  "test_dlg k s =
     (case guarded k (dlg k s) of
        None \<Rightarrow> (s, [])
      | Some p \<Rightarrow>
          (put_dlg k ((dlg k s)\<lparr>dg_testing := True, dg_test := None\<rparr>) s,
           [Send POST (dlg_path k @ (u ''/test'')) (Some (payload k p (dg_form (dlg k s)))) (Post_test k)]))"

text \<open>\<open>{ ok: !!r?.ok, msg: r?.message || (r?.ok ? good : bad) }\<close>.\<close>

definition verdict :: "jstr \<Rightarrow> jstr \<Rightarrow> json outcome \<Rightarrow> bool \<times> jstr" where
  "verdict good bad r =
     (case r of
        Resolved j \<Rightarrow> (let ok = truthy (jget (u ''ok'') j) in (ok, jtext_or (if ok then good else bad) (jget (u ''message'') j)))
      | Rejected m \<Rightarrow> (False, m))"

definition tested_dlg :: "dlg_kind \<Rightarrow> json outcome \<Rightarrow> conns \<Rightarrow> conns" where
  "tested_dlg k r s =
     put_dlg k ((dlg k s)\<lparr>dg_test := Some (verdict (ux ''v{e1}lido'') (ux ''inv{e1}lido'') r), dg_testing := False\<rparr>) s"

definition connect_dlg :: "dlg_kind \<Rightarrow> conns \<Rightarrow> conns \<times> conns_tag cmd list" where
  "connect_dlg k s =
     (case guarded k (dlg k s) of
        None \<Rightarrow> (s, [])
      | Some p \<Rightarrow>
          (put_dlg k ((dlg k s)\<lparr>dg_busy := True\<rparr>) s,
           [Send POST (dlg_path k) (Some (payload k p (dg_form (dlg k s)))) (Post_connect k)]))"

definition connected_dlg :: "dlg_kind \<Rightarrow> json outcome \<Rightarrow> conns \<Rightarrow> conns \<times> conns_tag cmd list" where
  "connected_dlg k r s =
     (case r of
        Resolved j \<Rightarrow>
          (if truthy (jget (u ''ok'') j) then (reset_dlg k s, reload_conns)
           else (put_dlg k ((dlg k s)\<lparr>dg_test := Some (False, jtext_or (u ''falha ao conectar'') (jget (u ''message'') j)), dg_busy := False\<rparr>) s, []))
      | Rejected m \<Rightarrow> (put_dlg k ((dlg k s)\<lparr>dg_test := Some (False, m), dg_busy := False\<rparr>) s, []))"

subsection \<open>Reusing a connection\<close>

definition providerFamily :: "jstr \<Rightarrow> jstr option" where
  "providerFamily p =
     (if starts_with p (u ''github'') then Some (u ''github'')
      else if starts_with p (u ''gitlab'') then Some (u ''gitlab'')
      else if starts_with p (u ''bitbucket'') then Some (u ''bitbucket'') else None)"

text \<open>The label of the first connection of the family; an empty one counts as none.\<close>

definition familyIdentity :: "jstr \<Rightarrow> conns \<Rightarrow> jstr option" where
  "familyIdentity fam s =
     (case find (\<lambda>c. providerFamily (cn_provider c) = Some fam) (or_empty (c_conns s)) of
        Some c \<Rightarrow> (if cn_label c \<noteq> [] then Some (cn_label c) else None)
      | None \<Rightarrow> None)"

text \<open>The family and the label of the reuse button, when there is one.\<close>

definition reuse_offer :: "jstr \<Rightarrow> conns \<Rightarrow> (jstr \<times> jstr) option" where
  "reuse_offer provider s =
     (case providerFamily provider of
        None \<Rightarrow> None
      | Some fam \<Rightarrow> map_option (\<lambda>i. (fam, i)) (familyIdentity fam s))"

definition reused :: "json outcome \<Rightarrow> conns_tag cmd list" where
  "reused r =
     (case r of
        Resolved j \<Rightarrow>
          (if jget (u ''ok'') j = JBool False
           then [Toast (jtext_or (ux ''n{e3}o foi poss{ed}vel reaproveitar'') (jget (u ''message'') j)) Error]
           else Toast (ux ''conex{e3}o reaproveitada'') Success # reload_conns)
      | Rejected _ \<Rightarrow> [])"

subsection \<open>GitHub authorisation\<close>

definition gh_fail :: "jstr \<Rightarrow> conns \<Rightarrow> conns" where
  "gh_fail m s = s\<lparr>c_gh := (c_gh s)\<lparr>gh_err := m, gh_starting := False\<rparr>\<rparr>"

definition gh_start :: "jstr \<Rightarrow> conns \<Rightarrow> conns \<times> conns_tag cmd list" where
  "gh_start purpose s =
     (s\<lparr>c_gh := (c_gh s)\<lparr>gh_starting := True, gh_err := [], gh_status := [], gh_device := None\<rparr>\<rparr>,
      [Send POST (u ''/v1/connections/git/github/oauth/start'') (Some (JObj [((u ''purpose''), JStr purpose)])) (Post_oauth purpose)])"

text \<open>
  The answer to the web flow: an address opens the authorisation and starts the poll, an error other
  than \<open>not_configured\<close> ends the attempt, anything else falls back to the device flow.
\<close>

definition gh_oauth_answer :: "jstr \<Rightarrow> json outcome \<Rightarrow> conns \<Rightarrow> conns \<times> conns_tag cmd list" where
  "gh_oauth_answer purpose r s =
     (case r of
        Rejected m \<Rightarrow> (gh_fail m s, [])
      | Resolved w \<Rightarrow>
          (if truthy (jget (u ''url'') w) then
             (s\<lparr>c_gh := (c_gh s)\<lparr>gh_status := (u ''pending''), gh_poll := Some 2000, gh_starting := False\<rparr>\<rparr>,
              [OpenUrl (jtext_or [] (jget (u ''url'') w))])
           else if truthy (jget (u ''error'') w) \<and> jget (u ''code'') (jget (u ''error'') w) \<noteq> JStr (u ''not_configured'') then
             (gh_fail (jtext_or (u ''falha ao iniciar OAuth'') (jget (u ''message'') (jget (u ''error'') w))) s, [])
           else (s, [Send POST (u ''/v1/connections/git/github/device'') (Some (JObj [((u ''purpose''), JStr purpose)])) Post_device])))"

text \<open>\<open>Math.max(2, r.interval || 5) * 1000\<close>.\<close>

definition poll_interval :: "json \<Rightarrow> rat" where
  "poll_interval i = jmul (max 2 (case i of JNum x \<Rightarrow> if x = 0 then 5 else x | _ \<Rightarrow> 5)) 1000"

definition gh_device_answer :: "json outcome \<Rightarrow> conns \<Rightarrow> conns \<times> conns_tag cmd list" where
  "gh_device_answer r s =
     (case r of
        Rejected m \<Rightarrow> (gh_fail m s, [])
      | Resolved j \<Rightarrow>
          (if truthy (jget (u ''user_code'') j) \<and> truthy (jget (u ''verification_uri'') j) then
             (s\<lparr>c_gh := (c_gh s)\<lparr>gh_device := Some (jtext_or [] (jget (u ''user_code'') j), jtext_or [] (jget (u ''verification_uri'') j)),
                gh_status := (u ''pending''), gh_poll := Some (poll_interval (jget (u ''interval'') j)), gh_starting := False\<rparr>\<rparr>,
              [OpenUrl (jtext_or [] (jget (u ''verification_uri'') j))])
           else (gh_fail (jtext_or (u ''falha ao iniciar OAuth'') (jget (u ''message'') (jget (u ''error'') j))) s, [])))"

text \<open>
  The answer to a tick of the poll, whether or not the timer still runs; a failed request changes
  nothing.
\<close>

definition gh_status_answer :: "json outcome \<Rightarrow> conns \<Rightarrow> conns \<times> conns_tag cmd list" where
  "gh_status_answer r s =
     (case r of
        Rejected _ \<Rightarrow> (s, [])
      | Resolved j \<Rightarrow>
          (let st = jget (u ''status'') j; s1 = s\<lparr>c_gh := (c_gh s)\<lparr>gh_status := jtext_or [] st\<rparr>\<rparr> in
           if st = JStr (u ''authorized'') then (reset_dlg K_int (reset_dlg K_task (reset_dlg K_git (stop_poll s1))), reload_conns)
           else if st = JStr (u ''expired'') \<or> st = JStr (u ''denied'') \<or> st = JStr (u ''error'') then
             ((stop_poll s1)\<lparr>c_gh := (c_gh (stop_poll s1))\<lparr>gh_device := None,
                gh_err := jtext_or (ux ''autoriza{e7}{e3}o falhou'') (jget (u ''error'') j)\<rparr>\<rparr>, [])
           else (s1, [])))"

text \<open>Back from the web flow: the query \<open>github\<close> of the address bar, which is then cleaned.\<close>

definition gh_returned :: "jstr \<Rightarrow> conns \<Rightarrow> conns \<times> conns_tag cmd list" where
  "gh_returned srch s =
     (case search_param (u ''github'') srch of
        None \<Rightarrow> (s, [])
      | Some p \<Rightarrow>
          (if p = [] then (s, [])
           else if p = (u ''ok'') then (s, RewriteUrl (u ''/config'') # reload_conns)
           else (s\<lparr>c_gh := (c_gh s)\<lparr>gh_err := (if p = (u ''denied'') then (ux ''autoriza{e7}{e3}o negada no GitHub'') else (ux ''falha na autoriza{e7}{e3}o do GitHub''))\<rparr>\<rparr>,
                 [RewriteUrl (u ''/config'')])))"

subsection \<open>AI engine\<close>

definition ia_started :: "json outcome \<Rightarrow> ia \<Rightarrow> ia \<times> conns_tag cmd list" where
  "ia_started r a =
     (case r of
        Rejected m \<Rightarrow> (a\<lparr>iaErr := m, iaBusy := False\<rparr>, [])
      | Resolved j \<Rightarrow>
          (if truthy (jget (u ''url'') j)
           then (a\<lparr>iaUrl := jtext_or [] (jget (u ''url'') j), iaStep := Await_code, iaBusy := False\<rparr>, [OpenUrl (jtext_or [] (jget (u ''url'') j))])
           else (a\<lparr>iaErr := jtext_or (ux ''falha ao iniciar autoriza{e7}{e3}o'') (jget (u ''message'') (jget (u ''error'') j)), iaBusy := False\<rparr>, [])))"

definition ia_submitted :: "json outcome \<Rightarrow> ia \<Rightarrow> ia \<times> conns_tag cmd list" where
  "ia_submitted r a =
     (case r of
        Rejected m \<Rightarrow> (a\<lparr>iaErr := m, iaBusy := False\<rparr>, [])
      | Resolved j \<Rightarrow>
          (if truthy (jget (u ''ok'') j) then (blank_ia, reload_conns)
           else (a\<lparr>iaErr := jtext_or (ux ''c{f3}digo rejeitado'') (jget (u ''message'') (jget (u ''error'') j)), iaBusy := False\<rparr>, [])))"

text \<open>Saving the key: the body names only the kind of engine. A refusal resolves too.\<close>

definition ia_save :: "ia \<Rightarrow> ia \<times> conns_tag cmd list" where
  "ia_save a = (a\<lparr>iaBusy := True\<rparr>, [Send POST (u ''/v1/connections'') (Some (JObj [((u ''kind''), JStr (u ''api''))])) Post_api_key])"

fun ia_handle :: "conns_event \<Rightarrow> ia \<Rightarrow> ia \<times> conns_tag cmd list" where
  "ia_handle (Ia_open m) a = (a\<lparr>iaStep := Idle, iaUrl := [], iaCode := [], iaErr := [], iaModal := Some m\<rparr>, [])"
| "ia_handle Ia_close a = (blank_ia, [])"
| "ia_handle (Ia_key v) a = (a\<lparr>iaApiKey := v, iaTest := None\<rparr>, [])"
| "ia_handle (Ia_code_typed v) a = (a\<lparr>iaCode := v\<rparr>, [])"
| "ia_handle Ia_test_click a =
     (if trim (iaApiKey a) = [] then (a, [])
      else (a\<lparr>iaTesting := True, iaTest := None\<rparr>,
            [Send POST (u ''/v1/connections/anthropic/test'') (Some (JObj [((u ''api_key''), JStr (trim (iaApiKey a)))])) Post_ia_test]))"
| "ia_handle (Ia_tested r) a = (a\<lparr>iaTest := Some (verdict (ux ''chave v{e1}lida'') (ux ''chave inv{e1}lida'') r), iaTesting := False\<rparr>, [])"
| "ia_handle Ia_start a =
     (a\<lparr>iaBusy := True, iaErr := []\<rparr>, [Send POST (u ''/v1/connections/claude/start'') (Some (JObj [])) Post_claude_start])"
| "ia_handle (Ia_started r) a = ia_started r a"
| "ia_handle Ia_submit a =
     (if trim (iaCode a) = [] then (a, [])
      else (a\<lparr>iaBusy := True, iaErr := []\<rparr>,
            [Send POST (u ''/v1/connections/claude/code'') (Some (JObj [((u ''code''), JStr (trim (iaCode a)))])) Post_claude_code]))"
| "ia_handle (Ia_submitted r) a = ia_submitted r a"
| "ia_handle Ia_save a = ia_save a"
| "ia_handle (Ia_saved r) a = (case r of Resolved _ \<Rightarrow> (blank_ia, reload_conns) | Rejected _ \<Rightarrow> (a\<lparr>iaBusy := False\<rparr>, []))"
| "ia_handle _ a = (a, [])"

subsection \<open>The step function\<close>

fun conns_step :: "conns_event \<Rightarrow> conns \<Rightarrow> conns \<times> conns_tag cmd list" where
  "conns_step (C_conns r) s = (s\<lparr>c_conns := poll_accept r (c_conns s)\<rparr>, [])"
| "conns_step (C_open k p) s =
     (let s1 = reset_dlg k s in (put_dlg k ((dlg k s1)\<lparr>dg_modal := Some p\<rparr>) s1, []))"
| "conns_step (C_close k) s = (reset_dlg k s, [])"
| "conns_step (C_field k f v) s =
     (put_dlg k ((dlg k s)\<lparr>dg_form := form_set f v (dg_form (dlg k s)), dg_test := None\<rparr>) s, [])"
| "conns_step (C_method k m) s =
     (let s1 = s\<lparr>c_gh := (c_gh s)\<lparr>gh_method := m\<rparr>\<rparr> in (put_dlg k ((dlg k s1)\<lparr>dg_test := None\<rparr>) s1, []))"
| "conns_step (C_test k) s = test_dlg k s"
| "conns_step (C_tested k r) s = (tested_dlg k r s, [])"
| "conns_step (C_connect k) s = connect_dlg k s"
| "conns_step (C_connected k r) s = connected_dlg k r s"
| "conns_step (C_disconnect k p) s = (s, [Send DELETE (dlg_path k @ (u ''?provider='') @ p) None Delete_conn])"
| "conns_step (C_disconnected r) s = (s, case r of Resolved _ \<Rightarrow> reload_conns | Rejected _ \<Rightarrow> [])"
| "conns_step (C_reuse fam target) s =
     (s, [Send POST (u ''/v1/connections/reuse'') (Some (JObj [((u ''family''), JStr fam), ((u ''target''), JStr target)])) Post_reuse])"
| "conns_step (C_reused r) s = (s, reused r)"
| "conns_step (Gh_start p) s = gh_start p s"
| "conns_step (Gh_oauth_answer p r) s = gh_oauth_answer p r s"
| "conns_step (Gh_device_answer r) s = gh_device_answer r s"
| "conns_step Gh_tick s =
     (s, if gh_poll (c_gh s) = None then [] else [Send GET (u ''/v1/connections/git/github/device/status'') None Get_gh_status])"
| "conns_step (Gh_status_answer r) s = gh_status_answer r s"
| "conns_step (Gh_returned srch) s = gh_returned srch s"
| "conns_step C_unmount s = (stop_poll s, [])"
| "conns_step e s = (let (a, cs) = ia_handle e (c_ia s) in (s\<lparr>c_ia := a\<rparr>, cs))"

subsection \<open>Readiness\<close>

text \<open>INT_META: the fields of the integrations, without their icons.\<close>

record int_meta =
  im_title :: jstr
  im_ctype :: jstr
  im_fields :: "jfield list"
  im_tokenLabel :: jstr
  im_help :: jstr
  im_docs :: jstr
  im_noTest :: bool
  im_oauth :: "jstr option"

definition mk_meta :: "jstr \<Rightarrow> jstr \<Rightarrow> jfield list \<Rightarrow> jstr \<Rightarrow> jstr \<Rightarrow> jstr \<Rightarrow> bool \<Rightarrow> jstr option \<Rightarrow> int_meta" where
  "mk_meta t c fs l h d n m = \<lparr>im_title = t, im_ctype = c, im_fields = fs, im_tokenLabel = l, im_help = h, im_docs = d,
     im_noTest = n, im_oauth = m\<rparr>"

definition INT_META :: "(jstr \<times> int_meta) list" where
  "INT_META = [
    ((u ''cypress''), mk_meta (u ''Cypress Cloud'') (u ''ci'') [F_project, F_token] (u ''Record key'')
       (ux ''Cypress Cloud {2192} Project Settings {2192} Record Keys.'') (u ''https://cloud.cypress.io'') True None),
    ((u ''github_actions''), mk_meta (u ''GitHub Actions'') (u ''ci'') [F_token] (u ''Personal access token'')
       (u ''Token GitHub com escopo repo + workflow.'') (u ''https://github.com/settings/tokens'') False (Some (u ''ci''))),
    ((u ''gitlab_ci''), mk_meta (u ''GitLab CI'') (u ''ci'') [F_token] (u ''Personal access token'')
       (u ''Token GitLab com escopos api e read_api.'') (u ''https://gitlab.com/-/user_settings/personal_access_tokens'') False None),
    ((u ''bitbucket_pipelines''), mk_meta (u ''Bitbucket Pipelines'') (u ''ci'') [F_username, F_token] (u ''App password'')
       (ux ''Usu{e1}rio + app password com escopo pipeline.'') (u ''https://bitbucket.org/account/settings/app-passwords/'') False None),
    ((u ''sonarcloud''), mk_meta (u ''SonarCloud'') (u ''observability'') [F_token] (u ''Token'')
       (ux ''SonarCloud {2192} My Account {2192} Security {2192} Generate Token.'') (u ''https://sonarcloud.io/account/security'') False None),
    ((u ''sentry''), mk_meta (u ''Sentry'') (u ''observability'') [F_token] (u ''Auth token'')
       (ux ''Sentry {2192} Settings {2192} Auth Tokens (org).'') (u ''https://sentry.io/settings/account/api/auth-tokens/'') False None),
    ((u ''playwright''), mk_meta (u ''Playwright'') (u ''observability'') [F_token] (u ''Access token'')
       (ux ''Microsoft Playwright Testing {2014} access token do servi{e7}o.'') (u ''https://aka.ms/mpt/access-tokens'') True None),
    ((u ''confluence''), mk_meta (u ''Confluence'') (u ''docs'') [F_site, F_email, F_token] (u ''API token'')
       (ux ''Confluence Cloud (Atlassian) {2014} site + e-mail + API token.'') (u ''https://id.atlassian.com/manage-profile/security/api-tokens'') False None),
    ((u ''github_wiki''), mk_meta (u ''GitHub Wiki'') (u ''docs'') [F_token] (u ''Personal access token'')
       (u ''Token GitHub com escopo repo (wikis fazem parte do repo).'') (u ''https://github.com/settings/tokens'') False (Some (u ''docs''))),
    ((u ''notion''), mk_meta (u ''Notion'') (u ''docs'') [F_token] (u ''Integration token'')
       (ux ''Notion {2192} Settings {2192} Integrations (internal integration token).'') (u ''https://www.notion.so/my-integrations'') False None)]"

definition intReady :: "jstr \<Rightarrow> form \<Rightarrow> bool" where
  "intReady provider f =
     (case map_of INT_META provider of
        None \<Rightarrow> False
      | Some m \<Rightarrow> list_all (\<lambda>x. trim (form_get x f) \<noteq> []) (im_fields m))"

definition is_atlassian :: "jstr \<Rightarrow> bool" where
  "is_atlassian p = (p = (u ''jira'') \<or> p = (u ''atlassian_goals''))"

definition task_ready :: "jstr \<Rightarrow> form \<Rightarrow> bool" where
  "task_ready p f =
     (if p = (u ''bitbucket'') then trim (fo_username f) \<noteq> [] \<and> trim (fo_token f) \<noteq> []
      else if is_atlassian p then trim (fo_site f) \<noteq> [] \<and> trim (fo_email f) \<noteq> [] \<and> trim (fo_token f) \<noteq> []
      else if p = (u ''trello'') then trim (fo_key f) \<noteq> [] \<and> trim (fo_token f) \<noteq> []
      else trim (fo_token f) \<noteq> [])"

text \<open>What switches off the connect button of a dialog that shows its fields.\<close>

fun connect_off :: "dlg_kind \<Rightarrow> jstr \<Rightarrow> dialog \<Rightarrow> bool" where
  "connect_off K_git p d =
     (dg_busy d \<or> trim (fo_token (dg_form d)) = [] \<or> (p = (u ''bitbucket'') \<and> trim (fo_username (dg_form d)) = []))"
| "connect_off K_task p d = (dg_busy d \<or> \<not> task_ready p (dg_form d))"
| "connect_off K_int p d = (dg_busy d \<or> \<not> intReady p (dg_form d))"

fun test_off :: "dlg_kind \<Rightarrow> jstr \<Rightarrow> dialog \<Rightarrow> bool" where
  "test_off K_git p d = (dg_testing d \<or> trim (fo_token (dg_form d)) = [])"
| "test_off K_task p d = (dg_testing d \<or> \<not> task_ready p (dg_form d))"
| "test_off K_int p d = (dg_testing d \<or> \<not> intReady p (dg_form d))"

text \<open>The dialog shows the GitHub authorisation instead of its fields.\<close>

fun oauth_mode :: "dlg_kind \<Rightarrow> jstr \<Rightarrow> conns \<Rightarrow> bool" where
  "oauth_mode K_int p s =
     ((case map_of INT_META p of Some m \<Rightarrow> im_oauth m \<noteq> None | None \<Rightarrow> False) \<and> gh_method (c_gh s) = Oauth)"
| "oauth_mode k p s = (p = (u ''github'') \<and> gh_method (c_gh s) = Oauth)"

text \<open>The purpose the authorisation button sends.\<close>

fun oauth_purpose :: "dlg_kind \<Rightarrow> jstr \<Rightarrow> jstr" where
  "oauth_purpose K_git p = (u ''code'')"
| "oauth_purpose K_task p = (u ''tasks'')"
| "oauth_purpose K_int p = (case map_of INT_META p of Some m \<Rightarrow> or_blank (im_oauth m) | None \<Rightarrow> [])"

end
