(* ===== verification/Settings_Repos.thy ===== *)
theory Settings_Repos
  imports Page_Kit
begin

text \<open>
  Repositories of app/config/page.tsx: the three steps that add one (source, remote repository,
  local directory), the clone on the desktop, the edit and the removal. Handlers that wait keep the
  values they closed over in their tag, and the answer brings them back; \<open>R_listed p\<close> is the answer to
  the request for the source \<open>p\<close>, which the handler does not compare with the source now chosen. \<open>home\<close> is the outcome of the
  desktop's homeDir.
\<close>

record repo =
  re_id :: jstr
  re_name :: jstr
  re_branch :: jstr
  re_url :: jstr

record remote =
  rr_full :: jstr
  rr_clone :: jstr
  rr_branch :: jstr
  rr_private :: bool

datatype repo_step = Source | Repo | Dir

record repos =
  rp_repos :: "repo list pdata"
  repoOpen :: bool
  repoStep :: repo_step
  repoProv :: jstr
  repoList :: "remote list option"
  repoListErr :: jstr
  repoLoading :: bool
  repoSearch :: jstr
  repoSel :: "remote option"
  repoDir :: jstr
  repoSaving :: bool
  isTauri :: bool
  repoEdit :: "repo option"
  editName :: jstr
  editBranch :: jstr
  editBusy :: bool
  repoDel :: "repo option"
  delBusy :: bool

definition repos_start :: repos where
  "repos_start = \<lparr>rp_repos = Nul, repoOpen = False, repoStep = Source, repoProv = [], repoList = None, repoListErr = [],
     repoLoading = False, repoSearch = [], repoSel = None, repoDir = [], repoSaving = False, isTauri = False,
     repoEdit = None, editName = [], editBranch = [], editBusy = False, repoDel = None, delBusy = False\<rparr>"

text \<open>
  The listing of a source: an \<open>error\<close> with its message, or the repositories (none when the field is
  missing, as in the answer to a failed request).
\<close>

datatype listing = Listing_error jstr | Listing "remote list"

text \<open>What a save closed over.\<close>

record saving =
  sv_remote :: remote
  sv_prov :: jstr
  sv_dir :: jstr

datatype repos_tag =
    Get_repos
  | Get_listing jstr
  | Post_repo saving
  | Post_clone_url saving
  | Clone saving
  | Post_edit
  | Delete_repo

datatype repos_event =
    R_repos "repo list pdata outcome"
  | R_mount bool
  | R_open
  | R_close
  | R_source jstr
  | R_listed jstr "listing outcome"
  | R_query jstr
  | R_remote remote
  | R_back repo_step
  | R_dir jstr
  | R_browse
  | R_browsed "jstr option outcome"
  | R_save
  | R_saved saving "json outcome"
  | R_clone_url saving "json outcome"
  | R_cloned saving "(int \<times> jstr) outcome"
  | R_edit repo
  | R_edit_close
  | R_edit_name jstr
  | R_edit_branch jstr
  | R_edit_save
  | R_edited "json outcome"
  | R_del repo
  | R_del_close
  | R_del_confirm
  | R_deleted "json outcome"

definition reload_repos :: "repos_tag cmd list" where
  "reload_repos = [Send GET (u ''/v1/repos'') None Get_repos]"

definition or_main :: "jstr \<Rightarrow> jstr" where
  "or_main b = (if b = [] then (u ''main'') else b)"

text \<open>\<open>full_name.split("/").pop() || full_name\<close>.\<close>

definition leaf :: "remote \<Rightarrow> jstr" where
  "leaf x = (let p = last (split_on (of_char CHR ''/'') (rr_full x)) in if p = [] then rr_full x else p)"

definition openRepoModal :: "repos \<Rightarrow> repos" where
  "openRepoModal s = s\<lparr>repoStep := Source, repoProv := [], repoList := None, repoListErr := [], repoLoading := False,
     repoSearch := [], repoSel := None, repoDir := [], repoSaving := False, repoOpen := True\<rparr>"

definition pickRepoSource :: "jstr \<Rightarrow> repos \<Rightarrow> repos \<times> repos_tag cmd list" where
  "pickRepoSource p s =
     (s\<lparr>repoProv := p, repoStep := Repo, repoList := None, repoListErr := [], repoSearch := [], repoLoading := True\<rparr>,
      [Send GET ((u ''/v1/connections/code/repos?provider='') @ p) None (Get_listing p)])"

definition listed :: "listing outcome \<Rightarrow> repos \<Rightarrow> repos" where
  "listed r s =
     (case r of
        Rejected m \<Rightarrow> s\<lparr>repoListErr := m, repoLoading := False\<rparr>
      | Resolved (Listing_error m) \<Rightarrow>
          s\<lparr>repoListErr := (if m = [] then (ux ''falha ao listar reposit{f3}rios'') else m), repoLoading := False\<rparr>
      | Resolved (Listing xs) \<Rightarrow> s\<lparr>repoList := Some xs, repoLoading := False\<rparr>)"

definition pickRemoteRepo :: "remote \<Rightarrow> repos \<Rightarrow> repos" where
  "pickRemoteRepo x s = s\<lparr>repoSel := Some x, repoDir := (u ''~/apifor/'') @ leaf x, repoStep := Dir\<rparr>"

definition save_body :: "saving \<Rightarrow> json" where
  "save_body v = JObj [((u ''name''), JStr (leaf (sv_remote v))), ((u ''clone_url''), JStr (rr_clone (sv_remote v))),
     ((u ''default_branch''), JStr (or_main (rr_branch (sv_remote v)))), ((u ''provider''), JStr (sv_prov v)),
     ((u ''local_dir''), JStr (trim (sv_dir v)))]"

definition saveRepo :: "repos \<Rightarrow> repos \<times> repos_tag cmd list" where
  "saveRepo s =
     (case repoSel s of
        None \<Rightarrow> (s, [])
      | Some x \<Rightarrow>
          (let v = \<lparr>sv_remote = x, sv_prov = repoProv s, sv_dir = repoDir s\<rparr> in
           (s\<lparr>repoSaving := True\<rparr>, [Send POST (u ''/v1/repos'') (Some (save_body v)) (Post_repo v)])))"

text \<open>The end of a save, with the message of a clone if there was one.\<close>

definition save_done :: "repos_tag cmd list \<Rightarrow> repos \<Rightarrow> repos \<times> repos_tag cmd list" where
  "save_done toasts s = (s\<lparr>repoOpen := False, repoSaving := False\<rparr>, toasts @ reload_repos)"

definition clone_toast :: "saving \<Rightarrow> jstr \<Rightarrow> repos_tag cmd list" where
  "clone_toast v e =
     (if e \<noteq> [] then [Toast ((u ''repo cadastrado, mas o clone falhou: '') @ e) Error]
      else [Toast ((ux ''reposit{f3}rio clonado em '') @ trim (sv_dir v)) Success])"

definition saved :: "saving \<Rightarrow> json outcome \<Rightarrow> repos \<Rightarrow> repos \<times> repos_tag cmd list" where
  "saved v r s =
     (case r of
        Rejected _ \<Rightarrow> (s\<lparr>repoSaving := False\<rparr>, [])
      | Resolved _ \<Rightarrow>
          (if isTauri s \<and> trim (sv_dir v) \<noteq> [] then
             (s, [Send POST (u ''/v1/repos/clone-url'')
                    (Some (JObj [((u ''provider''), JStr (sv_prov v)), ((u ''clone_url''), JStr (rr_clone (sv_remote v)))])) (Post_clone_url v)])
           else save_done [] s))"

text \<open>\<open>(await homeDir()).replace(/\\/$/, "") + target.slice(1)\<close> for a directory that starts with a tilde.\<close>

definition strip_slash :: "jstr \<Rightarrow> jstr" where
  "strip_slash s = (if s \<noteq> [] \<and> last s = of_char CHR ''/'' then butlast s else s)"

definition clone_target :: "jstr outcome \<Rightarrow> jstr \<Rightarrow> jstr outcome" where
  "clone_target home dir =
     (let t = trim dir in
      if starts_with t (u ''~'') then
        (case home of Resolved h \<Rightarrow> Resolved (strip_slash h @ drop 1 t) | Rejected m \<Rightarrow> Rejected m)
      else Resolved t)"

definition clone_url_answer :: "jstr outcome \<Rightarrow> saving \<Rightarrow> json outcome \<Rightarrow> repos \<Rightarrow> repos \<times> repos_tag cmd list" where
  "clone_url_answer home v r s =
     (case r of
        Rejected m \<Rightarrow> save_done (clone_toast v m) s
      | Resolved auth \<Rightarrow>
          (case clone_target home (sv_dir v) of
             Rejected m \<Rightarrow> save_done (clone_toast v m) s
           | Resolved target \<Rightarrow>
               (s, [Exec (u ''git'') [(u ''clone''), jtext_or (rr_clone (sv_remote v)) (jget (u ''url'') auth), target] (Clone v)])))"

text \<open>\<open>out.code === 0 ? "" : out.stderr?.trim() || "git saiu com..."\<close>.\<close>

definition cloned :: "saving \<Rightarrow> (int \<times> jstr) outcome \<Rightarrow> repos \<Rightarrow> repos \<times> repos_tag cmd list" where
  "cloned v r s =
     (case r of
        Rejected m \<Rightarrow> save_done (clone_toast v m) s
      | Resolved (code, stderr) \<Rightarrow>
          save_done (clone_toast v (if code = 0 then []
            else if trim stderr \<noteq> [] then trim stderr else (ux ''git saiu com c{f3}digo '') @ ishow code)) s)"

definition saveRepoEdit :: "repos \<Rightarrow> repos \<times> repos_tag cmd list" where
  "saveRepoEdit s =
     (case repoEdit s of
        None \<Rightarrow> (s, [])
      | Some x \<Rightarrow>
          (if trim (editName s) = [] then (s, [])
           else (s\<lparr>editBusy := True\<rparr>,
                 [Send POST ((u ''/v1/repos/'') @ re_id x)
                    (Some (JObj [((u ''name''), JStr (trim (editName s))), ((u ''default_branch''), JStr (or_main (trim (editBranch s))))])) Post_edit])))"

definition edited :: "json outcome \<Rightarrow> repos \<Rightarrow> repos \<times> repos_tag cmd list" where
  "edited r s =
     (case r of
        Rejected m \<Rightarrow> (s\<lparr>editBusy := False\<rparr>, [Toast m Error])
      | Resolved j \<Rightarrow>
          (if truthy (jget (u ''error'') j)
           then (s\<lparr>editBusy := False\<rparr>, [Toast (jtext_or (u ''falha ao salvar'') (jget (u ''message'') (jget (u ''error'') j))) Error])
           else (s\<lparr>repoEdit := None, editBusy := False\<rparr>, Toast (ux ''reposit{f3}rio atualizado'') Success # reload_repos)))"

definition confirmDelRepo :: "repos \<Rightarrow> repos \<times> repos_tag cmd list" where
  "confirmDelRepo s =
     (case repoDel s of
        None \<Rightarrow> (s, [])
      | Some x \<Rightarrow> (s\<lparr>delBusy := True\<rparr>, [Send DELETE ((u ''/v1/repos/'') @ re_id x) None Delete_repo]))"

definition deleted :: "json outcome \<Rightarrow> repos \<Rightarrow> repos \<times> repos_tag cmd list" where
  "deleted r s =
     (case r of
        Rejected m \<Rightarrow> (s\<lparr>delBusy := False\<rparr>, [Toast m Error])
      | Resolved j \<Rightarrow>
          (if truthy (jget (u ''error'') j)
           then (s\<lparr>delBusy := False\<rparr>, [Toast (jtext_or (u ''falha ao excluir'') (jget (u ''message'') (jget (u ''error'') j))) Error])
           else (s\<lparr>repoDel := None, delBusy := False\<rparr>, Toast (ux ''reposit{f3}rio removido'') Success # reload_repos)))"

text \<open>
  The folder picker answers with the folder, with nothing when it was cancelled, or fails; off the
  desktop there is only a message.
\<close>

definition browsed :: "jstr option outcome \<Rightarrow> repos \<Rightarrow> repos \<times> repos_tag cmd list" where
  "browsed r s =
     (case r of
        Rejected _ \<Rightarrow> (s, [Toast (ux ''n{e3}o foi poss{ed}vel abrir o seletor de pasta'') Error])
      | Resolved (Some d) \<Rightarrow> (if d \<noteq> [] then s\<lparr>repoDir := d\<rparr> else s, [])
      | Resolved None \<Rightarrow> (s, []))"

fun repos_step :: "jstr outcome \<Rightarrow> repos_event \<Rightarrow> repos \<Rightarrow> repos \<times> repos_tag cmd list" where
  "repos_step home (R_repos r) s = (s\<lparr>rp_repos := poll_accept r (rp_repos s)\<rparr>, [])"
| "repos_step home (R_mount tauri) s = (s\<lparr>isTauri := tauri\<rparr>, [])"
| "repos_step home R_open s = (openRepoModal s, [])"
| "repos_step home R_close s = (s\<lparr>repoOpen := False\<rparr>, [])"
| "repos_step home (R_source p) s = pickRepoSource p s"
| "repos_step home (R_listed p r) s = (listed r s, [])"
| "repos_step home (R_query v) s = (s\<lparr>repoSearch := v\<rparr>, [])"
| "repos_step home (R_remote x) s = (pickRemoteRepo x s, [])"
| "repos_step home (R_back st) s = (s\<lparr>repoStep := st\<rparr>, [])"
| "repos_step home (R_dir v) s = (s\<lparr>repoDir := v\<rparr>, [])"
| "repos_step home R_browse s =
     (s, if isTauri s then [] else [Toast (ux ''Sele{e7}{e3}o de pasta dispon{ed}vel no app desktop {2014} digite o caminho.'') Info])"
| "repos_step home (R_browsed r) s = browsed r s"
| "repos_step home R_save s = saveRepo s"
| "repos_step home (R_saved v r) s = saved v r s"
| "repos_step home (R_clone_url v r) s = clone_url_answer home v r s"
| "repos_step home (R_cloned v r) s = cloned v r s"
| "repos_step home (R_edit x) s = (s\<lparr>repoEdit := Some x, editName := re_name x, editBranch := or_main (re_branch x)\<rparr>, [])"
| "repos_step home R_edit_close s = (s\<lparr>repoEdit := None\<rparr>, [])"
| "repos_step home (R_edit_name v) s = (s\<lparr>editName := v\<rparr>, [])"
| "repos_step home (R_edit_branch v) s = (s\<lparr>editBranch := v\<rparr>, [])"
| "repos_step home R_edit_save s = saveRepoEdit s"
| "repos_step home (R_edited r) s = edited r s"
| "repos_step home (R_del x) s = (s\<lparr>repoDel := Some x\<rparr>, [])"
| "repos_step home R_del_close s = (s\<lparr>repoDel := None\<rparr>, [])"
| "repos_step home R_del_confirm s = confirmDelRepo s"
| "repos_step home (R_deleted r) s = deleted r s"

definition remote_hits :: "(jstr \<Rightarrow> jstr) \<Rightarrow> repos \<Rightarrow> remote list" where
  "remote_hits lc s =
     filter (\<lambda>x. contains (lc (rr_full x)) (lc (trim (repoSearch s)))) (case repoList s of Some xs \<Rightarrow> xs | None \<Rightarrow> [])"

subsection \<open>Facts\<close>

lemma last_piece_clean: "c \<notin> set (last (split_on c s))"
  using split_on_pieces [of "last (split_on c s)" c s] by (meson last_in_set split_on_nonempty)

end
