(* ===== verification/Settings_Pool.thy ===== *)
theory Settings_Pool
  imports Page_Kit
begin

text \<open>
  The pool configuration and the pinned workers of app/config/page.tsx. The configuration is kept
  as the JSON value the server sent (theory Page_Kit); a change is applied at once and sent whole.
\<close>

subsection \<open>Pool\<close>

datatype pool_tag =
    Get_pool_cfg
  | Post_pool_cfg
  | Get_pinned
  | Post_worker bool
  | Post_toggle bool
  | Delete_worker
  | Post_bulk bool

definition load_pool_cfg :: "pool_tag cmd list" where
  "load_pool_cfg = [Send GET (u ''/v1/pool'') None Get_pool_cfg]"

definition savePool :: "jstr \<Rightarrow> json \<Rightarrow> json \<Rightarrow> json \<times> pool_tag cmd list" where
  "savePool k v pool =
     (if \<not> truthy pool then (pool, [])
      else (let nxt = spread_set k v pool in (nxt, [Send POST (u ''/v1/pool'') (Some nxt) Post_pool_cfg])))"

text \<open>\<open>pool ? !pool.paused : false\<close> and \<open>pool?.mode || "pool"\<close>.\<close>

definition pool_running :: "json \<Rightarrow> bool" where
  "pool_running pool = (truthy pool \<and> \<not> truthy (jget (u ''paused'') pool))"

definition pool_mode :: "json \<Rightarrow> jstr" where
  "pool_mode pool = jtext_or (u ''pool'') (jget (u ''mode'') pool)"

text \<open>\<open>pool?.k ?? d\<close> for a numeric field, which is an integer, and a boolean one.\<close>

definition pool_num :: "jstr \<Rightarrow> int \<Rightarrow> json \<Rightarrow> int" where
  "pool_num k d pool = (case jget k pool of JNum x \<Rightarrow> \<lfloor>x\<rfloor> | _ \<Rightarrow> d)"

definition pool_flag :: "jstr \<Rightarrow> bool \<Rightarrow> json \<Rightarrow> bool" where
  "pool_flag k d pool = (case jget k pool of JUndef \<Rightarrow> d | JNull \<Rightarrow> d | v \<Rightarrow> truthy v)"

subsection \<open>Pinned workers\<close>

text \<open>Optional fields: \<open>None\<close> is missing or null.\<close>

record pinned =
  pn_id :: jstr
  pn_focus :: jstr
  pn_repo :: jstr
  pn_repo_name :: jstr
  pn_concurrency :: nat
  pn_model :: jstr
  pn_rules :: "jstr option"
  pn_enabled :: "bool option"
  pn_open_pr :: "bool option"
  pn_run_tests :: "bool option"
  pn_auto_merge :: "bool option"

record pw_form =
  pw_focus :: jstr
  pw_repo :: jstr
  pw_model :: jstr
  pw_concurrency :: nat
  pw_rules :: jstr
  pw_enabled :: bool
  pw_open_pr :: bool
  pw_run_tests :: bool
  pw_auto_merge :: bool

definition pw_new :: pw_form where
  "pw_new = \<lparr>pw_focus = (u ''backend''), pw_repo = [], pw_model = (u ''claude_opus''), pw_concurrency = 1, pw_rules = [],
     pw_enabled = True, pw_open_pr = True, pw_run_tests = True, pw_auto_merge = False\<rparr>"

definition capabilities :: "bool \<Rightarrow> bool \<Rightarrow> bool \<Rightarrow> json" where
  "capabilities pr tests merge = JObj [((u ''open_pr''), JBool pr), ((u ''run_tests''), JBool tests), ((u ''auto_merge''), JBool merge)]"

definition pwBody :: "pw_form \<Rightarrow> json" where
  "pwBody x = JObj [((u ''focus''), JStr (pw_focus x)), ((u ''repo_id''), JStr (pw_repo x)), ((u ''model''), JStr (pw_model x)),
     ((u ''concurrency''), JNum (of_nat (pw_concurrency x))), ((u ''rules''), JStr (pw_rules x)), ((u ''enabled''), JBool (pw_enabled x)),
     ((u ''capabilities''), capabilities (pw_open_pr x) (pw_run_tests x) (pw_auto_merge x))]"

definition pw_of :: "pinned \<Rightarrow> pw_form" where
  "pw_of p = \<lparr>pw_focus = pn_focus p, pw_repo = pn_repo p,
     pw_model = (if pn_model p = [] then (u ''claude_opus'') else pn_model p),
     pw_concurrency = (if pn_concurrency p = 0 then 1 else pn_concurrency p),
     pw_rules = or_blank (pn_rules p), pw_enabled = (pn_enabled p \<noteq> Some False),
     pw_open_pr = (pn_open_pr p \<noteq> Some False), pw_run_tests = (pn_run_tests p \<noteq> Some False),
     pw_auto_merge = (pn_auto_merge p = Some True)\<rparr>"

definition toggle_body :: "pinned \<Rightarrow> json" where
  "toggle_body p = JObj [((u ''focus''), JStr (pn_focus p)), ((u ''repo_id''), JStr (pn_repo p)), ((u ''model''), JStr (pn_model p)),
     ((u ''concurrency''), JNum (of_nat (pn_concurrency p))), ((u ''rules''), JStr (or_blank (pn_rules p))),
     ((u ''enabled''), JBool (pn_enabled p = Some False)),
     ((u ''capabilities''), capabilities (pn_open_pr p \<noteq> Some False) (pn_run_tests p \<noteq> Some False) (pn_auto_merge p = Some True))]"

record pool_cfg =
  pc_pool :: json
  pc_pinned :: "pinned list pdata"
  pwOpen :: bool
  pwEditId :: "jstr option"
  pwBusy :: bool
  pw :: pw_form

definition pool_cfg_start :: pool_cfg where
  "pool_cfg_start = \<lparr>pc_pool = JNull, pc_pinned = Nul, pwOpen = False, pwEditId = None, pwBusy = False, pw = pw_new\<rparr>"

datatype pool_event =
    P_load
  | P_pool "json outcome"
  | P_save jstr json
  | P_saved "json outcome"
  | P_pinned "pinned list pdata outcome"
  | P_new
  | P_edit pinned
  | P_close
  | P_form "pw_form \<Rightarrow> pw_form"
  | P_submit
  | P_submitted bool "json outcome"
  | P_toggle pinned
  | P_toggled bool "json outcome"
  | P_delete jstr
  | P_deleted "json outcome"
  | P_all bool
  | P_all_done bool "json outcome"

definition reload_pinned :: "pool_tag cmd list" where
  "reload_pinned = [Send GET (u ''/v1/pinned-workers'') None Get_pinned]"

text \<open>An empty id counts as none, as in \<open>if (pwEditId)\<close>.\<close>

definition editing :: "pool_cfg \<Rightarrow> bool" where
  "editing s = (or_blank (pwEditId s) \<noteq> [])"

definition savePw :: "pool_cfg \<Rightarrow> pool_cfg \<times> pool_tag cmd list" where
  "savePw s =
     (s\<lparr>pwBusy := True\<rparr>,
      [Send POST (if editing s then (u ''/v1/pinned-workers/'') @ or_blank (pwEditId s) else (u ''/v1/pinned-workers''))
         (Some (pwBody (pw s))) (Post_worker (editing s))])"

definition pw_saved :: "bool \<Rightarrow> json outcome \<Rightarrow> pool_cfg \<Rightarrow> pool_cfg \<times> pool_tag cmd list" where
  "pw_saved ed r s =
     (case r of
        Resolved _ \<Rightarrow>
          (s\<lparr>pwOpen := False, pwBusy := False\<rparr>,
           Toast (if ed then (u ''worker atualizado'') else (u ''worker criado'')) Success # reload_pinned)
      | Rejected m \<Rightarrow> (s\<lparr>pwBusy := False\<rparr>, [Toast m Error]))"

fun pool_cfg_step :: "pool_event \<Rightarrow> pool_cfg \<Rightarrow> pool_cfg \<times> pool_tag cmd list" where
  "pool_cfg_step P_load s = (s, load_pool_cfg)"
| "pool_cfg_step (P_pool r) s = (s\<lparr>pc_pool := pool_accept r (pc_pool s)\<rparr>, [])"
| "pool_cfg_step (P_save k v) s = (let (p, cs) = savePool k v (pc_pool s) in (s\<lparr>pc_pool := p\<rparr>, cs))"
| "pool_cfg_step (P_saved r) s = (s, [])"
| "pool_cfg_step (P_pinned r) s = (s\<lparr>pc_pinned := poll_accept r (pc_pinned s)\<rparr>, [])"
| "pool_cfg_step P_new s = (s\<lparr>pwEditId := None, pw := pw_new, pwOpen := True\<rparr>, [])"
| "pool_cfg_step (P_edit p) s = (s\<lparr>pwEditId := Some (pn_id p), pw := pw_of p, pwOpen := True\<rparr>, [])"
| "pool_cfg_step P_close s = (s\<lparr>pwOpen := False\<rparr>, [])"
| "pool_cfg_step (P_form f) s = (s\<lparr>pw := f (pw s)\<rparr>, [])"
| "pool_cfg_step P_submit s = savePw s"
| "pool_cfg_step (P_submitted ed r) s = pw_saved ed r s"
| "pool_cfg_step (P_toggle p) s =
     (s, [Send POST ((u ''/v1/pinned-workers/'') @ pn_id p) (Some (toggle_body p)) (Post_toggle (pn_enabled p = Some False))])"
| "pool_cfg_step (P_toggled on r) s =
     (s, case r of
           Resolved _ \<Rightarrow> Toast (if on then (u ''worker ligado'') else (u ''worker desligado'')) Success # reload_pinned
         | Rejected _ \<Rightarrow> [])"
| "pool_cfg_step (P_delete i) s = (s, [Send DELETE ((u ''/v1/pinned-workers/'') @ i) None Delete_worker])"
| "pool_cfg_step (P_deleted r) s = (s, case r of Resolved _ \<Rightarrow> reload_pinned | Rejected _ \<Rightarrow> [])"
| "pool_cfg_step (P_all on) s =
     (s, [Send POST (u ''/v1/pinned-workers/bulk'') (Some (JObj [((u ''enabled''), JBool on)])) (Post_bulk on)])"
| "pool_cfg_step (P_all_done on r) s =
     (s, case r of
           Resolved _ \<Rightarrow> Toast (if on then (u ''todos os workers ligados'') else (u ''todos os workers desligados'')) Success # reload_pinned
         | Rejected m \<Rightarrow> [Toast m Error])"

definition pinnedList :: "pool_cfg \<Rightarrow> pinned list" where
  "pinnedList s = or_empty (pc_pinned s)"

definition all_on :: "pool_cfg \<Rightarrow> bool" where
  "all_on s = list_all (\<lambda>p. pn_enabled p \<noteq> Some False) (pinnedList s)"

subsection \<open>What the server stores\<close>

text \<open>A worker as a body describes it, for the comparison of what is sent with what was received.\<close>

definition same_settings :: "pinned \<Rightarrow> json \<Rightarrow> bool" where
  "same_settings p b \<longleftrightarrow>
     jget (u ''focus'') b = JStr (pn_focus p) \<and> jget (u ''repo_id'') b = JStr (pn_repo p) \<and> jget (u ''model'') b = JStr (pn_model p)
     \<and> jget (u ''concurrency'') b = JNum (of_nat (pn_concurrency p)) \<and> jget (u ''rules'') b = JStr (or_blank (pn_rules p))
     \<and> jget (u ''open_pr'') (jget (u ''capabilities'') b) = JBool (pn_open_pr p \<noteq> Some False)
     \<and> jget (u ''run_tests'') (jget (u ''capabilities'') b) = JBool (pn_run_tests p \<noteq> Some False)
     \<and> jget (u ''auto_merge'') (jget (u ''capabilities'') b) = JBool (pn_auto_merge p = Some True)"

lemma edit_keeps_settings:
  assumes "pn_model p \<noteq> []" "0 < pn_concurrency p"
  shows "same_settings p (pwBody (pw_of p)) \<and> jget (u ''enabled'') (pwBody (pw_of p)) = JBool (pn_enabled p \<noteq> Some False)"
  using assms by (simp add: same_settings_def pwBody_def pw_of_def capabilities_def)

lemma toggle_keeps_settings:
  "same_settings p (toggle_body p) \<and> jget (u ''enabled'') (toggle_body p) = JBool (\<not> (pn_enabled p \<noteq> Some False))"
  by (simp add: same_settings_def toggle_body_def capabilities_def)

definition pool_cfg_defined :: "pool_cfg \<Rightarrow> bool" where
  "pool_cfg_defined s = (pc_pinned s \<noteq> Undef)"

interpretation pool_machine: stepper pool_cfg_start "\<lambda>e s. fst (pool_cfg_step e s)" pool_cfg_defined
proof
  show "pool_cfg_defined pool_cfg_start" by (simp add: pool_cfg_defined_def pool_cfg_start_def)
  show "pool_cfg_defined (fst (pool_cfg_step e s))" if "pool_cfg_defined s" for e s
    using that
    by (cases e) (auto simp: pool_cfg_defined_def poll_accept_defined savePool_def savePw_def pw_saved_def Let_def
        split: outcome.split)
qed

end
