(* ===== verification/Settings.thy ===== *)
theory Settings
  imports Settings_Conn Settings_Repos Settings_Pool
begin

text \<open>
  The settings page, app/config/page.tsx, put together: the three groups of state of the sibling
  theories, the tabs, and the choices that stay in the page (models per agent, merge rules, pool
  behaviour), which no request carries.
\<close>

definition MODELS :: "jstr list" where
  "MODELS = [(u ''claude_opus''), (u ''claude_sonnet''), (u ''claude_haiku'')]"

definition MODEL_LABELS :: "(jstr \<times> jstr) list" where
  "MODEL_LABELS = [((u ''claude_opus''), (u ''Claude Opus 4.8'')), ((u ''claude_sonnet''), (u ''Claude Sonnet 4.6'')), ((u ''claude_haiku''), (u ''Claude Haiku 4.5''))]"

definition MODEL_API_IDS :: "(jstr \<times> jstr) list" where
  "MODEL_API_IDS = [((u ''claude_opus''), (u ''claude-opus-4-8'')), ((u ''claude_sonnet''), (u ''claude-sonnet-4-6'')),
     ((u ''claude_haiku''), (u ''claude-haiku-4-5-20251001''))]"

text \<open>Role, description and default model.\<close>

definition AGENTS :: "(jstr \<times> jstr \<times> jstr) list" where
  "AGENTS = [
    ((u ''Planejador''), (ux ''Decomp{f5}e a tarefa em etapas''), (u ''claude_opus'')),
    ((u ''Codificador''), (ux ''Escreve e edita o c{f3}digo''), (u ''claude_sonnet'')),
    ((u ''Revisor IA''), (u ''Revisa o PR antes do merge''), (u ''claude_opus'')),
    ((u ''Testador''), (u ''Escreve e executa os testes''), (u ''claude_haiku''))]"

definition FOCOS :: "jstr list" where
  "FOCOS = [(ux ''Features e corre{e7}{f5}es''), (ux ''Apenas seguran{e7}a''), (ux ''Documenta{e7}{e3}o''), (u ''Testes''), (u ''Tudo'')]"

definition CODE_PROVS :: "(jstr \<times> jstr) list" where
  "CODE_PROVS = [((u ''github''), (u ''GitHub'')), ((u ''gitlab''), (u ''GitLab'')), ((u ''bitbucket''), (u ''Bitbucket''))]"

record merge_rules =
  ciVerde :: bool
  aprovacaoIA :: bool
  revisaoHumana :: bool
  deleteBranch :: bool
  strategy :: jstr

record secret =
  sc_id :: jstr
  sc_name :: jstr
  sc_type :: jstr
  sc_fingerprint :: jstr
  sc_location :: jstr

record settings =
  se_loading :: bool
  se_conns :: conns
  se_repos :: repos
  se_pool :: pool_cfg
  se_secrets :: "secret list pdata"
  tab :: jstr
  connTab :: jstr
  agentModels :: "(jstr \<times> jstr) list"
  mergeRules :: merge_rules
  autoscale :: bool
  foco :: jstr
  poolRepoSearch :: jstr

datatype settings_tag = From_conns conns_tag | From_repos repos_tag | From_pool pool_tag

datatype settings_event =
    S_mount jstr bool
  | S_conns conns_event
  | S_repos repos_event
  | S_pool pool_event
  | S_secrets "secret list pdata outcome"
  | S_tab jstr
  | S_conn_tab jstr
  | S_agent jstr jstr
  | S_merge "merge_rules \<Rightarrow> merge_rules"
  | S_autoscale bool
  | S_foco jstr
  | S_repo_query jstr
  | S_go_connect

definition settings_start :: settings where
  "settings_start = \<lparr>se_loading = True, se_conns = conns_start, se_repos = repos_start, se_pool = pool_cfg_start,
     se_secrets = Nul, tab = (u ''workers''), connTab = (u ''codigo''), agentModels = map (\<lambda>(r, d, m). (r, m)) AGENTS,
     mergeRules = \<lparr>ciVerde = True, aprovacaoIA = True, revisaoHumana = False, deleteBranch = True, strategy = (u ''Squash and merge'')\<rparr>,
     autoscale = False, foco = (ux ''Features e corre{e7}{f5}es''), poolRepoSearch = []\<rparr>"

text \<open>The commands of a part, with its tags made the page's.\<close>

fun retag :: "('a \<Rightarrow> 'b) \<Rightarrow> 'a cmd \<Rightarrow> 'b cmd" where
  "retag f (Send m p b k) = Send m p b (f k)"
| "retag f (SetItem k v) = SetItem k v"
| "retag f (DelItem k) = DelItem k"
| "retag f (GoTo l) = GoTo l"
| "retag f (ReplaceTo l) = ReplaceTo l"
| "retag f ReloadPage = ReloadPage"
| "retag f (Toast m k) = Toast m k"
| "retag f (OpenUrl l) = OpenUrl l"
| "retag f (Broadcast s) = Broadcast s"
| "retag f (Exec p as k) = Exec p as (f k)"
| "retag f (RewriteUrl p) = RewriteUrl p"
| "retag f (Alert m) = Alert m"

lemma sends_retag: "sends (map (retag f) cs) = map (\<lambda>(m, p, b, k). (m, p, b, f k)) (sends cs)"
  by (induction cs rule: sends.induct) auto

definition in_conns :: "conns_event \<Rightarrow> settings \<Rightarrow> settings \<times> settings_tag cmd list" where
  "in_conns e s = (let (c, cs) = conns_step e (se_conns s) in (s\<lparr>se_conns := c\<rparr>, map (retag From_conns) cs))"

text \<open>The loading effect watches the repositories.\<close>

definition in_repos :: "jstr outcome \<Rightarrow> repos_event \<Rightarrow> settings \<Rightarrow> settings \<times> settings_tag cmd list" where
  "in_repos home e s =
     (let (r, cs) = repos_step home e (se_repos s) in
      (s\<lparr>se_repos := r, se_loading := loading_effect (rp_repos r) (se_loading s)\<rparr>, map (retag From_repos) cs))"

definition in_pool :: "pool_event \<Rightarrow> settings \<Rightarrow> settings \<times> settings_tag cmd list" where
  "in_pool e s = (let (p, cs) = pool_cfg_step e (se_pool s) in (s\<lparr>se_pool := p\<rparr>, map (retag From_pool) cs))"

text \<open>On mount: the address bar's query, the pool, and whether this is the desktop.\<close>

fun settings_step :: "jstr outcome \<Rightarrow> settings_event \<Rightarrow> settings \<Rightarrow> settings \<times> settings_tag cmd list" where
  "settings_step home (S_mount srch tauri) s =
     (let (s1, c1) = in_conns (Gh_returned srch) s; (s2, c2) = in_pool P_load s1; (s3, c3) = in_repos home (R_mount tauri) s2 in
      (s3, c1 @ c2 @ c3))"
| "settings_step home (S_conns e) s = in_conns e s"
| "settings_step home (S_repos e) s = in_repos home e s"
| "settings_step home (S_pool e) s = in_pool e s"
| "settings_step home (S_secrets r) s = (s\<lparr>se_secrets := poll_accept r (se_secrets s)\<rparr>, [])"
| "settings_step home (S_tab k) s = (s\<lparr>tab := k\<rparr>, [])"
| "settings_step home (S_conn_tab k) s = (s\<lparr>connTab := k\<rparr>, [])"
| "settings_step home (S_agent r m) s =
     (s\<lparr>agentModels := map (\<lambda>(r', m'). (r', if r' = r then m else m')) (agentModels s)\<rparr>, [])"
| "settings_step home (S_merge f) s = (s\<lparr>mergeRules := f (mergeRules s)\<rparr>, [])"
| "settings_step home (S_autoscale v) s = (s\<lparr>autoscale := v\<rparr>, [])"
| "settings_step home (S_foco v) s = (s\<lparr>foco := v\<rparr>, [])"
| "settings_step home (S_repo_query v) s = (s\<lparr>poolRepoSearch := v\<rparr>, [])"
| "settings_step home S_go_connect s =
     (let (s1, cs) = in_repos home R_close s in (s1\<lparr>tab := (u ''connections''), connTab := (u ''codigo'')\<rparr>, cs))"

text \<open>The code hosts a repository can be added from.\<close>

definition codeConns :: "settings \<Rightarrow> conn list" where
  "codeConns s = filter (\<lambda>c. cn_type c = (u ''code'') \<and> cn_status c = (u ''ok'')) (or_empty (c_conns (se_conns s)))"

end
