(* ===== verification/Settings_View.thy ===== *)
theory Settings_View
  imports Settings
begin

text \<open>
  What app/config/page.tsx renders, tab by tab; the dialogs are in the theory Settings_Dialogs.
  \<open>uc\<close> is toUpperCase. The icons of the cards are left out.
\<close>

subsection \<open>Small parts\<close>

definition cfg_cardHead :: "jstr \<Rightarrow> jstr option \<Rightarrow> 'e node list \<Rightarrow> 'e node" where
  "cfg_cardHead title sub right = dv ([dv ([dvt title] @ (case sub of Some x \<Rightarrow> shown (x \<noteq> []) [dvt x] | None \<Rightarrow> []))] @ right)"

definition cfg_cardHeadIcon :: "jstr \<Rightarrow> jstr \<Rightarrow> nat \<Rightarrow> 'e node list \<Rightarrow> 'e node" where
  "cfg_cardHeadIcon title sub count right =
     dv ([dv [sp [svg], dv [dv [spt title, spt (nshow count)], dvt sub]]] @ right)"

definition cfg_row :: "jstr \<Rightarrow> jstr \<Rightarrow> 'e node \<Rightarrow> 'e node" where
  "cfg_row label sub right = dv [dv [spt label, spt sub], right]"

definition infoNote :: "jstr \<Rightarrow> 'e node" where
  "infoNote s = dv [svg, Txt s]"

text \<open>The hue of a tile: the first unit of the name, 0 for an empty one, modulo the palette.\<close>

definition tile_hue :: "jstr \<Rightarrow> jstr" where
  "tile_hue name =
     [(u ''var(--accent)''), (u ''var(--green)''), (u ''var(--orange)''), (u ''var(--blue)''), (u ''var(--red)'')] ! ((case name of [] \<Rightarrow> 0 | c # _ \<Rightarrow> c) mod 5)"

definition tile :: "(jstr \<Rightarrow> jstr) \<Rightarrow> jstr \<Rightarrow> 'e node" where
  "tile uc name = El ''div'' [Sty ''color'' (tile_hue name)] [Txt (uc (take 1 name))]"

definition active_btn :: "jstr \<Rightarrow> 'e \<Rightarrow> bool \<Rightarrow> 'e node list \<Rightarrow> 'e node" where
  "active_btn k e on cs =
     El ''button'' [Key k, OnClick e, Sty ''color'' (if on then (u ''var(--ink)'') else (u ''var(--dim)''))] cs"

subsection \<open>Workers tab, pool mode\<close>

abbreviation save_flag :: "jstr \<Rightarrow> bool \<Rightarrow> settings_event" where
  "save_flag k v \<equiv> S_pool (P_save k (JBool v))"

abbreviation save_num :: "jstr \<Rightarrow> jstr \<Rightarrow> settings_event" where
  "save_num k v \<equiv> S_pool (P_save k (JNum (of_nat (digits_value v))))"

definition num_opts :: "nat list \<Rightarrow> (nat \<Rightarrow> jstr) \<Rightarrow> 'e node list" where
  "num_opts ns f = map (\<lambda>n. El ''option'' [Key (nshow n), Value (nshow n)] [Txt (nshow n @ f n)]) ns"

definition mode_cards :: "settings \<Rightarrow> settings_event node" where
  "mode_cards s =
     dv (map (\<lambda>(m, label, desc).
       El ''button'' [Key m, OnClick (S_pool (P_save (u ''mode'') (JStr m))),
           Sty ''border'' (if pool_mode (pc_pool (se_pool s)) = m then (u ''2px solid var(--accent)'') else (u ''2px solid var(--border)''))]
         [sp [svg], sp [spt label, spt desc],
          sp (shown (pool_mode (pc_pool (se_pool s)) = m) [sp []])])
       [((u ''pool''), (u ''Pool''), (ux ''Workers compartilhados com config global {2014} qualquer um pega qualquer tarefa, em qualquer reposit{f3}rio.'')),
        ((u ''pinned''), (u ''Pinned''), (ux ''Workers dedicados, criados e configurados um a um (m{e1}x. 8).''))])"

definition pool_status :: "settings \<Rightarrow> settings_event node" where
  "pool_status s =
     (let running = pool_running (pc_pool (se_pool s)) in
      dv [sp (shown running [sp []] @ [El ''span'' [Sty ''background'' (if running then (u ''var(--green)'') else (u ''var(--mute)''))] []]),
          dv [dvt ((u ''Pool '') @ (if running then (u ''rodando'') else (u ''pausado''))),
              dvt (ux ''Liga/desliga o pool inteiro {2014} reflete no topo e na Dashboard.'')],
          toggle_el running (\<lambda>v. save_flag (u ''paused'') (\<not> v))])"

definition pool_config :: "settings \<Rightarrow> settings_event node" where
  "pool_config s =
     (let p = pc_pool (se_pool s) in
      dv [cfg_cardHead (ux ''Configura{e7}{e3}o global do pool'') (Some (u ''Aplica-se a todos os workers do pool.'')) [],
          dv [cfg_row (u ''Workers em paralelo'') (ux ''M{e1}ximo de 8 no plano Pro'')
                (sel_el (ishow (pool_num (u ''parallel_workers'') 1 p)) (save_num (u ''parallel_workers''))
                   (num_opts [1, 2, 3, 4, 5, 6, 7, 8] (\<lambda>_. (u '' workers'')))),
              cfg_row (u ''Timeout por tarefa'') (ux ''Encerra e marca retry ap{f3}s o limite'')
                (sel_el (ishow (pool_num (u ''timeout_min'') 30 p)) (save_num (u ''timeout_min''))
                   (num_opts [15, 30, 45, 60] (\<lambda>_. (u '' min'')) @ [optv (u ''0'') (u ''Sem limite'')])),
              cfg_row (u ''Tentativas antes de bloquear'') (u ''Quantos retries antes de pedir um humano'')
                (sel_el (ishow (pool_num (u ''retries'') 2 p)) (save_num (u ''retries''))
                   (num_opts [1, 2, 3, 5] (\<lambda>n. (u '' tentativa'') @ (if n > 1 then (u ''s'') else []))))]])"

definition pool_repos_card :: "settings \<Rightarrow> settings_event node" where
  "pool_repos_card s =
     dv [cfg_cardHead (ux ''Reposit{f3}rios do pool'') (Some (ux ''Reposit{f3}rios em que os workers do pool podem trabalhar.''))
           [btn (S_tab (u ''repos'')) [Txt (ux ''Gerenciar {2192}'')]],
         dv [dv (if or_empty (rp_repos (se_repos s)) \<noteq> []
                 then map (\<lambda>r. El ''span'' [Key (re_id r)] [Txt (re_name r)]) (or_empty (rp_repos (se_repos s)))
                 else [spt (ux ''Nenhum reposit{f3}rio selecionado.'')]),
             dv [svg, inp (poolRepoSearch s) S_repo_query (ux ''Buscar reposit{f3}rio para adicionar{2026}'')]]]"

definition behavior_card :: "settings \<Rightarrow> settings_event node" where
  "behavior_card s =
     dv [dvt (u ''Comportamento''),
         dv [cfg_row (u ''Isolamento por container'') (u ''Cada tarefa roda em ambiente isolado'')
               (toggle_el (pool_flag (u ''isolamento'') True (pc_pool (se_pool s))) (save_flag (u ''isolamento''))),
             cfg_row (u ''Auto-scale conforme a fila'') (u ''Sobe workers extras quando a fila cresce'') (toggle_el (autoscale s) S_autoscale),
             cfg_row (u ''Auto-merge quando aprovado'') (ux ''Mescla sozinho quando CI e revis{e3}o IA passam'')
               (toggle_el (pool_flag (u ''auto_merge'') False (pc_pool (se_pool s))) (save_flag (u ''auto_merge''))),
             dv [cfg_row (u ''Foco do pool'') (u ''Tipo de tarefa que o pool prioriza'')
                   (sel_el (foco s) S_foco (map (\<lambda>f. El ''option'' [Key f] [Txt f]) FOCOS))]]]"

definition agents_card :: "settings \<Rightarrow> settings_event node" where
  "agents_card s =
     dv [cfg_cardHead (u ''Modelos por agente'') (Some (u ''Modelo que cada agente usa nos workers do pool.'')) [],
         dv (map (\<lambda>(role, desc, _).
           El ''div'' [Key role]
             [dv [sp [svg], dv [spt role, spt desc]],
              sel_el (lookup_or [] (agentModels s) role) (S_agent role)
                (map (\<lambda>m. El ''option'' [Key m, Value m] [Txt (lookup_or [] MODEL_LABELS m)]) MODELS)]) AGENTS)]"

definition merge_card :: "settings \<Rightarrow> settings_event node" where
  "merge_card s =
     (let m = mergeRules s in
      dv [dvt (u ''Regras de merge''),
          dv [cfg_row (ux ''Estrat{e9}gia de merge'') (ux ''Como os PRs s{e3}o integrados'')
                (sel_el (strategy m) (\<lambda>v. S_merge (strategy_update (\<lambda>_. v)))
                   (map (\<lambda>x. El ''option'' [Key x] [Txt x]) [(u ''Squash and merge''), (u ''Merge commit''), (u ''Rebase and merge'')])),
              cfg_row (u ''Exigir CI verde'') (ux ''N{e3}o mescla com testes falhando'')
                (toggle_el (ciVerde m) (\<lambda>v. S_merge (ciVerde_update (\<lambda>_. v)))),
              cfg_row (ux ''Exigir aprova{e7}{e3}o da revis{e3}o IA'') (ux ''A segunda IA precisa aprovar o c{f3}digo'')
                (toggle_el (aprovacaoIA m) (\<lambda>v. S_merge (aprovacaoIA_update (\<lambda>_. v)))),
              cfg_row (ux ''Exigir revis{e3}o humana'') (ux ''Bloqueia o merge at{e9} um humano aprovar'')
                (toggle_el (revisaoHumana m) (\<lambda>v. S_merge (revisaoHumana_update (\<lambda>_. v)))),
              cfg_row (ux ''Deletar branch ap{f3}s merge'') (ux ''Mant{e9}m o reposit{f3}rio limpo'')
                (toggle_el (deleteBranch m) (\<lambda>v. S_merge (deleteBranch_update (\<lambda>_. v))))]])"

text \<open>Memory and knowledge: constant counts and buttons without handlers.\<close>

definition memory_cards :: "'e node list" where
  "memory_cards =
     [dv [], dv [spt (ux ''Mem{f3}ria e conhecimento''), spt (u ''Compartilhados por todos os workers do Pool.'')],
      dv [cfg_cardHeadIcon (ux ''Mem{f3}rias'') (ux ''Instru{e7}{f5}es aprendidas que orientam decis{f5}es futuras.'') 0
            [El ''button'' [] [svg, Txt (u ''Adicionar'')]],
          dv [svg, spt (ux ''Nenhuma mem{f3}ria ainda.''), spt (ux ''Adicione instru{e7}{f5}es ou salve decis{f5}es na Interven{e7}{e3}o.'')]],
      dv [cfg_cardHeadIcon (u ''Base de conhecimento'') (ux ''Documenta{e7}{f5}es e arquivos locais que os agentes podem consultar.'') 0
            [El ''button'' [] [svg, Txt (u ''Importar'')]],
          dv [svg, spt (u ''Nenhum documento importado.''), spt (u ''Importe docs, specs ou guias para os agentes consultarem.'')]]]"

subsection \<open>Workers tab, pinned mode\<close>

definition mark :: "bool \<Rightarrow> jstr" where
  "mark ok = (if ok then (ux ''{2713}'') else (ux ''{2715}''))"

definition pinned_card :: "pinned \<Rightarrow> settings_event node" where
  "pinned_card p =
     (let on = (pn_enabled p \<noteq> Some False) in
      El ''div'' [Key (pn_id p), Sty ''opacity'' (if on then (u ''1'') else (u ''.7''))]
        ([dv [sp [svg],
              dv [dvt (if pn_focus p = [] then (u ''worker dedicado'') else pn_focus p),
                  dvt ((u ''preso a '') @ (if pn_repo_name p = [] then (u ''qualquer repo'') else pn_repo_name p))],
              El ''span'' [Sty ''color'' (if on then (u ''var(--green)'') else (u ''var(--mute)''))] [sp [], Txt (if on then (u ''ligado'') else (u ''desligado''))],
              toggle_el on (\<lambda>_. S_pool (P_toggle p)),
              btn (S_pool (P_edit p)) [Txt (u ''Editar'')],
              El ''button'' [OnClick (S_pool (P_delete (pn_id p))), Title (u ''Deletar worker'')] [svg]],
          dv (map (\<lambda>(k, v). El ''div'' [Key k] [spt k, spt v])
               [((ux ''Reposit{f3}rio''), if pn_repo_name p = [] then (u ''qualquer'') else pn_repo_name p),
                ((u ''Foco''), if pn_focus p = [] then (ux ''{2014}'') else pn_focus p),
                ((u ''Modelo''), lookup_or (pn_model p) MODEL_LABELS (pn_model p)),
                ((ux ''Concorr{ea}ncia''), nshow (pn_concurrency p))]),
          dv (map (\<lambda>(label, ok). El ''span'' [Key label, Sty ''color'' (if ok then (u ''var(--green)'') else (u ''var(--mute)''))]
                  [Txt (mark ok), Txt (u '' ''), Txt label])
               [((u ''Abrir PR''), pn_open_pr p \<noteq> Some False), ((u ''Rodar testes''), pn_run_tests p \<noteq> Some False),
                ((u ''Auto-merge''), pn_auto_merge p = Some True)])]
         @ shown (or_blank (pn_rules p) \<noteq> []) [dv [spt (u ''Regras''), dvt (or_blank (pn_rules p))]]))"

definition pinned_tab :: "settings \<Rightarrow> settings_event node" where
  "pinned_tab s =
     (let ps = pinnedList (se_pool s); allOn = all_on (se_pool s) in
      dv ([dv [dv [spt (u ''Workers dedicados''), spt (nshow (length ps) @ (u '' / 8''))],
               dv (shown (ps \<noteq> [])
                     [El ''button'' [Title (if allOn then (u ''Desligar todos os workers'') else (u ''Ligar todos os workers'')),
                          OnClick (S_pool (P_all (\<not> allOn)))]
                        [El ''span'' [Sty ''background'' (if allOn then (u ''var(--green)'') else (u ''var(--mute)''))] [],
                         Txt (if allOn then (u ''Desligar todos'') else (u ''Ligar todos''))]]
                   @ [El ''button'' [Disabled (length ps \<ge> 8), OnClick (S_pool P_new)] [svg, Txt (u ''Adicionar worker'')]])]]
          @ shown (pool_running (pc_pool (se_pool s)))
              [dv [svg, Txt (ux ''O Pool est{e1} ligado. Desligue-o para ativar workers fixos.'')]]
          @ map pinned_card ps
          @ shown (ps = [])
              [dvt (ux ''nenhum worker dedicado {2014} adicione o primeiro. O total de concorr{ea}ncias vira o teto do pool.'')]
          @ [infoNote (ux ''No modo Pinned cada worker s{f3} pega tarefas do seu reposit{f3}rio, com modelo e comportamento pr{f3}prios.'')]))"

definition workers_tab :: "settings \<Rightarrow> settings_event node" where
  "workers_tab s =
     dv ([mode_cards s]
         @ shown (pool_mode (pc_pool (se_pool s)) = (u ''pool''))
             ([pool_status s, pool_config s, pool_repos_card s, behavior_card s, agents_card s, merge_card s] @ memory_cards)
         @ shown (pool_mode (pc_pool (se_pool s)) = (u ''pinned'')) [pinned_tab s])"

subsection \<open>Repositories and secrets\<close>

definition repos_tab :: "(jstr \<Rightarrow> jstr) \<Rightarrow> settings \<Rightarrow> settings_event node" where
  "repos_tab uc s =
     (let rs = or_empty (rp_repos (se_repos s)) in
      dv ([dv [spt (ux ''Reposit{f3}rios dispon{ed}veis''), btn (S_repos R_open) [svg, Txt (ux ''Adicionar reposit{f3}rio'')]]]
          @ map (\<lambda>r. El ''div'' [Key (re_id r)]
               [tile uc (re_name r),
                dv [dv [spt (re_name r), spt (re_branch r)], spt (short (re_url r) 60)],
                btn (S_repos (R_edit r)) [Txt (u ''Editar'')],
                El ''button'' [OnClick (S_repos (R_del r)), Title (u ''Excluir'')] [svg]]) rs
          @ shown (rs = []) [dvt (ux ''nenhum reposit{f3}rio {2014} adicione o primeiro.'')]
          @ [infoNote (ux ''Estes reposit{f3}rios ficam dispon{ed}veis para os workers. No worker Pinned voc{ea} escolhe em quais ele pode trabalhar.'')]))"

text \<open>The buttons of a secret have no handler.\<close>

definition secrets_tab :: "settings \<Rightarrow> settings_event node" where
  "secrets_tab s =
     dv ([dv [spt (u ''Segredos & tokens''), El ''button'' [] [svg, Txt (u ''Adicionar segredo'')]]]
         @ map (\<lambda>x. El ''div'' [Key (sc_id x)]
              [sp [svg],
               dv [spt (sc_name x),
                   sp [Txt (if sc_type x = [] then sc_location x else sc_type x), Txt (ux '' {b7} ''), Txt (short (sc_fingerprint x) 12)]],
               spt (ux ''{2022}{2022}{2022}{2022}{2022}{2022}{2022}{2022}{2022}{2022}''),
               dv (map (\<lambda>t. El ''button'' [Key t, Title t] [svg]) [(u ''Revelar''), (u ''Editar'')] @ [El ''button'' [Title (u ''Excluir'')] [svg]])])
             (or_empty (se_secrets s))
         @ shown (or_empty (se_secrets s) = []) [dvt (u ''nenhum segredo registrado'')]
         @ [dv [svg, Txt (ux ''Segredos s{e3}o criptografados e nunca exibidos novamente ap{f3}s salvos.'')]])"

end
