(* ===== verification/Settings_Dialogs.thy ===== *)
theory Settings_Dialogs
  imports Settings_View
begin

text \<open>
  The connections tab, the dialogs and the limits tab of app/config/page.tsx, and the page itself.
\<close>

subsection \<open>Connections tab\<close>

abbreviation cn :: "conns_event \<Rightarrow> settings_event" where "cn \<equiv> S_conns"

text \<open>A test with the flag \<open>i\<close> against a lower-case ASCII pattern folds only ASCII letters.\<close>

definition ascii_low :: "nat \<Rightarrow> nat" where
  "ascii_low c = (if 65 \<le> c \<and> c \<le> 90 then c + 32 else c)"

definition matches_i :: "jstr \<Rightarrow> jstr \<Rightarrow> bool" where
  "matches_i pat s = contains (map ascii_low s) pat"

definition conn_pills :: "settings \<Rightarrow> settings_event node" where
  "conn_pills s =
     dv (map (\<lambda>(k, label). active_btn k (S_conn_tab k) (connTab s = k) [svg, Txt label])
       [((u ''codigo''), (ux ''C{f3}digo'')), ((u ''tarefas''), (u ''Fonte de tarefas'')), ((u ''ci''), (u ''CI remoto'')), ((u ''observ''), (u ''Observabilidade'')),
        ((u ''docs''), (ux ''Documenta{e7}{e3}o'')), ((u ''ia''), (u ''Motor de IA''))])"

definition connected_badge :: "'e node list" where
  "connected_badge = [sp [svg, Txt (u ''Conectado'')]]"

text \<open>The card of the AI engine that is active: the first connection of its type names it.\<close>

definition ia_active :: "ia_modal \<Rightarrow> settings \<Rightarrow> bool" where
  "ia_active m s =
     (case find (\<lambda>c. cn_type c = (u ''ai_engine'')) (or_empty (c_conns (se_conns s))) of
        None \<Rightarrow> False
      | Some c \<Rightarrow> matches_i (if m = Subscription then (u ''assinatura'') else (u ''api'')) (cn_provider c))"

definition ia_cards :: "settings \<Rightarrow> settings_event node list" where
  "ia_cards s =
     map (\<lambda>(m, k, title, sub, b).
       El ''div'' [Key k]
         [dv [svg],
          dv [dv (spt title # (if ia_active m s then connected_badge else shown (b \<noteq> []) [spt b])), dvt sub],
          btn (cn (Ia_open m)) [Txt (if ia_active m s then (u ''Reconectar'') else (u ''Conectar''))]])
       [(Subscription, (u ''subscription''), (u ''Assinatura Claude''), (ux ''Use sua conta Claude.ai {2014} nenhuma API key necess{e1}ria.''), (u ''Recomendado'')),
        (Api, (u ''api''), (u ''API Anthropic''), (ux ''Conecte via API key {2014} controle total de modelos e limites de uso.''), [])]
     @ [infoNote (ux ''Escolha um m{e9}todo para o motor de IA processar tarefas. Assinatura usa sua conta Claude.ai; API usa chave pr{f3}pria faturada por token.'')]"

definition reuseBtn :: "jstr \<Rightarrow> jstr \<Rightarrow> settings \<Rightarrow> settings_event node list" where
  "reuseBtn provider target s =
     (case reuse_offer provider (se_conns s) of
        None \<Rightarrow> []
      | Some (fam, i) \<Rightarrow>
          [El ''button'' [Title ((ux ''Usar a conex{e3}o '') @ fam @ (ux '' j{e1} autenticada (@'') @ i @ (u '')'')), OnClick (cn (C_reuse fam target))]
             [svg, Txt (u ''Reaproveitar @''), Txt i]])"

text \<open>One provider: connected or not, with its buttons.\<close>

definition conn_card :: "dlg_kind \<Rightarrow> jstr \<Rightarrow> jstr \<Rightarrow> settings \<Rightarrow> jstr \<times> jstr \<times> jstr \<Rightarrow> settings_event node" where
  "conn_card k ctype target s ent =
     (case ent of (key, title, sub) \<Rightarrow>
       let active = list_ex (\<lambda>c. cn_type c = ctype \<and> cn_provider c = key) (or_empty (c_conns (se_conns s))) in
       El ''div'' [Key key, Sty ''border'' (if active then (u ''1px solid var(--green)'') else (u ''1px solid var(--border)''))]
         [dv [svg],
          dv [dv (spt title # shown active connected_badge), dvt sub],
          (if active then
             dv [btn (cn (C_open k key)) [Txt (u ''Reconectar'')],
                 El ''button'' [Title (u ''Desconectar''), OnClick (cn (C_disconnect k key))] [svg]]
           else dv (reuseBtn key target s @ [btn (cn (C_open k key)) [Txt (u ''Conectar'')]]))])"

definition GIT_CARDS :: "(jstr \<times> jstr \<times> jstr) list" where
  "GIT_CARDS = [
    ((u ''github''), (u ''GitHub''), (u ''Personal access token (repo, workflow).'')),
    ((u ''gitlab''), (u ''GitLab''), (u ''Personal access token (api, read_repository).'')),
    ((u ''bitbucket''), (u ''Bitbucket''), (ux ''Usu{e1}rio + app password (repository, pull request).''))]"

definition TASK_CARDS :: "(jstr \<times> jstr \<times> jstr) list" where
  "TASK_CARDS = [
    ((u ''github''), (u ''GitHub Issues & PRs''), (u ''Tarefas de issues e pull requests do GitHub.'')),
    ((u ''gitlab''), (u ''GitLab Issues & MRs''), (u ''Tarefas de issues e merge requests do GitLab.'')),
    ((u ''bitbucket''), (u ''Bitbucket Issues & PRs''), (u ''Tarefas de issues e pull requests do Bitbucket.'')),
    ((u ''jira''), (u ''Jira''), (u ''Tarefas dos seus projetos Jira (e-mail + API token).'')),
    ((u ''atlassian_goals''), (u ''Atlassian Goals''), (ux ''Goals do Atlassian (Atlas) como tarefas {2014} site + e-mail + API token.'')),
    ((u ''trello''), (u ''Trello''), (u ''Cards dos seus boards Trello (API key + token).''))]"

text \<open>The providers of the three integration tabs.\<close>

definition int_keys :: "jstr \<Rightarrow> jstr list" where
  "int_keys t =
     (if t = (u ''ci'') then [(u ''cypress''), (u ''github_actions''), (u ''gitlab_ci''), (u ''bitbucket_pipelines'')]
      else if t = (u ''observ'') then [(u ''sonarcloud''), (u ''sentry''), (u ''playwright'')]
      else [(u ''confluence''), (u ''github_wiki''), (u ''notion'')])"

definition int_card :: "settings \<Rightarrow> jstr \<Rightarrow> settings_event node" where
  "int_card s key =
     (case map_of INT_META key of
        None \<Rightarrow> dv []
      | Some m \<Rightarrow> conn_card K_int (im_ctype m) (if im_ctype m = (u ''docs'') then (u ''docs'') else (u ''ci'')) s (key, im_title m, im_help m))"

definition int_note :: "jstr \<Rightarrow> jstr" where
  "int_note t =
     (if t = (u ''ci'') then (ux ''CI remoto: dispara e l{ea} pipelines/testes. Credenciais validadas na hora.'')
      else if t = (u ''observ'') then (ux ''Observabilidade: erros e qualidade de c{f3}digo. Tokens validados contra a API.'')
      else (ux ''Documenta{e7}{e3}o: bases de conhecimento que os workers leem/escrevem. GitHub Wiki aceita OAuth.''))"

definition conn_row :: "(jstr \<Rightarrow> jstr) \<Rightarrow> conn \<Rightarrow> 'e node" where
  "conn_row uc c =
     El ''div'' [Key (cn_id c)]
       [tile uc (cn_provider c),
        dv [dv [spt (cn_provider c),
                El ''span'' (badge (if cn_status c = (u ''ok'') then (u ''open'') else if cn_status c = (u ''needs_setup'') then (u ''queued'') else (u ''failed'')))
                  [Txt (cn_status c)]],
            dv [Txt (cn_type c), Txt (if cn_label c \<noteq> [] then (ux '' {b7} '') @ cn_label c else [])]],
        spt (cn_created c)]"

definition connections_tab :: "(jstr \<Rightarrow> jstr) \<Rightarrow> settings \<Rightarrow> settings_event node" where
  "connections_tab uc s =
     dv [conn_pills s,
         dv (if connTab s = (u ''ia'') then ia_cards s
             else if connTab s = (u ''codigo'') then
               map (conn_card K_git (u ''code'') (u ''code'') s) GIT_CARDS
               @ [infoNote (ux ''Conecte os provedores de c{f3}digo. O token {e9} validado na hora contra a API do provedor. Os tokens ficam em Segredos.'')]
             else if connTab s = (u ''tarefas'') then
               map (conn_card K_task (u ''tasks'') (u ''tasks'') s) TASK_CARDS
               @ [infoNote (ux ''De onde v{ea}m as tarefas dos workers. GitHub aceita OAuth ou token; os demais por token/API. Credenciais validadas na hora.'')]
             else if connTab s = (u ''ci'') \<or> connTab s = (u ''observ'') \<or> connTab s = (u ''docs'') then
               map (int_card s) (int_keys (connTab s)) @ [infoNote (int_note (connTab s))]
             else
               map (conn_row uc) (or_empty (c_conns (se_conns s)))
               @ shown (or_empty (c_conns (se_conns s)) = []) [dvt (ux ''nenhuma conex{e3}o {2014} registre um reposit{f3}rio para criar uma.'')]
               @ [infoNote (ux ''As conex{f5}es alimentam Tarefas, Pull Requests e CI. Os tokens ficam em Segredos.'')])]"

subsection \<open>Connection dialogs\<close>

fun remove_first :: "jstr \<Rightarrow> jstr \<Rightarrow> jstr" where
  "remove_first p [] = []"
| "remove_first p (x # xs) = (if starts_with (x # xs) p then drop (length p) (x # xs) else x # remove_first p xs)"

text \<open>OAuth or token.\<close>

definition method_tabs :: "dlg_kind \<Rightarrow> settings \<Rightarrow> settings_event node" where
  "method_tabs k s =
     dv (map (\<lambda>(m, key, label). active_btn key (cn (C_method k m)) (gh_method (c_gh (se_conns s)) = m) [Txt label])
       [(Oauth, (u ''oauth''), (u ''OAuth'')), (Token, (u ''token''), (u ''Token''))])"

definition gh_panel :: "jstr \<Rightarrow> jstr \<Rightarrow> settings \<Rightarrow> settings_event node" where
  "gh_panel intro purpose s =
     (let g = c_gh (se_conns s) in
      case gh_device g of
        None \<Rightarrow>
          dv ([spt intro]
              @ shown (gh_err g \<noteq> []) [spt (gh_err g)]
              @ (if gh_status g = (u ''pending'') then [sp [svg, Txt (ux ''aguardando autoriza{e7}{e3}o na aba do GitHub{2026}'')]]
                 else [El ''button'' [NoPointer (gh_starting g), OnClick (cn (Gh_start purpose))]
                         [svg, Txt (if gh_starting g then (ux ''Iniciando{2026}'') else (u ''Autorizar com GitHub''))]]))
      | Some (code, uri) \<Rightarrow>
          dv [sp [Txt (u ''Em ''), El ''a'' [Href uri] [Txt (remove_first (u ''https://'') uri)], Txt (ux '' digite o c{f3}digo:'')],
              dvt code,
              sp [svg, Txt (if gh_status g = (u ''pending'') then (ux ''aguardando autoriza{e7}{e3}o no GitHub{2026}'') else gh_status g)]])"

definition intro_of :: "dlg_kind \<Rightarrow> jstr" where
  "intro_of k =
     (if k = K_git then (ux ''Abrimos o GitHub numa aba para voc{ea} autorizar o acesso (reposit{f3}rios, incl. privados). Sem criar token manualmente.'')
      else (ux ''Abrimos o GitHub numa aba para voc{ea} autorizar o acesso. Sem criar token manualmente.''))"

definition test_line :: "(bool \<times> jstr) option \<Rightarrow> 'e node list" where
  "test_line t =
     (case t of
        None \<Rightarrow> []
      | Some (ok, msg) \<Rightarrow> [El ''span'' [Sty ''color'' (if ok then (u ''var(--green)'') else (u ''var(--red)''))] [svg, Txt msg]])"

definition field_el :: "jstr \<Rightarrow> dlg_kind \<Rightarrow> jfield \<Rightarrow> jstr \<Rightarrow> settings \<Rightarrow> settings_event node" where
  "field_el label k f ph s =
     dv [spt label, inp (form_get f (dg_form (dlg k (se_conns s)))) (\<lambda>v. cn (C_field k f v)) ph]"

text \<open>The token with its test button (absent where \<open>notest\<close>) and the outcome of the last test.\<close>

definition token_el :: "jstr \<Rightarrow> dlg_kind \<Rightarrow> jstr \<Rightarrow> jstr \<Rightarrow> bool \<Rightarrow> settings \<Rightarrow> settings_event node" where
  "token_el label k p ph notest s =
     (let d = dlg k (se_conns s) in
      dv ([spt label,
           dv ([inp (fo_token (dg_form d)) (\<lambda>v. cn (C_field k F_token v)) ph]
               @ shown (\<not> notest)
                   [El ''button'' [NoPointer (test_off k p d), OnClick (cn (C_test k))]
                      [Txt (if dg_testing d then (ux ''Testando{2026}'') else (u ''Testar''))]])]
          @ test_line (dg_test d)))"

definition dlg_footer :: "dlg_kind \<Rightarrow> jstr \<Rightarrow> settings \<Rightarrow> settings_event node list" where
  "dlg_footer k p s =
     (let d = dlg k (se_conns s) in
      if oauth_mode k p (se_conns s) then [btn (cn (C_close k)) [Txt (u ''Fechar'')]]
      else [btn (cn (C_close k)) [Txt (u ''Cancelar'')],
            El ''button'' [NoPointer (connect_off k p d), OnClick (cn (C_connect k))]
              [Txt (if dg_busy d then (ux ''Conectando{2026}'') else (u ''Conectar''))]])"

text \<open>Title, label, placeholder, help and page of the tokens of the code hosts.\<close>

definition GIT_META :: "(jstr \<times> jstr \<times> jstr \<times> jstr \<times> jstr \<times> jstr) list" where
  "GIT_META = [
    ((u ''github''), (u ''GitHub''), (u ''Personal access token''), (ux ''ghp_{2026} ou github_pat_{2026}''),
       (u ''Crie em github.com/settings/tokens com escopo repo (e workflow para CI).''), (u ''https://github.com/settings/tokens'')),
    ((u ''gitlab''), (u ''GitLab''), (u ''Personal access token''), (ux ''glpat-{2026}''),
       (ux ''Crie em GitLab {2192} Settings {2192} Access Tokens com escopos api e read_repository.''), (u ''https://gitlab.com/-/user_settings/personal_access_tokens'')),
    ((u ''bitbucket''), (u ''Bitbucket''), (u ''App password''), (u ''app password''),
       (ux ''Crie em Bitbucket {2192} Personal settings {2192} App passwords (repository, pull requests).''), (u ''https://bitbucket.org/account/settings/app-passwords/''))]"

definition git_dialog :: "jstr \<Rightarrow> jstr \<Rightarrow> settings \<Rightarrow> settings_event node list" where
  "git_dialog lang p s =
     (case map_of GIT_META p of
        None \<Rightarrow> []
      | Some (title, tokenLabel, hint, help, docs) \<Rightarrow>
          [modal lang ((u ''Conectar '') @ title) (cn (C_close K_git))
             [dv (shown (p = (u ''github'')) [method_tabs K_git s]
                  @ (if oauth_mode K_git p (se_conns s) then [gh_panel (intro_of K_git) (oauth_purpose K_git p) s]
                     else shown (p = (u ''bitbucket'')) [field_el (ux ''Usu{e1}rio Bitbucket'') K_git F_username (u ''seu_usuario'') s]
                          @ [token_el tokenLabel K_git p hint False s,
                             dv [svg, sp [Txt help, Txt (u '' ''), El ''a'' [Href docs] [Txt (ux ''Abrir p{e1}gina de tokens {2192}'')]]]]))]
             (Some (dlg_footer K_git p s))])"

definition TASK_TITLES :: "(jstr \<times> jstr) list" where
  "TASK_TITLES = [((u ''github''), (u ''GitHub Issues & PRs'')), ((u ''gitlab''), (u ''GitLab Issues & MRs'')), ((u ''bitbucket''), (u ''Bitbucket Issues & PRs'')),
     ((u ''jira''), (u ''Jira'')), ((u ''trello''), (u ''Trello'')), ((u ''atlassian_goals''), (u ''Atlassian Goals''))]"

definition task_token_label :: "jstr \<Rightarrow> jstr" where
  "task_token_label p =
     (if is_atlassian p then (u ''API token'') else if p = (u ''trello'') then (u ''Token'')
      else if p = (u ''bitbucket'') then (u ''App password'') else (u ''Personal access token''))"

definition task_conn_dialog :: "jstr \<Rightarrow> jstr \<Rightarrow> settings \<Rightarrow> settings_event node list" where
  "task_conn_dialog lang p s =
     [modal lang ((u ''Conectar '') @ lookup_or (u ''undefined'') TASK_TITLES p) (cn (C_close K_task))
        [dv (shown (p = (u ''github'')) [method_tabs K_task s]
             @ (if oauth_mode K_task p (se_conns s) then [gh_panel (intro_of K_task) (oauth_purpose K_task p) s]
                else shown (is_atlassian p)
                       [field_el (u ''Site Atlassian'') K_task F_site (u ''empresa.atlassian.net'') s,
                        field_el (u ''E-mail'') K_task F_email (u ''voce@empresa.com'') s]
                     @ shown (p = (u ''bitbucket'')) [field_el (ux ''Usu{e1}rio Bitbucket'') K_task F_username (u ''seu_usuario'') s]
                     @ shown (p = (u ''trello'')) [field_el (u ''API key'') K_task F_key (u ''sua api key'') s]
                     @ [token_el (task_token_label p) K_task p (u ''cole aqui'') False s]))]
        (Some (dlg_footer K_task p s))]"

fun field_label :: "jfield \<Rightarrow> jstr" where
  "field_label F_username = (ux ''Usu{e1}rio'')"
| "field_label F_project = (u ''Project ID'')"
| "field_label F_email = (u ''E-mail'')"
| "field_label F_site = (u ''Site'')"
| "field_label F_key = []"
| "field_label F_token = []"

fun field_hint :: "jfield \<Rightarrow> jstr" where
  "field_hint F_username = (u ''seu_usuario'')"
| "field_hint F_project = (u ''ex: abc123'')"
| "field_hint F_email = (u ''voce@empresa.com'')"
| "field_hint F_site = (u ''empresa.atlassian.net'')"
| "field_hint F_key = []"
| "field_hint F_token = (u ''cole aqui'')"

definition int_dialog :: "jstr \<Rightarrow> jstr \<Rightarrow> settings \<Rightarrow> settings_event node list" where
  "int_dialog lang p s =
     (case map_of INT_META p of
        None \<Rightarrow> []
      | Some m \<Rightarrow>
          [modal lang ((u ''Conectar '') @ im_title m) (cn (C_close K_int))
             [dv (shown (im_oauth m \<noteq> None) [method_tabs K_int s]
                  @ (if oauth_mode K_int p (se_conns s) then [gh_panel (intro_of K_int) (oauth_purpose K_int p) s]
                     else map (\<lambda>f. field_el (field_label f) K_int f (field_hint f) s) (filter (\<lambda>f. f \<noteq> F_token) (im_fields m))
                          @ [token_el (im_tokenLabel m) K_int p (u ''cole aqui'') (im_noTest m) s,
                             dv [svg, sp [Txt (im_help m), Txt (u '' ''), El ''a'' [Href (im_docs m)] [Txt (ux ''Abrir {2192}'')],
                                          Txt (if im_noTest m then (ux '' A record key do Cypress n{e3}o {e9} validada online.'') else [])]]]))]
             (Some (dlg_footer K_int p s))])"

definition conn_dialogs :: "jstr \<Rightarrow> settings \<Rightarrow> settings_event node list" where
  "conn_dialogs lang s =
     (case dg_modal (c_git (se_conns s)) of None \<Rightarrow> [] | Some p \<Rightarrow> git_dialog lang p s)
     @ (case dg_modal (c_task (se_conns s)) of None \<Rightarrow> [] | Some p \<Rightarrow> task_conn_dialog lang p s)
     @ (case dg_modal (c_int (se_conns s)) of None \<Rightarrow> [] | Some p \<Rightarrow> int_dialog lang p s)"

end
