(* ===== verification/Settings_Page.thy ===== *)
theory Settings_Page
  imports Settings_Dialogs
begin

text \<open>
  The remaining dialogs of app/config/page.tsx (repositories, AI engine, pinned worker), the limits
  tab, and the page.
\<close>

subsection \<open>Repository dialogs\<close>

abbreviation rp :: "repos_event \<Rightarrow> settings_event" where "rp \<equiv> S_repos"

definition source_step :: "settings \<Rightarrow> settings_event node" where
  "source_step s =
     dv (spt (ux ''Escolha uma fonte de c{f3}digo conectada para puxar os reposit{f3}rios da conta.'')
       # (if codeConns s = [] then
            [dv [spt (ux ''Nenhuma fonte de c{f3}digo conectada.''), btn S_go_connect [Txt (ux ''Conectar em Conex{f5}es {2192} C{f3}digo'')]]]
          else map (\<lambda>c. El ''button'' [Key (cn_id c), OnClick (rp (R_source (cn_provider c)))]
                 [sp [svg],
                  dv (dvt (lookup_or (cn_provider c) CODE_PROVS (cn_provider c))
                      # shown (cn_label c \<noteq> []) [dv [Txt (u ''@''), Txt (cn_label c)]]), svg]) (codeConns s)))"

definition remote_step :: "(jstr \<Rightarrow> jstr) \<Rightarrow> settings \<Rightarrow> settings_event node" where
  "remote_step lc s =
     (let r = se_repos s in
      dv (dv [spt (lookup_or (repoProv r) CODE_PROVS (repoProv r)), spt (ux ''{b7} escolha o reposit{f3}rio'')]
        # (if repoLoading r then [dvt (ux ''Carregando reposit{f3}rios{2026}'')]
           else if repoListErr r \<noteq> [] then [dvt (repoListErr r)]
           else if (case repoList r of Some xs \<Rightarrow> xs | None \<Rightarrow> []) = [] then [dvt (ux ''Nenhum reposit{f3}rio nessa conta.'')]
           else [inp (repoSearch r) (\<lambda>v. rp (R_query v)) (ux ''Buscar reposit{f3}rio{2026}''),
                 dv (map (\<lambda>x. El ''button'' [Key (rr_full x), OnClick (rp (R_remote x))]
                      ([dv [dvt (rr_full x), dvt (or_main (rr_branch x))]]
                       @ shown (rr_private x) [spt (u ''privado'')] @ [svg])) (remote_hits lc r))])))"

definition dir_step :: "remote \<Rightarrow> settings \<Rightarrow> settings_event node" where
  "dir_step x s =
     (let r = se_repos s in
      dv [dv [svg, dv [dvt (rr_full x), dv [Txt (u ''branch ''), Txt (or_main (rr_branch x))]]],
          El ''label'' []
            [spt (ux ''Diret{f3}rio local para clonar''),
             dv [inp (repoDir r) (\<lambda>v. rp (R_dir v)) (u ''~/apifor/meu-repo''),
                 El ''button'' [OnClick (rp R_browse), Title (if isTauri r then (u ''Escolher pasta'') else (ux ''Dispon{ed}vel no app desktop''))]
                   [svg, Txt (u ''Procurar'')]],
             sp (Txt (ux ''Caminho na m{e1}quina onde o reposit{f3}rio ser{e1} clonado.'')
                 # shown (\<not> isTauri r) [Txt (u '' No navegador, digite manualmente.'')])]])"

definition save_off :: "repos \<Rightarrow> bool" where
  "save_off r = (repoSaving r \<or> trim (repoDir r) = [])"

definition repo_dialog :: "(jstr \<Rightarrow> jstr) \<Rightarrow> jstr \<Rightarrow> settings \<Rightarrow> settings_event node" where
  "repo_dialog lc lang s =
     (let r = se_repos s in
      modal lang (ux ''Adicionar reposit{f3}rio'') (rp R_close)
        (case repoStep r of
           Source \<Rightarrow> [source_step s]
         | Repo \<Rightarrow> [remote_step lc s]
         | Dir \<Rightarrow> (case repoSel r of Some x \<Rightarrow> [dir_step x s] | None \<Rightarrow> []))
        (Some (case repoStep r of
           Dir \<Rightarrow> [btn (rp (R_back Repo)) [Txt (u ''Voltar'')],
                   El ''button'' [NoPointer (save_off r), OnClick (rp R_save)]
                     [Txt (if repoSaving r then (ux ''Salvando{2026}'') else (u ''Salvar''))]]
         | Repo \<Rightarrow> [btn (rp (R_back Source)) [Txt (u ''Voltar'')]]
         | Source \<Rightarrow> [btn (rp R_close) [Txt (u ''Cancelar'')]])))"

definition edit_off :: "repos \<Rightarrow> bool" where
  "edit_off r = (editBusy r \<or> trim (editName r) = [])"

definition edit_dialog :: "jstr \<Rightarrow> settings \<Rightarrow> settings_event node" where
  "edit_dialog lang s =
     (let r = se_repos s in
      modal lang (ux ''Editar reposit{f3}rio'') (rp R_edit_close)
        [dv [El ''label'' [] [spt (u ''Nome''), inp (editName r) (\<lambda>v. rp (R_edit_name v)) (u ''meu-repo'')],
             El ''label'' [] [spt (ux ''Branch padr{e3}o''), inp (editBranch r) (\<lambda>v. rp (R_edit_branch v)) (u ''main'')]]]
        (Some [El ''button'' [NoPointer (edit_off r), OnClick (rp R_edit_save)]
                 [Txt (if editBusy r then (ux ''Salvando{2026}'') else (u ''Salvar''))]]))"

definition del_dialog :: "jstr \<Rightarrow> repo \<Rightarrow> settings \<Rightarrow> settings_event node" where
  "del_dialog lang x s =
     modal lang (ux ''Excluir reposit{f3}rio'') (rp R_del_close)
       [El ''p'' [] [Txt (u ''Remover ''), El ''strong'' [] [Txt (re_name x)],
          Txt (ux '' da lista? Isso apaga s{f3} o registro no apifor {2014} ''), El ''strong'' [] [Txt (ux ''n{e3}o'')], Txt (u '' apaga a pasta clonada no seu disco.'')]]
       (Some [El ''button'' [NoPointer (delBusy (se_repos s)), OnClick (rp R_del_confirm)]
                [Txt (if delBusy (se_repos s) then (ux ''Excluindo{2026}'') else (u ''Excluir''))]])"

subsection \<open>AI engine dialogs\<close>

definition subscription_dialog :: "jstr \<Rightarrow> settings \<Rightarrow> settings_event node" where
  "subscription_dialog lang s =
     (let a = c_ia (se_conns s); errs = shown (iaErr a \<noteq> []) [spt (iaErr a)] in
      modal lang (u ''Conectar via Assinatura Claude'') (cn Ia_close)
        (if iaStep a = Idle then
           [dv ([dv [svg],
                 dv [spt (u ''Conectar sua conta Claude''),
                     spt (ux ''Abrimos o Claude.ai numa nova aba pra voc{ea} autorizar. Nenhuma API key {2014} o uso {e9} debitado da sua assinatura.'')]] @ errs)]
         else
           [dv ([dv [spt (ux ''Autorize no Claude.ai (abriu em nova aba) e cole aqui o c{f3}digo exibido ao final.''),
                     El ''a'' [Href (iaUrl a)] [svg, Txt (ux ''reabrir p{e1}gina de autoriza{e7}{e3}o'')]],
                 El ''label'' [] [spt (ux ''C{f3}digo de autoriza{e7}{e3}o''),
                   El ''input'' [Value (iaCode a), OnInput (\<lambda>v. cn (Ia_code_typed v)), OnEnter (cn Ia_submit), Placeholder (ux ''cole o c{f3}digo aqui'')] []]]
                @ errs)])
        (Some (btn (cn Ia_close) [Txt (u ''Cancelar'')]
          # (if iaStep a = Idle then
               [El ''button'' [NoPointer (iaBusy a), OnClick (cn Ia_start)]
                  [svg, Txt (if iaBusy a then (ux ''Abrindo{2026}'') else (u ''Autorizar com Claude''))]]
             else
               [El ''button'' [NoPointer (iaBusy a \<or> trim (iaCode a) = []), OnClick (cn Ia_submit)]
                  [Txt (if iaBusy a then (ux ''Verificando{2026}'') else (u ''Confirmar''))]]))))"

definition api_dialog :: "jstr \<Rightarrow> settings \<Rightarrow> settings_event node" where
  "api_dialog lang s =
     (let a = c_ia (se_conns s) in
      modal lang (u ''Conectar via API Anthropic'') (cn Ia_close)
        [dv [dv ([spt (u ''API Key''),
                  dv [inp (iaApiKey a) (\<lambda>v. cn (Ia_key v)) (ux ''sk-ant-{2026}''),
                      El ''button'' [NoPointer (iaTesting a \<or> trim (iaApiKey a) = []), OnClick (cn Ia_test_click)]
                        [Txt (if iaTesting a then (ux ''Testando{2026}'') else (u ''Testar''))]]]
                 @ test_line (iaTest a)),
             dv [spt (ux ''Modelo padr{e3}o''),
                 El ''select'' [] (map (\<lambda>m. El ''option'' [Key m, Value m, Title (lookup_or [] MODEL_API_IDS m)]
                   [Txt (lookup_or [] MODEL_LABELS m), Txt (u '' (''), Txt (lookup_or [] MODEL_API_IDS m), Txt (u '')'')]) MODELS)],
             dv [svg, spt (ux ''A chave {e9} armazenada criptografada e nunca exibida novamente. Voc{ea} pode revogar o acesso a qualquer momento em Segredos.'')]]]
        (Some [btn (cn Ia_close) [Txt (u ''Cancelar'')],
               El ''button'' [NoPointer (iaBusy a \<or> trim (iaApiKey a) = []), OnClick (cn Ia_save)]
                 [Txt (if iaBusy a then (ux ''Salvando{2026}'') else (u ''Salvar''))]]))"

subsection \<open>Pinned worker dialog\<close>

abbreviation pwf :: "(pw_form \<Rightarrow> pw_form) \<Rightarrow> settings_event" where "pwf f \<equiv> S_pool (P_form f)"

definition pw_toggles :: "pw_form \<Rightarrow> settings_event node list" where
  "pw_toggles x =
     map (\<lambda>(k, label, hint, on, f). El ''div'' [Key k] [dv [spt label, spt hint], toggle_el on f])
       [((u ''cap_open_pr''), (u ''Abrir Pull Request''), (ux ''se desligado, s{f3} faz push do branch (sem PR)''), pw_open_pr x, \<lambda>v. pwf (pw_open_pr_update (\<lambda>_. v))),
        ((u ''cap_run_tests''), (u ''Rodar testes (CI)''), (u ''pula a etapa de testes se desligado''), pw_run_tests x, \<lambda>v. pwf (pw_run_tests_update (\<lambda>_. v))),
        ((u ''cap_auto_merge''), (u ''Auto-merge''), (ux ''se desligado, exige revis{e3}o humana''), pw_auto_merge x, \<lambda>v. pwf (pw_auto_merge_update (\<lambda>_. v)))]"

definition pw_dialog :: "jstr \<Rightarrow> settings \<Rightarrow> settings_event node" where
  "pw_dialog lang s =
     (let p = se_pool s; x = pw p in
      modal lang (if editing p then (u ''Editar worker dedicado'') else (u ''Adicionar worker dedicado'')) (S_pool P_close)
        [dv [El ''label'' [] [spt (u ''Foco''), inp (pw_focus x) (\<lambda>v. pwf (pw_focus_update (\<lambda>_. v))) (ux ''backend, frontend, tests{2026}'')],
             El ''label'' [] [spt (ux ''Reposit{f3}rio''),
               sel_el (pw_repo x) (\<lambda>v. pwf (pw_repo_update (\<lambda>_. v)))
                 (optv [] (u ''(qualquer repo)'')
                  # map (\<lambda>r. El ''option'' [Key (re_id r), Value (re_id r)] [Txt (re_name r)]) (or_empty (rp_repos (se_repos s))))],
             El ''label'' [] [spt (u ''Modelo''),
               sel_el (pw_model x) (\<lambda>v. pwf (pw_model_update (\<lambda>_. v)))
                 (map (\<lambda>m. El ''option'' [Key m, Value m] [Txt (lookup_or [] MODEL_LABELS m)]) MODELS)],
             El ''label'' [] [Txt (ux ''Concorr{ea}ncia''),
               sel_el (nshow (pw_concurrency x)) (\<lambda>v. pwf (pw_concurrency_update (\<lambda>_. digits_value v))) (num_opts [1, 2, 3, 4] (\<lambda>_. []))],
             El ''label'' [] [spt (u ''Regras do worker''),
               El ''textarea'' [Value (pw_rules x), OnInput (\<lambda>v. pwf (pw_rules_update (\<lambda>_. v))),
                 Placeholder (ux ''Ex.: sempre adicione testes; n{e3}o altere migrations; siga o padr{e3}o de commits{2026}'')] [],
               spt (u ''Injetado no plano das tarefas desse repo.'')],
             dv (spt (u ''O que o worker pode fazer'') # pw_toggles x),
             spt (ux ''O modelo roda nas tarefas desse repo; a soma das concorr{ea}ncias dos workers ligados {e9} o teto do pool.'')]]
        (Some [btn (S_pool P_close) [Txt (u ''Cancelar'')],
               El ''button'' [NoPointer (pwBusy p), OnClick (S_pool P_submit)]
                 [Txt (if pwBusy p then (ux ''Salvando{2026}'') else if editing p then (u ''Salvar'') else (u ''Criar worker''))]]))"

subsection \<open>Limits tab\<close>

text \<open>
  A component of its own: one request on mount, whose answer is kept as JSON. Its inputs are
  uncontrolled and its switches do nothing.
\<close>

datatype limits_event = L_mount_tab | L_usage "json outcome" | L_nothing

fun limits_step :: "limits_event \<Rightarrow> json \<Rightarrow> json \<times> unit cmd list" where
  "limits_step L_mount_tab v = (v, [Send GET (u ''/v1/usage'') None ()])"
| "limits_step (L_usage r) v = (pool_accept r v, [])"
| "limits_step L_nothing v = (v, [])"

definition is_paid :: "json \<Rightarrow> bool" where
  "is_paid v = (truthy (jget (u ''plan'') v) \<and> jget (u ''plan'') v \<noteq> JStr (u ''free''))"

definition lim_row :: "jstr \<Rightarrow> jstr \<Rightarrow> 'e node \<Rightarrow> 'e node" where
  "lim_row label sub right = dv [dv [spt label, spt sub], dv [right]]"

definition limits_view :: "json \<Rightarrow> limits_event node" where
  "limits_view v =
     dv (shown (is_paid v)
           [dv [dv [dv [spt (u ''Limite por % de uso''), spt (u ''ASSINATURA'')], dvt (u ''Limita pelo percentual da cota do plano, em vez de um valor fixo.'')],
                dv [lim_row (u ''Limitar por % do plano'') (u ''Usa a cota da assinatura como base'') (toggle_el False (\<lambda>_. L_nothing)),
                    lim_row (u ''Pausar ao atingir'') (u ''% da cota mensal do plano'')
                      (El ''select'' [] (map (\<lambda>x. El ''option'' [Key x] [Txt x]) [(u ''50%''), (u ''70%''), (u ''80%''), (u ''90%''), (u ''100%'')]))]]]
         @ [dv [dvt (u ''Gastos''),
                dv [lim_row (ux ''Teto de gasto di{e1}rio'') (u ''Alimenta o card de gasto da Dashboard'') (El ''input'' [Value (u ''R$ 800,00'')] []),
                    lim_row (u ''Teto mensal'') (u ''Limite agregado do ciclo'') (El ''input'' [Value (u ''R$ 24.000,00'')] []),
                    lim_row (ux ''Pausa autom{e1}tica ao atingir o teto'') (u ''Interrompe novos workers automaticamente'') (toggle_el False (\<lambda>_. L_nothing))]],
            dv [dvt (u ''Capacidade''),
                dv [lim_row (u ''Tokens por tarefa'') (u ''Corta a tarefa se exceder'') (El ''input'' [Value (u ''50.000'')] []),
                    lim_row (ux ''PRs abertos simult{e2}neos'') (u ''Limite de PRs aguardando merge'') (El ''input'' [Value (u ''20'')] []),
                    lim_row (ux ''Janela de opera{e7}{e3}o'') (u ''Quando o pool pode rodar'')
                      (El ''select'' [] [opt (u ''24/7''), opt (ux ''Hor{e1}rio comercial (9h{2013}18h)''), opt (u ''Personalizado'')])]]])"

subsection \<open>The page\<close>

definition tab_bar :: "settings \<Rightarrow> settings_event node" where
  "tab_bar s =
     dv (map (\<lambda>(k, label). active_btn k (S_tab k) (tab s = k) [svg, Txt label])
       [((u ''workers''), (u ''Workers'')), ((u ''repos''), (ux ''Reposit{f3}rios'')), ((u ''limits''), (u ''Limites'')), ((u ''connections''), (ux ''Conex{f5}es'')), ((u ''secrets''), (u ''Segredos''))])"

definition settings_view :: "(jstr \<Rightarrow> jstr) \<Rightarrow> (jstr \<Rightarrow> jstr) \<Rightarrow> jstr \<Rightarrow> settings \<Rightarrow> settings_event node list" where
  "settings_view lc uc lang s =
     [pageHead lang (Some (u ''Sistema'')) (ux ''Configura{e7}{e3}o'') (Some (ux ''Ajustes do pipeline {2014} workers, modelos, merge, limites, conex{f5}es e segredos.'')) [],
      tab_bar s]
     @ shown (tab s = (u ''workers'')) [workers_tab s]
     @ shown (tab s = (u ''repos'')) [repos_tab uc s]
     @ shown (tab s = (u ''limits'')) [Comp ''LimitsTab'']
     @ shown (tab s = (u ''connections'')) [connections_tab uc s]
     @ shown (tab s = (u ''secrets'')) [secrets_tab s]
     @ shown (repoOpen (se_repos s)) [repo_dialog lc lang s]
     @ (case repoEdit (se_repos s) of Some _ \<Rightarrow> [edit_dialog lang s] | None \<Rightarrow> [])
     @ (case repoDel (se_repos s) of Some x \<Rightarrow> [del_dialog lang x s] | None \<Rightarrow> [])
     @ shown (iaModal (c_ia (se_conns s)) = Some Subscription) [subscription_dialog lang s]
     @ shown (iaModal (c_ia (se_conns s)) = Some Api) [api_dialog lang s]
     @ conn_dialogs lang s
     @ shown (pwOpen (se_pool s)) [pw_dialog lang s]"

end
