(* ===== verification/Settings_Flow.thy ===== *)
theory Settings_Flow
  imports Settings
begin

text \<open>
  The requests of the settings page (and the programs it runs) that have no answer yet. Each part
  says which tag an event answers; the page carries the outstanding tags along. Two facts follow:
  answers alone come to an end, because a handler of an answer only waits for things further down
  the chain, and a button that shows work in progress always has an answer to come.
\<close>

subsection \<open>What an event answers, and what a handler waits for\<close>

fun waits :: "'k cmd list \<Rightarrow> 'k list" where
  "waits [] = []"
| "waits (Send m p b k # cs) = k # waits cs"
| "waits (Exec p as k # cs) = k # waits cs"
| "waits (_ # cs) = waits cs"

lemma waits_append [simp]: "waits (cs @ ds) = waits cs @ waits ds"
  by (induction cs rule: waits.induct) auto

lemma waits_retag [simp]: "waits (map (retag f) cs) = map f (waits cs)"
  by (induction cs rule: waits.induct) auto

fun conns_answer :: "conns_event \<Rightarrow> conns_tag option" where
  "conns_answer (C_conns r) = Some Get_conns"
| "conns_answer (C_tested k r) = Some (Post_test k)"
| "conns_answer (C_connected k r) = Some (Post_connect k)"
| "conns_answer (C_disconnected r) = Some Delete_conn"
| "conns_answer (C_reused r) = Some Post_reuse"
| "conns_answer (Gh_oauth_answer p r) = Some (Post_oauth p)"
| "conns_answer (Gh_device_answer r) = Some Post_device"
| "conns_answer (Gh_status_answer r) = Some Get_gh_status"
| "conns_answer (Ia_tested r) = Some Post_ia_test"
| "conns_answer (Ia_started r) = Some Post_claude_start"
| "conns_answer (Ia_submitted r) = Some Post_claude_code"
| "conns_answer (Ia_saved r) = Some Post_api_key"
| "conns_answer _ = None"

fun repos_answer :: "repos_event \<Rightarrow> repos_tag option" where
  "repos_answer (R_repos r) = Some Get_repos"
| "repos_answer (R_listed p r) = Some (Get_listing p)"
| "repos_answer (R_saved v r) = Some (Post_repo v)"
| "repos_answer (R_clone_url v r) = Some (Post_clone_url v)"
| "repos_answer (R_cloned v r) = Some (Clone v)"
| "repos_answer (R_edited r) = Some Post_edit"
| "repos_answer (R_deleted r) = Some Delete_repo"
| "repos_answer _ = None"

fun pool_answer :: "pool_event \<Rightarrow> pool_tag option" where
  "pool_answer (P_pool r) = Some Get_pool_cfg"
| "pool_answer (P_saved r) = Some Post_pool_cfg"
| "pool_answer (P_pinned r) = Some Get_pinned"
| "pool_answer (P_submitted ed r) = Some (Post_worker ed)"
| "pool_answer (P_toggled on r) = Some (Post_toggle on)"
| "pool_answer (P_deleted r) = Some Delete_worker"
| "pool_answer (P_all_done on r) = Some (Post_bulk on)"
| "pool_answer _ = None"

fun settings_answer :: "settings_event \<Rightarrow> settings_tag option" where
  "settings_answer (S_conns e) = map_option From_conns (conns_answer e)"
| "settings_answer (S_repos e) = map_option From_repos (repos_answer e)"
| "settings_answer (S_pool e) = map_option From_pool (pool_answer e)"
| "settings_answer _ = None"

text \<open>The page with what it waits for.\<close>

definition rest :: "settings_event \<Rightarrow> settings_tag list \<Rightarrow> settings_tag list" where
  "rest e out = (case settings_answer e of None \<Rightarrow> out | Some t \<Rightarrow> remove1 t out)"

definition flow_step :: "jstr outcome \<Rightarrow> settings_event \<Rightarrow> settings \<times> settings_tag list \<Rightarrow> settings \<times> settings_tag list" where
  "flow_step home e w =
     (case settings_step home e (fst w) of (s, cs) \<Rightarrow> (s, rest e (snd w) @ waits cs))"

text \<open>Every event of the list answers something that is outstanding when it arrives.\<close>

fun only_answers :: "jstr outcome \<Rightarrow> settings_event list \<Rightarrow> settings \<times> settings_tag list \<Rightarrow> bool" where
  "only_answers home [] w = True"
| "only_answers home (e # es) w =
     ((case settings_answer e of None \<Rightarrow> False | Some t \<Rightarrow> t \<in> set (snd w)) \<and> only_answers home es (flow_step home e w))"

subsection \<open>Answers come to an end\<close>

text \<open>The longest chain of answers that starts at a tag.\<close>

fun conns_weight :: "conns_tag \<Rightarrow> nat" where
  "conns_weight Get_conns = 1"
| "conns_weight (Post_test k) = 1"
| "conns_weight Post_ia_test = 1"
| "conns_weight Post_claude_start = 1"
| "conns_weight Post_device = 1"
| "conns_weight _ = 2"

fun repos_weight :: "repos_tag \<Rightarrow> nat" where
  "repos_weight Get_repos = 1"
| "repos_weight (Get_listing p) = 1"
| "repos_weight (Post_repo v) = 4"
| "repos_weight (Post_clone_url v) = 3"
| "repos_weight _ = 2"

fun pool_weight :: "pool_tag \<Rightarrow> nat" where
  "pool_weight Get_pool_cfg = 1"
| "pool_weight Post_pool_cfg = 1"
| "pool_weight Get_pinned = 1"
| "pool_weight _ = 2"

fun tag_weight :: "settings_tag \<Rightarrow> nat" where
  "tag_weight (From_conns t) = conns_weight t"
| "tag_weight (From_repos t) = repos_weight t"
| "tag_weight (From_pool t) = pool_weight t"

definition weight :: "settings_tag list \<Rightarrow> nat" where
  "weight out = sum_list (map tag_weight out)"

lemma weight_simps [simp]:
  "weight [] = 0" "weight (t # out) = tag_weight t + weight out" "weight (out @ ps) = weight out + weight ps"
  by (simp_all add: weight_def)

lemma weight_remove1: "t \<in> set out \<Longrightarrow> weight out = tag_weight t + weight (remove1 t out)"
  by (induction out) auto

lemma conns_chain:
  "conns_answer e = Some t \<Longrightarrow> sum_list (map conns_weight (waits (snd (conns_step e s)))) < conns_weight t"
  by (cases e) (auto simp: connected_dlg_def reload_conns_def reused_def gh_oauth_answer_def
      gh_device_answer_def gh_status_answer_def ia_started_def ia_submitted_def Let_def split: outcome.split)

lemma repos_chain:
  "repos_answer e = Some t \<Longrightarrow> sum_list (map repos_weight (waits (snd (repos_step home e s)))) < repos_weight t"
  by (cases e) (auto simp: saved_def save_done_def reload_repos_def clone_url_answer_def clone_toast_def
      cloned_def edited_def deleted_def split: outcome.split)

lemma pool_chain:
  "pool_answer e = Some t \<Longrightarrow> sum_list (map pool_weight (waits (snd (pool_cfg_step e s)))) < pool_weight t"
  by (cases e) (auto simp: pw_saved_def reload_pinned_def split: outcome.split)

lemma chain:
  assumes "settings_answer e = Some t"
  shows "weight (waits (snd (settings_step home e s))) < tag_weight t"
proof (cases e)
  case (S_conns f)
  then show ?thesis using assms conns_chain [of f _ "se_conns s"]
    by (auto simp: in_conns_def split_beta Let_def weight_def comp_def)
next
  case (S_repos f)
  then show ?thesis using assms repos_chain [of f _ home "se_repos s"]
    by (auto simp: in_repos_def split_beta Let_def weight_def comp_def)
next
  case (S_pool f)
  then show ?thesis using assms pool_chain [of f _ "se_pool s"]
    by (auto simp: in_pool_def split_beta Let_def weight_def comp_def)
qed (use assms in simp_all)

lemma answer_shortens:
  assumes "settings_answer e = Some t" "t \<in> set (snd w)"
  shows "weight (snd (flow_step home e w)) < weight (snd w)"
  using chain [OF assms(1), of home "fst w"] weight_remove1 [OF assms(2)] assms(1)
  by (simp add: flow_step_def rest_def split_beta)

lemma answers_end:
  "only_answers home es w \<Longrightarrow> length es + weight (snd (run (flow_step home) es w)) \<le> weight (snd w)"
proof (induction es arbitrary: w)
  case (Cons e es)
  then obtain t where "settings_answer e = Some t" "t \<in> set (snd w)" by (auto split: option.splits)
  then have "weight (snd (flow_step home e w)) < weight (snd w)" by (rule answer_shortens)
  then show ?case using Cons.IH [of "flow_step home e w"] Cons.prems by simp
qed simp


lemma dlg_frame [simp]: "dlg k (s\<lparr>c_gh := g\<rparr>) = dlg k s" "dlg k (s\<lparr>c_ia := a\<rparr>) = dlg k s" "dlg k (s\<lparr>c_conns := c\<rparr>) = dlg k s"
  by (cases k; simp)+

lemma dlg_put [simp]: "dlg j (put_dlg k d s) = (if j = k then d else dlg j s)"
  by (cases j; cases k) simp_all

lemma dlg_reset [simp]: "dlg j (reset_dlg k s) = (if j = k then blank_dialog else dlg j s)"
  by (simp add: reset_dlg_def)

lemma reset_frame [simp]: "c_gh (put_dlg k d s) = c_gh s" "c_ia (put_dlg k d s) = c_ia s"
  "c_gh (reset_dlg k s) = blank_github" "c_ia (reset_dlg k s) = c_ia s"
  by (cases k; simp add: reset_dlg_def)+

lemma stop_frame [simp]: "dlg j (stop_poll s) = dlg j s" "c_ia (stop_poll s) = c_ia s" 
 "c_gh (stop_poll s) = (c_gh s)\<lparr>gh_poll := None\<rparr>"
  by (simp_all add: stop_poll_def)

lemmas conns_handlers = test_dlg_def connect_dlg_def tested_dlg_def connected_dlg_def gh_start_def 
  gh_oauth_answer_def gh_device_answer_def gh_status_answer_def gh_returned_def gh_fail_def
  ia_started_def ia_submitted_def ia_save_def

subsection \<open>Work shown in progress is outstanding\<close>

text \<open>For each busy flag, the answers that will clear it; \<open>P\<close> says which tags are outstanding.\<close>

definition dlg_waits :: "dlg_kind \<Rightarrow> dialog \<Rightarrow> (conns_tag \<Rightarrow> bool) \<Rightarrow> bool" where
  "dlg_waits k d P \<longleftrightarrow> (dg_testing d \<longrightarrow> P (Post_test k)) \<and> (dg_busy d \<longrightarrow> P (Post_connect k))"

definition conns_waits :: "conns \<Rightarrow> (conns_tag \<Rightarrow> bool) \<Rightarrow> bool" where
  "conns_waits s P \<longleftrightarrow>
     (\<forall>k. dlg_waits k (dlg k s) P)
     \<and> (gh_starting (c_gh s) \<longrightarrow> (\<exists>p. P (Post_oauth p)) \<or> P Post_device)
     \<and> (iaBusy (c_ia s) \<longrightarrow> P Post_claude_start \<or> P Post_claude_code \<or> P Post_api_key)
     \<and> (iaTesting (c_ia s) \<longrightarrow> P Post_ia_test)"

definition repos_waits :: "repos \<Rightarrow> (repos_tag \<Rightarrow> bool) \<Rightarrow> bool" where
  "repos_waits s P \<longleftrightarrow>
     (repoLoading s \<longrightarrow> (\<exists>p. P (Get_listing p)))
     \<and> (repoSaving s \<longrightarrow> (\<exists>v. P (Post_repo v) \<or> P (Post_clone_url v) \<or> P (Clone v)))
     \<and> (editBusy s \<longrightarrow> P Post_edit) \<and> (delBusy s \<longrightarrow> P Delete_repo)"

definition pool_waits :: "pool_cfg \<Rightarrow> (pool_tag \<Rightarrow> bool) \<Rightarrow> bool" where
  "pool_waits s P \<longleftrightarrow> (pwBusy s \<longrightarrow> (\<exists>ed. P (Post_worker ed)))"

text \<open>What is outstanding after an event, at least.\<close>

abbreviation still :: "('t \<Rightarrow> bool) \<Rightarrow> 't option \<Rightarrow> 't cmd list \<Rightarrow> 't \<Rightarrow> bool" where
  "still P a cs \<equiv> \<lambda>t. (P t \<and> a \<noteq> Some t) \<or> t \<in> set (waits cs)"

lemma conns_waits_step:
  assumes "conns_waits s P"
  shows "conns_waits (fst (conns_step e s)) (still P (conns_answer e) (snd (conns_step e s)))"
  using assms unfolding conns_waits_def
  by (cases e) (auto simp: conns_handlers dlg_waits_def Let_def blank_dialog_def blank_github_def blank_ia_def
   split: outcome.splits option.splits)

lemma repos_waits_step:
  assumes "repos_waits s P"
  shows "repos_waits (fst (repos_step home e s)) (still P (repos_answer e) (snd (repos_step home e s)))"
  using assms
  by (cases e) (auto simp: repos_waits_def saved_def save_done_def clone_url_answer_def clone_toast_def reload_repos_def
      cloned_def edited_def deleted_def listed_def openRepoModal_def pickRepoSource_def pickRemoteRepo_def saveRepo_def
      saveRepoEdit_def confirmDelRepo_def browsed_def Let_def split: outcome.splits listing.splits option.splits)

lemma pool_waits_step:
  assumes "pool_waits s P"
  shows "pool_waits (fst (pool_cfg_step e s)) (still P (pool_answer e) (snd (pool_cfg_step e s)))"
  using assms
  by (cases e) (auto simp: pool_waits_def pw_saved_def savePool_def savePw_def Let_def split: outcome.splits)

text \<open>The page.\<close>

definition page_waits :: "settings \<Rightarrow> (settings_tag \<Rightarrow> bool) \<Rightarrow> bool" where
  "page_waits s P \<longleftrightarrow>
     conns_waits (se_conns s) (\<lambda>t. P (From_conns t)) \<and> repos_waits (se_repos s) (\<lambda>t. P (From_repos t))
     \<and> pool_waits (se_pool s) (\<lambda>t. P (From_pool t))"

lemma waits_mono:
  "conns_waits c P \<Longrightarrow> (\<And>t. P t \<Longrightarrow> Q t) \<Longrightarrow> conns_waits c Q"
  "repos_waits r P' \<Longrightarrow> (\<And>t. P' t \<Longrightarrow> Q' t) \<Longrightarrow> repos_waits r Q'"
  "pool_waits p P'' \<Longrightarrow> (\<And>t. P'' t \<Longrightarrow> Q'' t) \<Longrightarrow> pool_waits p Q''"
  by (simp add: conns_waits_def dlg_waits_def; blast) (simp add: repos_waits_def pool_waits_def; blast)+

lemma page_waits_mono: "page_waits s P \<Longrightarrow> (\<And>t. P t \<Longrightarrow> Q t) \<Longrightarrow> page_waits s Q"
  unfolding page_waits_def by (blast intro: waits_mono)

lemma in_conns_waits:
  assumes "page_waits s P"
  shows "page_waits (fst (in_conns e s)) (still P (map_option From_conns (conns_answer e)) (snd (in_conns e s)))"
proof -
  have "conns_waits (fst (conns_step e (se_conns s)))
      (still (\<lambda>t. P (From_conns t)) (conns_answer e) (snd (conns_step e (se_conns s))))"
    using assms by (intro conns_waits_step) (simp add: page_waits_def)
  then show ?thesis using assms
    by (auto simp: page_waits_def in_conns_def split_beta Let_def elim!: waits_mono)
qed

lemma in_repos_waits:
  assumes "page_waits s P"
  shows "page_waits (fst (in_repos home e s)) (still P (map_option From_repos (repos_answer e)) (snd (in_repos home e s)))"
proof -
  have "repos_waits (fst (repos_step home e (se_repos s)))
      (still (\<lambda>t. P (From_repos t)) (repos_answer e) (snd (repos_step home e (se_repos s))))"
    using assms by (intro repos_waits_step) (simp add: page_waits_def)
  then show ?thesis using assms
    by (auto simp: page_waits_def in_repos_def split_beta Let_def elim!: waits_mono)
qed

lemma in_pool_waits:
  assumes "page_waits s P"
  shows "page_waits (fst (in_pool e s)) (still P (map_option From_pool (pool_answer e)) (snd (in_pool e s)))"
proof -
  have "pool_waits (fst (pool_cfg_step e (se_pool s)))
      (still (\<lambda>t. P (From_pool t)) (pool_answer e) (snd (pool_cfg_step e (se_pool s))))"
    using assms by (intro pool_waits_step) (simp add: page_waits_def)
  then show ?thesis using assms
    by (auto simp: page_waits_def in_pool_def split_beta Let_def elim!: waits_mono)
qed

lemma page_waits_step:
  assumes "page_waits s P"
  shows "page_waits (fst (settings_step home e s)) (still P (settings_answer e) (snd (settings_step home e s)))"
proof (cases e)
  case (S_mount srch tauri)
  let ?c = "in_conns (Gh_returned srch) s"
  let ?p = "in_pool P_load (fst ?c)"
  let ?r = "in_repos home (R_mount tauri) (fst ?p)"
  note c = in_conns_waits [OF assms, of "Gh_returned srch"]
  note p = in_pool_waits [OF c, of P_load]
  have "page_waits (fst ?r) (still P None (snd ?c @ snd ?p @ snd ?r))"
    by (rule page_waits_mono [OF in_repos_waits [OF p, of home "R_mount tauri"]]) auto
  then show ?thesis by (simp add: S_mount split_beta Let_def)
next
  case (S_conns f)
  then show ?thesis using in_conns_waits [OF assms, of f] by simp
next
  case (S_repos f)
  then show ?thesis using in_repos_waits [OF assms, of home f] by simp
next
  case (S_pool f)
  then show ?thesis using in_pool_waits [OF assms, of f] by simp
next
  case S_go_connect
  have "page_waits (fst (in_repos home R_close s)) (still P None (snd (in_repos home R_close s)))"
    using in_repos_waits [OF assms, of home R_close] by simp
  then show ?thesis by (simp add: S_go_connect split_beta Let_def page_waits_def)
qed (use assms in \<open>simp_all add: page_waits_def\<close>)

text \<open>No part of the page shows work in progress.\<close>

definition idle :: "settings \<Rightarrow> bool" where
  "idle s \<longleftrightarrow>
     \<not> list_ex (\<lambda>k. dg_testing (dlg k (se_conns s)) \<or> dg_busy (dlg k (se_conns s))) [K_git, K_task, K_int]
     \<and> \<not> gh_starting (c_gh (se_conns s)) \<and> \<not> iaBusy (c_ia (se_conns s)) \<and> \<not> iaTesting (c_ia (se_conns s))
     \<and> \<not> repoLoading (se_repos s) \<and> \<not> repoSaving (se_repos s) \<and> \<not> editBusy (se_repos s) \<and> \<not> delBusy (se_repos s)
     \<and> \<not> pwBusy (se_pool s)"

lemma nothing_waits: "page_waits s (\<lambda>_. False) \<Longrightarrow> idle s"
  by (simp add: page_waits_def idle_def conns_waits_def dlg_waits_def repos_waits_def pool_waits_def)

subsection \<open>The wait for GitHub\<close>

text \<open>
  The dialogs show that they wait for the authorisation, with a spinner, while the status is pending
  or there is a code to type. The wait has no request of its own: the poll asks again and again. It is
  cut off from its poll only by an answer to a tick that arrives when the poll has been stopped.
\<close>

definition gh_waiting :: "conns \<Rightarrow> bool" where
  "gh_waiting s \<longleftrightarrow> gh_status (c_gh s) = (u ''pending'') \<or> gh_device (c_gh s) \<noteq> None"

text \<open>No answer to a tick came after the poll had been stopped, and the page stayed mounted.\<close>

fun in_time :: "jstr outcome \<Rightarrow> settings_event list \<Rightarrow> settings \<Rightarrow> bool" where
  "in_time home [] s = True"
| "in_time home (e # es) s =
     ((case e of
         S_conns (Gh_status_answer r) \<Rightarrow> gh_poll (c_gh (se_conns s)) \<noteq> None
       | S_conns C_unmount \<Rightarrow> False
       | _ \<Rightarrow> True) \<and> in_time home es (fst (settings_step home e s)))"

lemma gh_wait_step:
  assumes "gh_waiting s \<longrightarrow> gh_poll (c_gh s) \<noteq> None" "e \<noteq> C_unmount"
    "\<And>r. e = Gh_status_answer r \<Longrightarrow> gh_poll (c_gh s) \<noteq> None"
  shows "gh_waiting (fst (conns_step e s)) \<longrightarrow> gh_poll (c_gh (fst (conns_step e s))) \<noteq> None"
  using assms unfolding gh_waiting_def
  by (cases e) (auto simp: conns_handlers Let_def blank_github_def u_def split: outcome.splits option.splits)

lemma gh_wait_page:
  assumes "gh_waiting (se_conns s) \<longrightarrow> gh_poll (c_gh (se_conns s)) \<noteq> None" "in_time home [e] s"
  shows "gh_waiting (se_conns (fst (settings_step home e s))) \<longrightarrow>
    gh_poll (c_gh (se_conns (fst (settings_step home e s)))) \<noteq> None"
proof -
  have c: "gh_waiting (se_conns (fst (in_conns f s))) \<longrightarrow> gh_poll (c_gh (se_conns (fst (in_conns f s)))) \<noteq> None"
    if "f \<noteq> C_unmount" "\<And>r. f = Gh_status_answer r \<Longrightarrow> gh_poll (c_gh (se_conns s)) \<noteq> None" for f
    using gh_wait_step [OF assms(1) that] by (simp add: in_conns_def split_beta)
  have f: "se_conns (fst (in_repos home h t)) = se_conns t" "se_conns (fst (in_pool g t)) = se_conns t" for h g t
    by (simp_all add: in_repos_def in_pool_def split_beta)
  show ?thesis
  proof (cases e)
    case (S_conns g)
    then show ?thesis using assms(2) c [of g] by (cases g) simp_all
  qed (use assms(1) c [of "Gh_returned _"] in \<open>simp_all add: split_beta Let_def f\<close>)
qed

lemma gh_wait_run:
  "gh_waiting (se_conns (fst w)) \<longrightarrow> gh_poll (c_gh (se_conns (fst w))) \<noteq> None \<Longrightarrow> in_time home es (fst w) \<Longrightarrow>
     gh_waiting (se_conns (fst (run (flow_step home) es w))) \<longrightarrow>
       gh_poll (c_gh (se_conns (fst (run (flow_step home) es w)))) \<noteq> None"
proof (induction es arbitrary: w)
  case (Cons e es)
  have "fst (flow_step home e w) = fst (settings_step home e (fst w))" by (simp add: flow_step_def split_beta)
  then show ?case using Cons.IH [of "flow_step home e w"] gh_wait_page [of "fst w" home e] Cons.prems by simp
qed simp

lemma gh_wait_start: "\<not> gh_waiting (se_conns settings_start)"
  by (simp add: gh_waiting_def settings_start_def conns_start_def blank_github_def u_def)

text \<open>While the wait is shown, the next tick asks for the status.\<close>

lemma gh_poll_asks:
  "gh_poll (c_gh (se_conns s)) \<noteq> None \<Longrightarrow> From_conns Get_gh_status \<in> set (waits (snd (settings_step home (S_conns Gh_tick) s)))"
  by (simp add: in_conns_def)

definition flow_inv :: "settings \<times> settings_tag list \<Rightarrow> bool" where
  "flow_inv w = page_waits (fst w) (\<lambda>t. t \<in> set (snd w))"

interpretation flow: stepper "(settings_start, [])" "flow_step home" flow_inv for home
proof
  have "dlg_waits k (dlg k conns_start) P" for k P
    by (cases k) (simp_all add: conns_start_def dlg_waits_def blank_dialog_def)
  then show "flow_inv (settings_start, [])"
    by (simp add: flow_inv_def page_waits_def settings_start_def conns_waits_def repos_waits_def pool_waits_def
        conns_start_def repos_start_def pool_cfg_start_def blank_github_def blank_ia_def)
  show "flow_inv (flow_step home e w)" if "flow_inv w" for e w
  proof -
    have "page_waits (fst (settings_step home e (fst w)))
        (still (\<lambda>t. t \<in> set (snd w)) (settings_answer e) (snd (settings_step home e (fst w))))"
      using that by (intro page_waits_step) (simp add: flow_inv_def)
    moreover have "fst (flow_step home e w) = fst (settings_step home e (fst w))"
      by (simp add: flow_step_def split_beta)
    ultimately show ?thesis unfolding flow_inv_def
      by (simp only:) (erule page_waits_mono, auto simp: flow_step_def split_beta rest_def split: option.splits)
  qed
qed

lemma tag_weight_pos: "0 < tag_weight t"
proof (cases t)
  case (From_conns c)
  then show ?thesis by (cases c) simp_all
next
  case (From_repos r)
  then show ?thesis by (cases r) simp_all
next
  case (From_pool p)
  then show ?thesis by (cases p) simp_all
qed

lemma weight_zero: "weight out = 0 \<longleftrightarrow> out = []"
proof (cases out)
  case (Cons t ts)
  then show ?thesis using tag_weight_pos [of t] by simp
qed simp

end
