(* ===== verification/Settings_Types.thy ===== *)
theory Settings_Types
  imports Settings_View Settings_Flow
begin

text \<open>
  Types of the requests of the settings page. The control plane decodes a body into a Go struct
  (cerebro/internal/httpapi/api.go and db.PoolCfg) and refuses a field of another type, so each
  request has a signature: its method, its path, and the record its body must be. The path is the
  whole one: it ends in the identifier of the connection, the repository or the worker that the event
  is about, so a signature depends on the event and on the page it meets.
  Values keep their types from the server's configuration through the page to the next request.
\<close>

datatype jty = T_string | T_bool | T_int | T_record "(jstr \<times> jty) list"

fun has_type :: "jty \<Rightarrow> json \<Rightarrow> bool" where
  "has_type T_string j = (case j of JStr _ \<Rightarrow> True | _ \<Rightarrow> False)"
| "has_type T_bool j = (case j of JBool _ \<Rightarrow> True | _ \<Rightarrow> False)"
| "has_type T_int j = (case j of JNum x \<Rightarrow> x = of_int \<lfloor>x\<rfloor> | _ \<Rightarrow> False)"
| "has_type (T_record fs) j =
     (case j of
        JObj kvs \<Rightarrow> set (map fst kvs) \<subseteq> set (map fst fs) \<and> (\<forall>p \<in> set fs. has_type (snd p) (jget (fst p) j))
      | _ \<Rightarrow> False)"

definition strings :: "jstr list \<Rightarrow> jty" where
  "strings ks = T_record (map (\<lambda>k. (k, T_string)) ks)"

definition pool_fields :: "(jstr \<times> jty) list" where
  "pool_fields =
     [((u ''mode''), T_string), ((u ''parallel_workers''), T_int), ((u ''timeout_min''), T_int), ((u ''retries''), T_int),
      ((u ''paused''), T_bool), ((u ''auto_merge''), T_bool), ((u ''isolamento''), T_bool)]"

definition pool_ty :: jty where
  "pool_ty = T_record pool_fields"

definition worker_ty :: jty where
  "worker_ty = T_record
     [((u ''focus''), T_string), ((u ''repo_id''), T_string), ((u ''model''), T_string), ((u ''concurrency''), T_int),
      ((u ''rules''), T_string), ((u ''enabled''), T_bool),
      ((u ''capabilities''), T_record [((u ''open_pr''), T_bool), ((u ''run_tests''), T_bool), ((u ''auto_merge''), T_bool)])]"

text \<open>The string fields of the three connection bodies (gitBody, taskBody, intBody).\<close>

fun dlg_fields :: "dlg_kind \<Rightarrow> jstr list" where
  "dlg_fields K_git = [(u ''provider''), (u ''token''), (u ''username'')]"
| "dlg_fields K_task = [(u ''provider''), (u ''token''), (u ''username''), (u ''email''), (u ''site''), (u ''key'')]"
| "dlg_fields K_int = [(u ''provider''), (u ''token''), (u ''username''), (u ''project''), (u ''email''), (u ''site'')]"

text \<open>The path that names what an event takes away or switches, for the events that do.\<close>

fun named_path :: "settings_event \<Rightarrow> jstr" where
  "named_path (S_conns (C_disconnect k p)) = dlg_path k @ (u ''?provider='') @ p"
| "named_path (S_pool (P_toggle p)) = (u ''/v1/pinned-workers/'') @ pn_id p"
| "named_path (S_pool (P_delete i)) = (u ''/v1/pinned-workers/'') @ i"
| "named_path _ = []"

text \<open>The collection, or one member of it when there is one with an identifier.\<close>

definition member_path :: "jstr \<Rightarrow> jstr option \<Rightarrow> jstr" where
  "member_path coll i = (case i of Some (c # cs) \<Rightarrow> coll @ (u ''/'') @ c # cs | _ \<Rightarrow> coll)"

fun conns_sig :: "settings_event \<Rightarrow> conns_tag \<Rightarrow> http_method \<times> jstr \<times> jty option" where
  "conns_sig e Get_conns = (GET, (u ''/v1/connections''), None)"
| "conns_sig e (Post_test k) = (POST, dlg_path k @ (u ''/test''), Some (strings (dlg_fields k)))"
| "conns_sig e (Post_connect k) = (POST, dlg_path k, Some (strings (dlg_fields k)))"
| "conns_sig e Delete_conn = (DELETE, named_path e, None)"
| "conns_sig e Post_reuse = (POST, (u ''/v1/connections/reuse''), Some (strings [(u ''family''), (u ''target'')]))"
| "conns_sig e (Post_oauth p) = (POST, (u ''/v1/connections/git/github/oauth/start''), Some (strings [(u ''purpose'')]))"
| "conns_sig e Post_device = (POST, (u ''/v1/connections/git/github/device''), Some (strings [(u ''purpose'')]))"
| "conns_sig e Get_gh_status = (GET, (u ''/v1/connections/git/github/device/status''), None)"
| "conns_sig e Post_ia_test = (POST, (u ''/v1/connections/anthropic/test''), Some (strings [(u ''api_key'')]))"
| "conns_sig e Post_claude_start = (POST, (u ''/v1/connections/claude/start''), Some (strings []))"
| "conns_sig e Post_claude_code = (POST, (u ''/v1/connections/claude/code''), Some (strings [(u ''code'')]))"
| "conns_sig e Post_api_key = (POST, (u ''/v1/connections''), Some (strings [(u ''kind'')]))"

fun repos_sig :: "repos \<Rightarrow> repos_tag \<Rightarrow> http_method \<times> jstr \<times> jty option" where
  "repos_sig s Get_repos = (GET, (u ''/v1/repos''), None)"
| "repos_sig s (Get_listing p) = (GET, (u ''/v1/connections/code/repos?provider='') @ p, None)"
| "repos_sig s (Post_repo v) =
     (POST, (u ''/v1/repos''), Some (strings [(u ''name''), (u ''clone_url''), (u ''default_branch''), (u ''provider''), (u ''local_dir'')]))"
| "repos_sig s (Post_clone_url v) = (POST, (u ''/v1/repos/clone-url''), Some (strings [(u ''provider''), (u ''clone_url'')]))"
| "repos_sig s (Clone v) = (POST, [], None)"
| "repos_sig s Post_edit = (POST, (u ''/v1/repos/'') @ (case repoEdit s of Some x \<Rightarrow> re_id x | None \<Rightarrow> []), Some (strings [(u ''name''), (u ''default_branch'')]))"
| "repos_sig s Delete_repo = (DELETE, (u ''/v1/repos/'') @ (case repoDel s of Some x \<Rightarrow> re_id x | None \<Rightarrow> []), None)"

fun pool_sig :: "settings_event \<Rightarrow> pool_cfg \<Rightarrow> pool_tag \<Rightarrow> http_method \<times> jstr \<times> jty option" where
  "pool_sig e s Get_pool_cfg = (GET, (u ''/v1/pool''), None)"
| "pool_sig e s Post_pool_cfg = (POST, (u ''/v1/pool''), Some pool_ty)"
| "pool_sig e s Get_pinned = (GET, (u ''/v1/pinned-workers''), None)"
| "pool_sig e s (Post_worker ed) = (POST, member_path (u ''/v1/pinned-workers'') (pwEditId s), Some worker_ty)"
| "pool_sig e s (Post_toggle on) = (POST, named_path e, Some worker_ty)"
| "pool_sig e s Delete_worker = (DELETE, named_path e, None)"
| "pool_sig e s (Post_bulk on) = (POST, (u ''/v1/pinned-workers/bulk''), Some (T_record [((u ''enabled''), T_bool)]))"

fun signature :: "settings_event \<Rightarrow> settings \<Rightarrow> settings_tag \<Rightarrow> http_method \<times> jstr \<times> jty option" where
  "signature e s (From_conns t) = conns_sig e t"
| "signature e s (From_repos t) = repos_sig (se_repos s) t"
| "signature e s (From_pool t) = pool_sig e (se_pool s) t"

definition fits :: "http_method \<times> jstr \<times> jty option \<Rightarrow> http_method \<Rightarrow> jstr \<Rightarrow> json option \<Rightarrow> bool" where
  "fits sg m p b \<longleftrightarrow>
     m = fst sg \<and> p = fst (snd sg)
     \<and> (case (snd (snd sg), b) of (None, None) \<Rightarrow> True | (Some t, Some j) \<Rightarrow> has_type t j | _ \<Rightarrow> False)"

text \<open>Every request of a list of commands has the signature of its tag.\<close>

definition typed_cmds :: "('k \<Rightarrow> http_method \<times> jstr \<times> jty option) \<Rightarrow> 'k cmd list \<Rightarrow> bool" where
  "typed_cmds sg cs = list_all (\<lambda>(m, p, b, k). fits (sg k) m p b) (sends cs)"

lemma typed_cmds_simps [simp]:
  "typed_cmds sg []"
  "typed_cmds sg (Send m p b k # cs) \<longleftrightarrow> fits (sg k) m p b \<and> typed_cmds sg cs"
  "typed_cmds sg (Toast x y # cs) = typed_cmds sg cs"
  "typed_cmds sg (OpenUrl x # cs) = typed_cmds sg cs"
  "typed_cmds sg (RewriteUrl x # cs) = typed_cmds sg cs"
  "typed_cmds sg (Exec g as k # cs) = typed_cmds sg cs"
  "typed_cmds sg (cs @ ds) \<longleftrightarrow> typed_cmds sg cs \<and> typed_cmds sg ds"
  by (simp_all add: typed_cmds_def)

lemma typed_retag: "typed_cmds sg (map (retag f) cs) = typed_cmds (sg \<circ> f) cs"
  by (simp add: typed_cmds_def sends_retag list_all_iff split_beta)

text \<open>An object of strings.\<close>

lemma strings_obj [simp]:
  "has_type (strings ks) (JObj kvs) \<longleftrightarrow>
     set (map fst kvs) \<subseteq> set ks \<and> list_all (\<lambda>k. has_type T_string (jget k (JObj kvs))) ks"
  by (simp add: strings_def list_all_iff comp_def)

lemma payload_typed: "has_type (strings (dlg_fields k)) (payload k p f)"
  by (cases k) simp_all

lemma conns_typed:
  "e' = S_conns e \<or> (\<forall>k p. e \<noteq> C_disconnect k p) \<Longrightarrow> typed_cmds (conns_sig e') (snd (conns_step e s))"
  by (cases e)
    (auto simp: conns_handlers reload_conns_def fits_def payload_typed strings_obj reused_def Let_def
      split: outcome.splits option.splits)

declare has_type.simps(4) [simp del]

lemma repos_typed: "typed_cmds (repos_sig s) (snd (repos_step home e s))"
  by (cases e)
    (auto simp: fits_def saved_def save_done_def clone_url_answer_def clone_toast_def reload_repos_def cloned_def edited_def
      deleted_def pickRepoSource_def saveRepo_def saveRepoEdit_def confirmDelRepo_def browsed_def save_body_def Let_def
      split: outcome.splits option.splits)

subsection \<open>The pool configuration keeps its type\<close>

definition typed_field :: "jstr \<Rightarrow> json \<Rightarrow> bool" where
  "typed_field k v = (case map_of pool_fields k of Some t \<Rightarrow> has_type t v | None \<Rightarrow> False)"

text \<open>A configuration that came is an error or a PoolCfg, and a change has the type of its field.\<close>

fun typed_event :: "settings_event \<Rightarrow> bool" where
  "typed_event (S_pool (P_pool (Resolved j))) = (truthy (jget (u ''error'') j) \<or> has_type pool_ty j)"
| "typed_event (S_pool (P_save k v)) = typed_field k v"
| "typed_event _ = True"

definition typed_pool :: "json \<Rightarrow> bool" where
  "typed_pool p \<longleftrightarrow> truthy p \<longrightarrow> has_type pool_ty p"

lemma has_type_record:
  "has_type (T_record fs) j \<longleftrightarrow>
     (\<exists>kvs. j = JObj kvs \<and> set (map fst kvs) \<subseteq> set (map fst fs) \<and> (\<forall>p \<in> set fs. has_type (snd p) (jget (fst p) j)))"
  by (cases j) (simp_all add: has_type.simps(4))

lemma typed_spread:
  assumes "has_type pool_ty p" "typed_field k v"
  shows "has_type pool_ty (spread_set k v p)"
proof -
  obtain kvs where p: "p = JObj kvs" "set (map fst kvs) \<subseteq> set (map fst pool_fields)"
      "\<forall>q \<in> set pool_fields. has_type (snd q) (jget (fst q) p)"
    using assms(1) by (auto simp: pool_ty_def has_type_record)
  obtain t where t: "map_of pool_fields k = Some t" "has_type t v"
    using assms(2) by (auto simp: typed_field_def split: option.splits)
  have d: "distinct (map fst pool_fields)" by (simp add: pool_fields_def)
  have "has_type (snd q) (jget (fst q) (spread_set k v p))" if "q \<in> set pool_fields" for q
    using that p(1,3) t d by (auto simp only: jget_spread_set split: if_splits) 
      (metis map_of_eq_Some_iff option.inject prod.collapse)+
  moreover have "set (map fst (case spread_set k v p of JObj l \<Rightarrow> l)) \<subseteq> set (map fst pool_fields)"
    using p(1,2) map_of_SomeD [OF t(1)] by (auto simp: rev_image_eqI split: if_splits)
  ultimately show ?thesis unfolding pool_ty_def has_type_record
    by (simp add: p(1)) 
qed

lemma worker_typed: "has_type worker_ty (pwBody x)" "has_type worker_ty (toggle_body p)"
  by (simp_all add: worker_ty_def pwBody_def toggle_body_def capabilities_def has_type_record)

lemma worker_path:
  "(if editing s then (u ''/v1/pinned-workers/'') @ or_blank (pwEditId s) else (u ''/v1/pinned-workers''))
     = member_path (u ''/v1/pinned-workers'') (pwEditId s)"
  by (auto simp: member_path_def editing_def or_blank_def u_def split: option.split list.split)

lemma pool_typed_step:
  assumes "typed_pool (pc_pool s)" "typed_event (S_pool e)" "e' = S_pool e \<or> e = P_load"
  shows "typed_pool (pc_pool (fst (pool_cfg_step e s))) \<and> typed_cmds (pool_sig e' s) (snd (pool_cfg_step e s))"
proof (cases e)
  case (P_pool r)
  then show ?thesis using assms by (cases r) (auto simp: pool_accept_def typed_pool_def)
next
  case (P_save k v)
  then show ?thesis using assms
    by (auto simp: savePool_def Let_def typed_pool_def fits_def typed_spread)
qed (use assms in \<open>auto simp: load_pool_cfg_def savePw_def pw_saved_def reload_pinned_def fits_def worker_typed worker_path
       has_type_record split: outcome.splits\<close>)

subsection \<open>The page\<close>

lemma signature_parts:
  "signature e s \<circ> From_conns = conns_sig e" "signature e s \<circ> From_repos = repos_sig (se_repos s)"
  "signature e s \<circ> From_pool = pool_sig e (se_pool s)"
  by auto

lemma typed_in_conns:
  "e = S_conns f \<or> (\<forall>k p. f \<noteq> C_disconnect k p) \<Longrightarrow> typed_cmds (signature e s) (snd (in_conns f t))"
  using conns_typed [of e f] by (auto simp: in_conns_def split_beta typed_retag signature_parts)

lemma typed_in_repos:
  "se_repos t = se_repos s \<Longrightarrow> typed_cmds (signature e s) (snd (in_repos home f t))"
  using repos_typed [of "se_repos s" home f] by (simp add: in_repos_def split_beta typed_retag signature_parts)

lemma typed_in_pool:
  assumes "se_pool t = se_pool s" "typed_pool (pc_pool (se_pool s))" "typed_event (S_pool f)" "e = S_pool f \<or> f = P_load"
  shows "typed_cmds (signature e s) (snd (in_pool f t))"
  using pool_typed_step [OF assms(2-4)] assms(1) by (simp add: in_pool_def split_beta typed_retag signature_parts)

lemma typed_kept:
  "typed_pool (pc_pool (se_pool t)) \<Longrightarrow> typed_event (S_pool f) \<Longrightarrow> typed_pool (pc_pool (se_pool (fst (in_pool f t))))"
  using pool_typed_step [of "se_pool t" f "S_pool f"] by (simp add: in_pool_def split_beta)

lemma in_frames:
  "se_pool (fst (in_conns f s)) = se_pool s" "se_repos (fst (in_conns f s)) = se_repos s"
  "se_repos (fst (in_pool g s)) = se_repos s" "se_pool (fst (in_repos home h s)) = se_pool s"
  by (simp_all add: in_conns_def in_pool_def in_repos_def split_beta)

lemmas typed_parts_of_page = typed_in_conns typed_in_repos typed_in_pool typed_kept in_frames

lemma settings_typed_step:
  assumes "typed_pool (pc_pool (se_pool s))" "typed_event e"
  shows "typed_pool (pc_pool (se_pool (fst (settings_step home e s)))) \<and> typed_cmds (signature e s) (snd (settings_step home e s))"
  using assms by (cases e) (simp_all add: split_beta Let_def typed_parts_of_page)

lemma settings_typed_run:
  "typed_pool (pc_pool (se_pool s)) \<Longrightarrow> list_all typed_event es \<Longrightarrow>
     typed_pool (pc_pool (se_pool (run (\<lambda>e s. fst (settings_step home e s)) es s)))"
  by (induction es arbitrary: s) (auto simp: settings_typed_step)

text \<open>What the workers tab lets the user do has the types of its fields.\<close>

definition typed_view :: "settings_event node \<Rightarrow> bool" where
  "typed_view n \<longleftrightarrow> list_all typed_event (clicks n) \<and> (\<forall>f \<in> set (inputs n). \<forall>v. typed_event (f v))"

lemma typed_view_El [simp]:
  "list_all typed_event (attr_clicks as) \<Longrightarrow> list_all (\<lambda>f. \<forall>v. typed_event (f v)) (attr_inputs as) \<Longrightarrow>
     list_all typed_view cs \<Longrightarrow> typed_view (El t as cs)"
  by (auto simp: typed_view_def list_all_iff all_clicks_def)

lemma typed_view_leaf [simp]: "typed_view (Txt x)" "typed_view (Comp c)"
  by (simp_all add: typed_view_def)

lemma typed_views [simp]:
  "list_all typed_view (shown b ns) \<longleftrightarrow> b \<longrightarrow> list_all typed_view ns"
  by (simp add: shown_def)

lemma typed_fields [simp]:
  "typed_field (u ''mode'') (JStr x)" "typed_field (u ''parallel_workers'') (JNum (of_nat n))" "typed_field (u ''timeout_min'') (JNum (of_nat n))"
  "typed_field (u ''retries'') (JNum (of_nat n))" "typed_field (u ''paused'') (JBool b)" "typed_field (u ''auto_merge'') (JBool b)"
  "typed_field (u ''isolamento'') (JBool b)"
  by (simp_all add: typed_field_def pool_fields_def)

lemma typed_parts:
  "typed_view (cfg_cardHead a b ns)" if "list_all typed_view ns"
  using that by (auto simp: cfg_cardHead_def split: option.split)

lemma typed_row: "typed_view n \<Longrightarrow> typed_view (cfg_row a b n)"
  by (auto simp: cfg_row_def)

lemma typed_opts: "list_all typed_view (num_opts ns f)"
  by (auto simp: num_opts_def list_all_iff)

lemma typed_toggle: "(\<And>v. typed_event (f v)) \<Longrightarrow> typed_view (toggle_el b f)"
  by (auto simp: toggle_el_def)

lemmas typed_builders = typed_parts typed_row typed_opts typed_toggle

lemma workers_cards_typed: "typed_view (mode_cards s)" "typed_view (pool_status s)" "typed_view (pool_config s)"
  "typed_view (pool_repos_card s)" "typed_view (behavior_card s)" "typed_view (agents_card s)" "typed_view (merge_card s)"
  "list_all typed_view memory_cards" "typed_view (pinned_card p)"
  by (simp_all add: mode_cards_def pool_status_def pool_config_def pool_repos_card_def behavior_card_def agents_card_def
      merge_card_def memory_cards_def cfg_cardHeadIcon_def pinned_card_def Let_def list.pred_map comp_def split_beta list.pred_True
      typed_builders)

lemma pinned_tab_typed: "typed_view (pinned_tab s)"
  by (simp add: pinned_tab_def infoNote_def Let_def list.pred_map comp_def workers_cards_typed list.pred_True)

lemma workers_tab_typed: "typed_view (workers_tab s)"
  by (simp add: workers_tab_def workers_cards_typed pinned_tab_typed)

definition sample_pool :: json where
  "sample_pool = JObj [((u ''mode''), JStr (u ''pool'')), ((u ''parallel_workers''), JNum 2), ((u ''timeout_min''), JNum 30), ((u ''retries''), JNum 2),
     ((u ''paused''), JBool False), ((u ''auto_merge''), JBool False), ((u ''isolamento''), JBool True)]"

definition sample_worker :: pinned where
  "sample_worker = \<lparr>pn_id = (u ''w1''), pn_focus = (u ''backend''), pn_repo = (u ''r1''), pn_repo_name = (u ''api''), pn_concurrency = 2,
     pn_model = (u ''claude_opus''), pn_rules = None, pn_enabled = Some True, pn_open_pr = None, pn_run_tests = None, pn_auto_merge = None\<rparr>"

lemma sample_pool_typed: "has_type pool_ty sample_pool"
  by (simp add: pool_ty_def sample_pool_def pool_fields_def has_type_record)

end
