(* ===== verification/Settings_Facts.thy ===== *)
theory Settings_Facts
  imports Settings_Page Settings_Types
begin

text \<open>
  What the settings page guarantees of its dialogs, and where their answers go astray: guards of the
  connect buttons, the secrecy of the API key, answers that arrive after their dialog was closed.
\<close>

subsection \<open>Connect buttons\<close>

text \<open>The dialog is open for a provider it knows.\<close>

definition dialog_shown :: "dlg_kind \<Rightarrow> conns \<Rightarrow> jstr option" where
  "dialog_shown k s =
     (case dg_modal (dlg k s) of
        None \<Rightarrow> None
      | Some p \<Rightarrow>
          (if k = K_git \<and> map_of GIT_META p = None \<or> k = K_int \<and> map_of INT_META p = None then None else Some p))"

lemma gh_panel_clicks: "S_conns (C_connect k) \<notin> set (clicks (gh_panel i p s))"
  by (auto simp: gh_panel_def Let_def split: option.split)

lemma field_clicks [simp]: "clicks (field_el l k f h s) = []"
  by (simp add: field_el_def)

lemma token_clicks:
  "S_conns (C_connect k) \<notin> set (clicks (token_el l j p h n s))"
  by (auto simp: token_el_def test_line_def Let_def split: option.split)

lemma method_clicks: "S_conns (C_connect k) \<notin> set (clicks (method_tabs j s))"
  by (auto simp: method_tabs_def active_btn_def set_all_clicks_map)

lemma footer_clicks:
  "S_conns (C_connect k) \<in> set (all_clicks (dlg_footer j p s))
     \<longleftrightarrow> j = k \<and> \<not> oauth_mode j p (se_conns s) \<and> \<not> connect_off j p (dlg j (se_conns s))"
  by (auto simp: dlg_footer_def Let_def)

lemmas dialog_clicks = gh_panel_clicks token_clicks method_clicks footer_clicks

lemma git_clicks:
  "S_conns (C_connect k) \<in> set (all_clicks (git_dialog lang p s)) \<longleftrightarrow>
     k = K_git \<and> map_of GIT_META p \<noteq> None \<and> \<not> oauth_mode K_git p (se_conns s) \<and> \<not> connect_off K_git p (c_git (se_conns s))"
  by (auto simp: git_dialog_def dialog_clicks split: option.split)

lemma task_clicks:
  "S_conns (C_connect k) \<in> set (all_clicks (task_conn_dialog lang p s)) \<longleftrightarrow>
     k = K_task \<and> \<not> oauth_mode K_task p (se_conns s) \<and> \<not> connect_off K_task p (c_task (se_conns s))"
  by (auto simp: task_conn_dialog_def dialog_clicks)

lemma int_clicks:
  "S_conns (C_connect k) \<in> set (all_clicks (int_dialog lang p s)) \<longleftrightarrow>
     k = K_int \<and> map_of INT_META p \<noteq> None \<and> \<not> oauth_mode K_int p (se_conns s) \<and> \<not> connect_off K_int p (c_int (se_conns s))"
  by (auto simp: int_dialog_def dialog_clicks set_all_clicks_map split: option.split)

lemma connect_clicks:
  "S_conns (C_connect k) \<in> set (all_clicks (conn_dialogs lang s)) \<longleftrightarrow>
     (\<exists>p. dialog_shown k (se_conns s) = Some p \<and> \<not> oauth_mode k p (se_conns s) \<and> \<not> connect_off k p (dlg k (se_conns s)))"
  by (cases k) (auto simp: conn_dialogs_def dialog_shown_def git_clicks task_clicks int_clicks split: option.splits)

text \<open>The fields a provider needs.\<close>

definition needed :: "dlg_kind \<Rightarrow> jstr \<Rightarrow> jfield list" where
  "needed k p =
     (if k = K_int then (case map_of INT_META p of Some m \<Rightarrow> im_fields m | None \<Rightarrow> [])
      else if p = (u ''bitbucket'') then [F_username, F_token]
      else if k = K_task \<and> is_atlassian p then [F_site, F_email, F_token]
      else if k = K_task \<and> p = (u ''trello'') then [F_key, F_token]
      else [F_token])"

lemma connect_off_needed:
  "dialog_shown k s = Some p \<Longrightarrow>
     connect_off k p d \<longleftrightarrow> dg_busy d \<or> \<not> list_all (\<lambda>f. trim (form_get f (dg_form d)) \<noteq> []) (needed k p)"
  by (cases k)
    (auto simp: needed_def task_ready_def intReady_def is_atlassian_def dialog_shown_def split: option.splits if_splits)

text \<open>A button that answers sends the request, and the fields the provider needs are not blank.\<close>

lemma connect_off_guarded:
  "dialog_shown k s = Some p \<Longrightarrow> \<not> connect_off k p (dlg k s) \<Longrightarrow> guarded k (dlg k s) = Some p"
  by (cases k) (auto simp: dialog_shown_def guarded_def split: option.splits if_splits)

subsection \<open>The API key\<close>

text \<open>All the commands of a session of events.\<close>

fun trace :: "('e \<Rightarrow> 's \<Rightarrow> 's \<times> 'c list) \<Rightarrow> 'e list \<Rightarrow> 's \<Rightarrow> 'c list" where
  "trace f [] s = []"
| "trace f (e # es) s = (case f e s of (t, cs) \<Rightarrow> cs @ trace f es t)"

text \<open>The same session with nothing typed for the key.\<close>

fun erase :: "conns_event \<Rightarrow> conns_event" where
  "erase (Ia_key v) = Ia_key []"
| "erase e = e"

definition forget :: "conns \<Rightarrow> conns" where
  "forget s = s\<lparr>c_ia := (c_ia s)\<lparr>iaApiKey := []\<rparr>\<rparr>"

lemma put_ia [simp]: "put_dlg k d (s\<lparr>c_ia := a\<rparr>) = (put_dlg k d s)\<lparr>c_ia := a\<rparr>"
  by (cases k) simp_all

lemma ia_outermost:
  "(s :: conns)\<lparr>c_ia := a, c_gh := g\<rparr> = s\<lparr>c_gh := g, c_ia := a\<rparr>"
  "(s :: conns)\<lparr>c_ia := a, c_conns := c\<rparr> = s\<lparr>c_conns := c, c_ia := a\<rparr>"
  by simp_all

lemma erase_erase [simp]: "erase (erase e) = erase e" "erase e = Ia_test_click \<longleftrightarrow> e = Ia_test_click"
  by (cases e; simp)+

lemma key_step:
  assumes "e \<noteq> Ia_test_click"
  shows "snd (conns_step e s) = snd (conns_step (erase e) (forget s))
    \<and> forget (fst (conns_step e s)) = forget (fst (conns_step (erase e) (forget s)))"
  using assms
  by (cases e)
   (simp_all add: forget_def conns_handlers reset_dlg_def stop_poll_def ia_outermost Let_def blank_ia_def split: outcome.split option.split)

lemma key_trace:
  "Ia_test_click \<notin> set es \<Longrightarrow> forget s = forget t \<Longrightarrow> trace conns_step es s = trace conns_step (map erase es) t"
proof (induction es arbitrary: s t)
  case (Cons e es)
  have e: "snd (conns_step e s) = snd (conns_step (erase e) t)
      \<and> forget (fst (conns_step e s)) = forget (fst (conns_step (erase e) t))"
    using key_step [of e s] key_step [of "erase e" t] Cons.prems by (cases "e = Ia_test_click") simp_all
  then have "trace conns_step es (fst (conns_step e s)) = trace conns_step (map erase es) (fst (conns_step (erase e) t))"
    using Cons.prems by (intro Cons.IH) simp_all
  with e show ?case by (simp add: split_beta)
qed simp

text \<open>
  The verdict of a test is shown in whatever dialog is open when it arrives: tested for one
  provider, closed, and opened for another, the dialog shows the first one's verdict under the empty
  fields of the second.
\<close>

lemma verdict_lands_in_another_dialog:
  "let s' = run (\<lambda>e s. fst (conns_step e s))
       [C_open k p, C_field k F_token v, C_test k, C_close k, C_open k q, C_tested k r] s in
     dg_modal (dlg k s') = Some q \<and> dg_form (dlg k s') = blank_form
     \<and> dg_test (dlg k s') = Some (verdict (ux ''v{e1}lido'') (ux ''inv{e1}lido'') r)"
  by (simp add: Let_def conns_handlers blank_dialog_def)

text \<open>
  On the desktop, a repository chosen and saved with the directory it proposes is cloned by git
  from the address the server gives (or the listed one) into a directory named after the last piece
  of its full name, under apifor in the home directory, with no separator doubled or left in it.
\<close>

lemma desktop_clone_target:
  assumes "isTauri s" "trim ((u ''~/apifor/'') @ leaf x) = (u ''~/apifor/'') @ leaf x" "last (split_on (of_char CHR ''/'') (rr_full x)) \<noteq> []"
  shows "let s1 = run (\<lambda>e s. fst (repos_step (Resolved h) e s)) [R_remote x, R_save] s;
       v = \<lparr>sv_remote = x, sv_prov = repoProv s, sv_dir = (u ''~/apifor/'') @ leaf x\<rparr>;
       s2 = fst (repos_step (Resolved h) (R_saved v (Resolved j)) s1) in
     waits (snd (repos_step (Resolved h) R_save (fst (repos_step (Resolved h) (R_remote x) s)))) = [Post_repo v]
     \<and> waits (snd (repos_step (Resolved h) (R_saved v (Resolved j)) s1)) = [Post_clone_url v]
     \<and> snd (repos_step (Resolved h) (R_clone_url v (Resolved auth)) s2)
        = [Exec (u ''git'') [(u ''clone''), jtext_or (rr_clone x) (jget (u ''url'') auth), strip_slash h @ (u ''/apifor/'') @ leaf x] (Clone v)]
     \<and> of_char CHR ''/'' \<notin> set (leaf x)"
proof -
  have "of_char CHR ''/'' \<notin> set (leaf x)" using assms(3) last_piece_clean by (simp add: leaf_def Let_def)
  moreover have "starts_with ((u ''~/apifor/'') @ leaf x) (u ''~'')" "drop 1 ((u ''~/apifor/'') @ leaf x) = (u ''/apifor/'') @ leaf x"
    by (simp_all add: starts_with_def u_def)
  ultimately show ?thesis
    using assms(1,2)
    by (simp add: Let_def pickRemoteRepo_def saveRepo_def saved_def clone_url_answer_def clone_target_def u_def)
qed

text \<open>
  A worker the server refuses is announced as created: whatever answer with whatever status
  comes back, the dialog closes with the message of success.
\<close>

lemma refused_worker_is_announced:
  "let (b1, out) = api_settle (Answered r) b; (s1, cs) = pool_cfg_step (P_submitted ed out) s in
     \<not> pwOpen s1 \<and> Toast (if ed then (u ''worker atualizado'') else (u ''worker criado'')) Success \<in> set cs"
  by (simp add: Let_def split_beta api_settle_def pw_saved_def)

text \<open>
  The list of repositories of one source is offered under another: when a second source is
  chosen before the first one's list has come, that list is shown for the second, and saving one of
  its entries sends its clone address with the second source as its provider.
\<close>

lemma late_list_is_saved_under_another_source:
  assumes "x \<in> set xs" "lc [] = []"
  shows "let s1 = run (\<lambda>e s. fst (repos_step home e s)) [R_open, R_source a, R_back Source, R_source b, R_listed a (Resolved (Listing xs))] s;
       s2 = run (\<lambda>e s. fst (repos_step home e s)) [R_remote x] s1 in
     repoProv s1 = b \<and> \<not> repoLoading s1 \<and> x \<in> set (remote_hits lc s1)
     \<and> (\<exists>body v. sends (snd (repos_step home R_save s2)) = [(POST, (u ''/v1/repos''), Some body, v)]
          \<and> jget (u ''provider'') body = JStr b \<and> jget (u ''clone_url'') body = JStr (rr_clone x))"
  using assms
  by (simp add: Let_def openRepoModal_def pickRepoSource_def listed_def pickRemoteRepo_def saveRepo_def save_body_def remote_hits_def
      contains_def)

text \<open>
  The connect button of a dialog answers exactly when the dialog is open for a provider it knows,
  shows its fields, is not connecting, and has a non-blank value in every field the provider needs;
  a click then sends one request, for that provider, with what the fields hold.
\<close>

lemma connect_button_guard:
  "S_conns (C_connect k) \<in> set (all_clicks (conn_dialogs lang s)) \<longleftrightarrow>
     (\<exists>p d. d = dlg k (se_conns s) \<and> dialog_shown k (se_conns s) = Some p \<and> \<not> oauth_mode k p (se_conns s)
       \<and> \<not> dg_busy d \<and> list_all (\<lambda>f. trim (form_get f (dg_form d)) \<noteq> []) (needed k p)
       \<and> sends (snd (conns_step (C_connect k) (se_conns s))) = [(POST, dlg_path k, Some (payload k p (dg_form d)), Post_connect k)])"
proof -
  have "sends (snd (conns_step (C_connect k) (se_conns s)))
      = [(POST, dlg_path k, Some (payload k p (dg_form (dlg k (se_conns s)))), Post_connect k)]"
    if "dialog_shown k (se_conns s) = Some p" "\<not> connect_off k p (dlg k (se_conns s))" for p
    using connect_off_guarded [OF that] by (simp add: connect_dlg_def)
  then show ?thesis unfolding connect_clicks by (auto simp: connect_off_needed)
qed

text \<open>
  An authorisation of GitHub started in a dialog that was then closed goes on: its answer starts
  the poll, and the approval closes whatever dialog is open by then and throws away what was typed.
\<close>

lemma late_authorisation_closes_another_dialog:
  assumes "truthy (jget (u ''url'') w)" "jget (u ''status'') j = JStr (u ''authorized'')"
  shows "let s1 = run (\<lambda>e s. fst (conns_step e s))
         [C_open K_git p, Gh_start (u ''code''), C_close K_git, C_open k q, C_field k f v, Gh_oauth_answer (u ''code'') (Resolved w)] s in
     form_get f (dg_form (dlg k s1)) = v \<and> sends (snd (conns_step Gh_tick s1)) \<noteq> []
     \<and> dlg k (fst (conns_step (Gh_status_answer (Resolved j)) s1)) = blank_dialog"
  using assms by (cases k; cases f) (simp_all add: Let_def conns_handlers)

text \<open>
  An answer to the poll that arrives after its dialog was closed puts the next one in a wait that
  nothing ends: the status is pending, the button that starts the authorisation is replaced by the
  spinner, and no poll runs.
\<close>

lemma late_status_waits_without_a_poll:
  assumes "truthy (jget (u ''url'') w)" "jget (u ''status'') j = JStr (u ''pending'')"
  shows "let s1 = run (\<lambda>e s. fst (conns_step e s))
         [C_open k p, Gh_start q, Gh_oauth_answer q (Resolved w), Gh_tick, C_close k, C_open k r, Gh_status_answer (Resolved j)] s in
     gh_waiting s1 \<and> dg_modal (dlg k s1) = Some r \<and> snd (conns_step Gh_tick s1) = []"
  using assms by (cases k) (simp_all add: Let_def conns_handlers gh_waiting_def blank_github_def u_def)

end
