(* ===== verification/Queue.thy ===== *)
theory Queue
  imports Page_Kit
begin

text \<open>
  The queue page, app/queue/page.tsx: the tasks polled from /v1/tasks, the state filter and the
  search, the bucket counts of the state bar, and the paginated table. The parameter \<open>lc\<close> is the
  engine's toLowerCase.
\<close>

record task =
  task_id :: jstr
  task_title :: jstr
  task_status :: jstr
  task_worker :: "jstr option"
  task_repo :: "jstr option"

abbreviation PAGE_SIZE :: nat where "PAGE_SIZE \<equiv> 20"

definition BUCKETS :: "(jstr \<times> jstr \<times> jstr list) list" where
  "BUCKETS = [
     ((u ''Na fila''), (u ''orange''), [(u ''queued''), (u ''planning''), (u ''assigned'')]),
     ((ux ''Em execu{e7}{e3}o''), (u ''blue''), [(u ''running'')]),
     ((ux ''Em revis{e3}o''), (u ''accent''), [(u ''in_review''), (u ''blocked'')]),
     ((ux ''Conclu{ed}das''), (u ''green''), [(u ''merged'')]),
     ((u ''Falhas''), (u ''red''), [(u ''failed'')])]"

definition STATE_FILTERS :: "(jstr \<times> jstr) list" where
  "STATE_FILTERS = [
     ((u ''todos''), (u ''Todos'')), ((u ''andamento''), (u ''Em andamento'')), ((u ''fila''), (u ''Na fila'')), ((u ''encerrado''), (u ''Encerrados''))]"

definition matchState :: "jstr \<Rightarrow> jstr \<Rightarrow> bool" where
  "matchState f s =
     (if f = (u ''todos'') then True
      else if f = (u ''andamento'') then s \<in> set [(u ''running''), (u ''in_review''), (u ''blocked'')]
      else if f = (u ''fila'') then s \<in> set [(u ''queued''), (u ''planning''), (u ''assigned'')]
      else if f = (u ''encerrado'') then s \<in> set [(u ''merged''), (u ''failed'')]
      else True)"

record queue =
  q_tasks :: "task list pdata"
  q_loading :: bool
  q_q :: jstr
  q_state :: jstr
  q_source :: jstr
  q_provider :: jstr
  q_page :: nat

datatype queue_event =
    Q_mount
  | Q_tasks "task list pdata outcome"
  | Q_search jstr
  | Q_pick jstr
  | Q_pick_source jstr
  | Q_pick_provider jstr
  | Q_prev
  | Q_next

definition queue_start :: queue where
  "queue_start = \<lparr>q_tasks = Nul, q_loading = True, q_q = [], q_state = (u ''todos''), q_source = (u ''todas''),
     q_provider = (u ''todos''), q_page = 0\<rparr>"

definition queue_all :: "queue \<Rightarrow> task list" where
  "queue_all s = or_empty (q_tasks s)"

definition queue_counts :: "queue \<Rightarrow> bucket list" where
  "queue_counts s =
     map (\<lambda>(label, tone, st). \<lparr>b_label = label, b_n = length (filter (\<lambda>t. task_status t \<in> set st) (queue_all s)), b_tone = tone\<rparr>)
       BUCKETS"

definition queue_filtered :: "(jstr \<Rightarrow> jstr) \<Rightarrow> queue \<Rightarrow> task list" where
  "queue_filtered lc s =
     filter (\<lambda>t. matchState (q_state s) (task_status t)
               \<and> search_hit lc (q_q s) (task_title t @ task_id t @ or_blank (task_repo t))) (queue_all s)"

definition queue_rows :: "(jstr \<Rightarrow> jstr) \<Rightarrow> queue \<Rightarrow> task list" where
  "queue_rows lc s = page_rows PAGE_SIZE (queue_filtered lc s) (q_page s)"

fun queue_step :: "(jstr \<Rightarrow> jstr) \<Rightarrow> queue_event \<Rightarrow> queue \<Rightarrow> queue" where
  "queue_step lc Q_mount s = s\<lparr>q_loading := loading_effect (q_tasks s) (q_loading s)\<rparr>"
| "queue_step lc (Q_tasks r) s =
     (let d = poll_accept r (q_tasks s) in s\<lparr>q_tasks := d, q_loading := loading_effect d (q_loading s)\<rparr>)"
| "queue_step lc (Q_search v) s = s\<lparr>q_q := v, q_page := 0\<rparr>"
| "queue_step lc (Q_pick v) s = s\<lparr>q_state := v, q_page := 0\<rparr>"
| "queue_step lc (Q_pick_source v) s = s\<lparr>q_source := v\<rparr>"
| "queue_step lc (Q_pick_provider v) s = s\<lparr>q_provider := v\<rparr>"
| "queue_step lc Q_prev s = s\<lparr>q_page := prev_page (q_page s)\<rparr>"
| "queue_step lc Q_next s = s\<lparr>q_page := next_page PAGE_SIZE (queue_filtered lc s) (q_page s)\<rparr>"

definition queue_row :: "task \<Rightarrow> queue_event node" where
  "queue_row t =
     trow (task_id t) [td [spt (tail8 (task_id t))], td [Txt (task_title t)], td [spt (cut_or_dash 24 (task_repo t))],
       td [El ''span'' (badge (task_status t)) [Txt (task_status t)]]]"

definition queue_view :: "(jstr \<Rightarrow> jstr) \<Rightarrow> jstr \<Rightarrow> queue \<Rightarrow> queue_event node list" where
  "queue_view lc lang s =
     (let filtered = queue_filtered lc s; tot = total_pages PAGE_SIZE filtered;
          safe = safe_page PAGE_SIZE filtered (q_page s); rows = queue_rows lc s in
      [pageHead lang (Some (ux ''Opera{e7}{e3}o'')) (u ''Fila'') (Some (u ''Estados das tarefas e reprocessamento.'')) [],
       stateBar lang (u ''Estado das tarefas'') (queue_counts s),
       dv [dv [dv [svg, inp (q_q s) Q_search (ux ''Buscar tarefa{2026}'')],
               pills lang STATE_FILTERS (q_state s) Q_pick,
               sel_el (q_source s) Q_pick_source
                 [optv (u ''todas'') (u ''Fonte: todas''), opt (u ''Jira''), opt (u ''Linear''), opt (u ''GitHub Issues''), opt (u ''Trello'')],
               sel_el (q_provider s) Q_pick_provider
                 [optv (u ''todos'') (ux ''C{f3}digo: todos''), opt (u ''GitHub''), opt (u ''GitLab''), opt (u ''Bitbucket'')]],
           El ''table'' []
             [El ''thead'' [] [El ''tr'' [] [thx (u ''Tarefa''), thx (ux ''T{ed}tulo''), thx (ux ''Reposit{f3}rio''), thx (u ''Estado'')]],
              El ''tbody'' []
                (map queue_row rows @ shown (rows = []) [El ''tr'' [] [td [Txt (u ''nenhuma tarefa'')]]])],
           dv ([sp [Txt (nshow (length filtered)), Txt (u '' tarefas'')]] @ pager tot safe Q_prev Q_next)]])"

subsection \<open>Facts\<close>

lemmas status_defs = matchState_def BUCKETS_def u_def

interpretation queue_pages: paged PAGE_SIZE "queue_filtered lc" q_page "\<lambda>p s. s\<lparr>q_page := p\<rparr>" for lc
  by unfold_locales (simp_all add: queue_filtered_def queue_all_def)

lemma queue_rows_eq: "queue_rows lc s = queue_pages.rows lc s"
  by (simp add: queue_rows_def queue_pages.rows_def)

lemma queue_press:
  "queue_step lc Q_next s = queue_pages.press_next lc s" "queue_step lc Q_prev s = queue_pages.press_prev s"
  by (simp_all add: queue_pages.press_next_def queue_pages.press_prev_def)

lemma queue_step_run_next: "run (queue_step lc) (replicate k Q_next) s = (queue_pages.press_next lc ^^ k) s"
  by (induction k arbitrary: s) (simp_all add: queue_press funpow_swap1 del: queue_step.simps)

lemma clicks_queue_row [simp]: "clicks (queue_row t) = []"
  by (simp add: queue_row_def badge_def Let_def split: prod.split)

definition queue_defined :: "queue \<Rightarrow> bool" where
  "queue_defined s = (q_tasks s \<noteq> Undef)"

interpretation queue_machine: stepper queue_start "queue_step lc" queue_defined for lc
proof
  show "queue_defined queue_start" by (simp add: queue_defined_def queue_start_def)
  show "queue_defined (queue_step lc e s)" if "queue_defined s" for e s
    using that by (cases e) (simp_all add: queue_defined_def Let_def poll_accept_defined)
qed

text \<open>
  The queue page leaves its loading state on mount, before any answer, because the poll's
  initial value is null and the effect tests for undefined: it then announces an empty queue.
\<close>

lemma queue_announces_empty_before_any_answer:
  "let s = queue_step lc Q_mount queue_start in
     q_tasks s = Nul \<and> \<not> q_loading s
     \<and> (u ''nenhuma tarefa'') \<in> set (all_texts (page_view \<lparr>authed = Some True\<rparr> (q_loading s) (queue_view lc lang s)))"
  by (simp add: Let_def queue_start_def loading_effect_def page_view_def queue_view_def queue_filtered_def
      queue_all_def queue_rows_def page_rows_def)

text \<open>
  When the list has shrunk below the page the user was on, the previous button is enabled but
  a press leaves the shown rows as they are.
\<close>

lemma queue_stale_page_prev_is_inert:
  assumes "total_pages PAGE_SIZE (queue_filtered lc s) \<le> q_page s" "1 < total_pages PAGE_SIZE (queue_filtered lc s)"
  shows "Q_prev \<in> set (all_clicks (queue_view lc lang s)) \<and> queue_rows lc (queue_step lc Q_prev s) = queue_rows lc s"
  using queue_pages.stale_prev_is_inert [of lc s] assms
  by (simp add: queue_rows_eq queue_press queue_view_def Let_def safe_page_def del: queue_step.simps)

text \<open>
  The arrows answer a click exactly when there is a page on their side of the one shown, and
  the other clickable elements are the four filters.
\<close>

lemma queue_arrows_enabled:
  "all_clicks (queue_view lc lang s) =
     map Q_pick [(u ''todos''), (u ''andamento''), (u ''fila''), (u ''encerrado'')]
     @ (if safe_page PAGE_SIZE (queue_filtered lc s) (q_page s) > 0 then [Q_prev] else [])
     @ (if safe_page PAGE_SIZE (queue_filtered lc s) (q_page s) + 1 < total_pages PAGE_SIZE (queue_filtered lc s) then [Q_next] else [])"
proof -
  let ?s = "safe_page PAGE_SIZE (queue_filtered lc s) (q_page s)"
  have "?s < total_pages PAGE_SIZE (queue_filtered lc s)" by (rule safe_page_less)
  then show ?thesis
    by (auto simp: queue_view_def Let_def STATE_FILTERS_def all_clicks_map_Nil)
qed

end
