(* ===== verification/Tasks.thy ===== *)
theory Tasks
  imports Queue
begin

text \<open>
  The task page, app/tasks/page.tsx: the list of the queue page without its bucket bar, and the
  dialog that creates a task. The functions matchState, STATE_FILTERS and the row filter are the
  same text as those of app/queue/page.tsx and are shared with the theory Queue. The submission is
  asynchronous: its answer comes back as \<open>T_created\<close>; apiPost resolves also when the server
  refuses the task.
\<close>

record repo_opt =
  r_id :: jstr
  r_name :: jstr

record tasks =
  tk_tasks :: "task list pdata"
  tk_repos :: "repo_opt list pdata"
  tk_loading :: bool
  tk_q :: jstr
  tk_state :: jstr
  tk_source :: jstr
  tk_page :: nat
  newOpen :: bool
  new_title :: jstr
  new_prompt :: jstr
  new_refs :: jstr
  new_repo :: jstr
  creating :: bool

datatype tasks_tag = Post_task | Get_tasks

datatype tasks_event =
    T_mount
  | T_tasks "task list pdata outcome"
  | T_repos "repo_opt list pdata outcome"
  | T_search jstr
  | T_pick jstr
  | T_pick_source jstr
  | T_prev
  | T_next
  | T_open
  | T_close
  | T_title jstr
  | T_prompt jstr
  | T_refs jstr
  | T_repo jstr
  | T_create
  | T_created "json outcome"

definition tasks_start :: tasks where
  "tasks_start = \<lparr>tk_tasks = Nul, tk_repos = Nul, tk_loading = True, tk_q = [], tk_state = (u ''todos''),
     tk_source = (u ''todas''), tk_page = 0, newOpen = False, new_title = [], new_prompt = [], new_refs = [],
     new_repo = [], creating = False\<rparr>"

text \<open>\<open>refs.split(",").map(trim).filter(Boolean)\<close>.\<close>

definition parse_refs :: "jstr \<Rightarrow> jstr list" where
  "parse_refs s = filter (\<lambda>r. r \<noteq> []) (map trim (split_on (of_char CHR '','') s))"

definition create_body :: "tasks \<Rightarrow> json" where
  "create_body s =
     JObj ([((u ''title''), JStr (new_title s)), ((u ''prompt''), JStr (new_prompt s)),
            ((u ''refs''), JArr (map JStr (parse_refs (new_refs s))))]
           @ (if new_repo s = [] then [] else [((u ''repo_id''), JStr (new_repo s))]))"

definition create_task :: "tasks \<Rightarrow> tasks \<times> tasks_tag cmd list" where
  "create_task s =
     (if trim (new_title s) = [] then (s, [])
      else (s\<lparr>creating := True\<rparr>, [Send POST (u ''/v1/tasks'') (Some (create_body s)) Post_task]))"

definition created :: "json outcome \<Rightarrow> tasks \<Rightarrow> tasks \<times> tasks_tag cmd list" where
  "created r s =
     (case r of
        Resolved _ \<Rightarrow>
          (s\<lparr>newOpen := False, new_title := [], new_prompt := [], new_refs := [], new_repo := [],
             creating := False\<rparr>, [Send GET (u ''/v1/tasks'') None Get_tasks])
      | Rejected _ \<Rightarrow> (s\<lparr>creating := False\<rparr>, []))"

definition tasks_filtered :: "(jstr \<Rightarrow> jstr) \<Rightarrow> tasks \<Rightarrow> task list" where
  "tasks_filtered lc s =
     filter (\<lambda>t. matchState (tk_state s) (task_status t)
               \<and> search_hit lc (tk_q s) (task_title t @ task_id t @ or_blank (task_repo t))) (or_empty (tk_tasks s))"

fun tasks_step :: "(jstr \<Rightarrow> jstr) \<Rightarrow> tasks_event \<Rightarrow> tasks \<Rightarrow> tasks \<times> tasks_tag cmd list" where
  "tasks_step lc T_mount s = (s\<lparr>tk_loading := loading_effect (tk_tasks s) (tk_loading s)\<rparr>, [])"
| "tasks_step lc (T_tasks r) s =
     (let d = poll_accept r (tk_tasks s) in
      (s\<lparr>tk_tasks := d, tk_loading := loading_effect d (tk_loading s)\<rparr>, []))"
| "tasks_step lc (T_repos r) s = (s\<lparr>tk_repos := poll_accept r (tk_repos s)\<rparr>, [])"
| "tasks_step lc (T_search v) s = (s\<lparr>tk_q := v, tk_page := 0\<rparr>, [])"
| "tasks_step lc (T_pick v) s = (s\<lparr>tk_state := v, tk_page := 0\<rparr>, [])"
| "tasks_step lc (T_pick_source v) s = (s\<lparr>tk_source := v\<rparr>, [])"
| "tasks_step lc T_prev s = (s\<lparr>tk_page := prev_page (tk_page s)\<rparr>, [])"
| "tasks_step lc T_next s = (s\<lparr>tk_page := next_page PAGE_SIZE (tasks_filtered lc s) (tk_page s)\<rparr>, [])"
| "tasks_step lc T_open s = (s\<lparr>newOpen := True\<rparr>, [])"
| "tasks_step lc T_close s = (s\<lparr>newOpen := False\<rparr>, [])"
| "tasks_step lc (T_title v) s = (s\<lparr>new_title := v\<rparr>, [])"
| "tasks_step lc (T_prompt v) s = (s\<lparr>new_prompt := v\<rparr>, [])"
| "tasks_step lc (T_refs v) s = (s\<lparr>new_refs := v\<rparr>, [])"
| "tasks_step lc (T_repo v) s = (s\<lparr>new_repo := v\<rparr>, [])"
| "tasks_step lc T_create s = create_task s"
| "tasks_step lc (T_created r) s = created r s"

definition task_dialog :: "jstr \<Rightarrow> tasks \<Rightarrow> tasks_event node" where
  "task_dialog lang s =
     modal lang (u ''Nova tarefa'') T_close
       [dv [El ''label'' [] [spt (ux ''T{ed}tulo''), inp (new_title s) T_title (u ''Ex.: Adicionar endpoint /health'')],
            El ''label'' [] [sp [Txt (u ''Prompt ''), spt (ux ''(instru{e7}{e3}o detalhada)'')],
              El ''textarea'' [Value (new_prompt s), OnInput T_prompt, Placeholder (ux ''Descreva o que o worker deve fazer{2026}'')] []],
            El ''label'' [] [sp [Txt (u ''Refs ''), spt (ux ''(arquivos de contexto, separados por v{ed}rgula)'')],
              inp (new_refs s) T_refs (u ''README.md, main.go'')],
            El ''label'' [] [spt (ux ''Reposit{f3}rio''),
              sel_el (new_repo s) T_repo
                (optv [] (ux ''(sem repo {2014} s{f3} planeja)'')
                 # map (\<lambda>r. El ''option'' [Key (r_id r), Value (r_id r)] [Txt (r_name r)]) (or_empty (tk_repos s)))],
            El ''p'' [] [Txt (ux ''Com repo: planeja {2192} clona {2192} coda {2192} push {2192} PR. Sem repo: s{f3} o plano.'')]]]
       (Some [btn T_close [Txt (u ''Cancelar'')],
              El ''button'' [OnClick T_create, Disabled (creating s)]
                [Txt (if creating s then (ux ''Criando{2026}'') else (ux ''Criar {2192} planejar''))]])"

definition task_row :: "task \<Rightarrow> tasks_event node" where
  "task_row t =
     El ''div'' [Key (task_id t)] [spt (tail8 (task_id t)), spt (task_title t), spt (cut_or_dash 28 (task_repo t)),
       El ''span'' (badge (task_status t)) [Txt (task_status t)]]"

definition tasks_view :: "(jstr \<Rightarrow> jstr) \<Rightarrow> jstr \<Rightarrow> tasks \<Rightarrow> tasks_event node list" where
  "tasks_view lc lang s =
     (let filtered = tasks_filtered lc s; tot = total_pages PAGE_SIZE filtered;
          safe = safe_page PAGE_SIZE filtered (tk_page s); rows = page_rows PAGE_SIZE filtered (tk_page s) in
      [pageHead lang (Some (ux ''Opera{e7}{e3}o'')) (u ''Tarefas'') (Some (u ''Crie e acompanhe as tarefas dos workers.''))
         [btn T_open [svg, Txt (u ''Nova tarefa'')]]]
      @ shown (newOpen s) [task_dialog lang s]
      @ [dv ([dv [dv [svg, inp (tk_q s) T_search (ux ''Buscar tarefa{2026}'')],
                  pills lang STATE_FILTERS (tk_state s) T_pick,
                  sel_el (tk_source s) T_pick_source
                    [optv (u ''todas'') (u ''Todas as fontes''), opt (u ''Jira''), opt (u ''Linear''), opt (u ''GitHub Issues''), opt (u ''Trello'')]],
              dv [spt (u ''Tarefa''), spt (ux ''T{ed}tulo''), spt (ux ''Reposit{f3}rio''), spt (u ''Estado'')]]
             @ map task_row rows
             @ shown (rows = []) [dvt (u ''nenhuma tarefa'')]
             @ [dv ([sp [Txt (nshow (length filtered)), Txt (u '' tarefas'')]] @ pager tot safe T_prev T_next)])])"

subsection \<open>Facts\<close>

interpretation tasks_pages: paged PAGE_SIZE "tasks_filtered lc" tk_page "\<lambda>p s. s\<lparr>tk_page := p\<rparr>" for lc
  by unfold_locales (simp_all add: tasks_filtered_def)

lemma parse_refs_clean:
  assumes "r \<in> set (parse_refs s)"
  shows "r \<noteq> []" "trim r = r" "of_char CHR '','' \<notin> set r"
  using assms split_on_pieces [of _ "of_char CHR '',''" s] set_trim
  by (auto simp add: parse_refs_def)

definition tasks_idle :: "tasks \<Rightarrow> bool" where
  "tasks_idle s = (tk_tasks s \<noteq> Undef \<and> tk_repos s \<noteq> Undef)"

interpretation tasks_machine: stepper tasks_start "\<lambda>e s. fst (tasks_step lc e s)" tasks_idle for lc
proof
  show "tasks_idle tasks_start" by (simp add: tasks_idle_def tasks_start_def)
  show "tasks_idle (fst (tasks_step lc e s))" if "tasks_idle s" for e s
    using that
    by (cases e) (simp_all add: tasks_idle_def Let_def poll_accept_defined create_task_def created_def split: outcome.split)
qed

text \<open>
  Whatever the server answers to the new task, a refusal included, the dialog closes and the
  text typed in is lost; only a network error keeps it.
\<close>

lemma refused_task_loses_the_form:
  "let s1 = fst (tasks_step lc (T_created (snd (api_settle (Answered r) b))) s);
       s2 = fst (tasks_step lc (T_created (snd (api_settle (Network_error m) b))) s) in
   \<not> newOpen s1 \<and> new_title s1 = [] \<and> new_prompt s1 = [] \<and> new_refs s1 = [] \<and> \<not> creating s1
   \<and> newOpen s2 = newOpen s \<and> new_title s2 = new_title s \<and> \<not> creating s2"
  by (simp add: Let_def created_def api_settle_def split_beta)

text \<open>
  The new-task dialog sends nothing for a blank title; otherwise it sends one request whose
  context files are the non-empty trimmed pieces of the comma-separated text and whose repository
  is left out when none is chosen.
\<close>

lemma create_task_request:
  "(if trim (new_title s) = [] then tasks_step lc T_create s = (s, [])
    else \<exists>body. sends (snd (tasks_step lc T_create s)) = [(POST, (u ''/v1/tasks''), Some body, Post_task)]
      \<and> creating (fst (tasks_step lc T_create s))
      \<and> jget (u ''title'') body = JStr (new_title s)
      \<and> jget (u ''refs'') body = JArr (map JStr (parse_refs (new_refs s)))
      \<and> jget (u ''repo_id'') body = (if new_repo s = [] then JUndef else JStr (new_repo s)))
   \<and> (\<forall>r. r \<in> set (parse_refs (new_refs s)) \<longleftrightarrow>
          r \<noteq> [] \<and> r \<in> trim ` set (split_on (of_char CHR '','') (new_refs s)))"
  by (auto simp: create_task_def create_body_def parse_refs_def)

end
