(* ===== verification/Prs.thy ===== *)
theory Prs
  imports Page_Kit
begin

text \<open>
  The pull-request page, app/prs/page.tsx: tabs, search, the review pill, ages, and the table.
  \<open>date_ms\<close> is the engine's date parser in milliseconds (\<open>None\<close> for an invalid date), \<open>now\<close> the
  current instant, \<open>lc\<close> toLowerCase.
\<close>

record pr =
  pr_id :: jstr
  pr_task :: jstr
  pr_repo :: jstr
  pr_branch :: jstr
  pr_url :: "jstr option"
  pr_status :: jstr
  pr_ci :: jstr
  pr_ai :: jstr
  pr_human :: jstr
  pr_created :: jstr

definition PR_PAGE_SIZE :: nat where "PR_PAGE_SIZE = 20"

definition TABS :: "(jstr \<times> jstr) list" where
  "TABS = [((u ''todos''), (u ''Todos'')), ((u ''revisao''), (ux ''Em revis{e3}o'')), ((u ''ci''), (u ''CI falhou''))]"

definition matchTab :: "jstr \<Rightarrow> pr \<Rightarrow> bool" where
  "matchTab tab p =
     (if tab = (u ''todos'') then True
      else if tab = (u ''revisao'') then pr_status p \<noteq> (u ''merged'') \<and> pr_status p \<noteq> (u ''failed'')
      else if tab = (u ''ci'') then pr_ci p = (u ''failed'')
      else True)"

definition ciColor :: "jstr \<Rightarrow> jstr" where
  "ciColor s =
     (if s = (u ''passed'') then (u ''var(--green)'')
      else if s = (u ''failed'') then (u ''var(--red)'')
      else if s = (u ''running'') then (u ''var(--blue)'')
      else (u ''var(--mute)''))"

record pill =
  pl_bg :: jstr
  pl_color :: jstr
  pl_label :: jstr

definition reviewPill :: "jstr \<Rightarrow> jstr \<Rightarrow> pill" where
  "reviewPill ai human =
     (let s = (if human \<noteq> [] then human else ai) in
      if s = (u ''approved'') then \<lparr>pl_bg = (u ''var(--green-tint)''), pl_color = (u ''var(--green)''), pl_label = (u ''aprovado'')\<rparr>
      else if s = (u ''changes'') then \<lparr>pl_bg = (u ''var(--red-tint)''), pl_color = (u ''var(--red)''), pl_label = (ux ''mudan{e7}as'')\<rparr>
      else if s = (u ''pending'') then \<lparr>pl_bg = (u ''var(--orange-tint)''), pl_color = (u ''var(--orange)''), pl_label = (u ''pendente'')\<rparr>
      else \<lparr>pl_bg = (u ''var(--border)''), pl_color = (u ''var(--mute)''), pl_label = (if s \<noteq> [] then s else (ux ''{2014}''))\<rparr>)"

definition age :: "(jstr \<Rightarrow> int option) \<Rightarrow> int \<Rightarrow> jstr \<Rightarrow> jstr" where
  "age date_ms now i = (if i = [] then (ux ''{2014}'') else elapsed now (date_ms i))"

record prs =
  pg_prs :: "pr list pdata"
  pg_loading :: bool
  pg_q :: jstr
  pg_tab :: jstr
  pg_source :: jstr
  pg_page :: nat

datatype prs_event =
    P_mount
  | P_prs "pr list pdata outcome"
  | P_search jstr
  | P_pick_source jstr
  | P_pick_tab jstr
  | P_prev
  | P_next

definition prs_start :: prs where
  "prs_start = \<lparr>pg_prs = Nul, pg_loading = True, pg_q = [], pg_tab = (u ''todos''), pg_source = (u ''todas''), pg_page = 0\<rparr>"

definition prs_filtered :: "(jstr \<Rightarrow> jstr) \<Rightarrow> prs \<Rightarrow> pr list" where
  "prs_filtered lc s =
     filter (\<lambda>p. search_hit lc (pg_q s) (pr_branch p @ pr_task p @ pr_repo p))
       (filter (matchTab (pg_tab s)) (or_empty (pg_prs s)))"

fun prs_step :: "(jstr \<Rightarrow> jstr) \<Rightarrow> prs_event \<Rightarrow> prs \<Rightarrow> prs" where
  "prs_step lc P_mount s = s\<lparr>pg_loading := loading_effect (pg_prs s) (pg_loading s)\<rparr>"
| "prs_step lc (P_prs r) s =
     (let d = poll_accept r (pg_prs s) in s\<lparr>pg_prs := d, pg_loading := loading_effect d (pg_loading s)\<rparr>)"
| "prs_step lc (P_search v) s = s\<lparr>pg_q := v, pg_page := 0\<rparr>"
| "prs_step lc (P_pick_source v) s = s\<lparr>pg_source := v\<rparr>"
| "prs_step lc (P_pick_tab v) s = s\<lparr>pg_tab := v, pg_page := 0\<rparr>"
| "prs_step lc P_prev s = s\<lparr>pg_page := prev_page (pg_page s)\<rparr>"
| "prs_step lc P_next s = s\<lparr>pg_page := next_page PR_PAGE_SIZE (prs_filtered lc s) (pg_page s)\<rparr>"

definition pr_row :: "(jstr \<Rightarrow> int option) \<Rightarrow> int \<Rightarrow> pr \<Rightarrow> prs_event node" where
  "pr_row date_ms now p =
     (let rev = reviewPill (pr_ai p) (pr_human p); ciC = ciColor (pr_ci p) in
      El ''div'' [Key (pr_id p)]
        [dv [dv [spt (short (replace_prefix (u ''pr_'') [] (pr_id p)) 6),
                 spt (if pr_branch p \<noteq> [] then pr_branch p else pr_task p)],
             dv (shown (pr_repo p \<noteq> []) [spt (short (pr_repo p) 20)]
                 @ shown (pr_repo p \<noteq> [] \<and> pr_task p \<noteq> []) [spt (ux ''{b7}'')]
                 @ shown (pr_task p \<noteq> []) [spt (short (replace_prefix (u ''tsk_'') (u ''#'') (pr_task p)) 10)])],
         dv [El ''span'' [Sty ''color'' ciC]
               [El ''span'' (Sty ''background'' ciC
                  # (if pr_ci p = (u ''running'') then [Sty ''animation'' (u ''livedot 1s ease-in-out infinite'')] else [])) [],
                Txt (u ''CI'')],
             El ''span'' [Sty ''background'' (pl_bg rev), Sty ''color'' (pl_color rev)] [Txt (pl_label rev)]],
         dv [El ''span'' (badge (pr_status p)) [Txt (pr_status p)]],
         dv (spt (age date_ms now (pr_created p))
             # shown (starts_with (or_blank (pr_url p)) (u ''http'')) [El ''a'' [Href (or_blank (pr_url p))] [svg]])])"

definition prs_view :: "(jstr \<Rightarrow> jstr) \<Rightarrow> (jstr \<Rightarrow> int option) \<Rightarrow> int \<Rightarrow> jstr \<Rightarrow> prs \<Rightarrow> prs_event node list" where
  "prs_view lc date_ms now lang s =
     (let filtered = prs_filtered lc s; tot = total_pages PR_PAGE_SIZE filtered;
          safe = safe_page PR_PAGE_SIZE filtered (pg_page s); rows = page_rows PR_PAGE_SIZE filtered (pg_page s) in
      [pageHead lang (Some (ux ''Opera{e7}{e3}o'')) (u ''Pull Requests'')
         (Some (ux ''Status de revis{e3}o e CI, com links para o Bitbucket / GitHub.'')) [],
       dv ([dv [dv [dv [svg, inp (pg_q s) P_search (ux ''Buscar PR{2026}'')],
                    sel_el (pg_source s) P_pick_source
                      [optv (u ''todas'') (u ''Todas as fontes''), opt (u ''Jira''), opt (u ''Linear''), opt (u ''GitHub Issues''), opt (u ''Trello'')]],
                pills lang TABS (pg_tab s) P_pick_tab],
            dv [spt (u ''Pull request''), spt (ux ''Revis{e3}o''), spt (u ''Estado''), spt (u ''Idade'')]]
           @ map (pr_row date_ms now) rows
           @ shown (rows = []) [dv [svg, spt (ux ''Nenhum PR neste filtro {2014} tudo fluindo.'')]]
           @ [dv ([sp [Txt (nshow (length filtered)), Txt (u '' pull requests'')]] @ pager tot safe P_prev P_next)])])"

subsection \<open>Facts\<close>

interpretation prs_pages: paged PR_PAGE_SIZE "prs_filtered lc" pg_page "\<lambda>p s. s\<lparr>pg_page := p\<rparr>" for lc
  by unfold_locales (simp_all add: prs_filtered_def PR_PAGE_SIZE_def)

lemma reviewPill_human: "human \<noteq> [] \<Longrightarrow> reviewPill ai human = reviewPill human []"
  by (simp add: reviewPill_def)

lemma reviewPill_label: "pl_label (reviewPill ai human) \<noteq> []"
  by (simp add: reviewPill_def Let_def ux_def u_def)

definition prs_defined :: "prs \<Rightarrow> bool" where
  "prs_defined s = (pg_prs s \<noteq> Undef)"

interpretation prs_machine: stepper prs_start "prs_step lc" prs_defined for lc
proof
  show "prs_defined prs_start" by (simp add: prs_defined_def prs_start_def)
  show "prs_defined (prs_step lc e s)" if "prs_defined s" for e s
    using that by (cases e) (simp_all add: prs_defined_def Let_def poll_accept_defined)
qed

end
