(* ===== verification/Interventions.thy ===== *)
theory Interventions
  imports Queue
begin

text \<open>
  The intervention page, app/interventions/page.tsx: the merged list of human decisions and blocked
  tasks, the pool switch, the answers to a decision, and the paginated view. The pool is JNull
  before its first answer. An answer event carries no closure beyond its tag: loadPool and
  reloadInts read nothing of the state they were created in.
\<close>

record intervention =
  iv_task :: jstr
  iv_title :: jstr
  iv_branch :: jstr
  iv_ci :: jstr
  iv_ai :: jstr
  iv_created :: jstr

definition FILTERS :: "(jstr \<times> jstr) list" where
  "FILTERS = [((u ''todos''), (u ''Todos'')), ((u ''decisao''), (ux ''Decis{f5}es'')), ((u ''bloqueada''), (u ''Bloqueadas''))]"

definition int_age :: "(jstr \<Rightarrow> int option) \<Rightarrow> int \<Rightarrow> jstr \<Rightarrow> jstr" where
  "int_age date_ms now i = (if i = [] then [] else elapsed now (date_ms i))"

datatype kind = Decisao | Bloqueada

fun kind_text :: "kind \<Rightarrow> jstr" where
  "kind_text Decisao = (u ''decisao'')"
| "kind_text Bloqueada = (u ''bloqueada'')"

record item =
  it_id :: jstr
  it_kind :: kind
  it_title :: jstr
  it_repo :: jstr
  it_agent :: jstr
  it_age :: jstr
  it_reason :: jstr

record interventions =
  i_ints :: "intervention list pdata"
  i_tasks :: "task list pdata"
  i_workers :: "jstr list pdata"
  i_loading :: bool
  i_pool :: json
  toggling :: bool
  i_q :: jstr
  i_filter :: jstr
  i_page :: nat

datatype interventions_tag = Get_pool | Post_pool | Post_answer | Get_ints

datatype interventions_event =
    I_mount
  | I_pool_tick
  | I_ints "intervention list pdata outcome"
  | I_tasks "task list pdata outcome"
  | I_workers "jstr list pdata outcome"
  | I_pool "json outcome"
  | I_toggle
  | I_toggled "json outcome"
  | I_answer jstr jstr
  | I_answered "json outcome"
  | I_search jstr
  | I_pick jstr
  | I_prev
  | I_next

definition interventions_start :: interventions where
  "interventions_start = \<lparr>i_ints = Nul, i_tasks = Nul, i_workers = Nul, i_loading = True, i_pool = JNull,
     toggling = False, i_q = [], i_filter = (u ''todos''), i_page = 0\<rparr>"

definition loadPool :: "interventions_tag cmd list" where
  "loadPool = [Send GET (u ''/v1/pool'') None Get_pool]"

definition togglePool :: "interventions \<Rightarrow> interventions \<times> interventions_tag cmd list" where
  "togglePool s =
     (if \<not> truthy (i_pool s) then (s, [])
      else (s\<lparr>toggling := True\<rparr>,
            [Send POST (u ''/v1/pool'')
               (Some (spread_set (u ''paused'') (JBool (\<not> truthy (jget (u ''paused'') (i_pool s)))) (i_pool s))) Post_pool]))"

definition answer_int :: "jstr \<Rightarrow> jstr \<Rightarrow> interventions_tag cmd list" where
  "answer_int taskId decision =
     [Send POST ((u ''/v1/interventions/'') @ taskId @ (u ''/answer'')) (Some (JObj [((u ''decision''), JStr decision)])) Post_answer]"

definition decisions :: "(jstr \<Rightarrow> int option) \<Rightarrow> int \<Rightarrow> interventions \<Rightarrow> item list" where
  "decisions date_ms now s =
     map (\<lambda>i. \<lparr>it_id = iv_task i, it_kind = Decisao, it_title = iv_title i, it_repo = short (iv_branch i) 20,
              it_agent = short (replace_prefix (u ''tsk_'') (u ''#'') (iv_task i)) 8,
              it_age = int_age date_ms now (iv_created i),
              it_reason = (u ''CI: '') @ (if iv_ci i \<noteq> [] then iv_ci i else (ux ''{2014}'')) @ (ux '' {b7} IA: '')
                @ (if iv_ai i \<noteq> [] then iv_ai i else (ux ''{2014}'')) @ (ux '' {2014} aguardando aprova{e7}{e3}o humana antes do merge.'')\<rparr>)
       (or_empty (i_ints s))"

definition blocked_items :: "interventions \<Rightarrow> item list" where
  "blocked_items s =
     map (\<lambda>t. \<lparr>it_id = task_id t, it_kind = Bloqueada, it_title = task_title t,
              it_repo = short (or_blank (task_repo t)) 20,
              it_agent = short (replace_prefix (u ''tsk_'') (u ''#'') (task_id t)) 8, it_age = [],
              it_reason = (ux ''Tarefa com status {22}'') @ task_status t @ (ux ''{22} {2014} acione o agente de corre{e7}{e3}o ou reprocesse.'')\<rparr>)
       (filter (\<lambda>t. (task_status t = (u ''blocked'') \<or> task_status t = (u ''failed''))
                    \<and> task_id t \<notin> set (map iv_task (or_empty (i_ints s)))) (or_empty (i_tasks s)))"

definition allItems :: "(jstr \<Rightarrow> int option) \<Rightarrow> int \<Rightarrow> interventions \<Rightarrow> item list" where
  "allItems date_ms now s = decisions date_ms now s @ blocked_items s"

definition ints_filtered ::
  "(jstr \<Rightarrow> jstr) \<Rightarrow> (jstr \<Rightarrow> int option) \<Rightarrow> int \<Rightarrow> interventions \<Rightarrow> item list" where
  "ints_filtered lc date_ms now s =
     filter (\<lambda>i. search_hit lc (i_q s) (it_title i @ it_id i @ it_repo i))
       (filter (\<lambda>i. i_filter s = (u ''todos'') \<or> kind_text (it_kind i) = i_filter s) (allItems date_ms now s))"

fun interventions_step ::
  "(jstr \<Rightarrow> jstr) \<Rightarrow> (jstr \<Rightarrow> int option) \<Rightarrow> int \<Rightarrow> interventions_event \<Rightarrow> interventions
   \<Rightarrow> interventions \<times> interventions_tag cmd list" where
  "interventions_step lc dm now I_mount s =
     (s\<lparr>i_loading := loading_effect (i_ints s) (i_loading s)\<rparr>, loadPool)"
| "interventions_step lc dm now I_pool_tick s = (s, loadPool)"
| "interventions_step lc dm now (I_ints r) s =
     (let d = poll_accept r (i_ints s) in
      (s\<lparr>i_ints := d, i_loading := loading_effect d (i_loading s)\<rparr>, []))"
| "interventions_step lc dm now (I_tasks r) s = (s\<lparr>i_tasks := poll_accept r (i_tasks s)\<rparr>, [])"
| "interventions_step lc dm now (I_workers r) s = (s\<lparr>i_workers := poll_accept r (i_workers s)\<rparr>, [])"
| "interventions_step lc dm now (I_pool r) s = (s\<lparr>i_pool := pool_accept r (i_pool s)\<rparr>, [])"
| "interventions_step lc dm now I_toggle s = togglePool s"
| "interventions_step lc dm now (I_toggled r) s =
     (s\<lparr>toggling := False\<rparr>, case r of Resolved _ \<Rightarrow> loadPool | Rejected _ \<Rightarrow> [])"
| "interventions_step lc dm now (I_answer i d) s = (s, answer_int i d)"
| "interventions_step lc dm now (I_answered r) s =
     (s, case r of Resolved _ \<Rightarrow> [Send GET (u ''/v1/interventions'') None Get_ints] | Rejected _ \<Rightarrow> [])"
| "interventions_step lc dm now (I_search v) s = (s\<lparr>i_q := v, i_page := 0\<rparr>, [])"
| "interventions_step lc dm now (I_pick v) s = (s\<lparr>i_filter := v, i_page := 0\<rparr>, [])"
| "interventions_step lc dm now I_prev s = (s\<lparr>i_page := prev_page (i_page s)\<rparr>, [])"
| "interventions_step lc dm now I_next s =
     (s\<lparr>i_page := next_page PAGE_SIZE (ints_filtered lc dm now s) (i_page s)\<rparr>, [])"

subsection \<open>The view\<close>

definition nWorkers :: "interventions \<Rightarrow> nat" where
  "nWorkers s = length (or_empty (i_workers s))"

definition i_paused :: "interventions \<Rightarrow> bool" where
  "i_paused s = pool_paused (i_pool s)"

definition i_running :: "interventions \<Rightarrow> bool" where
  "i_running s = (\<not> i_paused s \<and> nWorkers s > 0)"

definition pool_card :: "interventions \<Rightarrow> interventions_event node" where
  "pool_card s =
     (let running = i_running s; paused = i_paused s;
          poolColor = (if running then (u ''var(--green)'') else if paused then (u ''var(--orange)'') else (u ''var(--mute)''));
          poolWord = (if running then (u ''RODANDO'') else if paused then (u ''PAUSADO'') else (u ''PARADO''));
          poolSub = (if running then nshow (nWorkers s) @ (ux '' worker(s) ativo(s) {b7} gates server-side'')
                     else if paused then (ux ''Pool pausado {b7} novas tarefas aguardam na fila'')
                     else (u ''Nenhum worker ativo'')) in
      dv [sp (shown (running \<or> paused) [El ''span'' [Sty ''background'' poolColor] []]
              @ [El ''span'' [Sty ''background'' poolColor] []]),
          dv [El ''div'' [Sty ''color'' poolColor] [Txt poolWord], dvt poolSub],
          El ''button'' [OnClick I_toggle, Disabled (toggling s \<or> \<not> truthy (i_pool s)),
              Sty ''background'' (if paused then (u ''var(--green)'') else (u ''var(--red-tint)''))]
            [svg, Txt (if paused then (u ''Retomar pool'') else (u ''Pausar pool''))]])"

definition item_row :: "item \<Rightarrow> interventions_event node" where
  "item_row i =
     (let dec = (it_kind i = Decisao) in
      El ''div'' [Key (it_id i), Sty ''border-left'' (if dec then (u ''var(--accent)'') else (u ''var(--red)''))]
        [dv ([El ''span'' [Sty ''background'' (if dec then (u ''var(--accent-tint)'') else (u ''var(--red-tint)''))]
                [svg, Txt (if dec then (ux ''Decis{e3}o humana'') else (u ''Bloqueada''))],
              spt (short (replace_prefix (u ''tsk_'') (u ''#'') (it_id i)) 8),
              spt (it_title i)]
             @ shown (it_repo i \<noteq> []) [sp [Txt (it_repo i), Txt (ux '' {b7} ''), Txt (it_agent i)]]
             @ shown (it_age i \<noteq> []) [sp [Txt (ux ''h{e1} ''), Txt (it_age i)]]),
         spt (it_reason i),
         dv ((if dec then
                [btn (I_answer (it_id i) (u ''approve'')) [svg, Txt (u ''Aprovar merge'')],
                 btn (I_answer (it_id i) (u ''reject'')) [svg, Txt (u ''Reprovar'')]]
              else
                [El ''button'' [] [svg, Txt (ux ''Chamar agente de corre{e7}{e3}o'')],
                 El ''button'' [] [Txt (u ''Reprocessar'')]])
             @ [El ''button'' [Title (u ''Ver caminho do worker'')] [svg]])])"

definition manual_actions :: "interventions_event node" where
  "manual_actions =
     dv [spt (ux ''A{e7}{f5}es manuais''),
         dv [El ''button'' [] [Txt (ux ''For{e7}ar processar fila'')],
             El ''button'' [] [Txt (u ''Reprocessar bloqueadas'')],
             El ''button'' [] [Txt (u ''Limpar retries'')]]]"

definition interventions_view ::
  "(jstr \<Rightarrow> jstr) \<Rightarrow> (jstr \<Rightarrow> int option) \<Rightarrow> int \<Rightarrow> jstr \<Rightarrow> interventions \<Rightarrow> interventions_event node list" where
  "interventions_view lc dm now lang s =
     (let filtered = ints_filtered lc dm now s; tot = total_pages PAGE_SIZE filtered;
          safe = safe_page PAGE_SIZE filtered (i_page s); rows = page_rows PAGE_SIZE filtered (i_page s) in
      [pageHead lang (Some (ux ''Opera{e7}{e3}o'')) (ux ''Interven{e7}{e3}o'') (Some (ux ''Pausar e retomar o pool, e disparar a{e7}{f5}es manuais.'')) [],
       pool_card s,
       dv ([dv [svg, spt (ux ''Precisa de aten{e7}{e3}o''), spt (nshow (length (allItems dm now s)))],
            dv [dv [svg, inp (i_q s) I_search (ux ''Buscar por tarefa, repo ou worker{2026}'')],
                pills lang FILTERS (i_filter s) I_pick]]
           @ map item_row rows
           @ shown (rows = [])
               [dv [svg, spt (u ''Nada pendente neste filtro.''), spt (ux ''O pipeline est{e1} fluindo sem interven{e7}{f5}es.'')]]
           @ shown (tot > 1)
               [dv [sp [Txt (nshow (length filtered)), Txt (ux '' itens {b7} p{e1}gina ''), Txt (nshow (safe + 1)), Txt (u ''/''), Txt (nshow tot)],
                    dv [navBtn I_prev (safe = 0) [svg], navBtn I_next (safe \<ge> tot - 1) [svg]]]]),
       manual_actions])"

subsection \<open>Facts\<close>

interpretation ints_pages: paged PAGE_SIZE "ints_filtered lc dm now" i_page "\<lambda>p s. s\<lparr>i_page := p\<rparr>" for lc dm now
  by unfold_locales
    (simp_all add: ints_filtered_def allItems_def decisions_def blocked_items_def)

lemma decisions_ids: "map it_id (decisions dm now s) = map iv_task (or_empty (i_ints s))"
  by (simp add: decisions_def comp_def)

lemma decisions_kind: "i \<in> set (decisions dm now s) \<Longrightarrow> it_kind i = Decisao"
  by (auto simp: decisions_def)

lemma blocked_kind: "i \<in> set (blocked_items s) \<Longrightarrow> it_kind i = Bloqueada"
  by (auto simp: blocked_items_def)

lemma blocked_ids:
  "map it_id (blocked_items s) =
     map task_id (filter (\<lambda>t. (task_status t = (u ''blocked'') \<or> task_status t = (u ''failed''))
       \<and> task_id t \<notin> set (map iv_task (or_empty (i_ints s)))) (or_empty (i_tasks s)))"
  by (simp add: blocked_items_def comp_def)

lemma clicks_item_row:
  "clicks (item_row i) =
     (if it_kind i = Decisao then [I_answer (it_id i) (u ''approve''), I_answer (it_id i) (u ''reject'')] else [])"
  by (simp add: item_row_def Let_def shown_def)

definition ints_defined :: "interventions \<Rightarrow> bool" where
  "ints_defined s = (i_ints s \<noteq> Undef \<and> i_tasks s \<noteq> Undef \<and> i_workers s \<noteq> Undef)"

interpretation ints_machine: stepper interventions_start "\<lambda>e s. fst (interventions_step lc dm now e s)" ints_defined
  for lc dm now
proof
  show "ints_defined interventions_start" by (simp add: ints_defined_def interventions_start_def)
  show "ints_defined (fst (interventions_step lc dm now e s))" if "ints_defined s" for e s
    using that by (cases e) (simp_all add: ints_defined_def Let_def poll_accept_defined togglePool_def)
qed

text \<open>
  With the pool's configuration loaded, the switch sends it back with the field paused negated
  and every other field as the server sent it.
\<close>

lemma pool_switch_keeps_the_configuration:
  assumes "i_pool s = JObj kvs"
  shows "\<exists>body. sends (snd (interventions_step lc dm now I_toggle s)) = [(POST, (u ''/v1/pool''), Some body, Post_pool)]
    \<and> (\<forall>k. jget k body = (if k = (u ''paused'') then JBool (\<not> pool_paused (i_pool s)) else jget k (i_pool s)))"
  using assms by (simp add: togglePool_def jget_spread_set pool_paused_def del: jget.simps spread_set.simps)

text \<open>
  An approval or a rejection can be clicked exactly for the decisions on the page shown; the
  rows of blocked tasks offer no working action.
\<close>

lemma only_decisions_are_answered:
  "I_answer i d \<in> set (all_clicks (interventions_view lc dm now lang s)) \<longleftrightarrow>
     (\<exists>x \<in> set (page_rows PAGE_SIZE (ints_filtered lc dm now s) (i_page s)).
        it_kind x = Decisao \<and> it_id x = i \<and> (d = (u ''approve'') \<or> d = (u ''reject'')))"
proof -
  have "clicks (navBtn e b [svg]) = (if b then [] else [e])" for e :: interventions_event and b
    by (simp add: navBtn_def)
  then show ?thesis
    by (auto simp: interventions_view_def Let_def pool_card_def manual_actions_def set_all_clicks_map
        clicks_item_row shown_def split: if_splits)
qed

text \<open>
  An answer without fields, which is what a failed request is turned into, replaces the pool
  configuration: the switch stays enabled and then sends a configuration whose only field is
  \<open>paused\<close>, set, whatever the pool was.
\<close>

lemma failed_pool_answer_wipes_the_configuration:
  assumes "status r \<noteq> 401" "body r = Bad_body \<or> body r = Empty_body" "\<not> toggling s"
  shows "let s1 = fst (interventions_step lc dm now (I_pool (snd (api_settle (Answered r) b))) s) in
    I_toggle \<in> set (all_clicks (interventions_view lc dm now lang s1))
    \<and> sends (snd (interventions_step lc dm now I_toggle s1))
        = [(POST, (u ''/v1/pool''), Some (JObj [((u ''paused''), JBool True)]), Post_pool)]"
proof -
  have "snd (api_settle (Answered r) b) = Resolved (JObj [])"
    using assms(1,2) by (auto simp: api_settle_def safeJson_def)
  then show ?thesis
    using assms(3)
    by (simp add: Let_def pool_accept_def togglePool_def interventions_view_def pool_card_def)
qed

end
