(* ===== verification/Logs.thy ===== *)
theory Logs
  imports Page_Kit
begin

text \<open>
  The log page, app/logs/page.tsx: levels, the selects whose options are the distinct workers and
  agents of the polled entries, and the terminal.
\<close>

record log_entry =
  lg_when :: jstr
  lg_task :: jstr
  lg_type :: jstr
  lg_status :: jstr
  lg_log :: jstr

definition LEVELS :: "(jstr \<times> jstr) list" where
  "LEVELS = [((u ''todos''), (u ''Todos'')), ((u ''info''), (u ''Info'')), ((u ''warn''), (u ''Aviso'')), ((u ''err''), (u ''Erro''))]"

definition lvl :: "jstr \<Rightarrow> jstr \<times> jstr" where
  "lvl s =
     (if s = (u ''failed'') \<or> s = (u ''changes'') then ((u ''ERRO''), (u ''var(--red)''))
      else if s = (u ''done'') \<or> s = (u ''passed'') \<or> s = (u ''approved'') \<or> s = (u ''merged'') then ((u ''OK''), (u ''var(--green)''))
      else if s = (u ''running'') \<or> s = (u ''active'') then ((u ''INFO''), (u ''var(--blue)''))
      else if s = (u ''pending'') \<or> s = (u ''planning'') then ((u ''AVISO''), (u ''var(--orange)''))
      else ((u ''INFO''), (u ''var(--dim)'')))"

definition matchLevel :: "jstr \<Rightarrow> jstr \<Rightarrow> bool" where
  "matchLevel f s =
     (if f = (u ''todos'') then True
      else if f = (u ''err'') then s = (u ''failed'') \<or> s = (u ''changes'')
      else if f = (u ''warn'') then s = (u ''pending'') \<or> s = (u ''planning'')
      else if f = (u ''info'') then s \<notin> set [(u ''failed''), (u ''changes''), (u ''pending''), (u ''planning'')]
      else True)"

definition fmtTime :: "jstr \<Rightarrow> jstr" where
  "fmtTime i = (if i = [] then (ux ''{2014}'') else let t = jslice 11 19 i in if t \<noteq> [] then t else i)"

record logs =
  l_logs :: "log_entry list pdata"
  l_loading :: bool
  l_level :: jstr
  l_who :: jstr
  l_agent :: jstr

datatype logs_event =
    L_mount
  | L_logs "log_entry list pdata outcome"
  | L_level jstr
  | L_who jstr
  | L_agent jstr

definition logs_start :: logs where
  "logs_start = \<lparr>l_logs = Nul, l_loading = True, l_level = (u ''todos''), l_who = (u ''todos''), l_agent = (u ''todos'')\<rparr>"

fun logs_step :: "logs_event \<Rightarrow> logs \<Rightarrow> logs" where
  "logs_step L_mount s = s\<lparr>l_loading := loading_effect (l_logs s) (l_loading s)\<rparr>"
| "logs_step (L_logs r) s =
     (let d = poll_accept r (l_logs s) in s\<lparr>l_logs := d, l_loading := loading_effect d (l_loading s)\<rparr>)"
| "logs_step (L_level v) s = s\<lparr>l_level := v\<rparr>"
| "logs_step (L_who v) s = s\<lparr>l_who := v\<rparr>"
| "logs_step (L_agent v) s = s\<lparr>l_agent := v\<rparr>"

definition logs_all :: "logs \<Rightarrow> log_entry list" where
  "logs_all s = or_empty (l_logs s)"

definition log_workers :: "logs \<Rightarrow> jstr list" where
  "log_workers s = uniq (filter (\<lambda>w. w \<noteq> []) (map lg_task (logs_all s)))"

definition log_agents :: "logs \<Rightarrow> jstr list" where
  "log_agents s = uniq (filter (\<lambda>a. a \<noteq> []) (map lg_type (logs_all s)))"

definition log_rows :: "logs \<Rightarrow> log_entry list" where
  "log_rows s =
     filter (\<lambda>l. l_agent s = (u ''todos'') \<or> lg_type l = l_agent s)
       (filter (\<lambda>l. l_who s = (u ''todos'') \<or> lg_task l = l_who s)
          (filter (\<lambda>l. matchLevel (l_level s) (lg_status l)) (logs_all s)))"

definition log_controls :: "logs \<Rightarrow> logs_event node" where
  "log_controls s =
     dv [sel_el (l_who s) L_who
           (optv (u ''todos'') (u ''Todos os workers'')
            # map (\<lambda>w. El ''option'' [Key w, Value w] [Txt (u ''#''), Txt (short (replace_prefix (u ''tsk_'') [] w) 8)]) (log_workers s)),
         sel_el (l_agent s) L_agent
           (optv (u ''todos'') (u ''Todos os agentes'')
            # map (\<lambda>a. El ''option'' [Key a, Value a] [Txt a]) (log_agents s)),
         dv (map (\<lambda>(k, lab). El ''button'' [Key k, OnClick (L_level k),
                   Sty ''background'' (if l_level s = k then (u ''var(--card)'') else (u ''transparent'')),
                   Sty ''color'' (if l_level s = k then (u ''var(--ink)'') else (u ''var(--dim)''))] [Txt lab]) LEVELS)]"

definition log_line :: "nat \<times> log_entry \<Rightarrow> logs_event node" where
  "log_line il =
     (let l = snd il; (lv, lc) = lvl (lg_status l) in
      El ''div'' [Key (nshow (fst il))]
        [spt (fmtTime (lg_when l)),
         El ''span'' [Sty ''color'' lc] [Txt lv],
         sp [Txt (lg_type l), Txt (u ''#''), Txt (short (replace_prefix (u ''tsk_'') [] (lg_task l)) 4)],
         spt (if lg_log l \<noteq> [] then lg_log l else lg_status l)])"

definition logs_view :: "jstr \<Rightarrow> logs \<Rightarrow> logs_event node list" where
  "logs_view lang s =
     (let rows = log_rows s; all = logs_all s in
      [pageHead lang (Some (ux ''Opera{e7}{e3}o'')) (u ''Logs'') (Some (ux ''Terminal ao vivo, filtr{e1}vel por n{ed}vel.'')) [log_controls s],
       dv [dv (map log_line (enumerate 0 rows)
               @ shown (rows = [])
                   [spt (ux ''nenhum log ainda {2014} crie uma tarefa com reposit{f3}rio pra ver o pipeline.'')]
               @ [dv [spt (u ''apifor@pool ~$''), sp []]]),
           dv [sp [Txt (nshow (length rows)), Txt (u '' linha(s)'')],
               spt (if length all \<noteq> length rows
                    then nshow (length all) @ (ux '' total {b7} '') @ nshow (length all - length rows) @ (u '' filtrados'')
                    else [])]]])"

subsection \<open>Facts\<close>

lemma log_rows_iff:
  "l \<in> set (log_rows s) \<longleftrightarrow> l \<in> set (logs_all s) \<and> matchLevel (l_level s) (lg_status l)
     \<and> (l_who s = (u ''todos'') \<or> lg_task l = l_who s) \<and> (l_agent s = (u ''todos'') \<or> lg_type l = l_agent s)"
  by (auto simp: log_rows_def)

lemma log_rows_length: "length (log_rows s) \<le> length (logs_all s)"
  unfolding log_rows_def by (meson length_filter_le order_trans)

definition logs_defined :: "logs \<Rightarrow> bool" where
  "logs_defined s = (l_logs s \<noteq> Undef)"

interpretation logs_machine: stepper logs_start logs_step logs_defined
proof
  show "logs_defined logs_start" by (simp add: logs_defined_def logs_start_def)
  show "logs_defined (logs_step e s)" if "logs_defined s" for e s
    using that by (cases e) (simp_all add: logs_defined_def Let_def poll_accept_defined)
qed

text \<open>
  The level filter of the log page and the level printed on a line agree: errors are the lines
  marked ERRO, warnings those marked AVISO, and Info shows all the others, the lines marked OK
  included.
\<close>

lemma log_filter_agrees_with_printed_level:
  "(matchLevel (u ''err'') st \<longleftrightarrow> fst (lvl st) = (u ''ERRO''))
   \<and> (matchLevel (u ''warn'') st \<longleftrightarrow> fst (lvl st) = (u ''AVISO''))
   \<and> (matchLevel (u ''info'') st \<longleftrightarrow> fst (lvl st) = (u ''INFO'') \<or> fst (lvl st) = (u ''OK''))"
  by (auto simp: matchLevel_def lvl_def)

text \<open>
  The worker select of the log page offers every worker of the entries once, and choosing one
  with the other filters open shows at least one line, all of them of that worker.
\<close>

lemma log_worker_choice_has_lines:
  assumes "w \<in> set (log_workers s)" "w \<noteq> (u ''todos'')"
  shows "let rows = log_rows (s\<lparr>l_level := (u ''todos''), l_agent := (u ''todos''), l_who := w\<rparr>) in
    rows \<noteq> [] \<and> lg_task ` set rows = {w} \<and> distinct (log_workers s)"
proof -
  obtain l where l: "l \<in> set (logs_all s)" "lg_task l = w"
    using assms(1) by (auto simp: log_workers_def)
  let ?s = "s\<lparr>l_level := (u ''todos''), l_agent := (u ''todos''), l_who := w\<rparr>"
  have all: "logs_all ?s = logs_all s" by (simp add: logs_all_def)
  have "l \<in> set (log_rows ?s)" using l by (simp add: log_rows_iff all matchLevel_def)
  then have "log_rows ?s \<noteq> []" "w \<in> lg_task ` set (log_rows ?s)" using l(2) by auto
  moreover have "lg_task ` set (log_rows ?s) \<subseteq> {w}" using assms(2) by (auto simp: log_rows_iff)
  moreover have "distinct (log_workers s)" by (simp add: log_workers_def)
  ultimately show ?thesis by (simp add: Let_def subset_singleton_iff)
qed

end
