(* ===== verification/Live.thy ===== *)
theory Live
  imports Page_Kit
begin

text \<open>
  The live page, app/live/page.tsx: the event stream of the workers, the pool configuration, and
  the worker cards. A stream message is the value JSON.parse gives, \<open>None\<close> when it throws (the
  message is then dropped). The pool is JNull before its first answer.
\<close>

record worker =
  w_id :: jstr
  w_source :: jstr
  w_host :: jstr
  w_status :: jstr
  w_step :: jstr
  w_task :: jstr

record live_task =
  lt_id :: jstr
  lt_title :: jstr
  lt_status :: jstr

record live =
  v_workers :: "worker list"
  v_tasks :: "live_task list"
  v_live :: bool
  v_pool :: json
  v_loading :: bool

datatype live_tag = Get_live_pool

datatype live_event =
    V_mount
  | V_pool_tick
  | V_pool "json outcome"
  | V_open
  | V_error
  | V_message "(worker list \<times> live_task list) option"

definition RUNNING :: "jstr list" where
  "RUNNING = [(u ''running''), (u ''busy''), (u ''active''), (u ''exec'')]"

definition workerColor :: "jstr \<Rightarrow> jstr" where
  "workerColor s =
     (if s \<in> set RUNNING then (u ''var(--accent)'')
      else if s = (u ''merged'') \<or> s = (u ''done'') then (u ''var(--green)'')
      else if s = (u ''failed'') \<or> s = (u ''blocked'') then (u ''var(--red)'')
      else if s = (u ''paused'') then (u ''var(--orange)'')
      else (u ''var(--mute)''))"

definition bars :: "jstr \<Rightarrow> bool \<Rightarrow> live_event node" where
  "bars col animate =
     (let bar = (\<lambda>h delay. El ''span'' ([Sty ''background'' col, Sty ''height'' h]
                  @ (if animate then [Sty ''animation'' ((u ''dotpulse 1s ease-in-out '') @ delay @ (u '' infinite''))] else [])) []) in
      El ''div'' [Sty ''color'' col] [bar (u ''45%'') (u ''0s''), bar (u ''90%'') (u ''.18s''), bar (u ''65%'') (u ''.36s'')])"

definition live_start :: live where
  "live_start = \<lparr>v_workers = [], v_tasks = [], v_live = False, v_pool = JNull, v_loading = True\<rparr>"

definition live_loading :: "json \<Rightarrow> bool \<Rightarrow> bool" where
  "live_loading pool l = (if pool \<noteq> JNull then False else l)"

fun live_step :: "live_event \<Rightarrow> live \<Rightarrow> live \<times> live_tag cmd list" where
  "live_step V_mount s = (s\<lparr>v_loading := live_loading (v_pool s) (v_loading s)\<rparr>, [Send GET (u ''/v1/pool'') None Get_live_pool])"
| "live_step V_pool_tick s = (s, [Send GET (u ''/v1/pool'') None Get_live_pool])"
| "live_step (V_pool r) s =
     (let p = pool_accept r (v_pool s) in (s\<lparr>v_pool := p, v_loading := live_loading p (v_loading s)\<rparr>, []))"
| "live_step V_open s = (s\<lparr>v_live := True\<rparr>, [])"
| "live_step V_error s = (s\<lparr>v_live := False\<rparr>, [])"
| "live_step (V_message m) s =
     (case m of Some (ws, ts) \<Rightarrow> (s\<lparr>v_workers := ws, v_tasks := ts\<rparr>, []) | None \<Rightarrow> (s, []))"

definition taskTitle :: "live \<Rightarrow> jstr \<Rightarrow> jstr" where
  "taskTitle s i = (case find (\<lambda>x. lt_id x = i) (v_tasks s) of Some t \<Rightarrow> lt_title t | None \<Rightarrow> [])"

definition v_paused :: "live \<Rightarrow> bool" where
  "v_paused s = pool_paused (v_pool s)"

definition pool_color :: "live \<Rightarrow> jstr" where
  "pool_color s =
     (if v_live s \<and> \<not> v_paused s then (u ''var(--green)'') else if v_paused s then (u ''var(--orange)'') else (u ''var(--mute)''))"

definition pool_word :: "live \<Rightarrow> jstr" where
  "pool_word s = (if v_paused s then (u ''PAUSADO'') else if v_live s then (u ''RODANDO'') else (u ''OFFLINE''))"

definition n_running :: "live \<Rightarrow> nat" where
  "n_running s = length (filter (\<lambda>w. w_status w \<in> set RUNNING) (v_workers s))"

definition live_subtitle :: "live \<Rightarrow> jstr" where
  "live_subtitle s =
     (ux ''Progresso em tempo real de cada worker {b7} '') @ nshow (length (v_workers s)) @ (ux '' ativo(s) {b7} '')
     @ nshow (length (v_workers s) - n_running s) @ (u '' slot(s) livre(s).'')"

text \<open>\<open>taskTitle(taskId) || (running ? "processando..." : "ocioso")\<close>.\<close>

definition worker_title :: "live \<Rightarrow> worker \<Rightarrow> jstr" where
  "worker_title s w =
     (let t = taskTitle s (w_task w) in
      if t \<noteq> [] then t else if w_status w \<in> set RUNNING then (ux ''processando{2026}'') else (u ''ocioso''))"

definition worker_card :: "live \<Rightarrow> nat \<times> worker \<Rightarrow> live_event node" where
  "worker_card s iw =
     (let i = fst iw; w = snd iw; col = workerColor (w_status w); running = (w_status w \<in> set RUNNING) in
      El ''div'' [Key (w_id w)]
        [dv ([bars col running,
              sp [Txt (u ''W-''), Txt (pad_start 2 (of_char CHR ''0'') (nshow (i + 1)))]]
             @ shown (w_status w = (u ''paused'')) [sp [svg, Txt (u ''pausado'')]]
             @ shown (w_task w \<noteq> []) [sp [Txt (u ''#''), Txt (short (replace_prefix (u ''tsk_'') [] (w_task w)) 6)]]
             @ [spt (worker_title s w),
                El ''span'' (badge (w_status w)) [Txt (w_status w)]]),
         dv [sp [Txt (w_source w), sp [Txt (u '':''), Txt (w_host w)]],
             sp [sp [], Txt (w_source w)],
             dv (shown running [El ''div'' [Sty ''background'' col] [sp []]]
                 @ shown (\<not> running \<and> w_status w = (u ''merged'')) [El ''div'' [Sty ''background'' col] []]),
             spt (if running then (ux ''{25cf}'') else if w_status w = (u ''merged'') then (ux ''{2713}'') else (ux ''{2014}''))],
         dv [spt (ux ''{203a}''), Txt (if w_step w \<noteq> [] then w_step w else (ux ''aguardando{2026}''))],
         dv [El ''button'' [Title (u ''Linha do tempo em tempo real'')] [svg, Txt (u ''Linha do tempo'')],
             El ''button'' [] [svg, Txt (u ''Abrir terminal'')]]])"

definition live_view :: "jstr \<Rightarrow> live \<Rightarrow> live_event node list" where
  "live_view lang s =
     [pageHead lang (Some (ux ''Opera{e7}{e3}o'')) (u ''Live'') (Some (live_subtitle s))
        [sp [El ''span'' [Sty ''background'' (pool_color s)] [], El ''span'' [Sty ''color'' (pool_color s)] [Txt (pool_word s)]]],
      dv (map (worker_card s) (enumerate 0 (v_workers s))
          @ shown (v_workers s = []) [dvt (ux ''nenhum worker conectado {2014} suba o executor e crie uma tarefa.'')]),
      dv [El ''span'' [Sty ''color'' (if v_live s then (u ''var(--green)'') else (u ''var(--mute)''))]
            [El ''span'' [ClassName (if v_live s then (u ''apf-live'') else [])] [],
             Txt (if v_live s then (u ''SSE conectado'') else (u ''SSE offline''))]]]"

subsection \<open>Facts\<close>

lemma n_running_le: "n_running s \<le> length (v_workers s)"
  by (simp add: n_running_def)

text \<open>The skeleton is shown exactly until the pool has answered with a value.\<close>

definition live_inv :: "live \<Rightarrow> bool" where
  "live_inv s = (v_loading s \<longrightarrow> v_pool s = JNull)"

interpretation live_machine: stepper live_start "\<lambda>e s. fst (live_step e s)" live_inv
proof
  show "live_inv live_start" by (simp add: live_inv_def live_start_def)
  show "live_inv (fst (live_step e s))" if "live_inv s" for e s
    using that by (cases e) (auto simp: live_inv_def live_loading_def Let_def split: option.split)
qed

definition not_pool_answer :: "live_event \<Rightarrow> bool" where
  "not_pool_answer e = (case e of V_pool _ \<Rightarrow> False | _ \<Rightarrow> True)"

lemma live_no_pool_stuck:
  assumes "\<forall>e \<in> set es. not_pool_answer e" "v_pool s = JNull" "v_loading s"
  shows "v_loading (run (\<lambda>e s. fst (live_step e s)) es s)"
  using assms
proof (induction es arbitrary: s)
  case (Cons e es)
  have "v_pool (fst (live_step e s)) = JNull \<and> v_loading (fst (live_step e s))"
    using Cons.prems by (cases e) (auto simp: not_pool_answer_def live_loading_def split: option.split)
  then show ?case using Cons by simp
qed simp

text \<open>
  The live page stays on its skeleton as long as the pool request has not been answered,
  whatever the event stream of the workers delivers meanwhile.
\<close>

lemma live_page_waits_for_the_pool:
  assumes "list_all not_pool_answer es"
  shows "page_view \<lparr>authed = Some True\<rparr> (v_loading (run (\<lambda>e s. fst (live_step e s)) es live_start)) children
    = page_view \<lparr>authed = Some True\<rparr> True children"
proof -
  have "v_loading (run (\<lambda>e s. fst (live_step e s)) es live_start)"
    using assms by (intro live_no_pool_stuck) (simp_all add: live_start_def list_all_iff)
  then show ?thesis by simp
qed

end
