(* ===== verification/Series_Hook.thy ===== *)
theory Series_Hook
  imports Ui_Kit
begin

text \<open>
  The useSeries hooks of a page taken together: what their effects do after a rendering, and the
  windows they keep. Shared by the dashboard and the telemetry page.
\<close>

text \<open>The effects of the useSeries hooks of a page after a rendering: a changed value is pushed.\<close>

definition series_effects :: "rat list \<Rightarrow> rat list \<Rightarrow> rat list list \<Rightarrow> rat list list" where
  "series_effects vs0 vs1 ss =
     map (\<lambda>(v0, v1, cur). if v0 = v1 then cur else useSeries_push 24 v1 cur) (zip vs0 (zip vs1 ss))"

lemma useSeries_push_window:
  "useSeries_push 24 v cur \<noteq> [] \<and> length (useSeries_push 24 v cur) \<le> 24 \<and> last (useSeries_push 24 v cur) = v"
proof -
  have l: "length (useSeries_push 24 v cur) = min 24 (length cur + 1)"
    by (simp add: useSeries_push_def length_last_n)
  moreover have "last (useSeries_push 24 v cur) = v"
    by (simp add: useSeries_push_def last_n_def last_drop)
  ultimately show ?thesis by (metis length_0_conv min.cobounded1 min_def not_numeral_le_zero add_is_0 zero_neq_one)
qed

lemma series_effects_nth:
  "i < length vs1 \<Longrightarrow> length vs0 = length vs1 \<Longrightarrow> length ss = length vs1 \<Longrightarrow>
   series_effects vs0 vs1 ss ! i = (if vs0 ! i = vs1 ! i then ss ! i else useSeries_push 24 (vs1 ! i) (ss ! i))"
  by (simp add: series_effects_def)

lemma length_series_effects:
  "length vs0 = length vs1 \<Longrightarrow> length ss = length vs1 \<Longrightarrow> length (series_effects vs0 vs1 ss) = length vs1"
  by (simp add: series_effects_def)

lemma series_effects_inv:
  assumes "list_all2 (\<lambda>v cur. cur \<noteq> [] \<and> length cur \<le> 24 \<and> last cur = v) vs0 ss" "length vs0 = length vs1"
  shows "list_all2 (\<lambda>v cur. cur \<noteq> [] \<and> length cur \<le> 24 \<and> last cur = v) vs1 (series_effects vs0 vs1 ss)"
proof -
  have l: "length ss = length vs1" using assms by (simp add: list_all2_lengthD)
  show ?thesis
    unfolding list_all2_conv_all_nth
  proof (intro conjI allI impI)
    fix i assume i: "i < length vs1"
    let ?c = "series_effects vs0 vs1 ss ! i"
    have "?c \<noteq> [] \<and> length ?c \<le> 24 \<and> last ?c = vs1 ! i"
      using assms(1) i
      by (simp add: series_effects_nth [OF i assms(2) l] list_all2_conv_all_nth assms(2) useSeries_push_window)
    then show "?c \<noteq> []" "length ?c \<le> 24" "last ?c = vs1 ! i" by simp_all
  qed (simp add: length_series_effects assms(2) l)
qed

lemma series_mount:
  "length ss = length vs \<Longrightarrow>
   list_all2 (\<lambda>v cur. cur \<noteq> [] \<and> length cur \<le> 24 \<and> last cur = v) vs
     (map (\<lambda>(v, cur). useSeries_push 24 v cur) (zip vs ss))"
  by (simp add: list_all2_conv_all_nth useSeries_push_window)

end
