(* ===== verification/Dashboard.thy ===== *)
theory Dashboard
  imports Queue Interventions Series_Hook
begin

text \<open>
  The dashboard, app/page.tsx: eight polls, the counters, percentages and lists derived from them,
  the sparklines, the paginated attention list, and the view. The series pushed by useSeries are
  kept in the order of the source. Every event is rendered before the next one. \<open>uc\<close> is
  toUpperCase.
\<close>

subsection \<open>Data\<close>

record dash_worker =
  dw_id :: jstr
  dw_status :: jstr
  dw_step :: jstr
  dw_task :: jstr

record dash_pr =
  dp_id :: jstr
  dp_status :: jstr
  dp_ai :: "jstr option"
  dp_title :: "jstr option"

record dash_int =
  di_task :: jstr
  di_reason :: "jstr option"

record dash_log =
  dl_when :: "jstr option"
  dl_task :: "jstr option"
  dl_type :: jstr
  dl_status :: jstr
  dl_log :: "jstr option"

record telemetry =
  tel_tokens :: nat
  tel_merged :: nat

record usage =
  us_max :: nat
  us_plan :: jstr
  us_cap :: rat
  us_used :: rat

text \<open>The line of sparkPath, as points and as the path text; the area closes the line to the box.\<close>

definition sp_data :: "rat list \<Rightarrow> rat list" where
  "sp_data data = (if length data < 2 then [0, (case data of [] \<Rightarrow> 0 | x # _ \<Rightarrow> x)] else data)"

definition sp_y :: "rat list \<Rightarrow> int \<Rightarrow> rat \<Rightarrow> rat" where
  "sp_y d h v = jadd (jsub (of_int (h - 4)) (jmul (spark_unit d v) (of_int (h - 8)))) 2"

definition sparkPath_pts :: "rat list \<Rightarrow> int \<Rightarrow> int \<Rightarrow> (rat \<times> rat) list" where
  "sparkPath_pts data w h =
     (let d = sp_data data in map (\<lambda>(i, v). (spark_x (length d) i w, sp_y d h v)) (enumerate 0 d))"

definition sparkPath :: "rat list \<Rightarrow> int \<Rightarrow> int \<Rightarrow> jstr \<times> jstr" where
  "sparkPath data w h =
     (let line = join_with (u '' '') (map (\<lambda>(i, x, y). (if i = 0 then (u ''M'') else (u ''L'')) @ to_fixed 1 x @ (u '','') @ to_fixed 1 y)
                   (enumerate (0::nat) (sparkPath_pts data w h))) in
      (line, line @ (u '' L'') @ ishow w @ (u '','') @ ishow h @ (u '' L0,'') @ ishow h @ (u '' Z'')))"

definition RANGE_OPTS :: "(jstr \<times> jstr) list" where
  "RANGE_OPTS = [((u ''hoje''), (u ''Hoje'')), ((u ''24h''), (u ''24h'')), ((u ''7d''), (u ''7d''))]"

definition LOG_FILTERS :: "(jstr \<times> jstr) list" where
  "LOG_FILTERS = [((u ''all''), (u ''Todos'')), ((u ''info''), (u ''Info'')), ((u ''warn''), (u ''Aviso'')), ((u ''error''), (u ''Erro''))]"

definition PR_TABS :: "(jstr \<times> jstr) list" where
  "PR_TABS = [((u ''todos''), (u ''Todos'')), ((u ''revisao''), (ux ''Em revis{e3}o'')), ((u ''ci''), (u ''CI falhou''))]"

definition tabBtn :: "bool \<Rightarrow> 'e attr list" where
  "tabBtn active =
     [Sty ''border'' (if active then (u ''1px solid var(--border)'') else (u ''none'')),
      Sty ''background'' (if active then (u ''var(--card)'') else (u ''transparent'')),
      Sty ''color'' (if active then (u ''var(--ink)'') else (u ''var(--dim)'')),
      Sty ''font-weight'' (if active then (u ''600'') else (u ''500''))]"

definition logLevel :: "jstr \<Rightarrow> jstr \<times> jstr" where
  "logLevel st =
     (if st \<in> set [(u ''failed''), (u ''changes''), (u ''error'')] then ((u ''ERRO''), (u ''var(--red)''))
      else if st = (u ''warn'') then ((u ''AVISO''), (u ''var(--orange)''))
      else if st \<in> set [(u ''done''), (u ''passed''), (u ''approved''), (u ''merged'')] then ((u ''OK''), (u ''var(--green)''))
      else ((u ''INFO''), (u ''var(--blue)'')))"

subsection \<open>State and steps\<close>

record dash =
  d_workers :: "dash_worker list pdata"
  d_tasks :: "task list pdata"
  d_prs :: "dash_pr list pdata"
  d_repos :: "jstr list pdata"
  d_ints :: "dash_int list pdata"
  d_logs :: "dash_log list pdata"
  d_tel :: "telemetry pdata"
  d_usage :: "usage pdata"
  d_loading :: bool
  d_range :: jstr
  poolPaused :: bool
  prTab :: jstr
  logFilter :: jstr
  blockedPage :: nat
  d_series :: "rat list list"

datatype dash_event =
    D_mount
  | D_workers "dash_worker list pdata outcome"
  | D_tasks "task list pdata outcome"
  | D_prs "dash_pr list pdata outcome"
  | D_repos "jstr list pdata outcome"
  | D_ints "dash_int list pdata outcome"
  | D_logs "dash_log list pdata outcome"
  | D_tel "telemetry pdata outcome"
  | D_usage "usage pdata outcome"
  | D_range jstr
  | D_toggle_pool
  | D_resume
  | D_pr_tab jstr
  | D_log_filter jstr
  | D_prev
  | D_next

definition dash_start :: dash where
  "dash_start = \<lparr>d_workers = Nul, d_tasks = Nul, d_prs = Nul, d_repos = Nul, d_ints = Nul, d_logs = Nul,
     d_tel = Nul, d_usage = Nul, d_loading = True, d_range = (u ''hoje''), poolPaused = False, prTab = (u ''todos''),
     logFilter = (u ''all''), blockedPage = 0, d_series = replicate 8 []\<rparr>"

abbreviation "d_w s \<equiv> or_empty (d_workers s)"
abbreviation "d_tk s \<equiv> or_empty (d_tasks s)"
abbreviation "d_pr s \<equiv> or_empty (d_prs s)"

definition status_in :: "jstr list \<Rightarrow> task \<Rightarrow> bool" where
  "status_in ss t = (task_status t \<in> set ss)"

definition nFila :: "dash \<Rightarrow> nat" where
  "nFila s = length (filter (status_in [(u ''queued''), (u ''planning''), (u ''assigned'')]) (d_tk s))"

definition nPrsOpen :: "dash \<Rightarrow> nat" where
  "nPrsOpen s = length (filter (\<lambda>p. dp_status p \<noteq> (u ''merged'')) (d_pr s))"

definition nMerged :: "dash \<Rightarrow> nat" where
  "nMerged s = length (filter (status_in [(u ''merged'')]) (d_tk s))"

definition nFailed :: "dash \<Rightarrow> nat" where
  "nFailed s = length (filter (status_in [(u ''failed'')]) (d_tk s))"

definition aiTot :: "dash \<Rightarrow> nat" where
  "aiTot s = length (filter (\<lambda>p. or_blank (dp_ai p) \<noteq> []) (d_pr s))"

definition aiOk :: "dash \<Rightarrow> nat" where
  "aiOk s = length (filter (\<lambda>p. dp_ai p = Some (u ''approved'')) (d_pr s))"

definition aiPct :: "dash \<Rightarrow> int" where
  "aiPct s = (if aiTot s \<noteq> 0 then jround (jdiv (100 * of_nat (aiOk s)) (of_nat (aiTot s))) else 0)"

definition d_running :: "dash \<Rightarrow> bool" where
  "d_running s = (length (d_w s) > 0 \<and> \<not> poolPaused s)"

definition d_poolColor :: "dash \<Rightarrow> jstr" where
  "d_poolColor s = (if poolPaused s then (u ''var(--red)'') else if d_running s then (u ''var(--green)'') else (u ''var(--mute)''))"

definition tel_of :: "(telemetry \<Rightarrow> nat) \<Rightarrow> dash \<Rightarrow> nat" where
  "tel_of f s = (case d_tel s of Dat t \<Rightarrow> f t | _ \<Rightarrow> 0)"

definition usg_of :: "'v \<Rightarrow> (usage \<Rightarrow> 'v) \<Rightarrow> dash \<Rightarrow> 'v" where
  "usg_of dflt f s = (case d_usage s of Dat x \<Rightarrow> f x | _ \<Rightarrow> dflt)"

definition series_values :: "dash \<Rightarrow> rat list" where
  "series_values s =
     [of_nat (length (d_w s)), of_nat (nFila s), of_nat (nPrsOpen s), of_nat (nMerged s), of_int (aiPct s),
      of_nat (nFailed s), of_nat (tel_of tel_tokens s), of_nat (tel_of tel_merged s)]"

record blocked_row =
  br_task :: jstr
  br_title :: jstr
  br_reason :: jstr

definition dash_blocked :: "dash \<Rightarrow> blocked_row list" where
  "dash_blocked s =
     map (\<lambda>i. \<lparr>br_task = di_task i, br_title = (ux ''Interven{e7}{e3}o humana''),
              br_reason = (case di_reason i of Some r \<Rightarrow> r | None \<Rightarrow> (ux ''Aguardando decis{e3}o''))\<rparr>) (or_empty (d_ints s))
     @ map (\<lambda>t. \<lparr>br_task = task_id t, br_title = task_title t, br_reason = (u ''Aguardando desbloqueio'')\<rparr>)
         (filter (status_in [(u ''blocked'')]) (d_tk s))
     @ map (\<lambda>t. \<lparr>br_task = task_id t, br_title = task_title t, br_reason = (ux ''Falhou {2014} verificar logs'')\<rparr>)
         (filter (status_in [(u ''failed'')]) (d_tk s))"

abbreviation BLOCKED_PER_PAGE :: nat where "BLOCKED_PER_PAGE \<equiv> 2"

definition blockedSlice :: "dash \<Rightarrow> blocked_row list" where
  "blockedSlice s = jslice (blockedPage s * BLOCKED_PER_PAGE) ((blockedPage s + 1) * BLOCKED_PER_PAGE) (dash_blocked s)"

definition ceil_pages :: "dash \<Rightarrow> nat" where
  "ceil_pages s = (length (dash_blocked s) + 1) div 2"

text \<open>
  \<open>Math.min(Math.ceil(n / 2) - 1, p + 1)\<close>: the button is rendered only when the list has more than
  one page, so the subtraction does not go below zero.
\<close>

fun dash_core :: "dash_event \<Rightarrow> dash \<Rightarrow> dash" where
  "dash_core D_mount s = s\<lparr>d_loading := loading_effect (d_workers s) (d_loading s)\<rparr>"
| "dash_core (D_workers r) s =
     (let d = poll_accept r (d_workers s) in s\<lparr>d_workers := d, d_loading := loading_effect d (d_loading s)\<rparr>)"
| "dash_core (D_tasks r) s = s\<lparr>d_tasks := poll_accept r (d_tasks s)\<rparr>"
| "dash_core (D_prs r) s = s\<lparr>d_prs := poll_accept r (d_prs s)\<rparr>"
| "dash_core (D_repos r) s = s\<lparr>d_repos := poll_accept r (d_repos s)\<rparr>"
| "dash_core (D_ints r) s = s\<lparr>d_ints := poll_accept r (d_ints s)\<rparr>"
| "dash_core (D_logs r) s = s\<lparr>d_logs := poll_accept r (d_logs s)\<rparr>"
| "dash_core (D_tel r) s = s\<lparr>d_tel := poll_accept r (d_tel s)\<rparr>"
| "dash_core (D_usage r) s = s\<lparr>d_usage := poll_accept r (d_usage s)\<rparr>"
| "dash_core (D_range v) s = s\<lparr>d_range := v\<rparr>"
| "dash_core D_toggle_pool s = s\<lparr>poolPaused := \<not> poolPaused s\<rparr>"
| "dash_core D_resume s = s\<lparr>poolPaused := False\<rparr>"
| "dash_core (D_pr_tab v) s = s\<lparr>prTab := v\<rparr>"
| "dash_core (D_log_filter v) s = s\<lparr>logFilter := v\<rparr>"
| "dash_core D_prev s = s\<lparr>blockedPage := blockedPage s - 1\<rparr>"
| "dash_core D_next s = s\<lparr>blockedPage := min (ceil_pages s - 1) (blockedPage s + 1)\<rparr>"

text \<open>No handler of the page talks to the server: the commands are always empty.\<close>

definition dash_step :: "dash_event \<Rightarrow> dash \<Rightarrow> dash \<times> unit cmd list" where
  "dash_step e s =
     (let s1 = dash_core e s in
      (s1\<lparr>d_series := (if e = D_mount then map (\<lambda>(v, cur). useSeries_push 24 v cur) (zip (series_values s1) (d_series s))
                     else series_effects (series_values s) (series_values s1) (d_series s))\<rparr>, []))"

subsection \<open>Derived values\<close>

definition weekSecsUsed :: "dash \<Rightarrow> rat" where "weekSecsUsed s = usg_of 0 us_used s"
definition weekSecsCap :: "dash \<Rightarrow> rat" where "weekSecsCap s = usg_of 129600 us_cap s"
definition weekHoursUsed :: "dash \<Rightarrow> rat" where "weekHoursUsed s = jdiv (weekSecsUsed s) 3600"
definition weekHoursCap :: "dash \<Rightarrow> rat" where "weekHoursCap s = jdiv (weekSecsCap s) 3600"

definition spendPct :: "dash \<Rightarrow> rat" where
  "spendPct s = (if weekSecsCap s > 0 then min 100 (jmul (jdiv (weekSecsUsed s) (weekSecsCap s)) 100) else 0)"

definition spendColor :: "dash \<Rightarrow> jstr" where
  "spendColor s =
     (if spendPct s > 80 then (u ''var(--red)'') else if spendPct s > 60 then (u ''var(--orange)'') else (u ''var(--green)''))"

definition log_shown :: "jstr \<Rightarrow> jstr \<Rightarrow> bool" where
  "log_shown f st =
     (if f = (u ''info'') then st \<notin> set [(u ''failed''), (u ''changes''), (u ''warn''), (u ''error'')]
      else if f = (u ''warn'') then st = (u ''warn'')
      else if f = (u ''error'') then st \<in> set [(u ''failed''), (u ''changes''), (u ''error'')]
      else True)"

definition filteredLogs :: "dash \<Rightarrow> dash_log list" where
  "filteredLogs s = last_n 40 (filter (\<lambda>l. log_shown (logFilter s) (dl_status l)) (or_empty (d_logs s)))"

definition filteredPrs :: "dash \<Rightarrow> dash_pr list" where
  "filteredPrs s =
     filter (\<lambda>p. if prTab s = (u ''revisao'') then dp_status p = (u ''in_review'')
                 else if prTab s = (u ''ci'') then dp_ai p = Some (u ''failed'')
                 else True) (d_pr s)"

definition d_counts :: "dash \<Rightarrow> bucket list" where
  "d_counts s =
     map (\<lambda>(lab, tone, st). \<lparr>b_label = lab, b_n = length (filter (status_in st) (d_tk s)), b_tone = tone\<rparr>) BUCKETS"

definition proximas :: "dash \<Rightarrow> task list" where
  "proximas s = take 3 (filter (status_in [(u ''queued''), (u ''planning'')]) (d_tk s))"

definition spendSeries :: "dash \<Rightarrow> rat list" where
  "spendSeries s =
     (let sW = d_series s ! 0 in
      if length sW > 1 then map (\<lambda>i. jmul (jdiv (of_nat i) (of_nat (length sW))) (spendPct s)) [0..<length sW]
      else [0, spendPct s])"

record kpi =
  k_label :: jstr
  k_value :: rat
  k_unit :: jstr
  k_sub :: jstr
  k_series :: "rat list"
  k_line :: jstr
  k_area :: jstr

definition kpis :: "dash \<Rightarrow> kpi list" where
  "kpis s =
     [\<lparr>k_label = (u ''Workers ativos''), k_value = of_nat (length (d_w s)), k_unit = [],
       k_sub = (u ''de '') @ nshow (usg_of 1 us_max s) @ (u '' slot(s)''), k_series = d_series s ! 0, k_line = (u ''--green''), k_area = (u ''--green-tint'')\<rparr>,
      \<lparr>k_label = (u ''Fila''), k_value = of_nat (nFila s), k_unit = [], k_sub = (u ''aguardando''), k_series = d_series s ! 1,
       k_line = (u ''--orange''), k_area = (u ''--orange-tint'')\<rparr>,
      \<lparr>k_label = (u ''PRs abertos''), k_value = of_nat (nPrsOpen s), k_unit = [], k_sub = (ux ''revis{e3}o/merge''), k_series = d_series s ! 2,
       k_line = (u ''--blue''), k_area = (u ''--blue-tint'')\<rparr>,
      \<lparr>k_label = (ux ''Conclu{ed}das''), k_value = of_nat (nMerged s), k_unit = [], k_sub = (u ''merge realizado''), k_series = d_series s ! 3,
       k_line = (u ''--green''), k_area = (u ''--green-tint'')\<rparr>,
      \<lparr>k_label = (ux ''Aprova{e7}{e3}o IA''), k_value = of_int (aiPct s), k_unit = (u ''%''),
       k_sub = nshow (aiOk s) @ (u ''/'') @ nshow (aiTot s) @ (u '' PRs''), k_series = d_series s ! 4,
       k_line = (u ''--accent''), k_area = (u ''--accent-tint'')\<rparr>,
      \<lparr>k_label = (u ''Falhas''), k_value = of_nat (nFailed s), k_unit = [], k_sub = (u ''no ciclo''), k_series = d_series s ! 5,
       k_line = (u ''--red''), k_area = (u ''--red-tint'')\<rparr>]"

end
