(* ===== verification/Dashboard_View.thy ===== *)
theory Dashboard_View
  imports Dashboard
begin

text \<open>
  What the dashboard of app/page.tsx renders, section by section, and the facts about its derived
  values: percentages, sparklines, series and the attention list.
\<close>

definition path_el :: "jstr \<Rightarrow> 'e node" where
  "path_el p = El ''path'' [Sty ''d'' p] []"

definition dash_header :: "dash \<Rightarrow> dash_event node list" where
  "dash_header s =
     [dv [dv [spt (ux ''Opera{e7}{e3}o''), El ''h1'' [] [Txt (u ''Dashboard'')],
              El ''p'' [] [Txt (ux ''Vis{e3}o geral do pipeline {b7} ''), sp [Txt (nshow (length (or_empty (d_repos s)))), Txt (ux '' reposit{f3}rio(s)'')],
                Txt (u '' ''), Txt (ux ''{b7} ''), sp [Txt (nshow (length (d_w s))), Txt (u '' worker(s)'')]]],
          dv [dv (map (\<lambda>(k, l). El ''button'' ([Key k, OnClick (D_range k)] @ tabBtn (k = d_range s)) [Txt l]) RANGE_OPTS),
              El ''button'' [OnClick D_toggle_pool,
                  Sty ''background'' (if poolPaused s then (u ''var(--green)'') else (u ''var(--red-tint)''))]
                [svg, Txt (if poolPaused s then (u ''Retomar'') else (u ''Pausar pool''))]]]]
     @ shown (poolPaused s)
         [El ''div'' [ClassName (u ''apf-rise'')]
            [svg, dv [dvt (u ''Pipeline pausado globalmente''),
                      dvt (ux ''Workers atuais concluir{e3}o suas tarefas; nenhum novo ser{e1} iniciado at{e9} retomar.'')],
             btn D_resume [Txt (u ''Retomar agora'')]]]"

definition pool_hero :: "(jstr \<Rightarrow> jstr) \<Rightarrow> dash \<Rightarrow> dash_event node" where
  "pool_hero uc s =
     dv [dv [],
         dv [sp [spt (u ''Estado do pool''), sp [Txt (u ''Modo ''), Txt (uc (usg_of (u ''free'') us_plan s))]],
             sp [El ''span'' [ClassName (u ''apf-live'')] [], Txt (u ''tempo real'')]],
         dv [dv (shown (d_running s) [El ''span'' [Sty ''background'' (d_poolColor s)] [],
                                      El ''span'' [Sty ''background'' (d_poolColor s)] []]
                 @ [El ''span'' [Sty ''background'' (d_poolColor s)] []]),
             dv [El ''span'' [Sty ''color'' (d_poolColor s)]
                   [Txt (if poolPaused s then (u ''PAUSADO'') else if d_running s then (u ''RODANDO'') else (u ''PARADO''))],
                 sp [Txt (nshow (length (d_w s))), Txt (u '' worker(s) ativo(s)'')]]],
         dv (map (\<lambda>i. El ''span'' [Key (nshow i),
                   Sty ''background'' (if i < length (d_w s) then (u ''var(--green)'') else (u ''var(--border)''))] [])
               [0..<max (usg_of 1 us_max s) 8]
             @ [sp [Txt (nshow (length (d_w s))), Txt (u ''/''), Txt (nshow (usg_of 1 us_max s)), Txt (u '' workers'')]]),
         dv (map (\<lambda>(i, v, l). El ''div'' [Key (nshow i)] [sp [Txt (nshow v)], spt l])
               (enumerate 0 [(length (or_empty (d_repos s)), (ux ''reposit{f3}rios'')), (nFila s, (u ''na fila'')), (nPrsOpen s, (u ''PRs abertos''))]))]"

definition spend_gauge :: "dash \<Rightarrow> dash_event node" where
  "spend_gauge s =
     (let spendSpark = sparkPath (spendSeries s) 240 42 in
      dv [dv [spt (u ''Uso da semana''), sp [Txt (u ''teto ''), Txt (to_fixed 0 (weekHoursCap s)), Txt (u ''h'')]],
          dv [sp [Txt (to_fixed 1 (weekHoursUsed s)), Txt (u ''h'')]],
          dv [El ''div'' [StyPct ''width'' (spendPct s), Sty ''background'' (spendColor s)] [sp []]],
          dv [El ''span'' [Sty ''color'' (spendColor s)] [Txt (to_fixed 1 (spendPct s)), Txt (u ''% do teto'')],
              sp [Txt (u ''plano ''), spt (usg_of (u ''free'') us_plan s)]],
          El ''svg'' [] [path_el (snd spendSpark), path_el (fst spendSpark)],
          dv [svg, Txt (ux ''Pausa autom{e1}tica ao atingir o teto semanal'')]])"

definition kpi_card :: "nat \<times> kpi \<Rightarrow> dash_event node" where
  "kpi_card ik =
     (let k = snd ik; spark = sparkPath (if length (k_series k) > 1 then k_series k else [0, k_value k]) 120 30 in
      El ''div'' [Key (nshow (fst ik))]
        [spt (k_label k),
         dv [spt (ishow \<lfloor>k_value k\<rfloor>), spt (k_unit k)],
         spt (k_sub k),
         El ''svg'' [] [path_el (snd spark), El ''path'' [Sty ''d'' (fst spark), Sty ''stroke'' (css_var (k_line k))] []]])"

definition kpi_row :: "dash \<Rightarrow> dash_event node" where
  "kpi_row s = dv (map kpi_card (enumerate 0 (kpis s)))"

definition dash_worker_row :: "dash_worker \<Rightarrow> dash_event node" where
  "dash_worker_row x =
     El ''div'' [Key (dw_id x)]
       [dv ([El ''div'' [Sty ''color'' (if dw_status x = (u ''running'') then (u ''var(--green)'')
                                       else if dw_status x = (u ''paused'') then (u ''var(--red)'') else (u ''var(--mute)''))]
               (map (\<lambda>(di, delay). El ''span'' [Key (nshow di),
                   Sty ''height'' (if di = 0 then (u ''45%'') else if di = 1 then (u ''90%'') else (u ''65%'')),
                   Sty ''animation'' (if dw_status x = (u ''running'') then (u ''dotpulse 1s ease-in-out '') @ delay @ (u '' infinite'') else (u ''none''))] [])
                 (enumerate 0 [(u ''0s''), (u ''.18s''), (u ''.36s'')])),
             spt (short (dw_id x) 16)]
            @ shown (dw_status x = (u ''paused'')) [spt (u ''pausado'')]
            @ [spt (if dw_task x \<noteq> [] then short (dw_task x) 12 else []),
               spt (if dw_task x \<noteq> [] then (u ''tarefa em andamento'') else (u ''aguardando'')),
               El ''span'' (badge (dw_status x)) [Txt (dw_status x)]]),
        dv [spt (ux ''{203a}''), Txt (if dw_step x \<noteq> [] then dw_step x else (u ''aguardando tarefa''))]]"

definition workers_card :: "jstr \<Rightarrow> dash \<Rightarrow> dash_event node" where
  "workers_card lang s =
     dv [dv [dv [spt (u ''Workers ao vivo''),
                 El ''span'' [Sty ''background'' (if d_running s then (u ''var(--green-tint)'') else (u ''var(--border)''))]
                   (shown (d_running s) [El ''span'' [ClassName (u ''apf-live'')] []]
                    @ [Txt (if poolPaused s then (u ''pausado'') else if d_running s then (u ''ao vivo'') else (u ''parado''))])],
             El ''a'' [Href (u ''/live'')] [Txt (ux ''ver Live {2192}'')]],
         dv (map dash_worker_row (d_w s)
             @ shown (d_w s = []) [dvt (useT lang (u ''nenhum worker ligado'') None)])]"

definition dash_pr_row :: "dash_pr \<Rightarrow> dash_event node" where
  "dash_pr_row p =
     El ''div'' [Key (dp_id p)]
       [dv [dv [spt (short (dp_id p) 8), spt (case dp_title p of Some t \<Rightarrow> t | None \<Rightarrow> (u ''Pull request''))]],
        dv [El ''span'' (badge (case dp_ai p of Some a \<Rightarrow> a | None \<Rightarrow> (u ''idle'')))
              [Txt (case dp_ai p of Some a \<Rightarrow> a | None \<Rightarrow> (u ''pendente''))]],
        dv [El ''span'' (badge (dp_status p)) [Txt (dp_status p)]],
        dv [spt (short (dp_id p) 6)]]"

definition prs_card :: "dash \<Rightarrow> dash_event node" where
  "prs_card s =
     dv [dv [spt (u ''Pull Requests''),
             dv (map (\<lambda>(k, l). El ''button'' ([Key k, OnClick (D_pr_tab k)] @ tabBtn (k = prTab s)) [Txt l]) PR_TABS)],
         dv [spt (u ''Pull request''), spt (ux ''Revis{e3}o IA''), spt (u ''Estado''), spt (u ''ID'')],
         dv (map dash_pr_row (filteredPrs s)
             @ shown (filteredPrs s = []) [dv [svg, spt (ux ''Nenhum PR neste filtro {2014} tudo fluindo.'')]]),
         dv [sp [Txt (nshow (length (filteredPrs s))), Txt (u '' resultado(s)'')], El ''a'' [Href (u ''/prs'')] [Txt (ux ''ver todos {2192}'')]]]"

definition states_card :: "dash \<Rightarrow> dash_event node" where
  "states_card s =
     dv ([dv [spt (u ''Estado das tarefas''), sp [Txt (nshow (length (d_tk s))), Txt (u '' no pipeline'')]],
          dv (if list_ex (\<lambda>c. b_n c > 0) (d_counts s)
              then map (\<lambda>(i, c). El ''span'' [Key (nshow i), Sty ''flex'' (nshow (b_n c)), Sty ''background'' (tone_var (b_tone c)),
                          Title (b_label c @ (u '': '') @ nshow (b_n c))] [])
                     (enumerate 0 (filter (\<lambda>c. b_n c > 0) (d_counts s)))
              else [El ''span'' [Sty ''background'' (u ''var(--border)'')] []]),
          dv (map (\<lambda>(i, c). El ''div'' [Key (nshow i)]
                [El ''span'' [Sty ''background'' (tone_var (b_tone c))] [], spt (b_label c), spt (nshow (b_n c))])
               (enumerate 0 (d_counts s)))]
         @ shown (proximas s \<noteq> [])
             [dv (spt (ux ''Pr{f3}ximas na fila'')
                  # map (\<lambda>q. El ''div'' [Key (task_id q)]
                       [spt (short (task_id q) 8), spt (task_title q), sp [sp [], Txt (u ''pronta'')]]) (proximas s))])"

definition blocked_el :: "nat \<times> blocked_row \<Rightarrow> dash_event node" where
  "blocked_el ib =
     El ''div'' [Key (nshow (fst ib))]
       [dv [spt (short (br_task (snd ib)) 10), spt (br_title (snd ib))],
        spt (br_reason (snd ib)),
        dv [El ''a'' [Href (u ''/interventions'')] [Txt (u ''Intervir'')], El ''button'' [] [Txt (u ''Reprocessar'')]]]"

definition attention_card :: "dash \<Rightarrow> dash_event node" where
  "attention_card s =
     dv ([dv [svg, spt (ux ''Precisa de aten{e7}{e3}o''),
              El ''span'' [Sty ''color'' (if dash_blocked s \<noteq> [] then (u ''var(--red)'') else (u ''var(--green)'')),
                           Sty ''background'' (if dash_blocked s \<noteq> [] then (u ''var(--red-tint)'') else (u ''var(--green-tint)''))]
                [Txt (nshow (length (dash_blocked s)))]],
          dv (if length (blockedSlice s) > 0 then map blocked_el (enumerate 0 (blockedSlice s))
              else [dv [svg, spt (ux ''Tudo certo {2014} sem bloqueios.'')]])]
         @ shown (length (dash_blocked s) > BLOCKED_PER_PAGE)
             [dv [sp [Txt (nshow (blockedPage s + 1)), Txt (u ''/''), Txt (nshow (ceil_pages s))],
                  dv [El ''button'' [OnClick D_prev, Disabled (blockedPage s = 0)] [Txt (ux ''{2039}'')],
                      btn D_next [Txt (ux ''{203a}'')]]]])"

definition telemetry_card :: "dash \<Rightarrow> dash_event node" where
  "telemetry_card s =
     (let sTel = d_series s ! 6; sThr = d_series s ! 7;
          telCustoSpark = sparkPath (if length sTel > 1 then sTel else [0, of_nat (tel_of tel_tokens s)]) 150 30;
          telThruSpark = sparkPath (if length sThr > 1 then sThr else [0, of_nat (tel_of tel_merged s)]) 150 30;
          mini = (\<lambda>(i, lab, v, spark, stroke). El ''div'' [Key (nshow i)]
            [spt lab, spt v, El ''svg'' [] [path_el (snd spark), El ''path'' [Sty ''d'' (fst spark), Sty ''stroke'' stroke] []]]) in
      dv [dv [spt (u ''Telemetria''), El ''a'' [Href (u ''/telemetry'')] [Txt (ux ''detalhes {2192}'')]],
          dv (map mini
            [(0, (u ''Throughput''), nshow (tel_of tel_merged s) @ (u '' tasks''), telThruSpark, (u ''var(--green)'')),
             (1, (u ''Tokens''), to_fixed 1 (jdiv (of_nat (tel_of tel_tokens s)) 1000) @ (u ''k''), telCustoSpark, (u ''var(--accent)''))]),
          dv [spt (u ''Worker-hours (semana)''), sp [Txt (to_fixed 1 (weekHoursUsed s)), Txt (u ''h'')]]])"

definition dash_log_line :: "nat \<times> dash_log \<Rightarrow> dash_event node" where
  "dash_log_line il =
     (let l = snd il; (lv, lc) = logLevel (dl_status l) in
      El ''div'' [Key (nshow (fst il))]
        [spt (jslice 11 19 (or_blank (dl_when l))),
         El ''span'' [Sty ''color'' lc] [Txt lv],
         sp [Txt (dl_type l), Txt (u ''#''), Txt (short (replace_prefix (u ''tsk_'') [] (or_blank (dl_task l))) 4)],
         spt (case dl_log l of Some x \<Rightarrow> x | None \<Rightarrow> dl_status l)])"

definition log_card :: "dash \<Rightarrow> dash_event node" where
  "log_card s =
     dv [dv [dv [spt (u ''Log ao vivo''), El ''span'' [ClassName (u ''apf-live'')] []],
             dv (map (\<lambda>(k, l). El ''button'' ([Key k, OnClick (D_log_filter k)] @ tabBtn (k = logFilter s)) [Txt l]) LOG_FILTERS)],
         dv (map dash_log_line (enumerate 0 (filteredLogs s))
             @ shown (filteredLogs s = []) [dvt (ux ''sem logs {2014} aguardando eventos do pipeline{2026}'')]
             @ [dv [Txt (u ''apifor@pool ~$ ''), El ''span'' [ClassName (u ''apf-cursor'')] []]])]"

definition dashboard_view :: "(jstr \<Rightarrow> jstr) \<Rightarrow> jstr \<Rightarrow> dash \<Rightarrow> dash_event node list" where
  "dashboard_view uc lang s =
     dash_header s
     @ [dv [pool_hero uc s, spend_gauge s], kpi_row s,
        dv [dv [workers_card lang s, prs_card s],
            dv [states_card s, attention_card s, telemetry_card s, log_card s]]]"

subsection \<open>Sparklines\<close>

lemma sp_y_range:
  assumes "v \<in> set d" "8 \<le> h" "h < 2 ^ 53"
  shows "6 \<le> sp_y d h v" "sp_y d h v \<le> of_int h - 2"
proof -
  let ?m = "jmul (spark_unit d v) (of_int (h - 8))"
  have m: "0 \<le> ?m" "?m \<le> of_int (h - 8)"
    using jmul_unit_range [OF spark_unit_range [OF assms(1)], of "h - 8"] assms(2,3) by simp_all
  have "of_int 4 \<le> of_int (h - 4) - ?m" "of_int (h - 4) - ?m \<le> of_int (h - 4)"
    using m by simp_all
  then have s: "of_int 4 \<le> jsub (of_int (h - 4)) ?m" "jsub (of_int (h - 4)) ?m \<le> of_int (h - 4)"
    unfolding jsub_def using assms(2,3) by (intro fl_ge_int fl_le_int; simp)+
  then have "of_int 6 \<le> jsub (of_int (h - 4)) ?m + 2" "jsub (of_int (h - 4)) ?m + 2 \<le> of_int (h - 2)"
    by simp_all
  then have "of_int 6 \<le> sp_y d h v" "sp_y d h v \<le> of_int (h - 2)"
    unfolding sp_y_def jadd_def using assms(2,3) by (intro fl_ge_int fl_le_int; simp)+
  then show "6 \<le> sp_y d h v" "sp_y d h v \<le> of_int h - 2" by simp_all
qed

lemma sp_data_length: "2 \<le> length (sp_data data)"
  by (auto simp: sp_data_def)

lemma sparkPath_box:
  assumes "(x, y) \<in> set (sparkPath_pts data w h)" "0 \<le> w" "w < 2 ^ 53" "8 \<le> h" "h < 2 ^ 53"
  shows "0 \<le> x \<and> x \<le> of_int w \<and> 6 \<le> y \<and> y \<le> of_int h - 2"
proof -
  obtain i v where iv: "(i, v) \<in> set (enumerate 0 (sp_data data))"
    and xy: "x = spark_x (length (sp_data data)) i w" "y = sp_y (sp_data data) h v"
    using assms(1) by (auto simp: sparkPath_pts_def Let_def)
  from iv have i: "i < length (sp_data data)" and v: "v \<in> set (sp_data data)"
    by (auto simp: in_set_enumerate_eq)
  show ?thesis
    unfolding xy
    using spark_x_range [OF i sp_data_length assms(2,3)] sp_y_range [OF v assms(4,5)] by simp
qed

subsection \<open>Percentages\<close>

lemma aiOk_le: "aiOk s \<le> aiTot s"
  unfolding aiOk_def aiTot_def by (rule filter_le_count) (simp add: or_blank_def)

lemma aiPct_range: "0 \<le> aiPct s \<and> aiPct s \<le> 100"
proof (cases "aiTot s = 0")
  case False
  then have "of_int 0 \<le> jdiv (100 * of_nat (aiOk s)) (of_nat (aiTot s))"
    "jdiv (100 * of_nat (aiOk s)) (of_nat (aiTot s)) \<le> of_int 100"
    using percent_range [of "of_nat (aiOk s)" "of_nat (aiTot s)"] aiOk_le [of s] by simp_all
  with False show ?thesis using jround_range [of 0 _ 100] by (simp add: aiPct_def)
qed (simp add: aiPct_def)

lemma spendPct_range:
  assumes "0 \<le> weekSecsUsed s"
  shows "0 \<le> spendPct s \<and> spendPct s \<le> 100"
proof -
  have "0 \<le> jmul (jdiv (weekSecsUsed s) (weekSecsCap s)) 100" if "0 < weekSecsCap s"
    using assms that by (simp add: jmul_def jdiv_def fl_0_le)
  then show ?thesis by (simp add: spendPct_def)
qed

subsection \<open>Series\<close>

text \<open>
  After the mount every series is a non-empty window of at most 24 values whose last one is the
  value shown.
\<close>

definition series_inv :: "dash \<Rightarrow> bool" where
  "series_inv s =
     list_all2 (\<lambda>v cur. cur \<noteq> [] \<and> length cur \<le> 24 \<and> last cur = v) (series_values s) (d_series s)"

lemma series_values_core: "series_values (s\<lparr>d_series := x\<rparr>) = series_values s"
  by (simp add: series_values_def nFila_def nPrsOpen_def nMerged_def nFailed_def aiPct_def aiTot_def aiOk_def tel_of_def)

lemma dash_core_series: "d_series (dash_core e s) = d_series s"
  by (cases e) (simp_all add: Let_def)

lemma length_series_values: "length (series_values s) = 8"
  by (simp add: series_values_def)

lemma series_inv_mount: "length (d_series s) = 8 \<Longrightarrow> series_inv (fst (dash_step D_mount s))"
  by (simp add: series_inv_def dash_step_def Let_def series_values_core series_mount length_series_values del: dash_core.simps)

lemma series_inv_step:
  assumes "series_inv s"
  shows "series_inv (fst (dash_step e s))"
proof (cases "e = D_mount")
  case False
  with assms show ?thesis
    by (simp add: series_inv_def dash_step_def Let_def series_values_core series_effects_inv length_series_values)
next
  case True
  have "length (d_series s) = 8"
    using assms by (simp add: series_inv_def list_all2_lengthD [symmetric] length_series_values)
  with True show ?thesis by (simp only: series_inv_mount)
qed

interpretation dash_machine: stepper "fst (dash_step D_mount dash_start)" "\<lambda>e s. fst (dash_step e s)" series_inv
proof
  show "series_inv (fst (dash_step D_mount dash_start))"
    by (rule series_inv_mount) (simp add: dash_start_def)
qed (rule series_inv_step)

text \<open>The attention list of the dashboard and of the intervention page count the same tasks.\<close>

lemma dash_blocked_length:
  "length (dash_blocked s) = length (or_empty (d_ints s))
     + length (filter (\<lambda>t. task_status t = (u ''blocked'') \<or> task_status t = (u ''failed'')) (d_tk s))"
proof -
  have "length (filter (status_in [(u ''blocked'')]) ts) + length (filter (status_in [(u ''failed'')]) ts)
      = length (filter (\<lambda>t. task_status t = (u ''blocked'') \<or> task_status t = (u ''failed'')) ts)" for ts
    by (induction ts) (auto simp: status_in_def)
  then show ?thesis by (simp add: dash_blocked_def)
qed

lemma blockedSlice_nonempty_iff:
  "blockedSlice s \<noteq> [] \<longleftrightarrow> blockedPage s < ceil_pages s"
proof -
  have "blockedSlice s \<noteq> [] \<longleftrightarrow> blockedPage s * 2 < length (dash_blocked s)"
    by (auto simp: blockedSlice_def jslice_def)
  also have "\<dots> \<longleftrightarrow> blockedPage s < ceil_pages s"
    unfolding ceil_pages_def by linarith
  finally show ?thesis .
qed

text \<open>
  When the attention list shrinks to one page while the user is on a later one, the card says
  that nothing is blocked, next to a count that is not zero, and offers no button to go back.
\<close>

lemma attention_card_denies_its_count:
  assumes "dash_blocked s \<noteq> []" "length (dash_blocked s) \<le> BLOCKED_PER_PAGE" "0 < blockedPage s"
  shows "(ux ''Tudo certo {2014} sem bloqueios.'') \<in> set (all_texts [attention_card s])
    \<and> nshow (length (dash_blocked s)) \<in> set (all_texts [attention_card s]) \<and> all_clicks [attention_card s] = []"
proof -
  have "ceil_pages s \<le> blockedPage s" using assms(2,3) by (simp add: ceil_pages_def)
  then have "blockedSlice s = []" using blockedSlice_nonempty_iff [of s] by auto
  then show ?thesis using assms(2) by (simp add: attention_card_def shown_def)
qed

text \<open>The approval rate of the dashboard is a percentage, and so is the share of the weekly cap.\<close>

lemma dashboard_percentages:
  assumes "0 \<le> weekSecsUsed s"
  shows "0 \<le> aiPct s \<and> aiPct s \<le> 100 \<and> 0 \<le> spendPct s \<and> spendPct s \<le> 100"
  using aiPct_range [of s] spendPct_range [OF assms] by simp

text \<open>
  With the same data polled, the attention count of the dashboard is the one of the
  intervention page plus the blocked or failed tasks that also await a decision, which the
  dashboard counts twice.
\<close>

lemma attention_counts_compared:
  assumes "map di_task (or_empty (d_ints s)) = map iv_task (or_empty (i_ints si))" "d_tasks s = i_tasks si"
  shows "length (dash_blocked s) = length (allItems dm now si)
    + length (filter (\<lambda>t. (task_status t = (u ''blocked'') \<or> task_status t = (u ''failed''))
        \<and> task_id t \<in> set (map iv_task (or_empty (i_ints si)))) (or_empty (i_tasks si)))"
proof -
  have l: "length (or_empty (d_ints s)) = length (or_empty (i_ints si))"
    using assms(1) by (metis length_map)
  have "length (filter P ts) = length (filter (\<lambda>t. P t \<and> Q t) ts) + length (filter (\<lambda>t. P t \<and> \<not> Q t) ts)"
    for P Q and ts :: "task list"
    by (induction ts) auto
  note split = this [of "\<lambda>t. task_status t = (u ''blocked'') \<or> task_status t = (u ''failed'')" "or_empty (i_tasks si)"
      "\<lambda>t. task_id t \<in> set (map iv_task (or_empty (i_ints si)))"]
  show ?thesis
    by (simp add: dash_blocked_length allItems_def decisions_def blocked_items_def l assms(2) split)
qed

text \<open>
  After the mount, through any events, each of the eight series is a non-empty window of at
  most 24 values that ends with the value the dashboard shows.
\<close>

lemma series_end_with_the_shown_value:
  "let s = run (\<lambda>e s. fst (dash_step e s)) (D_mount # es) dash_start in
     list_all2 (\<lambda>v cur. cur \<noteq> [] \<and> length cur \<le> 24 \<and> last cur = v) (series_values s) (d_series s)"
  using dash_machine.run_inv [of es] by (simp add: Let_def series_inv_def)

end
