(* ===== verification/Calendar.thy ===== *)
theory Calendar
  imports Js_Text
begin

text \<open>
  The part of the JavaScript Date the pages use: a local calendar day (month 0 to 11) and the
  normalisation of \<open>new Date(y, m, 0)\<close>, the last day of the month before \<open>m\<close>. Years are
  natural numbers, dates before the year 0 are left out.
\<close>

record date =
  yr :: nat
  mo :: nat
  dy :: nat

definition leap :: "nat \<Rightarrow> bool" where
  "leap y = (y mod 4 = 0 \<and> (y mod 100 \<noteq> 0 \<or> y mod 400 = 0))"

definition month_days :: "nat \<Rightarrow> nat \<Rightarrow> nat" where
  "month_days y m = (if m = 1 then (if leap y then 29 else 28) else if m \<in> {3, 5, 8, 10} then 30 else 31)"

text \<open>The year that \<open>new Date(y, m, d)\<close> takes \<open>y\<close> for: those from 0 to 99 count from 1900.\<close>

definition js_year :: "nat \<Rightarrow> nat" where
  "js_year y = (if y < 100 then 1900 + y else y)"

lemma js_year_pos [simp]: "0 < js_year y"
  by (simp add: js_year_def)

text \<open>\<open>new Date(y, m, 0)\<close> for a month \<open>m\<close> from 0 to 12, and \<open>new Date(y, m, 1)\<close>.\<close>

definition day_zero :: "nat \<Rightarrow> nat \<Rightarrow> date" where
  "day_zero y m =
     (let n = js_year y
      in if m = 0 then \<lparr>yr = n - 1, mo = 11, dy = 31\<rparr> else \<lparr>yr = n, mo = m - 1, dy = month_days n (m - 1)\<rparr>)"

definition day_one :: "nat \<Rightarrow> nat \<Rightarrow> date" where
  "day_one y m = \<lparr>yr = js_year y, mo = m, dy = 1\<rparr>"

text \<open>The day after a day: the specification the pages' periods are checked against.\<close>

definition next_day :: "date \<Rightarrow> date" where
  "next_day d =
     (if dy d < month_days (yr d) (mo d) then d\<lparr>dy := dy d + 1\<rparr>
      else if mo d < 11 then \<lparr>yr = yr d, mo = mo d + 1, dy = 1\<rparr>
      else \<lparr>yr = yr d + 1, mo = 0, dy = 1\<rparr>)"

lemma next_day_zero: "m \<le> 11 \<Longrightarrow> next_day (day_zero y m) = \<lparr>yr = js_year y, mo = m, dy = 1\<rparr>"
  by (auto simp: next_day_def day_zero_def month_days_def Let_def)

lemma day_zero_next: "m \<le> 11 \<Longrightarrow> day_zero y (m + 1) = \<lparr>yr = js_year y, mo = m, dy = month_days (js_year y) m\<rparr>"
  by (simp add: day_zero_def Let_def)

lemma month_days_range: "28 \<le> month_days y m \<and> month_days y m \<le> 31"
  by (simp add: month_days_def)

definition valid_date :: "date \<Rightarrow> bool" where
  "valid_date d = (mo d \<le> 11 \<and> 1 \<le> dy d \<and> dy d \<le> month_days (yr d) (mo d))"

end
