(* ===== verification/Usage.thy ===== *)
theory Usage
  imports Page_Kit Calendar
begin

text \<open>
  The usage page, app/usage/page.tsx: the billing cycle, the meters against the limits of the plan,
  and the tables of consumption, whose figures are constants of the source. \<open>uc\<close> is toUpperCase and
  \<open>month_short\<close> the locale's short month name.
\<close>

record plan_usage =
  uz_plan :: jstr
  uz_max :: "nat option"
  uz_active :: nat
  uz_used :: nat
  uz_cap :: nat

record tel_usage =
  ut_tasks :: nat
  ut_tokens :: nat

definition fmtH :: "nat \<Rightarrow> jstr" where
  "fmtH s = (if s \<ge> 3600 then to_fixed 1 (jdiv (of_nat s) 3600) @ (u ''h'') else nshow s @ (u ''s''))"

definition fmtTok :: "nat \<Rightarrow> jstr" where
  "fmtTok n =
     (if n \<ge> 1000000 then to_fixed 1 (jdiv (of_nat n) 1000000) @ (u ''M'')
      else if n \<ge> 1000 then to_fixed 0 (jdiv (of_nat n) 1000) @ (u ''K'')
      else nshow n)"

definition barColor :: "rat \<Rightarrow> jstr" where
  "barColor pct = (if pct > 80 then (u ''var(--red)'') else if pct > 60 then (u ''var(--orange)'') else (u ''var(--accent)''))"

definition API_MODELS :: "(jstr \<times> jstr \<times> jstr \<times> jstr \<times> rat) list" where
  "API_MODELS = [
     ((u ''claude-sonnet-4-5''), (u ''Anthropic''), (u ''2,1M''), (u ''R$ 2.700''), 72),
     ((u ''claude-haiku-4-5''), (u ''Anthropic''), (u ''1,8M''), (u ''R$ 1.890''), 58),
     ((u ''gpt-4o-mini''), (u ''OpenAI''), (u ''0,7M''), (u ''R$   950''), 24)]"

definition SUB_MODELS :: "(jstr \<times> jstr \<times> nat \<times> jstr \<times> jstr) list" where
  "SUB_MODELS = [
     ((u ''claude-sonnet-4-5''), (u ''Max''), 68, (ux ''5M/m{ea}s''), (u ''3,4M'')),
     ((u ''claude-haiku-4-5''), (u ''Max''), 34, (ux ''10M/m{ea}s''), (u ''3,4M''))]"

definition INST_USE :: "(jstr \<times> jstr \<times> jstr \<times> jstr \<times> jstr \<times> rat) list" where
  "INST_USE = [
     ((u ''cld-1a2b3c''), (u ''sa-east-1''), (u ''312h''), (u ''1.248''), (u ''R$ 599''), 81),
     ((u ''cld-7g8h9i''), (u ''us-east-1''), (u ''298h''), (u ''2.384''), (u ''R$ 1.144''), 94),
     ((u ''cld-6p7q8r''), (u ''eu-west-1''), (u ''276h''), (u ''4.416''), (u ''R$ 2.120''), 71),
     ((u ''cld-0j1k2l''), (u ''us-east-1''), (u ''187h''), (u ''748''), (u ''R$ 359''), 48)]"

definition bar_width :: "rat \<Rightarrow> rat" where
  "bar_width pct = min 100 (max 0 pct)"

definition miniBar :: "rat \<Rightarrow> 'e node" where
  "miniBar pct = dv [El ''div'' [StyPct ''width'' (bar_width pct), Sty ''background'' (barColor pct)] []]"

record usage_page =
  u_u :: "plan_usage option"
  u_tel :: "tel_usage option"
  cycleLabel :: jstr
  daysLeft :: "nat option"
  u_loading :: bool
  settled_u :: bool
  settled_tel :: bool

datatype usage_tag = Get_usage bool | Get_tel bool

text \<open>The flag of an answer tells the first load, whose Promise.allSettled ends the loading.\<close>

datatype usage_event =
    U_mount date
  | U_tick
  | U_usage bool "plan_usage answer outcome"
  | U_tel bool "tel_usage answer outcome"

definition usage_start :: usage_page where
  "usage_start = \<lparr>u_u = None, u_tel = None, cycleLabel = [], daysLeft = None, u_loading = True,
     settled_u = False, settled_tel = False\<rparr>"

definition usage_load :: "bool \<Rightarrow> usage_tag cmd list" where
  "usage_load first = [Send GET (u ''/v1/usage'') None (Get_usage first), Send GET (u ''/v1/telemetry'') None (Get_tel first)]"

definition settle_first :: "usage_page \<Rightarrow> usage_page" where
  "settle_first s = (if settled_u s \<and> settled_tel s then s\<lparr>u_loading := False\<rparr> else s)"

fun usage_step :: "(nat \<Rightarrow> jstr) \<Rightarrow> usage_event \<Rightarrow> usage_page \<Rightarrow> usage_page \<times> usage_tag cmd list" where
  "usage_step month_short (U_mount now) s =
     (let last_day = dy (day_zero (yr now) (mo now + 1)) in
      (s\<lparr>daysLeft := Some (last_day - dy now),
         cycleLabel := (ux ''Ciclo 01{2013}'') @ nshow last_day @ (u '' '') @ remove1 46 (month_short (mo now)) @ (u '' '') @ nshow (yr now)\<rparr>,
       usage_load True))"
| "usage_step month_short U_tick s = (s, usage_load False)"
| "usage_step month_short (U_usage first r) s =
     (let s1 = s\<lparr>u_u := take_answer r (u_u s)\<rparr> in
      (if first then settle_first (s1\<lparr>settled_u := True\<rparr>) else s1, []))"
| "usage_step month_short (U_tel first r) s =
     (let s1 = s\<lparr>u_tel := take_answer r (u_tel s)\<rparr> in
      (if first then settle_first (s1\<lparr>settled_tel := True\<rparr>) else s1, []))"

subsection \<open>Meters\<close>

definition planName :: "(jstr \<Rightarrow> jstr) \<Rightarrow> usage_page \<Rightarrow> jstr" where
  "planName uc s = (case u_u s of Some x \<Rightarrow> capital uc (uz_plan x) | None \<Rightarrow> (u ''Free''))"

definition pct_of :: "nat \<Rightarrow> nat \<Rightarrow> rat" where
  "pct_of a b = jdiv (jmul 100 (of_nat a)) (of_nat b)"

definition wPct :: "usage_page \<Rightarrow> rat" where
  "wPct s = (case u_u s of
     Some x \<Rightarrow> (case uz_max x of Some m \<Rightarrow> if m \<noteq> 0 then pct_of (uz_active x) m else 0 | None \<Rightarrow> 0) | None \<Rightarrow> 0)"

definition hPct :: "usage_page \<Rightarrow> rat" where
  "hPct s = (case u_u s of Some x \<Rightarrow> (if uz_cap x \<noteq> 0 then pct_of (uz_used x) (uz_cap x) else 0) | None \<Rightarrow> 0)"

definition is_free :: "usage_page \<Rightarrow> bool" where
  "is_free s = (map_option uz_plan (u_u s) = Some (u ''free''))"

definition tel_n :: "(tel_usage \<Rightarrow> nat) \<Rightarrow> usage_page \<Rightarrow> nat" where
  "tel_n f s = (case u_tel s of Some t \<Rightarrow> f t | None \<Rightarrow> 0)"

definition tPct :: "usage_page \<Rightarrow> rat" where
  "tPct s = (if is_free s then min 100 (pct_of (tel_n ut_tasks s) 50) else 0)"

definition tokPct :: "usage_page \<Rightarrow> rat" where
  "tokPct s = (if is_free s then min 100 (pct_of (tel_n ut_tokens s) 500000) else 0)"

record meter =
  m_label :: jstr
  m_used :: jstr
  m_total :: jstr
  m_pct :: rat

definition usg_n :: "(plan_usage \<Rightarrow> nat) \<Rightarrow> usage_page \<Rightarrow> nat" where
  "usg_n f s = (case u_u s of Some x \<Rightarrow> f x | None \<Rightarrow> 0)"

definition meters :: "jstr \<Rightarrow> usage_page \<Rightarrow> meter list" where
  "meters lang s =
     [\<lparr>m_label = useT lang (ux ''Workers simult{e2}neos'') (Some (u ''Concurrent workers'')),
       m_used = nshow (usg_n uz_active s),
       m_total = (case Option.bind (u_u s) uz_max of Some m \<Rightarrow> nshow m | None \<Rightarrow> (ux ''{221e}'')), m_pct = wPct s\<rparr>,
      \<lparr>m_label = useT lang (u ''Worker-hours / semana'') (Some (u ''Worker-hours / week'')),
       m_used = fmtH (usg_n uz_used s),
       m_total = (if usg_n uz_cap s \<noteq> 0 then fmtH (usg_n uz_cap s) else (ux ''{221e}'')), m_pct = hPct s\<rparr>,
      \<lparr>m_label = useT lang (ux ''Tarefas / m{ea}s'') (Some (u ''Tasks / month'')), m_used = nshow (tel_n ut_tasks s),
       m_total = (if is_free s then nshow 50 else (ux ''{221e}'')), m_pct = tPct s\<rparr>,
      \<lparr>m_label = useT lang (ux ''Tokens / m{ea}s'') (Some (u ''Tokens / month'')), m_used = fmtTok (tel_n ut_tokens s),
       m_total = (if is_free s then fmtTok 500000 else (ux ''{221e}'')), m_pct = tokPct s\<rparr>]"

subsection \<open>The view\<close>

definition meter_el :: "jstr \<Rightarrow> meter \<Rightarrow> usage_event node" where
  "meter_el lang m =
     El ''div'' [Key (m_label m)]
       [spt (m_label m), dv [spt (m_used m), sp [Txt (u ''/ ''), Txt (m_total m)]], miniBar (m_pct m),
        spt (if m_total m = (ux ''{221e}'') then useT lang (u ''sem limite'') (Some (u ''no limit''))
             else ishow (jround (m_pct m)) @ (u ''% '') @ useT lang (u ''do limite'') (Some (u ''of limit'')))]"

definition usage_head :: "(jstr \<Rightarrow> jstr) \<Rightarrow> jstr \<Rightarrow> usage_page \<Rightarrow> usage_event node" where
  "usage_head uc lang s =
     (let t = (\<lambda>p e. useT lang p (Some e)); n = planName uc s in
      pageHead lang (Some (t (ux ''Conta & cobran{e7}a'') (u ''Account & billing''))) (t (u ''Uso'') (u ''Usage''))
        (Some (t ((u ''Consumo do ciclo atual frente aos limites do plano '') @ n @ (u ''.''))
                 ((u ''Current cycle consumption against the '') @ n @ (u '' plan limits.''))))
        [dv (spt (if cycleLabel s \<noteq> [] then cycleLabel s else (ux ''{2014}''))
             # (case daysLeft s of
                  Some d \<Rightarrow> [sp [svg, Txt (nshow d), Txt (u '' ''),
                     Txt (if d = 1 then t (u ''dia restante'') (u ''day remaining'') else t (u ''dias restantes'') (u ''days remaining''))]]
                | None \<Rightarrow> []))])"

definition api_card :: "jstr \<Rightarrow> usage_event node" where
  "api_card lang =
     (let t = (\<lambda>p e. useT lang p (Some e)) in
      dv [dv [svg, dv [spt (t (u ''Consumo por API'') (u ''API usage'')),
                       spt (t (ux ''Modelos cobrados por token {b7} valor'') (ux ''Token-billed models {b7} cost''))]],
          dv (map (\<lambda>(name, prov, tokens, cost, pct). El ''div'' [Key name]
                [dv [sp [sp [], Txt name, spt prov], sp [Txt tokens, Txt (ux '' {b7} ''), spt cost]], miniBar pct]) API_MODELS
              @ [dv [spt (t (u ''Total por API'') (u ''API total'')), spt (ux ''4,6M {b7} R$ 5.540'')]])])"

definition sub_card :: "jstr \<Rightarrow> usage_event node" where
  "sub_card lang =
     (let t = (\<lambda>p e. useT lang p (Some e)) in
      dv [dv [svg, dv [spt (t (u ''Assinatura Claude'') (u ''Claude subscription'')),
                       spt (t (ux ''% de uso {b7} tokens (sem cobran{e7}a por token)'') (ux ''% usage {b7} tokens (no per-token charge)''))]],
          dv (map (\<lambda>(name, plan, pct, limit, tokens). El ''div'' [Key name]
                [dv [dv [spt name, spt plan], sp [Txt (nshow pct), Txt (u ''%'')]], miniBar (of_nat pct),
                 dv [spt (t (nshow pct @ (u ''% do limite de '') @ limit) (nshow pct @ (u ''% of the '') @ limit @ (u '' limit''))),
                     sp [Txt tokens, Txt (u '' tokens'')]]]) SUB_MODELS)])"

definition inst_card :: "jstr \<Rightarrow> usage_event node" where
  "inst_card lang =
     (let t = (\<lambda>p e. useT lang p (Some e)) in
      dv ([dv [dv [svg, dv [spt (t (ux ''Consumo das inst{e2}ncias (Cloud)'') (u ''Cloud instance usage'')),
                            spt (t (u ''Horas, vCPU-hora e custo no ciclo'') (u ''Hours, vCPU-hours and cycle cost''))]],
               spt (u ''R$ 4.222'')],
           dv [spt (t (ux ''Inst{e2}ncia'') (u ''Instance'')), spt (t (u ''Horas'') (u ''Hours'')), spt (u ''vCPU-h''), spt (t (u ''Custo'') (u ''Cost''))]]
          @ map (\<lambda>(i, region, hours, vcpuh, cost, pct). El ''div'' [Key i]
              [dv [spt i, spt region], spt hours, spt vcpuh,
               sp [dv [El ''div'' [StyPct ''width'' pct, Sty ''background'' (barColor pct)] []], spt cost]]) INST_USE))"

definition usage_view :: "(jstr \<Rightarrow> jstr) \<Rightarrow> jstr \<Rightarrow> usage_page \<Rightarrow> usage_event node list" where
  "usage_view uc lang s =
     (let t = (\<lambda>p e. useT lang p (Some e)) in
      [usage_head uc lang s,
       dv [dv (map (meter_el lang) (meters lang s)),
           dv [api_card lang, sub_card lang],
           inst_card lang,
           dv [svg, sp [Txt (t (u ''Limites referentes ao plano'') (u ''Limits for the'')), Txt (u '' ''),
                        El ''strong'' [] [Txt (planName uc s)], Txt (t (u ''.'') (u '' plan.'')), Txt (u '' ''),
                        El ''a'' [Href (u ''/subscription'')] [Txt (t (ux ''Fa{e7}a upgrade'') (u ''Upgrade''))], Txt (u '' ''),
                        Txt (t (u ''para aumentar a capacidade.'') (u ''to increase capacity.''))]]]])"

subsection \<open>Facts\<close>

lemma bar_width_range: "0 \<le> bar_width pct \<and> bar_width pct \<le> 100"
  by (simp add: bar_width_def)

lemma pct_of_nonneg: "0 \<le> pct_of a b"
  by (simp add: pct_of_def jdiv_def jmul_def fl_0_le)

lemma meters_nonneg: "m \<in> set (meters lang s) \<Longrightarrow> 0 \<le> m_pct m"
  by (auto simp: meters_def wPct_def hPct_def tPct_def tokPct_def pct_of_nonneg split: option.split)

text \<open>The loading ends with the second of the two first answers and never comes back.\<close>

definition usage_inv :: "usage_page \<Rightarrow> bool" where
  "usage_inv s = (u_loading s \<longleftrightarrow> \<not> (settled_u s \<and> settled_tel s))"

interpretation usage_machine: stepper usage_start "\<lambda>e s. fst (usage_step ms e s)" usage_inv for ms
proof
  show "usage_inv usage_start" by (simp add: usage_inv_def usage_start_def)
  show "usage_inv (fst (usage_step ms e s))" if "usage_inv s" for e s
    using that by (cases e) (auto simp: usage_inv_def Let_def settle_first_def)
qed

fun usage_answered :: "usage_event \<Rightarrow> nat option" where
  "usage_answered (U_usage first r) = (if first then Some 0 else None)"
| "usage_answered (U_tel first r) = (if first then Some 1 else None)"
| "usage_answered _ = None"

definition usage_settled :: "usage_page \<Rightarrow> nat set" where
  "usage_settled s = (if settled_u s then {0} else {}) \<union> (if settled_tel s then {1} else {})"

interpretation usage_settling: settling usage_start "\<lambda>e s. fst (usage_step ms e s)" usage_inv u_loading usage_settled usage_answered "{0, 1}"
  for ms
proof
  show "usage_settled usage_start = {}" by (simp add: usage_settled_def usage_start_def)
  show "usage_settled (fst (usage_step ms e s)) = usage_settled s \<union> set_option (usage_answered e)" for e s
    by (cases e) (auto simp: usage_settled_def Let_def settle_first_def)
  show "usage_inv s \<Longrightarrow> u_loading s = (\<not> {0, 1} \<subseteq> usage_settled s)" for s
    by (auto simp: usage_inv_def usage_settled_def)
qed

lemma usage_answered_iff:
  "usage_answered e = Some 0 \<longleftrightarrow> (\<exists>r. e = U_usage True r)" "usage_answered e = Some 1 \<longleftrightarrow> (\<exists>r. e = U_tel True r)"
  by (cases e; auto)+

text \<open>
  The usage page leaves its skeleton exactly when both requests of the first load have been
  settled, in either order and whatever their answers, errors included.
\<close>

lemma usage_loading_ends:
  "u_loading (run (\<lambda>e s. fst (usage_step ms e s)) es usage_start)
     \<longleftrightarrow> \<not> ((\<exists>r. U_usage True r \<in> set es) \<and> (\<exists>r. U_tel True r \<in> set es))"
unfolding usage_settling.loading_run insert_subset mem_Collect_eq usage_answered_iff by auto+

end
