(* ===== verification/Invoices.thy ===== *)
theory Invoices
  imports Page_Kit Calendar
begin

text \<open>
  The invoice page, app/invoices/page.tsx: the rows made from the raw invoices, filters and pages,
  and the invoice document. \<open>parse\<close> is the engine's date parser, giving the local day (\<open>None\<close> for
  an invalid date), \<open>money_text\<close> the locale's currency formatter, \<open>lc\<close>/\<open>uc\<close> the case conversions.
  The hover handlers and window.print, which opens the browser's print dialog, change no state.
\<close>

record raw_invoice =
  ri_id :: jstr
  ri_cents :: int
  ri_currency :: jstr
  ri_status :: jstr
  ri_date :: jstr
  ri_pdf :: jstr

record inv_row =
  ro_id :: jstr
  ro_date :: jstr
  ro_period :: jstr
  ro_amount :: jstr
  ro_status :: jstr
  ro_pdf :: jstr

definition INV_PAGE_SIZE :: nat where "INV_PAGE_SIZE = 8"

definition money :: "(jstr \<Rightarrow> jstr) \<Rightarrow> (rat \<Rightarrow> jstr \<Rightarrow> jstr) \<Rightarrow> int \<Rightarrow> jstr \<Rightarrow> jstr" where
  "money uc money_text c cur = money_text (jdiv (of_int c) 100) (uc (if cur \<noteq> [] then cur else (u ''brl'')))"

definition MONTHS_PT :: "jstr list" where
  "MONTHS_PT = [(u ''jan''), (u ''fev''), (u ''mar''), (u ''abr''), (u ''mai''), (u ''jun''), (u ''jul''), (u ''ago''), (u ''set''), (u ''out''), (u ''nov''), (u ''dez'')]"

definition pad2 :: "nat \<Rightarrow> jstr" where
  "pad2 n = pad_start 2 (of_char CHR ''0'') (nshow n)"

definition fmtDate :: "(jstr \<Rightarrow> date option) \<Rightarrow> jstr \<Rightarrow> jstr" where
  "fmtDate parse s =
     (case parse s of
        None \<Rightarrow> s
      | Some d \<Rightarrow> pad2 (dy d) @ (u ''/'') @ MONTHS_PT ! mo d @ (u ''/'') @ nshow (yr d))"

text \<open>The month before the month of the invoice: its first and last day.\<close>

definition period_of :: "date \<Rightarrow> date \<times> date" where
  "period_of d =
     (let e = day_zero (yr d) (mo d) in (day_one (yr e) (mo e), e))"

definition invoicePeriod :: "(jstr \<Rightarrow> date option) \<Rightarrow> jstr \<Rightarrow> jstr" where
  "invoicePeriod parse s =
     (case parse s of
        None \<Rightarrow> (ux ''{2014}'')
      | Some d \<Rightarrow>
          (let (st, e) = period_of d; fm = (\<lambda>x. pad2 (dy x) @ (u '' '') @ MONTHS_PT ! mo x) in
           fm st @ (ux '' {2013} '') @ fm e @ (u '' '') @ nshow (yr e)))"

definition extractYear :: "(jstr \<Rightarrow> date option) \<Rightarrow> jstr \<Rightarrow> jstr" where
  "extractYear parse s = (case parse s of None \<Rightarrow> [] | Some d \<Rightarrow> nshow (yr d))"

definition toRow :: "(jstr \<Rightarrow> jstr) \<Rightarrow> (rat \<Rightarrow> jstr \<Rightarrow> jstr) \<Rightarrow> (jstr \<Rightarrow> date option) \<Rightarrow> raw_invoice \<Rightarrow> inv_row" where
  "toRow uc money_text parse iv =
     \<lparr>ro_id = (if ri_id iv \<noteq> [] then ri_id iv else (ux ''{2014}'')), ro_date = fmtDate parse (ri_date iv),
      ro_period = invoicePeriod parse (ri_date iv), ro_amount = money uc money_text (ri_cents iv) (ri_currency iv),
      ro_status = ri_status iv, ro_pdf = ri_pdf iv\<rparr>"

definition STATUS_FILTER :: "jstr list" where
  "STATUS_FILTER = [(u ''todos''), (u ''paga''), (u ''pendente''), (u ''falhou'')]"

definition mock_row :: "jstr \<Rightarrow> jstr \<Rightarrow> jstr \<Rightarrow> jstr \<Rightarrow> jstr \<Rightarrow> inv_row" where
  "mock_row i d p a s = \<lparr>ro_id = i, ro_date = d, ro_period = p, ro_amount = a, ro_status = s, ro_pdf = []\<rparr>"

definition MOCK_ROWS :: "inv_row list" where
  "MOCK_ROWS = [
     mock_row (u ''in_1Abc8f3x'') (u ''01/jun/2026'') (ux ''01 mai {2013} 31 mai 2026'') (u ''R$ 499,00'') (u ''paid''),
     mock_row (u ''in_2Bcd9g4y'') (u ''01/mai/2026'') (ux ''01 abr {2013} 30 abr 2026'') (u ''R$ 499,00'') (u ''paid''),
     mock_row (u ''in_3Cde0h5z'') (u ''01/abr/2026'') (ux ''01 mar {2013} 31 mar 2026'') (u ''R$ 499,00'') (u ''paid''),
     mock_row (u ''in_4Def1i6a'') (u ''01/mar/2026'') (ux ''01 fev {2013} 28 fev 2026'') (u ''R$ 349,00'') (u ''open''),
     mock_row (u ''in_5Efg2j7b'') (u ''01/fev/2026'') (ux ''01 jan {2013} 31 jan 2026'') (u ''R$ 349,00'') (u ''failed'')]"

text \<open>The table STATUS_DISPLAY in a language, and its default.\<close>

definition statusInfo :: "jstr \<Rightarrow> jstr \<Rightarrow> jstr \<times> jstr \<times> jstr" where
  "statusInfo lang s =
     (let t = (\<lambda>p e. useT lang p (Some e)) in
      lookup_or ((ux ''{2014}''), (u ''var(--mute)''), (u ''var(--elev)''))
        [((u ''paid''), t (u ''Paga'') (u ''Paid''), (u ''var(--green)''), (u ''var(--green-tint)'')),
         ((u ''open''), t (u ''Pendente'') (u ''Pending''), (u ''var(--accent)''), (u ''var(--accent-tint)'')),
         ((u ''past_due''), t (u ''Pendente'') (u ''Pending''), (u ''var(--accent)''), (u ''var(--accent-tint)'')),
         ((u ''failed''), t (u ''Falhou'') (u ''Failed''), (u ''var(--red)''), (u ''var(--red-tint)'')),
         ((u ''void''), t (u ''Falhou'') (u ''Failed''), (u ''var(--red)''), (u ''var(--red-tint)''))] s)"

definition STATUS_LABEL :: "jstr \<Rightarrow> jstr \<Rightarrow> jstr" where
  "STATUS_LABEL lang s =
     (let t = (\<lambda>p e. useT lang p (Some e)) in
      lookup_or [] [((u ''todos''), t (u ''Todas'') (u ''All'')), ((u ''paga''), t (u ''Pagas'') (u ''Paid'')), ((u ''pendente''), t (u ''Pendentes'') (u ''Pending'')),
                    ((u ''falhou''), t (u ''Falhou'') (u ''Failed''))] s)"

record doc_item =
  dc_desc :: jstr
  dc_sub :: jstr
  dc_qty :: jstr
  dc_unit :: jstr
  dc_total :: jstr

record invoice_doc =
  doc_id :: jstr
  doc_date :: jstr
  doc_due :: jstr
  doc_period :: jstr
  doc_plan :: jstr
  doc_status :: "jstr \<times> jstr \<times> jstr"
  doc_items :: "doc_item list"
  doc_subtotal :: jstr
  doc_total :: jstr
  doc_note :: jstr

definition buildDoc :: "jstr \<Rightarrow> inv_row \<Rightarrow> jstr \<Rightarrow> invoice_doc" where
  "buildDoc lang row plan =
     (let t = (\<lambda>p e. useT lang p (Some e)); pl = (if plan \<noteq> [] then plan else (u ''Free'')) in
      \<lparr>doc_id = ro_id row, doc_date = ro_date row, doc_due = ro_date row, doc_period = ro_period row, doc_plan = pl,
       doc_status = statusInfo lang (ro_status row),
       doc_items = [\<lparr>dc_desc = t (u ''Plano'') (u ''Plan'') @ (u '' '') @ pl, dc_sub = ro_period row, dc_qty = (u ''1''),
                     dc_unit = ro_amount row, dc_total = ro_amount row\<rparr>],
       doc_subtotal = ro_amount row, doc_total = ro_amount row,
       doc_note = (if ro_status row = (u ''paid'') then t (ux ''Pago com Visa {2022}{2022}{2022}{2022} 4242'') (ux ''Paid with Visa {2022}{2022}{2022}{2022} 4242'')
                   else t (u ''Aguardando pagamento'') (u ''Awaiting payment''))\<rparr>)"

record invoices =
  n_raw :: "raw_invoice list pdata"
  n_sub :: "jstr option"
  n_loading :: bool
  n_q :: jstr
  n_year :: jstr
  n_sf :: jstr
  n_page :: nat
  n_doc :: "invoice_doc option"

datatype invoices_tag = Get_sub

datatype invoices_event =
    N_mount
  | N_raw "raw_invoice list pdata outcome"
  | N_sub "jstr answer outcome"
  | N_search jstr
  | N_year jstr
  | N_status jstr
  | N_prev
  | N_next
  | N_open_doc inv_row
  | N_close_doc
  | N_print

definition invoices_start :: invoices where
  "invoices_start = \<lparr>n_raw = Nul, n_sub = None, n_loading = True, n_q = [], n_year = (u ''todos''), n_sf = (u ''todos''),
     n_page = 0, n_doc = None\<rparr>"

definition inv_plan :: "(jstr \<Rightarrow> jstr) \<Rightarrow> invoices \<Rightarrow> jstr" where
  "inv_plan uc s = capital uc (or_blank (n_sub s))"

definition statusGroup :: "jstr \<Rightarrow> jstr" where
  "statusGroup s =
     (if s = (u ''paid'') then (u ''paga'') else if s = (u ''open'') \<or> s = (u ''past_due'') then (u ''pendente'') else (u ''falhou''))"

text \<open>The environment of the page: the case conversions, the formatter and the parser.\<close>

record locale_env =
  env_lc :: "jstr \<Rightarrow> jstr"
  env_uc :: "jstr \<Rightarrow> jstr"
  env_money :: "rat \<Rightarrow> jstr \<Rightarrow> jstr"
  env_parse :: "jstr \<Rightarrow> date option"

definition rawRows :: "locale_env \<Rightarrow> invoices \<Rightarrow> inv_row list" where
  "rawRows env s =
     (if or_empty (n_raw s) \<noteq> []
      then map (toRow (env_uc env) (env_money env) (env_parse env)) (or_empty (n_raw s))
      else MOCK_ROWS)"

definition inv_years :: "locale_env \<Rightarrow> invoices \<Rightarrow> jstr list" where
  "inv_years env s =
     sort_key (\<lambda>y. - int (digits_value y))
       (uniq (filter (\<lambda>y. y \<noteq> []) (map (\<lambda>r. extractYear (env_parse env) (ro_date r)) (rawRows env s))))"

definition inv_filtered :: "locale_env \<Rightarrow> invoices \<Rightarrow> inv_row list" where
  "inv_filtered env s =
     filter (\<lambda>r. n_q s = [] \<or> contains (env_lc env (ro_id r)) (env_lc env (n_q s))
                 \<or> contains (env_lc env (ro_period r)) (env_lc env (n_q s)))
       (filter (\<lambda>r. n_year s = (u ''todos'') \<or> extractYear (env_parse env) (ro_date r) = n_year s)
         (filter (\<lambda>r. n_sf s = (u ''todos'') \<or> statusGroup (ro_status r) = n_sf s) (rawRows env s)))"

fun invoices_step :: "locale_env \<Rightarrow> jstr \<Rightarrow> invoices_event \<Rightarrow> invoices \<Rightarrow> invoices \<times> invoices_tag cmd list" where
  "invoices_step env lang N_mount s =
     (s\<lparr>n_loading := loading_effect (n_raw s) (n_loading s)\<rparr>, [Send GET (u ''/v1/subscription'') None Get_sub])"
| "invoices_step env lang (N_raw r) s =
     (let d = poll_accept r (n_raw s) in (s\<lparr>n_raw := d, n_loading := loading_effect d (n_loading s)\<rparr>, []))"
| "invoices_step env lang (N_sub r) s = (s\<lparr>n_sub := take_answer r (n_sub s)\<rparr>, [])"
| "invoices_step env lang (N_search x) s = (s\<lparr>n_q := x, n_page := 0\<rparr>, [])"
| "invoices_step env lang (N_year x) s = (s\<lparr>n_year := x, n_page := 0\<rparr>, [])"
| "invoices_step env lang (N_status x) s = (s\<lparr>n_sf := x, n_page := 0\<rparr>, [])"
| "invoices_step env lang N_prev s = (s\<lparr>n_page := prev_page (n_page s)\<rparr>, [])"
| "invoices_step env lang N_next s = (s\<lparr>n_page := next_page INV_PAGE_SIZE (inv_filtered env s) (n_page s)\<rparr>, [])"
| "invoices_step env lang (N_open_doc r) s = (s\<lparr>n_doc := Some (buildDoc lang r (inv_plan (env_uc env) s))\<rparr>, [])"
| "invoices_step env lang N_close_doc s = (s\<lparr>n_doc := None\<rparr>, [])"
| "invoices_step env lang N_print s = (s, [])"

end
