(* ===== verification/Invoices_View.thy ===== *)
theory Invoices_View
  imports Invoices
begin

text \<open>
  What app/invoices/page.tsx renders: the banner, the table with its filters and pager, and the
  invoice document; and the facts about periods, filters and pages.
\<close>

definition invoice_row :: "locale_env \<Rightarrow> jstr \<Rightarrow> inv_row \<Rightarrow> invoices_event node" where
  "invoice_row env lang r =
     (let t = (\<lambda>p e. useT lang p (Some e)); (sl, sc, sb) = statusInfo lang (ro_status r) in
      El ''div'' [Key (ro_id r)]
        [dv [spt (ro_id r), spt (ro_date r)], spt (ro_period r), spt (ro_amount r),
         dv [El ''span'' [Sty ''color'' sc, Sty ''background'' sb] [sp [], Txt sl]],
         dv (shown (ro_status r = (u ''open'') \<or> ro_status r = (u ''past_due''))
               [El ''button'' [] [svg, Txt (t (u ''Pagar'') (u ''Pay''))]]
             @ shown (ro_status r = (u ''paid'')) [El ''button'' [] [svg, Txt (u ''NF-e'')]]
             @ [El ''button'' [OnClick (N_open_doc r), Title (t (u ''Abrir fatura'') (u ''Open invoice''))] [svg]])])"

definition next_billing :: "jstr \<Rightarrow> invoices_event node" where
  "next_billing lang =
     dv [dv [svg],
         dv [dv [Txt (useT lang (ux ''Pr{f3}xima cobran{e7}a'') (Some (u ''Next billing''))), Txt (ux '' {b7} ''), spt (u ''R$ 499,00'')],
             dvt (ux ''01/jul/2026 {b7} Visa {2022}{2022}{2022}{2022} 4242'')],
         El ''button'' [] [Txt (useT lang (u ''Baixar todas'') (Some (u ''Download all'')))]]"

definition invoices_table :: "locale_env \<Rightarrow> jstr \<Rightarrow> invoices \<Rightarrow> invoices_event node" where
  "invoices_table env lang s =
     (let t = (\<lambda>p e. useT lang p (Some e)); filtered = inv_filtered env s; tot = total_pages INV_PAGE_SIZE filtered;
          safe = safe_page INV_PAGE_SIZE filtered (n_page s); rows = page_rows INV_PAGE_SIZE filtered (n_page s) in
      dv ([dv [dv [svg, inp (n_q s) N_search (t (ux ''Buscar fatura ou per{ed}odo{2026}'') (ux ''Search invoice or period{2026}''))],
               sel_el (n_year s) N_year
                 (optv (u ''todos'') (t (u ''Todos os anos'') (u ''All years''))
                  # map (\<lambda>y. El ''option'' [Key y, Value y] [Txt y]) (inv_years env s)),
               dv (map (\<lambda>x. El ''button'' [Key x, OnClick (N_status x),
                        Sty ''background'' (if n_sf s = x then (u ''var(--card)'') else (u ''transparent''))] [Txt (STATUS_LABEL lang x)])
                     STATUS_FILTER)],
           dv [spt (t (u ''Fatura'') (u ''Invoice'')), spt (t (ux ''Per{ed}odo'') (u ''Period'')), spt (t (u ''Valor'') (u ''Amount'')),
               spt (t (u ''Status'') (u ''Status'')), sp []]]
          @ map (invoice_row env lang) rows
          @ shown (rows = []) [dv [svg, spt (t (u ''Nenhuma fatura encontrada.'') (u ''No invoices found.'')),
                                   spt (t (u ''Ajuste a busca ou os filtros.'') (u ''Adjust the search or filters.''))]]
          @ [dv [sp [Txt (nshow (length rows)), Txt (u '' ''), Txt (t (u ''de'') (u ''of'')), Txt (u '' ''), Txt (nshow (length filtered))],
                 dv [sp [Txt (t (ux ''P{e1}g.'') (u ''Page'')), Txt (u '' ''), Txt (nshow (safe + 1)), Txt (u '' / ''), Txt (nshow tot)],
                     navBtn N_prev (safe = 0) [svg], navBtn N_next (safe \<ge> tot - 1) [svg]]]]))"

definition invoice_document :: "jstr \<Rightarrow> invoice_doc \<Rightarrow> invoices_event node" where
  "invoice_document lang d =
     (let t = (\<lambda>p e. useT lang p (Some e)); (sl, sc, sb) = doc_status d in
      El ''div'' [OnClick N_close_doc]
        [El ''div'' [StopClick]
          [dv [dv [svg, sp [Txt (t (u ''Fatura'') (u ''Invoice'')), Txt (u '' ''), Txt (doc_id d)]],
               dv [btn N_print [svg, Txt (t (u ''Baixar PDF'') (u ''Download PDF''))], btn N_close_doc [svg]]],
           dv [dv [dv [dvt (t (u ''FATURA'') (u ''INVOICE'')), dvt (doc_id d)],
                   El ''span'' [Sty ''color'' sc, Sty ''background'' sb] [El ''span'' [Sty ''background'' sc] [], Txt sl]],
               dv (map (\<lambda>(k, v). El ''div'' [Key k] [spt k, spt v])
                 [(t (ux ''Emiss{e3}o'') (u ''Issued''), doc_date d), (t (u ''Vencimento'') (u ''Due''), doc_due d),
                  (t (ux ''Per{ed}odo'') (u ''Period''), doc_period d), (t (u ''Plano'') (u ''Plan''), doc_plan d)]),
               dv (map (\<lambda>(i, h). El ''span'' [Key (nshow i)] [Txt h])
                 (enumerate 0 [t (ux ''Descri{e7}{e3}o'') (u ''Description''), t (u ''Qtd.'') (u ''Qty.''), t (ux ''Unit{e1}rio'') (u ''Unit''), t (u ''Total'') (u ''Total'')])),
               dv (map (\<lambda>(i, it). El ''div'' [Key (nshow i)]
                 [dv [dvt (dc_desc it), dvt (dc_sub it)], spt (dc_qty it), spt (dc_unit it), spt (dc_total it)])
                 (enumerate 0 (doc_items d))),
               dv [dv (map (\<lambda>(k, v). El ''div'' [Key k] [spt k, spt v])
                         [(t (u ''Subtotal'') (u ''Subtotal''), doc_subtotal d), (t (u ''Impostos (inclusos)'') (u ''Taxes (included)''), (u ''R$ 0,00''))]
                       @ [dv [], dv [spt (t (u ''Total'') (u ''Total'')), spt (doc_total d)]])],
               dv [svg, dv [El ''strong'' [] [Txt (t (u ''Pagamento'') (u ''Payment''))], Txt (ux '' {b7} ''), Txt (doc_note d)]]]]])"

definition invoices_view :: "locale_env \<Rightarrow> jstr \<Rightarrow> invoices \<Rightarrow> invoices_event node list" where
  "invoices_view env lang s =
     (let t = (\<lambda>p e. useT lang p (Some e)) in
      [pageHead lang (Some (t (ux ''Conta & cobran{e7}a'') (u ''Account & billing''))) (t (u ''Faturas'') (u ''Invoices''))
         (Some (t (ux ''Hist{f3}rico de cobran{e7}as e recibos da sua organiza{e7}{e3}o.'') (u ''Billing history and receipts for your organization.''))) [],
       dv [next_billing lang, invoices_table env lang s]]
      @ (case n_doc s of Some d \<Rightarrow> [invoice_document lang d] | None \<Rightarrow> []))"

subsection \<open>Facts\<close>

interpretation inv_pages: paged INV_PAGE_SIZE "inv_filtered env" n_page "\<lambda>p s. s\<lparr>n_page := p\<rparr>" for env
  by unfold_locales (simp_all add: inv_filtered_def rawRows_def INV_PAGE_SIZE_def)

lemma period_facts:
  assumes "valid_date d"
  shows "next_day (snd (period_of d)) = \<lparr>yr = js_year (yr d), mo = mo d, dy = 1\<rparr>"
    and "dy (fst (period_of d)) = 1 \<and> mo (fst (period_of d)) = mo (snd (period_of d)) \<and> valid_date (snd (period_of d))"
    and "yr d \<noteq> 100 \<Longrightarrow> yr (fst (period_of d)) = yr (snd (period_of d))"
  using assms month_days_range [of "js_year (yr d)" "mo d - 1"]
  by (simp_all add: period_of_def Let_def next_day_zero valid_date_def day_one_def)
    (auto simp: day_zero_def month_days_def js_year_def Let_def)

lemma pad2_length: "n < 100 \<Longrightarrow> length (pad2 n) = 2"
proof -
  assume n: "n < 100"
  then have "n div 10 < 10" by linarith
  then have "length (nshow n) \<le> 2" by (simp add: nshow.simps)
  then show ?thesis by (simp add: pad2_def length_pad_start)
qed

lemma statusGroup_cases: "statusGroup s \<in> set STATUS_FILTER - {(u ''todos'')}"
  by (simp add: statusGroup_def STATUS_FILTER_def)

lemma inv_years_set:
  "set (inv_years env s) = {y. y \<noteq> [] \<and> (\<exists>r \<in> set (rawRows env s). extractYear (env_parse env) (ro_date r) = y)}"
  by (auto simp: inv_years_def)

lemma unparsed_under_no_year:
  assumes "r \<in> set (inv_filtered env s)" "n_year s \<in> set (inv_years env s)"
  shows "env_parse env (ro_date r) \<noteq> None"
proof
  assume n: "env_parse env (ro_date r) = None"
  have "n_year s \<noteq> []" using assms(2) by (simp add: inv_years_set)
  with assms(1) n have "n_year s = (u ''todos'')" by (simp add: inv_filtered_def extractYear_def)
  moreover have "n_year s \<noteq> (u ''todos'')"
  proof -
    have "\<exists>y. n_year s = nshow y"
      using assms(2) by (auto simp: inv_years_set extractYear_def split: option.splits) (metis+)
    then obtain y where y: "n_year s = nshow y" by blast
    moreover have "nshow y \<noteq> (u ''todos'')" using nshow_digits [of y] by (fastforce simp: u_def)
    ultimately show ?thesis by simp
  qed
  ultimately show False by contradiction
qed

definition invoices_defined :: "invoices \<Rightarrow> bool" where
  "invoices_defined s = (n_raw s \<noteq> Undef)"

interpretation inv_machine: stepper invoices_start "\<lambda>e s. fst (invoices_step env lang e s)" invoices_defined
  for env lang
proof
  show "invoices_defined invoices_start" by (simp add: invoices_defined_def invoices_start_def)
  show "invoices_defined (fst (invoices_step env lang e s))" if "invoices_defined s" for e s
    using that by (cases e) (simp_all add: invoices_defined_def Let_def poll_accept_defined)
qed

text \<open>
  The year filter reads the year back from the formatted date, so an invoice whose formatted
  date the engine does not parse (a month abbreviated in Portuguese) is listed under none of the
  years offered.
\<close>

lemma unparsed_date_is_under_no_year:
  assumes "env_parse env (ro_date r) = None" "n_year s \<in> set (inv_years env s)"
  shows "r \<notin> set (inv_filtered env s)"
  using unparsed_under_no_year [of r env s] assms by blast

end
