(* ===== verification/Js_Parse.thy ===== *)
theory Js_Parse
  imports Js_Number
begin

text \<open>
  What the pages read of texts with the functions of the language: \<open>parseInt\<close>, \<open>Number\<close> on what a
  number field holds, and the length of the UTF-8 encoding.
\<close>

text \<open>
  \<open>parseInt(s)\<close> on a text without sign or \<open>0x\<close> prefix: the leading digits,
  and NaN (\<open>None\<close>) when there are none.
\<close>

definition parse_int :: "jstr \<Rightarrow> nat option" where
  "parse_int s =
     (let ds = takeWhile (\<lambda>c. 48 \<le> c \<and> c \<le> 57) (dropWhile is_space s)
      in if ds = [] then None else Some (digits_value ds))"

text \<open>
  \<open>Number(s)\<close> on a decimal text: an optional sign, digits with an optional fraction and exponent,
  white space around; the empty text is 0, and any other text is NaN (\<open>None\<close>). The names and prefixes
  of other numerals (Infinity, 0x) do not come from a number field. The value is rounded once.
\<close>

definition digits_of :: "jstr \<Rightarrow> jstr \<times> jstr" where
  "digits_of s = (takeWhile (\<lambda>c. 48 \<le> c \<and> c \<le> 57) s, dropWhile (\<lambda>c. 48 \<le> c \<and> c \<le> 57) s)"

definition sign_of :: "jstr \<Rightarrow> int \<times> jstr" where
  "sign_of s = (case s of c # r \<Rightarrow> (if c = 45 then (- 1, r) else if c = 43 then (1, r) else (1, s)) | [] \<Rightarrow> (1, s))"

definition exponent_of :: "jstr \<Rightarrow> int option" where
  "exponent_of s =
     (case s of
        [] \<Rightarrow> Some 0
      | c # r \<Rightarrow>
          (if c = 101 \<or> c = 69 then
             (let (sg, r1) = sign_of r; (ds, r2) = digits_of r1 in
              if ds \<noteq> [] \<and> r2 = [] then Some (sg * int (digits_value ds)) else None)
           else None))"

definition to_number :: "jstr \<Rightarrow> rat option" where
  "to_number s =
     (let t = trim s in
      if t = [] then Some 0
      else (let (sg, b) = sign_of t; (ip, r1) = digits_of b;
                (fp, r2) = (case r1 of c # x \<Rightarrow> (if c = 46 then digits_of x else ([], r1)) | [] \<Rightarrow> ([], r1)) in
            if ip = [] \<and> fp = [] then None
            else (case exponent_of r2 of
                    None \<Rightarrow> None
                  | Some e \<Rightarrow>
                      Some (fl (of_int (sg * int (digits_value (ip @ fp))) * 10 powi (e - int (length fp)))))))"

text \<open>Rounding a number whose binary exponent is known.\<close>

lemma expo_eq:
  assumes "2 powi e \<le> q" "q < 2 powi (e + 1)"
  shows "expo q = e"
proof -
  have "0 < (2::rat) powi e" by simp
  then have q: "0 < q" using assms(1) by linarith
  have "(2::rat) powi e < 2 powi (expo q + 1)" "(2::rat) powi expo q < 2 powi (e + 1)"
    using expo_bounds [OF q] assms by linarith+
  then have "e < expo q + 1" "expo q < e + 1" by (blast dest: powi_less_D)+
  then show ?thesis by simp
qed

lemma fl_at:
  assumes "2 powi e \<le> q" "q < 2 powi (e + 1)"
  shows "fl q = of_int (rne (q / 2 powi (e - 52))) * 2 powi (e - 52)"
proof -
  have "0 < (2::rat) powi e" by simp
  then have "0 < q" using assms(1) by linarith
  then show ?thesis by (simp add: fl_def fl_pos_def expo_eq [OF assms] Let_def)
qed

lemma rne_eq:
  assumes "of_int n - 1/2 < x" "x < of_int n + 1/2"
  shows "rne x = n"
proof -
  have "\<lfloor>x\<rfloor> = n \<or> \<lfloor>x\<rfloor> = n - 1" using assms by linarith
  with assms show ?thesis by (auto simp: rne_def Let_def)
qed

lemma percent_nat:
  assumes "a \<le> b" "0 < b" "100 * b < (2::nat) ^ 53"
  shows "0 \<le> jdiv (jmul 100 (of_nat a)) (of_nat b)" "jdiv (jmul 100 (of_nat a)) (of_nat b) \<le> 100"
proof -
  have "100 * a < 2 ^ 53" using assms(1,3) by simp
  then have "int (100 * a) < 2 ^ 53" by simp
  then have "fl (of_int (int (100 * a))) = of_int (int (100 * a))" by (intro fl_of_int) linarith
  then have "jmul 100 (of_nat a) = 100 * of_nat a" by (simp add: jmul_def)
  then show "0 \<le> jdiv (jmul 100 (of_nat a)) (of_nat b)" "jdiv (jmul 100 (of_nat a)) (of_nat b) \<le> 100"
    using percent_range [of "of_nat a" "of_nat b"] assms(1,2) by simp_all
qed

lemma digits_of_nshow: "digits_of (nshow n) = (nshow n, [])"
  using nshow_digits [of n] by (simp add: digits_of_def)

lemma nshow_no_space: "c \<in> set (nshow n) \<Longrightarrow> \<not> is_space c"
  using nshow_digits [of n] by (auto simp: is_space_def)

lemma trim_nshow [simp]: "trim (nshow n) = nshow n"
proof -
  have "dropWhile is_space (nshow n) = nshow n"
    using nshow_no_space [of "hd (nshow n)" n] by (cases "nshow n") auto
  moreover have "dropWhile is_space (rev (nshow n)) = rev (nshow n)"
    using nshow_no_space [of "last (nshow n)" n] by (cases "rev (nshow n)") (auto simp: last_rev [symmetric] intro: dropWhile_eq_self_iff [THEN iffD2])
  ultimately show ?thesis by (simp add: trim_def)
qed

lemma to_number_nshow: "n < 2 ^ 53 \<Longrightarrow> to_number (nshow n) = Some (of_nat n)"
proof -
  assume n: "n < 2 ^ 53"
  have "sign_of (nshow n) = (1, nshow n)"
    using nshow_digits [of n] by (cases "nshow n") (auto simp: sign_of_def)
  moreover have "fl (of_nat n) = of_nat n" using fl_of_int [of "int n"] n by simp
  ultimately show ?thesis by (simp add: to_number_def digits_of_nshow exponent_of_def)
qed

text \<open>
  The length of \<open>new TextEncoder().encode(s)\<close>: a surrogate pair is four bytes, and a unit without its
  partner is written as U+FFFD, three bytes.
\<close>

fun utf8_length :: "jstr \<Rightarrow> nat" where
  "utf8_length [] = 0"
| "utf8_length (c # cs) =
     (if c < 128 then 1 + utf8_length cs
      else if c < 2048 then 2 + utf8_length cs
      else if 55296 \<le> c \<and> c < 56320 then
        (case cs of
           d # ds \<Rightarrow> (if 56320 \<le> d \<and> d < 57344 then 4 + utf8_length ds else 3 + utf8_length cs)
         | [] \<Rightarrow> 3)
      else 3 + utf8_length cs)"

declare utf8_length.simps(2) [simp del]

lemma utf8_length_bounds: "length s \<le> utf8_length s \<and> utf8_length s \<le> 3 * length s"
proof (induction s rule: length_induct)
  case (1 s)
  show ?case
  proof (cases s)
    case (Cons c cs)
    have cs: "length cs \<le> utf8_length cs \<and> utf8_length cs \<le> 3 * length cs" using 1 Cons by simp
    have ds: "length ds \<le> utf8_length ds \<and> utf8_length ds \<le> 3 * length ds" if "cs = d # ds" for d ds
      using 1 Cons that by simp
    show ?thesis
    proof (cases cs)
      case (Cons d ds)
      then show ?thesis
        using cs ds [OF Cons] by (simp only: \<open>s = c # cs\<close> utf8_length.simps(2) [of c]) (simp split: if_split; linarith)
    qed (simp add: Cons utf8_length.simps(2))
  qed simp
qed

lemma utf8_length_ascii: "(\<forall>c \<in> set s. c < 128) \<Longrightarrow> utf8_length s = length s"
  by (induction s) (simp_all add: utf8_length.simps(2))

end
