(* ===== verification/Cloud.thy ===== *)
theory Cloud
  imports Page_Kit Js_Parse
begin

text \<open>
  The cloud page, app/cloud/page.tsx: a list of instances kept in the page alone (it starts from a
  table in the source and sends no request), its filters, totals and pagination, and the dialog
  that adds an instance 600 ms after the click. \<open>creations\<close> are the timers that run, each with the
  form it was started with; they have one delay, so they fire in the order they were started, and
  the event of a timer brings the six characters of the random identifier. \<open>lc\<close> is toLowerCase. Theory Cloud_View holds the view.
\<close>

datatype node_status = Ativo | Escalando | Ocioso

fun node_status_text :: "node_status \<Rightarrow> jstr" where
  "node_status_text Ativo = (u ''ativo'')"
| "node_status_text Escalando = (u ''escalando'')"
| "node_status_text Ocioso = (u ''ocioso'')"

record cloud_node =
  ins_id :: jstr
  ins_region :: jstr
  ins_specs :: jstr
  ins_type :: jstr
  ins_workers :: nat
  ins_cpu :: nat
  ins_mem :: nat
  ins_status :: node_status
  ins_pinned :: bool
  ins_paused :: bool

definition INIT_NODES :: "cloud_node list" where
  "INIT_NODES =
    [\<lparr>ins_id = (u ''cld-1a2b3c''), ins_region = (u ''sa-east-1''), ins_specs = (ux ''4 vCPU {b7} 8 GB''), ins_type = (u ''standard''),
       ins_workers = 3, ins_cpu = 68, ins_mem = 54, ins_status = Ativo, ins_pinned = True, ins_paused = False\<rparr>,
     \<lparr>ins_id = (u ''cld-4d5e6f''), ins_region = (u ''sa-east-1''), ins_specs = (ux ''2 vCPU {b7} 4 GB''), ins_type = (u ''standard''),
       ins_workers = 1, ins_cpu = 22, ins_mem = 31, ins_status = Ocioso, ins_pinned = False, ins_paused = False\<rparr>,
     \<lparr>ins_id = (u ''cld-7g8h9i''), ins_region = (u ''us-east-1''), ins_specs = (ux ''8 vCPU {b7} 16 GB''), ins_type = (u ''compute''),
       ins_workers = 5, ins_cpu = 91, ins_mem = 72, ins_status = Escalando, ins_pinned = False, ins_paused = False\<rparr>,
     \<lparr>ins_id = (u ''cld-0j1k2l''), ins_region = (u ''us-east-1''), ins_specs = (ux ''4 vCPU {b7} 8 GB''), ins_type = (u ''standard''),
       ins_workers = 4, ins_cpu = 55, ins_mem = 48, ins_status = Ativo, ins_pinned = True, ins_paused = False\<rparr>,
     \<lparr>ins_id = (u ''cld-3m4n5o''), ins_region = (u ''eu-west-1''), ins_specs = (ux ''2 vCPU {b7} 4 GB''), ins_type = (u ''standard''),
       ins_workers = 0, ins_cpu = 4, ins_mem = 9, ins_status = Ocioso, ins_pinned = False, ins_paused = True\<rparr>,
     \<lparr>ins_id = (u ''cld-6p7q8r''), ins_region = (u ''eu-west-1''), ins_specs = (ux ''16 vCPU {b7} 32 GB''), ins_type = (u ''memory''),
       ins_workers = 8, ins_cpu = 43, ins_mem = 85, ins_status = Ativo, ins_pinned = False, ins_paused = False\<rparr>,
     \<lparr>ins_id = (u ''cld-9s0t1u''), ins_region = (u ''us-west-2''), ins_specs = (ux ''4 vCPU {b7} 8 GB''), ins_type = (u ''compute''),
       ins_workers = 2, ins_cpu = 37, ins_mem = 28, ins_status = Ativo, ins_pinned = False, ins_paused = False\<rparr>]"

record new_form =
  fr_region :: jstr
  fr_type :: jstr
  fr_min :: jstr
  fr_max :: jstr

definition NF_START :: new_form where
  "NF_START = \<lparr>fr_region = (u ''sa-east-1''), fr_type = (u ''standard''), fr_min = (u ''1''), fr_max = (u ''4'')\<rparr>"

record cloud =
  cl_nodes :: "cloud_node list"
  cl_q :: jstr
  cl_region :: jstr
  cl_status :: "node_status option"
  cl_page :: nat
  cl_new :: bool
  cl_nf :: new_form
  cl_creating :: bool
  creations :: "new_form list"

definition cloud_start :: cloud where
  "cloud_start = \<lparr>cl_nodes = INIT_NODES, cl_q = [], cl_region = (u ''todas''), cl_status = None, cl_page = 0,
     cl_new = False, cl_nf = NF_START, cl_creating = False, creations = []\<rparr>"

datatype cloud_event =
    CL_search jstr
  | CL_pick_region jstr
  | CL_pick_status "node_status option"
  | CL_prev
  | CL_next
  | CL_pause jstr
  | CL_delete jstr
  | CL_open
  | CL_close
  | CL_nf_region jstr
  | CL_nf_type jstr
  | CL_nf_min jstr
  | CL_nf_max jstr
  | CL_create
  | CL_timer jstr

definition CLOUD_PAGE :: nat where "CLOUD_PAGE = 5"

subsection \<open>Derived values\<close>

text \<open>The query is compared as typed, against the identifier, the region and the lower-cased specs.\<close>

definition node_hit :: "(jstr \<Rightarrow> jstr) \<Rightarrow> jstr \<Rightarrow> cloud_node \<Rightarrow> bool" where
  "node_hit lc q n =
     (q = [] \<or> contains (ins_id n) q \<or> contains (ins_region n) q \<or> contains (lc (ins_specs n)) q)"

definition cloud_filtered :: "(jstr \<Rightarrow> jstr) \<Rightarrow> cloud \<Rightarrow> cloud_node list" where
  "cloud_filtered lc s =
     filter (node_hit lc (cl_q s))
       (filter (\<lambda>n. cl_status s = None \<or> cl_status s = Some (ins_status n))
         (filter (\<lambda>n. cl_region s = (u ''todas'') \<or> ins_region n = cl_region s) (cl_nodes s)))"

text \<open>A sum with NaN in it is NaN.\<close>

definition add_nan :: "nat option \<Rightarrow> nat option \<Rightarrow> nat option" where
  "add_nan a b = (case a of None \<Rightarrow> None | Some x \<Rightarrow> (case b of None \<Rightarrow> None | Some y \<Rightarrow> Some (x + y)))"

definition totalVcpu :: "cloud_node list \<Rightarrow> nat option" where
  "totalVcpu ns = foldl (\<lambda>s n. add_nan s (parse_int (ins_specs n))) (Some 0) ns"

definition totalWork :: "cloud_node list \<Rightarrow> nat" where
  "totalWork ns = foldl (\<lambda>s n. s + ins_workers n) 0 (filter (\<lambda>n. \<not> ins_paused n) ns)"

definition costPerH :: "cloud_node list \<Rightarrow> jstr" where
  "costPerH ns = (case totalVcpu ns of None \<Rightarrow> (u ''NaN'') | Some v \<Rightarrow> to_fixed 2 (jmul (of_nat v) (fl (48 / 1000))))"

subsection \<open>Handlers\<close>

definition togglePause :: "jstr \<Rightarrow> cloud_node list \<Rightarrow> cloud_node list" where
  "togglePause i ns = map (\<lambda>n. if ins_id n = i then n\<lparr>ins_paused := \<not> ins_paused n\<rparr> else n) ns"

definition delNode :: "jstr \<Rightarrow> cloud_node list \<Rightarrow> cloud_node list" where
  "delNode i ns = filter (\<lambda>n. ins_id n \<noteq> i) ns"

definition specs_of :: "jstr \<Rightarrow> jstr" where
  "specs_of ty =
     (if ty = (u ''memory'') then (ux ''8 vCPU {b7} 32 GB'') else if ty = (u ''compute'') then (ux ''8 vCPU {b7} 16 GB'')
      else (ux ''4 vCPU {b7} 8 GB''))"

definition new_node :: "jstr \<Rightarrow> new_form \<Rightarrow> cloud_node" where
  "new_node r f =
     \<lparr>ins_id = (u ''cld-'') @ r, ins_region = fr_region f, ins_specs = specs_of (fr_type f), ins_type = fr_type f,
      ins_workers = 0, ins_cpu = 0, ins_mem = 0, ins_status = Ocioso, ins_pinned = False, ins_paused = False\<rparr>"

definition createNode :: "cloud \<Rightarrow> cloud" where
  "createNode s = s\<lparr>cl_creating := True, creations := creations s @ [cl_nf s]\<rparr>"

definition node_created :: "jstr \<Rightarrow> cloud \<Rightarrow> cloud" where
  "node_created r s =
     (case creations s of
        [] \<Rightarrow> s
      | f # fs \<Rightarrow>
          s\<lparr>cl_nodes := new_node r f # cl_nodes s, cl_creating := False, cl_new := False,
            cl_nf := NF_START, creations := fs\<rparr>)"

fun cloud_step :: "(jstr \<Rightarrow> jstr) \<Rightarrow> cloud_event \<Rightarrow> cloud \<Rightarrow> cloud" where
  "cloud_step lc (CL_search v) s = s\<lparr>cl_q := v, cl_page := 0\<rparr>"
| "cloud_step lc (CL_pick_region v) s = s\<lparr>cl_region := v, cl_page := 0\<rparr>"
| "cloud_step lc (CL_pick_status v) s = s\<lparr>cl_status := v, cl_page := 0\<rparr>"
| "cloud_step lc CL_prev s = s\<lparr>cl_page := prev_page (cl_page s)\<rparr>"
| "cloud_step lc CL_next s = s\<lparr>cl_page := next_page CLOUD_PAGE (cloud_filtered lc s) (cl_page s)\<rparr>"
| "cloud_step lc (CL_pause i) s = s\<lparr>cl_nodes := togglePause i (cl_nodes s)\<rparr>"
| "cloud_step lc (CL_delete i) s = s\<lparr>cl_nodes := delNode i (cl_nodes s)\<rparr>"
| "cloud_step lc CL_open s = s\<lparr>cl_new := True\<rparr>"
| "cloud_step lc CL_close s = s\<lparr>cl_new := False\<rparr>"
| "cloud_step lc (CL_nf_region v) s = s\<lparr>cl_nf := (cl_nf s)\<lparr>fr_region := v\<rparr>\<rparr>"
| "cloud_step lc (CL_nf_type v) s = s\<lparr>cl_nf := (cl_nf s)\<lparr>fr_type := v\<rparr>\<rparr>"
| "cloud_step lc (CL_nf_min v) s = s\<lparr>cl_nf := (cl_nf s)\<lparr>fr_min := v\<rparr>\<rparr>"
| "cloud_step lc (CL_nf_max v) s = s\<lparr>cl_nf := (cl_nf s)\<lparr>fr_max := v\<rparr>\<rparr>"
| "cloud_step lc CL_create s = createNode s"
| "cloud_step lc (CL_timer r) s = node_created r s"

subsection \<open>Facts\<close>

interpretation cloud_pages: paged CLOUD_PAGE "cloud_filtered lc" cl_page "\<lambda>p s. s\<lparr>cl_page := p\<rparr>" for lc
  by unfold_locales (simp_all add: cloud_filtered_def CLOUD_PAGE_def)

text \<open>Every specs text starts with a digit, so the totals are numbers.\<close>

definition numbered :: "cloud \<Rightarrow> bool" where
  "numbered s = list_all (\<lambda>n. parse_int (ins_specs n) \<noteq> None) (cl_nodes s)"

lemma specs_of_numbered: "parse_int (specs_of ty) \<noteq> None"
  by (auto simp: specs_of_def parse_int_def Let_def ux_def is_space_def)

interpretation cloud_machine: stepper cloud_start "cloud_step lc" numbered for lc
proof
  show "numbered cloud_start"
    by (simp add: numbered_def cloud_start_def INIT_NODES_def parse_int_def Let_def ux_def is_space_def)
  show "numbered (cloud_step lc e s)" if "numbered s" for e s
    using that specs_of_numbered
    by (cases e) (auto simp: numbered_def togglePause_def delNode_def createNode_def node_created_def
        new_node_def list_all_iff split: list.split)
qed

lemma totalVcpu_sum:
  "list_all (\<lambda>n. parse_int (ins_specs n) \<noteq> None) ns \<Longrightarrow>
   totalVcpu ns = Some (sum_list (map (\<lambda>n. the (parse_int (ins_specs n))) ns))"
proof -
  have "foldl (\<lambda>s n. add_nan s (parse_int (ins_specs n))) (Some k) ns =
      Some (k + sum_list (map (\<lambda>n. the (parse_int (ins_specs n))) ns))"
    if "list_all (\<lambda>n. parse_int (ins_specs n) \<noteq> None) ns" for k
    using that by (induction ns arbitrary: k) (auto simp: add_nan_def)
  then show "list_all (\<lambda>n. parse_int (ins_specs n) \<noteq> None) ns \<Longrightarrow> ?thesis"
    by (simp add: totalVcpu_def)
qed

lemma totalVcpu_pause: "totalVcpu (togglePause i ns) = totalVcpu ns"
proof -
  have "foldl (\<lambda>s n. add_nan s (parse_int (ins_specs n))) k (togglePause i ns) =
      foldl (\<lambda>s n. add_nan s (parse_int (ins_specs n))) k ns" for k
    by (induction ns arbitrary: k) (auto simp: togglePause_def)
  then show ?thesis by (simp add: totalVcpu_def)
qed

lemma costPerH_pause: "costPerH (togglePause i ns) = costPerH ns"
  by (simp add: costPerH_def totalVcpu_pause)

lemma togglePause_twice: "togglePause i (togglePause i ns) = ns"
  by (induction ns) (auto simp: togglePause_def)

lemma totalWork_sum: "totalWork ns = sum_list (map ins_workers (filter (\<lambda>n. \<not> ins_paused n) ns))"
proof -
  have "foldl (\<lambda>s n. s + ins_workers n) k ms = k + sum_list (map ins_workers ms)" for k and ms :: "cloud_node list"
    by (induction ms arbitrary: k) auto
  then show ?thesis by (simp add: totalWork_def)
qed

text \<open>A new instance has no workers, so it changes the cost and not the workers in use.\<close>

lemma totalWork_new: "totalWork (new_node r f # ns) = totalWork ns"
  by (simp add: totalWork_sum new_node_def)

text \<open>A query with a character no identifier, region or lower-cased specs has finds nothing.\<close>

lemma contains_set: "contains s q \<Longrightarrow> set q \<subseteq> set s"
  by (simp add: contains_iff_sublist set_mono_sublist)

lemma query_out_of_alphabet:
  assumes "c \<in> set q" "\<And>n. n \<in> set ns \<Longrightarrow> c \<notin> set (ins_id n) \<union> set (ins_region n) \<union> set (lc (ins_specs n))"
  shows "filter (node_hit lc q) ns = []"
  using assms contains_set by (fastforce simp: node_hit_def filter_empty_conv)

end
