(* ===== verification/Ui_Path.thy ===== *)
theory Ui_Path
  imports Page_Kit
begin

text \<open>
  A page in use: a run in which every event is one the page lets the user raise in the state it is
  in (a click on an enabled button, a key, a text typed or chosen in a field) or one that comes from
  outside (a timer, an answer). The locale \<open>guarded_page\<close> is what a page with a guard in its markup
  relies on: the invariant has to be kept by these events only.
\<close>

definition all_inputs :: "'e node list \<Rightarrow> (jstr \<Rightarrow> 'e) list" where
  "all_inputs ns = concat (map inputs ns)"

definition all_keys :: "'e node list \<Rightarrow> 'e list" where
  "all_keys ns = concat (map keys_of ns)"

definition raises :: "'e node list \<Rightarrow> 'e \<Rightarrow> bool" where
  "raises ns e = (e \<in> set (all_clicks ns) \<or> e \<in> set (all_keys ns) \<or> (\<exists>f \<in> set (all_inputs ns). \<exists>v. e = f v))"

inductive ui_path ::
  "('e \<Rightarrow> 's \<Rightarrow> 's) \<Rightarrow> ('s \<Rightarrow> 'e node list) \<Rightarrow> ('e \<Rightarrow> bool) \<Rightarrow> 's \<Rightarrow> 'e list \<Rightarrow> 's \<Rightarrow> bool"
  for step view outside where
  ui_stop: "ui_path step view outside s [] s"
| ui_user: "raises (view s) e \<Longrightarrow> ui_path step view outside (step e s) es t
    \<Longrightarrow> ui_path step view outside s (e # es) t"
| ui_outside: "outside e \<Longrightarrow> ui_path step view outside (step e s) es t
    \<Longrightarrow> ui_path step view outside s (e # es) t"

inductive_cases ui_path_ConsE: "ui_path step view outside s (e # es) t"

lemma ui_path_run: "ui_path step view outside s es t \<Longrightarrow> t = run step es s"
  by (induction rule: ui_path.induct) auto

locale guarded_page =
  fixes start :: 's
    and step :: "'e \<Rightarrow> 's \<Rightarrow> 's"
    and view :: "'s \<Rightarrow> 'e node list"
    and outside :: "'e \<Rightarrow> bool"
    and inv :: "'s \<Rightarrow> bool"
  assumes start_inv: "inv start"
    and user_inv: "inv s \<Longrightarrow> raises (view s) e \<Longrightarrow> inv (step e s)"
    and outside_inv: "inv s \<Longrightarrow> outside e \<Longrightarrow> inv (step e s)"
begin

lemma path_inv_from: "ui_path step view outside s es t \<Longrightarrow> inv s \<Longrightarrow> inv t"
  by (induction rule: ui_path.induct) (auto intro: user_inv outside_inv)

lemma path_inv: "ui_path step view outside start es t \<Longrightarrow> inv t"
  using path_inv_from start_inv by blast

end

lemma all_inputs_simps [simp]:
  "all_inputs [] = []"
  "all_inputs (n # ns) = inputs n @ all_inputs ns"
  "all_inputs (ns @ ms) = all_inputs ns @ all_inputs ms"
  "all_inputs (shown c ns) = (if c then all_inputs ns else [])"
  "inputs (El t as cs) = attr_inputs as @ all_inputs cs"
  by (simp_all add: all_inputs_def shown_def)

lemma all_keys_simps [simp]:
  "all_keys [] = []"
  "all_keys (n # ns) = keys_of n @ all_keys ns"
  "all_keys (ns @ ms) = all_keys ns @ all_keys ms"
  "all_keys (shown c ns) = (if c then all_keys ns else [])"
  "keys_of (El t as cs) = attr_keys as @ all_keys cs"
  by (simp_all add: all_keys_def shown_def)

declare inputs.simps(3) [simp del] keys_of.simps(3) [simp del]

lemma set_all_inputs_map: "set (all_inputs (map f xs)) = (\<Union>x \<in> set xs. set (inputs (f x)))"
  by (induction xs) auto

lemma set_all_keys_map: "set (all_keys (map f xs)) = (\<Union>x \<in> set xs. set (keys_of (f x)))"
  by (induction xs) auto

lemma inputs_modal [simp]:
  "inputs (modal lang t e cs ft) = all_inputs cs @ (case ft of Some f \<Rightarrow> all_inputs f | None \<Rightarrow> [])"
  by (simp add: modal_def split: option.split)

lemma keys_modal [simp]:
  "keys_of (modal lang t e cs ft) = e # all_keys cs @ (case ft of Some f \<Rightarrow> all_keys f | None \<Rightarrow> [])"
  by (simp add: modal_def split: option.split)

lemma inputs_pageHead [simp]: "inputs (pageHead lang a b c rgt) = all_inputs rgt"
  by (simp add: pageHead_def split: option.split)

lemma keys_pageHead [simp]: "keys_of (pageHead lang a b c rgt) = all_keys rgt"
  by (simp add: pageHead_def split: option.split)

end
