(* ===== verification/Cloud_View.thy ===== *)
theory Cloud_View
  imports Cloud Ui_Path
begin

text \<open>
  What app/cloud/page.tsx renders, and how the page behaves under the events its markup lets a user
  raise. The hover effects of the cards and rows are left out.
\<close>

record cloud_region =
  rg_code :: jstr
  rg_city :: jstr
  rg_status :: jstr
  rg_nodes :: nat
  rg_lat :: jstr

definition REGIONS :: "cloud_region list" where
  "REGIONS =
    [\<lparr>rg_code = (u ''sa-east-1''), rg_city = (ux ''S{e3}o Paulo, Brasil''), rg_status = (u ''operacional''), rg_nodes = 2, rg_lat = (u ''12 ms'')\<rparr>,
     \<lparr>rg_code = (u ''us-east-1''), rg_city = (u ''N. Virginia, EUA''), rg_status = (u ''operacional''), rg_nodes = 2, rg_lat = (u ''98 ms'')\<rparr>,
     \<lparr>rg_code = (u ''eu-west-1''), rg_city = (u ''Irlanda, Europa''), rg_status = (u ''degradado''), rg_nodes = 2, rg_lat = (u ''214 ms'')\<rparr>,
     \<lparr>rg_code = (u ''us-west-2''), rg_city = (u ''Oregon, EUA''), rg_status = (u ''operacional''), rg_nodes = 1, rg_lat = (u ''173 ms'')\<rparr>]"

fun STATUS_COLOR :: "node_status \<Rightarrow> jstr \<times> jstr" where
  "STATUS_COLOR Ativo = ((u ''var(--green)''), (u ''var(--green-tint)''))"
| "STATUS_COLOR Escalando = ((u ''var(--orange)''), (u ''var(--orange-tint,rgba(240,136,62,.15))''))"
| "STATUS_COLOR Ocioso = ((u ''var(--mute)''), (u ''var(--elev)''))"

definition REGION_STATUS_COLOR :: "(jstr \<times> jstr \<times> jstr) list" where
  "REGION_STATUS_COLOR =
    [((u ''operacional''), (u ''var(--green)''), (u ''var(--green-tint)'')),
     ((u ''degradado''), (u ''var(--orange)''), (u ''var(--orange-tint,rgba(240,136,62,.15))'')),
     ((ux ''manuten{e7}{e3}o''), (u ''var(--red)''), (u ''var(--red-tint)''))]"

definition REGION_OPTS :: "jstr list" where
  "REGION_OPTS = [(u ''todas''), (u ''sa-east-1''), (u ''us-east-1''), (u ''eu-west-1''), (u ''us-west-2'')]"

definition STATUS_OPTS :: "(node_status option \<times> jstr) list" where
  "STATUS_OPTS = [(None, (u ''Todos'')), (Some Ativo, (u ''Ativos'')), (Some Escalando, (u ''Escalando'')), (Some Ocioso, (u ''Ociosos''))]"

definition sPill :: "bool \<Rightarrow> 'e attr list" where
  "sPill active = [Sty ''background'' (if active then (u ''var(--card)'') else (u ''transparent'')),
                   Sty ''color'' (if active then (u ''var(--ink)'') else (u ''var(--dim)''))]"

text \<open>\<open>Math.min(100, Math.max(0, pct))\<close>, as a width in percent.\<close>

definition cloud_width :: "int \<Rightarrow> int" where "cloud_width pct = min 100 (max 0 pct)"

definition cloud_bar :: "nat \<Rightarrow> jstr \<Rightarrow> 'e node" where
  "cloud_bar pct color =
     dv [El ''div'' [StyPct ''width'' (of_int (cloud_width (int pct))), Sty ''background'' color] []]"

definition statusPill :: "node_status \<Rightarrow> 'e node" where
  "statusPill st =
     (let (color, bg) = STATUS_COLOR st in
      El ''span'' [Sty ''color'' color, Sty ''background'' bg]
        [El ''span'' [Sty ''background'' color] [], Txt (node_status_text st)])"

definition load_color :: "jstr \<Rightarrow> nat \<Rightarrow> jstr" where
  "load_color calm pct = (if pct > 80 then (u ''var(--red)'') else if pct > 60 then (u ''var(--orange)'') else calm)"

definition kpi_cards :: "cloud \<Rightarrow> 'e node" where
  "kpi_cards s =
     dv (map (\<lambda>(label, value, color).
           El ''div'' [Key label] [spt label, El ''span'' [Sty ''color'' color] [Txt value]])
        [((ux ''Inst{e2}ncias ativas''), nshow (length (cl_nodes s)), (u ''var(--ink)'')),
         ((u ''vCPUs provisionadas''), (case totalVcpu (cl_nodes s) of None \<Rightarrow> (u ''NaN'') | Some v \<Rightarrow> nshow v), (u ''var(--ink)'')),
         ((u ''Custo estimado/h''), (u ''$'') @ costPerH (cl_nodes s), (u ''var(--accent)'')),
         ((u ''Disponibilidade 30d''), (u ''99,95%''), (u ''var(--green)''))])"

definition region_card :: "cloud_region \<Rightarrow> 'e node" where
  "region_card r =
     (let (rc, rbg) = lookup_or ([], []) REGION_STATUS_COLOR (rg_status r) in
      El ''div'' [Key (rg_code r)]
        [dv [spt (rg_code r),
             El ''span'' [Sty ''color'' rc] [El ''span'' [Sty ''background'' rc] [], Txt (rg_status r)]],
         spt (rg_city r),
         dv [dv [spt ((ux ''Inst{e2}ncias'')), spt (nshow (rg_nodes r))], dv [spt ((ux ''Lat{ea}ncia'')), spt (rg_lat r)]]])"

definition cloud_row :: "cloud_node \<Rightarrow> cloud_event node" where
  "cloud_row n =
     El ''div'' [Key (ins_id n)]
       [dv [dv (spt (ins_id n) # shown (ins_pinned n) [sp [svg, Txt ((u ''fixado''))]]),
            sp [Txt (ins_region n), Txt ((ux '' {b7} '')), Txt (ins_specs n)]],
        spt (ins_type n),
        spt (nshow (ins_workers n)),
        sp [cloud_bar (ins_cpu n) (load_color ((u ''var(--accent)'')) (ins_cpu n)), sp [Txt (nshow (ins_cpu n)), Txt ((u ''%''))]],
        sp [cloud_bar (ins_mem n) (load_color ((u ''var(--blue)'')) (ins_mem n)), sp [Txt (nshow (ins_mem n)), Txt ((u ''%''))]],
        sp [if ins_paused n then sp [sp [], Txt ((u ''pausada''))] else statusPill (ins_status n)],
        sp [El ''button'' [Title (if ins_paused n then (u ''Retomar'') else (u ''Pausar'')), OnClick (CL_pause (ins_id n))] [svg],
            El ''button'' [Title ((u ''Editar''))] [svg],
            El ''button'' [Title ((u ''Excluir'')), OnClick (CL_delete (ins_id n))] [svg]]]"

definition cloud_arrows :: "nat \<Rightarrow> nat \<Rightarrow> nat \<Rightarrow> cloud_event node list" where
  "cloud_arrows len tot safe =
     shown (tot > 1)
       [dv [sp [Txt (nshow len), Txt ((ux '' inst{e2}ncia(s)''))],
            dv [navBtn CL_prev (safe = 0) [svg], navBtn CL_next (safe \<ge> tot - 1) [svg]]]]"

definition cloud_table :: "(jstr \<Rightarrow> jstr) \<Rightarrow> cloud \<Rightarrow> cloud_event node" where
  "cloud_table lc s =
     (let filtered = cloud_filtered lc s; tot = total_pages CLOUD_PAGE filtered;
          safe = safe_page CLOUD_PAGE filtered (cl_page s); rows = page_rows CLOUD_PAGE filtered (cl_page s) in
      dv ([dv [dv [svg, inp (cl_q s) CL_search ((ux ''Buscar inst{e2}ncia{2026}''))],
               sel_el (cl_region s) CL_pick_region
                 (map (\<lambda>r. El ''option'' [Key r, Value r] [Txt (if r = (u ''todas'') then (ux ''Todas as regi{f5}es'') else r)]) REGION_OPTS),
               dv (map (\<lambda>(k, l). El ''button'' (OnClick (CL_pick_status k) # sPill (cl_status s = k)) [Txt l]) STATUS_OPTS)],
           dv [spt ((ux ''Inst{e2}ncia'')), spt ((u ''Tipo'')), spt ((u ''Workers'')), spt ((u ''CPU'')), spt ((ux ''Mem{f3}ria'')), spt ((u ''Estado'')), spt ((ux ''A{e7}{f5}es''))]]
          @ map cloud_row rows
          @ shown (rows = []) [dvt ((ux ''nenhuma inst{e2}ncia''))]
          @ cloud_arrows (length filtered) tot safe
          @ [dv [sp [Txt (nshow (length (cl_nodes s))), Txt ((ux '' inst{e2}ncias {b7} '')), Txt (nshow (totalWork (cl_nodes s))),
                     Txt ((u '' workers em uso''))],
                 sp [sp [], Txt ((u ''Autoescala ativa''))]]]))"

definition new_dialog :: "jstr \<Rightarrow> cloud \<Rightarrow> cloud_event node" where
  "new_dialog lang s =
     modal lang ((ux ''Nova inst{e2}ncia'')) CL_close
       [dv [El ''label'' [] [spt ((ux ''Regi{e3}o'')),
              sel_el (fr_region (cl_nf s)) CL_nf_region
                [optv ((u ''sa-east-1'')) ((ux ''sa-east-1 {2014} S{e3}o Paulo'')), optv ((u ''us-east-1'')) ((ux ''us-east-1 {2014} N. Virginia'')),
                 optv ((u ''eu-west-1'')) ((ux ''eu-west-1 {2014} Irlanda'')), optv ((u ''us-west-2'')) ((ux ''us-west-2 {2014} Oregon''))]],
            El ''label'' [] [spt ((ux ''Tipo de inst{e2}ncia'')),
              sel_el (fr_type (cl_nf s)) CL_nf_type
                [optv ((u ''standard'')) ((ux ''Standard {2014} 4 vCPU {b7} 8 GB'')),
                 optv ((u ''compute'')) ((ux ''Compute-optimized {2014} 8 vCPU {b7} 16 GB'')),
                 optv ((u ''memory'')) ((ux ''Memory-optimized {2014} 8 vCPU {b7} 32 GB''))]],
            dv [El ''label'' [] [spt ((ux ''Workers m{ed}nimos'')), inp (fr_min (cl_nf s)) CL_nf_min []],
                El ''label'' [] [spt ((ux ''Workers m{e1}ximos'')), inp (fr_max (cl_nf s)) CL_nf_max []]],
            dv [svg, Txt ((ux ''Inst{e2}ncias s{e3}o cobradas por vCPU/hora de uso efetivo. O autoescala mant{e9}m o m{ed}nimo idle e sobe at{e9} o m{e1}ximo conforme a fila cresce.''))]]]
       (Some [btn CL_close [Txt ((u ''Cancelar''))],
              El ''button'' [OnClick CL_create, Disabled (cl_creating s), Sty ''opacity'' (if cl_creating s then (u ''.6'') else (u ''1''))]
                [Txt (if cl_creating s then (ux ''Criando{2026}'') else (ux ''Criar inst{e2}ncia''))]])"

definition cloud_view :: "(jstr \<Rightarrow> jstr) \<Rightarrow> jstr \<Rightarrow> cloud \<Rightarrow> cloud_event node list" where
  "cloud_view lc lang s =
     [pageHead lang (Some ((u ''Sistema''))) ((u ''Cloud''))
        (Some ((ux ''Infraestrutura onde os workers s{e3}o executados {2014} regi{f5}es, inst{e2}ncias e capacidade.'')))
        [btn CL_open [svg, Txt ((ux ''Nova inst{e2}ncia''))]],
      dv [kpi_cards s, dv [spt ((ux ''Regi{f5}es'')), dv (map region_card REGIONS)], cloud_table lc s]]
     @ shown (cl_new s) [new_dialog lang s]"

subsection \<open>What the page lets a user raise\<close>

lemma clicks_kpi [simp]: "clicks (kpi_cards s) = []" "inputs (kpi_cards s) = []" "keys_of (kpi_cards s) = []"
  by (simp_all add: kpi_cards_def)

lemma clicks_region [simp]: "clicks (region_card r) = []" "inputs (region_card r) = []" "keys_of (region_card r) = []"
  by (simp_all add: region_card_def split_beta)

lemma cloud_bar_silent [simp]: "clicks (cloud_bar p c) = []" "inputs (cloud_bar p c) = []" "keys_of (cloud_bar p c) = []"
  by (simp_all add: cloud_bar_def)

lemma statusPill_silent [simp]: "clicks (statusPill st) = []" "inputs (statusPill st) = []" "keys_of (statusPill st) = []"
  by (cases st; simp add: statusPill_def)+

lemma clicks_cloud_row [simp]: "clicks (cloud_row n) = [CL_pause (ins_id n), CL_delete (ins_id n)]"
  "inputs (cloud_row n) = []" "keys_of (cloud_row n) = []"
  by (simp_all add: cloud_row_def)

lemmas cloud_view_parts = cloud_view_def new_dialog_def cloud_table_def cloud_arrows_def Let_def
  navBtn_def STATUS_OPTS_def sPill_def REGION_OPTS_def

lemma create_is_guarded:
  "CL_create \<in> set (all_clicks (cloud_view lc lang s)) \<longleftrightarrow> cl_new s \<and> \<not> cl_creating s"
  by (auto simp: cloud_view_parts set_all_clicks_map shown_def split: if_splits)

lemma create_has_no_key: "CL_create \<notin> set (all_keys (cloud_view lc lang s))"
  by (auto simp: cloud_view_parts set_all_keys_map shown_def split: if_splits)

lemma create_has_no_field: "f \<in> set (all_inputs (cloud_view lc lang s)) \<Longrightarrow> f v \<noteq> CL_create"
  by (auto simp: cloud_view_parts set_all_inputs_map shown_def split: if_splits)

lemma timer_is_not_raised: "\<not> raises (cloud_view lc lang s) (CL_timer r)"
  by (auto simp: raises_def cloud_view_parts set_all_inputs_map set_all_keys_map set_all_clicks_map shown_def
      split: if_splits)

lemma create_raised: "raises (cloud_view lc lang s) CL_create \<longleftrightarrow> cl_new s \<and> \<not> cl_creating s"
  using create_has_no_field [of _ lc lang s] unfolding raises_def create_is_guarded
  by (metis create_has_no_key)

text \<open>The button of the dialog keeps the page to one creation at a time.\<close>

definition one_creation :: "cloud \<Rightarrow> bool" where
  "one_creation s = (length (creations s) = (if cl_creating s then 1 else 0))"

definition cloud_outside :: "cloud_event \<Rightarrow> bool" where
  "cloud_outside e = (case e of CL_timer r \<Rightarrow> length r \<le> 6 | _ \<Rightarrow> False)"

interpretation cloud_use: guarded_page cloud_start "cloud_step lc" "cloud_view lc lang" cloud_outside one_creation
  for lc lang
proof
  show "one_creation cloud_start" by (simp add: one_creation_def cloud_start_def)
  show "one_creation (cloud_step lc e s)" if "one_creation s" "raises (cloud_view lc lang s) e" for s e
    using that by (cases e) (auto simp: one_creation_def createNode_def create_raised timer_is_not_raised split: if_splits)
  show "one_creation (cloud_step lc e s)" if "one_creation s" "cloud_outside e" for s e
    using that by (auto simp: one_creation_def cloud_outside_def node_created_def split: cloud_event.splits list.splits if_splits)
qed

text \<open>
  What is typed while an instance is being created is lost, and closing the dialog does not call
  the creation off: the timer adds the instance of the form that was clicked.
\<close>

lemma created_from_the_click:
  assumes "creations s = []"
    "\<forall>e \<in> set es. case e of CL_create \<Rightarrow> False | CL_timer _ \<Rightarrow> False | CL_delete _ \<Rightarrow> False | CL_pause _ \<Rightarrow> False | _ \<Rightarrow> True"
  shows "let t = cloud_step lc (CL_timer r) (run (cloud_step lc) es (cloud_step lc CL_create s)) in
    cl_nodes t = new_node r (cl_nf s) # cl_nodes s \<and> cl_nf t = NF_START \<and> \<not> cl_new t \<and> \<not> cl_creating t"
proof -
  have *: "creations (run (cloud_step lc) es t) = creations t \<and> cl_nodes (run (cloud_step lc) es t) = cl_nodes t" for t
    using assms(2)
  proof (induction es arbitrary: t)
    case (Cons e es)
    then show ?case by (cases e) simp_all
  qed simp
  show ?thesis by (simp add: Let_def node_created_def * createNode_def assms(1))
qed

end
