(* ===== verification/Knowledge.thy ===== *)
theory Knowledge
  imports Ui_Path Js_Parse
begin

text \<open>
  The knowledge page, app/knowledge/page.tsx: the memories and documents of the server, the
  documents kept in the page, the form of a memory, the dialog that writes a document, the import of
  a file. The tag of the request that saves a document carries the form its continuation was created
  with; \<open>now\<close> is Date.now() in the continuations that read it. \<open>lc\<close> is toLowerCase. Theory
  Knowledge_View holds the view.
\<close>

record memory =
  me_id :: jstr
  me_scope :: jstr
  me_repo :: jstr
  me_instr :: jstr
  me_source :: jstr

record kbdoc =
  kd_id :: jstr
  kd_name :: jstr
  kd_category :: jstr
  kd_ref :: jstr
  kd_indexed :: bool
  kd_size :: "nat option"
  kd_content :: "jstr option"

record kb_repo =
  kr_id :: jstr
  kr_name :: jstr

record write_form =
  wd_title :: jstr
  wd_category :: jstr
  wd_content :: jstr

datatype kb_tab = Docs_tab | Mem_tab

record knowledge =
  kn_memories :: "memory list pdata"
  kn_kb :: "kbdoc list pdata"
  kn_repos :: "kb_repo list pdata"
  kn_loading :: bool
  kn_tab :: kb_tab
  kn_cat :: jstr
  kn_q :: jstr
  kn_page :: nat
  kn_local :: "kbdoc list"
  mf_scope :: jstr
  mf_repo :: jstr
  mf_instr :: jstr
  kn_write :: bool
  kn_wd :: write_form
  kn_saving :: bool
  kn_preview :: "kbdoc option"

definition WD_START :: write_form where
  "WD_START = \<lparr>wd_title = [], wd_category = (ux ''Anota{e7}{e3}o''), wd_content = []\<rparr>"

definition knowledge_start :: knowledge where
  "knowledge_start = \<lparr>kn_memories = Nul, kn_kb = Nul, kn_repos = Nul, kn_loading = True, kn_tab = Docs_tab,
     kn_cat = (u ''todos''), kn_q = [], kn_page = 0, kn_local = [], mf_scope = (u ''global''), mf_repo = [], mf_instr = [],
     kn_write = False, kn_wd = WD_START, kn_saving = False, kn_preview = None\<rparr>"

definition KB_PAGE :: nat where "KB_PAGE = 20"

definition CATEGORIES :: "jstr list" where
  "CATEGORIES = [(u ''Manual''), (ux ''Especifica{e7}{e3}o''), (u ''API''), (u ''Guia''), (ux ''Refer{ea}ncia''), (ux ''Anota{e7}{e3}o''), (u ''Outro'')]"

definition SCOPES :: "jstr list" where "SCOPES = [(u ''global''), (u ''repo'')]"

datatype kb_tag = Post_mem | Get_mems | Del_mem | Post_doc write_form | Get_docs | Post_import | Del_doc

datatype knowledge_event =
    K_mount
  | K_memories "memory list pdata outcome"
  | K_docs "kbdoc list pdata outcome"
  | K_repos "kb_repo list pdata outcome"
  | K_tab kb_tab
  | K_cat jstr
  | K_search jstr
  | K_prev
  | K_next
  | K_scope jstr
  | K_repo jstr
  | K_instr jstr
  | K_add_mem
  | K_mem_added "json outcome"
  | K_del_mem jstr
  | K_mem_deleted "json outcome"
  | K_open
  | K_close
  | K_title jstr
  | K_category jstr
  | K_content jstr
  | K_save
  | K_saved write_form int "json outcome"
  | K_browse
  | K_file jstr jstr nat int
  | K_imported "json outcome"
  | K_del_doc kbdoc
  | K_doc_deleted "json outcome"
  | K_preview kbdoc
  | K_unpreview

subsection \<open>Derived values\<close>

definition allDocs :: "knowledge \<Rightarrow> kbdoc list" where
  "allDocs s = or_empty (kn_kb s) @ kn_local s"

definition kb_filtered :: "(jstr \<Rightarrow> jstr) \<Rightarrow> knowledge \<Rightarrow> kbdoc list" where
  "kb_filtered lc s =
     filter (\<lambda>d. kn_q s = [] \<or> contains (lc (kd_name d)) (lc (kn_q s))
               \<or> contains (lc (or_blank (kd_content d))) (lc (kn_q s)))
       (filter (\<lambda>d. kn_cat s = (u ''todos'') \<or> kd_category d = kn_cat s) (allDocs s))"

definition fmtSize :: "nat option \<Rightarrow> jstr option" where
  "fmtSize bytes =
     (case bytes of
        None \<Rightarrow> None
      | Some b \<Rightarrow>
          (if b = 0 then None
           else if b < 1024 then Some (nshow b @ (u '' B''))
           else if b < 1024 * 1024 then Some (to_fixed 1 (jdiv (of_nat b) 1024) @ (u '' KB''))
           else Some (to_fixed 1 (jdiv (jdiv (of_nat b) 1024) 1024) @ (u '' MB''))))"

subsection \<open>Handlers\<close>

definition reloadMem :: "kb_tag cmd list" where
  "reloadMem = [Send GET (u ''/v1/memories'') None Get_mems]"

definition reloadKB :: "kb_tag cmd list" where
  "reloadKB = [Send GET (u ''/v1/kb-documents'') None Get_docs]"

definition addMem :: "knowledge \<Rightarrow> kb_tag cmd list" where
  "addMem s =
     (if trim (mf_instr s) = [] then []
      else [Send POST (u ''/v1/memories'')
              (Some (JObj (((u ''scope''), JStr (mf_scope s))
                 # (if mf_repo s = [] then [] else [((u ''repo_id''), JStr (mf_repo s))])
                 @ [((u ''instruction''), JStr (mf_instr s))]))) Post_mem])"

definition mem_added :: "json outcome \<Rightarrow> knowledge \<Rightarrow> knowledge \<times> kb_tag cmd list" where
  "mem_added r s = (case r of Resolved _ \<Rightarrow> (s\<lparr>mf_instr := []\<rparr>, reloadMem) | Rejected _ \<Rightarrow> (s, []))"

definition doc_name :: "write_form \<Rightarrow> jstr" where
  "doc_name w = wd_title w @ (u ''.md'')"

definition saveDoc :: "knowledge \<Rightarrow> knowledge \<times> kb_tag cmd list" where
  "saveDoc s =
     (let w = kn_wd s in
      if trim (wd_title w) = [] \<or> trim (wd_content w) = [] then (s, [])
      else (s\<lparr>kn_saving := True\<rparr>,
            [Send POST (u ''/v1/kb-documents'')
               (Some (JObj [((u ''name''), JStr (doc_name w)), ((u ''category''), JStr (wd_category w)),
                            ((u ''content''), JStr (wd_content w)), ((u ''file_ref''), JStr ((u ''inline'')))])) (Post_doc w)]))"

definition local_doc :: "int \<Rightarrow> write_form \<Rightarrow> kbdoc" where
  "local_doc now w =
     \<lparr>kd_id = (u ''local-'') @ ishow now, kd_name = doc_name w, kd_category = wd_category w, kd_ref = (u ''inline''),
      kd_indexed = False, kd_size = Some (utf8_length (wd_content w)), kd_content = Some (wd_content w)\<rparr>"

definition doc_saved :: "write_form \<Rightarrow> int \<Rightarrow> json outcome \<Rightarrow> knowledge \<Rightarrow> knowledge \<times> kb_tag cmd list" where
  "doc_saved w now r s =
     (case r of
        Resolved x \<Rightarrow>
          (let stored = truthy (jget (u ''id'') x) in
           (s\<lparr>kn_local := (if stored then kn_local s else local_doc now w # kn_local s),
              kn_wd := WD_START, kn_write := False, kn_saving := False\<rparr>,
            if stored then reloadKB else []))
      | Rejected _ \<Rightarrow> (s\<lparr>kn_saving := False\<rparr>, []))"

definition imported_doc :: "jstr \<Rightarrow> jstr \<Rightarrow> nat \<Rightarrow> int \<Rightarrow> kbdoc" where
  "imported_doc nm content sz now =
     \<lparr>kd_id = (u ''local-'') @ ishow now, kd_name = nm, kd_category = (u ''Importado''), kd_ref = nm, kd_indexed = False,
      kd_size = Some sz, kd_content = Some content\<rparr>"

definition handleFileImport ::
  "jstr \<Rightarrow> jstr \<Rightarrow> nat \<Rightarrow> int \<Rightarrow> knowledge \<Rightarrow> knowledge \<times> kb_tag cmd list" where
  "handleFileImport nm content sz now s =
     (s\<lparr>kn_local := imported_doc nm content sz now # kn_local s\<rparr>,
      [Send POST (u ''/v1/kb-documents'')
         (Some (JObj [((u ''name''), JStr nm), ((u ''category''), JStr ((u ''Importado''))), ((u ''content''), JStr content),
                      ((u ''file_ref''), JStr nm)])) Post_import])"

definition delDoc :: "kbdoc \<Rightarrow> knowledge \<Rightarrow> knowledge \<times> kb_tag cmd list" where
  "delDoc d s =
     (if starts_with (kd_id d) (u ''local-'') then (s\<lparr>kn_local := filter (\<lambda>x. kd_id x \<noteq> kd_id d) (kn_local s)\<rparr>, [])
      else (s, [Send DELETE ((u ''/v1/kb-documents/'') @ kd_id d) None Del_doc]))"

fun knowledge_step :: "(jstr \<Rightarrow> jstr) \<Rightarrow> knowledge_event \<Rightarrow> knowledge \<Rightarrow> knowledge \<times> kb_tag cmd list" where
  "knowledge_step lc K_mount s = (s\<lparr>kn_loading := loading_effect (kn_memories s) (kn_loading s)\<rparr>, [])"
| "knowledge_step lc (K_memories r) s =
     (let d = poll_accept r (kn_memories s) in
      (s\<lparr>kn_memories := d, kn_loading := loading_effect d (kn_loading s)\<rparr>, []))"
| "knowledge_step lc (K_docs r) s = (s\<lparr>kn_kb := poll_accept r (kn_kb s)\<rparr>, [])"
| "knowledge_step lc (K_repos r) s = (s\<lparr>kn_repos := poll_accept r (kn_repos s)\<rparr>, [])"
| "knowledge_step lc (K_tab t) s = (s\<lparr>kn_tab := t\<rparr>, [])"
| "knowledge_step lc (K_cat c) s = (s\<lparr>kn_cat := c, kn_page := 0\<rparr>, [])"
| "knowledge_step lc (K_search v) s = (s\<lparr>kn_q := v, kn_page := 0\<rparr>, [])"
| "knowledge_step lc K_prev s = (s\<lparr>kn_page := prev_page (kn_page s)\<rparr>, [])"
| "knowledge_step lc K_next s = (s\<lparr>kn_page := next_page KB_PAGE (kb_filtered lc s) (kn_page s)\<rparr>, [])"
| "knowledge_step lc (K_scope v) s = (s\<lparr>mf_scope := v\<rparr>, [])"
| "knowledge_step lc (K_repo v) s = (s\<lparr>mf_repo := v\<rparr>, [])"
| "knowledge_step lc (K_instr v) s = (s\<lparr>mf_instr := v\<rparr>, [])"
| "knowledge_step lc K_add_mem s = (s, addMem s)"
| "knowledge_step lc (K_mem_added r) s = mem_added r s"
| "knowledge_step lc (K_del_mem i) s = (s, [Send DELETE ((u ''/v1/memories/'') @ i) None Del_mem])"
| "knowledge_step lc (K_mem_deleted r) s = (s, case r of Resolved _ \<Rightarrow> reloadMem | Rejected _ \<Rightarrow> [])"
| "knowledge_step lc K_open s = (s\<lparr>kn_write := True\<rparr>, [])"
| "knowledge_step lc K_close s = (s\<lparr>kn_write := False\<rparr>, [])"
| "knowledge_step lc (K_title v) s = (s\<lparr>kn_wd := (kn_wd s)\<lparr>wd_title := v\<rparr>\<rparr>, [])"
| "knowledge_step lc (K_category v) s = (s\<lparr>kn_wd := (kn_wd s)\<lparr>wd_category := v\<rparr>\<rparr>, [])"
| "knowledge_step lc (K_content v) s = (s\<lparr>kn_wd := (kn_wd s)\<lparr>wd_content := v\<rparr>\<rparr>, [])"
| "knowledge_step lc K_save s = saveDoc s"
| "knowledge_step lc (K_saved w now r) s = doc_saved w now r s"
| "knowledge_step lc K_browse s = (s, [])"
| "knowledge_step lc (K_file nm c sz now) s = handleFileImport nm c sz now s"
| "knowledge_step lc (K_imported r) s = (s, reloadKB)"
| "knowledge_step lc (K_del_doc d) s = delDoc d s"
| "knowledge_step lc (K_doc_deleted r) s = (s, case r of Resolved _ \<Rightarrow> reloadKB | Rejected _ \<Rightarrow> [])"
| "knowledge_step lc (K_preview d) s = (s\<lparr>kn_preview := Some d\<rparr>, [])"
| "knowledge_step lc K_unpreview s = (s\<lparr>kn_preview := None\<rparr>, [])"

lemmas kb_handlers = mem_added_def saveDoc_def doc_saved_def handleFileImport_def delDoc_def Let_def

subsection \<open>Facts\<close>

interpretation kb_pages: paged KB_PAGE "kb_filtered lc" kn_page "\<lambda>p s. s\<lparr>kn_page := p\<rparr>" for lc
  by unfold_locales (simp_all add: kb_filtered_def allDocs_def KB_PAGE_def)

text \<open>The documents kept in the page are the ones whose identifier starts with \<open>local-\<close>.\<close>

definition locals_marked :: "knowledge \<Rightarrow> bool" where
  "locals_marked s = list_all (\<lambda>d. starts_with (kd_id d) (u ''local-'') \<and> \<not> kd_indexed d \<and> kd_content d \<noteq> None) (kn_local s)"

lemma starts_with_append [simp]: "starts_with (p @ s) p"
  by (simp add: starts_with_def)

lemma local_doc_marked:
  "starts_with (kd_id (local_doc now w)) (u ''local-'')" "\<not> kd_indexed (local_doc now w)" "kd_content (local_doc now w) = Some (wd_content w)"
  "starts_with (kd_id (imported_doc nm c sz now)) (u ''local-'')" "\<not> kd_indexed (imported_doc nm c sz now)"
  "kd_content (imported_doc nm c sz now) = Some c"
  by (simp_all add: local_doc_def imported_doc_def)

interpretation kb_machine: stepper knowledge_start "\<lambda>e s. fst (knowledge_step lc e s)" locals_marked for lc
proof
  show "locals_marked knowledge_start" by (simp add: locals_marked_def knowledge_start_def)
  show "locals_marked (fst (knowledge_step lc e s))" if "locals_marked s" for e s
    using that
    by (cases e) (simp_all add: locals_marked_def kb_handlers list_all_iff local_doc_marked split: outcome.split)
qed

text \<open>Deleting a document that is shown empties it from the list at once, or asks the server to.\<close>

lemma deleted_document:
  assumes "locals_marked s" "d \<in> set (allDocs s)"
  shows "let (t, cs) = knowledge_step lc (K_del_doc d) s in
    (if starts_with (kd_id d) (u ''local-'') then cs = [] \<and> kd_id d \<notin> kd_id ` set (kn_local t)
     else cs = [Send DELETE ((u ''/v1/kb-documents/'') @ kd_id d) None Del_doc] \<and> t = s)"
  using assms by (auto simp: delDoc_def)

text \<open>
  The repository of a memory is sent also when its scope is global again: the field is hidden, not
  cleared.
\<close>

lemma global_memory_keeps_its_repository:
  assumes "r \<noteq> []" "trim v \<noteq> []"
  shows "let t = run (\<lambda>e s. fst (knowledge_step lc e s)) [K_scope (u ''repo''), K_repo r, K_scope (u ''global''), K_instr v] s in
    snd (knowledge_step lc K_add_mem t) =
      [Send POST (u ''/v1/memories'')
         (Some (JObj [((u ''scope''), JStr ((u ''global''))), ((u ''repo_id''), JStr r), ((u ''instruction''), JStr v)])) Post_mem]"
  using assms by (simp add: addMem_def)

end
