(* ===== verification/Knowledge_View.thy ===== *)
theory Knowledge_View
  imports Knowledge
begin

text \<open>
  What app/knowledge/page.tsx renders: the document tab, the memory tab, the dialogs that write and
  show a document. The button that imports a file opens the file picker of the browser, which is the
  event \<open>K_browse\<close>; the file it gives is the event \<open>K_file\<close>. Names of the prototype of objects are
  not considered as extensions or categories. The hover effects are left out.
\<close>

definition sTabBtn :: "bool \<Rightarrow> 'e attr list" where
  "sTabBtn active = [Sty ''color'' (if active then (u ''var(--ink)'') else (u ''var(--dim)'')),
     Sty ''border-bottom'' (if active then (u ''2px solid var(--accent)'') else (u ''2px solid transparent''))]"

definition kb_pill :: "bool \<Rightarrow> 'e attr list" where
  "kb_pill active = [Sty ''background'' (if active then (u ''var(--card)'') else (u ''transparent'')),
                     Sty ''color'' (if active then (u ''var(--ink)'') else (u ''var(--dim)''))]"

definition catColor :: "jstr \<Rightarrow> 'e attr list" where
  "catColor c =
     (let (bg, col) = lookup_or ((u ''var(--elev)''), (u ''var(--dim)''))
            [((u ''Manual''), (u ''var(--blue-tint,rgba(88,166,255,.12))''), (u ''var(--blue)'')),
             ((ux ''Especifica{e7}{e3}o''), (u ''var(--accent-tint)''), (u ''var(--accent)'')),
             ((u ''API''), (u ''var(--green-tint)''), (u ''var(--green)'')),
             ((u ''Guia''), (u ''var(--orange-tint,rgba(255,166,0,.12))''), (u ''var(--orange)'')),
             ((ux ''Refer{ea}ncia''), (u ''var(--elev)''), (u ''var(--dim)'')),
             ((ux ''Anota{e7}{e3}o''), (u ''var(--red-tint)''), (u ''var(--red)''))] c
      in [Sty ''background'' bg, Sty ''color'' col])"

definition doc_ext :: "(jstr \<Rightarrow> jstr) \<Rightarrow> jstr \<Rightarrow> jstr" where
  "doc_ext lc nm = lc (last (split_on 46 nm))"

definition DocIcon :: "(jstr \<Rightarrow> jstr) \<Rightarrow> jstr \<Rightarrow> 'e node" where
  "DocIcon lc nm =
     (let ext = doc_ext lc nm;
          (bg, col) = lookup_or ((u ''var(--elev)''), (u ''var(--dim)''))
            [((u ''pdf''), (u ''var(--red-tint)''), (u ''var(--red)'')), ((u ''md''), (u ''var(--accent-tint)''), (u ''var(--accent)'')),
             ((u ''txt''), (u ''var(--elev)''), (u ''var(--dim)'')),
             ((u ''ts''), (u ''var(--blue-tint,rgba(88,166,255,.12))''), (u ''var(--blue)'')),
             ((u ''js''), (u ''var(--accent-tint)''), (u ''var(--accent)'')), ((u ''json''), (u ''var(--green-tint)''), (u ''var(--green)'')),
             ((u ''yaml''), (u ''var(--orange-tint,rgba(255,166,0,.12))''), (u ''var(--orange)''))] ext
      in El ''span'' [Sty ''background'' bg, Sty ''color'' col] [svg])"

text \<open>\<open>content.slice(0, 80).replace(/\n/g, " ")\<close> and an ellipsis.\<close>

definition content_line :: "jstr \<Rightarrow> jstr" where
  "content_line c = map (\<lambda>x. if x = 10 then 32 else x) (take 80 c) @ (ux ''{2026}'')"

definition opt_text :: "jstr option \<Rightarrow> 'e node list" where
  "opt_text m = (case m of Some t \<Rightarrow> [spt t] | None \<Rightarrow> [])"

definition doc_row :: "(jstr \<Rightarrow> jstr) \<Rightarrow> kbdoc \<Rightarrow> knowledge_event node" where
  "doc_row lc d =
     (let content = or_blank (kd_content d) in
      El ''div'' [Key (kd_id d)]
        [DocIcon lc (kd_name d),
         dv [dv ([spt (kd_name d), El ''span'' (catColor (kd_category d)) [Txt (kd_category d)]]
                 @ shown (kd_indexed d) [sp [sp [], Txt ((u ''indexado''))]]),
             dv (opt_text (fmtSize (kd_size d))
                 @ shown (kd_ref d \<noteq> [] \<and> kd_ref d \<noteq> (u ''inline'')) [spt (short (kd_ref d) 40)]
                 @ shown (content \<noteq> []) [spt (content_line content)])],
         dv (shown (content \<noteq> []) [El ''button'' [OnClick (K_preview d), Title ((u ''Visualizar''))] [svg, Txt ((u ''Ver''))]]
             @ [El ''button'' [OnClick (K_del_doc d), Title ((u ''Remover''))] [svg]])])"

definition empty_docs :: "knowledge_event node" where
  "empty_docs =
     dv [sp [svg],
         dv [spt ((u ''Base vazia'')),
             spt ((ux ''Importe manuais, especifica{e7}{f5}es e docs ou escreva um documento novo {2014} os agentes consultam tudo aqui durante as tarefas.''))],
         dv [btn K_browse [svg, Txt ((u ''Importar arquivo''))], btn K_open [svg, Txt ((u ''Escrever''))]]]"

definition kb_arrows :: "nat \<Rightarrow> nat \<Rightarrow> nat \<Rightarrow> knowledge_event node list" where
  "kb_arrows len tot safe =
     shown (tot > 1)
       [dv [sp [Txt (nshow len), Txt ((u '' documento(s)''))],
            dv [navBtn K_prev (safe = 0) [svg],
                sp [Txt (nshow (safe + 1)), Txt ((u '' / '')), Txt (nshow tot)],
                navBtn K_next (safe \<ge> tot - 1) [svg]]]]"

definition docs_tab :: "(jstr \<Rightarrow> jstr) \<Rightarrow> knowledge \<Rightarrow> knowledge_event node" where
  "docs_tab lc s =
     (let filtered = kb_filtered lc s; tot = total_pages KB_PAGE filtered;
          safe = safe_page KB_PAGE filtered (kn_page s); docs = page_rows KB_PAGE filtered (kn_page s) in
      dv ([dv [dv [svg, inp (kn_q s) K_search ((ux ''Buscar documentos{2026}''))],
               dv (map (\<lambda>c. El ''button'' ([Key c, OnClick (K_cat c)] @ kb_pill (kn_cat s = c))
                      [Txt (if c = (u ''todos'') then (u ''Todos'') else c)]) ((u ''todos'') # CATEGORIES))],
           (if docs \<noteq> [] then dv (map (doc_row lc) docs) else empty_docs)]
          @ kb_arrows (length filtered) tot safe
          @ [dv [svg, sp [Txt ((ux ''Documentos s{e3}o injetados no contexto dos agentes durante planejamento e execu{e7}{e3}o. Formatos suportados: '')),
                   El ''b'' [] [Txt ((ux ''.md {b7} .txt {b7} .ts {b7} .js {b7} .json {b7} .yaml {b7} .csv {b7} .pdf''))],
                   Txt ((ux ''. Arquivos bin{e1}rios (PDF) ficam indexados para busca sem{e2}ntica quando dispon{ed}vel.''))]]]))"

definition mem_row :: "memory \<Rightarrow> knowledge_event node" where
  "mem_row m =
     El ''div'' [Key (me_id m)]
       [svg,
        dv [spt (me_instr m),
            dv (El ''span''
                  [Sty ''background'' (if me_scope m = (u ''global'') then (u ''var(--accent-tint)'') else (u ''var(--blue-tint,rgba(88,166,255,.12))'')),
                   Sty ''color'' (if me_scope m = (u ''global'') then (u ''var(--accent)'') else (u ''var(--blue)''))]
                  [svg, Txt (me_scope m), Txt (if me_repo m \<noteq> [] then (ux '' {b7} '') @ short (me_repo m) 10 else [])]
                # shown (me_source m \<noteq> []) [spt (me_source m)])],
        dv [El ''button'' [OnClick (K_del_mem (me_id m)), Title ((u ''Remover''))] [svg]]]"

definition mem_tab :: "knowledge \<Rightarrow> knowledge_event node" where
  "mem_tab s =
     (let memList = or_empty (kn_memories s) in
      dv [dv [dv [svg, Txt ((ux ''Nova instru{e7}{e3}o de mem{f3}ria''))],
              dv [dv (sel_el (mf_scope s) K_scope
                        (map (\<lambda>x. El ''option'' [Key x, Value x]
                           [Txt (if x = (u ''global'') then (u ''Global (todos os workers)'') else (ux ''Reposit{f3}rio espec{ed}fico''))]) SCOPES)
                      # shown (mf_scope s = (u ''repo''))
                          [sel_el (mf_repo s) K_repo
                             (optv [] ((ux ''(escolha o reposit{f3}rio)''))
                              # map (\<lambda>r. El ''option'' [Key (kr_id r), Value (kr_id r)] [Txt (kr_name r)]) (or_empty (kn_repos s)))]),
                  dv [El ''input'' [Value (mf_instr s), OnInput K_instr, OnEnter K_add_mem,
                        Placeholder ((ux ''Ex.: sempre adicione testes unit{e1}rios {b7} n{e3}o quebre a API p{fa}blica {b7} prefira fun{e7}{f5}es puras''))] [],
                      btn K_add_mem [Txt ((u ''Adicionar''))]]]],
          (if memList \<noteq> [] then
             dv (dv [spt ((ux ''Mem{f3}rias ativas'')), sp [Txt (nshow (length memList)), Txt ((ux '' instru{e7}{e3}o({f5}es)''))]] # map mem_row memList)
           else dv [svg, spt ((ux ''Nenhuma instru{e7}{e3}o ainda'')),
                    spt ((ux ''Adicione regras que orientam todos os agentes {2014} como padr{f5}es de c{f3}digo, conven{e7}{f5}es do projeto ou restri{e7}{f5}es de neg{f3}cio.''))]),
          dv [svg, spt ((ux ''Mem{f3}rias s{e3}o injetadas no prompt de planejamento de cada worker. Instru{e7}{f5}es globais valem para todos os reposit{f3}rios; instru{e7}{f5}es de reposit{f3}rio s{f3} ativam quando o worker trabalha naquele repo.''))]])"

definition write_dialog :: "jstr \<Rightarrow> knowledge \<Rightarrow> knowledge_event node" where
  "write_dialog lang s =
     (let w = kn_wd s in
      modal lang ((u ''Novo documento'')) K_close
        [dv [dv [El ''label'' [] [spt ((ux ''T{ed}tulo'')), inp (wd_title w) K_title ((ux ''Ex.: Guia de contribui{e7}{e3}o, Padr{f5}es de API{2026}''))],
                 El ''label'' [] [spt ((u ''Categoria'')),
                   sel_el (wd_category w) K_category (map (\<lambda>c. El ''option'' [Key c, Value c] [Txt c]) CATEGORIES)]],
             El ''label'' [] [sp [Txt ((ux ''Conte{fa}do '')), spt ((u ''(Markdown suportado)''))],
               El ''textarea'' [Value (wd_content w), OnInput K_content] []],
             dv (shown (length (wd_content w) > 0)
                   [Txt (nshow (length (wd_content w)) @ (ux '' caracteres {b7} '') @ nshow (utf8_length (wd_content w)) @ (u '' bytes''))])]]
        (Some [btn K_close [Txt ((u ''Cancelar''))],
               El ''button'' [Sty ''opacity'' (if kn_saving s then (u ''.6'') else (u ''1'')), OnClick K_save, Disabled (kn_saving s)]
                 [Txt (if kn_saving s then (ux ''Salvando{2026}'') else (u ''Salvar documento''))]]))"

definition preview_dialog :: "jstr \<Rightarrow> kbdoc \<Rightarrow> knowledge_event node" where
  "preview_dialog lang d =
     modal lang (kd_name d) K_unpreview
       [dv [dv (El ''span'' (catColor (kd_category d)) [Txt (kd_category d)] # opt_text (fmtSize (kd_size d))),
            El ''pre'' [] [Txt (if or_blank (kd_content d) \<noteq> [] then or_blank (kd_content d) else (ux ''(sem conte{fa}do)''))]]]
       (Some [btn K_unpreview [Txt ((u ''Fechar''))]])"

definition tab_count :: "nat \<Rightarrow> 'e node list" where
  "tab_count n = shown (n > 0) [spt (nshow n)]"

definition knowledge_view :: "(jstr \<Rightarrow> jstr) \<Rightarrow> jstr \<Rightarrow> knowledge \<Rightarrow> knowledge_event node list" where
  "knowledge_view lc lang s =
     [pageHead lang (Some ((u ''Conhecimento & IA''))) ((u ''Base de Conhecimento''))
        (Some ((ux ''Documentos e instru{e7}{f5}es injetados nos agentes durante o planejamento e execu{e7}{e3}o.'')))
        [dv [El ''button'' [OnClick K_browse] [svg, Txt ((u ''Importar arquivo'')), El ''input'' [] []],
             btn K_open [svg, Txt ((u ''Novo documento''))]]],
      dv [El ''button'' (OnClick (K_tab Docs_tab) # sTabBtn (kn_tab s = Docs_tab))
            ([svg, Txt ((u ''Documentos''))] @ tab_count (length (allDocs s))),
          El ''button'' (OnClick (K_tab Mem_tab) # sTabBtn (kn_tab s = Mem_tab))
            ([svg, Txt ((ux ''Mem{f3}rias''))] @ tab_count (length (or_empty (kn_memories s))))]]
     @ (case kn_tab s of Docs_tab \<Rightarrow> [docs_tab lc s] | Mem_tab \<Rightarrow> [mem_tab s])
     @ shown (kn_write s) [write_dialog lang s]
     @ (case kn_preview s of Some d \<Rightarrow> [preview_dialog lang d] | None \<Rightarrow> [])"

subsection \<open>Facts\<close>

lemma catColor_silent [simp]:
  "attr_clicks (catColor c) = []" "is_disabled (catColor c) = False" "attr_inputs (catColor c) = []" "attr_keys (catColor c) = []"
  by (simp_all add: catColor_def split_beta)

lemma DocIcon_silent [simp]: "clicks (DocIcon lc n) = []" "inputs (DocIcon lc n) = []" "keys_of (DocIcon lc n) = []"
  by (simp_all add: DocIcon_def Let_def split_beta)

lemma opt_text_silent [simp]: "all_clicks (opt_text m) = []" "all_inputs (opt_text m) = []" "all_keys (opt_text m) = []"
  by (simp_all add: opt_text_def split: option.split)

lemma tab_count_silent [simp]: "all_clicks (tab_count n) = []"
  by (simp add: tab_count_def)

lemma clicks_doc_row [simp]:
  "clicks (doc_row lc d) = (if or_blank (kd_content d) \<noteq> [] then [K_preview d, K_del_doc d] else [K_del_doc d])"
  by (simp add: doc_row_def Let_def)

lemma clicks_mem_row [simp]: "clicks (mem_row m) = [K_del_mem (me_id m)]"
  by (simp add: mem_row_def)

lemmas kb_view_parts = knowledge_view_def docs_tab_def mem_tab_def write_dialog_def preview_dialog_def empty_docs_def
  kb_arrows_def Let_def navBtn_def sTabBtn_def kb_pill_def CATEGORIES_def SCOPES_def

text \<open>The save button of the dialog is there only while nothing is being saved.\<close>

lemma save_clickable:
  "K_save \<in> set (all_clicks (knowledge_view lc lang s)) \<longleftrightarrow> kn_write s \<and> \<not> kn_saving s"
  by (cases "kn_tab s"; cases "kn_preview s")
    (auto simp: kb_view_parts set_all_clicks_map shown_def split: if_splits)

text \<open>No pill selects the category of an imported document: it is shown only when all are.\<close>

lemma import_has_no_pill:
  "K_cat c \<in> set (all_clicks (knowledge_view lc lang s)) \<Longrightarrow> c \<noteq> (u ''Importado'')"
  by (cases "kn_tab s"; cases "kn_preview s")
    (auto simp: kb_view_parts set_all_clicks_map shown_def ux_def u_def split: if_splits)

end
