(* ===== verification/Org.thy ===== *)
theory Org
  imports Ui_Path
begin

text \<open>
  The organisation page, app/org/page.tsx: the three loads, the list of members with its filters,
  the invitations and the menu of a member. The flag of an answer tells the load of the mount, whose
  Promise.allSettled ends the loading. The tag of an invitation carries what its continuation was
  created with. The position of the menu of a member is one flag. \<open>lc\<close> and \<open>uc\<close> are toLowerCase and
  toUpperCase. Theory Org_View holds the view.
\<close>

record member =
  mb_id :: jstr
  mb_email :: jstr
  mb_name :: jstr
  mb_role :: jstr
  mb_status :: jstr

record org_workspace =
  ow_id :: jstr
  ow_name :: jstr
  ow_initial :: jstr

record pending_invite =
  pi_email :: jstr
  pi_by :: jstr
  pi_sent :: jstr
  pi_role :: jstr

record invite_form =
  in_email :: jstr
  in_password :: jstr
  in_role :: jstr

definition INV_START :: invite_form where
  "INV_START = \<lparr>in_email = [], in_password = [], in_role = (u ''member'')\<rparr>"

record org =
  og_me :: json
  og_members :: "member list"
  og_workspaces :: "org_workspace list"
  og_pending :: "pending_invite list"
  og_q :: jstr
  og_rf :: jstr
  og_page :: nat
  og_invite :: bool
  og_inv :: invite_form
  og_inviting :: bool
  og_menu :: "jstr option"
  og_pos :: bool
  og_loading :: bool
  settled_me :: bool
  settled_members :: bool
  settled_ws :: bool

definition org_start :: org where
  "org_start = \<lparr>og_me = JNull, og_members = [], og_workspaces = [], og_pending = [], og_q = [],
     og_rf = (u ''todos''), og_page = 0, og_invite = False, og_inv = INV_START, og_inviting = False,
     og_menu = None, og_pos = False, og_loading = True, settled_me = False, settled_members = False,
     settled_ws = False\<rparr>"

definition ORG_PAGE :: nat where "ORG_PAGE = 8"

definition ROLE_FILTER :: "jstr list" where
  "ROLE_FILTER = [(u ''todos''), (u ''admin''), (u ''member''), (u ''billing''), (u ''viewer'')]"

datatype org_tag =
    Org_get_me bool
  | Get_members bool
  | Get_workspaces bool
  | Post_member jstr jstr jstr
  | Del_member

datatype org_event =
    O_mount
  | O_me bool "json outcome"
  | O_members bool "member list pdata outcome"
  | O_workspaces bool "org_workspace list pdata outcome"
  | O_search jstr
  | O_role jstr
  | O_prev
  | O_next
  | O_open
  | O_close
  | O_email jstr
  | O_password jstr
  | O_inv_role jstr
  | O_invite
  | O_invited jstr jstr jstr "json outcome"
  | O_menu jstr
  | O_menu_away
  | O_remove jstr
  | O_removed "json outcome"
  | O_cancel jstr
  | O_resend jstr

subsection \<open>Derived values\<close>

definition role_is :: "jstr \<Rightarrow> json \<Rightarrow> bool" where
  "role_is r me = (jget (u ''role'') me = JStr r)"

definition canManage :: "org \<Rightarrow> bool" where
  "canManage s = (role_is ((u ''owner'')) (og_me s) \<or> role_is ((u ''admin'')) (og_me s))"

definition wsName :: "org \<Rightarrow> jstr" where
  "wsName s = (case og_workspaces s of w # _ \<Rightarrow> (if ow_name w \<noteq> [] then ow_name w else (u ''workspace'')) | [] \<Rightarrow> (u ''workspace''))"

definition wsInitial :: "(jstr \<Rightarrow> jstr) \<Rightarrow> org \<Rightarrow> jstr" where
  "wsInitial uc s =
     uc (case og_workspaces s of
           w # _ \<Rightarrow> (if ow_initial w \<noteq> [] then ow_initial w else take 2 (wsName s))
         | [] \<Rightarrow> take 2 (wsName s))"

definition org_admins :: "org \<Rightarrow> nat" where
  "org_admins s = length (filter (\<lambda>m. mb_role m = (u ''owner'') \<or> mb_role m = (u ''admin'')) (og_members s))"

definition org_filtered :: "(jstr \<Rightarrow> jstr) \<Rightarrow> org \<Rightarrow> member list" where
  "org_filtered lc s =
     filter (\<lambda>m. og_q s = [] \<or> contains (lc (mb_email m)) (lc (og_q s)) \<or> contains (lc (mb_name m)) (lc (og_q s)))
       (filter (\<lambda>m. og_rf s = (u ''todos'') \<or> mb_role m = og_rf s) (og_members s))"

definition AV_COLORS :: "jstr list" where
  "AV_COLORS = [(u ''var(--blue)''), (u ''var(--green)''), (u ''var(--orange)''), (u ''var(--accent)''), (u ''var(--red)'')]"

text \<open>\<open>[...id]\<close> goes by code points; the first unit of each is added up.\<close>

fun lead_sum :: "jstr \<Rightarrow> nat" where
  "lead_sum [] = 0"
| "lead_sum [c] = c"
| "lead_sum (c # d # cs) =
     (if 55296 \<le> c \<and> c < 56320 \<and> 56320 \<le> d \<and> d < 57344 then c + lead_sum cs else c + lead_sum (d # cs))"

definition avColor :: "jstr \<Rightarrow> jstr" where
  "avColor i = AV_COLORS ! (lead_sum i mod length AV_COLORS)"

definition orgMemberInitials :: "(jstr \<Rightarrow> jstr) \<Rightarrow> member \<Rightarrow> jstr" where
  "orgMemberInitials uc m = uc (take 2 (if mb_name m \<noteq> [] then mb_name m else mb_email m))"

text \<open>\<open>charCodeAt\<close> beyond the text is NaN, which differs from 0.\<close>

definition isOnline :: "jstr \<Rightarrow> bool" where
  "isOnline i = (i = [] \<or> last i mod 3 \<noteq> 0)"

subsection \<open>Handlers\<close>

definition org_load :: "bool \<Rightarrow> org_tag cmd list" where
  "org_load first = [Send GET (u ''/v1/me'') None (Org_get_me first), Send GET (u ''/v1/members'') None (Get_members first),
                     Send GET (u ''/v1/workspaces'') None (Get_workspaces first)]"

definition org_settle :: "bool \<Rightarrow> org \<Rightarrow> org" where
  "org_settle first s =
     (if first \<and> settled_me s \<and> settled_members s \<and> settled_ws s then s\<lparr>og_loading := False\<rparr> else s)"

text \<open>\<open>me?.org_id?.slice(0, 8) || "voce"\<close>; an identifier is a text when it is there.\<close>

definition invited_by :: "org \<Rightarrow> jstr" where
  "invited_by s =
     (case jstr_of (jget (u ''org_id'') (og_me s)) of
        Some i \<Rightarrow> (if i \<noteq> [] then take 8 i else (ux ''voc{ea}''))
      | None \<Rightarrow> (ux ''voc{ea}''))"

definition invite_password :: "invite_form \<Rightarrow> jstr" where
  "invite_password f = (if in_password f \<noteq> [] then in_password f else (u ''invite-pending''))"

definition invite :: "org \<Rightarrow> org \<times> org_tag cmd list" where
  "invite s =
     (let f = og_inv s in
      if in_email f = [] then (s, [])
      else (s\<lparr>og_inviting := True\<rparr>,
            [Send POST (u ''/v1/members'')
               (Some (JObj [((u ''email''), JStr (in_email f)), ((u ''password''), JStr (invite_password f)),
                            ((u ''role''), JStr (in_role f))]))
               (Post_member (in_email f) (in_role f) (invited_by s))]))"

definition invited :: "jstr \<Rightarrow> jstr \<Rightarrow> jstr \<Rightarrow> json outcome \<Rightarrow> org \<Rightarrow> org \<times> org_tag cmd list" where
  "invited mail role by r s =
     (case r of
        Resolved _ \<Rightarrow>
          (s\<lparr>og_pending := \<lparr>pi_email = mail, pi_by = by, pi_sent = (u ''agora''), pi_role = role\<rparr> # og_pending s,
             og_inv := INV_START, og_invite := False, og_inviting := False\<rparr>, org_load False)
      | Rejected _ \<Rightarrow> (s\<lparr>og_inviting := False\<rparr>, []))"

definition removed :: "json outcome \<Rightarrow> org \<Rightarrow> org \<times> org_tag cmd list" where
  "removed r s = (case r of Resolved _ \<Rightarrow> (s\<lparr>og_menu := None\<rparr>, org_load False) | Rejected _ \<Rightarrow> (s, []))"

definition cancelInvite :: "jstr \<Rightarrow> org \<Rightarrow> org" where
  "cancelInvite mail s = s\<lparr>og_pending := filter (\<lambda>i. pi_email i \<noteq> mail) (og_pending s)\<rparr>"

definition member_menu :: "jstr \<Rightarrow> org \<Rightarrow> org" where
  "member_menu i s =
     (if og_menu s = Some i then s\<lparr>og_menu := None, og_pos := False\<rparr> else s\<lparr>og_menu := Some i, og_pos := True\<rparr>)"

fun org_step :: "(jstr \<Rightarrow> jstr) \<Rightarrow> org_event \<Rightarrow> org \<Rightarrow> org \<times> org_tag cmd list" where
  "org_step lc O_mount s = (s, org_load True)"
| "org_step lc (O_me first r) s =
     (org_settle first (s\<lparr>og_me := me_accept r (og_me s), settled_me := (first \<or> settled_me s)\<rparr>), [])"
| "org_step lc (O_members first r) s =
     (org_settle first (s\<lparr>og_members := take_list r (og_members s), settled_members := (first \<or> settled_members s)\<rparr>), [])"
| "org_step lc (O_workspaces first r) s =
     (org_settle first (s\<lparr>og_workspaces := take_list r (og_workspaces s), settled_ws := (first \<or> settled_ws s)\<rparr>), [])"
| "org_step lc (O_search v) s = (s\<lparr>og_q := v, og_page := 0\<rparr>, [])"
| "org_step lc (O_role v) s = (s\<lparr>og_rf := v, og_page := 0\<rparr>, [])"
| "org_step lc O_prev s = (s\<lparr>og_page := prev_page (og_page s)\<rparr>, [])"
| "org_step lc O_next s = (s\<lparr>og_page := next_page ORG_PAGE (org_filtered lc s) (og_page s)\<rparr>, [])"
| "org_step lc O_open s = (s\<lparr>og_invite := True\<rparr>, [])"
| "org_step lc O_close s = (s\<lparr>og_invite := False\<rparr>, [])"
| "org_step lc (O_email v) s = (s\<lparr>og_inv := (og_inv s)\<lparr>in_email := v\<rparr>\<rparr>, [])"
| "org_step lc (O_password v) s = (s\<lparr>og_inv := (og_inv s)\<lparr>in_password := v\<rparr>\<rparr>, [])"
| "org_step lc (O_inv_role v) s = (s\<lparr>og_inv := (og_inv s)\<lparr>in_role := v\<rparr>\<rparr>, [])"
| "org_step lc O_invite s = invite s"
| "org_step lc (O_invited mail role by r) s = invited mail role by r s"
| "org_step lc (O_menu i) s = (member_menu i s, [])"
| "org_step lc O_menu_away s = (s\<lparr>og_menu := None, og_pos := False\<rparr>, [])"
| "org_step lc (O_remove i) s = (s, [Send DELETE ((u ''/v1/members/'') @ i) None Del_member])"
| "org_step lc (O_removed r) s = removed r s"
| "org_step lc (O_cancel mail) s = (cancelInvite mail s, [])"
| "org_step lc (O_resend mail) s = (s, [])"

lemmas org_handlers = org_load_def org_settle_def invite_def invited_def removed_def cancelInvite_def member_menu_def Let_def

subsection \<open>Facts\<close>

interpretation org_pages: paged ORG_PAGE "org_filtered lc" og_page "\<lambda>p s. s\<lparr>og_page := p\<rparr>" for lc
  by unfold_locales (simp_all add: org_filtered_def ORG_PAGE_def)

text \<open>Loading ends exactly when the three requests of the mount have been answered.\<close>

definition org_loaded :: "org \<Rightarrow> bool" where
  "org_loaded s = (og_loading s = (\<not> (settled_me s \<and> settled_members s \<and> settled_ws s)))"

interpretation org_machine: stepper org_start "\<lambda>e s. fst (org_step lc e s)" org_loaded for lc
proof
  show "org_loaded org_start" by (simp add: org_loaded_def org_start_def)
  show "org_loaded (fst (org_step lc e s))" if "org_loaded s" for e s
    using that by (cases e) (auto simp: org_loaded_def org_handlers split: outcome.split)
qed

fun org_answered :: "org_event \<Rightarrow> nat option" where
  "org_answered (O_me first r) = (if first then Some 0 else None)"
| "org_answered (O_members first r) = (if first then Some 1 else None)"
| "org_answered (O_workspaces first r) = (if first then Some 2 else None)"
| "org_answered _ = None"

definition org_settled :: "org \<Rightarrow> nat set" where
  "org_settled s = (if settled_me s then {0} else {}) \<union> (if settled_members s then {1} else {}) \<union> (if settled_ws s then {2} else {})"

interpretation org_settling: settling org_start "\<lambda>e s. fst (org_step lc e s)" org_loaded og_loading org_settled org_answered "{0, 1, 2}"
  for lc
proof
  show "org_settled org_start = {}" by (simp add: org_settled_def org_start_def)
  show "org_settled (fst (org_step lc e s)) = org_settled s \<union> set_option (org_answered e)" for e s
    by (cases e) (auto simp: org_settled_def org_handlers split: outcome.split)
  show "org_loaded s \<Longrightarrow> og_loading s = (\<not> {0, 1, 2} \<subseteq> org_settled s)" for s
    by (auto simp: org_loaded_def org_settled_def)
qed

text \<open>The organisation page leaves its skeleton when the three first answers have come, in any order.\<close>

lemma org_loading_ends:
  "og_loading (run (\<lambda>e s. fst (org_step lc e s)) es org_start) \<longleftrightarrow>
     \<not> {0, 1, 2} \<subseteq> {k. \<exists>e \<in> set es. org_answered e = Some k}"
  by (rule org_settling.loading_run)

text \<open>An invitation is recorded with what was sent, whatever the server answers.\<close>

lemma refused_invitation_is_recorded:
  assumes "in_email (og_inv s) \<noteq> []"
  shows "\<exists>k b. snd (org_step lc O_invite s) = [Send POST (u ''/v1/members'') (Some b) k]
    \<and> (\<forall>x. og_pending (fst (org_step lc (case k of Post_member e r by \<Rightarrow> O_invited e r by (Resolved x) | _ \<Rightarrow> O_mount) s))
           = \<lparr>pi_email = in_email (og_inv s), pi_by = invited_by s, pi_sent = (u ''agora''), pi_role = in_role (og_inv s)\<rparr> # og_pending s)"
  using assms by (simp add: org_handlers)

lemma cancelled_invitation_sends_nothing:
  "snd (org_step lc (O_cancel mail) s) = []"
  "mail \<notin> pi_email ` set (og_pending (fst (org_step lc (O_cancel mail) s)))"
  by (auto simp: cancelInvite_def)

lemma lead_sum_ascii: "(\<forall>c \<in> set s. c < 128) \<Longrightarrow> lead_sum s = sum_list s"
  by (induction s rule: lead_sum.induct) auto

lemma avColor_in: "avColor i \<in> set AV_COLORS"
  unfolding avColor_def by (rule nth_mem) (simp add: AV_COLORS_def)

end
