(* ===== verification/Org_View.thy ===== *)
theory Org_View
  imports Org
begin

text \<open>
  What app/org/page.tsx renders. The texts with both languages go through \<open>useT\<close>; the address of a
  pending invitation is never empty (the page sends none without one), so its first unit is read as
  the code reads it. Hover effects and the position of the menu are left out.
\<close>

abbreviation tt :: "jstr \<Rightarrow> jstr \<Rightarrow> jstr \<Rightarrow> jstr" where "tt lang p e \<equiv> useT lang p (Some e)"

definition ROLE_LABEL :: "(jstr \<times> jstr) list" where
  "ROLE_LABEL = [((u ''todos''), (u ''Todos'')), ((u ''admin''), (u ''Admin'')), ((u ''member''), (u ''Editor'')), ((u ''billing''), (ux ''Servi{e7}o'')), ((u ''viewer''), (u ''Leitor''))]"

definition ROLE_LABEL_EN :: "(jstr \<times> jstr) list" where
  "ROLE_LABEL_EN = [((u ''todos''), (u ''All'')), ((u ''admin''), (u ''Admin'')), ((u ''member''), (u ''Editor'')), ((u ''billing''), (u ''Service'')), ((u ''viewer''), (u ''Reader''))]"

definition ROLE_COLOR :: "(jstr \<times> jstr \<times> jstr) list" where
  "ROLE_COLOR =
    [((u ''owner''), (u ''var(--accent)''), (u ''var(--accent-tint)'')), ((u ''admin''), (u ''var(--accent)''), (u ''var(--accent-tint)'')),
     ((u ''member''), (u ''var(--blue)''), (u ''var(--blue-tint,rgba(88,166,255,.12))'')),
     ((u ''billing''), (u ''var(--green)''), (u ''var(--green-tint)'')), ((u ''viewer''), (u ''var(--mute)''), (u ''var(--elev)''))]"

definition ROLES_LEGEND :: "(jstr \<times> jstr \<times> jstr \<times> jstr) list" where
  "ROLES_LEGEND =
    [((u ''Admin''), (u ''var(--accent)''), (ux ''Gerencia membros, workspaces, faturamento e todas as configura{e7}{f5}es.''),
        (u ''Manages members, workspaces, billing and all settings.'')),
     ((u ''Editor''), (u ''var(--blue)''), (u ''Cria e edita tarefas, revisa e aprova pull requests.''),
        (u ''Creates and edits tasks, reviews and approves pull requests.'')),
     ((u ''Leitor''), (u ''var(--mute)''), (u ''Apenas leitura de tarefas, logs e telemetria.''),
        (u ''Read-only access to tasks, logs and telemetry.'')),
     ((ux ''Servi{e7}o''), (u ''var(--green)''), (ux ''Acesso via API para automa{e7}{f5}es, bots e integra{e7}{f5}es CI/CD.''),
        (u ''API access for automations, bots and CI/CD integrations.''))]"

definition rolePill :: "jstr \<Rightarrow> jstr \<Rightarrow> 'e node" where
  "rolePill lang role =
     (let (color, bg) = lookup_or ((u ''var(--mute)''), (u ''var(--elev)'')) ROLE_COLOR role in
      El ''span'' [Sty ''color'' color, Sty ''background'' bg]
        [Txt (tt lang (lookup_or role ROLE_LABEL role) (lookup_or role ROLE_LABEL_EN role))])"

definition org_pill :: "bool \<Rightarrow> 'e attr list" where
  "org_pill active = [Sty ''background'' (if active then (u ''var(--card)'') else (u ''transparent'')),
                      Sty ''color'' (if active then (u ''var(--ink)'') else (u ''var(--dim)''))]"

definition act_text :: "jstr \<Rightarrow> jstr \<Rightarrow> jstr" where
  "act_text lang i =
     (if isOnline i then tt lang ((u ''agora'')) ((u ''now''))
      else (let h = hd i mod 12 + 1 in
            if h < 2 then tt lang ((ux ''1h atr{e1}s'')) ((u ''1h ago''))
            else tt lang (nshow h @ (ux ''h atr{e1}s'')) (nshow h @ (u ''h ago''))))"

definition member_popup :: "jstr \<Rightarrow> org \<Rightarrow> member \<Rightarrow> org_event node list" where
  "member_popup lang s m =
     shown (og_menu s = Some (mb_id m) \<and> og_pos s)
       [El ''div'' [OnClick O_menu_away] [],
        dv (El ''button'' [] [svg, Txt (tt lang ((u ''Alterar papel'')) ((u ''Change role'')))]
            # shown (canManage s \<and> mb_role m \<noteq> (u ''owner''))
                [btn (O_remove (mb_id m)) [svg, Txt (tt lang ((u ''Remover'')) ((u ''Remove'')))]])]"

definition member_row :: "(jstr \<Rightarrow> jstr) \<Rightarrow> jstr \<Rightarrow> org \<Rightarrow> member \<Rightarrow> org_event node" where
  "member_row uc lang s m =
     (let online = isOnline (mb_id m); col = avColor (mb_id m);
          dot = El ''span'' [Sty ''background'' (if online then (u ''var(--green)'') else (u ''var(--mute)''))] [] in
      El ''div'' [Key (mb_id m)]
        [dv [dv [El ''div'' [Sty ''color'' col] [Txt (orgMemberInitials uc m)], dot],
             dv [dvt (if mb_name m \<noteq> [] then mb_name m else hd (split_on 64 (mb_email m))), dvt (mb_email m)]],
         dv [rolePill lang (mb_role m)],
         sp [dot, Txt (act_text lang (mb_id m))],
         dv (btn (O_menu (mb_id m)) [svg] # member_popup lang s m)])"

definition org_banner :: "(jstr \<Rightarrow> jstr) \<Rightarrow> jstr \<Rightarrow> org \<Rightarrow> org_event node" where
  "org_banner uc lang s =
     dv [dvt (wsInitial uc s),
         dv [dv [sp [Txt ((ux ''ApiFor {2014} '')), Txt (wsName s)], spt ((u ''FREE''))],
             dv [Txt (jtext_or ((ux ''{2014}'')) (jget (u ''org_id'') (og_me s))), Txt ((ux '' {b7} '')),
                 Txt (tt lang ((u ''criada em jan/2026'')) ((u ''created Jan/2026'')))]],
         dv (map (\<lambda>(v, label, color). El ''div'' [Key label] [El ''span'' [Sty ''color'' color] [Txt v], spt label])
           [(nshow (length (og_members s)), tt lang ((u ''Membros'')) ((u ''Members'')), (u ''var(--ink)'')),
            (nshow (org_admins s), tt lang ((u ''Admins'')) ((u ''Admins'')), (u ''var(--ink)'')),
            (nshow (length (og_pending s)), tt lang ((u ''Convites'')) ((u ''Invites'')), (u ''var(--accent)'')),
            (nshow (length (og_members s)) @ (u ''/5''), tt lang ((u ''Assentos'')) ((u ''Seats'')), (u ''var(--ink)''))])]"

definition org_arrows :: "jstr \<Rightarrow> nat \<Rightarrow> nat \<Rightarrow> nat \<Rightarrow> org_event node list" where
  "org_arrows lang len tot safe =
     shown (tot > 1)
       [dv [sp [Txt (nshow len), Txt ((u '' '')), Txt (tt lang ((u ''membro(s)'')) ((u ''member(s)''))), Txt ((ux '' {b7} '')),
                Txt (tt lang ((ux ''p{e1}g.'')) ((u ''p.''))), Txt ((u '' '')), Txt (nshow (safe + 1)), Txt ((u ''/'')), Txt (nshow tot)],
            dv [navBtn O_prev (safe = 0) [svg], navBtn O_next (safe \<ge> tot - 1) [svg]]]]"

definition members_table :: "(jstr \<Rightarrow> jstr) \<Rightarrow> (jstr \<Rightarrow> jstr) \<Rightarrow> jstr \<Rightarrow> org \<Rightarrow> org_event node" where
  "members_table lc uc lang s =
     (let filtered = org_filtered lc s; tot = total_pages ORG_PAGE filtered;
          safe = safe_page ORG_PAGE filtered (og_page s); rows = page_rows ORG_PAGE filtered (og_page s) in
      dv ([dv [dv [svg, inp (og_q s) O_search (tt lang ((ux ''Buscar membro por nome ou e-mail{2026}'')) ((ux ''Search member by name or email{2026}'')))],
               dv (map (\<lambda>r. El ''button'' ([Key r, OnClick (O_role r)] @ org_pill (og_rf s = r))
                      [Txt (tt lang (lookup_or [] ROLE_LABEL r) (lookup_or [] ROLE_LABEL_EN r))]) ROLE_FILTER)],
           dv [spt (tt lang ((u ''Membro'')) ((u ''Member''))), spt (tt lang ((u ''Papel'')) ((u ''Role''))), spt (tt lang ((u ''Atividade'')) ((u ''Activity''))), sp []]]
          @ map (member_row uc lang s) rows
          @ shown (rows = [])
              [dv [svg, spt (tt lang ((u ''Nenhum membro encontrado.'')) ((u ''No members found.''))),
                   spt (tt lang ((u ''Ajuste a busca ou o filtro de papel.'')) ((u ''Adjust the search or role filter.'')))]]
          @ org_arrows lang (length filtered) tot safe))"

definition invite_row :: "(jstr \<Rightarrow> jstr) \<Rightarrow> jstr \<Rightarrow> pending_invite \<Rightarrow> org_event node" where
  "invite_row uc lang i =
     El ''div'' [Key (pi_email i)]
       [dvt (uc (take 1 (pi_email i))),
        dv [dvt (pi_email i),
            dv [Txt (tt lang ((u ''Convidado por'')) ((u ''Invited by''))), Txt ((u '' '')), Txt (pi_by i), Txt ((ux '' {b7} '')), Txt (tt lang (pi_sent i) ((u ''now'')))]],
        rolePill lang (pi_role i),
        El ''button'' [Title (tt lang ((u ''Reenviar'')) ((u ''Resend''))), OnClick (O_resend (pi_email i))] [svg],
        El ''button'' [Title (tt lang ((u ''Cancelar'')) ((u ''Cancel''))), OnClick (O_cancel (pi_email i))] [svg]]"

definition invites_card :: "(jstr \<Rightarrow> jstr) \<Rightarrow> jstr \<Rightarrow> org \<Rightarrow> org_event node" where
  "invites_card uc lang s =
     dv ([dv [spt (tt lang ((u ''Convites pendentes'')) ((u ''Pending invites''))), spt (nshow (length (og_pending s)))]]
         @ map (invite_row uc lang) (og_pending s)
         @ shown (og_pending s = []) [dvt (tt lang ((u ''Nenhum convite pendente.'')) ((u ''No pending invites.'')))]
         @ [btn O_open [svg, Txt (tt lang ((u ''Convidar por e-mail'')) ((u ''Invite by email'')))]])"

definition roles_card :: "jstr \<Rightarrow> 'e node" where
  "roles_card lang =
     dv [dvt (tt lang ((ux ''Pap{e9}is e permiss{f5}es'')) ((u ''Roles and permissions''))),
         dv (map (\<lambda>(role, color, desc, desc_en).
               El ''div'' [Key role]
                 [El ''span'' [Sty ''background'' color] [],
                  dv [El ''span'' [Sty ''color'' color] [Txt role], spt (tt lang desc desc_en)]]) ROLES_LEGEND)]"

definition invite_dialog :: "jstr \<Rightarrow> org \<Rightarrow> org_event node" where
  "invite_dialog lang s =
     (let f = og_inv s in
      modal lang (tt lang ((u ''Convidar membro'')) ((u ''Invite member''))) O_close
        [dv [El ''label'' [] [spt (tt lang ((u ''E-mail'')) ((u ''Email''))), inp (in_email f) O_email ((u ''colaborador@empresa.com''))],
             El ''label'' [] [spt (tt lang ((u ''Papel'')) ((u ''Role''))),
               sel_el (in_role f) O_inv_role
                 [optv ((u ''admin'')) (tt lang ((u ''Admin'')) ((u ''Admin''))), optv ((u ''member'')) (tt lang ((u ''Editor'')) ((u ''Editor''))),
                  optv ((u ''viewer'')) (tt lang ((u ''Leitor'')) ((u ''Reader''))), optv ((u ''billing'')) (tt lang ((ux ''Servi{e7}o'')) ((u ''Service'')))]],
             El ''label'' []
               [sp [Txt (tt lang ((u ''Senha inicial'')) ((u ''Initial password''))), Txt ((u '' '')),
                    sp [Txt ((u ''('')), Txt (tt lang ((ux ''tempor{e1}ria'')) ((u ''temporary''))), Txt ((u '')''))]],
                inp (in_password f) O_password ((ux ''{2022}{2022}{2022}{2022}{2022}{2022}{2022}{2022}''))]]]
        (Some [btn O_close [Txt (tt lang ((u ''Cancelar'')) ((u ''Cancel'')))],
               El ''button'' [OnClick O_invite, Disabled (og_inviting s), Sty ''opacity'' (if og_inviting s then (u ''.6'') else (u ''1''))]
                 [Txt (if og_inviting s then tt lang ((ux ''Convidando{2026}'')) ((ux ''Sending{2026}''))
                       else tt lang ((u ''Enviar convite'')) ((u ''Send invite'')))]]))"

definition org_view :: "(jstr \<Rightarrow> jstr) \<Rightarrow> (jstr \<Rightarrow> jstr) \<Rightarrow> jstr \<Rightarrow> org \<Rightarrow> org_event node list" where
  "org_view lc uc lang s =
     [pageHead lang (Some ((u ''Workspace''))) (tt lang ((ux ''Organiza{e7}{e3}o'')) ((u ''Organization'')))
        (Some (tt lang ((ux ''Membros, pap{e9}is e convites do workspace '') @ wsName s @ (u ''.''))
                 ((u ''Members, roles and invites for workspace '') @ wsName s @ (u ''.''))))
        (shown (canManage s) [btn O_open [svg, Txt (tt lang ((u ''Convidar membro'')) ((u ''Invite member'')))]]),
      dv [org_banner uc lang s, members_table lc uc lang s, dv [invites_card uc lang s, roles_card lang]]]
     @ shown (og_invite s) [invite_dialog lang s]"

subsection \<open>Facts\<close>

lemma rolePill_silent [simp]: "clicks (rolePill lang r) = []"
  by (simp add: rolePill_def split_beta)

lemma banner_silent [simp]: "clicks (org_banner uc lang s) = []"
  by (simp add: org_banner_def)

lemma roles_silent [simp]: "clicks (roles_card lang) = []"
  by (simp add: roles_card_def ROLES_LEGEND_def)

lemma clicks_member_row [simp]:
  "clicks (member_row uc lang s m) =
     O_menu (mb_id m)
     # (if og_menu s = Some (mb_id m) \<and> og_pos s
        then O_menu_away # (if canManage s \<and> mb_role m \<noteq> (u ''owner'') then [O_remove (mb_id m)] else []) else [])"
  by (simp add: member_row_def member_popup_def Let_def shown_def)

lemma clicks_invite_row [simp]: "clicks (invite_row uc lang i) = [O_resend (pi_email i), O_cancel (pi_email i)]"
  by (simp add: invite_row_def)

lemmas org_view_parts = org_view_def members_table_def org_arrows_def invites_card_def invite_dialog_def Let_def
  navBtn_def ROLE_FILTER_def org_pill_def

lemma remove_clickable:
  "O_remove i \<in> set (all_clicks (org_view lc uc lang s)) \<Longrightarrow>
   \<exists>m \<in> set (org_filtered lc s). mb_id m = i \<and> mb_role m \<noteq> (u ''owner'') \<and> canManage s \<and> og_menu s = Some i \<and> og_pos s"
proof -
  assume "O_remove i \<in> set (all_clicks (org_view lc uc lang s))"
  then have "\<exists>m \<in> set (page_rows ORG_PAGE (org_filtered lc s) (og_page s)).
      mb_id m = i \<and> mb_role m \<noteq> (u ''owner'') \<and> canManage s \<and> og_menu s = Some i \<and> og_pos s"
    by (auto simp: org_view_parts set_all_clicks_map shown_def split: if_splits)
  then show ?thesis using org_pages.rows_subset [of lc s] by (auto simp: org_pages.rows_def)
qed

text \<open>
  An invitation without a password is sent with a password that is in the source of the page,
  the same for everyone; and whatever the server answers, a refusal included, the invitation is
  listed as pending under the address and the role that were sent.
\<close>

lemma blank_password_is_a_known_one:
  assumes "in_email (og_inv s) \<noteq> []" "in_password (og_inv s) = []"
  shows "\<exists>bd k. sends (snd (org_step lc O_invite s)) = [(POST, (u ''/v1/members''), Some bd, k)]
    \<and> jget (u ''password'') bd = JStr (u ''invite-pending'')
    \<and> (\<exists>m r by. k = Post_member m r by \<and> (\<forall>a b. \<exists>p. og_pending (fst (org_step lc (O_invited m r by (snd (api_settle (Answered a) b))) s)) = p # og_pending s
         \<and> pi_email p = in_email (og_inv s) \<and> pi_role p = in_role (og_inv s)))"
  using assms by (simp add: org_handlers invite_password_def api_settle_def split_beta)

end
