(* ===== verification/Account.thy ===== *)
theory Account
  imports Ui_Path
begin

text \<open>
  The account page, app/conta/page.tsx: five loads, the photo, the profile and organisation fields
  (kept in the page alone), the change of password, the sign-out. The tag of a password request
  carries the language of the render its continuation was created in. \<open>uc\<close> is toUpperCase. The file
  picker and the hover effects are left out; the file read is the event \<open>A_photo\<close>.
\<close>

record sub =
  sb_plan :: jstr
  sb_status :: jstr

record account =
  ac_me :: json
  ac_sub :: "sub option"
  ac_members :: "nat option"
  ac_repos :: "nat option"
  ac_workers :: "nat option"
  ac_photo :: "jstr option"
  ac_name :: jstr
  ac_email :: jstr
  ac_org :: jstr
  ac_billing :: jstr
  ac_tz :: jstr
  pwd_cur :: jstr
  pwd_new :: jstr
  pwd_conf :: jstr
  pwd_saving :: bool
  pwd_msg :: jstr
  pwd_ok :: bool
  ac_loading :: bool
  ac_settled :: "nat set"

definition account_start :: account where
  "account_start = \<lparr>ac_me = JNull, ac_sub = None, ac_members = None, ac_repos = None, ac_workers = None,
     ac_photo = None, ac_name = (u ''Rafael Souza''), ac_email = (u ''rafael@apifor.dev''), ac_org = (ux ''ApiFor {2014} N{fa}cleo''),
     ac_billing = (u ''financeiro@apifor.dev''), ac_tz = (u ''America/Sao_Paulo (GMT-3)''),
     pwd_cur = [], pwd_new = [], pwd_conf = [], pwd_saving = False, pwd_msg = [], pwd_ok = False,
     ac_loading = True, ac_settled = {}\<rparr>"

datatype account_tag = A_get_me | A_get_sub | A_get_members | A_get_repos | A_get_usage | A_post_password jstr

datatype account_event =
    A_mount
  | A_me "json outcome"
  | A_sub "sub answer outcome"
  | A_members "json list pdata outcome"
  | A_repos "json list pdata outcome"
  | A_usage "nat answer outcome"
  | A_pick_photo
  | A_photo jstr
  | A_no_photo
  | A_name jstr
  | A_email jstr
  | A_org jstr
  | A_billing jstr
  | A_tz jstr
  | A_cur jstr
  | A_new jstr
  | A_conf jstr
  | A_password
  | A_password_answer jstr "json outcome"
  | A_sign_out

subsection \<open>Handlers\<close>

definition account_load :: "account_tag cmd list" where
  "account_load = [Send GET (u ''/v1/me'') None A_get_me, Send GET (u ''/v1/subscription'') None A_get_sub,
     Send GET (u ''/v1/members'') None A_get_members, Send GET (u ''/v1/repos'') None A_get_repos,
     Send GET (u ''/v1/usage'') None A_get_usage]"

text \<open>Promise.allSettled of the five loads: the fifth answer ends the loading.\<close>

definition account_settle :: "nat \<Rightarrow> account \<Rightarrow> account" where
  "account_settle k s =
     (let done = insert k (ac_settled s) in
      s\<lparr>ac_settled := done, ac_loading := (ac_loading s \<and> \<not> {0, 1, 2, 3, 4} \<subseteq> done)\<rparr>)"

text \<open>\<open>if (r?.data) set(r.data.length)\<close>.\<close>

definition count_answer :: "json list pdata outcome \<Rightarrow> nat option \<Rightarrow> nat option" where
  "count_answer r cur = (case r of Resolved (Dat xs) \<Rightarrow> Some (length xs) | _ \<Rightarrow> cur)"

definition savePassword :: "jstr \<Rightarrow> account \<Rightarrow> account \<times> account_tag cmd list" where
  "savePassword lang s =
     (if pwd_new s = [] \<or> pwd_new s \<noteq> pwd_conf s then
        (s\<lparr>pwd_msg := useT lang ((ux ''Senhas n{e3}o coincidem.'')) (Some ((ux ''Passwords don{27}t match.''))), pwd_ok := False\<rparr>, [])
      else if length (pwd_new s) < 8 then
        (s\<lparr>pwd_msg := useT lang ((ux ''M{ed}nimo 8 caracteres.'')) (Some ((u ''Minimum 8 characters.''))), pwd_ok := False\<rparr>, [])
      else (s\<lparr>pwd_saving := True, pwd_msg := []\<rparr>,
            [Send POST (u ''/v1/me/password'')
               (Some (JObj [((u ''current''), JStr (pwd_cur s)), ((u ''password''), JStr (pwd_new s))])) (A_post_password lang)]))"

definition password_answer :: "jstr \<Rightarrow> json outcome \<Rightarrow> account \<Rightarrow> account" where
  "password_answer lang r s =
     (case r of
        Resolved _ \<Rightarrow>
          s\<lparr>pwd_cur := [], pwd_new := [], pwd_conf := [],
            pwd_msg := useT lang ((u ''Senha atualizada.'')) (Some ((u ''Password updated.''))), pwd_ok := True, pwd_saving := False\<rparr>
      | Rejected _ \<Rightarrow>
          s\<lparr>pwd_msg := useT lang ((u ''Erro ao atualizar.'')) (Some ((u ''Error updating.''))), pwd_ok := False, pwd_saving := False\<rparr>)"

fun account_step :: "jstr \<Rightarrow> account_event \<Rightarrow> account \<Rightarrow> account \<times> account_tag cmd list" where
  "account_step lang A_mount s = (s, account_load)"
| "account_step lang (A_me r) s = (account_settle 0 (s\<lparr>ac_me := me_accept r (ac_me s)\<rparr>), [])"
| "account_step lang (A_sub r) s = (account_settle 1 (s\<lparr>ac_sub := take_answer r (ac_sub s)\<rparr>), [])"
| "account_step lang (A_members r) s = (account_settle 2 (s\<lparr>ac_members := count_answer r (ac_members s)\<rparr>), [])"
| "account_step lang (A_repos r) s = (account_settle 3 (s\<lparr>ac_repos := count_answer r (ac_repos s)\<rparr>), [])"
| "account_step lang (A_usage r) s = (account_settle 4 (s\<lparr>ac_workers := take_answer r (ac_workers s)\<rparr>), [])"
| "account_step lang A_pick_photo s = (s, [])"
| "account_step lang (A_photo d) s = (s\<lparr>ac_photo := Some d\<rparr>, [])"
| "account_step lang A_no_photo s = (s\<lparr>ac_photo := None\<rparr>, [])"
| "account_step lang (A_name v) s = (s\<lparr>ac_name := v\<rparr>, [])"
| "account_step lang (A_email v) s = (s\<lparr>ac_email := v\<rparr>, [])"
| "account_step lang (A_org v) s = (s\<lparr>ac_org := v\<rparr>, [])"
| "account_step lang (A_billing v) s = (s\<lparr>ac_billing := v\<rparr>, [])"
| "account_step lang (A_tz v) s = (s\<lparr>ac_tz := v\<rparr>, [])"
| "account_step lang (A_cur v) s = (s\<lparr>pwd_cur := v\<rparr>, [])"
| "account_step lang (A_new v) s = (s\<lparr>pwd_new := v\<rparr>, [])"
| "account_step lang (A_conf v) s = (s\<lparr>pwd_conf := v\<rparr>, [])"
| "account_step lang A_password s = savePassword lang s"
| "account_step lang (A_password_answer l r) s = (password_answer l r s, [])"
| "account_step lang A_sign_out s = (s, [DelItem token_key, GoTo (u ''/login'')])"

subsection \<open>The view\<close>

definition account_plan :: "(jstr \<Rightarrow> jstr) \<Rightarrow> account \<Rightarrow> jstr" where
  "account_plan uc s = (case ac_sub s of Some x \<Rightarrow> capital uc (sb_plan x) | None \<Rightarrow> (u ''Free''))"

definition orgInitials :: "(jstr \<Rightarrow> jstr) \<Rightarrow> account \<Rightarrow> jstr" where
  "orgInitials uc s = uc (take 2 (jtext_or ((u ''AF'')) (jget (u ''org_id'') (ac_me s))))"

definition userInitials :: "(jstr \<Rightarrow> jstr) \<Rightarrow> account \<Rightarrow> jstr" where
  "userInitials uc s = uc (take 2 (jtext_or ((u ''RS'')) (jget (u ''user_id'') (ac_me s))))"

definition PLAN_COLOR :: "(jstr \<times> jstr \<times> jstr \<times> jstr) list" where
  "PLAN_COLOR =
    [((u ''Free''), (u ''var(--mute)''), (u ''var(--elev)''), (u ''var(--border)'')),
     ((u ''Pro''), (u ''var(--accent)''), (u ''var(--accent-tint)''), (u ''rgba(245,166,35,.3)'')),
     ((u ''Team''), (u ''var(--blue)''), (u ''rgba(88,166,255,.1)''), (u ''rgba(88,166,255,.3)'')),
     ((u ''Enterprise''), (u ''var(--green)''), (u ''var(--green-tint)''), (u ''rgba(63,185,80,.3)''))]"

definition sepSection :: "jstr option \<Rightarrow> 'e node list \<Rightarrow> 'e node" where
  "sepSection title cs = dv ((case title of Some x \<Rightarrow> shown (x \<noteq> []) [spt x] | None \<Rightarrow> []) @ cs)"

definition profile_card :: "(jstr \<Rightarrow> jstr) \<Rightarrow> jstr \<Rightarrow> account \<Rightarrow> account_event node" where
  "profile_card uc lang s =
     (let t = (\<lambda>p e. useT lang p (Some e)) in
      dv [spt (t ((u ''Perfil'')) ((u ''Profile''))),
          dv [dv [(case ac_photo s of Some d \<Rightarrow> (if d \<noteq> [] then El ''img'' [Href d] [] else dvt (userInitials uc s))
                   | None \<Rightarrow> dvt (userInitials uc s)),
                  El ''button'' [OnClick A_pick_photo, Title (t ((u ''Trocar foto'')) ((u ''Change photo'')))] [svg], El ''input'' [] []],
              dv [dv (btn A_pick_photo [Txt (t ((u ''Enviar foto'')) ((u ''Upload photo'')))]
                      # shown (or_blank (ac_photo s) \<noteq> []) [btn A_no_photo [Txt (t ((u ''Remover'')) ((u ''Remove'')))]]),
                  spt (t ((ux ''JPG ou PNG, at{e9} 2 MB.'')) ((u ''JPG or PNG, up to 2 MB.'')))]],
          sepSection None
            [El ''label'' [] [spt (t ((u ''Nome'')) ((u ''Name''))), El ''input'' [Value (ac_name s), OnInput A_name] []],
             El ''label'' [] [spt (t ((u ''E-mail'')) ((u ''Email''))), El ''input'' [Value (ac_email s), OnInput A_email] []]],
          sepSection (Some (t ((u ''Alterar senha'')) ((u ''Change password''))))
            ([El ''label'' [] [spt (t ((u ''Senha atual'')) ((u ''Current password''))), inp (pwd_cur s) A_cur ((ux ''{2022}{2022}{2022}{2022}{2022}{2022}{2022}{2022}''))],
              dv [El ''label'' [] [spt (t ((u ''Nova senha'')) ((u ''New password''))),
                    inp (pwd_new s) A_new (t ((ux ''m{ed}n. 8 caracteres'')) ((u ''min. 8 characters'')))],
                  El ''label'' [] [spt (t ((u ''Confirmar'')) ((u ''Confirm''))),
                    inp (pwd_conf s) A_conf (t ((u ''repita a senha'')) ((u ''repeat password'')))]]]
             @ shown (pwd_msg s \<noteq> [])
                 [El ''span'' [Sty ''color'' (if pwd_ok s then (u ''var(--green)'') else (u ''var(--red)''))] [Txt (pwd_msg s)]]
             @ [El ''button'' [OnClick A_password, Disabled (pwd_saving s), Sty ''opacity'' (if pwd_saving s then (u ''.6'') else (u ''1''))]
                  [Txt (if pwd_saving s then t ((ux ''Salvando{2026}'')) ((ux ''Saving{2026}'')) else t ((u ''Atualizar senha'')) ((u ''Update password'')))]])])"

definition org_card :: "(jstr \<Rightarrow> jstr) \<Rightarrow> jstr \<Rightarrow> account \<Rightarrow> account_event node" where
  "org_card uc lang s =
     (let t = (\<lambda>p e. useT lang p (Some e)); plan = account_plan uc s;
          (planColor, planBg, planBorder) =
            lookup_or ((u ''var(--mute)''), (u ''var(--elev)''), (u ''var(--border)'')) PLAN_COLOR plan in
      dv [dv [dvt (orgInitials uc s),
              dv [dvt ((ux ''ApiFor {2014} N{fa}cleo'')), dv [Txt (jtext_or ((ux ''{2014}'')) (jget (u ''org_id'') (ac_me s))), Txt ((ux '' {b7} criada em jan/2026''))]],
              El ''span'' [Sty ''color'' planColor, Sty ''background'' planBg, Sty ''border'' ((u ''1px solid '') @ planBorder)] [Txt plan]],
          sepSection None
            [El ''label'' [] [spt (t ((ux ''Nome da organiza{e7}{e3}o'')) ((u ''Organization name''))), El ''input'' [Value (ac_org s), OnInput A_org] []],
             El ''label'' [] [spt (t ((ux ''E-mail de cobran{e7}a'')) ((u ''Billing email''))), El ''input'' [Value (ac_billing s), OnInput A_billing] []],
             El ''label'' [] [spt (t ((ux ''Fuso hor{e1}rio'')) ((u ''Timezone''))), El ''input'' [Value (ac_tz s), OnInput A_tz] []],
             El ''button'' [] [Txt (t ((ux ''Salvar altera{e7}{f5}es'')) ((u ''Save changes'')))]]])"

definition side_cards :: "jstr \<Rightarrow> account \<Rightarrow> account_event node" where
  "side_cards lang s =
     (let t = (\<lambda>p e. useT lang p (Some e)) in
      dv [dv (spt (t ((u ''Resumo'')) ((u ''Summary'')))
              # map (\<lambda>(label, v). El ''div'' [Key label] [spt label, spt (case v of Some n \<Rightarrow> nshow n | None \<Rightarrow> (ux ''{2014}''))])
                  [(t ((u ''Membros'')) ((u ''Members'')), ac_members s), (t ((ux ''Reposit{f3}rios'')) ((u ''Repositories'')), ac_repos s),
                   ((u ''Workers''), ac_workers s)]),
          dv [spt (t ((u ''Zona de risco'')) ((u ''Danger zone''))),
              spt (t ((ux ''Encerrar a conta remove workers, segredos e hist{f3}rico de forma permanente.''))
                     ((u ''Closing the account permanently removes workers, secrets and history.''))),
              El ''button'' [] [Txt (t ((u ''Encerrar conta'')) ((u ''Close account'')))]],
          dv [spt (t ((ux ''Sess{e3}o'')) ((u ''Session''))),
              spt (t ((ux ''Token JWT no navegador (localStorage). Sair limpa a sess{e3}o.''))
                     ((u ''JWT token in browser (localStorage). Signing out clears the session.''))),
              btn A_sign_out [Txt (t ((u ''Sair da conta'')) ((u ''Sign out'')))]]])"

definition account_view :: "(jstr \<Rightarrow> jstr) \<Rightarrow> jstr \<Rightarrow> account \<Rightarrow> account_event node list" where
  "account_view uc lang s =
     (let t = (\<lambda>p e. useT lang p (Some e)) in
      [pageHead lang (Some (t ((ux ''Conta & cobran{e7}a'')) ((u ''Account & billing'')))) (t ((u ''Conta'')) ((u ''Account'')))
         (Some (t ((ux ''Dados da organiza{e7}{e3}o, cobran{e7}a e prefer{ea}ncias.'')) ((u ''Organization data, billing and preferences.'')))) [],
       dv [dv [profile_card uc lang s], dv [org_card uc lang s, side_cards lang s]]])"

subsection \<open>Facts\<close>

lemmas account_handlers = account_load_def account_settle_def savePassword_def password_answer_def Let_def

text \<open>Loading ends exactly when the five requests have been answered, in any order.\<close>

definition account_loaded :: "account \<Rightarrow> bool" where
  "account_loaded s = (ac_loading s = (\<not> {0, 1, 2, 3, 4} \<subseteq> ac_settled s))"

interpretation account_machine: stepper account_start "\<lambda>e s. fst (account_step lang e s)" account_loaded for lang
proof
  show "account_loaded account_start" by (simp add: account_loaded_def account_start_def)
  show "account_loaded (fst (account_step lang e s))" if "account_loaded s" for e s
    using that by (cases e) (auto simp: account_loaded_def account_handlers split: outcome.split)
qed

fun account_answered :: "account_event \<Rightarrow> nat option" where
  "account_answered (A_me r) = Some 0"
| "account_answered (A_sub r) = Some 1"
| "account_answered (A_members r) = Some 2"
| "account_answered (A_repos r) = Some 3"
| "account_answered (A_usage r) = Some 4"
| "account_answered _ = None"

interpretation account_settling:
  settling account_start "\<lambda>e s. fst (account_step lang e s)" account_loaded ac_loading ac_settled account_answered "{0, 1, 2, 3, 4}"
  for lang
proof
  show "ac_settled account_start = {}" by (simp add: account_start_def)
  show "ac_settled (fst (account_step lang e s)) = ac_settled s \<union> set_option (account_answered e)" for e s
    by (cases e) (auto simp: account_handlers split: outcome.split)
  show "account_loaded s \<Longrightarrow> ac_loading s = (\<not> {0, 1, 2, 3, 4} \<subseteq> ac_settled s)" for s
    by (simp add: account_loaded_def)
qed

text \<open>A password leaves the page only when it was typed twice alike and has eight units.\<close>

lemma password_sent:
  "snd (account_step lang e s) = cs \<Longrightarrow> Send POST p (Some b) k \<in> set cs \<Longrightarrow>
   e = A_password \<and> p = (u ''/v1/me/password'') \<and> pwd_new s = pwd_conf s \<and> 8 \<le> length (pwd_new s)
   \<and> b = JObj [((u ''current''), JStr (pwd_cur s)), ((u ''password''), JStr (pwd_new s))]"
  by (cases e) (auto simp: account_handlers split: if_splits)

text \<open>The fields of the profile and of the organisation are never sent: no button reads them.\<close>

lemma account_sends_only_passwords:
  "e \<noteq> A_mount \<Longrightarrow> e \<noteq> A_password \<Longrightarrow> sends (snd (account_step lang e s)) = []"
  by (cases e) auto

lemma clicks_sepSection [simp]: "clicks (sepSection t cs) = all_clicks cs"
  by (simp add: sepSection_def split: option.split)

lemma account_clicks:
  "set (all_clicks (account_view uc lang s)) \<subseteq> {A_pick_photo, A_no_photo, A_password, A_sign_out}"
  by (auto simp: account_view_def profile_card_def org_card_def side_cards_def Let_def split_beta shown_def
      split: option.splits if_splits)

end
