(* ===== verification/Routines.thy ===== *)
theory Routines
  imports Ui_Path Js_Parse
begin

text \<open>
  The routine page, app/routines/page.tsx: the polled list, the dialog that creates a routine, the
  buttons of a row. \<open>date_ms\<close> is the engine's date parser in milliseconds (\<open>None\<close> for an invalid
  date) and \<open>now\<close> the current instant. An instant is an integer of at most 8.64e15 milliseconds, where the
  quotient by 1000 is never rounded across an integer: floors and ceilings are written with \<open>div\<close>.
\<close>

record routine =
  rt_id :: jstr
  rt_name :: jstr
  rt_trigger :: jstr
  rt_interval :: int
  rt_enabled :: bool
  rt_last :: jstr
  rt_next :: jstr
  rt_action :: jstr

record rt_repo =
  rr_id :: jstr
  rr_name :: jstr

record rt_form =
  rf_name :: jstr
  rf_trigger :: jstr
  rf_interval :: jstr
  rf_prompt :: jstr
  rf_repo :: jstr

definition RF_START :: rt_form where
  "RF_START = \<lparr>rf_name = [], rf_trigger = (u ''manual''), rf_interval = (u ''30''), rf_prompt = [], rf_repo = []\<rparr>"

record routines =
  rs_list :: "routine list pdata"
  rs_repos :: "rt_repo list pdata"
  rs_loading :: bool
  rs_page :: nat
  rs_new :: bool
  rs_creating :: bool
  rs_f :: rt_form

definition routines_start :: routines where
  "routines_start = \<lparr>rs_list = Nul, rs_repos = Nul, rs_loading = True, rs_page = 0, rs_new = False,
     rs_creating = False, rs_f = RF_START\<rparr>"

datatype routines_tag = Post_routine | Delete_routine | Act_routine | Get_routines

datatype routines_event =
    RN_mount
  | RN_list "routine list pdata outcome"
  | RN_repos "rt_repo list pdata outcome"
  | RN_open
  | RN_close
  | RN_name jstr
  | RN_trigger jstr
  | RN_interval jstr
  | RN_prompt jstr
  | RN_repo jstr
  | RN_create
  | RN_created "json outcome"
  | RN_delete jstr
  | RN_deleted "json outcome"
  | RN_act jstr jstr
  | RN_acted "json outcome"
  | RN_prev
  | RN_next

definition RT_PAGE :: nat where "RT_PAGE = 20"

subsection \<open>Texts of a row\<close>

definition ceil_div :: "int \<Rightarrow> int \<Rightarrow> int" where
  "ceil_div a b = - ((- a) div b)"

definition rt_fmtTime :: "(jstr \<Rightarrow> int option) \<Rightarrow> int \<Rightarrow> jstr \<Rightarrow> jstr" where
  "rt_fmtTime date_ms now i =
     (if i = [] then (ux ''{2014}'')
      else (case date_ms i of
          None \<Rightarrow> (ux ''NaNd atr{e1}s'')
        | Some d \<Rightarrow>
            (let diff = now - d in
             if diff < 0 then
               (let s = ceil_div (- diff) 1000; m = ceil_div s 60 in
                if s < 60 then (u ''em '') @ ishow s @ (u ''s'')
                else if m < 60 then (u ''em '') @ ishow m @ (u ''m'')
                else (u ''em '') @ ishow (ceil_div m 60) @ (u ''h''))
             else
               (let s = diff div 1000; m = s div 60; h = m div 60 in
                if s < 60 then ishow s @ (ux ''s atr{e1}s'')
                else if m < 60 then ishow m @ (ux ''m atr{e1}s'')
                else if h < 24 then ishow h @ (ux ''h atr{e1}s'')
                else ishow (h div 24) @ (ux ''d atr{e1}s'')))))"

definition schedLabel :: "routine \<Rightarrow> jstr" where
  "schedLabel r =
     (if rt_trigger r = (u ''schedule'') then
        (let s = rt_interval r in
         if s = 0 then (u ''schedule'')
         else if s < 60 then (u ''A cada '') @ ishow s @ (u ''s'')
         else if s < 3600 then (u ''A cada '') @ ishow (jround (jdiv (of_int s) 60)) @ (u ''min'')
         else (u ''A cada '') @ ishow (jround (jdiv (of_int s) 3600)) @ (u ''h''))
      else (u ''Manual''))"

subsection \<open>Handlers\<close>

definition rt_reload :: "routines_tag cmd list" where
  "rt_reload = [Send GET (u ''/v1/routines'') None Get_routines]"

text \<open>\<open>Number(f.interval) || 0\<close>.\<close>

definition interval_of :: "jstr \<Rightarrow> rat" where
  "interval_of s = (case to_number s of Some x \<Rightarrow> x | None \<Rightarrow> 0)"

definition routine_body :: "rt_form \<Rightarrow> json" where
  "routine_body f =
     JObj ([((u ''name''), JStr (rf_name f)), ((u ''trigger''), JStr (rf_trigger f)),
            ((u ''interval_sec''), JNum (interval_of (rf_interval f))), ((u ''prompt''), JStr (rf_prompt f))]
           @ (if rf_repo f = [] then [] else [((u ''repo_id''), JStr (rf_repo f))]))"

definition create_routine :: "routines \<Rightarrow> routines \<times> routines_tag cmd list" where
  "create_routine s =
     (if rf_name (rs_f s) = [] \<or> rf_prompt (rs_f s) = [] then (s, [])
      else (s\<lparr>rs_creating := True\<rparr>, [Send POST (u ''/v1/routines'') (Some (routine_body (rs_f s))) Post_routine]))"

definition routine_created :: "json outcome \<Rightarrow> routines \<Rightarrow> routines \<times> routines_tag cmd list" where
  "routine_created r s =
     (case r of
        Resolved _ \<Rightarrow> (s\<lparr>rs_f := RF_START, rs_new := False, rs_creating := False\<rparr>, rt_reload)
      | Rejected _ \<Rightarrow> (s\<lparr>rs_creating := False\<rparr>, []))"

definition then_reload :: "json outcome \<Rightarrow> routines_tag cmd list" where
  "then_reload r = (case r of Resolved _ \<Rightarrow> rt_reload | Rejected _ \<Rightarrow> [])"

fun routines_step :: "routines_event \<Rightarrow> routines \<Rightarrow> routines \<times> routines_tag cmd list" where
  "routines_step RN_mount s = (s\<lparr>rs_loading := loading_effect (rs_list s) (rs_loading s)\<rparr>, [])"
| "routines_step (RN_list r) s =
     (let d = poll_accept r (rs_list s) in (s\<lparr>rs_list := d, rs_loading := loading_effect d (rs_loading s)\<rparr>, []))"
| "routines_step (RN_repos r) s = (s\<lparr>rs_repos := poll_accept r (rs_repos s)\<rparr>, [])"
| "routines_step RN_open s = (s\<lparr>rs_new := True\<rparr>, [])"
| "routines_step RN_close s = (s\<lparr>rs_new := False\<rparr>, [])"
| "routines_step (RN_name v) s = (s\<lparr>rs_f := (rs_f s)\<lparr>rf_name := v\<rparr>\<rparr>, [])"
| "routines_step (RN_trigger v) s = (s\<lparr>rs_f := (rs_f s)\<lparr>rf_trigger := v\<rparr>\<rparr>, [])"
| "routines_step (RN_interval v) s = (s\<lparr>rs_f := (rs_f s)\<lparr>rf_interval := v\<rparr>\<rparr>, [])"
| "routines_step (RN_prompt v) s = (s\<lparr>rs_f := (rs_f s)\<lparr>rf_prompt := v\<rparr>\<rparr>, [])"
| "routines_step (RN_repo v) s = (s\<lparr>rs_f := (rs_f s)\<lparr>rf_repo := v\<rparr>\<rparr>, [])"
| "routines_step RN_create s = create_routine s"
| "routines_step (RN_created r) s = routine_created r s"
| "routines_step (RN_delete i) s = (s, [Send DELETE ((u ''/v1/routines/'') @ i) None Delete_routine])"
| "routines_step (RN_deleted r) s = (s, then_reload r)"
| "routines_step (RN_act i a) s = (s, [Send POST ((u ''/v1/routines/'') @ i @ (u ''/'') @ a) (Some (JObj [])) Act_routine])"
| "routines_step (RN_acted r) s = (s, then_reload r)"
| "routines_step RN_prev s = (s\<lparr>rs_page := prev_page (rs_page s)\<rparr>, [])"
| "routines_step RN_next s = (s\<lparr>rs_page := next_page RT_PAGE (or_empty (rs_list s)) (rs_page s)\<rparr>, [])"

subsection \<open>The view\<close>

definition routine_dialog :: "jstr \<Rightarrow> routines \<Rightarrow> routines_event node" where
  "routine_dialog lang s =
     (let f = rs_f s in
      modal lang ((u ''Nova rotina'')) RN_close
        [dv [El ''label'' [] [spt ((u ''Nome'')), inp (rf_name f) RN_name ((ux ''Ex.: Varredura de seguran{e7}a''))],
             dv (El ''label'' [] [spt ((u ''Gatilho'')),
                   sel_el (rf_trigger f) RN_trigger [optv ((u ''manual'')) ((u ''manual'')), optv ((u ''schedule'')) ((u ''schedule''))]]
                 # shown (rf_trigger f = (u ''schedule''))
                     [El ''label'' [] [spt ((u ''Intervalo (s)'')), El ''input'' [Value (rf_interval f), OnInput RN_interval] []]]
                 @ [El ''label'' [] [spt ((ux ''Reposit{f3}rio'')),
                      sel_el (rf_repo f) RN_repo
                        (optv [] ((ux ''(sem repo {2014} s{f3} planeja)''))
                         # map (\<lambda>r. El ''option'' [Key (rr_id r), Value (rr_id r)] [Txt (rr_name r)]) (or_empty (rs_repos s)))]]),
             El ''label'' [] [sp [Txt ((u ''Prompt '')), spt ((ux ''(a{e7}{e3}o da rotina)''))],
               El ''textarea'' [Value (rf_prompt f), OnInput RN_prompt, Placeholder ((ux ''Descreva o que o worker deve fazer{2026}''))] []]]]
        (Some [btn RN_close [Txt ((u ''Cancelar''))],
               El ''button'' [OnClick RN_create, Disabled (rs_creating s), Sty ''opacity'' (if rs_creating s then (u ''.6'') else (u ''1''))]
                 [Txt (if rs_creating s then (ux ''Criando{2026}'') else (u ''Criar rotina''))]]))"

definition routine_row :: "(jstr \<Rightarrow> int option) \<Rightarrow> int \<Rightarrow> routine \<Rightarrow> routines_event node" where
  "routine_row date_ms now r =
     (let pillColor = (if rt_enabled r then (u ''var(--green)'') else (u ''var(--mute)''));
          pillBg = (if rt_enabled r then (u ''var(--green-tint)'') else (u ''var(--border)'')) in
      El ''div'' [Key (rt_id r)]
        [dv [sp [svg], dv [dvt (rt_name r), dvt (schedLabel r)],
             El ''span'' [Sty ''color'' pillColor, Sty ''background'' pillBg]
               [El ''span'' [Sty ''background'' pillColor] [], Txt (if rt_enabled r then (u ''ativa'') else (u ''pausada''))],
             btn (RN_act (rt_id r) (if rt_enabled r then (u ''disable'') else (u ''enable'')))
               [Txt (if rt_enabled r then (u ''Pausar'') else (u ''Ativar''))],
             btn (RN_delete (rt_id r)) [Txt ((u ''Excluir''))]],
         dv [sp [svg, Txt ((ux ''{da}ltima: '')), spt (rt_fmtTime date_ms now (rt_last r))],
             sp [svg, Txt ((ux ''Pr{f3}xima: '')), spt (rt_fmtTime date_ms now (rt_next r))]]])"

definition rt_arrows :: "nat \<Rightarrow> nat \<Rightarrow> nat \<Rightarrow> routines_event node list" where
  "rt_arrows len tot safe =
     shown (tot > 1)
       [dv [sp [Txt (nshow len), Txt ((u '' rotinas''))],
            dv [navBtn RN_prev (safe = 0) [svg], navBtn RN_next (safe \<ge> tot - 1) [svg]]]]"

definition routines_view :: "(jstr \<Rightarrow> int option) \<Rightarrow> int \<Rightarrow> jstr \<Rightarrow> routines \<Rightarrow> routines_event node list" where
  "routines_view date_ms now lang s =
     (let lst = or_empty (rs_list s); tot = total_pages RT_PAGE lst;
          safe = safe_page RT_PAGE lst (rs_page s); rows = page_rows RT_PAGE lst (rs_page s) in
      [pageHead lang (Some ((ux ''Opera{e7}{e3}o''))) ((u ''Rotinas'')) (Some ((u ''Tarefas agendadas e varreduras recorrentes.'')))
         [btn RN_open [svg, Txt ((u ''Nova rotina''))]]]
      @ shown (rs_new s) [routine_dialog lang s]
      @ [dv ([dv [spt ((u ''Rotinas agendadas'')), spt (nshow (length lst))]]
             @ map (routine_row date_ms now) rows
             @ shown (rows = []) [dvt ((u ''nenhuma rotina''))]
             @ rt_arrows (length lst) tot safe)])"

subsection \<open>Facts\<close>

interpretation routine_pages: paged RT_PAGE "\<lambda>s. or_empty (rs_list s)" rs_page "\<lambda>p s. s\<lparr>rs_page := p\<rparr>"
  by unfold_locales (simp_all add: RT_PAGE_def)

text \<open>A rounded-up age in minutes stays below sixty: the next unit takes over.\<close>

lemma ceil_div_bounds: "0 < b \<Longrightarrow> a \<le> ceil_div a b * b \<and> ceil_div a b * b < a + b"
proof -
  assume b: "0 < b"
  have "b * ((- a) div b) + (- a) mod b = - a" by (rule mult_div_mod_eq)
  moreover have "ceil_div a b * b = - (b * ((- a) div b))" by (simp add: ceil_div_def mult.commute)
  ultimately show ?thesis
    using pos_mod_sign [OF b, of "- a"] pos_mod_bound [OF b, of "- a"] by linarith
qed

lemma rounded_up_age_below_sixty:
  assumes "s < 60"
  shows "ceil_div s 60 \<le> 1"
  using ceil_div_bounds [of 60 s] assms by simp

lemma clicks_routine_row [simp]:
  "clicks (routine_row date_ms now r) =
     [RN_act (rt_id r) (if rt_enabled r then (u ''disable'') else (u ''enable'')), RN_delete (rt_id r)]"
  by (simp add: routine_row_def Let_def)

text \<open>The switch of a row asks for the opposite of what the row shows.\<close>

lemma act_clickable:
  "RN_act i a \<in> set (all_clicks (routines_view date_ms now lang s)) \<Longrightarrow>
   \<exists>r \<in> set (or_empty (rs_list s)). rt_id r = i \<and> a = (if rt_enabled r then (u ''disable'') else (u ''enable''))"
proof -
  assume "RN_act i a \<in> set (all_clicks (routines_view date_ms now lang s))"
  then have "\<exists>r \<in> set (page_rows RT_PAGE (or_empty (rs_list s)) (rs_page s)).
      rt_id r = i \<and> a = (if rt_enabled r then (u ''disable'') else (u ''enable''))"
    by (auto simp: routines_view_def routine_dialog_def rt_arrows_def navBtn_def Let_def set_all_clicks_map shown_def
        split: if_splits)
  then show ?thesis using routine_pages.rows_subset [of s] by (auto simp: routine_pages.rows_def)
qed

text \<open>The interval typed is the interval sent, also when the trigger is manual and its field hidden.\<close>

lemma interval_sent:
  assumes "n < 2 ^ 53" "rf_name (rs_f s) \<noteq> []" "rf_prompt (rs_f s) \<noteq> []"
  shows "let (t, cs) = routines_step RN_create (fst (routines_step (RN_interval (nshow n)) s)) in
    \<exists>b. cs = [Send POST (u ''/v1/routines'') (Some b) Post_routine] \<and> jget (u ''interval_sec'') b = JNum (of_nat n)"
  using assms
  by (simp add: create_routine_def routine_body_def interval_of_def to_number_nshow ux_def u_def)

end
