(* ===== verification/Ci.thy ===== *)
theory Ci
  imports Prs Ui_Path Js_Parse
begin

text \<open>
  The CI page, app/ci/page.tsx: runs with their counters, filters and table. ciColor and age are the
  same text as those of app/prs/page.tsx and are shared with the theory Prs. \<open>date_ms\<close>, \<open>now\<close> and
  \<open>lc\<close> are the arguments of that theory.
\<close>

record ci_run =
  ci_id :: jstr
  ci_provider :: jstr
  ci_status :: jstr
  ci_task :: jstr
  ci_branch :: jstr
  ci_repo :: jstr
  ci_finished :: jstr

record ci_page =
  cp_runs :: "ci_run list pdata"
  cp_loading :: bool
  cp_q :: jstr
  cp_state :: jstr
  cp_conn :: jstr
  cp_page :: nat

definition ci_start :: ci_page where
  "ci_start = \<lparr>cp_runs = Nul, cp_loading = True, cp_q = [], cp_state = (u ''todos''), cp_conn = (u ''todas''), cp_page = 0\<rparr>"

definition CI_PAGE :: nat where "CI_PAGE = 20"

definition CI_STATES :: "(jstr \<times> jstr) list" where
  "CI_STATES = [((u ''todos''), (u ''Todos'')), ((u ''verde''), (u ''Verde'')), ((u ''falhou''), (u ''Falhou'')), ((u ''rodando''), (u ''Rodando''))]"

datatype ci_event =
    CI_mount
  | CI_runs "ci_run list pdata outcome"
  | CI_search jstr
  | CI_conn jstr
  | CI_state jstr
  | CI_prev
  | CI_next

definition ci_matchState :: "jstr \<Rightarrow> jstr \<Rightarrow> bool" where
  "ci_matchState f s =
     (if f = (u ''todos'') then True
      else if f = (u ''verde'') then s = (u ''passed'')
      else if f = (u ''falhou'') then s = (u ''failed'')
      else if f = (u ''rodando'') then s = (u ''running'')
      else True)"

definition ci_with :: "jstr \<Rightarrow> ci_page \<Rightarrow> nat" where
  "ci_with st s = length (filter (\<lambda>c. ci_status c = st) (or_empty (cp_runs s)))"

definition ci_pct :: "ci_page \<Rightarrow> jstr" where
  "ci_pct s =
     (let passed = ci_with ((u ''passed'')) s; finished = passed + ci_with ((u ''failed'')) s in
      if finished \<noteq> 0 then to_fixed 1 (jdiv (jmul 100 (of_nat passed)) (of_nat finished)) else (ux ''{2014}''))"

definition providers :: "ci_page \<Rightarrow> jstr list" where
  "providers s = uniq (filter (\<lambda>p. p \<noteq> []) (map ci_provider (or_empty (cp_runs s))))"

definition ci_filtered :: "(jstr \<Rightarrow> jstr) \<Rightarrow> ci_page \<Rightarrow> ci_run list" where
  "ci_filtered lc s =
     filter (\<lambda>c. search_hit lc (cp_q s) (ci_task c @ ci_branch c @ ci_repo c @ ci_provider c))
       (filter (\<lambda>c. cp_conn s = (u ''todas'') \<or> ci_provider c = cp_conn s)
         (filter (\<lambda>c. ci_matchState (cp_state s) (ci_status c)) (or_empty (cp_runs s))))"

fun ci_step :: "(jstr \<Rightarrow> jstr) \<Rightarrow> ci_event \<Rightarrow> ci_page \<Rightarrow> ci_page" where
  "ci_step lc CI_mount s = s\<lparr>cp_loading := loading_effect (cp_runs s) (cp_loading s)\<rparr>"
| "ci_step lc (CI_runs r) s =
     (let d = poll_accept r (cp_runs s) in s\<lparr>cp_runs := d, cp_loading := loading_effect d (cp_loading s)\<rparr>)"
| "ci_step lc (CI_search v) s = s\<lparr>cp_q := v, cp_page := 0\<rparr>"
| "ci_step lc (CI_conn v) s = s\<lparr>cp_conn := v, cp_page := 0\<rparr>"
| "ci_step lc (CI_state v) s = s\<lparr>cp_state := v, cp_page := 0\<rparr>"
| "ci_step lc CI_prev s = s\<lparr>cp_page := prev_page (cp_page s)\<rparr>"
| "ci_step lc CI_next s = s\<lparr>cp_page := next_page CI_PAGE (ci_filtered lc s) (cp_page s)\<rparr>"

subsection \<open>The view\<close>

definition ci_pill :: "bool \<Rightarrow> 'e attr list" where
  "ci_pill active = [Sty ''background'' (if active then (u ''var(--card)'') else (u ''transparent'')),
                     Sty ''color'' (if active then (u ''var(--ink)'') else (u ''var(--dim)''))]"

definition ci_badge :: "jstr \<Rightarrow> jstr" where
  "ci_badge st = (if st = (u ''passed'') then (u ''merged'') else if st = (u ''failed'') then (u ''failed'') else (u ''queued''))"

definition ci_row :: "(jstr \<Rightarrow> int option) \<Rightarrow> int \<Rightarrow> ci_run \<Rightarrow> ci_event node" where
  "ci_row date_ms now c =
     (let col = ciColor (ci_status c) in
      El ''div'' [Key (ci_id c)]
        [dv [dv [sp [Txt ((u ''#'')), Txt (short (replace_prefix ((u ''tsk_'')) [] (ci_task c)) 6)],
                 spt (if ci_branch c \<noteq> [] then ci_branch c else ci_task c)],
             spt (if ci_repo c \<noteq> [] then short (ci_repo c) 28 else (ux ''{2014}''))],
         spt (if ci_provider c \<noteq> [] then ci_provider c else (ux ''{2014}'')),
         El ''span'' [Sty ''color'' col]
           [El ''span'' (Sty ''background'' col
               # (if ci_status c = (u ''running'') then [Sty ''animation'' ((u ''livedot 1s ease-in-out infinite''))] else [])) [],
            Txt ((u ''CI''))],
         sp [El ''span'' (badge (ci_badge (ci_status c))) [Txt (ci_status c)]],
         spt (age date_ms now (ci_finished c))])"

definition ci_cards :: "ci_page \<Rightarrow> 'e node" where
  "ci_cards s =
     dv (map (\<lambda>(label, value, color). El ''div'' [Key label] [spt label, El ''span'' [Sty ''color'' color] [Txt value]])
       [((u ''CI verde (24h)''), ci_pct s @ (u ''%''), (u ''var(--green)'')),
        ((ux ''Execu{e7}{f5}es''), nshow (length (or_empty (cp_runs s))), (u ''var(--ink)'')),
        ((u ''Falhas''), nshow (ci_with ((u ''failed'')) s), (u ''var(--red)'')),
        ((u ''Rodando''), nshow (ci_with ((u ''running'')) s), (u ''var(--blue)''))])"

definition ci_options :: "ci_page \<Rightarrow> 'e node list" where
  "ci_options s =
     optv ((u ''todas'')) ((ux ''Todas as conex{f5}es''))
     # map (\<lambda>p. El ''option'' [Key p, Value p] [Txt p]) (providers s)
     @ shown (providers s = []) [opt ((u ''GitHub Actions'')), opt ((u ''SonarCloud'')), opt ((u ''CircleCI''))]"

definition ci_view :: "(jstr \<Rightarrow> jstr) \<Rightarrow> (jstr \<Rightarrow> int option) \<Rightarrow> int \<Rightarrow> jstr \<Rightarrow> ci_page \<Rightarrow> ci_event node list" where
  "ci_view lc date_ms now lang s =
     (let filtered = ci_filtered lc s; tot = total_pages CI_PAGE filtered;
          safe = safe_page CI_PAGE filtered (cp_page s); rows = page_rows CI_PAGE filtered (cp_page s) in
      [pageHead lang (Some ((ux ''Opera{e7}{e3}o''))) ((u ''CI'')) (Some ((ux ''Integra{e7}{e3}o cont{ed}nua {2014} execu{e7}{f5}es de build/teste e status por PR.''))) [],
       ci_cards s,
       dv ([dv [dv [svg, inp (cp_q s) CI_search ((ux ''Buscar execu{e7}{e3}o{2026}''))],
                sel_el (cp_conn s) CI_conn (ci_options s),
                dv (map (\<lambda>(k, label). El ''button'' ([Key k, OnClick (CI_state k)] @ ci_pill (cp_state s = k)) [Txt label]) CI_STATES)],
            dv [spt ((u ''Pull request'')), spt ((u ''CI remoto'')), spt ((u ''CI'')), spt ((u ''Estado'')), spt ((u ''Idade''))]]
           @ map (ci_row date_ms now) rows
           @ shown (rows = []) [dvt ((ux ''nenhuma execu{e7}{e3}o de CI''))]
           @ [dv (sp [Txt (nshow (length filtered)), Txt ((ux '' execu{e7}{f5}es''))] # pager tot safe CI_prev CI_next)])])"

subsection \<open>Facts\<close>

interpretation ci_pages: paged CI_PAGE "ci_filtered lc" cp_page "\<lambda>p s. s\<lparr>cp_page := p\<rparr>" for lc
  by unfold_locales (simp_all add: ci_filtered_def CI_PAGE_def)

text \<open>The counters of the cards are what the state filters show.\<close>

lemma ci_filters_agree:
  assumes "cp_q s = []" "cp_conn s = (u ''todas'')"
  shows "length (ci_filtered lc (s\<lparr>cp_state := (u ''verde'')\<rparr>)) = ci_with ((u ''passed'')) s"
    "length (ci_filtered lc (s\<lparr>cp_state := (u ''falhou'')\<rparr>)) = ci_with ((u ''failed'')) s"
    "length (ci_filtered lc (s\<lparr>cp_state := (u ''rodando'')\<rparr>)) = ci_with ((u ''running'')) s"
  using assms by (simp_all add: ci_filtered_def ci_with_def search_hit_def ci_matchState_def u_def)

text \<open>Every connection read off the runs finds one; the three names offered without any find none.\<close>

lemma provider_options_find_runs:
  assumes "p \<in> set (providers s)" "cp_q s = []" "cp_state s = (u ''todos'')" "p \<noteq> (u ''todas'')"
  shows "\<exists>c \<in> set (ci_filtered lc (s\<lparr>cp_conn := p\<rparr>)). ci_provider c = p"
  using assms by (auto simp: providers_def ci_filtered_def search_hit_def ci_matchState_def)

lemma sample_connections_find_nothing:
  assumes "providers s = []" "p \<noteq> []" "p \<noteq> (u ''todas'')"
  shows "ci_filtered lc (s\<lparr>cp_conn := p\<rparr>) = []"
proof -
  have "set (providers s) = {}" using assms(1) by simp
  then have "\<forall>c \<in> set (or_empty (cp_runs s)). ci_provider c = []" by (auto simp: providers_def)
  then show ?thesis using assms(2,3) by (auto simp: ci_filtered_def filter_empty_conv)
qed

text \<open>The rate shown is a percentage, for fewer than \<open>2^45\<close> runs.\<close>

lemma ci_pct_range:
  assumes "ci_with ((u ''passed'')) s + ci_with ((u ''failed'')) s \<noteq> 0" "length (or_empty (cp_runs s)) < 2 ^ 45"
  shows "\<exists>x. 0 \<le> x \<and> x \<le> 100 \<and> ci_pct s = to_fixed 1 x"
proof -
  let ?n = "ci_with ((u ''passed'')) s + ci_with ((u ''failed'')) s"
  have "ci_with st s \<le> length (or_empty (cp_runs s))" for st by (simp add: ci_with_def)
  then have "ci_with ((u ''passed'')) s \<le> length (or_empty (cp_runs s))" "ci_with ((u ''failed'')) s \<le> length (or_empty (cp_runs s))"
    by blast+
  then have "100 * ?n < 2 ^ 53" using assms(2) by simp
  with percent_nat [of "ci_with ((u ''passed'')) s" ?n] assms(1) show ?thesis
    by (auto simp: ci_pct_def Let_def)
qed

end
