(* ===== verification/Qa.thy ===== *)
theory Qa
  imports Ui_Path Js_Parse
begin

text \<open>
  The QA page, app/qa/page.tsx: reports with their counters, filters and table. The coverage of a
  report may be missing (\<open>None\<close>); the other numbers are natural. \<open>lc\<close> is toLowerCase.
\<close>

record qa =
  qa_id :: jstr
  qa_task :: jstr
  qa_status :: jstr
  qa_total :: nat
  qa_passed :: nat
  qa_coverage :: "rat option"
  qa_ms :: nat
  qa_repo :: jstr
  qa_branch :: jstr
  qa_created :: jstr

record qa_page =
  qp_reports :: "qa list pdata"
  qp_loading :: bool
  qp_q :: jstr
  qp_state :: jstr
  qp_repo :: jstr
  qp_page :: nat

definition qa_start :: qa_page where
  "qa_start = \<lparr>qp_reports = Nul, qp_loading = True, qp_q = [], qp_state = (u ''todos''), qp_repo = (u ''todos''), qp_page = 0\<rparr>"

definition QA_PAGE :: nat where "QA_PAGE = 20"

definition QA_STATES :: "(jstr \<times> jstr) list" where
  "QA_STATES = [((u ''todos''), (u ''Todos'')), ((u ''pass''), (u ''Aprovado'')), ((u ''fail''), (u ''Falhou'')), ((u ''flaky''), (u ''Flaky''))]"

datatype qa_event =
    QE_mount
  | QE_reports "qa list pdata outcome"
  | QE_search jstr
  | QE_repo jstr
  | QE_state jstr
  | QE_prev
  | QE_next

definition qa_matchState :: "jstr \<Rightarrow> jstr \<Rightarrow> bool" where
  "qa_matchState f s =
     (if f = (u ''todos'') then True
      else if f = (u ''pass'') then s = (u ''passed'')
      else if f = (u ''fail'') then s = (u ''failed'')
      else if f = (u ''flaky'') then s = (u ''flaky'')
      else True)"

subsection \<open>Numbers\<close>

text \<open>\<open>s % 60\<close> is exact on doubles; \<open>s\<close> is not negative here.\<close>

definition mod60 :: "rat \<Rightarrow> rat" where
  "mod60 s = s - 60 * of_int \<lfloor>s / 60\<rfloor>"

definition fmtDuration :: "nat \<Rightarrow> jstr" where
  "fmtDuration ms =
     (if ms = 0 then (ux ''{2014}'')
      else if ms < 1000 then nshow ms @ (u ''ms'')
      else (let s = jdiv (of_nat ms) 1000 in
            if s < 60 then to_fixed 1 s @ (u ''s'')
            else ishow \<lfloor>jdiv s 60\<rfloor> @ (u ''m'') @ ishow (jround (mod60 s)) @ (u ''s'')))"

definition fmtCov :: "rat option \<Rightarrow> jstr" where
  "fmtCov n = (case n of None \<Rightarrow> (ux ''{2014}'') | Some x \<Rightarrow> to_fixed 1 x @ (u ''%''))"

definition qa_list :: "qa_page \<Rightarrow> qa list" where
  "qa_list s = or_empty (qp_reports s)"

definition qa_tot :: "qa_page \<Rightarrow> nat" where
  "qa_tot s = foldl (\<lambda>a x. a + qa_total x) 0 (qa_list s)"

definition qa_ok :: "qa_page \<Rightarrow> nat" where
  "qa_ok s = foldl (\<lambda>a x. a + qa_passed x) 0 (qa_list s)"

definition passRate :: "qa_page \<Rightarrow> jstr" where
  "passRate s =
     (if qa_tot s \<noteq> 0 then to_fixed 1 (jdiv (jmul 100 (of_nat (qa_ok s))) (of_nat (qa_tot s))) @ (u ''%'') else (ux ''{2014}''))"

text \<open>\<open>x.coverage > 0\<close> is false of a missing value.\<close>

definition covVals :: "qa_page \<Rightarrow> rat list" where
  "covVals s = concat (map (\<lambda>x. case qa_coverage x of Some c \<Rightarrow> (if c > 0 then [c] else []) | None \<Rightarrow> []) (qa_list s))"

definition mean_of :: "rat list \<Rightarrow> rat" where
  "mean_of cs = jdiv (foldl jadd 0 cs) (of_nat (length cs))"

definition avgCov :: "qa_page \<Rightarrow> jstr" where
  "avgCov s = (if covVals s \<noteq> [] then to_fixed 1 (mean_of (covVals s)) @ (u ''%'') else (ux ''{2014}''))"

definition failCount :: "qa_page \<Rightarrow> nat" where
  "failCount s = length (filter (\<lambda>x. qa_status x = (u ''failed'')) (qa_list s))"

subsection \<open>List and handlers\<close>

definition qa_repos :: "qa_page \<Rightarrow> jstr list" where
  "qa_repos s = uniq (filter (\<lambda>r. r \<noteq> []) (map qa_repo (qa_list s)))"

definition qa_filtered :: "(jstr \<Rightarrow> jstr) \<Rightarrow> qa_page \<Rightarrow> qa list" where
  "qa_filtered lc s =
     filter (\<lambda>x. search_hit lc (qp_q s) (qa_task x @ qa_branch x @ qa_repo x))
       (filter (\<lambda>x. qp_repo s = (u ''todos'') \<or> qa_repo x = qp_repo s)
         (filter (\<lambda>x. qa_matchState (qp_state s) (qa_status x)) (qa_list s)))"

fun qa_step :: "(jstr \<Rightarrow> jstr) \<Rightarrow> qa_event \<Rightarrow> qa_page \<Rightarrow> qa_page" where
  "qa_step lc QE_mount s = s\<lparr>qp_loading := loading_effect (qp_reports s) (qp_loading s)\<rparr>"
| "qa_step lc (QE_reports r) s =
     (let d = poll_accept r (qp_reports s) in s\<lparr>qp_reports := d, qp_loading := loading_effect d (qp_loading s)\<rparr>)"
| "qa_step lc (QE_search v) s = s\<lparr>qp_q := v, qp_page := 0\<rparr>"
| "qa_step lc (QE_repo v) s = s\<lparr>qp_repo := v, qp_page := 0\<rparr>"
| "qa_step lc (QE_state v) s = s\<lparr>qp_state := v, qp_page := 0\<rparr>"
| "qa_step lc QE_prev s = s\<lparr>qp_page := prev_page (qp_page s)\<rparr>"
| "qa_step lc QE_next s = s\<lparr>qp_page := next_page QA_PAGE (qa_filtered lc s) (qp_page s)\<rparr>"

subsection \<open>The view\<close>

definition qa_pill :: "bool \<Rightarrow> 'e attr list" where
  "qa_pill active = [Sty ''background'' (if active then (u ''var(--card)'') else (u ''transparent'')),
                     Sty ''color'' (if active then (u ''var(--ink)'') else (u ''var(--dim)''))]"

definition qa_kpis :: "qa_page \<Rightarrow> 'e node" where
  "qa_kpis s =
     dv (map (\<lambda>(label, value, color).
           El ''div'' [Key label] [spt label, El ''span'' [Sty ''color'' color] [Txt value], sp [Txt ((ux ''{2014} '')), spt ((u ''vs ontem''))]])
       [((ux ''Taxa de aprova{e7}{e3}o''), passRate s, (u ''var(--green)'')), ((ux ''Cobertura m{e9}dia''), avgCov s, (u ''var(--ink)'')),
        ((u ''Falhas''), nshow (failCount s), (u ''var(--red)'')), ((u ''Total de testes''), nshow (qa_tot s), (u ''var(--ink)''))])"

definition qa_row :: "qa \<Rightarrow> qa_event node" where
  "qa_row x =
     (let bstat = (if qa_status x = (u ''passed'') then (u ''merged'') else if qa_status x = (u ''failed'') then (u ''failed'') else (u ''queued''));
          num = (u ''#'') @ short (replace_prefix ((u ''tsk_'')) [] (qa_task x)) 6 in
      El ''div'' [Key (qa_id x)]
        [dv [spt (if qa_branch x \<noteq> [] then short (qa_branch x) 18 else num), spt num],
         spt (if qa_repo x \<noteq> [] then short (qa_repo x) 24 else (ux ''{2014}'')),
         sp [Txt (nshow (qa_passed x)), Txt ((u ''/'')), Txt (nshow (qa_total x))],
         spt (fmtCov (qa_coverage x)),
         sp [El ''span'' (badge bstat) [Txt (qa_status x)]],
         spt (fmtDuration (qa_ms x)),
         sp [El ''button'' [] [svg, Txt ((u ''Ver''))]]])"

definition qa_arrows :: "nat \<Rightarrow> nat \<Rightarrow> qa_event node list" where
  "qa_arrows tot safe =
     shown (tot > 1) [dv [navBtn QE_prev (safe = 0) [svg], navBtn QE_next (safe \<ge> tot - 1) [svg]]]"

definition qa_view :: "(jstr \<Rightarrow> jstr) \<Rightarrow> jstr \<Rightarrow> qa_page \<Rightarrow> qa_event node list" where
  "qa_view lc lang s =
     (let filtered = qa_filtered lc s; tot = total_pages QA_PAGE filtered;
          safe = safe_page QA_PAGE filtered (qp_page s); rows = page_rows QA_PAGE filtered (qp_page s) in
      [pageHead lang (Some ((ux ''Opera{e7}{e3}o''))) ((u ''QA'')) (Some ((ux ''Qualidade do c{f3}digo gerado {2014} testes, cobertura e revis{f5}es da IA.''))) [],
       qa_kpis s,
       dv ([dvt ((ux ''Execu{e7}{f5}es recentes de QA'')),
            dv [dv [svg, inp (qp_q s) QE_search ((ux ''Buscar por tarefa, PR ou repo{2026}''))],
                sel_el (qp_repo s) QE_repo
                  (optv ((u ''todos'')) ((u ''Todos os repos'')) # map (\<lambda>r. El ''option'' [Key r, Value r] [Txt r]) (qa_repos s)),
                dv (map (\<lambda>(k, label). El ''button'' ([Key k, OnClick (QE_state k)] @ qa_pill (qp_state s = k)) [Txt label]) QA_STATES)],
            dv [spt ((u ''PR / Tarefa'')), spt ((ux ''Reposit{f3}rio'')), spt ((u ''Testes'')), spt ((u ''Cobertura'')), spt ((u ''Status'')), spt ((u ''Tempo'')), spt ((u ''Detalhes''))]]
           @ map qa_row rows
           @ shown (rows = []) [dvt ((ux ''Nenhuma execu{e7}{e3}o encontrada.''))]
           @ [dv (spt (nshow (length filtered) @ (ux '' execu{e7}{f5}es'')) # qa_arrows tot safe)])])"

subsection \<open>Facts\<close>

interpretation qa_pages: paged QA_PAGE "qa_filtered lc" qp_page "\<lambda>p s. s\<lparr>qp_page := p\<rparr>" for lc
  by unfold_locales (simp_all add: qa_filtered_def qa_list_def QA_PAGE_def)

lemma sums_le:
  "list_all (\<lambda>x. qa_passed x \<le> qa_total x) xs \<Longrightarrow> a \<le> b \<Longrightarrow>
   foldl (\<lambda>a x. a + qa_passed x) a xs \<le> foldl (\<lambda>a x. a + qa_total x) b xs"
  by (induction xs arbitrary: a b) (auto intro: add_mono)

text \<open>
  The mean of percentages is a percentage, although each addition and the division round: a sum of
  \<open>n\<close> values up to 100 stays below the integer \<open>100 n\<close>, which is a double.
\<close>

lemma rounded_sum_range:
  assumes "\<forall>c \<in> set cs. 0 \<le> c \<and> c \<le> 100" "100 * (k + length cs) < 2 ^ 53" "0 \<le> a" "a \<le> of_nat (100 * k)"
  shows "0 \<le> foldl jadd a cs \<and> foldl jadd a cs \<le> of_nat (100 * (k + length cs))"
  using assms
proof (induction cs arbitrary: a k)
  case (Cons c cs)
  have "a \<le> 100 * of_nat k" "c \<le> 100" using Cons.prems by simp_all
  then have "a + c \<le> of_int (int (100 * Suc k))" by (simp add: algebra_simps)
  moreover have "100 * Suc k < 2 ^ 53" using Cons.prems(2) by simp
  then have "\<bar>int (100 * Suc k)\<bar> < 2 ^ 53" by simp
  ultimately have "jadd a c \<le> of_int (int (100 * Suc k))" unfolding jadd_def by (rule fl_le_int)
  moreover have "0 \<le> jadd a c" unfolding jadd_def using Cons.prems by (intro fl_0_le) simp
  ultimately show ?case using Cons.IH [of "Suc k" "jadd a c"] Cons.prems by simp
qed simp

lemma mean_range:
  assumes "\<forall>c \<in> set cs. 0 \<le> c \<and> c \<le> 100" "cs \<noteq> []" "100 * length cs < 2 ^ 53"
  shows "0 \<le> mean_of cs \<and> mean_of cs \<le> 100"
proof -
  have s: "0 \<le> foldl jadd 0 cs" "foldl jadd 0 cs \<le> 100 * of_nat (length cs)"
    using rounded_sum_range [of cs 0 0] assms by simp_all
  then have "foldl jadd 0 cs / of_nat (length cs) \<le> of_int 100"
    using assms(2) by (simp add: divide_le_eq)
  then show ?thesis
    using fl_le_int [of _ 100] s(1) by (simp add: mean_of_def jdiv_def fl_0_le)
qed

lemma covVals_in:
  "c \<in> set (covVals s) \<Longrightarrow> 0 < c \<and> (\<exists>x \<in> set (qa_list s). qa_coverage x = Some c)"
  by (auto simp: covVals_def split: option.splits if_splits)

lemma covVals_length: "length (covVals s) \<le> length (qa_list s)"
proof -
  have "length (concat (map (\<lambda>x. case qa_coverage x of Some c \<Rightarrow> (if c > 0 then [c] else []) | None \<Rightarrow> []) xs)) \<le> length xs"
    for xs :: "qa list"
    by (induction xs) (auto split: option.split)
  then show ?thesis by (simp add: covVals_def)
qed

text \<open>
  The seconds beside the minutes are rounded, not carried: they go up to sixty, which is reached.
\<close>

lemma seconds_range: "0 \<le> jround (mod60 s) \<and> jround (mod60 s) \<le> 60"
proof -
  have "of_int \<lfloor>s / 60\<rfloor> \<le> s / 60" "s / 60 < of_int \<lfloor>s / 60\<rfloor> + 1" by linarith+
  then have "of_int 0 \<le> mod60 s" "mod60 s \<le> of_int 60" by (simp_all add: mod60_def pos_le_divide_eq pos_divide_less_eq)
  then show ?thesis by (rule jround_range)
qed

lemma sixty_seconds_shown: "fmtDuration 119500 = (u ''1m60s'')"
proof -
  have s: "jdiv 119500 1000 = 239 / 2"
    using fl_at [of 6 "239 / 2"] rne_of_int [of "239 * 2 ^ 45"] by (simp add: jdiv_def power_int_minus)
  have "jdiv (239 / 2) 60 = fl (239 / 120)" by (simp add: jdiv_def)
  also have "fl (239 / 120) = 8969669257846238 / 2 ^ 52"
    using fl_at [of 0 "239 / 120"] rne_eq [of 8969669257846238 "239 / 120 * 2 ^ 52"] by (simp add: power_int_minus)
  finally have "jdiv (239 / 2) 60 = 8969669257846238 / 2 ^ 52" .
  then have "\<lfloor>jdiv (239 / 2) 60\<rfloor> = 1" by (simp only: floor_eq_iff) simp
  moreover have "\<lfloor>239 / 120 :: rat\<rfloor> = 1" by (simp add: floor_eq_iff)
  then have "jround (mod60 (239 / 2)) = 60" by (simp add: mod60_def jround_def)
  moreover have "nshow (Suc 0) = [49]" by (simp add: nshow.simps [of "Suc 0"])
  moreover have "nshow 60 = [54, 48]" by (simp add: nshow.simps [of 60] nshow.simps [of 6])
  moreover have "ishow 1 = nshow (Suc 0)" "ishow 60 = nshow 60" by (simp_all add: ishow_def)
  ultimately show ?thesis by (simp add: fmtDuration_def Let_def s u_def)
qed

end
