(* ===== verification/Telemetry.thy ===== *)
theory Telemetry
  imports Page_Kit Series_Hook
begin

text \<open>
  The telemetry page, app/telemetry/page.tsx: one polled object, six series, meters and cards. The
  object is null before its first answer (\<open>Nul\<close>), an object without the fields (\<open>Undef\<close>, what a failed
  request gives), or the data. The counts of the server are natural numbers.
\<close>

record tel =
  tm_total :: nat
  tm_merged :: nat
  tm_failed :: nat
  tm_active :: nat
  tm_tokens :: nat
  tm_prs :: nat
  tm_week :: nat

record telemetry_page =
  tl_t :: "tel pdata"
  tl_loading :: bool
  tl_series :: "rat list list"

definition telemetry_start :: telemetry_page where
  "telemetry_start = \<lparr>tl_t = Nul, tl_loading = True, tl_series = replicate 6 []\<rparr>"

datatype tel_event = TL_mount | TL_tick | TL_answer "tel answer outcome"

text \<open>\<open>t?.field ?? 0\<close>.\<close>

definition tm :: "(tel \<Rightarrow> nat) \<Rightarrow> telemetry_page \<Rightarrow> nat" where
  "tm f s = (case tl_t s of Dat x \<Rightarrow> f x | _ \<Rightarrow> 0)"

definition tel_values :: "telemetry_page \<Rightarrow> rat list" where
  "tel_values s = map (\<lambda>f. of_nat (tm f s)) [tm_total, tm_merged, tm_failed, tm_active, tm_prs, tm_tokens]"

definition tel_load :: "unit cmd list" where
  "tel_load = [Send GET (u ''/v1/telemetry'') None ()]"

fun tel_core :: "tel_event \<Rightarrow> telemetry_page \<Rightarrow> telemetry_page" where
  "tel_core TL_mount s = s\<lparr>tl_loading := (if tl_t s \<noteq> Nul then False else tl_loading s)\<rparr>"
| "tel_core TL_tick s = s"
| "tel_core (TL_answer r) s =
     (let d = keep_answer r (tl_t s) in s\<lparr>tl_t := d, tl_loading := (if d \<noteq> Nul then False else tl_loading s)\<rparr>)"

definition telemetry_step :: "tel_event \<Rightarrow> telemetry_page \<Rightarrow> telemetry_page \<times> unit cmd list" where
  "telemetry_step e s =
     (let s1 = tel_core e s in
      (s1\<lparr>tl_series := (if e = TL_mount then map (\<lambda>(v, cur). useSeries_push 24 v cur) (zip (tel_values s1) (tl_series s))
                        else series_effects (tel_values s) (tel_values s1) (tl_series s))\<rparr>,
       case e of TL_mount \<Rightarrow> tel_load | TL_tick \<Rightarrow> tel_load | TL_answer _ \<Rightarrow> []))"

subsection \<open>Numbers\<close>

definition tel_fmtH :: "nat \<Rightarrow> jstr" where
  "tel_fmtH s = (if s \<ge> 3600 then to_fixed 1 (jdiv (of_nat s) 3600) @ (u ''h'') else nshow s @ (u ''s''))"

definition tel_fmtTok :: "nat \<Rightarrow> jstr" where
  "tel_fmtTok n =
     (if n \<ge> 1000000 then to_fixed 1 (jdiv (of_nat n) 1000000) @ (u ''M'')
      else if n \<ge> 1000 then to_fixed 1 (jdiv (of_nat n) 1000) @ (u ''K'')
      else nshow n)"

definition tel_rate :: "(tel \<Rightarrow> nat) \<Rightarrow> telemetry_page \<Rightarrow> int" where
  "tel_rate f s =
     (if tm tm_total s \<noteq> 0 then jround (jdiv (jmul 100 (of_nat (tm f s))) (of_nat (tm tm_total s))) else 0)"

record tel_meter =
  ml_label :: jstr
  ml_val :: jstr
  ml_text :: jstr
  ml_pct :: int
  ml_color :: jstr

definition sysMeters :: "telemetry_page \<Rightarrow> tel_meter list" where
  "sysMeters s =
     (let active = tm tm_active s; prs = tm tm_prs s in
      [\<lparr>ml_label = (u ''Workers ativos''), ml_val = nshow active, ml_text = nshow active @ (u '' em uso''),
        ml_pct = min 100 (int active * 20), ml_color = (u ''var(--blue)'')\<rparr>,
       \<lparr>ml_label = (ux ''Tarefas conclu{ed}das''), ml_val = nshow (tm tm_merged s), ml_text = ishow (tel_rate tm_merged s) @ (u ''% taxa''),
        ml_pct = tel_rate tm_merged s, ml_color = (u ''var(--green)'')\<rparr>,
       \<lparr>ml_label = (u ''Tarefas com falha''), ml_val = nshow (tm tm_failed s),
        ml_text = (if tm tm_total s \<noteq> 0 then ishow (tel_rate tm_failed s) @ (u ''%'') else (ux ''{2014}'')),
        ml_pct = tel_rate tm_failed s, ml_color = (u ''var(--red)'')\<rparr>,
       \<lparr>ml_label = (u ''Pull requests''), ml_val = nshow prs, ml_text = nshow prs @ (u '' abertos''),
        ml_pct = min 100 (int prs * 5), ml_color = (u ''var(--orange)'')\<rparr>])"

definition pipeStats :: "telemetry_page \<Rightarrow> (jstr \<times> jstr \<times> jstr) list" where
  "pipeStats s =
     [((u ''Total tarefas''), nshow (tm tm_total s), (u ''var(--mute)'')), ((u ''Merged''), nshow (tm tm_merged s), (u ''var(--green)'')),
      ((u ''Falhas''), nshow (tm tm_failed s), (u ''var(--red)'')), ((u ''Ativas''), nshow (tm tm_active s), (u ''var(--blue)'')),
      ((u ''PRs''), nshow (tm tm_prs s), (u ''var(--orange)'')), ((u ''Worker-hours''), tel_fmtH (tm tm_week s), (u ''var(--accent)''))]"

subsection \<open>The view\<close>

definition tel_bar :: "int \<Rightarrow> jstr \<Rightarrow> 'e node" where
  "tel_bar pct color =
     dv [El ''div'' [StyPct ''width'' (of_int (min 100 (max 0 pct))), Sty ''background'' color] []]"

definition tel_cardHead :: "jstr \<Rightarrow> 'e node" where
  "tel_cardHead title = dvt title"

definition kpiCard :: "jstr \<Rightarrow> jstr \<Rightarrow> jstr \<Rightarrow> rat list \<Rightarrow> jstr \<Rightarrow> 'e node" where
  "kpiCard label value sub series color =
     dv ([spt label, dv [spt value], spt sub] @ shown (length series > 1) [sparkline color])"

definition worker_shares :: "telemetry_page \<Rightarrow> 'e node list" where
  "worker_shares s =
     (let active = tm tm_active s in
      if active = 0 then [dvt ((u ''nenhum worker ativo''))]
      else map (\<lambda>i. El ''div'' [Key (nshow i)]
             [sp [Txt ((u ''w-'')), Txt (pad_start 2 48 (nshow (i + 1)))],
              dv [El ''div'' [StyPct ''width'' (of_int (max 10 (100 - int i * 14)))] []],
              spt ((ux ''{2014}'')), spt ((ux ''${2014}''))]) [0..<min active 6])"

definition telemetry_view :: "jstr \<Rightarrow> telemetry_page \<Rightarrow> tel_event node list" where
  "telemetry_view lang s =
     (let sTot = tl_series s ! 0; sMer = tl_series s ! 1; sFail = tl_series s ! 2; sAct = tl_series s ! 3;
          sPr = tl_series s ! 4; sTok = tl_series s ! 5; tokens = tm tm_tokens s in
      [pageHead lang (Some ((ux ''Opera{e7}{e3}o''))) ((u ''Telemetria''))
         (Some ((ux ''Custo, throughput, taxa de aprova{e7}{e3}o, tempo m{e9}dio e tokens.''))) [],
       dv [dv [dv [tel_cardHead ((u ''Recursos do sistema'')),
                   dv (map (\<lambda>m. El ''div'' [Key (ml_label m)]
                     [dv [spt (ml_label m), sp [Txt (ml_val m), Txt ((ux '' {b7} '')), Txt (ml_text m)]],
                      tel_bar (ml_pct m) (ml_color m)]) (sysMeters s))],
               dv [tel_cardHead ((u ''Pipeline'')),
                   dv (map (\<lambda>(label, value, color). El ''div'' [Key label]
                     [sp [El ''span'' [Sty ''background'' color] [], Txt label], spt value]) (pipeStats s))]],
           dv [tel_cardHead ((u ''Consumo por worker'')), dv (worker_shares s)],
           dv [kpiCard ((u ''Tarefas'')) (nshow (tm tm_total s)) ((u ''total'')) sTot ((u ''--accent'')),
               kpiCard ((u ''Merged'')) (nshow (tm tm_merged s)) ((ux ''conclu{ed}das'')) sMer ((u ''--green'')),
               kpiCard ((u ''Falhas'')) (nshow (tm tm_failed s)) ((u ''gate vermelho'')) sFail ((u ''--red'')),
               kpiCard ((u ''Ativas'')) (nshow (tm tm_active s)) ((u ''em andamento'')) sAct ((u ''--blue'')),
               kpiCard ((u ''Pull Requests'')) (nshow (tm tm_prs s)) ((u ''abertos + merged'')) sPr ((u ''--orange'')),
               kpiCard ((u ''Tokens'')) (tel_fmtTok tokens) ((u ''relay/coder/review'')) sTok ((u ''--accent''))],
           dv [dv [tel_cardHead ((u ''Consumo por modelo'')), dv [dvt ((ux ''dados por modelo indispon{ed}veis''))]],
               dv [dv [dv ([spt ((u ''Custo'')), spt ((ux ''${2014}''))] @ shown (length sTok > 1) [sparkline ((u ''--accent''))]),
                       dv ([spt ((u ''Throughput'')), sp [Txt (nshow (tm tm_merged s)), Txt ((u ''/sem''))]]
                           @ shown (length sMer > 1) [sparkline ((u ''--green''))])],
                   dv (dv [spt ((u ''Tokens hoje'')), spt (tel_fmtTok tokens)]
                       # shown (length sTok > 1) [sparkline ((u ''--accent''))])]]]])"

subsection \<open>Facts\<close>

text \<open>After the mount each series is a window that ends with the value shown beside it.\<close>

definition tel_inv :: "telemetry_page \<Rightarrow> bool" where
  "tel_inv s =
     (list_all2 (\<lambda>v cur. cur \<noteq> [] \<and> length cur \<le> 24 \<and> last cur = v) (tel_values s) (tl_series s)
      \<and> tl_loading s = (tl_t s = Nul))"

lemma tel_values_series: "tel_values (s\<lparr>tl_series := x\<rparr>) = tel_values s"
  by (simp add: tel_values_def tm_def)

lemma length_tel_values: "length (tel_values s) = 6"
  by (simp add: tel_values_def)

lemma tel_core_loading:
  "tl_loading s = (tl_t s = Nul) \<Longrightarrow> tl_loading (tel_core e s) = (tl_t (tel_core e s) = Nul)"
  by (cases e) (auto simp: Let_def keep_answer_def split: outcome.split answer.split)

lemma telemetry_mount_inv:
  assumes "length (tl_series s) = 6" "tl_loading s = (tl_t s = Nul)"
  shows "tel_inv (fst (telemetry_step TL_mount s))"
  using assms by (simp add: tel_inv_def telemetry_step_def Let_def tel_values_series series_mount length_tel_values)

interpretation telemetry_machine:
  stepper "fst (telemetry_step TL_mount telemetry_start)" "\<lambda>e s. fst (telemetry_step e s)" tel_inv
proof
  show "tel_inv (fst (telemetry_step TL_mount telemetry_start))"
    by (rule telemetry_mount_inv) (simp_all add: telemetry_start_def)
  show "tel_inv (fst (telemetry_step e s))" if "tel_inv s" for e s
  proof (cases "e = TL_mount")
    case True
    have "length (tl_series s) = 6"
      using that by (auto simp: tel_inv_def length_tel_values dest!: list_all2_lengthD)
    moreover have "tl_loading s = (tl_t s = Nul)" using that by (simp add: tel_inv_def)
    ultimately show ?thesis unfolding True by (rule telemetry_mount_inv)
  next
    case False
    with that show ?thesis
      using tel_core_loading [of s e]
      by (simp add: tel_inv_def telemetry_step_def Let_def tel_values_series series_effects_inv length_tel_values)
  qed
qed

text \<open>The meters stay on their scale, whatever the counts.\<close>

lemma worker_share_range: "i < 6 \<Longrightarrow> 10 \<le> max 10 (100 - int i * 14) \<and> max 10 (100 - int i * 14) \<le> 100"
  by auto

lemma telemetry_answers_no_click: "all_clicks (telemetry_view lang s) = []"
  by (simp add: telemetry_view_def Let_def all_clicks_map_Nil tel_bar_def tel_cardHead_def kpiCard_def
      worker_shares_def sparkline_def split_beta shown_def)

end
