(* ===== verification/Onboarding.thy ===== *)
theory Onboarding
  imports Ui_Path
begin

text \<open>
  The onboarding page, app/onboarding/page.tsx: four steps, the last of which connects a
  repository. \<open>b\<close> is the browser, whose session token every render reads.
\<close>

record onboarding =
  ob_name :: jstr
  ob_url :: jstr
  ob_ok :: bool

definition onboarding_start :: onboarding where
  "onboarding_start = \<lparr>ob_name = [], ob_url = [], ob_ok = False\<rparr>"

datatype onboarding_event = B_name jstr | B_url jstr | B_add | B_added "json outcome"

definition onboarding_logged :: "browser \<Rightarrow> bool" where
  "onboarding_logged b = (or_blank (getToken b) \<noteq> [])"

definition onb_addRepo :: "onboarding \<Rightarrow> onboarding \<times> unit cmd list" where
  "onb_addRepo s =
     (if ob_name s = [] \<or> ob_url s = [] then (s, [])
      else (s, [Send POST (u ''/v1/repos'') (Some (JObj [((u ''name''), JStr (ob_name s)), ((u ''clone_url''), JStr (ob_url s))])) ()]))"

definition onb_added :: "json outcome \<Rightarrow> onboarding \<Rightarrow> onboarding" where
  "onb_added r s = (case r of Resolved _ \<Rightarrow> s\<lparr>ob_ok := True\<rparr> | Rejected _ \<Rightarrow> s)"

fun onboarding_step :: "onboarding_event \<Rightarrow> onboarding \<Rightarrow> onboarding \<times> unit cmd list" where
  "onboarding_step (B_name v) s = (s\<lparr>ob_name := v\<rparr>, [])"
| "onboarding_step (B_url v) s = (s\<lparr>ob_url := v\<rparr>, [])"
| "onboarding_step B_add s = onb_addRepo s"
| "onboarding_step (B_added r) s = (onb_added r s, [])"

subsection \<open>The view\<close>

definition onb_Step :: "nat \<Rightarrow> jstr \<Rightarrow> 'e node list \<Rightarrow> bool \<Rightarrow> 'e node" where
  "onb_Step n title children done =
     dv [dv [El ''span'' [Sty ''background'' (if done then (u ''var(--green)'') else (u ''var(--border)''))]
               [Txt (if done then (ux ''{2713}'') else nshow n)],
             El ''b'' [] [Txt title]],
         dv children]"

definition onb_Cmd :: "jstr \<Rightarrow> 'e node" where
  "onb_Cmd s = El ''pre'' [] [Txt s]"

definition onb_account :: "jstr \<Rightarrow> browser \<Rightarrow> onboarding_event node" where
  "onb_account lang b =
     (let t = (\<lambda>p e. useT lang p (Some e)) in
      onb_Step 1 (t (u ''Crie sua conta'') (u ''Create your account''))
        (if onboarding_logged b then [El ''span'' (badge (u ''merged'')) [Txt (t (u ''conectado'') (u ''connected''))]]
         else [Txt (t (u ''Crie a org e entre em'') (u ''Create the org and sign in at'')), Txt (u '' ''),
               El ''a'' [Href (u ''/login'')] [Txt (u ''/login'')], Txt (u ''.'')])
        (onboarding_logged b))"

definition onb_executor :: "jstr \<Rightarrow> onboarding_event node" where
  "onb_executor lang =
     (let t = (\<lambda>p e. useT lang p (Some e)) in
      onb_Step 2 (t (ux ''Deixe o executor rodando (na sua m{e1}quina/VM)'') (u ''Keep the executor running (on your machine/VM)''))
        [Txt (t (ux ''O executor {e9} o data plane local {2014} ele roda os workers de IA. Instale como servi{e7}o de fundo:'')
                (ux ''The executor is the local data plane {2014} it runs the AI workers. Install it as a background service:'')),
         onb_Cmd (ux ''# Linux/macOS (build + registra o servi{e7}o){a}sudo app/deploy/install.sh{a}# ou via Docker (dev):  cd app && make dev''),
         Txt (t (ux ''Ele enrola sozinho no c{e9}rebro por mTLS (CSR assinado pela CA).'')
                (u ''It enrolls into the brain by itself via mTLS (CSR signed by the CA).''))] False)"

definition onb_key :: "jstr \<Rightarrow> onboarding_event node" where
  "onb_key lang =
     (let t = (\<lambda>p e. useT lang p (Some e)) in
      onb_Step 3 (t (ux ''Configure sua chave de IA {2014} local, nunca no c{e9}rebro'') (ux ''Set your AI key {2014} local, never in the brain''))
        [Txt (t (ux ''A chave fica no vault cifrado local via IPC. Ela nunca trafega pela rede nem {e9} digitada aqui:'')
                (u ''The key lives in the local encrypted vault via IPC. It never travels the network nor is typed here:'')),
         onb_Cmd (ux ''VALUE={22}sk-ant-...{22} app/.../executor secret-put anthropic_api_key{a}# (ou: make secret NAME=anthropic_api_key VALUE=sk-ant-...)'')] False)"

definition onb_repository :: "jstr \<Rightarrow> browser \<Rightarrow> onboarding \<Rightarrow> onboarding_event node" where
  "onb_repository lang b s =
     (let t = (\<lambda>p e. useT lang p (Some e)) in
      onb_Step 4 (t (ux ''Conecte um reposit{f3}rio'') (u ''Connect a repository''))
        [dv ([inp (ob_name s) B_name (t (u ''nome'') (u ''name'')), inp (ob_url s) B_url (u ''clone_url (https/ssh/file://)''),
              btn_el B_add (\<not> onboarding_logged b) [Txt (t (u ''conectar'') (u ''connect''))]]
             @ shown (ob_ok s) [El ''span'' (badge (u ''merged'')) [Txt (t (ux ''reposit{f3}rio conectado'') (u ''repository connected''))]])]
        (ob_ok s))"

definition onboarding_view :: "jstr \<Rightarrow> browser \<Rightarrow> onboarding \<Rightarrow> onboarding_event node list" where
  "onboarding_view lang b s =
     (let t = (\<lambda>p e. useT lang p (Some e)) in
      [pageHead lang (Some (ux ''In{ed}cio'')) (u ''Bem-vindo ao apifor.dev'') (Some (u ''4 passos pra primeira tarefa.'')) [],
       onb_account lang b, onb_executor lang, onb_key lang, onb_repository lang b s,
       dv [Txt (t (u ''Pronto! Crie sua primeira tarefa na'') (u ''Done! Create your first task in'')), Txt (u '' ''),
           El ''a'' [Href (u ''/queue'')] [Txt (t (u ''Fila'') (u ''Queue''))], Txt (u '' ''),
           Txt (t (u ''e acompanhe ao vivo no'') (u ''and watch it live in'')), Txt (u '' ''),
           El ''a'' [Href (u ''/live'')] [Txt (u ''Live'')], Txt (u ''. ''),
           Txt (t (u ''Precisa de mais workers/horas? Veja'') (u ''Need more workers/hours? See'')), Txt (u '' ''),
           El ''a'' [Href (u ''/pricing'')] [Txt (t (u ''Planos'') (u ''Plans''))], Txt (u ''.'')]])"

subsection \<open>Facts\<close>

lemma clicks_onb_Step [simp]: "clicks (onb_Step n title cs done) = all_clicks cs"
  by (simp add: onb_Step_def)

lemma is_disabled_badge [simp]: "\<not> is_disabled (badge c)" "attr_clicks (badge c) = []"
  by (simp_all add: badge_def Let_def split_beta)

text \<open>The only click of the page, and only with a session.\<close>

lemma onboarding_clicks:
  "all_clicks (onboarding_view lang b s) = (if onboarding_logged b then [B_add] else [])"
  by (auto simp: onboarding_view_def onb_account_def onb_executor_def onb_key_def onb_repository_def onb_Cmd_def Let_def)

text \<open>A request always names the repository and its address.\<close>

lemma onboarding_sent:
  "Send m p (Some bd) k \<in> set (snd (onboarding_step e s)) \<Longrightarrow>
   e = B_add \<and> ob_name s \<noteq> [] \<and> ob_url s \<noteq> [] \<and> jget (u ''name'') bd = JStr (ob_name s)
   \<and> jget (u ''clone_url'') bd = JStr (ob_url s)"
  by (cases e) (auto simp: onb_addRepo_def split: if_splits)

text \<open>The step is marked done by any answer, a refusal included, and never unmarked.\<close>

lemma onboarding_done_iff:
  "ob_ok (run (\<lambda>e s. fst (onboarding_step e s)) es s) \<longleftrightarrow> ob_ok s \<or> (\<exists>j. B_added (Resolved j) \<in> set es)"
proof (induction es arbitrary: s)
  case (Cons e es)
  show ?case
    by (cases e) (auto simp: Cons onb_addRepo_def onb_added_def split: outcome.split)
qed simp

end
