(* ===== verification/Notifications.thy ===== *)
theory Notifications
  imports Page_Kit
begin

text \<open>
  The notification page, app/notifications/page.tsx: a list pushed by an event stream. A message is
  the \<open>notifications\<close> field of its JSON, or \<open>None\<close> where the handler's \<open>try\<close> gives up (text that does not
  parse, or null). Opening the stream ends the loading.
\<close>

record notice =
  nt_id :: jstr
  nt_type :: jstr
  nt_title :: jstr
  nt_body :: jstr
  nt_link :: jstr
  nt_read :: bool
  nt_date :: jstr

record notices =
  nts_items :: "notice list"
  nts_loading :: bool
  nts_live :: bool

definition notices_start :: notices where
  "notices_start = \<lparr>nts_items = [], nts_loading = True, nts_live = False\<rparr>"

datatype notices_event =
    NT_mount
  | NT_open
  | NT_message "notice list pdata option"
  | NT_unmount
  | NT_mark
  | NT_marked "json outcome"

fun notices_step :: "notices_event \<Rightarrow> notices \<Rightarrow> notices \<times> unit cmd list" where
  "notices_step NT_mount s = (s\<lparr>nts_live := True\<rparr>, [])"
| "notices_step NT_open s = (if nts_live s then s\<lparr>nts_loading := False\<rparr> else s, [])"
| "notices_step (NT_message m) s =
     (if nts_live s then s\<lparr>nts_items := (case m of Some d \<Rightarrow> or_empty d | None \<Rightarrow> nts_items s)\<rparr> else s, [])"
| "notices_step NT_unmount s = (s\<lparr>nts_live := False\<rparr>, [])"
| "notices_step NT_mark s = (s, [Send POST (u ''/v1/notifications'') (Some (JObj [])) ()])"
| "notices_step (NT_marked r) s = (s, [])"

definition notices_stream :: "jstr option \<Rightarrow> jstr" where
  "notices_stream env = sseURL env (u ''/v1/notifications/stream'')"

subsection \<open>The view\<close>

definition notice_tone :: "jstr \<Rightarrow> jstr" where
  "notice_tone t =
     (if t = (u ''merge'') then (u ''merged'') else if t = (u ''fail'') \<or> t = (u ''lease'') then (u ''failed'')
      else if t = (u ''intervention'') then (u ''queued'') else (u ''running''))"

definition unread_notices :: "notices \<Rightarrow> nat" where
  "unread_notices s = length (filter (\<lambda>n. \<not> nt_read n) (nts_items s))"

definition notice_row :: "notice \<Rightarrow> notices_event node" where
  "notice_row n =
     El ''tr'' [Key (nt_id n), Sty ''opacity'' (if nt_read n then (u ''0.55'') else (u ''1''))]
       [td [El ''span'' (badge (notice_tone (nt_type n))) [Txt (nt_type n)]],
        td ((if nt_link n \<noteq> [] then El ''a'' [Href (nt_link n)] [Txt (nt_title n)] else Txt (nt_title n))
            # shown (\<not> nt_read n) [spt (ux ''{25cf}'')]),
        td [Txt (nt_body n)],
        td [spt (nt_date n)],
        td (shown (nt_link n \<noteq> []) [El ''a'' [Href (nt_link n)] [Txt (ux ''abrir {2192}'')]])]"

definition notices_view :: "jstr \<Rightarrow> notices \<Rightarrow> notices_event node list" where
  "notices_view lang s =
     (let t = (\<lambda>p. useT lang p None); items = nts_items s in
      [pageHead lang (Some (ux ''Opera{e7}{e3}o'')) (ux ''Notifica{e7}{f5}es'') (Some (ux ''Eventos do c{e9}rebro em tempo real (SSE).''))
         [btn NT_mark [Txt (t (u ''marcar todas como lidas''))]],
       dv [cardHead lang (ux ''Notifica{e7}{f5}es'')
             [sp [Txt (nshow (unread_notices s)), Txt (ux '' n{e3}o-lida(s) {b7} ''), Txt (nshow (length items)), Txt (u '' total'')]],
           El ''table'' []
             [El ''thead'' [] [El ''tr'' [] [thx (t (u ''Tipo'')), thx (t (ux ''T{ed}tulo'')), thx (t (u ''Detalhe'')), thx (t (u ''Quando'')), El ''th'' [] []]],
              El ''tbody'' []
                (map notice_row items
                 @ shown (items = []) [El ''tr'' [] [td [Txt (t (ux ''nenhuma notifica{e7}{e3}o''))]]])]]])"

subsection \<open>Facts\<close>

text \<open>What the page shows: the last message that parsed since the stream was opened by the mount.\<close>

fun last_notices :: "notice list \<Rightarrow> notices_event list \<Rightarrow> notice list" where
  "last_notices xs [] = xs"
| "last_notices xs (NT_message (Some d) # es) = last_notices (or_empty d) es"
| "last_notices xs (_ # es) = last_notices xs es"

lemma notices_run:
  assumes "NT_unmount \<notin> set es" "nts_live s"
  shows "nts_items (run (\<lambda>e s. fst (notices_step e s)) es s) = last_notices (nts_items s) es"
  using assms
proof (induction "nts_items s" es arbitrary: s rule: last_notices.induct)
  case (1 s)
  then show ?case by simp
next
  case (2 d es s)
  then show ?case by simp
qed simp_all

text \<open>Nothing is heard after the page has gone.\<close>

lemma notices_closed: "\<not> nts_live s \<Longrightarrow> e \<noteq> NT_mount \<Longrightarrow> fst (notices_step e s) = s"
  by (cases e) auto

text \<open>Marking as read changes nothing in the page: the next message of the stream has to.\<close>

lemma marking_waits_for_the_stream:
  "fst (notices_step NT_mark s) = s" "fst (notices_step (NT_marked r) s) = s"
  by simp_all

lemma unread_notices_le: "unread_notices s \<le> length (nts_items s)"
  by (simp add: unread_notices_def)

lemma notice_row_no_click: "clicks (notice_row n) = []"
  by (simp add: notice_row_def badge_def Let_def split_beta)

lemma notices_clicks: "all_clicks (notices_view lang s) = [NT_mark]"
  by (simp add: notices_view_def Let_def cardHead_def all_clicks_map_Nil notice_row_no_click)

end
