(* ===== verification/Audit_Log.thy ===== *)
theory Audit_Log
  imports Page_Kit
begin

text \<open>
  The audit page, app/audit/page.tsx: a polled list and the export, which does not go through the
  API client. A blob is any value; an answer to the export carries its HTTP status beside it.
\<close>

record audit_row =
  au_when :: jstr
  au_actor_type :: jstr
  au_actor :: jstr
  au_action :: jstr
  au_target_type :: jstr
  au_target :: jstr

record audit_page =
  au_rows :: "audit_row list pdata"
  au_loading :: bool

definition audit_start :: audit_page where
  "audit_start = \<lparr>au_rows = Nul, au_loading = True\<rparr>"

datatype audit_event = AU_mount | AU_rows "audit_row list pdata outcome" | AU_export

fun audit_step :: "audit_event \<Rightarrow> audit_page \<Rightarrow> audit_page" where
  "audit_step AU_mount s = s\<lparr>au_loading := loading_effect (au_rows s) (au_loading s)\<rparr>"
| "audit_step (AU_rows r) s =
     (let d = poll_accept r (au_rows s) in s\<lparr>au_rows := d, au_loading := loading_effect d (au_loading s)\<rparr>)"
| "audit_step AU_export s = s"

text \<open>exportCSV: its request, and the file its answer is saved as.\<close>

definition export_request :: "browser \<Rightarrow> request" where
  "export_request b =
     \<lparr>r_method = GET, r_url = (u ''/api/v1/audit/export''),
      r_headers = (if or_blank (getToken b) \<noteq> [] then [((u ''Authorization''), (u ''Bearer '') @ or_blank (getToken b))] else []),
      r_body = None\<rparr>"

definition export_saved :: "(nat \<times> 'b) outcome \<Rightarrow> (jstr \<times> 'b) option" where
  "export_saved r = (case r of Resolved (st, blob) \<Rightarrow> Some ((u ''audit.csv''), blob) | Rejected _ \<Rightarrow> None)"

definition audit_view :: "jstr \<Rightarrow> audit_page \<Rightarrow> audit_event node list" where
  "audit_view lang s =
     (let t = (\<lambda>p. useT lang p None); rows = or_empty (au_rows s) in
      [pageHead lang (Some (u ''Conhecimento & sistema'')) (u ''Auditoria'') (Some (ux ''Quem fez o qu{ea} {2014} server-side.''))
         [btn AU_export [Txt (t (u ''exportar CSV''))]],
       dv [cardHead lang (u ''Trilha de auditoria'') [sp [Txt (nshow (length rows)), Txt (u '' evento(s)'')]],
           El ''table'' []
             [El ''thead'' [] [El ''tr'' [] [thx (t (u ''Quando'')), thx (t (u ''Ator'')), thx (t (ux ''A{e7}{e3}o'')), thx (t (u ''Alvo''))]],
              El ''tbody'' []
                (map (\<lambda>(i, a). trow (nshow i)
                   [td [spt (au_when a)],
                    td [Txt (au_actor_type a), Txt (if au_actor a \<noteq> [] then (u '' '') @ short (au_actor a) 12 else [])],
                    td [spt (au_action a)],
                    td [Txt (au_target_type a), Txt (u '' ''), Txt (au_target a)]]) (enumerate 0 rows)
                 @ shown (rows = []) [El ''tr'' [] [td [Txt (t (u ''nenhum evento de auditoria''))]]])]],
       El ''p'' []
         [Txt (ux ''Registra escritas sens{ed}veis (criar tarefa/repo, trocar plano, adicionar membro, revogar device). Rate limit por plano (Free 60/min {b7} Pro 300 {b7} Team 1000) e m{e9}tricas Prometheus em ''),
          El ''code'' [] [Txt (u ''/metrics'')], Txt (u '' completam o hardening do M6.1.'')]])"

subsection \<open>Facts\<close>

text \<open>
  The export sends the session of the API client but not its workspace, and calls the local address
  even when the client is built for another.
\<close>

lemma export_headers:
  "r_headers (export_request b) = filter (\<lambda>(k, v). k = (u ''Authorization'')) (authHeaders b)"
  by (auto simp: export_request_def authHeaders_def or_blank_def split: option.split)

lemma export_address:
  "r_url (export_request b) = API env (u ''/v1/audit/export'') \<longleftrightarrow> or_else env (u ''/api'') = (u ''/api'')"
proof -
  have "r_url (export_request b) = (u ''/api'') @ (u ''/v1/audit/export'')" by (simp add: export_request_def u_def)
  moreover have "API env p = or_else env (u ''/api'') @ p" for p
    by (simp add: API_def api_base_def or_else_def split: option.split)
  ultimately show ?thesis by (auto dest: sym)
qed

text \<open>An error page of the server is saved as the file.\<close>

lemma export_of_a_refusal: "export_saved (Resolved (st, blob)) = Some ((u ''audit.csv''), blob)"
  by (simp add: export_saved_def)

definition audit_inv :: "audit_page \<Rightarrow> bool" where
  "audit_inv s = (au_rows s \<noteq> Undef)"

interpretation audit_machine: stepper audit_start audit_step audit_inv
proof
  show "audit_inv audit_start" by (simp add: audit_inv_def audit_start_def)
  show "audit_inv (audit_step e s)" if "audit_inv s" for e s
    using that by (cases e) (auto simp: audit_inv_def Let_def poll_accept_defined)
qed

lemma audit_clicks: "all_clicks (audit_view lang s) = [AU_export]"
  by (simp add: audit_view_def Let_def cardHead_def all_clicks_map_Nil split_beta)

end
