(* ===== verification/Pricing.thy ===== *)
theory Pricing
  imports Usage
begin

text \<open>
  The plan page, app/pricing/page.tsx: the polled usage, the four plans of the source and the
  subscription button. The usage is null before its first answer (\<open>Nul\<close>), an object without the
  fields (\<open>Undef\<close>), or the data.
\<close>

record price_plan =
  pp_key :: jstr
  pp_name :: jstr
  pp_price :: jstr
  pp_highlight :: bool
  pp_feats :: "jstr list"

definition PLANS :: "price_plan list" where
  "PLANS =
    [\<lparr>pp_key = (u ''free''), pp_name = (u ''Free''), pp_price = (u ''R$0''), pp_highlight = False,
      pp_feats = [(u ''1 worker''), (u ''lease 4h''), (u ''36h/semana''), (ux ''1 reposit{f3}rio''), (u ''comunidade'')]\<rparr>,
     \<lparr>pp_key = (u ''pro''), pp_name = (u ''Pro''), pp_price = (ux ''R$99/m{ea}s''), pp_highlight = True,
      pp_feats = [(ux ''at{e9} 4 workers''), (u ''lease 24h''), (u ''200h/semana''), (u ''repos ilimitados''), (u ''rate 300/min''), (u ''suporte e-mail'')]\<rparr>,
     \<lparr>pp_key = (u ''team''), pp_name = (u ''Team''), pp_price = (ux ''R$399/m{ea}s''), pp_highlight = False,
      pp_feats = [(ux ''at{e9} 16 workers''), (u ''lease 72h''), (u ''1000h/semana''), (u ''RBAC + auditoria''), (u ''rate 1000/min''), (u ''SSO (em breve)'')]\<rparr>,
     \<lparr>pp_key = (u ''enterprise''), pp_name = (u ''Enterprise''), pp_price = (u ''sob consulta''), pp_highlight = False,
      pp_feats = [(u ''workers ilimitados''), (u ''sem cap de horas''), (u ''cloud workers''), (u ''SSO/SAML''), (u ''RLS dedicada''), (u ''SLA + suporte'')]\<rparr>]"

record pricing =
  pr_u :: "plan_usage pdata"
  pr_loading :: bool

definition pricing_start :: pricing where
  "pricing_start = \<lparr>pr_u = Nul, pr_loading = True\<rparr>"

datatype pricing_tag = Price_usage | Price_checkout

datatype pricing_event =
    Z_mount
  | Z_tick
  | Z_usage "plan_usage answer outcome"
  | Z_sign jstr
  | Z_checkout "json outcome"

definition price_load :: "pricing_tag cmd list" where
  "price_load = [Send GET (u ''/v1/usage'') None Price_usage]"

definition assinar :: "jstr \<Rightarrow> pricing_tag cmd list" where
  "assinar plan =
     (if plan = (u ''free'') then []
      else if plan = (u ''enterprise'') then [GoTo (u ''mailto:vendas@apifor.dev?subject=Enterprise'')]
      else [Send POST (u ''/v1/billing/checkout'') (Some (JObj [((u ''plan''), JStr plan)])) Price_checkout])"

definition checkout_answer :: "json outcome \<Rightarrow> pricing_tag cmd list" where
  "checkout_answer r =
     (case r of
        Resolved j \<Rightarrow>
          (if truthy (jget (u ''url'') j) then [GoTo (jtext_or [] (jget (u ''url'') j))]
           else [Alert (ux ''Checkout indispon{ed}vel (configure o Stripe no c{e9}rebro).'')])
      | Rejected _ \<Rightarrow> [])"

fun pricing_step :: "pricing_event \<Rightarrow> pricing \<Rightarrow> pricing \<times> pricing_tag cmd list" where
  "pricing_step Z_mount s = (s\<lparr>pr_loading := (if pr_u s \<noteq> Nul then False else pr_loading s)\<rparr>, price_load)"
| "pricing_step Z_tick s = (s, price_load)"
| "pricing_step (Z_usage r) s =
     (let d = keep_answer r (pr_u s) in
      (s\<lparr>pr_u := d, pr_loading := (if d \<noteq> Nul then False else pr_loading s)\<rparr>, []))"
| "pricing_step (Z_sign k) s = (s, assinar k)"
| "pricing_step (Z_checkout r) s = (s, checkout_answer r)"

subsection \<open>Limits\<close>

definition price_cur :: "pricing \<Rightarrow> jstr option" where
  "price_cur s = data_field None (\<lambda>x. Some (uz_plan x)) (pr_u s)"

definition price_wPct :: "pricing \<Rightarrow> rat" where
  "price_wPct s =
     data_field 0 (\<lambda>x. case uz_max x of Some m \<Rightarrow> (if m \<noteq> 0 then pct_of (uz_active x) m else 0) | None \<Rightarrow> 0) (pr_u s)"

definition price_hPct :: "pricing \<Rightarrow> rat" where
  "price_hPct s = data_field 0 (\<lambda>x. if uz_cap x \<noteq> 0 then pct_of (uz_used x) (uz_cap x) else 0) (pr_u s)"

definition price_fmtH :: "nat \<Rightarrow> jstr" where
  "price_fmtH s = (if s \<ge> 3600 then to_fixed 1 (jdiv (of_nat s) 3600) @ (u ''h'') else nshow s @ (u ''s''))"

subsection \<open>The view\<close>

definition price_bar :: "jstr \<Rightarrow> jstr \<Rightarrow> rat \<Rightarrow> jstr \<Rightarrow> 'e node" where
  "price_bar label value pct tone =
     dv [dv [spt label, spt value],
         dv [El ''div'' [StyPct ''width'' (max 0 (min 100 pct)), Sty ''background'' (tone_var tone)] []]]"

definition price_card :: "jstr \<Rightarrow> jstr option \<Rightarrow> price_plan \<Rightarrow> pricing_event node" where
  "price_card lang cur p =
     (let t = (\<lambda>p e. useT lang p (Some e)); isCur = (cur = Some (pp_key p)) in
      El ''div'' [Key (pp_key p), Sty ''border'' (if isCur then (u ''1px solid var(--accent)'') else (u ''1px solid var(--border)''))]
        [dv ([El ''h2'' [Sty ''color'' (if isCur then (u ''var(--accent)'') else (u ''var(--ink)''))] [Txt (pp_name p)]]
             @ (if isCur then [spt (t (u ''ATUAL'') (u ''CURRENT''))] else shown (pp_highlight p) [spt (t (u ''popular'') (u ''popular''))])),
         dvt (pp_price p),
         El ''ul'' [] (map (\<lambda>f. El ''li'' [Key f] [Txt f]) (pp_feats p)),
         btn_el (Z_sign (pp_key p)) isCur
           [Txt (if isCur then t (u ''plano atual'') (u ''current plan'')
                 else if pp_key p = (u ''enterprise'') then t (u ''falar com vendas'') (u ''contact sales'')
                 else t (u ''assinar'') (u ''subscribe'') @ (u '' '') @ pp_name p)]])"

definition pricing_view :: "jstr \<Rightarrow> pricing \<Rightarrow> pricing_event node list" where
  "pricing_view lang s =
     (let t = (\<lambda>p e. useT lang p (Some e)); cur = price_cur s in
      [pageHead lang (Some (ux ''Conta & cobran{e7}a'')) (u ''Planos'') (Some (u ''Gerencie seu plano e limites do pipeline.'')) [],
       dv [dv [dv [spt (t (u ''Plano atual'') (u ''Current plan'')),
                   El ''span'' (badge (if or_blank cur \<noteq> [] \<and> cur \<noteq> Some (u ''free'') then (u ''open'') else (u ''idle'')))
                     [Txt (if cur = Some (u ''free'') then (u ''free'') else t (u ''Ativo'') (u ''Active''))]],
               dvt (or_else cur (ux ''{2014}'')),
               dvt (t (u ''Troque de plano nos cards abaixo (Stripe Checkout).'') (u ''Switch plans in the cards below (Stripe Checkout).''))],
           dv [spt (t (u ''Neste ciclo'') (u ''This cycle'')),
               price_bar (t (ux ''Workers simult{e2}neos'') (u ''Concurrent workers''))
                 (nshow (data_field 0 uz_active (pr_u s)) @ (u '' / '')
                  @ (case data_field None uz_max (pr_u s) of Some m \<Rightarrow> nshow m | None \<Rightarrow> (ux ''{221e}''))) (price_wPct s) (u ''green''),
               price_bar (t (u ''Worker-hours (semana)'') (u ''Worker-hours (week)''))
                 (price_fmtH (data_field 0 uz_used (pr_u s)) @ (u '' / '')
                  @ (if data_field 0 uz_cap (pr_u s) \<noteq> 0 then price_fmtH (data_field 0 uz_cap (pr_u s)) else (ux ''{221e}'')))
                 (price_hPct s) (u ''accent'')]],
       dvt (t (ux ''Planos dispon{ed}veis'') (u ''Available plans'')),
       dv (map (price_card lang cur) PLANS),
       El ''p'' [] [Txt (ux ''A cobran{e7}a {e9} por assinatura (Stripe). O uso de IA roda ''), El ''b'' [] [Txt (u ''local com a sua chave'')],
         Txt (ux '' {2014} a chave nunca vai ao c{e9}rebro. Cancele quando quiser; ao vencer, cai pro Free ap{f3}s a gra{e7}a.'')]])"

subsection \<open>Facts\<close>

lemma price_formats_agree: "price_fmtH = fmtH"
  by (simp add: price_fmtH_def fmtH_def fun_eq_iff)

lemma clicks_price_card [simp]:
  "clicks (price_card lang cur p) = (if cur = Some (pp_key p) then [] else [Z_sign (pp_key p)])"
  by (simp add: price_card_def Let_def shown_def all_clicks_map_Nil)

text \<open>The plans on offer are those that are not the current one.\<close>

lemma plans_on_offer:
  "all_clicks (pricing_view lang s) =
     map Z_sign (filter (\<lambda>k. price_cur s \<noteq> Some k) [(u ''free''), (u ''pro''), (u ''team''), (u ''enterprise'')])"
  by (simp add: pricing_view_def Let_def price_bar_def PLANS_def badge_def split_beta)

text \<open>A click sends at most one request, a checkout of a paid plan that is not the current one.\<close>

lemma checkout_of_another_plan:
  assumes "e \<in> set (all_clicks (pricing_view lang s))" "sends (snd (pricing_step e s)) \<noteq> []"
  shows "\<exists>k \<in> {(u ''pro''), (u ''team'')}. price_cur s \<noteq> Some k \<and>
    sends (snd (pricing_step e s)) = [(POST, (u ''/v1/billing/checkout''), Some (JObj [((u ''plan''), JStr k)]), Price_checkout)]"
  using assms by (auto simp: plans_on_offer assinar_def split: if_splits)

text \<open>The free plan can be offered but its button does nothing.\<close>

lemma free_does_nothing: "pricing_step (Z_sign (u ''free'')) s = (s, [])"
  by (simp add: assinar_def)

definition pricing_inv :: "pricing \<Rightarrow> bool" where
  "pricing_inv s = (pr_loading s = (pr_u s = Nul))"

interpretation pricing_machine: stepper pricing_start "\<lambda>e s. fst (pricing_step e s)" pricing_inv
proof
  show "pricing_inv pricing_start" by (simp add: pricing_inv_def pricing_start_def)
  show "pricing_inv (fst (pricing_step e s))" if "pricing_inv s" for e s
    using that by (cases e) (auto simp: pricing_inv_def Let_def keep_answer_def split: outcome.split answer.split)
qed

lemma price_pct_nonneg: "0 \<le> price_wPct s" "0 \<le> price_hPct s"
  by (auto simp: price_wPct_def price_hPct_def data_field_def pct_of_nonneg split: pdata.split option.split)

text \<open>
  What the plan page can make a user send is a checkout, and only of a plan with a price that
  is not the current one.
\<close>

lemma checkout_only_of_another_plan:
  "(\<exists>e \<in> set (all_clicks (pricing_view lang s)). r \<in> set (sends (snd (pricing_step e s))))
     \<longleftrightarrow> (\<exists>k \<in> {(u ''pro''), (u ''team'')}. price_cur s \<noteq> Some k
          \<and> r = (POST, (u ''/v1/billing/checkout''), Some (JObj [((u ''plan''), JStr k)]), Price_checkout))"
  by (auto simp: plans_on_offer assinar_def)

end
