(* ===== verification/Web_Api.thy ===== *)
theory Web_Api
  imports Page_Kit
begin

text \<open>
  The page of the API, app/web/page.tsx: the base address, set by an effect from the build-time
  address or the origin of the window, and the table of the main endpoints.
\<close>

definition web_base_start :: jstr where "web_base_start = (u ''/api'')"

definition web_mount :: "jstr option \<Rightarrow> jstr \<Rightarrow> jstr" where
  "web_mount env origin = or_else env (origin @ (u ''/api''))"

definition web_endpoints :: "jstr \<Rightarrow> (jstr \<times> jstr \<times> jstr) list" where
  "web_endpoints lang =
     (let t = (\<lambda>p e. useT lang p (Some e)) in
      [((u ''POST''), (u ''/v1/auth/login''), t (u ''obter token JWT'') (u ''get JWT token'')),
       ((u ''GET''), (u ''/v1/tasks''), t (u ''listar tarefas'') (u ''list tasks'')),
       ((u ''POST''), (u ''/v1/tasks''), t (ux ''criar tarefa {2192} planejar'') (ux ''create task {2192} plan'')),
       ((u ''GET''), (u ''/v1/prs''), t (u ''pull requests + gates'') (u ''pull requests + gates'')),
       ((u ''GET''), (u ''/v1/workers/stream''), t (ux ''SSE {2014} workers ao vivo'') (ux ''SSE {2014} live workers'')),
       ((u ''POST''), (u ''/v1/billing/webhook''), t (u ''webhook Stripe (HMAC)'') (u ''Stripe webhook (HMAC)'')),
       ((u ''GET''), (u ''/metrics''), t (ux ''m{e9}tricas Prometheus'') (u ''Prometheus metrics''))])"

definition web_view :: "jstr \<Rightarrow> jstr \<Rightarrow> 'e node list" where
  "web_view lang base =
     (let t = (\<lambda>p e. useT lang p (Some e)) in
      [pageHead lang (Some (u ''Sistema'')) (u ''Web & API'')
         (Some (useT lang (ux ''Acesso program{e1}tico ao control plane (REST + SSE).'') None)) [],
       dv [cardHead lang (u ''Base da API'') [], dv [spt (u ''base url''), El ''br'' [] [], spt base]],
       dv [cardHead lang (u ''Endpoints principais'') [],
           El ''table'' []
             [El ''thead'' [] [El ''tr'' [] [thx (t (ux ''M{e9}todo'') (u ''Method'')), thx (t (u ''Rota'') (u ''Route'')), thx (t (ux ''Descri{e7}{e3}o'') (u ''Description''))]],
              El ''tbody'' [] (map (\<lambda>(m, p, d). trow p
                [td [El ''span'' [Sty ''color'' (if m = (u ''GET'') then (u ''var(--blue)'') else (u ''var(--green)''))] [Txt m]],
                 td [spt p], td [Txt d]]) (web_endpoints lang))]],
       dv [Txt (t (ux ''Autentique com Authorization: Bearer <token> (de /v1/auth/login). O acesso {e9} isolado por org (RBAC + RLS server-side). Em produ{e7}{e3}o, ligue REQUIRE_AUTH=true e sirva o REST sobre TLS (REST_TLS=true). Webhooks do Stripe s{e3}o verificados por HMAC.'')
                  (u ''Authenticate with Authorization: Bearer <token> (from /v1/auth/login). Access is org-isolated (server-side RBAC + RLS). In production, enable REQUIRE_AUTH=true and serve REST over TLS (REST_TLS=true). Stripe webhooks are verified by HMAC.''))]])"

text \<open>With a build-time address the page shows the address the API client really calls.\<close>

lemma web_base_agrees: "env = Some s \<Longrightarrow> s \<noteq> [] \<Longrightarrow> API env p = web_mount env origin @ p"
  by (simp add: API_def api_base_def web_mount_def or_else_def)

lemma web_base_local: "or_blank env = [] \<Longrightarrow> web_mount env origin = origin @ API env []"
  by (auto simp: API_def api_base_def web_mount_def or_else_def or_blank_def split: option.splits)

text \<open>The keys of the table repeat: two endpoints share their route.\<close>

lemma web_routes_repeat: "\<not> distinct (map (\<lambda>(m, p, d). p) (web_endpoints lang))"
  by (simp add: web_endpoints_def Let_def)

lemma web_no_click: "all_clicks (web_view lang base) = []"
  by (simp add: web_view_def Let_def cardHead_def all_clicks_map_Nil split_beta)

end
