(* ===== verification/Help_Page.thy ===== *)
theory Help_Page
  imports Ui_Path
begin

text \<open>
  The help page, app/ajuda/page.tsx: the searchable questions, the status of the components and the
  tickets (constants of the source), and the ticket dialog, whose submission asks for the profile
  and drops what was typed. \<open>lc\<close> is toLowerCase.
\<close>

definition FAQS :: "(jstr \<times> jstr) list" where
  "FAQS =
    [((ux ''Como o apifor.dev protege meu c{f3}digo?''), (ux ''C{f3}digo e segredos ficam no seu executor local (vault cifrado via IPC). O c{e9}rebro s{f3} recebe metadados: plano estruturado, branch e URL do PR {2014} nunca o c{f3}digo-fonte.'')),
     ((u ''O que acontece se o executor ficar offline?''), (u ''Workers em andamento concluem o ciclo atual e pausam. Ao voltar, eles retomam automaticamente via heartbeat mTLS. Tarefas pendentes ficam na fila.'')),
     ((ux ''Posso usar minha pr{f3}pria chave de IA?''), (ux ''Sim. Rode make secret NAME=anthropic_api_key VALUE=sk-ant-{2026} para armazenar no vault local. A chave nunca trafega pelo c{e9}rebro.'')),
     ((ux ''Como conectar um reposit{f3}rio?''), (ux ''Acesse Configura{e7}{e3}o {2192} Reposit{f3}rios, clique em Adicionar repo e siga as instru{e7}{f5}es para instalar o GitHub App ou configurar o webhook manual.'')),
     ((u ''Como cancelar a assinatura?''), (ux ''Em Assinatura, clique em Cancelar plano. O acesso continua at{e9} o fim do per{ed}odo pago. Seus dados s{e3}o mantidos por 30 dias ap{f3}s o cancelamento.'')),
     ((ux ''Quantos reposit{f3}rios posso conectar?''), (ux ''No plano Free: 1 reposit{f3}rio e at{e9} 3 workers simult{e2}neos. No Pro: ilimitado. Veja a tabela completa em Assinatura.'')),
     ((ux ''O que {e9} o kill-switch de dispositivos?''), (ux ''Em Uso {2192} Dispositivos voc{ea} pode revogar certificados mTLS de qualquer executor imediatamente. {da}til se um worker for comprometido ou descartado.'')),
     ((ux ''Como exportar os dados da minha organiza{e7}{e3}o?''), (ux ''Acesse Conta {2192} Exportar dados (dispon{ed}vel no plano Team e acima). Gera um ZIP com tarefas, PRs e logs em formato JSON.''))]"

definition STATUS_COMPS :: "(jstr \<times> jstr) list" where
  "STATUS_COMPS = map (\<lambda>n. (n, (u ''Operacional''))) [(u ''API REST''), (u ''Workers''), (u ''Webhooks''), (u ''Banco de dados''), (u ''CDN / Assets'')]"

definition STATE_COLOR :: "(jstr \<times> jstr) list" where
  "STATE_COLOR = [((u ''Operacional''), (u ''var(--green)'')), ((u ''Degradado''), (u ''var(--orange)'')), ((ux ''Interrup{e7}{e3}o''), (u ''var(--red)''))]"

record ticket =
  tk_id :: jstr
  tk_subject :: jstr
  tk_cat :: jstr
  tk_prio :: jstr
  tk_prioColor :: jstr
  tk_status :: jstr
  tk_color :: jstr
  tk_bg :: jstr
  tk_date :: jstr

definition MOCK_TICKETS :: "ticket list" where
  "MOCK_TICKETS =
    [\<lparr>tk_id = (u ''#1042''), tk_subject = (ux ''Worker n{e3}o retoma ap{f3}s reinicializa{e7}{e3}o do servidor''), tk_cat = (u ''Executor''), tk_prio = (u ''Alta''),
      tk_prioColor = (u ''var(--red)''), tk_status = (u ''Aberto''), tk_color = (u ''var(--accent)''), tk_bg = (u ''var(--accent-tint)''), tk_date = (u ''28/jun/2026'')\<rparr>,
     \<lparr>tk_id = (u ''#1038''), tk_subject = (ux ''Webhook do GitHub n{e3}o dispara em PRs de fork''), tk_cat = (ux ''Integra{e7}{e3}o''), tk_prio = (ux ''M{e9}dia''),
      tk_prioColor = (u ''var(--orange)''), tk_status = (ux ''Em an{e1}lise''), tk_color = (u ''var(--blue)''), tk_bg = (u ''rgba(88,166,255,.1)''), tk_date = (u ''25/jun/2026'')\<rparr>,
     \<lparr>tk_id = (u ''#1031''), tk_subject = (u ''Exportar dados retorna 403 no plano Pro''), tk_cat = (u ''Faturamento''), tk_prio = (ux ''M{e9}dia''),
      tk_prioColor = (u ''var(--orange)''), tk_status = (u ''Resolvido''), tk_color = (u ''var(--green)''), tk_bg = (u ''var(--green-tint)''), tk_date = (u ''19/jun/2026'')\<rparr>]"

definition TICKET_CATS :: "jstr list" where
  "TICKET_CATS = [(u ''Executor''), (ux ''Integra{e7}{e3}o''), (u ''Faturamento''), (u ''API''), (u ''Outro'')]"

definition QUICK_LINKS :: "(jstr \<times> jstr \<times> jstr \<times> jstr \<times> jstr \<times> jstr) list" where
  "QUICK_LINKS =
    [((ux ''Documenta{e7}{e3}o''), (u ''Documentation''), (u ''Guias de setup e conceitos''), (u ''Setup guides and concepts''), (u ''var(--accent)''), (u ''var(--accent-tint)'')),
     ((ux ''Refer{ea}ncia da API''), (u ''API Reference''), (u ''Endpoints e SDKs''), (u ''Endpoints and SDKs''), (u ''var(--blue)''), (u ''rgba(88,166,255,.12)'')),
     ((ux ''Status do servi{e7}o''), (u ''Service status''), (u ''Disponibilidade ao vivo''), (u ''Live availability''), (u ''var(--green)''), (u ''var(--green-tint)'')),
     ((u ''Comunidade''), (u ''Community''), (ux ''Discord e f{f3}rum''), (u ''Discord and forum''), (u ''var(--dim)''), (u ''var(--elev)''))]"

subsection \<open>State and handlers\<close>

record ticket_form =
  tf_subject :: jstr
  tf_cat :: jstr
  tf_prio :: jstr
  tf_msg :: jstr

definition TICKET_FORM :: ticket_form where
  "TICKET_FORM = \<lparr>tf_subject = [], tf_cat = (u ''Executor''), tf_prio = (ux ''M{e9}dia''), tf_msg = []\<rparr>"

record help_page =
  hp_q :: jstr
  hp_open :: bool
  hp_form :: ticket_form
  hp_sending :: bool

definition help_start :: help_page where
  "help_start = \<lparr>hp_q = [], hp_open = False, hp_form = TICKET_FORM, hp_sending = False\<rparr>"

datatype help_event =
    J_q jstr
  | J_open
  | J_close
  | J_subject jstr
  | J_cat jstr
  | J_prio jstr
  | J_msg jstr
  | J_submit
  | J_answered "json outcome"

definition submitTicket :: "help_page \<Rightarrow> help_page \<times> unit cmd list" where
  "submitTicket s =
     (if tf_subject (hp_form s) = [] \<or> tf_msg (hp_form s) = [] then (s, [])
      else (s\<lparr>hp_sending := True\<rparr>, [Send GET (u ''/v1/me'') None ()]))"

fun help_step :: "help_event \<Rightarrow> help_page \<Rightarrow> help_page \<times> unit cmd list" where
  "help_step (J_q v) s = (s\<lparr>hp_q := v\<rparr>, [])"
| "help_step J_open s = (s\<lparr>hp_open := True\<rparr>, [])"
| "help_step J_close s = (s\<lparr>hp_open := False\<rparr>, [])"
| "help_step (J_subject v) s = (s\<lparr>hp_form := (hp_form s)\<lparr>tf_subject := v\<rparr>\<rparr>, [])"
| "help_step (J_cat v) s = (s\<lparr>hp_form := (hp_form s)\<lparr>tf_cat := v\<rparr>\<rparr>, [])"
| "help_step (J_prio v) s = (s\<lparr>hp_form := (hp_form s)\<lparr>tf_prio := v\<rparr>\<rparr>, [])"
| "help_step (J_msg v) s = (s\<lparr>hp_form := (hp_form s)\<lparr>tf_msg := v\<rparr>\<rparr>, [])"
| "help_step J_submit s = submitTicket s"
| "help_step (J_answered r) s = (s\<lparr>hp_sending := False, hp_open := False, hp_form := TICKET_FORM\<rparr>, [])"

definition faqsFiltered :: "(jstr \<Rightarrow> jstr) \<Rightarrow> jstr \<Rightarrow> (jstr \<times> jstr) list" where
  "faqsFiltered lc q =
     filter (\<lambda>(fq, fa). q = [] \<or> contains (lc fq) (lc q) \<or> contains (lc fa) (lc q)) FAQS"

definition overallOk :: "(jstr \<times> jstr) list \<Rightarrow> bool" where
  "overallOk comps = list_all (\<lambda>(n, st). st = (u ''Operacional'')) comps"

definition cat_en :: "jstr \<Rightarrow> jstr" where
  "cat_en c = (if c = (ux ''Integra{e7}{e3}o'') then (u ''Integration'') else if c = (u ''Faturamento'') then (u ''Billing'')
     else if c = (u ''Outro'') then (u ''Other'') else c)"

definition prio_en :: "jstr \<Rightarrow> jstr" where
  "prio_en p = (if p = (u ''Alta'') then (u ''High'') else if p = (ux ''M{e9}dia'') then (u ''Medium'') else if p = (u ''Baixa'') then (u ''Low'')
     else if p = (ux ''Cr{ed}tica'') then (u ''Critical'') else p)"

definition status_en :: "jstr \<Rightarrow> jstr" where
  "status_en s = (if s = (u ''Aberto'') then (u ''Open'') else if s = (ux ''Em an{e1}lise'') then (u ''In review'')
     else if s = (u ''Resolvido'') then (u ''Resolved'') else s)"

subsection \<open>The view\<close>

definition quick_links :: "jstr \<Rightarrow> help_event node" where
  "quick_links lang =
     dv (map (\<lambda>(label, labelEn, sub, subEn, color, bg). El ''button'' [Key label]
       [El ''span'' [Sty ''background'' bg, Sty ''color'' color] [svg],
        sp [spt (useT lang label (Some labelEn)), spt (useT lang sub (Some subEn))]]) QUICK_LINKS)"

definition faq_card :: "(jstr \<Rightarrow> jstr) \<Rightarrow> jstr \<Rightarrow> jstr \<Rightarrow> help_event node" where
  "faq_card lc lang q =
     (let fs = faqsFiltered lc q in
      dv [dvt (useT lang (u ''Perguntas frequentes'') (Some (u ''Frequently asked questions''))),
          dv (map (\<lambda>(fq, fa). El ''div'' [Key fq] [sp [spt (ux ''{203a}''), Txt (useT lang fq None)], spt (useT lang fa None)]) fs
              @ shown (fs = []) [dvt (useT lang (ux ''Nenhuma pergunta corresponde {e0} busca.'') (Some (u ''No questions match your search.'')))])])"

definition status_card :: "jstr \<Rightarrow> help_event node" where
  "status_card lang =
     (let t = (\<lambda>p e. useT lang p (Some e)); ok = overallOk STATUS_COMPS in
      dv [dv [El ''span'' [Sty ''background'' (if ok then (u ''var(--green)'') else (u ''var(--orange)''))] [],
              spt (if ok then t (u ''Todos os sistemas operacionais'') (u ''All systems operational'')
                   else t (ux ''Degrada{e7}{e3}o parcial'') (u ''Partial degradation''))],
          dv (map (\<lambda>(n, st). El ''div'' [Key n]
            [El ''span'' [Sty ''background'' (lookup_or (u ''var(--mute)'') STATE_COLOR st)] [], spt n,
             El ''span'' [Sty ''color'' (lookup_or (u ''var(--mute)'') STATE_COLOR st)]
               [Txt (t st (if st = (u ''Operacional'') then (u ''Operational'') else if st = (u ''Degradado'') then (u ''Degraded'') else (u ''Outage'')))]])
            STATUS_COMPS)])"

definition ticket_row :: "jstr \<Rightarrow> ticket \<Rightarrow> help_event node" where
  "ticket_row lang k =
     (let t = (\<lambda>p e. useT lang p (Some e)) in
      El ''div'' [Key (tk_id k)]
        [spt (tk_id k), spt (tk_subject k), spt (t (tk_cat k) (cat_en (tk_cat k))),
         El ''span'' [Sty ''color'' (tk_prioColor k)] [Txt (t (tk_prio k) (prio_en (tk_prio k)))],
         El ''span'' [Sty ''color'' (tk_color k), Sty ''background'' (tk_bg k)]
           [sp [], Txt (t (tk_status k) (status_en (tk_status k)))],
         spt (tk_date k)])"

definition send_off :: "help_page \<Rightarrow> bool" where
  "send_off s = (hp_sending s \<or> tf_subject (hp_form s) = [] \<or> tf_msg (hp_form s) = [])"

definition ticket_modal :: "jstr \<Rightarrow> help_page \<Rightarrow> help_event node" where
  "ticket_modal lang s =
     (let t = (\<lambda>p e. useT lang p (Some e)); f = hp_form s in
      modal lang (t (u ''Abrir chamado'') (u ''Open ticket'')) J_close
        [dv [El ''label'' [] [spt (t (u ''Assunto'') (u ''Subject'')),
               inp (tf_subject f) J_subject (t (ux ''Descreva o problema brevemente{2026}'') (ux ''Briefly describe the issue{2026}''))],
             dv [El ''label'' [] [spt (t (u ''Categoria'') (u ''Category'')),
                   sel_el (tf_cat f) J_cat (map (\<lambda>c. El ''option'' [Key c, Value c] [Txt (t c (cat_en c))]) TICKET_CATS)],
                 El ''label'' [] [spt (t (u ''Prioridade'') (u ''Priority'')),
                   sel_el (tf_prio f) J_prio
                     (map (\<lambda>p. El ''option'' [Key p, Value p] [Txt (t p (prio_en p))]) [(u ''Baixa''), (ux ''M{e9}dia''), (u ''Alta''), (ux ''Cr{ed}tica'')])]],
             El ''label'' [] [spt (t (u ''Mensagem'') (u ''Message'')),
               El ''textarea'' [Value (tf_msg f), OnInput J_msg,
                 Placeholder (t (ux ''Descreva o problema com detalhes: passos para reproduzir, mensagens de erro, logs relevantes{2026}'')
                                (ux ''Describe the issue in detail: steps to reproduce, error messages, relevant logs{2026}''))] []]]]
        (Some [btn J_close [Txt (t (u ''Cancelar'') (u ''Cancel''))],
               El ''button'' [OnClick J_submit, Disabled (send_off s), Sty ''opacity'' (if send_off s then (u ''.5'') else (u ''1''))]
                 [Txt (if hp_sending s then t (ux ''Enviando{2026}'') (ux ''Sending{2026}'') else t (u ''Enviar chamado'') (u ''Send ticket''))]]))"

definition help_view :: "(jstr \<Rightarrow> jstr) \<Rightarrow> jstr \<Rightarrow> help_page \<Rightarrow> help_event node list" where
  "help_view lc lang s =
     (let t = (\<lambda>p e. useT lang p (Some e)) in
      [pageHead lang (Some (t (u ''Suporte'') (u ''Support''))) (t (u ''Ajuda'') (u ''Help''))
         (Some (t (ux ''Documenta{e7}{e3}o, status do servi{e7}o e canais de suporte.'') (u ''Documentation, service status and support channels.''))) [],
       dv [dv [svg, inp (hp_q s) J_q (t (u ''Como podemos ajudar?'') (u ''How can we help?''))],
           quick_links lang,
           dv [faq_card lc lang (hp_q s),
               dv [status_card lang,
                   dv [spt (t (u ''Ainda precisa de ajuda?'') (u ''Still need help?'')),
                       spt (t (ux ''Suporte priorit{e1}rio incluso no plano Pro {b7} resposta em at{e9} 4 h {fa}teis.'')
                              (ux ''Priority support included in the Pro plan {b7} response within 4 business hours.'')),
                       btn J_open [Txt (t (u ''Abrir chamado'') (u ''Open ticket''))]]]],
           dv ([dv [dv [spt (t (u ''Meus chamados'') (u ''My tickets'')), spt (nshow (length MOCK_TICKETS))],
                    btn J_open [svg, Txt (t (u ''Novo chamado'') (u ''New ticket''))]]]
               @ map (ticket_row lang) MOCK_TICKETS
               @ shown (MOCK_TICKETS = []) [dvt (t (u ''Nenhum chamado encontrado.'') (u ''No tickets found.''))])]]
      @ shown (hp_open s) [ticket_modal lang s])"

subsection \<open>Facts\<close>

lemma faqs_all: "faqsFiltered lc [] = FAQS"
  by (simp add: faqsFiltered_def)

lemma faqs_subset: "set (faqsFiltered lc q) \<subseteq> set FAQS"
  by (auto simp: faqsFiltered_def)

lemma faq_found: "(fq, fa) \<in> set FAQS \<Longrightarrow> (fq, fa) \<in> set (faqsFiltered lc fq)"
  by (simp add: faqsFiltered_def)

text \<open>The status is a constant of the source: always green.\<close>

lemma status_is_constant: "overallOk STATUS_COMPS"
  by (simp add: overallOk_def STATUS_COMPS_def)

text \<open>Whatever is typed, no request of the page has a body: the ticket stays in the browser.\<close>

lemma ticket_never_sent:
  "(m, p, bd, k) \<in> set (sends (snd (help_step e s))) \<Longrightarrow> m = GET \<and> p = (u ''/v1/me'') \<and> bd = None"
  by (cases e) (auto simp: submitTicket_def split: if_splits)

text \<open>Any answer, a network failure included, closes the dialog and clears the form.\<close>

lemma ticket_dropped: "hp_form (fst (help_step (J_answered r) s)) = TICKET_FORM \<and> \<not> hp_open (fst (help_step (J_answered r) s))"
  by simp

lemma clicks_ticket_modal [simp]:
  "clicks (ticket_modal lang s) = [J_close, J_close, J_close] @ (if send_off s then [] else [J_submit])"
  by (simp add: ticket_modal_def Let_def all_clicks_map_Nil)

lemma help_clicks:
  "all_clicks (help_view lc lang s) =
     [J_open, J_open] @ (if hp_open s then [J_close, J_close, J_close] @ (if send_off s then [] else [J_submit]) else [])"
  by (simp add: help_view_def quick_links_def faq_card_def status_card_def ticket_row_def Let_def all_clicks_map_Nil split_beta)

text \<open>A click on the enabled button always passes the guard of the handler.\<close>

lemma submit_clickable:
  "J_submit \<in> set (all_clicks (help_view lc lang s)) \<Longrightarrow> snd (help_step J_submit s) = [Send GET (u ''/v1/me'') None ()]"
  by (auto simp: help_clicks send_off_def submitTicket_def split: if_splits)

end
