(* ===== verification/Root_Layout.thy ===== *)
theory Root_Layout
  imports I18n Js_View
begin

text \<open>
  The root layout, app/layout.tsx: the frame of every page and the script that applies the stored
  theme before the first paint.
\<close>

definition themeInit :: "theme_sys \<Rightarrow> theme_sys" where
  "themeInit s = s\<lparr>data_theme := Some (or_else (tstore s) dark)\<rparr>"

definition rootLayout :: "'e node list \<Rightarrow> 'e node" where
  "rootLayout children =
     El ''html'' []
       [El ''head'' []
          [El ''link'' [Href (u ''https://fonts.googleapis.com'')] [],
           El ''link'' [Href (u ''https://fonts.gstatic.com'')] [],
           El ''link'' [Href (u ''https://fonts.googleapis.com/css2?family=Geist:wght@300;400;500;600;700&family=Geist+Mono:wght@400;500;600&family=Montserrat:wght@700;800;900&display=swap'')] [],
           El ''script'' [] []],
        El ''body'' [] children]"

text \<open>A theme chosen before a reload is the theme after it, on the page and in the hook.\<close>

lemma theme_survives_reload:
  assumes "tstore s = Some c" "c \<noteq> []"
  shows "data_theme (themeInit s) = Some c" "theme (theme_mount (themeInit s)) = c"
  using assms by (simp_all add: themeInit_def theme_mount_def or_else_def)

lemma theme_after_toggle: "theme (theme_mount (themeInit (theme_toggle s))) = theme (theme_toggle s)"
  by (rule theme_survives_reload(2)) (simp_all add: dark_def light_def)

end
