(* ===== verification/Admin_Shell.thy ===== *)
theory Admin_Shell
  imports Session Page_Kit Js_Number
begin

text \<open>
  The frame of the platform console, app/superadmin/shell.tsx: the guard, the side bar, the top bar
  with its sign-out, and the shared pills, cards and amounts. \<open>uc\<close> is toUpperCase.
\<close>

definition email_key :: jstr where "email_key = (u ''apifor_email'')"

definition getEmail :: "browser \<Rightarrow> jstr" where
  "getEmail b = (if has_window b then or_blank (storage b email_key) else [])"

subsection \<open>Amounts\<close>

text \<open>
  Amounts are whole cents, not negative, and \<open>cents / 100\<close> is a double. toLocaleString("en-US")
  with at most two decimals prints the number of hundredths nearest to that double, as ECMA-402
  says: thousands separated by commas, no trailing zero. The quotient is within a relative error of
  \<open>2^-53\<close>, so below \<open>2^52\<close> cents the hundredths printed are the cents divided; near \<open>2^53\<close> two
  amounts may share their quotient and their text.
\<close>

fun commas_rev :: "jstr \<Rightarrow> jstr" where
  "commas_rev (a # b # c # d # r) = a # b # c # 44 # commas_rev (d # r)"
| "commas_rev r = r"

definition commas :: "jstr \<Rightarrow> jstr" where
  "commas s = rev (commas_rev (rev s))"

definition cents_text :: "nat \<Rightarrow> jstr" where
  "cents_text r = (if r = 0 then [] else if r mod 10 = 0 then [46, 48 + r div 10] else [46, 48 + r div 10, 48 + r mod 10])"

text \<open>The hundredths a double is printed with: the nearest, halves upwards.\<close>

definition hundredths :: "rat \<Rightarrow> nat" where
  "hundredths x = nat \<lfloor>x * 100 + 1/2\<rfloor>"

definition money_sign :: "(jstr \<Rightarrow> jstr) \<Rightarrow> jstr \<Rightarrow> jstr" where
  "money_sign uc currency = (if currency = (u ''usd'') then (u ''$'') else uc currency @ (u '' ''))"

definition fmtMoney :: "(jstr \<Rightarrow> jstr) \<Rightarrow> nat option \<Rightarrow> jstr \<Rightarrow> jstr" where
  "fmtMoney uc cents currency =
     (case cents of
        None \<Rightarrow> (ux ''{2014}'')
      | Some c \<Rightarrow> (let n = hundredths (jdiv (of_nat c) 100)
                  in money_sign uc currency @ commas (nshow (n div 100)) @ cents_text (n mod 100)))"

subsection \<open>Pills and cards\<close>

definition ADMIN_PLAN_COLOR :: "(jstr \<times> jstr \<times> jstr) list" where
  "ADMIN_PLAN_COLOR =
    [((u ''free''), (u ''var(--mute)''), (u ''var(--elev)'')), ((u ''pro''), (u ''var(--blue)''), (u ''var(--blue-tint)'')),
     ((u ''team''), (u ''var(--accent)''), (u ''var(--accent-tint)'')), ((u ''enterprise''), (u ''var(--green)''), (u ''var(--green-tint)''))]"

definition planPill :: "jstr \<Rightarrow> 'e node" where
  "planPill plan =
     (let (c, bg) = lookup_or ((u ''var(--mute)''), (u ''var(--elev)'')) ADMIN_PLAN_COLOR plan in
      El ''span'' [Sty ''color'' c, Sty ''background'' bg] [Txt plan])"

definition adminStatus :: "bool \<Rightarrow> jstr \<Rightarrow> jstr \<Rightarrow> 'e node" where
  "adminStatus ok on off =
     El ''span'' [Sty ''color'' (if ok then (u ''var(--green)'') else (u ''var(--red)'')),
                  Sty ''background'' (if ok then (u ''var(--green-tint)'') else (u ''var(--red-tint)''))]
       [sp [], Txt (if ok then on else off)]"

definition adminStat :: "jstr \<Rightarrow> jstr \<Rightarrow> jstr \<Rightarrow> jstr \<Rightarrow> 'e node" where
  "adminStat label value color sub =
     dv ([dvt label, El ''div'' [Sty ''color'' color] [Txt value]] @ shown (sub \<noteq> []) [dvt sub])"

definition pageHeadAdmin :: "jstr \<Rightarrow> jstr \<Rightarrow> 'e node" where
  "pageHeadAdmin title subtitle =
     dv [dv ([dvt (u ''Plataforma''), El ''h1'' [] [Txt title]] @ shown (subtitle \<noteq> []) [dvt subtitle])]"

subsection \<open>Side bar and top bar\<close>

definition ADMIN_NAV :: "(jstr \<times> jstr) list" where
  "ADMIN_NAV =
    [((u ''/superadmin''), (ux ''Vis{e3}o geral'')), ((u ''/superadmin/orgs''), (ux ''Organiza{e7}{f5}es'')), ((u ''/superadmin/users''), (ux ''Usu{e1}rios'')),
     ((u ''/superadmin/billing''), (u ''Assinaturas'')), ((u ''/superadmin/audit''), (u ''Auditoria''))]"

definition admin_active :: "jstr \<Rightarrow> jstr list" where
  "admin_active path = filter (\<lambda>h. path = h) (map fst ADMIN_NAV)"

definition adminIco :: "jstr \<Rightarrow> 'e node" where
  "adminIco color = El ''svg'' [Sty ''stroke'' color] []"

definition adminSidebar :: "jstr \<Rightarrow> jstr \<Rightarrow> 'e node" where
  "adminSidebar path mail =
     El ''aside'' []
       [dv [dv [sp [Txt (u ''apifor''), spt (u ''.'')], spt (u ''DEV'')], dv [svg, Txt (u ''PLATFORM CONSOLE'')]],
        El ''nav'' []
          (dvt (ux ''Gest{e3}o'')
           # map (\<lambda>(href, label). El ''a'' [Key href, Href href, ClassName (if path = href then [] else (u ''apf-navitem''))]
               (shown (path = href) [sp []]
                @ [adminIco (if path = href then (u ''var(--red)'') else (u ''var(--mute)'')), Txt label])) ADMIN_NAV
           @ [dv [dvt (u ''Atalhos''), El ''a'' [Href (u ''/'')] [adminIco (u ''var(--mute)''), Txt (u ''Ir ao orquestrador'')]]]),
        dv [dvt (u ''Superadmin''), dvt (if mail \<noteq> [] then mail else (ux ''{2014}''))]]"

datatype admin_bar_event = Admin_theme | Admin_sign_out

text \<open>\<open>setToken(null); localStorage.removeItem("apifor_email"); location.replace("/login")\<close>.\<close>

definition admin_sign_out :: "unit cmd list" where
  "admin_sign_out = [DelItem token_key, DelItem email_key, ReplaceTo (u ''/login'')]"

definition adminTopbar :: "jstr \<Rightarrow> jstr \<Rightarrow> admin_bar_event node" where
  "adminTopbar thm mail =
     El ''header'' []
       [sp [svg, Txt (u ''Console da plataforma'')], sp [], spt mail,
        El ''button'' [OnClick Admin_theme, Title (u ''Alternar tema'')] [Txt (if thm = dark then (ux ''{2600}{fe0f}'') else (ux ''{d83c}{df19}''))],
        btn Admin_sign_out [Txt (u ''Sair'')]]"

subsection \<open>The guard\<close>

record shell =
  sh_ok :: bool
  sh_email :: jstr

datatype shell_tag = Shell_me

definition shell_start :: shell where "shell_start = \<lparr>sh_ok = False, sh_email = []\<rparr>"

text \<open>As in the gate of Page, \<open>None\<close> is the URIError of encodeURIComponent.\<close>

definition shell_mount :: "browser \<Rightarrow> shell \<Rightarrow> (shell \<times> shell_tag cmd list) option" where
  "shell_mount b s =
     (if or_blank (getToken b) = [] then
        map_option (\<lambda>nxt. (s, [ReplaceTo ((u ''/login?next='') @ nxt)])) (encodeURIComponent (pathname b @ search b))
      else Some (s\<lparr>sh_email := getEmail b\<rparr>, [Send GET (u ''/v1/me'') None Shell_me]))"

definition shell_answer :: "json outcome \<Rightarrow> shell \<Rightarrow> shell \<times> shell_tag cmd list" where
  "shell_answer r s =
     (case r of
        Resolved j \<Rightarrow> (if jget (u ''role'') j = JStr (u ''superadmin'') then (s\<lparr>sh_ok := True\<rparr>, []) else (s, [ReplaceTo (u ''/'')]))
      | Rejected _ \<Rightarrow> (s, [ReplaceTo (u ''/'')]))"

definition shell_view :: "shell \<Rightarrow> bool \<Rightarrow> 'e node list \<Rightarrow> 'e node list" where
  "shell_view s loading children =
     (if \<not> sh_ok s then []
      else [dv [Comp ''AdminSidebar'',
                dv ([Comp ''AdminTopbar'']
                    @ shown loading [El ''div'' [ClassName (u ''apf-progress-bar''), Key (u ''true'')] []]
                    @ [El ''main'' [] children])]])"

subsection \<open>Text helpers\<close>

text \<open>\<open>s.replace(p, r)\<close> for a string pattern: the first occurrence, wherever it is.\<close>

fun replace_first :: "jstr \<Rightarrow> jstr \<Rightarrow> jstr \<Rightarrow> jstr" where
  "replace_first p r [] = (if p = [] then r else [])"
| "replace_first p r (x # xs) =
     (if starts_with (x # xs) p then r @ drop (length p) (x # xs) else x # replace_first p r xs)"

subsection \<open>Facts\<close>

lemma commas_rev_filter: "44 \<notin> set s \<Longrightarrow> filter (\<lambda>c. c \<noteq> 44) (commas_rev s) = s"
  by (induction s rule: commas_rev.induct) auto

lemma commas_filter: "44 \<notin> set s \<Longrightarrow> filter (\<lambda>c. c \<noteq> 44) (commas s) = s"
  by (simp add: commas_def rev_filter [symmetric] commas_rev_filter)

lemma set_commas: "set (commas s) \<subseteq> insert 44 (set s)"
proof -
  have "set (commas_rev t) \<subseteq> insert 44 (set t)" for t
    by (induction t rule: commas_rev.induct) auto
  from this [of "rev s"] show ?thesis by (simp add: commas_def)
qed

text \<open>The reader of an amount: drop the commas, cut at the point.\<close>

definition money_value :: "jstr \<Rightarrow> nat" where
  "money_value s =
     (case split_on 46 (filter (\<lambda>c. c \<noteq> 44) s) of
        [q] \<Rightarrow> 100 * digits_value q
      | [q, d] \<Rightarrow> 100 * digits_value q + (if length d = 1 then 10 else 1) * digits_value d
      | _ \<Rightarrow> 0)"

lemma split_on_plain: "c \<notin> set s \<Longrightarrow> split_on c s = [s]"
  by (induction s) auto

lemma split_on_cut: "c \<notin> set s \<Longrightarrow> split_on c (s @ c # t) = s # split_on c t"
  by (induction s) auto

lemma nshow_units: "c < 48 \<Longrightarrow> c \<notin> set (nshow n)"
  using nshow_digits [of n] by force

lemma digits_value_short: "digits_value [48 + d] = d" "digits_value [48 + d, 48 + e] = 10 * d + e"
  by (simp_all add: digits_value_def)

lemma money_value_text: "money_value (commas (nshow (c div 100)) @ cents_text (c mod 100)) = c"
proof -
  let ?q = "nshow (c div 100)" and ?r = "c mod 100"
  have f: "filter (\<lambda>c. c \<noteq> 44) (commas ?q @ cents_text ?r) = ?q @ cents_text ?r"
    using nshow_units [of 44 "c div 100"] by (auto simp: commas_filter cents_text_def)
  have p: "46 \<notin> set ?q" by (simp add: nshow_units)
  have m: "100 * (c div 100) + ?r = c" by simp
  have d: "10 * (?r div 10) + ?r mod 10 = ?r" by simp
  consider "?r = 0" | "?r \<noteq> 0" "?r mod 10 = 0" | "?r mod 10 \<noteq> 0" by fastforce
  then show ?thesis
  proof cases
    case 1
    then have "split_on 46 (?q @ cents_text ?r) = [?q]"
      by (simp add: cents_text_def split_on_plain [OF p])
    then show ?thesis unfolding money_value_def f using 1 m by simp
  next
    case 2
    then have "split_on 46 (?q @ cents_text ?r) = [?q, [48 + ?r div 10]]"
      by (simp add: cents_text_def split_on_cut [OF p])
    then show ?thesis unfolding money_value_def f using 2 m d by (simp add: digits_value_short)
  next
    case 3
    then have "split_on 46 (?q @ cents_text ?r) = [?q, [48 + ?r div 10, 48 + ?r mod 10]]"
      by (auto simp: cents_text_def split_on_cut [OF p])
    then show ?thesis unfolding money_value_def f using m d by (simp add: digits_value_short)
  qed
qed

lemma hundredths_of_cents: "c < 2 ^ 52 \<Longrightarrow> hundredths (jdiv (of_nat c) 100) = c"
proof -
  assume c: "c < 2 ^ 52"
  let ?d = "jdiv (of_nat c) 100 * 100 - of_nat c"
  have "(of_nat c :: rat) < 2 ^ 52" using c by (metis of_nat_less_iff of_nat_numeral of_nat_power)
  then have "\<bar>?d\<bar> < 1/2" using jdiv_error [of "of_nat c" 100] by (simp add: field_simps)
  then have "- (1/2) < ?d" "?d < 1/2" by linarith+
  then have "of_int (int c) \<le> jdiv (of_nat c) 100 * 100 + 1/2" "jdiv (of_nat c) 100 * 100 + 1/2 < of_int (int c) + 1"
    by simp_all
  then have "\<lfloor>jdiv (of_nat c) 100 * 100 + 1/2\<rfloor> = int c" by (metis floor_unique)
  then show ?thesis by (simp add: hundredths_def)
qed

lemma fmtMoney_below:
  "c < 2 ^ 52 \<Longrightarrow> fmtMoney uc (Some c) cur = money_sign uc cur @ commas (nshow (c div 100)) @ cents_text (c mod 100)"
  by (simp add: fmtMoney_def hundredths_of_cents Let_def)

text \<open>Above the bound the texts are no longer told apart.\<close>

lemma large_amounts_collide:
  "fmtMoney uc (Some 9007199254740991) cur = fmtMoney uc (Some 9007199254740990) cur"
proof -
  have "jdiv 9007199254740991 100 = jdiv 9007199254740990 100" by code_simp
  then show ?thesis by (simp add: fmtMoney_def)
qed

lemma shell_shown: "shell_view s loading children = [] \<longleftrightarrow> \<not> sh_ok s"
  by (simp add: shell_view_def)

text \<open>The console shows its content only after an answer that names the role.\<close>

lemma shell_opened:
  "sh_ok (fst (shell_answer r s)) \<longleftrightarrow>
     sh_ok s \<or> (\<exists>j. r = Resolved j \<and> jget (u ''role'') j = JStr (u ''superadmin''))"
  by (simp add: shell_answer_def split: outcome.split)

text \<open>
  The gate of the tenant pages and the guard of the console turn away complementary answers, so a
  session is never sent back and forth between them.
\<close>

lemma gate_or_shell:
  "snd (gate_answer r g) = [] \<longleftrightarrow> snd (shell_answer r s) \<noteq> []"
  by (simp add: gate_answer_def shell_answer_def split: outcome.split)

text \<open>An expired session: the client's own redirection is followed by the guard's.\<close>

lemma expired_session_leaves_the_console:
  assumes "has_window b" "\<not> starts_with (pathname b) (u ''/login'')" "status a = 401"
  shows "let (b1, r) = api_settle (Answered a) b; b2 = perform_all (snd (shell_answer r s)) b1 in
    getToken b2 = None \<and> navs b2 = navs b @ [Replaced (u ''/login''), Replaced (u ''/'')]"
  using assms
  by (auto simp: api_settle_def safeJson_def shell_answer_def Let_def frame_simps getToken_def setToken_def)

lemma admin_sign_out_clears:
  assumes "has_window b"
  shows "getToken (perform_all admin_sign_out b) = None" "getEmail (perform_all admin_sign_out b) = []"
  using assms by (simp_all add: admin_sign_out_def getToken_def getEmail_def or_blank_def email_key_def token_key_def)

lemma admin_active_one: "length (admin_active path) \<le> 1"
  by (simp add: admin_active_def ADMIN_NAV_def)

lemma clicks_admin_parts [simp]:
  "clicks (planPill p) = []" "clicks (adminStatus ok on off) = []" "clicks (adminStat l v c s) = []"
  "clicks (pageHeadAdmin t s) = []"
  by (simp_all add: planPill_def adminStatus_def adminStat_def pageHeadAdmin_def split_beta)

lemma inputs_admin_parts [simp]:
  "inputs (planPill p) = []" "inputs (adminStatus ok on off) = []"
  by (simp_all add: planPill_def adminStatus_def split_beta)

lemma replace_first_absent: "\<not> contains s p \<Longrightarrow> replace_first p r s = s"
  by (induction s) (auto simp: starts_with_def)

end
