(* ===== verification/Admin_Plans.thy ===== *)
theory Admin_Plans
  imports Admin_Shell
begin

text \<open>
  The subscription page of the console, app/superadmin/billing/page.tsx: the plan catalogue, the
  estimated revenue. Revenues are whole cents below \<open>2^53\<close>, where the sums and products of the code
  are exact; \<open>uc\<close> is toUpperCase.
\<close>

record admin_plan =
  pl_plan :: jstr
  pl_price :: "nat option"
  pl_currency :: jstr
  pl_workers :: "nat option"
  pl_hours :: "nat option"
  pl_members :: "nat option"
  pl_orgs :: nat
  pl_seats :: nat

text \<open>\<open>!p.price_cents\<close>.\<close>

definition no_price :: "admin_plan \<Rightarrow> bool" where
  "no_price p = (pl_price p = None \<or> pl_price p = Some 0)"

definition price_of :: "admin_plan \<Rightarrow> nat" where
  "price_of p = (case pl_price p of Some c \<Rightarrow> c | None \<Rightarrow> 0)"

definition mrrFor :: "admin_plan \<Rightarrow> nat" where
  "mrrFor p =
     (if no_price p then 0
      else if pl_plan p = (u ''team'') then price_of p * pl_seats p
      else if pl_plan p = (u ''pro'') then price_of p * pl_orgs p
      else 0)"

definition lim :: "nat option \<Rightarrow> jstr \<Rightarrow> jstr" where
  "lim v sfx = (case v of None \<Rightarrow> (u ''ilimitado'') | Some n \<Rightarrow> nshow n @ sfx)"

definition priceLabel :: "(jstr \<Rightarrow> jstr) \<Rightarrow> admin_plan \<Rightarrow> jstr" where
  "priceLabel uc p =
     (if pl_plan p = (u ''enterprise'') then (u ''sob consulta'')
      else if no_price p then (ux ''gr{e1}tis'')
      else fmtMoney uc (pl_price p) (pl_currency p) @ (if pl_plan p = (u ''team'') then (u '' / assento'') else (ux '' / m{ea}s'')))"

record billing =
  bl_plans :: "admin_plan list"
  bl_loading :: bool

definition billing_start :: billing where
  "billing_start = \<lparr>bl_plans = [], bl_loading = True\<rparr>"

datatype billing_event = KB_mount | KB_plans "admin_plan list pdata outcome"

fun billing_step :: "billing_event \<Rightarrow> billing \<Rightarrow> billing \<times> unit cmd list" where
  "billing_step KB_mount s = (s, [Send GET (u ''/v1/admin/plans'') None ()])"
| "billing_step (KB_plans r) s = (s\<lparr>bl_plans := take_list r (bl_plans s), bl_loading := False\<rparr>, [])"

definition bill_mrr :: "admin_plan list \<Rightarrow> nat" where
  "bill_mrr ps = foldl (\<lambda>a p. a + mrrFor p) 0 ps"

definition paidOrgs :: "admin_plan list \<Rightarrow> nat" where
  "paidOrgs ps = foldl (\<lambda>a p. a + pl_orgs p) 0 (filter (\<lambda>p. pl_plan p \<noteq> (u ''free'') \<and> \<not> no_price p) ps)"

definition totalOrgs :: "admin_plan list \<Rightarrow> nat" where
  "totalOrgs ps = foldl (\<lambda>a p. a + pl_orgs p) 0 ps"

text \<open>\<open>Math.round(totalOrgs ? mrr / totalOrgs : 0)\<close>.\<close>

definition arpu :: "admin_plan list \<Rightarrow> int" where
  "arpu ps = jround (if totalOrgs ps \<noteq> 0 then jdiv (of_nat (bill_mrr ps)) (of_nat (totalOrgs ps)) else 0)"

definition bill_row :: "jstr \<Rightarrow> jstr \<Rightarrow> 'e node" where
  "bill_row label value = dv [spt label, spt value]"

definition bill_card :: "(jstr \<Rightarrow> jstr) \<Rightarrow> admin_plan \<Rightarrow> 'e node" where
  "bill_card uc p =
     El ''div'' [Key (pl_plan p)]
       [dv [planPill (pl_plan p), spt (priceLabel uc p)],
        dv [dv [dvt (nshow (pl_orgs p)), dvt (u ''orgs'')], dv [dvt (fmtMoney uc (Some (mrrFor p)) (u ''usd'')), dvt (u ''MRR'')]],
        dv [bill_row (u ''Assentos ativos'') (nshow (pl_seats p)), bill_row (u ''Max workers'') (lim (pl_workers p) []),
            bill_row (u ''Worker-hours/sem'') (lim (pl_hours p) (u ''h'')), bill_row (u ''Max membros'') (lim (pl_members p) [])]]"

definition billing_view :: "(jstr \<Rightarrow> jstr) \<Rightarrow> shell \<Rightarrow> billing \<Rightarrow> billing_event node list" where
  "billing_view uc sh s =
     (let ps = bl_plans s; money = (\<lambda>c. fmtMoney uc (Some c) (u ''usd'')) in
      shell_view sh (bl_loading s)
        [pageHeadAdmin (u ''Assinaturas & Planos'') (ux ''Receita estimada e cat{e1}logo de planos da plataforma.''),
         dv [adminStat (u ''MRR estimado'') (money (bill_mrr ps)) (u ''var(--green)'') (u ''pro (org) + team (assentos)''),
             adminStat (u ''ARR estimado'') (money (bill_mrr ps * 12)) (u ''var(--green)'') [],
             adminStat (u ''Orgs pagantes'') (nshow (paidOrgs ps)) (u ''var(--blue)'') ((u ''de '') @ nshow (totalOrgs ps) @ (u '' no total'')),
             adminStat (u ''ARPU'') (money (nat (arpu ps))) (u ''var(--ink)'') (ux ''receita m{e9}dia por org'')],
         dv (map (bill_card uc) ps),
         dvt (ux ''MRR estimado a partir do cat{e1}logo de planos {d7} orgs/assentos ativos. Enterprise n{e3}o entra no c{e1}lculo (pre{e7}o sob consulta).'')])"

subsection \<open>Facts\<close>

lemma foldl_plus: "foldl (\<lambda>a p. a + f p) (k :: nat) xs = k + sum_list (map f xs)"
  by (induction xs arbitrary: k) simp_all

lemma bill_mrr_sum: "bill_mrr ps = sum_list (map mrrFor ps)"
  by (simp add: bill_mrr_def foldl_plus)

lemma paidOrgs_le: "paidOrgs ps \<le> totalOrgs ps"
  unfolding paidOrgs_def totalOrgs_def foldl_plus by (induction ps) auto

text \<open>Only the plans sold by seat or by organisation bring revenue.\<close>

lemma mrr_of_catalogue:
  "bill_mrr ps = sum_list (map mrrFor (filter (\<lambda>p. pl_plan p \<in> {(u ''pro''), (u ''team'')} \<and> \<not> no_price p) ps))"
proof -
  have z: "mrrFor p = 0" if "\<not> (pl_plan p \<in> {(u ''pro''), (u ''team'')} \<and> \<not> no_price p)" for p
    using that by (auto simp: mrrFor_def)
  show ?thesis unfolding bill_mrr_sum by (induction ps) (auto simp: z)
qed

lemma mrr_of_nobody: "(\<forall>p \<in> set ps. pl_orgs p = 0 \<and> pl_seats p = 0) \<Longrightarrow> bill_mrr ps = 0"
proof -
  have "mrrFor p = 0" if "pl_orgs p = 0" "pl_seats p = 0" for p
    using that by (simp add: mrrFor_def)
  then show "(\<forall>p \<in> set ps. pl_orgs p = 0 \<and> pl_seats p = 0) \<Longrightarrow> bill_mrr ps = 0"
    unfolding bill_mrr_sum by (induction ps) simp_all
qed

text \<open>The average revenue is not negative, and at most the revenue.\<close>

lemma arpu_range:
  assumes "bill_mrr ps < 2 ^ 53"
  shows "0 \<le> arpu ps \<and> arpu ps \<le> int (bill_mrr ps)"
proof (cases "totalOrgs ps = 0")
  case True
  then show ?thesis using jround_range [of 0 0 0] by (simp add: arpu_def)
next
  case False
  let ?q = "(of_nat (bill_mrr ps) :: rat) / of_nat (totalOrgs ps)"
  have n: "0 \<le> ?q" by simp
  have "of_nat (bill_mrr ps) * 1 \<le> of_nat (bill_mrr ps) * (of_nat (totalOrgs ps) :: rat)"
    using of_nat_mono [of 1 "totalOrgs ps", where 'a = rat] False by (intro mult_left_mono) simp_all
  then have "?q \<le> of_nat (bill_mrr ps)"
    using False by (simp add: pos_divide_le_eq)
  then have "?q \<le> of_int (int (bill_mrr ps))" by simp
  then have "jdiv (of_nat (bill_mrr ps)) (of_nat (totalOrgs ps)) \<le> of_int (int (bill_mrr ps))"
    unfolding jdiv_def by (rule fl_le_int) (use assms in simp)
  moreover have "of_int 0 \<le> jdiv (of_nat (bill_mrr ps)) (of_nat (totalOrgs ps))"
    unfolding jdiv_def using fl_0_le [OF n] by simp
  ultimately show ?thesis using False jround_range [of 0 "jdiv (of_nat (bill_mrr ps)) (of_nat (totalOrgs ps))" "int (bill_mrr ps)"]
    by (simp add: arpu_def)
qed

text \<open>A free plan with a price would count as paying nobody.\<close>

lemma free_plan_never_pays: "pl_plan p = (u ''free'') \<Longrightarrow> mrrFor p = 0 \<and> paidOrgs [p] = 0"
  by (simp add: mrrFor_def paidOrgs_def)

lemma billing_no_click: "all_clicks (billing_view uc sh s) = []"
  by (auto simp: billing_view_def Let_def shell_view_def bill_card_def bill_row_def all_clicks_map_Nil)

end
