(* ===== verification/Admin_Overview.thy ===== *)
theory Admin_Overview
  imports Admin_Plans
begin

text \<open>
  The overview of the console, app/superadmin/page.tsx: four requests joined by Promise.all, the
  distribution of the plans, the revenue computed a second time. The statistics are null before the
  join (\<open>Nul\<close>), an object without the fields (\<open>Undef\<close>), or the data.
\<close>

record admin_stats =
  as_orgs :: nat
  as_users :: nat
  as_free :: nat
  as_pro :: nat
  as_team :: nat
  as_ent :: nat
  as_tasks :: nat
  as_workers :: nat

record admin_org =
  ao_id :: jstr
  ao_name :: jstr
  ao_plan :: jstr
  ao_owner :: jstr
  ao_members :: nat
  ao_workers :: nat
  ao_tasks :: nat
  ao_created :: jstr
  ao_suspended :: jstr

record admin_audit =
  aa_id :: jstr
  aa_action :: jstr
  aa_target_type :: jstr
  aa_target :: jstr
  aa_at :: jstr
  aa_org :: jstr
  aa_actor_type :: jstr
  aa_actor :: jstr
  aa_email :: jstr

text \<open>The answers kept by the join until the fourth one.\<close>

record joined =
  j_stats :: "admin_stats pdata option"
  j_orgs :: "admin_org list pdata option"
  j_plans :: "admin_plan list pdata option"
  j_audit :: "admin_audit list pdata option"

record overview =
  ov_stats :: "admin_stats pdata"
  ov_orgs :: "admin_org list"
  ov_plans :: "admin_plan list"
  ov_audit :: "admin_audit list"
  ov_loading :: bool
  ov_join :: joined

definition overview_start :: overview where
  "overview_start = \<lparr>ov_stats = Nul, ov_orgs = [], ov_plans = [], ov_audit = [], ov_loading = True,
     ov_join = \<lparr>j_stats = None, j_orgs = None, j_plans = None, j_audit = None\<rparr>\<rparr>"

datatype overview_tag = Ov_stats | Ov_orgs | Ov_plans | Ov_audit

datatype overview_event =
    OV_mount
  | OV_stats "admin_stats pdata outcome"
  | OV_orgs "admin_org list pdata outcome"
  | OV_plans "admin_plan list pdata outcome"
  | OV_audit "admin_audit list pdata outcome"

definition overview_load :: "overview_tag cmd list" where
  "overview_load = [Send GET (u ''/v1/admin/stats'') None Ov_stats, Send GET (u ''/v1/admin/orgs'') None Ov_orgs,
     Send GET (u ''/v1/admin/plans'') None Ov_plans, Send GET (u ''/v1/admin/audit?scope=admin&limit=8'') None Ov_audit]"

text \<open>The join: all four values are set at once, a rejection ends the loading; once settled, the rest is dropped.\<close>

definition join_settle :: "overview \<Rightarrow> overview" where
  "join_settle s =
     (case (j_stats (ov_join s), j_orgs (ov_join s), j_plans (ov_join s), j_audit (ov_join s)) of
        (Some st, Some os, Some ps, Some au) \<Rightarrow>
          s\<lparr>ov_stats := st, ov_orgs := or_empty os, ov_plans := or_empty ps, ov_audit := or_empty au, ov_loading := False\<rparr>
      | _ \<Rightarrow> s)"

definition join_answer :: "('a \<Rightarrow> joined \<Rightarrow> joined) \<Rightarrow> 'a outcome \<Rightarrow> overview \<Rightarrow> overview" where
  "join_answer f r s =
     (if \<not> ov_loading s then s
      else case r of
        Resolved x \<Rightarrow> join_settle (s\<lparr>ov_join := f x (ov_join s)\<rparr>)
      | Rejected _ \<Rightarrow> s\<lparr>ov_loading := False\<rparr>)"

fun overview_step :: "overview_event \<Rightarrow> overview \<Rightarrow> overview \<times> overview_tag cmd list" where
  "overview_step OV_mount s = (s, overview_load)"
| "overview_step (OV_stats r) s = (join_answer (\<lambda>x. j_stats_update (\<lambda>_. Some x)) r s, [])"
| "overview_step (OV_orgs r) s = (join_answer (\<lambda>x. j_orgs_update (\<lambda>_. Some x)) r s, [])"
| "overview_step (OV_plans r) s = (join_answer (\<lambda>x. j_plans_update (\<lambda>_. Some x)) r s, [])"
| "overview_step (OV_audit r) s = (join_answer (\<lambda>x. j_audit_update (\<lambda>_. Some x)) r s, [])"

subsection \<open>Figures\<close>

definition suspended_orgs :: "admin_org list \<Rightarrow> nat" where
  "suspended_orgs os = length (filter (\<lambda>g. ao_suspended g = (u ''true'')) os)"

definition overview_mrr :: "admin_plan list \<Rightarrow> nat" where
  "overview_mrr ps =
     foldl (\<lambda>acc p. if no_price p then acc
                    else if pl_plan p = (u ''team'') then acc + price_of p * pl_seats p
                    else if pl_plan p = (u ''pro'') then acc + price_of p * pl_orgs p
                    else acc) 0 ps"

text \<open>The rows of the distribution; the counts are missing in an object without the fields.\<close>

definition planRows :: "admin_stats pdata \<Rightarrow> (jstr \<times> nat option) list" where
  "planRows st =
     (case st of
        Nul \<Rightarrow> []
      | Undef \<Rightarrow> map (\<lambda>k. (k, None)) [(u ''free''), (u ''pro''), (u ''team''), (u ''enterprise'')]
      | Dat x \<Rightarrow> [((u ''free''), Some (as_free x)), ((u ''pro''), Some (as_pro x)), ((u ''team''), Some (as_team x)), ((u ''enterprise''), Some (as_ent x))])"

text \<open>\<open>Math.max(1, ...counts)\<close>; \<open>None\<close> is NaN.\<close>

definition maxPlan :: "(jstr \<times> nat option) list \<Rightarrow> nat option" where
  "maxPlan rows = (if list_ex (\<lambda>(k, n). n = None) rows then None else Some (foldr max (map (\<lambda>(k, n). the n) rows) 1))"

definition plan_width :: "nat option \<Rightarrow> nat option \<Rightarrow> rat option" where
  "plan_width n m =
     (case (n, m) of (Some a, Some b) \<Rightarrow> Some (jmul (jdiv (of_nat a) (of_nat b)) 100) | _ \<Rightarrow> None)"

definition PLAN_BAR :: "(jstr \<times> jstr) list" where
  "PLAN_BAR = [((u ''free''), (u ''var(--mute)'')), ((u ''pro''), (u ''var(--blue)'')), ((u ''team''), (u ''var(--accent)'')), ((u ''enterprise''), (u ''var(--green)''))]"

definition count_text :: "nat option \<Rightarrow> jstr" where
  "count_text n = (case n of Some k \<Rightarrow> nshow k | None \<Rightarrow> [])"

definition stat_text :: "(admin_stats \<Rightarrow> nat) \<Rightarrow> admin_stats pdata \<Rightarrow> jstr" where
  "stat_text f st = data_field [] (\<lambda>x. nshow (f x)) st"

subsection \<open>The view\<close>

definition overview_cards :: "(jstr \<Rightarrow> jstr) \<Rightarrow> overview \<Rightarrow> 'e node list" where
  "overview_cards uc s =
     (let st = ov_stats s; n = suspended_orgs (ov_orgs s) in
      shown (st \<noteq> Nul)
        [dv [adminStat (ux ''Organiza{e7}{f5}es'') (stat_text as_orgs st) (u ''var(--ink)'')
               (if n \<noteq> 0 then nshow n @ (u '' suspensa(s)'') else (u ''todas ativas'')),
             adminStat (ux ''Usu{e1}rios'') (stat_text as_users st) (u ''var(--blue)'') [],
             adminStat (u ''MRR estimado'') (fmtMoney uc (Some (overview_mrr (ov_plans s))) (u ''usd'')) (u ''var(--green)'') (u ''pro + team (assentos)''),
             adminStat (u ''Tarefas'') (stat_text as_tasks st) (u ''var(--orange)'') [],
             adminStat (u ''Workers'') (stat_text as_workers st) (u ''var(--accent)'') []]])"

definition plan_distribution :: "overview \<Rightarrow> 'e node" where
  "plan_distribution s =
     (let rows = planRows (ov_stats s); m = maxPlan rows in
      dv [dvt (ux ''Distribui{e7}{e3}o por plano''),
          dv (map (\<lambda>(k, n). El ''div'' [Key k]
            [dv [planPill k],
             dv [El ''div'' [case plan_width n m of Some w \<Rightarrow> StyPct ''width'' w | None \<Rightarrow> Sty ''width'' (u ''NaN%''),
                             Sty ''background'' (lookup_or [] PLAN_BAR k)] []],
             dvt (count_text n)]) rows),
          El ''a'' [Href (u ''/superadmin/billing'')] [Txt (ux ''Ver assinaturas & planos {2192}'')]])"

definition recent_actions :: "overview \<Rightarrow> 'e node" where
  "recent_actions s =
     dv ([dvt (ux ''A{e7}{f5}es administrativas recentes'')]
         @ shown (ov_audit s = []) [dvt (ux ''Nenhuma a{e7}{e3}o registrada.'')]
         @ [dv (map (\<lambda>a. El ''div'' [Key (aa_id a)]
              [spt (replace_first (u ''admin.'') [] (aa_action a)),
               sp [Txt (if aa_org a \<noteq> [] then aa_org a else aa_target a), Txt (ux '' {b7} ''), Txt (aa_email a)],
               spt (take 10 (aa_at a))]) (ov_audit s)),
            El ''a'' [Href (u ''/superadmin/audit'')] [Txt (ux ''Ver auditoria completa {2192}'')]])"

definition recent_orgs :: "overview \<Rightarrow> 'e node" where
  "recent_orgs s =
     dv ([dv [dvt (ux ''Organiza{e7}{f5}es recentes''), El ''a'' [Href (u ''/superadmin/orgs'')] [Txt (ux ''Ver todas {2192}'')]]]
         @ map (\<lambda>g. El ''a'' [Key (ao_id g), Href (u ''/superadmin/orgs'')]
             [dv [El ''div'' [Sty ''color'' (if ao_suspended g = (u ''true'') then (u ''var(--mute)'') else (u ''var(--ink)''))] [Txt (ao_name g)],
                  dvt (ao_owner g)],
              dv [planPill (ao_plan g)], sp [Txt (nshow (ao_members g)), Txt (u '' memb.'')], spt (ao_created g)]) (take 6 (ov_orgs s))
         @ shown (ov_orgs s = []) [dvt (ux ''Nenhuma organiza{e7}{e3}o.'')])"

definition overview_view :: "(jstr \<Rightarrow> jstr) \<Rightarrow> shell \<Rightarrow> overview \<Rightarrow> overview_event node list" where
  "overview_view uc sh s =
     shell_view sh (ov_loading s)
       ([pageHeadAdmin (ux ''Vis{e3}o geral'') (ux ''Sa{fa}de e composi{e7}{e3}o da plataforma {2014} todas as organiza{e7}{f5}es.'')]
        @ overview_cards uc s
        @ [dv [plan_distribution s, recent_actions s], recent_orgs s])"

subsection \<open>Facts\<close>

lemma overview_mrr_sum: "overview_mrr ps = sum_list (map mrrFor ps)"
proof -
  have "foldl (\<lambda>acc p. if no_price p then acc
                    else if pl_plan p = (u ''team'') then acc + price_of p * pl_seats p
                    else if pl_plan p = (u ''pro'') then acc + price_of p * pl_orgs p
                    else acc) k ps = k + sum_list (map mrrFor ps)" for k
    by (induction ps arbitrary: k) (simp_all add: mrrFor_def)
  from this [of 0] show ?thesis unfolding overview_mrr_def by simp
qed

text \<open>Nothing of the join shows before it has settled; what it shows is what all four answers said.\<close>

definition overview_inv :: "overview \<Rightarrow> bool" where
  "overview_inv s =
     (if ov_loading s
      then ov_stats s = Nul \<and> ov_orgs s = [] \<and> ov_plans s = [] \<and> ov_audit s = []
           \<and> (j_stats (ov_join s) = None \<or> j_orgs (ov_join s) = None \<or> j_plans (ov_join s) = None \<or> j_audit (ov_join s) = None)
      else True)"

lemma join_settle_inv:
  assumes "ov_loading s" "ov_stats s = Nul" "ov_orgs s = []" "ov_plans s = []" "ov_audit s = []"
  shows "overview_inv (join_settle s)"
  using assms
  by (cases "j_stats (ov_join s)"; cases "j_orgs (ov_join s)"; cases "j_plans (ov_join s)"; cases "j_audit (ov_join s)")
    (simp_all add: join_settle_def overview_inv_def)

lemma join_answer_inv: "overview_inv s \<Longrightarrow> overview_inv (join_answer f r s)"
proof (cases "ov_loading s")
  case True
  assume "overview_inv s"
  with True have "ov_stats s = Nul" "ov_orgs s = []" "ov_plans s = []" "ov_audit s = []"
    by (simp_all add: overview_inv_def)
  with True show ?thesis
    by (cases r) (simp_all add: join_answer_def join_settle_inv, simp add: overview_inv_def)
qed (simp add: join_answer_def)

interpretation overview_machine: stepper overview_start "\<lambda>e s. fst (overview_step e s)" overview_inv
proof
  show "overview_inv overview_start" by (simp add: overview_inv_def overview_start_def)
  show "overview_inv (fst (overview_step e s))" if "overview_inv s" for e s
    using that by (cases e) (simp_all add: join_answer_inv)
qed

text \<open>The loading ends with the fourth answer or with the first rejection, whatever the order.\<close>

definition is_rejected :: "'a outcome \<Rightarrow> bool" where
  "is_rejected r = (case r of Rejected _ \<Rightarrow> True | Resolved _ \<Rightarrow> False)"

fun overview_rejected :: "overview_event \<Rightarrow> bool" where
  "overview_rejected OV_mount = False"
| "overview_rejected (OV_stats r) = is_rejected r"
| "overview_rejected (OV_orgs r) = is_rejected r"
| "overview_rejected (OV_plans r) = is_rejected r"
| "overview_rejected (OV_audit r) = is_rejected r"

lemma join_settle_fields:
  "ov_join (join_settle s) = ov_join s"
  "ov_loading (join_settle s) =
     (ov_loading s \<and> (j_stats (ov_join s) = None \<or> j_orgs (ov_join s) = None \<or> j_plans (ov_join s) = None \<or> j_audit (ov_join s) = None))"
  by (auto simp: join_settle_def split: option.split)

lemma overview_loading_from:
  assumes "overview_inv s"
  shows "ov_loading (run (\<lambda>e s. fst (overview_step e s)) es s) \<longleftrightarrow> ov_loading s \<and> \<not> list_ex overview_rejected es
    \<and> \<not> ((j_stats (ov_join s) \<noteq> None \<or> (\<exists>x. OV_stats (Resolved x) \<in> set es))
         \<and> (j_orgs (ov_join s) \<noteq> None \<or> (\<exists>x. OV_orgs (Resolved x) \<in> set es))
         \<and> (j_plans (ov_join s) \<noteq> None \<or> (\<exists>x. OV_plans (Resolved x) \<in> set es))
         \<and> (j_audit (ov_join s) \<noteq> None \<or> (\<exists>x. OV_audit (Resolved x) \<in> set es)))"
  using assms
proof (induction es arbitrary: s)
  case Nil
  then show ?case by (auto simp: overview_inv_def split: if_splits)
next
  case (Cons e es)
  let ?t = "fst (overview_step e s)"
  have "overview_inv ?t" using Cons.prems by (rule overview_machine.inv_step)
  note ih = Cons.IH [OF this]
  show ?case
  proof (cases e)
    case OV_mount
    with ih show ?thesis by simp
  next
    case (OV_stats r)
    with ih show ?thesis by (cases r; cases "ov_loading s") (auto simp: join_answer_def join_settle_fields is_rejected_def)
  next
    case (OV_orgs r)
    with ih show ?thesis by (cases r; cases "ov_loading s") (auto simp: join_answer_def join_settle_fields is_rejected_def)
  next
    case (OV_plans r)
    with ih show ?thesis by (cases r; cases "ov_loading s") (auto simp: join_answer_def join_settle_fields is_rejected_def)
  next
    case (OV_audit r)
    with ih show ?thesis by (cases r; cases "ov_loading s") (auto simp: join_answer_def join_settle_fields is_rejected_def)
  qed
qed

lemma overview_loading:
  "ov_loading (run (\<lambda>e s. fst (overview_step e s)) es overview_start) \<longleftrightarrow> \<not> list_ex overview_rejected es
    \<and> \<not> ((\<exists>x. OV_stats (Resolved x) \<in> set es) \<and> (\<exists>x. OV_orgs (Resolved x) \<in> set es)
         \<and> (\<exists>x. OV_plans (Resolved x) \<in> set es) \<and> (\<exists>x. OV_audit (Resolved x) \<in> set es))"
  using overview_loading_from [OF overview_machine.inv_start, of es] by (simp add: overview_start_def)

text \<open>
  What the page shows is kept in four fields. Until the loading ends they are those of the page as
  opened, and each answer the join keeps is one that came; afterwards they are still those of the
  page as opened, when a request failed, or the data of four answers that came.
\<close>

definition overview_data :: "overview \<Rightarrow> admin_stats pdata \<times> admin_org list \<times> admin_plan list \<times> admin_audit list" where
  "overview_data s = (ov_stats s, ov_orgs s, ov_plans s, ov_audit s)"

definition overview_shows ::
  "admin_stats pdata \<Rightarrow> admin_org list pdata \<Rightarrow> admin_plan list pdata \<Rightarrow> admin_audit list pdata \<Rightarrow> overview" where
  "overview_shows st os ps au =
     overview_start\<lparr>ov_stats := st, ov_orgs := or_empty os, ov_plans := or_empty ps, ov_audit := or_empty au, ov_loading := False\<rparr>"

definition all_came ::
  "overview_event set \<Rightarrow> admin_stats pdata \<Rightarrow> admin_org list pdata \<Rightarrow> admin_plan list pdata \<Rightarrow> admin_audit list pdata \<Rightarrow> bool" where
  "all_came E st os ps au \<longleftrightarrow>
     {OV_stats (Resolved st), OV_orgs (Resolved os), OV_plans (Resolved ps), OV_audit (Resolved au)} \<subseteq> E"

definition came :: "overview_event set \<Rightarrow> joined \<Rightarrow> bool" where
  "came E j \<longleftrightarrow>
     (\<forall>x. j_stats j = Some x \<longrightarrow> OV_stats (Resolved x) \<in> E) \<and> (\<forall>x. j_orgs j = Some x \<longrightarrow> OV_orgs (Resolved x) \<in> E)
     \<and> (\<forall>x. j_plans j = Some x \<longrightarrow> OV_plans (Resolved x) \<in> E) \<and> (\<forall>x. j_audit j = Some x \<longrightarrow> OV_audit (Resolved x) \<in> E)"

definition overview_hist :: "overview_event set \<Rightarrow> overview \<Rightarrow> bool" where
  "overview_hist E s \<longleftrightarrow>
     (if ov_loading s then overview_data s = overview_data overview_start \<and> came E (ov_join s)
      else overview_data s = overview_data overview_start \<and> (\<exists>e \<in> E. overview_rejected e)
           \<or> (\<exists>st os ps au. all_came E st os ps au \<and> overview_data s = overview_data (overview_shows st os ps au)))"

lemma hist_mono: "overview_hist E s \<Longrightarrow> E \<subseteq> F \<Longrightarrow> overview_hist F s"
  by (fastforce simp: overview_hist_def came_def all_came_def split: if_splits)

lemma join_settle_hist:
  assumes "ov_loading s" "overview_data s = overview_data overview_start" "came E (ov_join s)"
  shows "overview_hist E (join_settle s)"
proof (cases "ov_loading (join_settle s)")
  case True
  then have "join_settle s = s" unfolding join_settle_fields by (auto simp: join_settle_def split: option.split)
  with assms show ?thesis by (simp add: overview_hist_def)
next
  case False
  then obtain st os ps au where j: "j_stats (ov_join s) = Some st" "j_orgs (ov_join s) = Some os"
      "j_plans (ov_join s) = Some ps" "j_audit (ov_join s) = Some au"
    using assms(1) by (auto simp: join_settle_fields)
  then have "all_came E st os ps au" "overview_data (join_settle s) = overview_data (overview_shows st os ps au)"
    using assms(3) by (simp_all add: came_def all_came_def join_settle_def overview_data_def overview_shows_def)
  with False show ?thesis unfolding overview_hist_def by (simp only: if_False) blast
qed

lemma join_answer_hist:
  assumes "overview_hist E s" "\<And>x. r = Resolved x \<Longrightarrow> came E (ov_join s) \<Longrightarrow> came E (f x (ov_join s))"
    "\<And>m. r = Rejected m \<Longrightarrow> \<exists>e \<in> E. overview_rejected e"
  shows "overview_hist E (join_answer f r s)"
proof (cases "ov_loading s")
  case True
  with assms(1) have "overview_data s = overview_data overview_start" "came E (ov_join s)"
    by (simp_all add: overview_hist_def)
  with True assms(2,3) show ?thesis
    by (cases r) (auto simp: join_answer_def overview_data_def intro!: join_settle_hist, auto simp: overview_hist_def overview_data_def)
qed (use assms(1) in \<open>simp add: join_answer_def\<close>)

lemma hist_step: "overview_hist E s \<Longrightarrow> overview_hist (insert e E) (fst (overview_step e s))"
  using hist_mono [of E s "insert e E"]
  by (cases e) (auto intro!: join_answer_hist simp: came_def is_rejected_def)

lemma overview_history: "overview_hist (set es) (run (\<lambda>e s. fst (overview_step e s)) es overview_start)"
proof (induction es rule: rev_induct)
  case Nil
  show ?case by (simp add: overview_hist_def came_def overview_start_def)
next
  case (snoc e es)
  then show ?case using hist_step by (simp add: run_append)
qed

lemma overview_view_data:
  "ov_loading s = ov_loading t \<Longrightarrow> overview_data s = overview_data t \<Longrightarrow> overview_view uc sh s = overview_view uc sh t"
  by (simp add: overview_data_def overview_view_def overview_cards_def plan_distribution_def recent_actions_def recent_orgs_def)

lemma overview_shown:
  assumes "overview_hist E s" "\<not> ov_loading s"
  shows "(\<exists>e \<in> E. overview_rejected e) \<and> overview_view uc sh s = overview_view uc sh (overview_start\<lparr>ov_loading := False\<rparr>)
    \<or> (\<exists>st os ps au. all_came E st os ps au \<and> overview_view uc sh s = overview_view uc sh (overview_shows st os ps au))"
proof -
  have v: "overview_view uc sh s = overview_view uc sh t" if "\<not> ov_loading t" "overview_data s = overview_data t" for t
    using assms(2) that by (intro overview_view_data) simp_all
  have d: "overview_data (overview_start\<lparr>ov_loading := False\<rparr>) = overview_data overview_start" by (simp add: overview_data_def)
  have l: "\<not> ov_loading (overview_shows st os ps au)" for st os ps au by (simp add: overview_shows_def)
  from assms consider "overview_data s = overview_data overview_start" "\<exists>e \<in> E. overview_rejected e"
    | st os ps au where "all_came E st os ps au" "overview_data s = overview_data (overview_shows st os ps au)"
    unfolding overview_hist_def by auto
  then show ?thesis
  proof cases
    case 1
    then show ?thesis using v [of "overview_start\<lparr>ov_loading := False\<rparr>"] d by simp
  next
    case 2
    then show ?thesis using v [OF l] by blast
  qed
qed

text \<open>One rejection and the console opens on an empty page: no figure is kept.\<close>

lemma one_rejection_empties_the_overview:
  assumes "ov_loading s" "overview_inv s"
  shows "let t = fst (overview_step (OV_stats (Rejected m)) s) in
    \<not> ov_loading t \<and> ov_stats t = Nul \<and> ov_orgs t = [] \<and> ov_plans t = [] \<and> ov_audit t = []"
  using assms by (simp add: join_answer_def overview_inv_def Let_def)

lemma foldr_max_ge: "x \<in> set xs \<Longrightarrow> (x :: nat) \<le> foldr max xs k" "k \<le> foldr max xs k"
  by (induction xs) (auto intro: max.coboundedI2)

text \<open>The bars of the distribution stay on their scale.\<close>

lemma plan_width_range:
  assumes "(k, n) \<in> set rows" "plan_width n (maxPlan rows) = Some w"
  shows "0 \<le> w \<and> w \<le> 100"
proof -
  from assms(2) obtain a b where ab: "n = Some a" "maxPlan rows = Some b"
    and w: "w = jmul (jdiv (of_nat a) (of_nat b)) 100"
    by (auto simp: plan_width_def split: option.splits)
  from ab(2) have b: "b = foldr max (map (\<lambda>(k, n). the n) rows) 1"
    by (simp add: maxPlan_def split: if_splits)
  have "a \<in> set (map (\<lambda>(k, n). the n) rows)" using assms(1) ab(1) by force
  then have "a \<le> b" "1 \<le> b" unfolding b by (rule foldr_max_ge(1), intro foldr_max_ge(2))
  then have "(of_nat a :: rat) / of_nat b \<le> 1" "0 \<le> (of_nat a :: rat) / of_nat b"
    by (simp_all add: divide_le_eq_1)
  then have "0 \<le> jdiv (of_nat a) (of_nat b)" "jdiv (of_nat a) (of_nat b) \<le> 1"
    by (simp_all add: jdiv_def fl_0_le fl_le_1)
  from jmul_unit_range [OF this, of 100] show ?thesis by (simp add: w)
qed

lemma overview_no_click: "all_clicks (overview_view uc sh s) = []"
  by (auto simp: overview_view_def shell_view_def overview_cards_def plan_distribution_def recent_actions_def
      recent_orgs_def Let_def all_clicks_map_Nil split_beta split: option.split)

end
