(* ===== verification/Admin_Orgs.thy ===== *)
theory Admin_Orgs
  imports Admin_Overview Ui_Path
begin

text \<open>
  The organisations of the console, app/superadmin/orgs/page.tsx: search and plan filter, the plan
  dialog, suspension, and the detail dialog with its request. A detail is what the server sent: a
  missing or null field is \<open>None\<close>. The view is \<open>None\<close> when rendering throws. \<open>lc\<close> and \<open>uc\<close> are
  toLowerCase and toUpperCase.
\<close>

record detail_member =
  dm_id :: jstr
  dm_email :: jstr
  dm_name :: jstr
  dm_status :: jstr
  dm_role :: jstr

record detail_task =
  dk_id :: jstr
  dk_title :: jstr
  dk_status :: jstr

record org_detail =
  dt_org :: "admin_org option"
  dt_members :: "detail_member list option"
  dt_tasks :: "detail_task list option"

record orgs_page =
  os_orgs :: "admin_org list"
  os_loading :: bool
  os_q :: jstr
  os_filter :: jstr
  os_modal :: "admin_org option"
  os_new :: jstr
  os_saving :: bool
  os_detail :: "org_detail option"
  os_detail_loading :: bool

definition orgs_start :: orgs_page where
  "orgs_start = \<lparr>os_orgs = [], os_loading = True, os_q = [], os_filter = (u ''all''), os_modal = None, os_new = (u ''free''),
     os_saving = False, os_detail = None, os_detail_loading = False\<rparr>"

definition ADMIN_PLANS :: "jstr list" where
  "ADMIN_PLANS = [(u ''free''), (u ''pro''), (u ''team''), (u ''enterprise'')]"

text \<open>The tag of a suspension carries the organisation and whether the detail of that render was its own.\<close>

datatype orgs_tag = Orgs_list | Orgs_detail | Orgs_plan | Orgs_toggle admin_org bool

datatype orgs_event =
    G_mount
  | G_orgs "admin_org list pdata outcome"
  | G_q jstr
  | G_filter jstr
  | G_open admin_org
  | G_detail "org_detail option outcome"
  | G_close_detail
  | G_plan admin_org
  | G_new jstr
  | G_close_plan
  | G_save
  | G_saved "json outcome"
  | G_toggle admin_org
  | G_toggled admin_org bool "json outcome"

subsection \<open>Handlers\<close>

definition orgs_load :: "orgs_tag cmd list" where
  "orgs_load = [Send GET (u ''/v1/admin/orgs'') None Orgs_list]"

definition openDetail :: "admin_org \<Rightarrow> orgs_page \<Rightarrow> orgs_page \<times> orgs_tag cmd list" where
  "openDetail g s =
     (s\<lparr>os_detail := Some \<lparr>dt_org = Some g, dt_members = Some [], dt_tasks = Some []\<rparr>, os_detail_loading := True\<rparr>,
      [Send GET ((u ''/v1/admin/orgs/'') @ ao_id g) None Orgs_detail])"

definition detail_answer :: "org_detail option outcome \<Rightarrow> orgs_page \<Rightarrow> orgs_page" where
  "detail_answer r s =
     (case r of
        Resolved d \<Rightarrow> s\<lparr>os_detail := d, os_detail_loading := False\<rparr>
      | Rejected _ \<Rightarrow> s\<lparr>os_detail_loading := False\<rparr>)"

definition changePlan :: "orgs_page \<Rightarrow> orgs_page \<times> orgs_tag cmd list" where
  "changePlan s =
     (case os_modal s of
        None \<Rightarrow> (s, [])
      | Some g \<Rightarrow>
          (s\<lparr>os_saving := True\<rparr>,
           [Send POST ((u ''/v1/admin/orgs/'') @ ao_id g @ (u ''/plan'')) (Some (JObj [((u ''plan''), JStr (os_new s))])) Orgs_plan]))"

definition plan_changed :: "json outcome \<Rightarrow> orgs_page \<Rightarrow> orgs_page \<times> orgs_tag cmd list" where
  "plan_changed r s =
     (case r of
        Resolved _ \<Rightarrow> (s\<lparr>os_modal := None, os_saving := False\<rparr>, orgs_load)
      | Rejected _ \<Rightarrow> (s\<lparr>os_saving := False\<rparr>, []))"

definition is_suspended :: "admin_org \<Rightarrow> bool" where
  "is_suspended g = (ao_suspended g = (u ''true''))"

definition toggleSuspend :: "admin_org \<Rightarrow> orgs_page \<Rightarrow> orgs_tag cmd list" where
  "toggleSuspend g s =
     [Send POST ((u ''/v1/admin/orgs/'') @ ao_id g @ (u ''/'') @ (if is_suspended g then (u ''unsuspend'') else (u ''suspend''))) (Some (JObj []))
        (Orgs_toggle g (case os_detail s of
            Some d \<Rightarrow> (case dt_org d of Some h \<Rightarrow> ao_id h = ao_id g | None \<Rightarrow> False)
          | None \<Rightarrow> False))]"

definition suspend_toggled :: "admin_org \<Rightarrow> bool \<Rightarrow> json outcome \<Rightarrow> orgs_page \<Rightarrow> orgs_page \<times> orgs_tag cmd list" where
  "suspend_toggled g own r s =
     (case r of
        Resolved _ \<Rightarrow>
          (if own then
             (let (s1, cs) = openDetail (g\<lparr>ao_suspended := (if is_suspended g then (u ''false'') else (u ''true''))\<rparr>) s in
              (s1, orgs_load @ cs))
           else (s, orgs_load))
      | Rejected _ \<Rightarrow> (s, []))"

fun orgs_step :: "orgs_event \<Rightarrow> orgs_page \<Rightarrow> orgs_page \<times> orgs_tag cmd list" where
  "orgs_step G_mount s = (s, orgs_load)"
| "orgs_step (G_orgs r) s = (s\<lparr>os_orgs := take_list r (os_orgs s), os_loading := False\<rparr>, [])"
| "orgs_step (G_q v) s = (s\<lparr>os_q := v\<rparr>, [])"
| "orgs_step (G_filter v) s = (s\<lparr>os_filter := v\<rparr>, [])"
| "orgs_step (G_open g) s = openDetail g s"
| "orgs_step (G_detail r) s = (detail_answer r s, [])"
| "orgs_step G_close_detail s = (s\<lparr>os_detail := None\<rparr>, [])"
| "orgs_step (G_plan g) s = (s\<lparr>os_modal := Some g, os_new := ao_plan g\<rparr>, [])"
| "orgs_step (G_new v) s = (s\<lparr>os_new := v\<rparr>, [])"
| "orgs_step G_close_plan s = (s\<lparr>os_modal := None\<rparr>, [])"
| "orgs_step G_save s = changePlan s"
| "orgs_step (G_saved r) s = plan_changed r s"
| "orgs_step (G_toggle g) s = (s, toggleSuspend g s)"
| "orgs_step (G_toggled g own r) s = suspend_toggled g own r s"

definition orgs_filtered :: "(jstr \<Rightarrow> jstr) \<Rightarrow> orgs_page \<Rightarrow> admin_org list" where
  "orgs_filtered lc s =
     filter (\<lambda>g. os_q s = [] \<or> contains (lc (ao_name g)) (lc (os_q s)) \<or> contains (lc (ao_owner g)) (lc (os_q s))
                 \<or> contains (ao_id g) (os_q s))
       (filter (\<lambda>g. os_filter s = (u ''all'') \<or> ao_plan g = os_filter s) (os_orgs s))"

subsection \<open>The view\<close>

definition filter_buttons :: "jstr \<Rightarrow> (jstr \<Rightarrow> 'e) \<Rightarrow> (jstr \<times> jstr) list \<Rightarrow> 'e node" where
  "filter_buttons cur f opts =
     dv (map (\<lambda>(k, label). El ''button'' [Key k, OnClick (f k),
           Sty ''background'' (if cur = k then (u ''var(--card)'') else (u ''transparent'')),
           Sty ''color'' (if cur = k then (u ''var(--ink)'') else (u ''var(--dim)''))] [Txt label]) opts)"

definition org_row :: "admin_org \<Rightarrow> orgs_event node" where
  "org_row g =
     El ''div'' [Key (ao_id g), OnClick (G_open g)]
       [dv [El ''div'' [Sty ''color'' (if is_suspended g then (u ''var(--mute)'') else (u ''var(--ink)''))] [Txt (ao_name g)],
            dv [Txt (ao_owner g), Txt (ux '' {b7} ''), Txt (take 16 (ao_id g))]],
        dv [planPill (ao_plan g)], spt (nshow (ao_members g)), spt (nshow (ao_workers g)), spt (nshow (ao_tasks g)),
        adminStatus (\<not> is_suspended g) (u ''ativo'') (u ''suspenso''),
        El ''div'' [StopClick]
          [btn (G_plan g) [Txt (u ''Plano'')],
           El ''button'' [OnClick (G_toggle g), Sty ''color'' (if is_suspended g then (u ''var(--green)'') else (u ''var(--red)''))]
             [Txt (if is_suspended g then (u ''Ativar'') else (u ''Suspender''))]]]"

definition plan_modal :: "(jstr \<Rightarrow> jstr) \<Rightarrow> jstr \<Rightarrow> orgs_page \<Rightarrow> admin_org \<Rightarrow> orgs_event node" where
  "plan_modal uc lang s g =
     modal lang ((ux ''Alterar plano {2014} '') @ ao_name g) G_close_plan
       [dv [dv [Txt (u ''Plano atual: ''), planPill (ao_plan g)],
            El ''label'' [] [spt (u ''Novo plano''),
              sel_el (os_new s) G_new (map (\<lambda>p. El ''option'' [Key p, Value p] [Txt (uc (take 1 p) @ drop 1 p)]) ADMIN_PLANS)]]]
       (Some [btn G_close_plan [Txt (u ''Cancelar'')],
              El ''button'' [OnClick G_save, Disabled (os_saving s), Sty ''opacity'' (if os_saving s then (u ''.6'') else (u ''1''))]
                [Txt (if os_saving s then (ux ''Salvando{2026}'') else (u ''Salvar''))]])"

definition detailStat :: "jstr \<Rightarrow> 'e node \<Rightarrow> 'e node" where
  "detailStat label value = dv [dvt label, dv [value]]"

definition sectionTitle :: "jstr \<Rightarrow> 'e node" where
  "sectionTitle s = dvt s"

definition member_label :: "detail_member \<Rightarrow> jstr" where
  "member_label m = (if dm_name m \<noteq> [] then dm_name m else hd (split_on 64 (dm_email m)))"

definition detail_modal :: "jstr \<Rightarrow> bool \<Rightarrow> org_detail \<Rightarrow> orgs_event node option" where
  "detail_modal lang busy d =
     (case (dt_org d, dt_members d) of
        (Some g, Some ms) \<Rightarrow>
          (let ts = (case dt_tasks d of Some ts \<Rightarrow> ts | None \<Rightarrow> []) in
           Some (modal lang (ao_name g) G_close_detail
             ([dv [detailStat (u ''Plano'') (planPill (ao_plan g)),
                   detailStat (u ''Estado'') (adminStatus (\<not> is_suspended g) (u ''ativo'') (u ''suspenso'')),
                   detailStat (u ''Membros'') (Txt (nshow (ao_members g))), detailStat (u ''Workers'') (Txt (nshow (ao_workers g))),
                   detailStat (u ''Tasks'') (Txt (nshow (ao_tasks g))), detailStat (u ''Criada'') (Txt (ao_created g))],
               dvt (ao_id g), sectionTitle (u ''Membros'')]
              @ shown busy [dvt (ux ''Carregando{2026}'')]
              @ map (\<lambda>m. El ''div'' [Key (dm_id m)]
                  [dv [dvt (member_label m), dvt (dm_email m)], spt (dm_role m),
                   adminStatus (dm_status m = (u ''active'')) (u ''ativo'') (u ''suspenso'')]) ms
              @ shown (\<not> busy \<and> ms = []) [dvt (u ''Sem membros.'')]
              @ [sectionTitle (u ''Tarefas recentes'')]
              @ map (\<lambda>k. El ''div'' [Key (dk_id k)]
                  [spt (if dk_title k \<noteq> [] then dk_title k else dk_id k), spt (dk_status k)]) (take 8 ts)
              @ shown (\<not> busy \<and> ts = []) [dvt (u ''Nenhuma tarefa.'')]) None))
      | _ \<Rightarrow> None)"

definition orgs_table :: "(jstr \<Rightarrow> jstr) \<Rightarrow> orgs_page \<Rightarrow> orgs_event node" where
  "orgs_table lc s =
     (let rows = orgs_filtered lc s in
      dv ([dv [dv [svg, inp (os_q s) G_q (ux ''Buscar por nome, email ou ID{2026}'')],
               filter_buttons (os_filter s) G_filter (((u ''all''), (u ''Todos'')) # map (\<lambda>p. (p, p)) ADMIN_PLANS),
               sp [Txt (nshow (length rows)), Txt (u '' org(s)'')]],
           dv (map spt [(ux ''Organiza{e7}{e3}o''), (u ''Plano''), (u ''Membros''), (u ''Workers''), (u ''Tasks''), (u ''Estado''), (ux ''A{e7}{f5}es'')])]
          @ map org_row rows
          @ shown (rows = []) [dvt (ux ''Nenhuma organiza{e7}{e3}o encontrada.'')]))"

definition orgs_view :: "(jstr \<Rightarrow> jstr) \<Rightarrow> (jstr \<Rightarrow> jstr) \<Rightarrow> jstr \<Rightarrow> shell \<Rightarrow> orgs_page \<Rightarrow> orgs_event node list option" where
  "orgs_view lc uc lang sh s =
     map_option
       (\<lambda>dialog. shell_view sh (os_loading s)
          ([pageHeadAdmin (ux ''Organiza{e7}{f5}es'') (nshow (length (os_orgs s)) @ (ux '' organiza{e7}{e3}o({f5}es) na plataforma.'')), orgs_table lc s]
           @ (case os_modal s of Some g \<Rightarrow> [plan_modal uc lang s g] | None \<Rightarrow> [])
           @ dialog))
       (case os_detail s of
          None \<Rightarrow> Some []
        | Some d \<Rightarrow> map_option (\<lambda>n. [n]) (detail_modal lang (os_detail_loading s) d))"

end
