(* ===== verification/Admin_Orgs_Facts.thy ===== *)
theory Admin_Orgs_Facts
  imports Admin_Orgs
begin

text \<open>
  What holds of the organisations of the console: the filters, the answers of the detail dialog, the
  requests a click can send.
\<close>

lemmas orgs_handlers = openDetail_def detail_answer_def changePlan_def plan_changed_def toggleSuspend_def
  suspend_toggled_def orgs_load_def Let_def

lemma orgs_filtered_all: "os_q s = [] \<Longrightarrow> os_filter s = (u ''all'') \<Longrightarrow> orgs_filtered lc s = os_orgs s"
  by (simp add: orgs_filtered_def)

lemma orgs_filtered_subset: "set (orgs_filtered lc s) \<subseteq> set (os_orgs s)"
  by (auto simp: orgs_filtered_def)

text \<open>The four plan filters and no search cut the list into its parts.\<close>

lemma plan_filters_partition:
  assumes "\<forall>g \<in> set (os_orgs s). ao_plan g \<in> set ADMIN_PLANS"
  shows "(\<Sum>p \<leftarrow> ADMIN_PLANS. length (orgs_filtered lc (s\<lparr>os_q := [], os_filter := p\<rparr>))) = length (os_orgs s)"
proof -
  have "(\<Sum>p \<leftarrow> ADMIN_PLANS. length (filter (\<lambda>g. ao_plan g = p) gs)) = length gs"
    if "\<forall>g \<in> set gs. ao_plan g \<in> set ADMIN_PLANS" for gs :: "admin_org list"
    using that by (induction gs) (auto simp: ADMIN_PLANS_def)
  from this [OF assms] show ?thesis by (simp add: orgs_filtered_def ADMIN_PLANS_def)
qed

text \<open>
  Rendering throws exactly when the detail lacks its organisation or its members: after an answer
  that was refused, the object without fields, the page is gone.
\<close>

lemma orgs_view_throws:
  "orgs_view lc uc lang sh s = None \<longleftrightarrow> (\<exists>d. os_detail s = Some d \<and> (dt_org d = None \<or> dt_members d = None))"
  by (auto simp: orgs_view_def detail_modal_def Let_def split: option.splits)

lemma refused_detail_throws:
  "orgs_view lc uc lang sh
     (fst (orgs_step (G_detail (Resolved (Some \<lparr>dt_org = None, dt_members = None, dt_tasks = None\<rparr>))) s)) = None"
  by (simp add: orgs_view_throws detail_answer_def)

text \<open>A dialog closed before its answer comes back with it.\<close>

lemma closed_detail_reopens:
  "os_detail (run (\<lambda>e s. fst (orgs_step e s)) [G_open g, G_close_detail, G_detail (Resolved (Some d))] s) = Some d"
  by (simp add: orgs_handlers)

text \<open>The answer of an earlier organisation replaces the dialog of a later one.\<close>

lemma earlier_detail_wins:
  "os_detail (run (\<lambda>e s. fst (orgs_step e s)) [G_open g, G_open h, G_detail (Resolved (Some d))] s) = Some d"
  by (simp add: orgs_handlers)

lemma clicks_org_row [simp]: "clicks (org_row g) = [G_open g, G_plan g, G_toggle g]"
  by (simp add: org_row_def)

lemma clicks_filter_buttons [simp]: "clicks (filter_buttons cur f opts) = map f (map fst opts)"
  by (induction opts) (auto simp: filter_buttons_def)

lemma clicks_plan_modal [simp]:
  "clicks (plan_modal uc lang s g) = [G_close_plan, G_close_plan, G_close_plan] @ (if os_saving s then [] else [G_save])"
  by (simp add: plan_modal_def all_clicks_map_Nil)

lemma clicks_detail_modal: "detail_modal lang busy d = Some n \<Longrightarrow> clicks n = [G_close_detail, G_close_detail]"
  by (auto simp: detail_modal_def Let_def detailStat_def sectionTitle_def all_clicks_map_Nil shown_def split: option.splits)

text \<open>What can be clicked: rows of the list, the filters, the dialogs that are open.\<close>

lemma orgs_clicks:
  assumes "orgs_view lc uc lang sh s = Some ns" "e \<in> set (all_clicks ns)"
  shows "(\<exists>g \<in> set (orgs_filtered lc s). e \<in> {G_open g, G_plan g, G_toggle g})
    \<or> (\<exists>p. e = G_filter p) \<or> e = G_close_detail
    \<or> (os_modal s \<noteq> None \<and> (e = G_close_plan \<or> (e = G_save \<and> \<not> os_saving s)))"
  using assms
  by (auto simp: orgs_view_def shell_view_def orgs_table_def Let_def set_all_clicks_map all_clicks_map_Nil
      clicks_detail_modal split: option.splits if_splits)

text \<open>The button of a row asks for the opposite of the state it shows, for its own organisation.\<close>

lemma suspension_requested:
  "sends (snd (orgs_step (G_toggle g) s)) = [(POST,
     (u ''/v1/admin/orgs/'') @ ao_id g @ (if ao_suspended g = (u ''true'') then (u ''/unsuspend'') else (u ''/suspend'')), Some (JObj []),
     Orgs_toggle g (\<exists>d h. os_detail s = Some d \<and> dt_org d = Some h \<and> ao_id h = ao_id g))]"
  by (auto simp: toggleSuspend_def is_suspended_def u_def split: option.splits)

text \<open>A plan is sent only by the open dialog, for its organisation, as the select shows it.\<close>

lemma plan_sent:
  assumes "(POST, p, Some (JObj [((u ''plan''), v)]), k) \<in> set (sends (snd (orgs_step e s)))"
  shows "e = G_save \<and> v = JStr (os_new s) \<and> (\<exists>g. os_modal s = Some g \<and> p = (u ''/v1/admin/orgs/'') @ ao_id g @ (u ''/plan''))"
  using assms by (cases e) (auto simp: orgs_handlers split: option.splits outcome.splits if_splits)

text \<open>Choosing plans in the dialog moves its selection and nothing else.\<close>

lemma plan_chosen:
  "os_modal (run (\<lambda>e s. fst (orgs_step e s)) (map G_new ps) t) = os_modal t
   \<and> os_new (run (\<lambda>e s. fst (orgs_step e s)) (map G_new ps) t) = last (os_new t # ps)"
  by (induction ps arbitrary: t) auto

text \<open>A refused change closes the dialog like an accepted one.\<close>

lemma refused_plan_closes: "os_modal (fst (orgs_step (G_saved (Resolved j)) s)) = None"
  by (simp add: plan_changed_def)

text \<open>While the page is loading the list is empty.\<close>

definition orgs_inv :: "orgs_page \<Rightarrow> bool" where
  "orgs_inv s = (os_loading s \<longrightarrow> os_orgs s = [])"

interpretation orgs_machine: stepper orgs_start "\<lambda>e s. fst (orgs_step e s)" orgs_inv
proof
  show "orgs_inv orgs_start" by (simp add: orgs_inv_def orgs_start_def)
  show "orgs_inv (fst (orgs_step e s))" if "orgs_inv s" for e s
    using that by (cases e) (auto simp: orgs_inv_def orgs_handlers split: option.splits outcome.splits)
qed

text \<open>
  The plan dialog of the console sends, for the organisation it was opened on, the last plan
  chosen in it, or the current one when none was; left before, it sends nothing.
\<close>

lemma chosen_plan_is_sent:
  "sends (snd (orgs_step G_save (run (\<lambda>e s. fst (orgs_step e s)) (G_plan g # map G_new ps) s))) =
     [(POST, (u ''/v1/admin/orgs/'') @ ao_id g @ (u ''/plan''), Some (JObj [((u ''plan''), JStr (last (ao_plan g # ps)))]), Orgs_plan)]
   \<and> sends (snd (orgs_step G_save (run (\<lambda>e s. fst (orgs_step e s)) (G_plan g # map G_new ps @ [G_close_plan]) s))) = []"
  using plan_chosen [of ps "s\<lparr>os_modal := Some g, os_new := ao_plan g\<rparr>"] by (simp add: changePlan_def)

end
