(* ===== verification/Admin_Users.thy ===== *)
theory Admin_Users
  imports Admin_Orgs_Facts
begin

text \<open>
  The users of the console, app/superadmin/users/page.tsx: search and status filter, the switch of a
  user with its busy mark. \<open>my\<close> is the e-mail a render reads from storage; \<open>lc\<close> is toLowerCase. The
  reload that follows a switch answers with a tag of its own: its end clears the busy mark.
\<close>

record admin_user =
  us_id :: jstr
  us_email :: jstr
  us_name :: jstr
  us_status :: jstr
  us_created :: jstr
  us_org :: jstr
  us_role :: jstr

record users_page =
  up_users :: "admin_user list"
  up_loading :: bool
  up_q :: jstr
  up_filter :: jstr
  up_busy :: jstr

definition users_start :: users_page where
  "users_start = \<lparr>up_users = [], up_loading = True, up_q = [], up_filter = (u ''all''), up_busy = []\<rparr>"

datatype users_tag = Users_list bool | Users_toggle

datatype users_event =
    H_mount
  | H_users bool "admin_user list pdata outcome"
  | H_q jstr
  | H_filter jstr
  | H_toggle admin_user
  | H_toggled "json outcome"

definition users_load :: "bool \<Rightarrow> users_tag cmd list" where
  "users_load again = [Send GET (u ''/v1/admin/users'') None (Users_list again)]"

definition user_action :: "admin_user \<Rightarrow> jstr" where
  "user_action x = (if us_status x = (u ''suspended'') then (u ''activate'') else (u ''suspend''))"

definition toggle_user :: "admin_user \<Rightarrow> users_page \<Rightarrow> users_page \<times> users_tag cmd list" where
  "toggle_user x s =
     (s\<lparr>up_busy := us_id x\<rparr>,
      [Send POST ((u ''/v1/admin/users/'') @ us_id x @ (u ''/'') @ user_action x) (Some (JObj [])) Users_toggle])"

definition user_toggled :: "json outcome \<Rightarrow> users_page \<Rightarrow> users_page \<times> users_tag cmd list" where
  "user_toggled r s =
     (case r of
        Resolved _ \<Rightarrow> (s, users_load True)
      | Rejected _ \<Rightarrow> (s\<lparr>up_busy := []\<rparr>, []))"

fun users_step :: "users_event \<Rightarrow> users_page \<Rightarrow> users_page \<times> users_tag cmd list" where
  "users_step H_mount s = (s, users_load False)"
| "users_step (H_users again r) s =
     (s\<lparr>up_users := take_list r (up_users s), up_loading := False, up_busy := (if again then [] else up_busy s)\<rparr>, [])"
| "users_step (H_q v) s = (s\<lparr>up_q := v\<rparr>, [])"
| "users_step (H_filter v) s = (s\<lparr>up_filter := v\<rparr>, [])"
| "users_step (H_toggle x) s = toggle_user x s"
| "users_step (H_toggled r) s = user_toggled r s"

definition users_filtered :: "(jstr \<Rightarrow> jstr) \<Rightarrow> users_page \<Rightarrow> admin_user list" where
  "users_filtered lc s =
     filter (\<lambda>x. up_q s = [] \<or> contains (lc (us_email x)) (lc (up_q s)) \<or> contains (lc (us_name x)) (lc (up_q s)))
       (filter (\<lambda>x. up_filter s = (u ''all'') \<or> us_status x = up_filter s) (up_users s))"

definition active_users :: "admin_user list \<Rightarrow> nat" where
  "active_users xs = length (filter (\<lambda>x. us_status x = (u ''active'')) xs)"

definition suspended_users :: "admin_user list \<Rightarrow> nat" where
  "suspended_users xs = length xs - active_users xs"

definition is_self :: "(jstr \<Rightarrow> jstr) \<Rightarrow> jstr \<Rightarrow> admin_user \<Rightarrow> bool" where
  "is_self lc my x = (my \<noteq> [] \<and> lc (us_email x) = lc my)"

definition user_row :: "(jstr \<Rightarrow> jstr) \<Rightarrow> jstr \<Rightarrow> users_page \<Rightarrow> admin_user \<Rightarrow> users_event node" where
  "user_row lc my s x =
     (let self = is_self lc my x; busy = (up_busy s = us_id x); off = (us_status x = (u ''suspended'')) in
      El ''div'' [Key (us_id x)]
        [dv [El ''div'' [Sty ''color'' (if off then (u ''var(--mute)'') else (u ''var(--ink)''))]
               (Txt (if us_name x \<noteq> [] then us_name x else hd (split_on 64 (us_email x))) # shown self [spt (ux ''VOC{ca}'')]),
             dvt (us_email x)],
         spt (if us_org x \<noteq> [] then take 14 (us_org x) else (ux ''{2014}'')),
         spt (if us_role x \<noteq> [] then us_role x else (ux ''{2014}'')),
         adminStatus (us_status x = (u ''active'')) (u ''ativo'') (u ''suspenso''),
         spt (us_created x),
         dv [El ''button'' [OnClick (H_toggle x), Disabled (self \<or> busy),
               Title (if self then (ux ''N{e3}o {e9} poss{ed}vel alterar o pr{f3}prio status'') else []),
               Sty ''color'' (if off then (u ''var(--green)'') else (u ''var(--red)'')),
               Sty ''opacity'' (if self then (u ''.4'') else if busy then (u ''.6'') else (u ''1''))]
               [Txt (if busy then (ux ''{2026}'') else if off then (u ''Ativar'') else (u ''Suspender''))]]])"

definition users_view :: "(jstr \<Rightarrow> jstr) \<Rightarrow> jstr \<Rightarrow> shell \<Rightarrow> users_page \<Rightarrow> users_event node list" where
  "users_view lc my sh s =
     (let xs = up_users s; rows = users_filtered lc s in
      shell_view sh (up_loading s)
        [pageHeadAdmin (ux ''Usu{e1}rios'') (nshow (length xs) @ (ux '' usu{e1}rio(s) {b7} '') @ nshow (active_users xs) @ (ux '' ativo(s) {b7} '')
            @ nshow (suspended_users xs) @ (u '' suspenso(s).'')),
         dv ([dv [dv [svg, inp (up_q s) H_q (ux ''Buscar por email ou nome{2026}'')],
                  filter_buttons (up_filter s) H_filter [((u ''all''), (u ''Todos'')), ((u ''active''), (u ''Ativos'')), ((u ''suspended''), (u ''Suspensos''))],
                  sp [Txt (nshow (length rows)), Txt (ux '' usu{e1}rio(s)'')]],
              dv (map spt [(ux ''Usu{e1}rio''), (u ''Org''), (u ''Papel''), (u ''Status''), (u ''Criado''), (ux ''A{e7}{f5}es'')])]
             @ map (user_row lc my s) rows
             @ shown (rows = []) [dvt (ux ''Nenhum usu{e1}rio encontrado.'')])])"

subsection \<open>Facts\<close>

lemma clicks_user_row [simp]:
  "clicks (user_row lc my s x) = (if is_self lc my x \<or> up_busy s = us_id x then [] else [H_toggle x])"
  by (simp add: user_row_def Let_def all_clicks_map_Nil)

lemma users_clicks:
  "set (all_clicks (users_view lc my sh s)) =
     (if sh_ok sh
      then H_filter ` {(u ''all''), (u ''active''), (u ''suspended'')}
        \<union> H_toggle ` {x \<in> set (users_filtered lc s). \<not> is_self lc my x \<and> up_busy s \<noteq> us_id x}
      else {})"
  by (auto simp: users_view_def shell_view_def Let_def set_all_clicks_map all_clicks_map_Nil split: if_splits)

text \<open>Nobody can switch the account they signed in with.\<close>

lemma own_account_is_safe:
  assumes "my \<noteq> []" "lc (us_email x) = lc my"
  shows "H_toggle x \<notin> set (all_clicks (users_view lc my sh s))"
  using assms by (auto simp: users_clicks is_self_def)

text \<open>The heading counts every account that is not active as suspended; the filter shows fewer.\<close>

lemma suspended_users_count:
  "length (filter (\<lambda>x. us_status x = (u ''suspended'')) xs) \<le> suspended_users xs"
  "active_users xs + suspended_users xs = length xs"
proof -
  have "length (filter (\<lambda>x. us_status x = (u ''suspended'')) xs) \<le> length (filter (\<lambda>x. us_status x \<noteq> (u ''active'')) xs)"
    by (rule filter_le_count) simp
  then show "length (filter (\<lambda>x. us_status x = (u ''suspended'')) xs) \<le> suspended_users xs"
    using length_filter_split [of "\<lambda>x. us_status x = (u ''active'')" xs] by (simp add: suspended_users_def active_users_def)
  show "active_users xs + suspended_users xs = length xs"
    by (simp add: suspended_users_def active_users_def)
qed

lemma user_switch:
  "sends (snd (users_step (H_toggle x) s)) =
     [(POST, (u ''/v1/admin/users/'') @ us_id x @ (if us_status x = (u ''suspended'') then (u ''/activate'') else (u ''/suspend'')),
       Some (JObj []), Users_toggle)]"
  by (simp add: toggle_user_def user_action_def u_def)

text \<open>The busy mark ends with the reload, or at once when the request is rejected.\<close>

lemma busy_ends:
  "up_busy (fst (users_step (H_users True r) s)) = []"
  "up_busy (fst (users_step (H_toggled (Rejected m)) s)) = []"
  by (simp_all add: user_toggled_def)

text \<open>One mark for all: a second switch takes it from the first, whose button is on again.\<close>

lemma busy_mark_moves:
  assumes "us_id x \<noteq> us_id y" "\<not> is_self lc my x" "x \<in> set (users_filtered lc s)" "sh_ok sh"
  shows "H_toggle x \<in> set (all_clicks (users_view lc my sh (run (\<lambda>e s. fst (users_step e s)) [H_toggle x, H_toggle y] s)))"
  using assms by (simp add: users_clicks toggle_user_def users_filtered_def)

definition users_inv :: "users_page \<Rightarrow> bool" where
  "users_inv s = (up_loading s \<longrightarrow> up_users s = [])"

interpretation users_machine: stepper users_start "\<lambda>e s. fst (users_step e s)" users_inv
proof
  show "users_inv users_start" by (simp add: users_inv_def users_start_def)
  show "users_inv (fst (users_step e s))" if "users_inv s" for e s
    using that by (cases e) (auto simp: users_inv_def toggle_user_def user_toggled_def split: outcome.splits)
qed

text \<open>The e-mail of the sign-in is the one the page compares with.\<close>

lemma signed_in_email:
  assumes "has_window b" "truthy (jget (u ''access_token'') r)"
  shows "getEmail (perform_all (snd (login_step lang nxt (Auth_answer mail (Resolved r)) s)) b) = mail"
  using assms by (cases r) (auto simp: getEmail_def or_blank_def email_key_def token_key_def)

end
