(* ===== verification/Admin_Audit.thy ===== *)
theory Admin_Audit
  imports Admin_Orgs_Facts
begin

text \<open>
  The audit of the console, app/superadmin/audit/page.tsx: a list loaded for a scope, again at each
  change of the scope. A request does not remember its scope: answers act as they arrive.
\<close>

record admin_audit_page =
  xp_rows :: "admin_audit list"
  xp_loading :: bool
  xp_scope :: jstr
  xp_q :: jstr

definition admin_audit_start :: admin_audit_page where
  "admin_audit_start = \<lparr>xp_rows = [], xp_loading = True, xp_scope = (u ''admin''), xp_q = []\<rparr>"

datatype admin_audit_event =
    X_mount
  | X_rows "admin_audit list pdata outcome"
  | X_scope jstr
  | X_q jstr

definition audit_load :: "jstr \<Rightarrow> admin_audit_page \<Rightarrow> admin_audit_page \<times> unit cmd list" where
  "audit_load scope s =
     (s\<lparr>xp_loading := True\<rparr>,
      [Send GET ((u ''/v1/admin/audit?limit=200'') @ (if scope = (u ''admin'') then (u ''&scope=admin'') else [])) None ()])"

fun admin_audit_step :: "admin_audit_event \<Rightarrow> admin_audit_page \<Rightarrow> admin_audit_page \<times> unit cmd list" where
  "admin_audit_step X_mount s = audit_load (xp_scope s) s"
| "admin_audit_step (X_rows r) s = (s\<lparr>xp_rows := take_list r (xp_rows s), xp_loading := False\<rparr>, [])"
| "admin_audit_step (X_scope v) s = (if v = xp_scope s then (s, []) else audit_load v (s\<lparr>xp_scope := v\<rparr>))"
| "admin_audit_step (X_q v) s = (s\<lparr>xp_q := v\<rparr>, [])"

definition actionColor :: "jstr \<Rightarrow> jstr" where
  "actionColor action =
     (if starts_with action (u ''admin.'') then (u ''var(--red)'')
      else if contains action (u ''delete'') \<or> contains action (u ''suspend'') \<or> contains action (u ''fail'') then (u ''var(--orange)'')
      else (u ''var(--accent)''))"

definition audit_filtered :: "(jstr \<Rightarrow> jstr) \<Rightarrow> admin_audit_page \<Rightarrow> admin_audit list" where
  "audit_filtered lc s =
     filter (\<lambda>a. xp_q s = [] \<or> contains (lc (aa_action a)) (lc (xp_q s)) \<or> contains (lc (aa_email a)) (lc (xp_q s))
                 \<or> contains (lc (aa_org a)) (lc (xp_q s))) (xp_rows s)"

definition audit_actor :: "admin_audit \<Rightarrow> jstr" where
  "audit_actor a = (if aa_email a \<noteq> [] then aa_email a else if aa_actor a \<noteq> [] then aa_actor a else aa_actor_type a)"

definition audit_when :: "jstr \<Rightarrow> jstr" where
  "audit_when s = replace_first (u ''Z'') [] (replace_first (u ''T'') (u '' '') s)"

definition admin_audit_row :: "admin_audit \<Rightarrow> admin_audit_event node" where
  "admin_audit_row a =
     El ''div'' [Key (aa_id a)]
       [El ''span'' [Sty ''color'' (actionColor (aa_action a))] [Txt (aa_action a)],
        spt (if aa_org a \<noteq> [] then aa_org a else (ux ''{2014}'')),
        sp (Txt (audit_actor a)
            # shown (aa_target a \<noteq> []) [sp [Txt (ux '' {2192} ''), Txt (aa_target_type a), Txt (u '':''), Txt (take 18 (aa_target a))]]),
        spt (audit_when (aa_at a))]"

definition admin_audit_view :: "(jstr \<Rightarrow> jstr) \<Rightarrow> shell \<Rightarrow> admin_audit_page \<Rightarrow> admin_audit_event node list" where
  "admin_audit_view lc sh s =
     (let rows = audit_filtered lc s in
      shell_view sh (xp_loading s)
        [pageHeadAdmin (u ''Auditoria'') (ux ''Trilha de a{e7}{f5}es em todas as organiza{e7}{f5}es {2014} server-side.''),
         dv ([dv [dv [svg, inp (xp_q s) X_q (ux ''Buscar por a{e7}{e3}o, ator ou org{2026}'')],
                  filter_buttons (xp_scope s) X_scope [((u ''admin''), (ux ''S{f3} admin'')), ((u ''all''), (u ''Tudo''))],
                  sp [Txt (nshow (length rows)), Txt (u '' evento(s)'')]],
              dv (map spt [(ux ''A{e7}{e3}o''), (u ''Org''), (u ''Ator / Alvo''), (u ''Quando'')])]
             @ map admin_audit_row rows
             @ shown (rows = []) [dvt (u ''Nenhum evento.'')])])"

subsection \<open>Facts\<close>

lemma audit_filtered_subset: "set (audit_filtered lc s) \<subseteq> set (xp_rows s)"
  by (auto simp: audit_filtered_def)

text \<open>Only a change of scope asks again, for the scope chosen.\<close>

lemma scope_requested:
  "sends (snd (admin_audit_step (X_scope v) s)) =
     (if v = xp_scope s then []
      else [(GET, if v = (u ''admin'') then (u ''/v1/admin/audit?limit=200&scope=admin'') else (u ''/v1/admin/audit?limit=200''), None, ())])"
  by (simp add: audit_load_def u_def)

text \<open>
  Two loads under way: the page shows the answer that arrives last, whichever scope it was for, and
  stops loading at the first.
\<close>

lemma late_scope_wins:
  fixes A B :: "admin_audit list"
  shows "let s1 = run (\<lambda>e s. fst (admin_audit_step e s))
                [X_mount, X_scope (u ''all''), X_rows (Resolved (Dat A))] admin_audit_start;
             s2 = fst (admin_audit_step (X_rows (Resolved (Dat B))) s1) in
    \<not> xp_loading s1 \<and> xp_rows s1 = A \<and> xp_rows s2 = B \<and> xp_scope s2 = (u ''all'')"
  by (simp add: admin_audit_start_def audit_load_def take_list_def)

text \<open>An instant of the server is shown without its letters, digit for digit.\<close>

lemma audit_when_plain:
  assumes "\<not> contains d (u ''T'')" "\<not> contains d (u ''Z'')" "\<not> contains h (u ''T'')" "\<not> contains h (u ''Z'')"
  shows "audit_when (d @ (u ''T'') @ h @ (u ''Z'')) = d @ (u '' '') @ h"
proof -
  have hit: "replace_first [c] r (d' @ c # t) = d' @ r @ t" if "c \<notin> set d'" for c r d' t
    using that by (induction d') (auto simp: starts_with_def)
  have mem: "contains s [c] \<longleftrightarrow> c \<in> set s" for s c
    by (induction s) (auto simp: take_Suc_conv_app_nth)
  have u: "(u ''T'') = [84]" "(u ''Z'') = [90]" "(u '' '') = [32]" by (simp_all add: u_def)
  show ?thesis
    using assms hit [of 84 d "[32]" "h @ [90]"] hit [of 90 "d @ 32 # h" "[]" "[]"]
    by (simp add: audit_when_def u mem)
qed

lemma admin_audit_clicks:
  "set (all_clicks (admin_audit_view lc sh s)) = (if sh_ok sh then {X_scope (u ''admin''), X_scope (u ''all'')} else {})"
  by (auto simp: admin_audit_view_def shell_view_def Let_def admin_audit_row_def all_clicks_map_Nil shown_def)

lemma actionColor_admin: "actionColor ((u ''admin.'') @ a) = (u ''var(--red)'')"
  by (simp add: actionColor_def starts_with_def)

definition scope_inv :: "admin_audit_page \<Rightarrow> bool" where
  "scope_inv s = (xp_scope s \<in> {(u ''admin''), (u ''all'')})"

text \<open>The clicks of the page keep the scope one of the two.\<close>

interpretation audit_use:
  guarded_page admin_audit_start "\<lambda>e s. fst (admin_audit_step e s)" "admin_audit_view lc sh"
    "\<lambda>e. e = X_mount \<or> (\<exists>r. e = X_rows r)" scope_inv for lc sh
proof
  show "scope_inv admin_audit_start" by (simp add: scope_inv_def admin_audit_start_def)
  show "scope_inv (fst (admin_audit_step e s))" if "scope_inv s" "e = X_mount \<or> (\<exists>r. e = X_rows r)" for s e
    using that by (auto simp: scope_inv_def audit_load_def)
  show "scope_inv (fst (admin_audit_step e s))" if i: "scope_inv s" and r: "raises (admin_audit_view lc sh s) e" for s e
  proof (cases e)
    case (X_scope v)
    have "X_scope v \<in> set (all_clicks (admin_audit_view lc sh s))"
      using r X_scope
      by (auto simp: raises_def admin_audit_view_def shell_view_def Let_def admin_audit_row_def filter_buttons_def
          pageHeadAdmin_def set_all_inputs_map set_all_keys_map split: if_splits)
    then show ?thesis using i X_scope by (auto simp: admin_audit_clicks scope_inv_def audit_load_def split: if_splits)
  qed (use i in \<open>simp_all add: scope_inv_def audit_load_def\<close>)
qed

end
