(* ===== verification/Dc_Value.thy ===== *)
theory Dc_Value
  imports Browser Js_Parse
begin

text \<open>
  The JavaScript values that the templates of the prototype runtime (src/support.js) compute with:
  primitive values, and objects by their address, so that \<open>===\<close> on objects is identity. What the
  runtime reads of an object (its kind, its own properties, its elements) is in a heap; what a
  prototype chain adds, and what the conversion of an object to a primitive calls, belongs to the page
  and is a field of the same record. Symbols and big integers do not occur; reading a property does
  not throw on a value that is neither null nor undefined.
\<close>

subsection \<open>Values\<close>

datatype jnum = NFin rat | NNaN | NInf bool

datatype prim = PUndef | PNull | PBool bool | PNum jnum | PStr jstr

datatype dval = VP prim | VRef nat

abbreviation VUndef :: dval where "VUndef \<equiv> VP PUndef"
abbreviation VNull :: dval where "VNull \<equiv> VP PNull"
abbreviation VBool :: "bool \<Rightarrow> dval" where "VBool b \<equiv> VP (PBool b)"
abbreviation VNum :: "rat \<Rightarrow> dval" where "VNum x \<equiv> VP (PNum (NFin x))"
abbreviation VStr :: "jstr \<Rightarrow> dval" where "VStr s \<equiv> VP (PStr s)"

datatype dobj =
    OArr "dval list"
  | OPlain "(jstr \<times> dval) list"
  | OFun "(jstr \<times> dval) list"
  | OElem "(jstr \<times> dval) list"

record dc_world =
  w_heap :: "nat \<Rightarrow> dobj"
  w_proto :: "string \<Rightarrow> jstr \<Rightarrow> dval"
  w_prim :: "nat \<Rightarrow> prim"
  w_text :: "nat \<Rightarrow> jstr"

definition nullish :: "dval \<Rightarrow> bool" where
  "nullish v = (v = VUndef \<or> v = VNull)"

lemma nullish_simps [simp]:
  "nullish VUndef" "nullish VNull" "\<not> nullish (VBool b)" "\<not> nullish (VP (PNum x))" "\<not> nullish (VStr s)" "\<not> nullish (VRef a)"
  by (simp_all add: nullish_def)

definition is_array :: "dc_world \<Rightarrow> dval \<Rightarrow> bool" where
  "is_array w v = (case v of VRef a \<Rightarrow> (case w_heap w a of OArr _ \<Rightarrow> True | _ \<Rightarrow> False) | _ \<Rightarrow> False)"

definition is_function :: "dc_world \<Rightarrow> dval \<Rightarrow> bool" where
  "is_function w v = (case v of VRef a \<Rightarrow> (case w_heap w a of OFun _ \<Rightarrow> True | _ \<Rightarrow> False) | _ \<Rightarrow> False)"

definition is_element :: "dc_world \<Rightarrow> dval \<Rightarrow> bool" where
  "is_element w v = (case v of VRef a \<Rightarrow> (case w_heap w a of OElem _ \<Rightarrow> True | _ \<Rightarrow> False) | _ \<Rightarrow> False)"

text \<open>\<open>v && typeof v === "object"\<close>.\<close>

definition is_object :: "dc_world \<Rightarrow> dval \<Rightarrow> bool" where
  "is_object w v = (\<exists>a. v = VRef a \<and> \<not> is_function w v)"

lemma is_object_code [code, simp]:
  "is_object w (VP p) = False" "is_object w (VRef a) = (\<not> is_function w (VRef a))"
  by (simp_all add: is_object_def)

definition type_of :: "dc_world \<Rightarrow> dval \<Rightarrow> jstr" where
  "type_of w v =
     (case v of
        VP PUndef \<Rightarrow> (u ''undefined'')
      | VP PNull \<Rightarrow> (u ''object'')
      | VP (PBool _) \<Rightarrow> (u ''boolean'')
      | VP (PNum _) \<Rightarrow> (u ''number'')
      | VP (PStr _) \<Rightarrow> (u ''string'')
      | VRef _ \<Rightarrow> (if is_function w v then (u ''function'') else (u ''object'')))"

fun vtruthy :: "dval \<Rightarrow> bool" where
  "vtruthy (VP PUndef) = False"
| "vtruthy (VP PNull) = False"
| "vtruthy (VP (PBool b)) = b"
| "vtruthy (VP (PNum x)) = (x \<noteq> NFin 0 \<and> x \<noteq> NNaN)"
| "vtruthy (VP (PStr s)) = (s \<noteq> [])"
| "vtruthy (VRef _) = True"

subsection \<open>Numbers as texts\<close>

text \<open>
  \<open>Number::toString\<close>: the decimal with the fewest digits that rounds to the number (among those
  the nearest), \<open>k\<close> digits \<open>s\<close> with the point after the first \<open>n\<close>. Integers below \<open>2^53\<close> are their own digits.
\<close>

definition dec_expo :: "rat \<Rightarrow> int" where
  "dec_expo x =
     (let (a, b) = quotient_of x; e = int (length (nshow (nat a))) - int (length (nshow (nat b)))
      in if 10 powi e \<le> x then e + 1 else e)"

definition decimal_at :: "rat \<Rightarrow> int \<Rightarrow> nat \<Rightarrow> (nat \<times> int) option" where
  "decimal_at x n k =
     (let y = x * 10 powi (int k - n); lo = nat \<lfloor>y\<rfloor>;
          ok = (\<lambda>s. 10 ^ (k - 1) \<le> s \<and> s \<le> 10 ^ k \<and> fl (of_nat s * 10 powi (n - int k)) = x);
          pick = (\<lambda>s. Some (if s = 10 ^ k then (1, n + 1) else (s, n)))
      in if ok lo \<and> ok (lo + 1) then pick (if of_nat (lo + 1) - y < y - of_nat lo then lo + 1 else lo)
         else if ok lo then pick lo
         else if ok (lo + 1) then pick (lo + 1) else None)"

definition shortest_decimal :: "rat \<Rightarrow> nat \<times> int" where
  "shortest_decimal x =
     (let n = dec_expo x
      in (case List.map_filter (decimal_at x n) [1..<18] of r # _ \<Rightarrow> r | [] \<Rightarrow> (nat \<lfloor>x\<rfloor>, n)))"

definition exp_text :: "int \<Rightarrow> jstr" where
  "exp_text e = 101 # (if e < 0 then 45 # nshow (nat (- e)) else 43 # nshow (nat e))"

definition pos_show :: "rat \<Rightarrow> jstr" where
  "pos_show x =
     (let (s, n) = shortest_decimal x; ds = nshow s; k = int (length ds)
      in if k \<le> n \<and> n \<le> 21 then ds @ replicate (nat (n - k)) 48
         else if 0 < n \<and> n \<le> 21 then take (nat n) ds @ 46 # drop (nat n) ds
         else if - 6 < n \<and> n \<le> 0 then [48, 46] @ replicate (nat (- n)) 48 @ ds
         else if k = 1 then ds @ exp_text (n - 1)
         else take 1 ds @ 46 # drop 1 ds @ exp_text (n - 1))"

definition rat_show :: "rat \<Rightarrow> jstr" where
  "rat_show x =
     (if x = of_int \<lfloor>x\<rfloor> \<and> \<bar>x\<bar> < 2 ^ 53 then ishow \<lfloor>x\<rfloor>
      else if x < 0 then 45 # pos_show (- x) else pos_show x)"

fun num_show :: "jnum \<Rightarrow> jstr" where
  "num_show (NFin x) = rat_show x"
| "num_show NNaN = (u ''NaN'')"
| "num_show (NInf neg) = (if neg then (u ''-Infinity'') else (u ''Infinity''))"

lemma rat_show_int: "\<bar>i\<bar> < 2 ^ 53 \<Longrightarrow> rat_show (of_int i) = ishow i"
proof -
  assume "\<bar>i\<bar> < 2 ^ 53"
  then have "\<bar>of_int i :: rat\<bar> < 2 ^ 53"
    by (metis of_int_abs of_int_less_iff of_int_numeral of_int_power)
  then show ?thesis by (simp add: rat_show_def)
qed

lemma num_show_nat: "n < 2 ^ 53 \<Longrightarrow> num_show (NFin (of_nat n)) = nshow n"
  using rat_show_int [of "int n"] by (simp add: ishow_def)

fun prim_show :: "prim \<Rightarrow> jstr" where
  "prim_show PUndef = (u ''undefined'')"
| "prim_show PNull = (u ''null'')"
| "prim_show (PBool b) = (if b then (u ''true'') else (u ''false''))"
| "prim_show (PNum x) = num_show x"
| "prim_show (PStr s) = s"

text \<open>\<open>String(v)\<close>, which is also the key that \<open>o[v]\<close> reads.\<close>

fun val_text :: "dc_world \<Rightarrow> dval \<Rightarrow> jstr" where
  "val_text w (VP p) = prim_show p"
| "val_text w (VRef a) = w_text w a"

subsection \<open>Reading a property\<close>

text \<open>An array index: the canonical decimal of a natural number.\<close>

definition index_of :: "jstr \<Rightarrow> nat option" where
  "index_of k = (let n = digits_value k in if (\<forall>c \<in> set k. 48 \<le> c \<and> c \<le> 57) \<and> nshow n = k then Some n else None)"

lemma index_of_nshow [simp]: "index_of (nshow n) = Some n"
  using nshow_digits [of n] by (simp add: index_of_def Let_def)

lemma index_of_eq: "index_of k = Some n \<longleftrightarrow> k = nshow n"
  using nshow_digits [of n] by (auto simp: index_of_def Let_def split: if_splits)

text \<open>A repeated key of a property list keeps its last value, as an assignment does.\<close>

definition own :: "(jstr \<times> dval) list \<Rightarrow> jstr \<Rightarrow> dval option" where
  "own kvs k = map_of (rev kvs) k"

definition seq_prop :: "dc_world \<Rightarrow> string \<Rightarrow> dval list \<Rightarrow> jstr \<Rightarrow> dval" where
  "seq_prop w kind vs k =
     (if k = (u ''length'') then VNum (of_nat (length vs))
      else (case index_of k of
              Some n \<Rightarrow> (if n < length vs then vs ! n else w_proto w kind k)
            | None \<Rightarrow> w_proto w kind k))"

definition kvs_prop :: "dc_world \<Rightarrow> string \<Rightarrow> (jstr \<times> dval) list \<Rightarrow> jstr \<Rightarrow> dval" where
  "kvs_prop w kind kvs k = (case own kvs k of Some v \<Rightarrow> v | None \<Rightarrow> w_proto w kind k)"

text \<open>\<open>v == null ? undefined : v[k]\<close>.\<close>

fun get_prop :: "dc_world \<Rightarrow> dval \<Rightarrow> jstr \<Rightarrow> dval" where
  "get_prop w (VP PUndef) k = VUndef"
| "get_prop w (VP PNull) k = VUndef"
| "get_prop w (VP (PBool b)) k = w_proto w ''Boolean'' k"
| "get_prop w (VP (PNum x)) k = w_proto w ''Number'' k"
| "get_prop w (VP (PStr s)) k = seq_prop w ''String'' (map (\<lambda>c. VStr [c]) s) k"
| "get_prop w (VRef a) k =
     (case w_heap w a of
        OArr vs \<Rightarrow> seq_prop w ''Array'' vs k
      | OPlain kvs \<Rightarrow> kvs_prop w ''Object'' kvs k
      | OFun kvs \<Rightarrow> kvs_prop w ''Function'' kvs k
      | OElem kvs \<Rightarrow> kvs_prop w ''Object'' kvs k)"

lemma get_prop_nullish [simp]: "nullish v \<Longrightarrow> get_prop w v k = VUndef"
  by (auto simp: nullish_def)

lemma get_prop_element:
  "w_heap w a = OArr vs \<Longrightarrow> n < length vs \<Longrightarrow> get_prop w (VRef a) (nshow n) = vs ! n"
proof -
  assume a: "w_heap w a = OArr vs" "n < length vs"
  have "nshow n \<noteq> (u ''length'')"
    using nshow_digits [of n] by (auto simp: u_def dest!: arg_cong [where f = set])
  with a show ?thesis by (simp add: seq_prop_def)
qed

subsection \<open>Equality\<close>

fun num_eq :: "jnum \<Rightarrow> jnum \<Rightarrow> bool" where
  "num_eq (NFin x) (NFin y) = (x = y)"
| "num_eq (NInf a) (NInf b) = (a = b)"
| "num_eq _ _ = False"

fun strict_eq :: "dval \<Rightarrow> dval \<Rightarrow> bool" where
  "strict_eq (VP (PNum x)) (VP (PNum y)) = num_eq x y"
| "strict_eq v v' = (v = v')"

text \<open>\<open>Number(s)\<close>: also the infinities and the numerals with a base.\<close>

definition base_digits :: "nat \<Rightarrow> jstr \<Rightarrow> nat option" where
  "base_digits b ds =
     (let val = (\<lambda>c. if 48 \<le> c \<and> c \<le> 57 then c - 48 else if 97 \<le> c \<and> c \<le> 122 then c - 87
                     else if 65 \<le> c \<and> c \<le> 90 then c - 55 else b)
      in if ds = [] \<or> (\<exists>c \<in> set ds. b \<le> val c) then None
         else Some (foldl (\<lambda>a c. b * a + val c) 0 ds))"

definition str_number :: "jstr \<Rightarrow> jnum" where
  "str_number s =
     (let t = trim s;
          based = (\<lambda>b. case base_digits b (drop 2 t) of Some n \<Rightarrow> NFin (fl (of_nat n)) | None \<Rightarrow> NNaN)
      in if t = (u ''Infinity'') \<or> t = (u ''+Infinity'') then NInf False
         else if t = (u ''-Infinity'') then NInf True
         else if take 2 t \<in> {(u ''0x''), (u ''0X'')} then based 16
         else if take 2 t \<in> {(u ''0o''), (u ''0O'')} then based 8
         else if take 2 t \<in> {(u ''0b''), (u ''0B'')} then based 2
         else (case to_number t of Some x \<Rightarrow> NFin x | None \<Rightarrow> NNaN))"

fun prim_number :: "prim \<Rightarrow> jnum" where
  "prim_number PUndef = NNaN"
| "prim_number PNull = NFin 0"
| "prim_number (PBool b) = NFin (if b then 1 else 0)"
| "prim_number (PNum x) = x"
| "prim_number (PStr s) = str_number s"

text \<open>\<open>==\<close> on primitive values: null and undefined equal each other and nothing else, texts are
  compared as texts, and everything else as numbers.\<close>

definition prim_loose :: "prim \<Rightarrow> prim \<Rightarrow> bool" where
  "prim_loose p q =
     (if p \<in> {PUndef, PNull} \<or> q \<in> {PUndef, PNull} then p \<in> {PUndef, PNull} \<and> q \<in> {PUndef, PNull}
      else (case (p, q) of
              (PStr s, PStr t) \<Rightarrow> s = t
            | _ \<Rightarrow> num_eq (prim_number p) (prim_number q)))"

text \<open>An object against a primitive value: by its conversion, except that none equals null or undefined.\<close>

fun loose_eq :: "dc_world \<Rightarrow> dval \<Rightarrow> dval \<Rightarrow> bool" where
  "loose_eq w (VP p) (VP q) = prim_loose p q"
| "loose_eq w (VRef a) (VRef b) = (a = b)"
| "loose_eq w (VRef a) (VP q) = (q \<notin> {PUndef, PNull} \<and> prim_loose (w_prim w a) q)"
| "loose_eq w (VP p) (VRef b) = (p \<notin> {PUndef, PNull} \<and> prim_loose p (w_prim w b))"

lemma num_eq_sym: "num_eq x y = num_eq y x"
  by (cases x; cases y) auto

lemma strict_eq_sym: "strict_eq v v' = strict_eq v' v"
  by (induction v v' rule: strict_eq.induct) (auto simp: num_eq_sym)

lemma strict_eq_refl: "strict_eq v v \<longleftrightarrow> v \<noteq> VP (PNum NNaN)"
proof (cases v)
  case (VP p)
  then show ?thesis
  proof (cases p)
    case (PNum x)
    with VP show ?thesis by (cases x) auto
  qed auto
qed simp

lemma prim_loose_sym: "prim_loose p q = prim_loose q p"
  by (auto simp: prim_loose_def num_eq_sym split: prim.splits)

lemma loose_eq_sym: "loose_eq w v v' = loose_eq w v' v"
  by (cases v; cases v') (auto simp: prim_loose_sym)

lemma strict_imp_loose: "strict_eq v v' \<Longrightarrow> loose_eq w v v'"
  by (induction v v' rule: strict_eq.induct)
    (auto simp: prim_loose_def split: prim.splits elim: num_eq.elims)

lemma loose_null: "loose_eq w v VNull \<longleftrightarrow> nullish v"
  by (cases v) (auto simp: prim_loose_def nullish_def)

end
