(* ===== verification/Dc_Expr.thy ===== *)
theory Dc_Expr
  imports Dc_Value
begin

text \<open>
  The expressions between the braces of a template (src/expr.ts in src/support.js): parentheses,
  equality, negation, literals and paths. The code evaluates while it scans the text; so does
  \<open>resolve\<close> here, with the length of the text as its measure. \<open>dparse\<close> reads the same texts into a
  syntax tree that does not depend on any value, and \<open>resolve_eq\<close> shows that evaluating the tree
  gives the same result.
\<close>

subsection \<open>Scanning\<close>

definition ident_start :: "nat \<Rightarrow> bool" where
  "ident_start c = (65 \<le> c \<and> c \<le> 90 \<or> 97 \<le> c \<and> c \<le> 122 \<or> c = 95 \<or> c = 36)"

definition is_digit :: "nat \<Rightarrow> bool" where
  "is_digit c = (48 \<le> c \<and> c \<le> 57)"

definition ident_char :: "nat \<Rightarrow> bool" where
  "ident_char c = (ident_start c \<or> is_digit c)"

text \<open>The match of \<open>IDENT_RE\<close> and the rest of the text.\<close>

definition ident_of :: "jstr \<Rightarrow> (jstr \<times> jstr) option" where
  "ident_of s =
     (case s of
        c # cs \<Rightarrow> (if ident_start c then Some (c # takeWhile ident_char cs, dropWhile ident_char cs) else None)
      | [] \<Rightarrow> None)"

definition digits_prefix :: "jstr \<Rightarrow> (jstr \<times> jstr) option" where
  "digits_prefix s =
     (let ds = takeWhile is_digit s in if ds = [] then None else Some (ds, dropWhile is_digit s))"

text \<open>What may follow a dot: a name, or digits.\<close>

definition segment_of :: "jstr \<Rightarrow> (jstr \<times> jstr) option" where
  "segment_of s = (case ident_of s of Some m \<Rightarrow> Some m | None \<Rightarrow> digits_prefix s)"

text \<open>\<open>NUMBER_RE\<close>: an optional minus sign, digits, an optional fraction.\<close>

definition number_text :: "jstr \<Rightarrow> bool" where
  "number_text s =
     (let t = (if starts_with s (u ''-'') then drop 1 s else s);
          ds = takeWhile is_digit t; r = dropWhile is_digit t
      in ds \<noteq> [] \<and> (r = [] \<or> (hd r = 46 \<and> tl r \<noteq> [] \<and> list_all is_digit (tl r))))"

text \<open>\<open>Number(expr)\<close> on such a text.\<close>

definition number_value :: "jstr \<Rightarrow> dval" where
  "number_value s = VP (PNum (str_number s))"

text \<open>The last character is not looked at: that it is a closing parenthesis is the caller's test.\<close>

fun wrap_scan :: "int \<Rightarrow> jstr \<Rightarrow> bool" where
  "wrap_scan d [] = True"
| "wrap_scan d (c # cs) =
     (if c = 40 then wrap_scan (d + 1) cs
      else if c = 41 then (if d - 1 = 0 then False else wrap_scan (d - 1) cs)
      else wrap_scan d cs)"

definition parensWrapWhole :: "jstr \<Rightarrow> bool" where
  "parensWrapWhole e = wrap_scan 0 (butlast e)"

datatype eq_op = StrictEq | StrictNe | LooseEq | LooseNe

definition op_length :: "eq_op \<Rightarrow> nat" where
  "op_length q = (if q \<in> {StrictEq, StrictNe} then 3 else 2)"

definition op_at :: "nat \<Rightarrow> jstr \<Rightarrow> eq_op" where
  "op_at c rest =
     (if (case rest of _ # c3 # _ \<Rightarrow> c3 = 61 | _ \<Rightarrow> False)
      then (if c = 61 then StrictEq else StrictNe)
      else (if c = 61 then LooseEq else LooseNe))"

text \<open>
  The first \<open>==\<close>, \<open>===\<close>, \<open>!=\<close> or \<open>!==\<close> outside brackets that has something other than white space before it
  and is not the second character of another: \<open>pre\<close> is what was read, in reverse.
\<close>

definition eq_here :: "jstr \<Rightarrow> nat \<Rightarrow> jstr \<Rightarrow> bool" where
  "eq_here pre c cs =
     ((c = 61 \<or> c = 33) \<and> (case cs of c2 # _ \<Rightarrow> c2 = 61 | [] \<Rightarrow> False)
      \<and> \<not> (case pre of p # _ \<Rightarrow> p = 61 \<or> p = 33 | [] \<Rightarrow> False) \<and> trim (rev pre) \<noteq> [])"

fun eq_scan :: "jstr \<Rightarrow> int \<Rightarrow> jstr \<Rightarrow> (nat \<times> eq_op) option" where
  "eq_scan pre d [] = None"
| "eq_scan pre d (c # cs) =
     (if c = 91 \<or> c = 40 then eq_scan (c # pre) (d + 1) cs
      else if c = 93 \<or> c = 41 then eq_scan (c # pre) (d - 1) cs
      else if d = 0 \<and> eq_here pre c cs then Some (length pre, op_at c cs)
      else eq_scan (c # pre) d cs)"

definition findTopLevelEquality :: "jstr \<Rightarrow> (nat \<times> eq_op) option" where
  "findTopLevelEquality e = eq_scan [] 0 e"

text \<open>The position of the bracket that closes the one before the text, \<open>d\<close> deep.\<close>

fun bracket_scan :: "nat \<Rightarrow> jstr \<Rightarrow> nat option" where
  "bracket_scan d [] = None"
| "bracket_scan d (c # cs) =
     (if c = 91 then map_option Suc (bracket_scan (d + 1) cs)
      else if c = 93 then (if d = 1 then Some 0 else map_option Suc (bracket_scan (d - 1) cs))
      else map_option Suc (bracket_scan d cs))"

subsection \<open>What the scans leave is shorter\<close>

lemma ident_of_shorter: "ident_of s = Some (m, r) \<Longrightarrow> length r < length s"
  by (cases s) (auto simp: ident_of_def less_Suc_eq_le length_dropWhile_le split: if_splits)

lemma digits_prefix_shorter: "digits_prefix s = Some (m, r) \<Longrightarrow> length r < length s"
  by (cases s) (auto simp: digits_prefix_def Let_def less_Suc_eq_le length_dropWhile_le split: if_splits)

lemma segment_of_shorter: "segment_of s = Some (m, r) \<Longrightarrow> length r < length s"
  by (cases "ident_of s") (auto simp: segment_of_def dest: ident_of_shorter digits_prefix_shorter)

lemma bracket_scan_less: "bracket_scan d s = Some j \<Longrightarrow> j < length s"
  by (induction d s arbitrary: j rule: bracket_scan.induct) (auto split: if_splits)

lemma length_trim: "length (trim s) \<le> length s"
  unfolding trim_def
  by (metis length_dropWhile_le length_rev order_trans)

lemma inner_shorter: "trim s \<noteq> [] \<Longrightarrow> length (trim s) - Suc (Suc 0) < length s"
  "trim s \<noteq> [] \<Longrightarrow> length (trim s) - Suc 0 < length s"
  using length_trim [of s] by (cases "trim s"; simp)+

lemma eq_here_bounds: "eq_here pre c cs \<Longrightarrow> pre \<noteq> [] \<and> op_length (op_at c cs) \<le> Suc (length cs)"
  by (auto simp: eq_here_def op_length_def op_at_def split: list.splits)

lemma eq_scan_bounds:
  "eq_scan pre d s = Some (i, q) \<Longrightarrow>
     length pre \<le> i \<and> i + op_length q \<le> length pre + length s \<and> 0 < i"
proof (induction pre d s rule: eq_scan.induct)
  case (2 pre d c cs)
  consider "c = 91 \<or> c = 40" | "\<not> (c = 91 \<or> c = 40)" "c = 93 \<or> c = 41"
    | "\<not> (c = 91 \<or> c = 40)" "\<not> (c = 93 \<or> c = 41)" "d = 0 \<and> eq_here pre c cs"
    | "\<not> (c = 91 \<or> c = 40)" "\<not> (c = 93 \<or> c = 41)" "\<not> (d = 0 \<and> eq_here pre c cs)" by blast
  then show ?case
  proof cases
    case 1
    with "2.prems" have "eq_scan (c # pre) (d + 1) cs = Some (i, q)" by simp
    from "2.IH"(1) [OF 1 this] show ?thesis by simp
  next
    case 2
    with "2.prems" have "eq_scan (c # pre) (d - 1) cs = Some (i, q)" by simp
    from "2.IH"(2) [OF 2 this] show ?thesis by simp
  next
    case 3
    with "2.prems" have "i = length pre" "q = op_at c cs" by simp_all
    with eq_here_bounds [of pre c cs] 3(3) show ?thesis by simp
  next
    case 4
    with "2.prems" have "eq_scan (c # pre) d cs = Some (i, q)" by simp
    from "2.IH"(3) [OF 4 this] show ?thesis by simp
  qed
qed simp

lemma findTopLevelEquality_bounds:
  "findTopLevelEquality e = Some (i, q) \<Longrightarrow> 0 < i \<and> 2 \<le> op_length q \<and> i + op_length q \<le> length e"
  using eq_scan_bounds [of "[]" 0 e i q] by (auto simp: findTopLevelEquality_def op_length_def)

subsection \<open>Evaluation\<close>

text \<open>The variables a template sees: own properties of an object that inherits from Object.prototype.\<close>

type_synonym scope = "jstr \<rightharpoonup> dval"

definition head_value :: "dc_world \<Rightarrow> scope option \<Rightarrow> jstr \<Rightarrow> dval" where
  "head_value w vs h =
     (case vs of
        None \<Rightarrow> VUndef
      | Some sc \<Rightarrow> (case sc h of Some v \<Rightarrow> v | None \<Rightarrow> w_proto w ''Object'' h))"

definition compare :: "dc_world \<Rightarrow> eq_op \<Rightarrow> dval \<Rightarrow> dval \<Rightarrow> dval" where
  "compare w q a b =
     VBool (case q of
        StrictEq \<Rightarrow> strict_eq a b
      | StrictNe \<Rightarrow> \<not> strict_eq a b
      | LooseEq \<Rightarrow> loose_eq w a b
      | LooseNe \<Rightarrow> \<not> loose_eq w a b)"

text \<open>The literals, tried in the order of the code; \<open>None\<close> is a path.\<close>

definition literal :: "jstr \<Rightarrow> dval option" where
  "literal e =
     (if e = (u ''true'') then Some (VBool True)
      else if e = (u ''false'') then Some (VBool False)
      else if e = (u ''null'') then Some VNull
      else if e = (u ''undefined'') then Some VUndef
      else if number_text e then Some (number_value e)
      else if 2 \<le> length e \<and> (hd e = 34 \<or> hd e = 39) \<and> last e = hd e then Some (VStr (butlast (tl e)))
      else None)"

function resolve :: "dc_world \<Rightarrow> scope option \<Rightarrow> jstr \<Rightarrow> dval"
  and resolvePath :: "dc_world \<Rightarrow> scope option \<Rightarrow> jstr \<Rightarrow> dval \<Rightarrow> dval" where
  "resolve w vs src =
     (let e = trim src
      in if e = [] then VUndef
         else if hd e = 40 \<and> last e = 41 \<and> parensWrapWhole e then resolve w vs (butlast (tl e))
         else (case findTopLevelEquality e of
                 Some (i, q) \<Rightarrow> compare w q (resolve w vs (take i e)) (resolve w vs (drop (i + op_length q) e))
               | None \<Rightarrow>
                   (if hd e = 33 then VBool (\<not> vtruthy (resolve w vs (tl e)))
                    else (case literal e of
                            Some v \<Rightarrow> v
                          | None \<Rightarrow>
                              (case ident_of e of
                                 None \<Rightarrow> VUndef
                               | Some (h, r) \<Rightarrow> resolvePath w vs r (head_value w vs h))))))"
| "resolvePath w vs s cur =
     (case s of
        [] \<Rightarrow> cur
      | c # r \<Rightarrow>
          (if c = 46 then
             (case segment_of r of
                None \<Rightarrow> VUndef
              | Some (m, r') \<Rightarrow> resolvePath w vs r' (get_prop w cur m))
           else if c = 91 then
             (case bracket_scan 1 r of
                None \<Rightarrow> VUndef
              | Some j \<Rightarrow>
                  resolvePath w vs (drop (j + 1) r) (get_prop w cur (val_text w (resolve w vs (take j r)))))
           else VUndef))"
  by pat_completeness auto
termination
proof (relation "measure (case_sum (\<lambda>(w, vs, s). length s) (\<lambda>(w, vs, s, cur). length s))", goal_cases)
  case (2 w vs src e)
  then show ?case by (auto simp: inner_shorter)
next
  case (5 w vs src e x i q)
  then show ?case using length_trim [of src] findTopLevelEquality_bounds [of e i q] by auto
next
  case (6 w vs src e x i q)
  then show ?case using length_trim [of src] findTopLevelEquality_bounds [of e i q] by auto
next
  case (3 w vs src e)
  then show ?case by (auto simp: inner_shorter)
next
  case (4 w vs src e x h r)
  then show ?case using length_trim [of src] ident_of_shorter [of e h r] by auto
next
  case (7 w vs s cur c r x m r')
  then show ?case using segment_of_shorter [of r m r'] by auto
next
  case (8 w vs s cur c r j)
  then show ?case using bracket_scan_less [of 1 r j] by auto
next
  case (9 w vs s cur c r j)
  then show ?case using bracket_scan_less [of 1 r j] by auto
qed auto

declare resolve.simps [simp del] resolvePath.simps [simp del]

subsection \<open>The same texts as syntax trees\<close>

datatype dexpr =
    DLit dval
  | DNot dexpr
  | DEq eq_op dexpr dexpr
  | DPath jstr "dseg list"
and dseg =
    DName jstr
  | DIndex dexpr

fun deval :: "dc_world \<Rightarrow> scope option \<Rightarrow> dexpr \<Rightarrow> dval"
  and dstep :: "dc_world \<Rightarrow> scope option \<Rightarrow> dval \<Rightarrow> dseg list \<Rightarrow> dval" where
  "deval w vs (DLit v) = v"
| "deval w vs (DNot x) = VBool (\<not> vtruthy (deval w vs x))"
| "deval w vs (DEq q x y) = compare w q (deval w vs x) (deval w vs y)"
| "deval w vs (DPath h segs) = dstep w vs (head_value w vs h) segs"
| "dstep w vs cur [] = cur"
| "dstep w vs cur (DName m # segs) = dstep w vs (get_prop w cur m) segs"
| "dstep w vs cur (DIndex x # segs) = dstep w vs (get_prop w cur (val_text w (deval w vs x))) segs"

text \<open>A path with a malformed tail is undefined whatever its head: \<open>None\<close>.\<close>

function dparse :: "jstr \<Rightarrow> dexpr"
  and dsegs :: "jstr \<Rightarrow> dseg list option" where
  "dparse src =
     (let e = trim src
      in if e = [] then DLit VUndef
         else if hd e = 40 \<and> last e = 41 \<and> parensWrapWhole e then dparse (butlast (tl e))
         else (case findTopLevelEquality e of
                 Some (i, q) \<Rightarrow> DEq q (dparse (take i e)) (dparse (drop (i + op_length q) e))
               | None \<Rightarrow>
                   (if hd e = 33 then DNot (dparse (tl e))
                    else (case literal e of
                            Some v \<Rightarrow> DLit v
                          | None \<Rightarrow>
                              (case ident_of e of
                                 None \<Rightarrow> DLit VUndef
                               | Some (h, r) \<Rightarrow>
                                   (case dsegs r of None \<Rightarrow> DLit VUndef | Some segs \<Rightarrow> DPath h segs))))))"
| "dsegs s =
     (case s of
        [] \<Rightarrow> Some []
      | c # r \<Rightarrow>
          (if c = 46 then
             (case segment_of r of
                None \<Rightarrow> None
              | Some (m, r') \<Rightarrow> map_option ((#) (DName m)) (dsegs r'))
           else if c = 91 then
             (case bracket_scan 1 r of
                None \<Rightarrow> None
              | Some j \<Rightarrow> map_option ((#) (DIndex (dparse (take j r)))) (dsegs (drop (j + 1) r)))
           else None))"
  by pat_completeness auto
termination
proof (relation "measure (case_sum length length)", goal_cases)
  case (2 src e)
  then show ?case by (auto simp: inner_shorter)
next
  case (5 src e x i q)
  then show ?case using length_trim [of src] findTopLevelEquality_bounds [of e i q] by auto
next
  case (6 src e x i q)
  then show ?case using length_trim [of src] findTopLevelEquality_bounds [of e i q] by auto
next
  case (3 src e)
  then show ?case by (auto simp: inner_shorter)
next
  case (4 src e x h r)
  then show ?case using length_trim [of src] ident_of_shorter [of e h r] by auto
next
  case (7 s c r x m r')
  then show ?case using segment_of_shorter [of r m r'] by auto
next
  case (8 s c r j)
  then show ?case using bracket_scan_less [of 1 r j] by auto
next
  case (9 s c r j)
  then show ?case using bracket_scan_less [of 1 r j] by auto
qed auto

declare dparse.simps [simp del] dsegs.simps [simp del]

text \<open>\<open>segs_eval\<close> is what the rest of a path comes to.\<close>

definition segs_eval :: "dc_world \<Rightarrow> scope option \<Rightarrow> dval \<Rightarrow> dseg list option \<Rightarrow> dval" where
  "segs_eval w vs cur r = (case r of None \<Rightarrow> VUndef | Some segs \<Rightarrow> dstep w vs cur segs)"

lemma segs_eval_simps [simp]:
  "segs_eval w vs cur None = VUndef"
  "segs_eval w vs cur (Some segs) = dstep w vs cur segs"
  "segs_eval w vs cur (map_option ((#) (DName m)) r) = segs_eval w vs (get_prop w cur m) r"
  "segs_eval w vs cur (map_option ((#) (DIndex x)) r) = segs_eval w vs (get_prop w cur (val_text w (deval w vs x))) r"
  by (cases r; simp add: segs_eval_def)+

lemma resolve_tree:
  "resolve w vs src = deval w vs (dparse src)"
  "resolvePath w vs s cur = segs_eval w vs cur (dsegs s)"
proof (induction w vs src and w vs s cur rule: resolve_resolvePath.induct)
  case (1 w vs src)
  let ?e = "trim src"
  show ?case
  proof (cases "?e = [] \<or> (hd ?e = 40 \<and> last ?e = 41 \<and> parensWrapWhole ?e)")
    case True
    then show ?thesis using 1(1) [OF refl] by (auto simp: resolve.simps [of w vs src] dparse.simps [of src] Let_def)
  next
    case F: False
    show ?thesis
    proof (cases "findTopLevelEquality ?e")
      case N: None
      show ?thesis
      proof (cases "hd ?e = 33")
        case True
        then show ?thesis using F N 1 by (auto simp: resolve.simps [of w vs src] dparse.simps [of src] Let_def)
      next
        case False
        have "resolvePath w vs r (head_value w vs h) = segs_eval w vs (head_value w vs h) (dsegs r)"
          if "literal ?e = None" "ident_of ?e = Some (h, r)" for h r
          using 1(3) [OF refl _ _ N False that(1,2) refl] F by blast
        with F N False show ?thesis
          by (auto simp: resolve.simps [of w vs src] dparse.simps [of src] Let_def segs_eval_def split: option.splits)
      qed
    next
      case (Some a)
      obtain i q where a: "a = (i, q)" by (cases a)
      have "resolve w vs (take i ?e) = deval w vs (dparse (take i ?e))"
        using 1(4) [OF refl _ _ Some a [symmetric]] F by blast
      moreover have "resolve w vs (drop (i + op_length q) ?e) = deval w vs (dparse (drop (i + op_length q) ?e))"
        using 1(5) [OF refl _ _ Some a [symmetric]] F by blast
      ultimately show ?thesis using F Some a
        by (auto simp: resolve.simps [of w vs src] dparse.simps [of src] Let_def)
    qed
  qed
next
  case (2 w vs s cur)
  show ?case
  proof (cases s)
    case (Cons c r)
    then show ?thesis using 2
      by (auto simp: resolvePath.simps [of w vs "c # r" cur] dsegs.simps [of "c # r"] split: option.splits)
  qed (simp add: resolvePath.simps dsegs.simps)
qed

subsection \<open>Nesting\<close>

text \<open>
  How deep a text leaves the brackets counted by a scan: parentheses when \<open>p\<close>, square brackets when \<open>q\<close>.
  \<open>None\<close> when it closes more than it opened.
\<close>

fun level :: "bool \<Rightarrow> bool \<Rightarrow> nat \<Rightarrow> jstr \<Rightarrow> nat option" where
  "level p q d [] = Some d"
| "level p q d (c # cs) =
     (if p \<and> c = 40 \<or> q \<and> c = 91 then level p q (Suc d) cs
      else if p \<and> c = 41 \<or> q \<and> c = 93 then (case d of 0 \<Rightarrow> None | Suc d' \<Rightarrow> level p q d' cs)
      else level p q d cs)"

lemma level_append: "level p q d (s @ t) = Option.bind (level p q d s) (\<lambda>d'. level p q d' t)"
  by (induction p q d s rule: level.induct) (auto split: nat.split)

lemma level_deeper: "level p q d s = Some d' \<Longrightarrow> level p q (d + k) s = Some (d' + k)"
proof (induction p q d s rule: level.induct)
  case (2 p q d c cs)
  then show ?case by (cases d) (auto split: if_splits)
qed simp

lemma level_plain: "set s \<inter> {40, 41, 91, 93} = {} \<Longrightarrow> level p q d s = Some d"
  by (induction s) auto

lemma eq_scan_nested:
  "level True True d s = Some d' \<Longrightarrow> eq_scan pre (int (Suc d)) (s @ t) = eq_scan (rev s @ pre) (int (Suc d')) t"
proof (induction True True d s arbitrary: pre rule: level.induct)
  case (2 d c cs)
  then show ?case by (cases d) (auto split: if_splits)
qed simp

lemma wrap_scan_nested:
  "level True False d s = Some d' \<Longrightarrow> wrap_scan (int (Suc d)) (s @ t) = wrap_scan (int (Suc d')) t"
proof (induction True False d s rule: level.induct)
  case (2 d c cs)
  then show ?case by (cases d) (auto split: if_splits)
qed simp

lemma bracket_scan_nested:
  "level False True d s = Some d' \<Longrightarrow>
     bracket_scan (Suc d) (s @ t) = map_option (\<lambda>j. j + length s) (bracket_scan (Suc d') t)"
proof (induction False True d s rule: level.induct)
  case (2 d c cs)
  then show ?case by (cases d) (auto split: if_splits simp: option.map_comp comp_def)
qed (simp add: option.map_ident)

definition nested :: "jstr \<Rightarrow> bool" where
  "nested s = (level True True 0 s = Some 0 \<and> level True False 0 s = Some 0 \<and> level False True 0 s = Some 0)"

lemma nested_level: "nested s \<Longrightarrow> (p \<or> q) \<Longrightarrow> level p q d s = Some d"
  using level_deeper [of p q 0 s 0 d] by (cases p; cases q) (auto simp: nested_def)

lemma nested_append: "nested s \<Longrightarrow> nested t \<Longrightarrow> nested (s @ t)"
  by (simp add: nested_def level_append)

lemma nested_wrap: "nested s \<Longrightarrow> nested (40 # s @ [41])" "nested s \<Longrightarrow> nested (91 # s @ [93])"
  using level_deeper [of _ _ 0 s 0 1] by (auto simp: nested_def level_append)

lemma nested_plain: "set s \<inter> {40, 41, 91, 93} = {} \<Longrightarrow> nested s"
  by (simp add: nested_def level_plain)

lemma no_equality: "61 \<notin> set s \<Longrightarrow> eq_scan pre d s = None"
proof (induction s arbitrary: pre d)
  case (Cons c s)
  then have "\<not> eq_here pre c s" by (auto simp: eq_here_def split: list.splits)
  with Cons show ?case by simp
qed simp

lemma trim_same: "s \<noteq> [] \<Longrightarrow> \<not> is_space (hd s) \<Longrightarrow> \<not> is_space (last s) \<Longrightarrow> trim s = s"
proof -
  assume a: "s \<noteq> []" "\<not> is_space (hd s)" "\<not> is_space (last s)"
  then have "dropWhile is_space s = s" by (cases s) auto
  moreover have "dropWhile is_space (rev s) = rev s" using a by (cases "rev s") (auto simp: last_rev [symmetric])
  ultimately show ?thesis by (simp add: trim_def)
qed

subsection \<open>The grammar\<close>

text \<open>
  The texts that are read as they are meant, with the trees they stand for. An operand is a keyword,
  a number, a quoted text, a path, a negated operand, or an expression in parentheses; an expression
  is an operand or an equality, which associates to the right; white space may stand around an
  expression, after an operand and after an exclamation mark. A quoted text is any text whose brackets balance
  and that holds neither \<open>==\<close> nor \<open>!=\<close>, because the scans do not know quotes.
\<close>

fun print_op :: "eq_op \<Rightarrow> jstr" where
  "print_op StrictEq = [61, 61, 61]"
| "print_op StrictNe = [33, 61, 61]"
| "print_op LooseEq = [61, 61]"
| "print_op LooseNe = [33, 61]"

definition ident_text :: "jstr \<Rightarrow> bool" where
  "ident_text m = (m \<noteq> [] \<and> ident_start (hd m) \<and> list_all ident_char m)"

definition segment_text :: "jstr \<Rightarrow> bool" where
  "segment_text m = (ident_text m \<or> m \<noteq> [] \<and> list_all is_digit m)"

definition const_words :: "(jstr \<times> dval) list" where
  "const_words = [((u ''true''), VBool True), ((u ''false''), VBool False), ((u ''null''), VNull), ((u ''undefined''), VUndef)]"

definition quotable :: "jstr \<Rightarrow> bool" where
  "quotable s = (nested s \<and> \<not> contains s [61, 61] \<and> \<not> contains s [33, 61])"

abbreviation spaces :: "jstr \<Rightarrow> bool" where
  "spaces a \<equiv> list_all is_space a"

inductive operand_text :: "jstr \<Rightarrow> dexpr \<Rightarrow> bool"
  and expr_text :: "jstr \<Rightarrow> dexpr \<Rightarrow> bool"
  and segs_text :: "jstr \<Rightarrow> dseg list \<Rightarrow> bool" where
  O_keyword: "(k, v) \<in> set const_words \<Longrightarrow> operand_text k (DLit v)"
| O_number: "number_text t \<Longrightarrow> operand_text t (DLit (number_value t))"
| O_quoted: "q \<in> {34, 39} \<Longrightarrow> quotable s \<Longrightarrow> operand_text (q # s @ [q]) (DLit (VStr s))"
| O_parens: "expr_text s x \<Longrightarrow> operand_text (40 # s @ [41]) x"
| O_not: "operand_text s x \<Longrightarrow> spaces a \<Longrightarrow> operand_text (33 # a @ s) (DNot x)"
| O_path: "ident_text h \<Longrightarrow> h \<notin> fst ` set const_words \<or> t \<noteq> [] \<Longrightarrow> segs_text t segs \<Longrightarrow> operand_text (h @ t) (DPath h segs)"
| E_operand: "operand_text s x \<Longrightarrow> expr_text s x"
| E_equality: "operand_text s x \<Longrightarrow> spaces a \<Longrightarrow> expr_text t y \<Longrightarrow> expr_text (s @ a @ print_op q @ t) (DEq q x y)"
| E_spaced: "expr_text s x \<Longrightarrow> spaces a \<Longrightarrow> spaces b \<Longrightarrow> expr_text (a @ s @ b) x"
| S_end: "segs_text [] []"
| S_name: "segment_text m \<Longrightarrow> segs_text t segs \<Longrightarrow> segs_text (46 # m @ t) (DName m # segs)"
| S_index: "expr_text s x \<Longrightarrow> segs_text t segs \<Longrightarrow> segs_text (91 # s @ 93 # t) (DIndex x # segs)"

subsection \<open>Facts about the pieces\<close>

lemma ident_char_facts:
  "ident_char c \<Longrightarrow> c \<notin> {40, 41, 91, 93, 61, 33, 46, 34, 39}" "ident_char c \<Longrightarrow> \<not> is_space c"
  "ident_start c \<Longrightarrow> \<not> is_digit c" "ident_start c \<Longrightarrow> c \<noteq> 45"
  by (auto simp: ident_char_def ident_start_def is_digit_def is_space_def)

lemma ident_text_facts:
  assumes "ident_text m"
  shows "set m \<inter> {40, 41, 91, 93, 61, 33, 46} = {}" "m \<noteq> []" "\<not> is_space (hd m)" "\<not> is_space (last m)"
    "ident_start (hd m)"
  using assms ident_char_facts(1,2) unfolding ident_text_def list_all_iff
  by (blast dest: ident_char_facts hd_in_set last_in_set)+

lemma digit_facts: "is_digit c \<Longrightarrow> c \<notin> {40, 41, 91, 93, 61, 33, 46, 34, 39, 45} \<and> \<not> is_space c \<and> \<not> ident_start c"
  by (auto simp: is_digit_def is_space_def ident_start_def)

lemma segment_text_facts:
  assumes "segment_text m"
  shows "set m \<inter> {40, 41, 91, 93, 61, 33, 46} = {}" "m \<noteq> []" "\<not> is_space (last m)"
proof -
  have "set m \<inter> {40, 41, 91, 93, 61, 33, 46} = {} \<and> m \<noteq> [] \<and> \<not> is_space (last m)"
    if "m \<noteq> []" "list_all is_digit m"
    using that digit_facts last_in_set [of m] by (auto simp: list_all_iff)
  then show "set m \<inter> {40, 41, 91, 93, 61, 33, 46} = {}" "m \<noteq> []" "\<not> is_space (last m)"
    using assms ident_text_facts [of m] by (auto simp: segment_text_def)
qed

lemma number_text_chars:
  assumes "number_text t" "c \<in> set t"
  shows "c \<in> {45, 46} \<or> is_digit c"
proof -
  define a where "a = (if starts_with t (u ''-'') then drop 1 t else t)"
  let ?r = "dropWhile is_digit a"
  have "set t \<subseteq> insert 45 (set a)" by (cases t) (auto simp: a_def starts_with_def u_def)
  moreover have "set a = set (takeWhile is_digit a) \<union> set ?r" by (metis set_append takeWhile_dropWhile_id)
  ultimately have "c = 45 \<or> is_digit c \<or> c \<in> set ?r" using assms(2) by (auto dest: set_takeWhileD)
  moreover have "?r = [] \<or> hd ?r = 46 \<and> list_all is_digit (tl ?r)"
    using assms(1) by (auto simp: number_text_def Let_def a_def)
  then have "c \<in> set ?r \<Longrightarrow> c = 46 \<or> is_digit c" by (cases ?r) (auto simp: list_all_iff)
  ultimately show ?thesis by blast
qed

lemma number_text_facts:
  assumes "number_text t"
  shows "set t \<inter> {40, 41, 91, 93, 61, 33, 34, 39} = {}" "t \<noteq> []" "\<not> is_space (hd t)" "\<not> is_space (last t)"
    "t \<notin> fst ` set const_words"
proof -
  note c = number_text_chars [OF assms]
  have "c \<notin> {40, 41, 91, 93, 61, 33, 34, 39}" if "c \<in> set t" for c
    using c [OF that] digit_facts [of c] by auto
  then show "set t \<inter> {40, 41, 91, 93, 61, 33, 34, 39} = {}" by blast
  show n: "t \<noteq> []" using assms by (auto simp: number_text_def starts_with_def u_def)
  have sp: "\<not> is_space c" if "c \<in> set t" for c
  proof -
    have "\<not> is_space 45" "\<not> is_space 46" by (simp_all add: is_space_def)
    then show ?thesis using c [OF that] digit_facts [of c] by (cases "is_digit c") auto
  qed
  show "\<not> is_space (hd t)" "\<not> is_space (last t)" using sp n by simp_all
  have "\<not> (hd t \<in> {45, 46} \<or> is_digit (hd t))" if "t \<in> fst ` set const_words"
    using that by (auto simp: const_words_def u_def is_digit_def)
  then show "t \<notin> fst ` set const_words" using c [OF hd_in_set [OF n]] by blast
qed

lemma ident_start_char: "ident_start c \<Longrightarrow> ident_char c"
  by (simp add: ident_char_def)

lemma ident_of_split: "ident_of s = Some (m, r) \<Longrightarrow> s = m @ r \<and> list_all ident_char m"
  by (cases s) (auto simp: ident_of_def list_all_iff dest: set_takeWhileD ident_start_char split: if_splits)

lemma segment_of_split: "segment_of s = Some (m, r) \<Longrightarrow> s = m @ r \<and> list_all ident_char m"
proof (cases "ident_of s")
  case None
  assume "segment_of s = Some (m, r)"
  with None have "m = takeWhile is_digit s" "r = dropWhile is_digit s"
    by (auto simp: segment_of_def digits_prefix_def Let_def split: if_splits)
  then show ?thesis by (auto simp: list_all_iff ident_char_def dest: set_takeWhileD)
qed (auto simp: segment_of_def dest: ident_of_split)

lemma keyword_facts:
  assumes "(k, v) \<in> set const_words"
  shows "ident_text k" "literal k = Some v"
  using assms by (auto simp: const_words_def ident_text_def ident_start_def ident_char_def is_digit_def u_def literal_def)

lemma literal_number: "number_text t \<Longrightarrow> literal t = Some (number_value t)"
  using number_text_facts(5) [of t] by (auto simp: literal_def const_words_def)

lemma literal_quoted: "q \<in> {34, 39} \<Longrightarrow> literal (q # s @ [q]) = Some (VStr s)"
proof -
  assume q: "q \<in> {34, 39}"
  then have "\<not> number_text (q # s @ [q])"
    by (auto simp: number_text_def starts_with_def u_def is_digit_def Let_def)
  with q show ?thesis by (auto simp: literal_def u_def)
qed

lemma eq_scan_pass:
  "level True True d s = Some d' \<Longrightarrow> \<not> contains s [61, 61] \<Longrightarrow> \<not> contains s [33, 61] \<Longrightarrow>
     s = [] \<or> last s \<notin> {61, 33} \<or> r = [] \<or> hd r \<noteq> 61 \<Longrightarrow>
     eq_scan pre (int d) (s @ r) = eq_scan (rev s @ pre) (int d') r"
proof (induction True True d s arbitrary: pre rule: level.induct)
  case (2 d c cs)
  have "\<not> eq_here pre c (cs @ r)"
    using "2.prems" by (cases cs; cases r) (auto simp: eq_here_def starts_with_def)
  moreover have "\<not> contains cs [61, 61]" "\<not> contains cs [33, 61]" "cs = [] \<or> last cs \<notin> {61, 33} \<or> r = [] \<or> hd r \<noteq> 61"
    using "2.prems" by (auto split: if_splits)
  ultimately show ?case using "2.prems"(1) "2.hyps" by (cases d) (auto split: if_splits)
qed simp

lemma no_pairs: "61 \<notin> set s \<Longrightarrow> \<not> contains s [61, 61] \<and> \<not> contains s [33, 61]"
  unfolding contains_iff_sublist by (auto dest: set_mono_sublist)

lemma ends_in: "s \<noteq> [] \<Longrightarrow> set s \<inter> A = {} \<Longrightarrow> hd s \<notin> A \<and> last s \<notin> A"
  using hd_in_set [of s] last_in_set [of s] by blast

lemma space_apart: "is_space c \<Longrightarrow> c \<notin> {40, 41, 91, 93, 61, 33}"
  by (auto simp: is_space_def)

lemma spaces_apart: "spaces a \<Longrightarrow> set a \<inter> {40, 41, 91, 93, 61, 33} = {}"
  using space_apart unfolding list_all_iff by blast

definition passes :: "jstr \<Rightarrow> bool" where
  "passes s \<longleftrightarrow> nested s \<and> (\<forall>pre r. eq_scan pre 0 (s @ r) = eq_scan (rev s @ pre) 0 r)"

lemma passes_no_equality: "passes s \<Longrightarrow> findTopLevelEquality s = None"
  unfolding passes_def findTopLevelEquality_def by (metis append_Nil2 eq_scan.simps(1))

lemma passes_append: "passes s \<Longrightarrow> passes t \<Longrightarrow> passes (s @ t)"
  by (simp add: passes_def nested_append)

lemma passes_quotable: "quotable s \<Longrightarrow> s = [] \<or> last s \<notin> {61, 33} \<Longrightarrow> passes s"
  using eq_scan_pass [of 0 s 0] by (auto simp: passes_def quotable_def nested_def)

lemma passes_plain: "set s \<inter> {40, 41, 91, 93, 61, 33} = {} \<Longrightarrow> passes s"
  using no_pairs [of s] nested_plain [of s] ends_in [of s "{40, 41, 91, 93, 61, 33}"]
  by (cases "s = []") (auto intro!: passes_quotable simp: quotable_def)

lemma passes_quoted: "q \<in> {34, 39} \<Longrightarrow> quotable s \<Longrightarrow> passes (q # s @ [q])"
proof -
  assume q: "q \<in> {34, 39}" and s: "quotable s"
  have "nested (q # s @ [q])"
    using nested_append [OF nested_append [OF nested_plain [of "[q]"], of s] nested_plain [of "[q]"]] q s
    by (auto simp: quotable_def)
  moreover have "\<not> contains (s @ [q]) [c, 61]" if "\<not> contains s [c, 61]" for c
    using that q by (induction s) (auto simp: starts_with_def take_Cons' split: if_splits)
  ultimately show ?thesis using q s by (intro passes_quotable) (auto simp: quotable_def starts_with_def)
qed

lemma passes_wrap: "nested s \<Longrightarrow> passes (40 # s @ [41])" "nested s \<Longrightarrow> passes (91 # s @ [93])"
  using nested_wrap [of s] eq_scan_nested [of 0 s 0] by (auto simp: passes_def nested_def)

subsection \<open>Every text of the grammar is read as its tree\<close>

lemma trim_spaces: "spaces a \<Longrightarrow> spaces b \<Longrightarrow> trim (a @ s @ b) = trim s"
proof -
  assume a: "spaces a" and b: "spaces b"
  have pre: "dropWhile is_space (a @ t) = dropWhile is_space t" for t
    using a by (simp add: list_all_iff)
  have suf: "dropWhile is_space (rev (t @ b)) = dropWhile is_space (rev t)" for t
    using b by (simp add: list_all_iff dropWhile_append)
  show ?thesis
  proof (cases "\<forall>c \<in> set s. is_space c")
    case True
    then have "\<forall>c \<in> set (a @ s @ b). is_space c" using a b by (auto simp: list_all_iff)
    then show ?thesis using True by (metis trim_eq_Nil_iff)
  next
    case False
    then have "dropWhile is_space (s @ b) = dropWhile is_space s @ b" by (auto simp: dropWhile_append1)
    then show ?thesis unfolding trim_def pre using suf by simp
  qed
qed

lemma dparse_trim: "dparse (trim s) = dparse s"
  by (simp add: dparse.simps [of s] dparse.simps [of "trim s"])

lemma dparse_spaces: "spaces a \<Longrightarrow> spaces b \<Longrightarrow> dparse (a @ s @ b) = dparse s"
  by (metis dparse_trim trim_spaces)

lemma dparse_parens: "nested s \<Longrightarrow> dparse (40 # s @ [41]) = dparse s"
proof -
  assume n: "nested s"
  have "trim (40 # s @ [41]) = 40 # s @ [41]" by (rule trim_same) (auto simp: is_space_def)
  moreover have "wrap_scan 1 s"
    using wrap_scan_nested [of 0 s 0 "[]"] n by (simp add: nested_def)
  then have "parensWrapWhole (40 # s @ [41])" by (simp add: parensWrapWhole_def butlast_append)
  ultimately show ?thesis by (simp add: dparse.simps [of "40 # s @ [41]"] Let_def butlast_append)
qed

text \<open>What the scans need of an operand; one in parentheses keeps its own in balance.\<close>

definition operand_like :: "jstr \<Rightarrow> bool" where
  "operand_like s \<longleftrightarrow>
     passes s \<and> s \<noteq> [] \<and> \<not> is_space (hd s) \<and> \<not> is_space (last s) \<and> hd s \<noteq> 61 \<and> last s \<notin> {61, 33}
     \<and> (hd s = 40 \<longrightarrow> (\<exists>s'. s = 40 # s' @ [41] \<and> nested s'))"

lemma operand_plain:
  assumes "s \<noteq> []" "set s \<inter> {40, 41, 91, 93, 61, 33} = {}" "\<not> is_space (hd s)" "\<not> is_space (last s)"
  shows "operand_like s \<and> hd s \<notin> {40, 33}"
proof -
  have "hd s \<notin> {40, 61, 33} \<and> last s \<notin> {61, 33}" using ends_in [OF assms(1,2)] by simp
  then show ?thesis using assms passes_plain [OF assms(2)] by (simp add: operand_like_def)
qed

lemma operand_trim: "operand_like s \<Longrightarrow> trim s = s"
  by (rule trim_same) (simp_all add: operand_like_def)

lemma dparse_literal:
  assumes "operand_like s" "hd s \<notin> {40, 33}" "literal s = Some v"
  shows "dparse s = DLit v"
  using assms operand_trim [OF assms(1)] passes_no_equality [of s]
  by (simp add: dparse.simps [of s] operand_like_def Let_def)

lemma dparse_not:
  assumes "operand_like s" "spaces a"
  shows "operand_like (33 # a @ s)" "dparse (33 # a @ s) = DNot (dparse s)"
proof -
  have hd: "a @ s \<noteq> []" "hd (a @ s) \<noteq> 61"
    using assms space_apart by (cases a; auto simp: operand_like_def)+
  have p: "passes (a @ s)"
    using assms(1) passes_plain [OF spaces_apart [OF assms(2)]] passes_append by (simp add: operand_like_def)
  have "nested ([33] @ a @ s)" by (rule nested_append) (use p in \<open>auto simp: nested_plain passes_def\<close>)
  moreover have "\<not> eq_here pre 33 ((a @ s) @ r)" for pre r
    using hd by (cases "a @ s") (auto simp: eq_here_def)
  then have "eq_scan pre 0 (33 # (a @ s) @ r) = eq_scan (rev (a @ s) @ 33 # pre) 0 r" for pre r
    using p by (simp add: passes_def)
  ultimately have p': "passes (33 # a @ s)" by (simp add: passes_def)
  with assms show l: "operand_like (33 # a @ s)" by (auto simp: operand_like_def is_space_def)
  have "dparse (a @ s) = dparse s" using dparse_spaces [OF assms(2), of "[]" s] by simp
  then show "dparse (33 # a @ s) = DNot (dparse s)"
    using operand_trim [OF l] passes_no_equality [OF p'] by (simp add: dparse.simps [of "33 # a @ s"] Let_def)
qed

lemma ident_of_text:
  assumes "ident_text m" "t = [] \<or> \<not> ident_char (hd t)"
  shows "ident_of (m @ t) = Some (m, t)"
proof -
  obtain c cs where m: "m = c # cs" using assms(1) by (cases m) (auto simp: ident_text_def)
  have "takeWhile ident_char (cs @ t) = cs @ takeWhile ident_char t" "dropWhile ident_char (cs @ t) = dropWhile ident_char t"
    using assms(1) m by (auto simp: ident_text_def list_all_iff)
  moreover have "takeWhile ident_char t = []" "dropWhile ident_char t = t" using assms(2) by (cases t; auto)+
  ultimately show ?thesis using assms(1) m by (simp add: ident_of_def ident_text_def)
qed

lemma segment_of_text:
  assumes "segment_text m" "t = [] \<or> \<not> ident_char (hd t)"
  shows "segment_of (m @ t) = Some (m, t)"
proof (cases "ident_text m")
  case True
  then show ?thesis using ident_of_text [OF True assms(2)] by (simp add: segment_of_def)
next
  case False
  then have m: "m \<noteq> []" "list_all is_digit m" using assms(1) by (auto simp: segment_text_def)
  then have "\<not> ident_start (hd m)" using digit_facts by (cases m) auto
  then have "ident_of (m @ t) = None" using m(1) by (cases m) (auto simp: ident_of_def)
  moreover have "t = [] \<or> \<not> is_digit (hd t)" using assms(2) by (auto simp: ident_char_def)
  then have "takeWhile is_digit t = []" "dropWhile is_digit t = t" by (cases t; auto)+
  then have "digits_prefix (m @ t) = Some (m, t)" using m by (simp add: digits_prefix_def list_all_iff)
  ultimately show ?thesis by (simp add: segment_of_def)
qed

text \<open>What the scans need of the rest of a path.\<close>

definition tail_like :: "jstr \<Rightarrow> bool" where
  "tail_like t \<longleftrightarrow> passes t \<and> (t = [] \<or> hd t \<in> {46, 91} \<and> \<not> is_space (last t) \<and> last t \<notin> {61, 33})"

lemma tail_not_ident: "tail_like t \<Longrightarrow> t = [] \<or> \<not> ident_char (hd t)"
  by (auto simp: tail_like_def ident_char_def ident_start_def is_digit_def)

lemma dparse_path:
  assumes "ident_text h" "h \<notin> fst ` set const_words \<or> t \<noteq> []" "tail_like t" "dsegs t = Some segs"
  shows "operand_like (h @ t)" "dparse (h @ t) = DPath h segs"
proof -
  let ?e = "h @ t"
  note h = ident_text_facts [OF assms(1)]
  have hd: "hd ?e = hd h" "hd h \<notin> {33, 40, 34, 39, 61}" "\<not> is_digit (hd h)" "hd h \<noteq> 45"
    using h(1,2) ident_char_facts [of "hd h"] h(5) hd_in_set [OF h(2)] by (auto simp: ident_char_def)
  have hp: "operand_like h" using operand_plain [OF h(2) _ h(3,4)] h(1) by blast
  then have "passes ?e" using assms(3) by (simp add: tail_like_def operand_like_def passes_append)
  then show l: "operand_like ?e"
    using hp hd assms(3) unfolding operand_like_def tail_like_def by (cases "t = []") simp_all
  have "\<not> number_text ?e"
    using h(2) hd by (cases h) (auto simp: number_text_def starts_with_def u_def Let_def)
  moreover have "?e \<notin> fst ` set const_words"
  proof
    assume k: "?e \<in> fst ` set const_words"
    then have "46 \<notin> set ?e \<and> 91 \<notin> set ?e" using keyword_facts(1) ident_text_facts(1) by fastforce
    then have "t = []" using assms(3) ends_in [of t "{46, 91}"] unfolding tail_like_def by auto
    with assms(2) k show False by simp
  qed
  ultimately have "literal ?e = None" using hd by (auto simp: literal_def const_words_def)
  with operand_trim [OF l] passes_no_equality [OF \<open>passes ?e\<close>] hd h(2)
    ident_of_text [OF assms(1) tail_not_ident [OF assms(3)]] assms(4)
  show "dparse ?e = DPath h segs" by (simp add: dparse.simps [of ?e] Let_def)
qed

lemma dsegs_name:
  assumes "segment_text m" "tail_like t" "dsegs t = Some segs"
  shows "tail_like (46 # m @ t)" "dsegs (46 # m @ t) = Some (DName m # segs)"
proof -
  note f = segment_text_facts [OF assms(1)]
  have "passes (46 # m)" using f(1) by (intro passes_plain) auto
  then have "passes ((46 # m) @ t)" using assms(2) passes_append unfolding tail_like_def by blast
  moreover have "last m \<notin> {61, 33}" using ends_in [OF f(2,1)] by simp
  ultimately show "tail_like (46 # m @ t)"
    using assms(2) f(2,3) unfolding tail_like_def by (cases "t = []") simp_all
  show "dsegs (46 # m @ t) = Some (DName m # segs)"
    using segment_of_text [OF assms(1) tail_not_ident [OF assms(2)]] assms(3) by (simp add: dsegs.simps [of "46 # m @ t"])
qed

lemma dsegs_index:
  assumes "nested s" "tail_like t" "dsegs t = Some segs"
  shows "tail_like (91 # s @ 93 # t)" "dsegs (91 # s @ 93 # t) = Some (DIndex (dparse s) # segs)"
proof -
  have "passes ((91 # s @ [93]) @ t)"
    using assms(2) passes_wrap(2) [OF assms(1)] by (intro passes_append) (simp_all add: tail_like_def)
  then show "tail_like (91 # s @ 93 # t)" using assms(2) by (auto simp: tail_like_def is_space_def)
  have "bracket_scan 1 (s @ 93 # t) = Some (length s)"
    using bracket_scan_nested [of 0 s 0 "93 # t"] assms(1) by (simp add: nested_def)
  with assms(3) show "dsegs (91 # s @ 93 # t) = Some (DIndex (dparse s) # segs)" by (simp add: dsegs.simps [of "91 # s @ 93 # t"])
qed

lemma dparse_equality:
  assumes s: "operand_like s" and a: "spaces a" and t: "hd t \<noteq> 61" "\<exists>c \<in> set t. \<not> is_space c"
  shows "dparse (s @ a @ print_op q @ t) = DEq q (dparse s) (dparse t)"
proof -
  define b where "b = rev (takeWhile is_space (rev t))"
  define t0 where "t0 = rev (dropWhile is_space (rev t))"
  have tb: "t = t0 @ b" by (simp add: b_def t0_def flip: rev_append)
  have b: "spaces b" by (auto simp: b_def list_all_iff dest: set_takeWhileD)
  have t0: "t0 \<noteq> []" using t(2) by (auto simp: t0_def)
  have l0: "\<not> is_space (last t0)"
    using t0 hd_dropWhile [of is_space "rev t"] by (simp add: t0_def last_rev)
  have h0: "hd t0 \<noteq> 61" using t(1) t0 by (simp add: tb)
  let ?e = "s @ a @ print_op q @ t0"
  have sf: "s \<noteq> []" "\<not> is_space (hd s)" "passes s" "hd s \<noteq> 61" "last s \<notin> {61, 33}" using s by (auto simp: operand_like_def)
  have "trim ?e = ?e" using sf t0 l0 by (intro trim_same) (auto simp: last_append)
  moreover have "trim (s @ a @ print_op q @ t) = trim ?e" using trim_spaces [of "[]" b ?e] b by (simp add: tb)
  ultimately have e: "dparse (s @ a @ print_op q @ t) = dparse ?e" "trim ?e = ?e" by (metis dparse_trim)+
  have "passes (s @ a)" using sf(3) passes_plain [OF spaces_apart [OF a]] passes_append by blast
  moreover have "trim (s @ a) \<noteq> []" using sf(1,2) hd_in_set [of s] by (auto simp: trim_eq_Nil_iff)
  moreover have "\<not> (case rev (s @ a) of p # _ \<Rightarrow> p = 61 \<or> p = 33 | [] \<Rightarrow> False)"
  proof (cases a rule: rev_cases)
    case Nil
    then show ?thesis using sf(1,5) by (cases s rule: rev_cases) auto
  next
    case (snoc a' c)
    then show ?thesis using a space_apart [of c] by simp
  qed
  ultimately have "eq_scan (rev (s @ a)) 0 (print_op q @ t0) = Some (length (s @ a), q)"
    using h0 t0 by (cases q; cases t0) (simp_all add: eq_here_def op_at_def del: rev_append)
  then have eq: "findTopLevelEquality ?e = Some (length (s @ a), q)"
    using \<open>passes (s @ a)\<close> unfolding findTopLevelEquality_def passes_def by (metis append.assoc append_Nil2)
  have "\<not> (hd ?e = 40 \<and> last ?e = 41 \<and> parensWrapWhole ?e)"
  proof (cases "hd s = 40")
    case True
    then obtain s' where s': "s = 40 # s' @ [41]" "nested s'" using s by (auto simp: operand_like_def)
    have "a @ print_op q @ t0 \<noteq> []" using t0 by simp
    then have "butlast ?e = 40 # s' @ 41 # butlast (a @ print_op q @ t0)" by (simp add: s'(1) butlast_append)
    moreover have "\<not> wrap_scan 1 (s' @ 41 # r)" for r
      using wrap_scan_nested [of 0 s' 0 "41 # r"] s'(2) by (simp add: nested_def)
    ultimately show ?thesis by (simp add: parensWrapWhole_def)
  qed (use sf in simp)
  moreover have "op_length q = length (print_op q)" by (cases q) (simp_all add: op_length_def)
  moreover have "dparse (s @ a) = dparse s" using dparse_spaces [of "[]" a s] a by simp
  moreover have "dparse t0 = dparse t" using dparse_spaces [of "[]" b t0] b by (simp add: tb)
  ultimately have "dparse ?e = DEq q (dparse s) (dparse t)"
    using sf(1) eq e(2) by (auto simp: dparse.simps [of ?e] Let_def)
  with e(1) show ?thesis by simp
qed

text \<open>The three claims go by the rules of the grammar.\<close>

definition expr_like :: "jstr \<Rightarrow> bool" where
  "expr_like s \<longleftrightarrow> nested s \<and> hd s \<noteq> 61 \<and> (\<exists>c \<in> set s. \<not> is_space c)"

lemma operand_expr_like: "operand_like s \<Longrightarrow> expr_like s"
  by (auto simp: operand_like_def expr_like_def passes_def intro: hd_in_set)

lemma expr_like_spaced: "expr_like s \<Longrightarrow> spaces a \<Longrightarrow> spaces b \<Longrightarrow> expr_like (a @ s @ b)"
proof -
  assume s: "expr_like s" and a: "spaces a" and b: "spaces b"
  have n: "nested c" if "spaces c" for c using passes_plain [OF spaces_apart [OF that]] by (simp add: passes_def)
  have "nested (a @ s @ b)" using s n [OF a] n [OF b] by (intro nested_append) (auto simp: expr_like_def)
  moreover have "hd (a @ s @ b) \<noteq> 61" using s a space_apart by (cases a; cases s) (auto simp: expr_like_def)
  ultimately show ?thesis using s by (auto simp: expr_like_def)
qed

lemma expr_like_equality: "operand_like s \<Longrightarrow> spaces a \<Longrightarrow> expr_like t \<Longrightarrow> expr_like (s @ a @ print_op q @ t)"
proof -
  assume s: "operand_like s" and a: "spaces a" and t: "expr_like t"
  have "nested (print_op q)" by (cases q) (simp_all add: nested_def)
  moreover have "nested a" using passes_plain [OF spaces_apart [OF a]] by (simp add: passes_def)
  ultimately have "nested (s @ a @ print_op q @ t)"
    using s t by (intro nested_append) (auto simp: operand_like_def expr_like_def passes_def)
  with s show ?thesis by (auto simp: operand_like_def expr_like_def)
qed

lemma grammar_read:
  "operand_text s x \<Longrightarrow> operand_like s \<and> dparse s = x"
  "expr_text s x \<Longrightarrow> expr_like s \<and> dparse s = x"
  "segs_text t segs \<Longrightarrow> tail_like t \<and> dsegs t = Some segs"
proof (induction rule: operand_text_expr_text_segs_text.inducts)
  case (O_keyword k v)
  note f = ident_text_facts [OF keyword_facts(1) [OF O_keyword]]
  have "operand_like k \<and> hd k \<notin> {40, 33}" using f by (intro operand_plain) auto
  then show ?case using keyword_facts(2) [OF O_keyword] dparse_literal by blast
next
  case (O_number t)
  note f = number_text_facts [OF O_number]
  have "operand_like t \<and> hd t \<notin> {40, 33}" using f by (intro operand_plain) auto
  then show ?case using literal_number [OF O_number] dparse_literal by blast
next
  case (O_quoted q s)
  then have "operand_like (q # s @ [q])" "q \<notin> {40, 33}"
    using passes_quoted [of q s] by (auto simp: operand_like_def is_space_def)
  then show ?case using literal_quoted [of q s] O_quoted dparse_literal by simp
next
  case (O_parens s x)
  then have "operand_like (40 # s @ [41])"
    using passes_wrap(1) [of s] by (auto simp: operand_like_def expr_like_def is_space_def)
  then show ?case using O_parens dparse_parens [of s] by (simp add: expr_like_def)
next
  case (O_not s x a)
  then show ?case using dparse_not [of s a] by simp
next
  case (O_path h t segs)
  then show ?case using dparse_path [of h t segs] by simp
next
  case (E_operand s x)
  then show ?case using operand_expr_like by blast
next
  case (E_equality s x a t y q)
  then show ?case using expr_like_equality [of s a t q] dparse_equality [of s a t q] by (simp add: expr_like_def)
next
  case (E_spaced s x a b)
  then show ?case using expr_like_spaced [of s a b] dparse_spaces [of a b s] by simp
next
  case S_end
  show ?case by (simp add: tail_like_def passes_def nested_def dsegs.simps)
next
  case (S_name m t segs)
  then show ?case using dsegs_name [of m t segs] by simp
next
  case (S_index s x t segs)
  then show ?case using dsegs_index [of s t segs] by (simp add: expr_like_def)
qed

subsection \<open>What an expression depends on\<close>

fun dvars :: "dexpr \<Rightarrow> jstr set" and svars :: "dseg list \<Rightarrow> jstr set" where
  "dvars (DLit v) = {}"
| "dvars (DNot x) = dvars x"
| "dvars (DEq q x y) = dvars x \<union> dvars y"
| "dvars (DPath h segs) = insert h (svars segs)"
| "svars [] = {}"
| "svars (DName m # segs) = svars segs"
| "svars (DIndex x # segs) = dvars x \<union> svars segs"

lemma deval_agree:
  "(\<And>h. h \<in> dvars x \<Longrightarrow> vs h = vs' h) \<Longrightarrow> deval w (Some vs) x = deval w (Some vs') x"
  "(\<And>h. h \<in> svars segs \<Longrightarrow> vs h = vs' h) \<Longrightarrow> dstep w (Some vs) cur segs = dstep w (Some vs') cur segs"
proof (induction w "Some vs" x and w "Some vs" cur segs rule: deval_dstep.induct)
  case (4 w h segs)
  then show ?case by (simp add: head_value_def)
qed auto

lemma resolve_agree:
  "(\<And>h. h \<in> dvars (dparse s) \<Longrightarrow> vs h = vs' h) \<Longrightarrow> resolve w (Some vs) s = resolve w (Some vs') s"
  unfolding resolve_tree(1) by (rule deval_agree(1))

lemma resolve_trim: "resolve w vs (trim s) = resolve w vs s"
  by (simp add: resolve.simps [of w vs s] resolve.simps [of w vs "trim s"])

lemma resolve_path:
  assumes "ident_text h" "list_all ident_text ms" "ms \<noteq> [] \<or> h \<notin> fst ` set const_words"
  shows "resolve w vs (h @ concat (map ((#) 46) ms)) = foldl (get_prop w) (head_value w vs h) ms"
proof -
  have "segs_text (concat (map ((#) 46) ms)) (map DName ms)"
    using assms(2) by (induction ms) (auto simp: segment_text_def intro: operand_text_expr_text_segs_text.intros)
  then have "operand_text (h @ concat (map ((#) 46) ms)) (DPath h (map DName ms))"
    using assms(1,3) by (intro O_path) auto
  then have "dparse (h @ concat (map ((#) 46) ms)) = DPath h (map DName ms)" using grammar_read(1) by blast
  moreover have "dstep w vs cur (map DName ms) = foldl (get_prop w) cur ms" for cur by (induction ms arbitrary: cur) auto
  ultimately show ?thesis by (simp add: resolve_tree(1))
qed

text \<open>
  The scan for an equality does not know quotes: a text literal that holds \<open>==\<close> is read as a
  comparison of two malformed paths, which is always true.
\<close>

lemma dparse_malformed: "dparse [39, 97] = DLit VUndef" "dparse [98, 39] = DLit VUndef"
proof -
  have "trim [39, 97] = [39, 97]" "trim [98, 39] = [98, 39]" by (rule trim_same; simp add: is_space_def)+
  moreover have "literal [39, 97] = None" "literal [98, 39] = None"
    by (simp_all add: literal_def u_def number_text_def starts_with_def is_digit_def Let_def)
  moreover have "dsegs [39] = None" by (simp add: dsegs.simps)
  ultimately show "dparse [39, 97] = DLit VUndef" "dparse [98, 39] = DLit VUndef"
    by (simp_all add: dparse.simps [of "[39, 97]"] dparse.simps [of "[98, 39]"] findTopLevelEquality_def
        eq_here_def ident_of_def ident_start_def ident_char_def is_digit_def Let_def)
qed

lemma quoted_equality: "resolve w vs (39 # (u ''a==b'') @ [39]) = VBool True"
proof -
  have t: "trim [39, 97, 61, 61, 98, 39] = [39, 97, 61, 61, 98, 39]" by (rule trim_same) (simp_all add: is_space_def)
  have "trim [39, 97] \<noteq> []" by (simp add: trim_eq_Nil_iff is_space_def)
  then have "findTopLevelEquality [39, 97, 61, 61, 98, 39] = Some (2, LooseEq)"
    by (simp add: findTopLevelEquality_def eq_here_def op_at_def)
  then have "dparse [39, 97, 61, 61, 98, 39] = DEq LooseEq (DLit VUndef) (DLit VUndef)"
    by (simp add: dparse.simps [of "[39, 97, 61, 61, 98, 39]"] t op_length_def dparse_malformed)
  then show ?thesis by (simp add: resolve_tree(1) compare_def prim_loose_def u_def)
qed

end
