(* ===== verification/Dc_Encode.thy ===== *)
theory Dc_Encode
  imports Dc_Expr "HOL-Library.AList"
begin

text \<open>
  What happens to a template text before and after the HTML parser (src/encode.ts in src/support.js):
  the parser lowercases names and moves table parts around, so upper-case attributes and the tags it
  treats specially are renamed first and renamed back when the tree is compiled. Also inline styles
  and attribute values with holes. Object literals and objects built key by key are association
  lists, a later assignment to a key replacing its value in place; no key is \<open>__proto__\<close>.
\<close>

subsection \<open>Case conversions of the ASCII classes of the patterns\<close>

definition is_lower :: "nat \<Rightarrow> bool" where "is_lower c = (97 \<le> c \<and> c \<le> 122)"
definition is_upper :: "nat \<Rightarrow> bool" where "is_upper c = (65 \<le> c \<and> c \<le> 90)"
definition lower_unit :: "nat \<Rightarrow> nat" where "lower_unit c = (if is_upper c then c + 32 else c)"
definition upper_unit :: "nat \<Rightarrow> nat" where "upper_unit c = (if is_lower c then c - 32 else c)"

text \<open>\<open>s.replace(/-([a-z])/g, upper)\<close>.\<close>

fun kebabToCamel :: "jstr \<Rightarrow> jstr" where
  "kebabToCamel [] = []"
| "kebabToCamel [c] = [c]"
| "kebabToCamel (c # d # cs) =
     (if c = 45 \<and> is_lower d then upper_unit d # kebabToCamel cs else c # kebabToCamel (d # cs))"

text \<open>\<open>s.replace(/[A-Z]/g, c => "-" + lower(c))\<close>.\<close>

definition camelToKebab :: "jstr \<Rightarrow> jstr" where
  "camelToKebab s = concat (map (\<lambda>c. if is_upper c then [45, lower_unit c] else [c]) s)"

lemma kebab_camel: "45 \<notin> set s \<Longrightarrow> kebabToCamel (camelToKebab s) = s"
proof (induction s)
  case (Cons c s)
  then have IH: "kebabToCamel (camelToKebab s) = s" by simp
  show ?case
  proof (cases "is_upper c")
    case True
    then show ?thesis using IH
      by (auto simp: camelToKebab_def is_upper_def is_lower_def lower_unit_def upper_unit_def)
  next
    case False
    then have "camelToKebab (c # s) = c # camelToKebab s" by (simp add: camelToKebab_def)
    moreover have "kebabToCamel (c # t) = c # kebabToCamel t" for t
      using Cons.prems by (cases t) auto
    ultimately show ?thesis using IH by simp
  qed
qed (simp add: camelToKebab_def)

lemma camelToKebab_lower: "\<forall>c \<in> set (camelToKebab s). \<not> is_upper c"
  by (auto simp: camelToKebab_def is_upper_def lower_unit_def split: if_splits)

subsection \<open>Replacing every match of a pattern\<close>

text \<open>
  \<open>m\<close> tries the pattern at the start of a text and gives the replacement and the text after the match.
\<close>

function replace_all :: "(jstr \<Rightarrow> (jstr \<times> jstr) option) \<Rightarrow> jstr \<Rightarrow> jstr" where
  "replace_all m s =
     (case s of
        [] \<Rightarrow> []
      | c # cs \<Rightarrow>
          (case m s of
             Some (out, r) \<Rightarrow> (if length r < length s then out @ replace_all m r else c # replace_all m cs)
           | None \<Rightarrow> c # replace_all m cs))"
  by pat_completeness auto
termination by (relation "measure (\<lambda>(m, s). length s)") auto

declare replace_all.simps [simp del]

lemma replace_all_Nil [simp]: "replace_all m [] = []"
  by (simp add: replace_all.simps)

lemma replace_all_none: "(\<And>t. suffix t s \<Longrightarrow> m t = None) \<Longrightarrow> replace_all m s = s"
proof (induction s)
  case (Cons c s)
  then have "m (c # s) = None" "\<And>t. suffix t s \<Longrightarrow> m t = None" by (auto intro: suffix_ConsI)
  with Cons.IH show ?case by (simp add: replace_all.simps [of m "c # s"])
qed simp

text \<open>A literal without regard to ASCII case at the start: the text matched and the rest.\<close>

definition ci_prefix :: "jstr \<Rightarrow> jstr \<Rightarrow> (jstr \<times> jstr) option" where
  "ci_prefix p s =
     (let t = take (length p) s
      in if length t = length p \<and> map lower_unit t = p then Some (t, drop (length p) s) else None)"

lemma ci_prefix_shorter: "ci_prefix p s = Some (t, r) \<Longrightarrow> length r + length p = length s \<and> s = t @ r"
  unfolding ci_prefix_def Let_def
  by (metis (no_types, lifting) append_take_drop_id length_append add.commute option.inject option.simps(3) prod.inject)

text \<open>The attributes of a tag: up to the first \<open>>\<close> outside quotes; \<open>None\<close> when a quote stays open.\<close>

function attrs_scan :: "jstr \<Rightarrow> (jstr \<times> jstr) option" where
  "attrs_scan s =
     (case s of
        [] \<Rightarrow> None
      | c # cs \<Rightarrow>
          (if c = 62 then Some ([], cs)
           else if c = 34 \<or> c = 39 then
             (let q = takeWhile (\<lambda>d. d \<noteq> c) cs; r = dropWhile (\<lambda>d. d \<noteq> c) cs
              in if r = [] then None
                 else map_option (\<lambda>(a, t). (c # q @ c # a, t)) (attrs_scan (tl r)))
           else map_option (\<lambda>(a, t). (c # a, t)) (attrs_scan cs)))"
  by pat_completeness auto
termination
  by (relation "measure length")
    (auto simp: less_Suc_eq_le intro: order_trans [OF diff_le_self length_dropWhile_le])

declare attrs_scan.simps [simp del]

text \<open>\<open>IMPORT_SELF_CLOSE_RE\<close>: a self-closing import gets a closing tag.\<close>

definition self_close :: "jstr \<Rightarrow> (jstr \<times> jstr) option" where
  "self_close s =
     (case s of
        c # r \<Rightarrow>
          (if c = 60 then
             (case (case ci_prefix (u ''x-import'') r of Some m \<Rightarrow> Some m | None \<Rightarrow> ci_prefix (u ''dc-import'') r) of
                Some (t, r1) \<Rightarrow>
                  (case attrs_scan r1 of
                     Some (a, r2) \<Rightarrow>
                       (if a \<noteq> [] \<and> last a = 47
                        then Some (60 # t @ butlast a @ (u ''></'') @ t @ (u ''>''), r2) else None)
                   | None \<Rightarrow> None)
              | None \<Rightarrow> None)
           else None)
      | [] \<Rightarrow> None)"

definition open_helmet :: "jstr \<Rightarrow> (jstr \<times> jstr) option" where
  "open_helmet s =
     (case ci_prefix (u ''<helmet'') s of
        Some (_, c # r) \<Rightarrow> (if is_space c \<or> c = 62 then Some ((u ''<sc-helmet'') @ [c], r) else None)
      | _ \<Rightarrow> None)"

definition close_helmet :: "jstr \<Rightarrow> (jstr \<times> jstr) option" where
  "close_helmet s =
     (case ci_prefix (u ''</helmet'') s of
        Some (_, r) \<Rightarrow>
          (case dropWhile is_space r of
             c # r2 \<Rightarrow> (if c = 62 then Some ((u ''</sc-helmet>''), r2) else None)
           | [] \<Rightarrow> None)
      | None \<Rightarrow> None)"

definition is_alnum :: "nat \<Rightarrow> bool" where "is_alnum c = (is_lower c \<or> is_upper c \<or> is_digit c)"

definition CAMEL_ATTR :: jstr where "CAMEL_ATTR = (u ''sc-camel-'')"

text \<open>\<open>CAMEL_ATTR_RE\<close>: white space, a name that starts in lower case and has an upper-case letter, an equals sign.\<close>

definition camel_attr :: "jstr \<Rightarrow> (jstr \<times> jstr) option" where
  "camel_attr s =
     (case s of
        c # r \<Rightarrow>
          (let lo = takeWhile is_lower r; r1 = dropWhile is_lower r;
               hi = takeWhile is_alnum r1; r2 = dropWhile is_alnum r1;
               sp = takeWhile is_space r2; r3 = dropWhile is_space r2
           in if is_space c \<and> lo \<noteq> [] \<and> hi \<noteq> [] \<and> is_upper (hd hi) \<and> r3 \<noteq> [] \<and> hd r3 = 61
              then Some (c # CAMEL_ATTR @ camelToKebab (lo @ hi) @ sp @ [61], tl r3) else None)
      | [] \<Rightarrow> None)"

definition RAW_WRAP :: "(jstr \<times> jstr) list" where
  "RAW_WRAP =
     [((u ''select''), (u ''sc-raw-select'')), ((u ''table''), (u ''sc-raw-table'')), ((u ''tbody''), (u ''sc-raw-tbody'')),
      ((u ''thead''), (u ''sc-raw-thead'')), ((u ''tfoot''), (u ''sc-raw-tfoot'')), ((u ''tr''), (u ''sc-raw-tr'')), ((u ''td''), (u ''sc-raw-td'')),
      ((u ''th''), (u ''sc-raw-th'')), ((u ''caption''), (u ''sc-raw-caption''))]"

definition RAW_UNWRAP :: "(jstr \<times> jstr) list" where
  "RAW_UNWRAP = map (\<lambda>(k, v). (v, k)) RAW_WRAP"

text \<open>\<open>(</?)real(?=[\s>])\<close>.\<close>

definition raw_tag :: "jstr \<Rightarrow> jstr \<Rightarrow> jstr \<Rightarrow> (jstr \<times> jstr) option" where
  "raw_tag tag alias s =
     (case s of
        c # r \<Rightarrow>
          (if c = 60 then
             (let (lead, r1) = (case r of d # r' \<Rightarrow> (if d = 47 then ([60, 47], r') else ([60], r)) | [] \<Rightarrow> ([60], r))
              in (case ci_prefix tag r1 of
                    Some (_, d # r2) \<Rightarrow> (if is_space d \<or> d = 62 then Some (lead @ alias, d # r2) else None)
                  | _ \<Rightarrow> None))
           else None)
      | [] \<Rightarrow> None)"

definition encodeCase :: "jstr \<Rightarrow> jstr" where
  "encodeCase html =
     (let h1 = replace_all self_close html;
          h2 = replace_all open_helmet h1;
          h3 = replace_all close_helmet h2;
          h4 = replace_all camel_attr h3
      in fold (\<lambda>(k, v). replace_all (raw_tag k v)) RAW_WRAP h4)"

text \<open>Every rename is undone by its inverse, and a tag is renamed to one that is not renamed again.\<close>

lemma raw_unwrap: "(k, v) \<in> set RAW_WRAP \<Longrightarrow> map_of RAW_UNWRAP v = Some k"
  by (auto simp: RAW_WRAP_def RAW_UNWRAP_def)

lemma raw_aliases_apart: "set (map fst RAW_WRAP) \<inter> set (map snd RAW_WRAP) = {}"
  by (auto simp: RAW_WRAP_def)

text \<open>A text without tags and without equals signs is not touched.\<close>

lemma camel_attr_needs_eq: "61 \<notin> set s \<Longrightarrow> camel_attr s = None"
proof (cases s)
  case (Cons c r)
  assume "61 \<notin> set s"
  let ?r3 = "dropWhile is_space (dropWhile is_alnum (dropWhile is_lower r))"
  have "set ?r3 \<subseteq> set r" by (meson set_dropWhileD subsetI)
  moreover have "61 \<notin> set r" using \<open>61 \<notin> set s\<close> Cons by simp
  ultimately have "\<not> (?r3 \<noteq> [] \<and> hd ?r3 = 61)" by (metis hd_in_set subsetD)
  then show ?thesis unfolding Cons camel_attr_def Let_def by simp
qed (simp add: camel_attr_def)

lemma tag_matchers_need_lt:
  assumes "60 \<notin> set s"
  shows "self_close s = None" "open_helmet s = None" "close_helmet s = None" "raw_tag k v s = None"
proof -
  have c: "s = [] \<or> hd s \<noteq> 60" using assms by (cases s) auto
  then show "self_close s = None" "raw_tag k v s = None" by (auto simp: self_close_def raw_tag_def split: list.split)
  have "lower_unit d = 60 \<longleftrightarrow> d = 60" for d by (auto simp: lower_unit_def is_upper_def)
  then have "ci_prefix (60 # p) s = None" for p
    using c by (cases s) (auto simp: ci_prefix_def Let_def)
  then show "open_helmet s = None" "close_helmet s = None"
    by (simp_all add: open_helmet_def close_helmet_def u_def)
qed

lemma suffix_set: "suffix t s \<Longrightarrow> set t \<subseteq> set s"
  by (auto simp: suffix_def)

lemma encodeCase_plain: "60 \<notin> set s \<Longrightarrow> 61 \<notin> set s \<Longrightarrow> encodeCase s = s"
proof -
  assume a: "60 \<notin> set s" "61 \<notin> set s"
  have "replace_all self_close s = s" "replace_all open_helmet s = s" "replace_all close_helmet s = s"
    "replace_all camel_attr s = s" "replace_all (raw_tag k v) s = s" for k v
    using a suffix_set by (blast intro: replace_all_none tag_matchers_need_lt camel_attr_needs_eq)+
  moreover from this have "fold (\<lambda>(k, v). replace_all (raw_tag k v)) ps s = s" for ps
    by (induction ps) auto
  ultimately show ?thesis by (simp add: encodeCase_def)
qed

subsection \<open>Inline styles\<close>

definition css_prop :: "jstr \<Rightarrow> jstr" where
  "css_prop p = (if starts_with p (u ''--'') then p else kebabToCamel p)"

definition css_decl :: "jstr \<Rightarrow> (jstr \<times> jstr) option" where
  "css_decl d =
     (if 58 \<in> set d
      then Some (css_prop (trim (takeWhile (\<lambda>c. c \<noteq> 58) d)), trim (tl (dropWhile (\<lambda>c. c \<noteq> 58) d)))
      else None)"

definition cssToObj :: "jstr \<Rightarrow> (jstr \<times> jstr) list" where
  "cssToObj css =
     fold (\<lambda>d o'. case css_decl d of Some (k, v) \<Rightarrow> AList.update k v o' | None \<Rightarrow> o') (split_on 59 css) []"

lemma cssToObj_distinct: "distinct (map fst (cssToObj css))"
proof -
  have "distinct (map fst o') \<Longrightarrow>
      distinct (map fst (fold (\<lambda>d o'. case css_decl d of Some (k, v) \<Rightarrow> AList.update k v o' | None \<Rightarrow> o') ds o'))"
    for ds :: "jstr list" and o' :: "(jstr \<times> jstr) list"
    by (induction ds arbitrary: o') (auto simp: distinct_update split: option.split)
  then show ?thesis by (simp add: cssToObj_def)
qed

lemma css_decl_text:
  "58 \<notin> set p \<Longrightarrow> css_decl (p @ 58 # v) = Some (css_prop (trim p), trim v)"
proof -
  assume "58 \<notin> set p"
  then have "takeWhile (\<lambda>c. c \<noteq> 58) (p @ 58 # v) = p" "dropWhile (\<lambda>c. c \<noteq> 58) (p @ 58 # v) = 58 # v"
    by (induction p) auto
  then show ?thesis by (simp add: css_decl_def)
qed

lemma split_on_alone: "c \<notin> set s \<Longrightarrow> split_on c s = [s]"
  by (induction s) auto

lemma split_on_append: "c \<notin> set s \<Longrightarrow> split_on c (s @ c # t) = s # split_on c t"
  by (induction s) auto

lemma split_join:
  "\<forall>d \<in> set ds. c \<notin> set d \<Longrightarrow> ds \<noteq> [] \<Longrightarrow> split_on c (join_with [c] ds) = ds"
proof (induction ds)
  case (Cons d ds)
  then show ?case by (cases ds) (auto simp: split_on_alone split_on_append)
qed simp

subsection \<open>Attribute values\<close>

text \<open>The position of the first \<open>}}\<close> that leaves at least one unit before it.\<close>

fun close_braces :: "jstr \<Rightarrow> nat option" where
  "close_braces [] = None"
| "close_braces (a # r) = (if take 2 r = [125, 125] then Some 1 else map_option Suc (close_braces r))"

text \<open>\<open>raw.split(/\{\{([\s\S]+?)\}\}/g)\<close>: the texts between the holes, and the holes (marked).\<close>

function hole_split :: "jstr \<Rightarrow> jstr \<Rightarrow> (bool \<times> jstr) list" where
  "hole_split acc s =
     (case s of
        [] \<Rightarrow> [(False, rev acc)]
      | c # cs \<Rightarrow>
          (case (if starts_with s [123, 123] then close_braces (drop 2 s) else None) of
             Some j \<Rightarrow> (False, rev acc) # (True, take j (drop 2 s)) # hole_split [] (drop (j + 4) s)
           | None \<Rightarrow> hole_split (c # acc) cs))"
  by pat_completeness auto
termination by (relation "measure (\<lambda>(acc, s). length s)") auto

declare hole_split.simps [simp del]

text \<open>\<open>/^\s*\{\{([\s\S]+?)\}\}\s*$/\<close>: the hole that is the whole value.\<close>

definition whole_hole :: "jstr \<Rightarrow> jstr option" where
  "whole_hole raw =
     (let t = trim raw
      in if 5 \<le> length t \<and> starts_with t [123, 123] \<and> drop (length t - 2) t = [125, 125]
         then Some (take (length t - 4) (drop 2 t)) else None)"

text \<open>\<open>v ?? ""\<close> in a text.\<close>

definition hole_text :: "dc_world \<Rightarrow> dval \<Rightarrow> jstr" where
  "hole_text w v = (if nullish v then [] else val_text w v)"

definition compileAttr :: "dc_world \<Rightarrow> jstr \<Rightarrow> scope \<Rightarrow> dval" where
  "compileAttr w raw vals =
     (case whole_hole raw of
        Some path \<Rightarrow> resolve w (Some vals) path
      | None \<Rightarrow>
          (if contains raw [123, 123]
           then VStr (concat (map (\<lambda>(hole, p). if hole then hole_text w (resolve w (Some vals) p) else p) (hole_split [] raw)))
           else VStr raw))"

lemma compileAttr_constant: "\<not> contains raw [123, 123] \<Longrightarrow> compileAttr w raw vals = VStr raw"
proof -
  assume n: "\<not> contains raw [123, 123]"
  have "whole_hole raw = None"
  proof (rule ccontr)
    assume "whole_hole raw \<noteq> None"
    then have "prefix [123, 123] (trim raw)" by (auto simp: whole_hole_def Let_def starts_with_iff_prefix split: if_splits)
    moreover have "sublist (trim raw) raw"
      unfolding trim_def using suffix_dropWhile [of is_space raw] suffix_dropWhile [of is_space "rev (dropWhile is_space raw)"]
      by (metis prefix_imp_sublist rev_rev_ident sublist_order.order_trans suffix_imp_sublist suffix_to_prefix)
    ultimately show False using n by (auto simp: contains_iff_sublist dest: prefix_imp_sublist sublist_order.order_trans)
  qed
  with n show ?thesis by (simp add: compileAttr_def)
qed

lemma close_braces_split:
  "close_braces s = Some j \<Longrightarrow> 0 < j \<and> s = take j s @ [125, 125] @ drop (j + 2) s"
proof (induction s arbitrary: j)
  case (Cons a r)
  show ?case
  proof (cases "take 2 r = [125, 125]")
    case True
    then obtain r' where "r = [125, 125] @ r'" by (metis append_take_drop_id)
    with Cons.prems show ?thesis by auto
  next
    case False
    with Cons show ?thesis by auto
  qed
qed simp

text \<open>Putting the pieces back between their braces gives the value that was split.\<close>

lemma hole_split_restores:
  "concat (map (\<lambda>(hole, p). if hole then [123, 123] @ p @ [125, 125] else p) (hole_split acc s)) = rev acc @ s"
proof (induction acc s rule: hole_split.induct)
  case (1 acc s)
  show ?case
  proof (cases s)
    case Nil
    then show ?thesis by (simp add: hole_split.simps)
  next
    case (Cons c cs)
    show ?thesis
    proof (cases "if starts_with s [123, 123] then close_braces (drop 2 s) else None")
      case None
      then show ?thesis using 1(1) [OF Cons None] None unfolding Cons by (simp add: hole_split.simps [of acc "c # cs"])
    next
      case (Some j)
      then have st: "starts_with s [123, 123]" and cb: "close_braces (drop 2 s) = Some j" by (auto split: if_splits)
      have "s = [123, 123] @ drop 2 s"
        using st by (metis append_take_drop_id length_Cons list.size(3) numeral_2_eq_2 starts_with_def)
      moreover have "drop 2 s = take j (drop 2 s) @ [125, 125] @ drop (j + 2 + 2) s"
        using close_braces_split [OF cb] unfolding drop_drop by blast
      then have "drop 2 s = take j (drop 2 s) @ [125, 125] @ drop (j + 4) s" by (simp only: add.assoc numeral_plus_numeral semiring_norm)
      ultimately have eq: "([123, 123] @ take j (drop 2 s) @ [125, 125]) @ drop (j + 4) s = s" by (metis append.assoc)
      have unf: "hole_split acc s = (False, rev acc) # (True, take j (drop 2 s)) # hole_split [] (drop (j + 4) s)"
        by (simp only: hole_split.simps [of acc s] Some option.case) (simp add: Cons)
      have "concat (map (\<lambda>(hole, p). if hole then [123, 123] @ p @ [125, 125] else p) (hole_split acc s))
          = rev acc @ (([123, 123] @ take j (drop 2 s) @ [125, 125]) @ drop (j + 4) s)"
        by (simp add: unf 1(2) [OF Cons Some])
      then show ?thesis by (simp only: eq)
    qed
  qed
qed

text \<open>
  A value that starts with a hole and ends with another is taken for a single hole, whose text
  contains braces. Braces are no part of an expression, so what is read is hardly ever one: when the
  text up to the first braces is a path, or has nothing but names, dots, digits and white space in
  it, the attribute is undefined.
\<close>

lemma whole_hole_text: "x \<noteq> [] \<Longrightarrow> whole_hole ([123, 123] @ x @ [125, 125]) = Some x"
proof -
  assume x: "x \<noteq> []"
  have "trim ([123, 123] @ x @ [125, 125]) = [123, 123] @ x @ [125, 125]"
    by (rule trim_same) (simp_all add: is_space_def)
  then show ?thesis using x by (cases x) (simp_all add: whole_hole_def Let_def starts_with_def)
qed

lemma two_holes_one_expression:
  "compileAttr w ([123, 123] @ p @ [125, 125] @ b @ [123, 123] @ n @ [125, 125]) vals
     = resolve w (Some vals) (p @ [125, 125] @ b @ [123, 123] @ n)"
  using whole_hole_text [of "p @ [125, 125] @ b @ [123, 123] @ n"] by (simp add: compileAttr_def)

lemma braces_no_literal: "125 \<in> set e \<Longrightarrow> hd e \<notin> {34, 39} \<Longrightarrow> literal e = None"
proof -
  assume b: "125 \<in> set e" and h: "hd e \<notin> {34, 39}"
  have "\<not> number_text e" using number_text_chars [of e 125] b by (auto simp: is_digit_def)
  moreover have "e \<notin> fst ` set const_words" using b by (auto simp: const_words_def u_def)
  ultimately show ?thesis using h by (auto simp: literal_def const_words_def)
qed

lemma dsegs_stuck:
  "125 \<in> set s \<Longrightarrow> 91 \<notin> set s \<Longrightarrow> dsegs s = None"
proof (induction "length s" arbitrary: s rule: less_induct)
  case less
  then obtain c r where s: "s = c # r" by (cases s) auto
  have "dsegs r' = None" if "c = 46" "segment_of r = Some (m, r')" for m r'
  proof (rule less.hyps)
    have split: "r = m @ r'" "list_all ident_char m" using segment_of_split [OF that(2)] by simp_all
    show "length r' < length s" using split(1) s by simp
    show "125 \<in> set r'"
      using less.prems(1) split s that(1) by (auto simp: list_all_iff ident_char_def ident_start_def is_digit_def)
    show "91 \<notin> set r'" using less.prems(2) split(1) s by simp
  qed
  then show ?case using less.prems(2) by (auto simp: s dsegs.simps [of "c # r"] split: option.split)
qed

lemma dparse_stuck:
  assumes "trim s \<noteq> []" "hd (trim s) \<notin> {33, 40}" "findTopLevelEquality (trim s) = None" "literal (trim s) = None"
    "\<And>m r. ident_of (trim s) = Some (m, r) \<Longrightarrow> dsegs r = None"
  shows "dparse s = DLit VUndef"
  using assms by (cases "ident_of (trim s)") (auto simp: dparse.simps [of s] Let_def)

lemma dsegs_cut:
  "segs_text t segs \<Longrightarrow> r \<noteq> [] \<Longrightarrow> hd r \<notin> {46, 91} \<Longrightarrow> \<not> ident_char (hd r) \<Longrightarrow> dsegs (t @ r) = None"
proof (induction rule: operand_text_expr_text_segs_text.inducts(3) [where ?P1.0 = "\<lambda>_ _. True" and ?P2.0 = "\<lambda>_ _. True"])
  case S_end
  then show ?case by (cases r) (auto simp: dsegs.simps)
next
  case (S_name m t segs)
  have "tail_like t" using grammar_read(3) S_name.hyps by blast
  then have "t @ r = [] \<or> \<not> ident_char (hd (t @ r))" using tail_not_ident [of t] S_name.prems by (cases t) auto
  from segment_of_text [OF S_name.hyps(1) this] S_name show ?case by (simp add: dsegs.simps [of "46 # m @ t @ r"])
next
  case (S_index s x t segs)
  have "nested s" using grammar_read(2) S_index.hyps by (simp add: expr_like_def)
  then have "bracket_scan 1 (s @ 93 # t @ r) = Some (length s)"
    using bracket_scan_nested [of 0 s 0 "93 # t @ r"] by (simp add: nested_def)
  then show ?case using S_index by (simp add: dsegs.simps [of "91 # s @ 93 # t @ r"])
qed simp_all

definition path_hole :: "jstr \<Rightarrow> bool" where
  "path_hole p \<longleftrightarrow> (\<exists>a h t c segs. p = a @ h @ t @ c \<and> spaces a \<and> spaces c \<and> ident_text h \<and> segs_text t segs)"

text \<open>A text with its white space at the end cut off.\<close>

lemma end_spaces:
  assumes "\<exists>c \<in> set s. \<not> is_space c"
  obtains s' b where "s = s' @ b" "spaces b" "s' \<noteq> []" "\<not> is_space (last s')"
proof
  show "s = rev (dropWhile is_space (rev s)) @ rev (takeWhile is_space (rev s))" by (simp flip: rev_append)
  show "spaces (rev (takeWhile is_space (rev s)))" by (auto simp: list_all_iff dest: set_takeWhileD)
  show "rev (dropWhile is_space (rev s)) \<noteq> []" using assms by auto
  then show "\<not> is_space (last (rev (dropWhile is_space (rev s))))"
    using hd_dropWhile [of is_space "rev s"] by (simp add: last_rev)
qed

lemma path_hole_undefined:
  assumes "path_hole p" "61 \<notin> set (b @ n)"
  shows "dparse (p @ [125, 125] @ b @ [123, 123] @ n) = DLit VUndef"
proof -
  obtain a h t c segs where p: "p = a @ h @ t @ c" and a: "spaces a" and c: "spaces c"
      and h: "ident_text h" and t: "segs_text t segs"
    using assms(1) by (auto simp: path_hole_def)
  let ?r = "c @ [125, 125] @ b @ [123, 123] @ n"
  have br: "\<not> is_space 125" by (simp add: is_space_def)
  obtain r0 e where r: "?r = r0 @ e" "spaces e" "r0 \<noteq> []" "\<not> is_space (last r0)"
    using end_spaces [of ?r] br by auto
  have r0: "125 \<in> set r0"
  proof -
    have "125 \<in> set (r0 @ e)" unfolding r(1) [symmetric] by simp
    then show ?thesis using r(2) br by (auto simp: list_all_iff)
  qed
  have hr: "hd r0 = hd ?r" using r(1,3) by (metis hd_append2)
  have "hd ?r = 125 \<or> is_space (hd ?r)" using c by (cases c) auto
  then have hd: "hd r0 \<notin> {46, 91}" "\<not> ident_char (hd r0)"
    using ident_char_facts(2) [of "hd ?r"] unfolding hr by (auto simp: is_space_def ident_char_def ident_start_def is_digit_def)
  have e61: "61 \<notin> set r0"
  proof -
    have "61 \<notin> set ?r" using assms(2) spaces_apart [OF c] by auto
    then show ?thesis unfolding r(1) by simp
  qed
  let ?e = "h @ t @ r0"
  have tl: "tail_like t" using grammar_read(3) [OF t] by simp
  note hf = ident_text_facts [OF h]
  have "trim ?e = ?e" using hf r(3,4) by (intro trim_same) auto
  moreover have "passes (h @ t)"
    using tl passes_plain [of h] hf(1) by (auto simp: tail_like_def intro!: passes_append)
  then have "findTopLevelEquality ?e = eq_scan (rev (h @ t)) 0 r0"
    unfolding findTopLevelEquality_def passes_def by (metis append.assoc append_Nil2)
  then have "findTopLevelEquality ?e = None" using no_equality [OF e61] by simp
  moreover have hh: "hd ?e \<notin> {40, 33, 34, 39}"
    using hf(2) ends_in [OF hf(2), of "{40, 33}"] hf(1) ident_char_facts(1) [of "hd h"] hf(5) by (auto simp: ident_char_def)
  moreover have "literal ?e = None" by (rule braces_no_literal) (use r0 hh in auto)
  moreover have "\<not> ident_char (hd (t @ r0))" using tail_not_ident [OF tl] hd(2) by (cases t) auto
  then have "ident_of ?e = Some (h, t @ r0)" using ident_of_text [OF h, of "t @ r0"] by simp
  moreover have "dsegs (t @ r0) = None" by (rule dsegs_cut [OF t r(3) hd])
  ultimately have "dparse ?e = DLit VUndef" using hf(2) by (simp add: dparse.simps [of ?e] Let_def)
  moreover have "p @ [125, 125] @ b @ [123, 123] @ n = a @ ?e @ e" using r(1) by (simp add: p)
  ultimately show ?thesis using dparse_spaces [OF a r(2), of ?e] by simp
qed

lemma plain_hole_undefined:
  assumes "set (p @ b @ n) \<inter> {91, 61} = {}" "hd (dropWhile is_space (p @ [125])) \<notin> {33, 34, 39, 40}"
  shows "dparse (p @ [125, 125] @ b @ [123, 123] @ n) = DLit VUndef"
proof -
  let ?s = "p @ [125, 125] @ b @ [123, 123] @ n"
  let ?e = "trim ?s"
  have br: "\<not> is_space 125" by (simp add: is_space_def)
  then have n: "?e \<noteq> []" by (auto simp: trim_eq_Nil_iff)
  have sub: "set ?e \<subseteq> set ?s" unfolding trim_def by (metis set_dropWhileD set_rev subsetI)
  have "125 \<in> set (dropWhile is_space ?s)" using br by (induction p) auto
  then have "125 \<in> set (dropWhile is_space (rev (dropWhile is_space ?s)))"
    using br by (metis (no_types, lifting) Un_iff set_append set_rev set_takeWhileD takeWhile_dropWhile_id)
  then have b: "125 \<in> set ?e" by (simp add: trim_def)
  have "hd ?e = hd (dropWhile is_space ?s)"
  proof -
    have "dropWhile is_space ?s = ?e @ rev (takeWhile is_space (rev (dropWhile is_space ?s)))"
      unfolding trim_def by (metis rev_append rev_rev_ident takeWhile_dropWhile_id)
    then show ?thesis using n by (metis hd_append2)
  qed
  also have "\<dots> = hd (dropWhile is_space (p @ [125]))" using br by (induction p) auto
  finally have h: "hd ?e \<notin> {33, 34, 39, 40}" using assms(2) by simp
  have "61 \<notin> set ?e" "91 \<notin> set ?e" using sub assms(1) by auto
  then have "findTopLevelEquality ?e = None" unfolding findTopLevelEquality_def by (intro no_equality)
  moreover have "literal ?e = None" using braces_no_literal [OF b] h by simp
  moreover have "dsegs r = None" if "ident_of ?e = Some (m, r)" for m r
  proof (rule dsegs_stuck)
    have split: "?e = m @ r" "list_all ident_char m" using ident_of_split [OF that] by simp_all
    show "125 \<in> set r" using b split by (auto simp: list_all_iff ident_char_def ident_start_def is_digit_def)
    show "91 \<notin> set r" using \<open>91 \<notin> set ?e\<close> split(1) by (metis Un_iff set_append)
  qed
  ultimately show ?thesis using n h by (intro dparse_stuck) simp_all
qed

lemma two_holes_undefined:
  assumes "path_hole p \<and> 61 \<notin> set (b @ n)
    \<or> set (p @ b @ n) \<inter> {91, 61} = {} \<and> hd (dropWhile is_space (p @ [125])) \<notin> {33, 34, 39, 40}"
  shows "compileAttr w ([123, 123] @ p @ [125, 125] @ b @ [123, 123] @ n @ [125, 125]) vals = VUndef"
  using assms path_hole_undefined plain_hole_undefined unfolding two_holes_one_expression resolve_tree(1)
  by (metis deval.simps(1))

text \<open>With an exclamation mark in front, the pair is the negation of something undefined.\<close>

lemma two_holes_negated:
  "compileAttr w (u ''{{!a}} {{b}}'') vals = VBool True"
proof -
  have e: "u ''{{!a}} {{b}}'' = [123, 123] @ [33, 97] @ [125, 125] @ [32] @ [123, 123] @ [98] @ [125, 125]" by (simp add: u_def)
  let ?s = "[97, 125, 125, 32, 123, 123, 98]"
  have "dparse ?s = DLit VUndef" using plain_hole_undefined [of "[97]" "[32]" "[98]"] by (simp add: is_space_def)
  moreover have "trim (33 # ?s) = 33 # ?s" by (rule trim_same) (simp_all add: is_space_def)
  moreover have "findTopLevelEquality (33 # ?s) = None" unfolding findTopLevelEquality_def by (rule no_equality) simp
  ultimately have "dparse (33 # ?s) = DNot (DLit VUndef)" by (simp add: dparse.simps [of "33 # ?s"] Let_def)
  then show ?thesis unfolding e two_holes_one_expression resolve_tree(1) by simp
qed

end
