(* ===== verification/Dc_Sheets.thy ===== *)
theory Dc_Sheets
  imports Dc_Encode
begin

text \<open>
  What templates leave in the head of the page (src/pseudo.ts and src/helmet.ts in src/support.js):
  the sheet of pseudo-class rules, and the helmet, which mounts scripts, links and metas once and keeps
  every other element of a template's head up to date. Template nodes are trees with local names; the
  serialisation of a node (\<open>outerHTML\<close>) and the CSS parser's verdict on a rule are arguments.
\<close>

subsection \<open>Template nodes\<close>

datatype dnode = DText jstr | DElem jstr "(jstr \<times> jstr) list" "dnode list" | DComment

fun text_content :: "dnode \<Rightarrow> jstr" where
  "text_content (DText s) = s"
| "text_content (DElem t as ks) = concat (map text_content ks)"
| "text_content DComment = []"

definition child_elements :: "dnode list \<Rightarrow> dnode list" where
  "child_elements ks = filter (\<lambda>k. case k of DElem _ _ _ \<Rightarrow> True | _ \<Rightarrow> False) ks"

definition attr_of :: "jstr \<Rightarrow> (jstr \<times> jstr) list \<Rightarrow> jstr option" where
  "attr_of k as = map_of as k"

text \<open>\<open>el.getAttribute(a) || d\<close>.\<close>

definition attr_or :: "jstr \<Rightarrow> (jstr \<times> jstr) list \<Rightarrow> jstr \<Rightarrow> jstr" where
  "attr_or k as d = (case map_of as k of Some v \<Rightarrow> (if v = [] then d else v) | None \<Rightarrow> d)"

subsection \<open>Pseudo-class rules\<close>

text \<open>\<open>n.toString(36)\<close>.\<close>

definition digit36 :: "nat \<Rightarrow> nat" where
  "digit36 d = (if d < 10 then 48 + d else 87 + d)"

fun show36 :: "nat \<Rightarrow> jstr" where
  "show36 n = (if n < 36 then [digit36 n] else show36 (n div 36) @ [digit36 (n mod 36)])"

declare show36.simps [simp del]

definition value36 :: "jstr \<Rightarrow> nat" where
  "value36 s = foldl (\<lambda>a c. 36 * a + (if c < 58 then c - 48 else c - 87)) 0 s"

lemma value36_show: "value36 (show36 n) = n"
proof (induction n rule: show36.induct)
  case (1 n)
  have d: "(if digit36 d < 58 then digit36 d - 48 else digit36 d - 87) = d" if "d < 36" for d
    using that by (auto simp: digit36_def)
  show ?case
  proof (cases "n < 36")
    case True
    then show ?thesis using d [of n] by (simp add: show36.simps [of n] value36_def)
  next
    case False
    then show ?thesis using 1 d [of "n mod 36"] by (simp add: show36.simps [of n] value36_def)
  qed
qed

lemma show36_inj [simp]: "show36 m = show36 n \<longleftrightarrow> m = n"
  by (metis value36_show)

record pseudo_sheet =
  ps_cache :: "(jstr \<times> jstr) list"
  ps_n :: nat
  ps_rules :: "jstr list"

definition empty_sheet :: pseudo_sheet where
  "empty_sheet = \<lparr>ps_cache = [], ps_n = 0, ps_rules = []\<rparr>"

text \<open>\<open>None\<close> when \<open>insertRule\<close> throws: the number is spent, nothing is cached.\<close>

definition pseudo_class :: "(jstr \<Rightarrow> bool) \<Rightarrow> jstr \<Rightarrow> jstr \<Rightarrow> pseudo_sheet \<Rightarrow> jstr option \<times> pseudo_sheet" where
  "pseudo_class css_ok pseudo css st =
     (let k = pseudo @ (u ''|'') @ css
      in case map_of (ps_cache st) k of
           Some cls \<Rightarrow> (Some cls, st)
         | None \<Rightarrow>
             (let cls = (u ''scp'') @ show36 (ps_n st);
                  sel = (if pseudo = (u ''before'') \<or> pseudo = (u ''after'') then (u ''.'') @ cls @ (u ''::'') @ pseudo
                         else (u ''.'') @ cls @ (u '':'') @ pseudo);
                  rule = sel @ [123] @ css @ [125];
                  st1 = st\<lparr>ps_n := ps_n st + 1\<rparr>
              in if css_ok rule
                 then (Some cls, st1\<lparr>ps_rules := ps_rules st @ [rule], ps_cache := ps_cache st @ [(k, cls)]\<rparr>)
                 else (None, st1)))"

definition sheet_ok :: "pseudo_sheet \<Rightarrow> bool" where
  "sheet_ok st =
     (distinct (map fst (ps_cache st)) \<and> distinct (map snd (ps_cache st))
      \<and> (\<forall>(k, c) \<in> set (ps_cache st). \<exists>i < ps_n st. c = (u ''scp'') @ show36 i)
      \<and> length (ps_rules st) = length (ps_cache st))"

lemma sheet_ok_empty: "sheet_ok empty_sheet"
  by (simp add: sheet_ok_def empty_sheet_def)

lemma sheet_ok_step: "sheet_ok st \<Longrightarrow> sheet_ok (snd (pseudo_class css_ok p css st))"
proof -
  assume ok: "sheet_ok st"
  have new: "(u ''scp'') @ show36 (ps_n st) \<notin> snd ` set (ps_cache st)" using ok by (force simp: sheet_ok_def)
  have old: "map_of (ps_cache st) (p @ (u ''|'') @ css) = None \<Longrightarrow> p @ (u ''|'') @ css \<notin> fst ` set (ps_cache st)"
    by (simp add: map_of_eq_None_iff)
  have less: "\<forall>(k, c) \<in> set (ps_cache st). \<exists>i < Suc (ps_n st). c = (u ''scp'') @ show36 i"
    using ok by (fastforce simp: sheet_ok_def intro: less_SucI)
  show ?thesis
    using ok new old less by (auto simp: pseudo_class_def Let_def sheet_ok_def split: option.split)
qed

text \<open>One rule, one class: the same request gets the same class, different requests different ones.\<close>

lemma pseudo_class_hit:
  "map_of (ps_cache st) (p @ (u ''|'') @ css) = Some c \<Longrightarrow> pseudo_class css_ok p css st = (Some c, st)"
  by (simp add: pseudo_class_def)

lemma pseudo_class_stores:
  "fst (pseudo_class css_ok p css st) = Some c \<Longrightarrow>
     map_of (ps_cache (snd (pseudo_class css_ok p css st))) (p @ (u ''|'') @ css) = Some c"
  by (cases "map_of (ps_cache st) (p @ (u ''|'') @ css)") (auto simp: pseudo_class_def Let_def map_add_def split: if_splits)

lemma pseudo_class_again:
  "fst (pseudo_class css_ok p css st) = Some c \<Longrightarrow>
     pseudo_class css_ok p css (snd (pseudo_class css_ok p css st)) = (Some c, snd (pseudo_class css_ok p css st))"
  by (rule pseudo_class_hit [OF pseudo_class_stores])

interpretation sheet: stepper empty_sheet "\<lambda>(p, css). \<lambda>st. snd (pseudo_class css_ok p css st)" sheet_ok for css_ok
  by unfold_locales (auto simp: sheet_ok_empty intro: sheet_ok_step)

lemma pseudo_classes_differ:
  assumes "(k, c) \<in> set (ps_cache (run (\<lambda>(p, css). \<lambda>st. snd (pseudo_class css_ok p css st)) es empty_sheet))"
    and "(k', c) \<in> set (ps_cache (run (\<lambda>(p, css). \<lambda>st. snd (pseudo_class css_ok p css st)) es empty_sheet))"
  shows "k = k'"
proof -
  let ?st = "run (\<lambda>(p, css). \<lambda>st. snd (pseudo_class css_ok p css st)) es empty_sheet"
  have "inj_on snd (set (ps_cache ?st))" using sheet.run_inv [of css_ok es] by (simp add: sheet_ok_def distinct_map)
  from inj_onD [OF this, of "(k, c)" "(k', c)"] assms show ?thesis by simp
qed

text \<open>The key joins its parts without escaping: a bar in the pseudo-class can stand for the separator.\<close>

lemma pseudo_key_clash:
  assumes "fst (pseudo_class css_ok a (b @ (u ''|'') @ c) st) = Some x"
  shows "fst (pseudo_class css_ok (a @ (u ''|'') @ b) c (snd (pseudo_class css_ok a (b @ (u ''|'') @ c) st))) = Some x"
  using pseudo_class_hit [of _ "a @ (u ''|'') @ b" c x css_ok] pseudo_class_stores [OF assms] by simp

subsection \<open>Design document mode\<close>

definition word_char :: "nat \<Rightarrow> bool" where "word_char c = (is_alnum c \<or> c = 95)"

definition is_quote :: "nat \<Rightarrow> bool" where "is_quote c = (c = 34 \<or> c = 39)"

text \<open>\<open>key\s*=\s*["']\<close> without regard to case: the text after the quote.\<close>

definition quoted_attr :: "jstr \<Rightarrow> jstr \<Rightarrow> jstr option" where
  "quoted_attr key s =
     (case ci_prefix key s of
        None \<Rightarrow> None
      | Some (_, r) \<Rightarrow>
          (case dropWhile is_space r of
             e # r1 \<Rightarrow>
               (if e = 61
                then (case dropWhile is_space r1 of q # r2 \<Rightarrow> (if is_quote q then Some r2 else None) | [] \<Rightarrow> None)
                else None)
           | [] \<Rightarrow> None))"

text \<open>\<open>(?:content|value)\s*=\s*["'](\w+)["']\<close>.\<close>

definition mode_value :: "jstr \<Rightarrow> jstr option" where
  "mode_value s =
     (case (case quoted_attr (u ''content'') s of Some r \<Rightarrow> Some r | None \<Rightarrow> quoted_attr (u ''value'') s) of
        None \<Rightarrow> None
      | Some r \<Rightarrow>
          (let v = takeWhile word_char r; t = dropWhile word_char r
           in if v \<noteq> [] \<and> t \<noteq> [] \<and> is_quote (hd t) then Some v else None))"

definition mode_name :: "jstr \<Rightarrow> jstr option" where
  "mode_name s =
     (case quoted_attr (u ''name'') s of
        None \<Rightarrow> None
      | Some r \<Rightarrow>
          (case ci_prefix (u ''design_doc_mode'') r of
             Some (_, q # t) \<Rightarrow> (if is_quote q then Some t else None)
           | _ \<Rightarrow> None))"

text \<open>
  \<open>[^>]*\bX\<close>: the last place, after a unit that is not a word unit, where the rest of the pattern fits.
  \<open>w\<close> says whether the unit before the text is a word unit.
\<close>

fun last_place :: "(jstr \<Rightarrow> 'a option) \<Rightarrow> bool \<Rightarrow> jstr \<Rightarrow> 'a option" where
  "last_place m w [] = None"
| "last_place m w (c # cs) =
     (case last_place m (word_char c) cs of
        Some x \<Rightarrow> Some x
      | None \<Rightarrow> (if w then None else m (c # cs)))"

definition meta_mode :: "jstr \<Rightarrow> jstr option" where
  "meta_mode s =
     (case ci_prefix (u ''<meta'') s of
        None \<Rightarrow> None
      | Some (_, r) \<Rightarrow>
          (if r = [] \<or> word_char (hd r) then None
           else last_place (\<lambda>t. Option.bind (mode_name t) (last_place mode_value False)) True
                  (takeWhile (\<lambda>c. c \<noteq> 62) r)))"

text \<open>\<open>DESIGN_DOC_MODE_RE.exec(html)?.[1] ?? null\<close>.\<close>

fun design_doc_mode :: "jstr \<Rightarrow> jstr option" where
  "design_doc_mode [] = None"
| "design_doc_mode (c # cs) = (case meta_mode (c # cs) of Some m \<Rightarrow> Some m | None \<Rightarrow> design_doc_mode cs)"

lemma design_doc_mode_none: "60 \<notin> set s \<Longrightarrow> design_doc_mode s = None"
proof (induction s)
  case (Cons c cs)
  have "lower_unit c \<noteq> 60" using Cons.prems by (auto simp: lower_unit_def is_upper_def)
  then have "meta_mode (c # cs) = None" by (auto simp: meta_mode_def ci_prefix_def u_def Let_def)
  with Cons show ?case by simp
qed simp

subsection \<open>Helmet\<close>

text \<open>
  An element of the page's head: the key of a live element (\<open>live.get(key)\<close>; none for a mounted one),
  its tag, attributes and text. Nothing else removes elements from the head, so the live elements are
  those found there by their key. \<open>hm_posts\<close> are the messages to the surrounding window.
\<close>

type_synonym helem = "jstr option \<times> jstr \<times> (jstr \<times> jstr) list \<times> jstr"

record helmet =
  hm_mounted :: "jstr list"
  hm_head :: "helem list"
  hm_mode :: "jstr option"
  hm_canvas :: bool
  hm_posts :: "jstr option list"

definition empty_helmet :: helmet where
  "empty_helmet = \<lparr>hm_mounted = [], hm_head = [], hm_mode = None, hm_canvas = False, hm_posts = []\<rparr>"

definition postDesignMode :: "bool \<Rightarrow> jstr option \<Rightarrow> helmet \<Rightarrow> helmet" where
  "postDesignMode framed mode st = (if framed then st\<lparr>hm_posts := hm_posts st @ [mode]\<rparr> else st)"

text \<open>The canvas style is there exactly while \<open>hm_canvas\<close> holds.\<close>

definition setDesignDocMode :: "bool \<Rightarrow> jstr option \<Rightarrow> helmet \<Rightarrow> helmet" where
  "setDesignDocMode framed mode st =
     (if mode = hm_mode st then st
      else (postDesignMode framed mode (st\<lparr>hm_mode := mode\<rparr>))\<lparr>hm_canvas := (mode = Some (u ''canvas''))\<rparr>)"

text \<open>The answer to a \<open>__dc_probe\<close> message (an empty mode, as no mode, is not answered).\<close>

definition design_probe :: "bool \<Rightarrow> helmet \<Rightarrow> helmet" where
  "design_probe framed st = (if hm_mode st \<in> {None, Some []} then st else postDesignMode framed (hm_mode st) st)"

definition atomics_key :: jstr where "atomics_key = (u ''__dc-atomics'')"

definition mount :: "jstr \<Rightarrow> helem \<Rightarrow> helmet \<Rightarrow> helmet" where
  "mount key el st =
     (if key \<in> set (hm_mounted st) then st
      else st\<lparr>hm_mounted := hm_mounted st @ [key], hm_head := hm_head st @ [el]\<rparr>)"

text \<open>What compiling a helmet does at once: the sheet of atomic classes, once per page.\<close>

definition helmet_compile :: "jstr \<Rightarrow> (jstr \<times> jstr) list \<Rightarrow> helmet \<Rightarrow> helmet" where
  "helmet_compile atomic_css attrs st =
     (if attr_of (u ''data-dc-atomics'') attrs \<noteq> None
      then mount atomics_key (None, (u ''style''), [((u ''id''), atomics_key)], atomic_css) st else st)"

text \<open>A live element of the key: made anew when there is none or the tag changed, then brought up to date.\<close>

definition live_elem_tag :: "jstr \<Rightarrow> helem list \<Rightarrow> jstr option" where
  "live_elem_tag key hs = map_option (\<lambda>(_, t, _). t) (find (\<lambda>h. fst h = Some key) hs)"

definition helmet_live :: "jstr \<Rightarrow> jstr \<Rightarrow> (jstr \<times> jstr) list \<Rightarrow> jstr \<Rightarrow> helmet \<Rightarrow> helmet" where
  "helmet_live key tag attrs tx st =
     (let hs = (if live_elem_tag key (hm_head st) = Some tag then hm_head st
                else filter (\<lambda>h. fst h \<noteq> Some key) (hm_head st) @ [(Some key, tag, [], [])])
      in st\<lparr>hm_head := map (\<lambda>(k, t, as, x).
              if k = Some key then (k, t, fold (\<lambda>(a, v). AList.update a v) attrs as, tx) else (k, t, as, x)) hs\<rparr>)"

definition asset_key :: "(dnode \<Rightarrow> jstr) \<Rightarrow> dnode \<Rightarrow> jstr" where
  "asset_key outer child =
     (case child of
        DElem tag attrs kids \<Rightarrow>
          (if tag = (u ''script'') then (u ''SCRIPT|'') @ attr_or (u ''src'') attrs (text_content child)
           else map upper_unit tag @ (u ''|'') @ attr_or (u ''href'') attrs (attr_or (u ''src'') attrs (outer child)))
      | _ \<Rightarrow> [])"

definition helmet_child :: "(dnode \<Rightarrow> jstr) \<Rightarrow> jstr \<Rightarrow> bool \<Rightarrow> nat \<Rightarrow> dnode \<Rightarrow> helmet \<Rightarrow> helmet" where
  "helmet_child outer name partial i child st =
     (case child of
        DElem tag attrs kids \<Rightarrow>
          (if tag = (u ''script'') then
             (if partial then st else mount (asset_key outer child) (None, tag, attrs, text_content child) st)
           else if tag = (u ''link'') \<or> tag = (u ''meta'') then
             (if partial then st else mount (asset_key outer child) (None, tag, attrs, text_content child) st)
           else helmet_live (name @ (u ''|'') @ nshow i) tag attrs (text_content child) st)
      | _ \<Rightarrow> st)"

text \<open>
  The builder of a helmet: \<open>streaming\<close> is the state of the component's template, \<open>helmet_closed\<close> whether something
  follows the helmet. While more may come, the last child may be incomplete, and is not mounted yet.
\<close>

definition helmet_render :: "(dnode \<Rightarrow> jstr) \<Rightarrow> jstr \<Rightarrow> bool \<Rightarrow> bool \<Rightarrow> dnode list \<Rightarrow> helmet \<Rightarrow> helmet" where
  "helmet_render outer name streaming helmet_closed kids st =
     (let raw = child_elements kids
      in fold (\<lambda>(i, child). helmet_child outer name (name \<noteq> [] \<and> streaming \<and> \<not> helmet_closed \<and> i = length raw - 1) i child)
           (enumerate 0 raw) st)"

subsection \<open>Rendering a helmet again changes nothing\<close>

text \<open>What a child leaves behind, and that no other child takes it away.\<close>

definition live_ok :: "jstr \<Rightarrow> jstr \<Rightarrow> (jstr \<times> jstr) list \<Rightarrow> jstr \<Rightarrow> helmet \<Rightarrow> bool" where
  "live_ok key tag attrs tx st =
     (live_elem_tag key (hm_head st) = Some tag
      \<and> (\<forall>h \<in> set (hm_head st). fst h = Some key \<longrightarrow>
           fold (\<lambda>(a, v). AList.update a v) attrs (fst (snd (snd h))) = fst (snd (snd h)) \<and> snd (snd (snd h)) = tx))"

definition child_ok :: "(dnode \<Rightarrow> jstr) \<Rightarrow> jstr \<Rightarrow> bool \<Rightarrow> nat \<Rightarrow> dnode \<Rightarrow> helmet \<Rightarrow> bool" where
  "child_ok outer name partial i child st =
     (case child of
        DElem tag attrs kids \<Rightarrow>
          (if tag \<in> {(u ''script''), (u ''link''), (u ''meta'')} then partial \<or> asset_key outer child \<in> set (hm_mounted st)
           else live_ok (name @ (u ''|'') @ nshow i) tag attrs (text_content child) st)
      | _ \<Rightarrow> True)"

lemma live_elem_tag_update [simp]:
  "live_elem_tag k (map (\<lambda>(k', t, as, x). if k' = Some key then (k', t, f as, y) else (k', t, as, x)) hs) = live_elem_tag k hs"
  by (induction hs) (auto simp: live_elem_tag_def split: if_splits)

lemma live_elem_tag_append: "live_elem_tag k (hs @ hs') = (case live_elem_tag k hs of Some t \<Rightarrow> Some t | None \<Rightarrow> live_elem_tag k hs')"
  by (induction hs) (auto simp: live_elem_tag_def)

lemma live_elem_tag_filter: "k \<noteq> key \<Longrightarrow> live_elem_tag k (filter (\<lambda>h. fst h \<noteq> Some key) hs) = live_elem_tag k hs"
  "live_elem_tag key (filter (\<lambda>h. fst h \<noteq> Some key) hs) = None"
  by (induction hs) (auto simp: live_elem_tag_def)

lemma update_present: "map_of al k = Some v \<Longrightarrow> AList.update k v al = al"
  by (induction al) (auto split: if_splits)

lemma fold_update_again:
  assumes "distinct (map fst as)"
  shows "fold (\<lambda>(a, v). AList.update a v) as (fold (\<lambda>(a, v). AList.update a v) as al)
    = fold (\<lambda>(a, v). AList.update a v) as al"
proof -
  have absent: "k \<notin> fst ` set bs \<Longrightarrow> map_of (fold (\<lambda>(a, v). AList.update a v) bs al) k = map_of al k" for bs al k
    by (induction bs arbitrary: al) (auto simp: update_conv')
  have present: "\<forall>(k, v) \<in> set bs. map_of (fold (\<lambda>(a, v). AList.update a v) bs al) k = Some v"
    if "distinct (map fst bs)" for bs al
    using that
  proof (induction bs arbitrary: al)
    case (Cons b bs)
    obtain k v where b: "b = (k, v)" by (cases b)
    have "map_of (fold (\<lambda>(a, v). AList.update a v) bs (AList.update k v al)) k = Some v"
      using absent [of k bs "AList.update k v al"] Cons.prems by (simp add: b update_conv')
    with Cons show ?case by (simp add: b)
  qed simp
  have same: "\<forall>(k, v) \<in> set bs. map_of x k = Some v \<Longrightarrow> fold (\<lambda>(a, v). AList.update a v) bs x = x" for bs x
    by (induction bs) (auto simp: update_present)
  show ?thesis using same [OF present [OF assms]] .
qed

lemma helmet_live_ok: "distinct (map fst attrs) \<Longrightarrow> live_ok key tag attrs tx (helmet_live key tag attrs tx st)"
  by (auto simp: live_ok_def helmet_live_def Let_def live_elem_tag_append live_elem_tag_filter fold_update_again)
    (simp add: live_elem_tag_def)

lemma map_id_on: "(\<And>x. x \<in> set xs \<Longrightarrow> f x = x) \<Longrightarrow> map f xs = xs"
  by (induction xs) auto

lemma live_ok_update:
  assumes "k \<noteq> key"
  shows "live_ok k t al x (st\<lparr>hm_head := map (\<lambda>(k', t', as', x').
      if k' = Some key then (k', t', f as', y) else (k', t', as', x')) hs\<rparr>) = live_ok k t al x (st\<lparr>hm_head := hs\<rparr>)"
  using assms by (fastforce simp: live_ok_def split: if_splits)

lemma helmet_live_other:
  assumes "k \<noteq> key"
  shows "live_ok k t al x (helmet_live key tag attrs tx st) = live_ok k t al x st"
proof -
  have "live_ok k t al x (st\<lparr>hm_head := filter (\<lambda>h. fst h \<noteq> Some key) (hm_head st) @ [(Some key, tag, [], [])]\<rparr>)
      = live_ok k t al x st"
    using assms by (auto simp: live_ok_def live_elem_tag_append live_elem_tag_filter) (auto simp: live_elem_tag_def split: option.splits)
  moreover have "live_ok k t al x (st\<lparr>hm_head := hm_head st\<rparr>) = live_ok k t al x st" by (simp add: live_ok_def)
  ultimately show ?thesis
    using live_ok_update [OF assms, where st = st and t = t and al = al and x = x
        and f = "\<lambda>as. fold (\<lambda>(a, v). AList.update a v) attrs as" and y = tx]
    by (simp add: helmet_live_def Let_def)
qed

lemma helmet_live_again: "live_ok key tag attrs tx st \<Longrightarrow> helmet_live key tag attrs tx st = st"
proof -
  assume ok: "live_ok key tag attrs tx st"
  have "map (\<lambda>(k, t, as, x). if k = Some key then (k, t, fold (\<lambda>(a, v). AList.update a v) attrs as, tx) else (k, t, as, x))
      (hm_head st) = hm_head st"
    using ok by (intro map_id_on) (auto simp: live_ok_def)
  with ok show ?thesis by (simp add: helmet_live_def live_ok_def)
qed

lemma helmet_child_settles:
  "(\<And>tag attrs kids. child = DElem tag attrs kids \<Longrightarrow> distinct (map fst attrs)) \<Longrightarrow>
     child_ok outer name p i child (helmet_child outer name p i child st)"
  by (cases child) (auto simp: child_ok_def helmet_child_def mount_def intro!: helmet_live_ok)

lemma helmet_child_again: "child_ok outer name p i child st \<Longrightarrow> helmet_child outer name p i child st = st"
  by (cases child) (auto simp: child_ok_def helmet_child_def mount_def helmet_live_again split: if_splits)

lemma live_key_inj: "name @ (u ''|'') @ nshow i = name @ (u ''|'') @ nshow j \<longleftrightarrow> i = j"
  by simp

lemma helmet_child_keeps:
  assumes "i \<noteq> j" "child_ok outer name p i child st"
  shows "child_ok outer name p i child (helmet_child outer name q j child' st)"
proof -
  have m: "set (hm_mounted st) \<subseteq> set (hm_mounted (helmet_child outer name q j child' st))"
    by (cases child') (auto simp: helmet_child_def mount_def helmet_live_def Let_def)
  have l: "live_ok (name @ (u ''|'') @ nshow i) t as x (helmet_child outer name q j child' st)"
    if "live_ok (name @ (u ''|'') @ nshow i) t as x st" for t as x
  proof -
    have mt: "live_ok k t as x (mount key (None, el) st) = live_ok k t as x st" for k key el
      by (auto simp: live_ok_def mount_def live_elem_tag_append split: option.splits) (auto simp: live_elem_tag_def)
    show ?thesis
      using that assms(1) by (cases child') (auto simp: helmet_child_def mt helmet_live_other)
  qed
  show ?thesis using assms(2) m l by (cases child) (auto simp: child_ok_def)
qed

lemma fold_settles:
  assumes "\<And>x s. x \<in> set xs \<Longrightarrow> ok x (f x s)" "\<And>x y s. x \<in> set xs \<Longrightarrow> y \<in> set xs \<Longrightarrow> x \<noteq> y \<Longrightarrow> ok x s \<Longrightarrow> ok x (f y s)"
    and "\<And>x s. x \<in> set xs \<Longrightarrow> ok x s \<Longrightarrow> f x s = s"
  shows "fold f xs (fold f xs s) = fold f xs s"
proof -
  have keep: "ok x s \<Longrightarrow> set ys \<subseteq> set xs \<Longrightarrow> ok x (fold f ys s)" if "x \<in> set xs" for x ys s
    using that by (induction ys arbitrary: s) (simp, metis (no_types, lifting) assms(1,2) fold_simps(2) list.set_intros(1) set_subset_Cons subset_iff subset_trans)
  have all: "set ys \<subseteq> set xs \<Longrightarrow> \<forall>x \<in> set ys. ok x (fold f ys s)" for ys s
    by (induction ys arbitrary: s) (auto intro: keep assms(1))
  have same: "\<forall>x \<in> set ys. ok x s \<Longrightarrow> set ys \<subseteq> set xs \<Longrightarrow> fold f ys s = s" for ys s
    by (induction ys) (auto simp: assms(3))
  show ?thesis using same [OF all [of xs s]] by simp
qed

lemma helmet_render_again:
  assumes "\<And>tag attrs ks. DElem tag attrs ks \<in> set kids \<Longrightarrow> distinct (map fst attrs)"
  shows "helmet_render outer name streaming c kids (helmet_render outer name streaming c kids st)
    = helmet_render outer name streaming c kids st"
  unfolding helmet_render_def Let_def
proof (rule fold_settles [where ok = "\<lambda>(i, child) st. child_ok outer name
      (name \<noteq> [] \<and> streaming \<and> \<not> c \<and> i = length (child_elements kids) - 1) i child st"], goal_cases)
  case (1 x st)
  then obtain i child where x: "x = (i, child)" "child \<in> set kids"
    using nth_mem [of "fst x" "child_elements kids"] by - (cases x, auto simp: in_set_enumerate_eq child_elements_def)
  show ?case using assms x(2) by (auto simp: x(1) intro!: helmet_child_settles)
next
  case (2 x y st)
  then have "fst x \<noteq> fst y" by (auto simp: in_set_enumerate_eq prod_eq_iff)
  with 2 show ?case by (cases x; cases y) (auto intro!: helmet_child_keeps)
next
  case (3 x st)
  then show ?case by (cases x) (auto intro!: helmet_child_again)
qed

text \<open>What is mounted once is mounted once only, however many helmets ask for it.\<close>

lemma mounted_distinct: "distinct (hm_mounted st) \<Longrightarrow> distinct (hm_mounted (helmet_render outer name s c kids st))"
proof -
  have "distinct (hm_mounted st) \<Longrightarrow> distinct (hm_mounted (helmet_child outer name p i ch st))" for p i ch st
    by (cases ch) (auto simp: helmet_child_def mount_def helmet_live_def Let_def)
  then have "distinct (hm_mounted st) \<Longrightarrow>
      distinct (hm_mounted (fold (\<lambda>(i, child). helmet_child outer name (q i) i child) xs st))" for q xs st
    by (induction xs arbitrary: st) auto
  then show "distinct (hm_mounted st) \<Longrightarrow> ?thesis" by (simp add: helmet_render_def Let_def)
qed

lemma canvas_mode: "hm_canvas st = (hm_mode st = Some (u ''canvas'')) \<Longrightarrow>
  hm_canvas (setDesignDocMode fr m st) = (hm_mode (setDesignDocMode fr m st) = Some (u ''canvas''))"
  by (simp add: setDesignDocMode_def postDesignMode_def)

end
