(* ===== verification/Dc_External.thy ===== *)
theory Dc_External
  imports Dc_Encode
begin

text \<open>
  Components that a template imports from other scripts (src/external.ts in src/support.js): the cache
  of loaded modules, Babel loaded on demand, the names a module does not export, and the polling for a
  global that a script of the page may still define. What the browser knows at the time of a call (the
  window object, the custom elements, which values are element classes or carry a \<open>$$typeof\<close> symbol)
  is the environment \<open>page_env\<close>; running a module is an argument.
\<close>

record page_env =
  pe_world :: dc_world
  pe_window :: dval
  pe_custom :: "jstr \<Rightarrow> bool"
  pe_symbol :: "dval \<Rightarrow> bool"
  pe_elclass :: "dval \<Rightarrow> bool"

definition isCustomElementName :: "jstr \<Rightarrow> bool" where
  "isCustomElementName n = (46 \<notin> set n \<and> 45 \<in> set n)"

definition isElementClass :: "page_env \<Rightarrow> dval \<Rightarrow> bool" where
  "isElementClass env g = (is_function (pe_world env) g \<and> pe_elclass env g)"

definition isRenderableType :: "page_env \<Rightarrow> dval \<Rightarrow> bool" where
  "isRenderableType env g =
     (if is_function (pe_world env) g then \<not> isElementClass env g
      else is_object (pe_world env) g \<and> pe_symbol env g)"

definition resolveDottedPath :: "dc_world \<Rightarrow> dval \<Rightarrow> jstr \<Rightarrow> dval" where
  "resolveDottedPath w base name = foldl (get_prop w) base (split_on 46 name)"

subsection \<open>State\<close>

text \<open>A module: its exports (\<open>None\<close> is a new empty object), the functions it added to the window, an error.\<close>

record ext_entry =
  xe_mod :: "dval option"
  xe_globals :: "(jstr \<times> dval) list"
  xe_error :: "jstr option"

datatype babel_state = Babel_Absent | Babel_Loading | Babel_Ready | Babel_Failed

record ext_state =
  ex_cache :: "jstr \<rightharpoonup> ext_entry option"
  ex_babel :: babel_state
  ex_waiting :: "jstr list"
  ex_missing :: "jstr \<rightharpoonup> jstr option"
  ex_polling :: "jstr set"
  ex_timers :: "(jstr \<times> nat) list"

definition ext_start :: ext_state where
  "ext_start = \<lparr>ex_cache = Map.empty, ex_babel = Babel_Absent, ex_waiting = [], ex_missing = Map.empty,
     ex_polling = {}, ex_timers = []\<rparr>"

text \<open>What is asked of the browser: a module's text (jsx or js), the Babel script, a render of everything.\<close>

datatype ext_cmd = Fetch_Module bool jstr | Load_Babel | Resolved_Again

subsection \<open>Loading\<close>

definition failed_entry :: "jstr \<Rightarrow> ext_entry" where
  "failed_entry msg = \<lparr>xe_mod = None, xe_globals = [], xe_error = Some ((u ''failed to load: '') @ msg)\<rparr>"

definition ext_fail :: "jstr \<Rightarrow> jstr \<Rightarrow> ext_state \<Rightarrow> ext_state \<times> ext_cmd list" where
  "ext_fail url msg st = (st\<lparr>ex_cache := (ex_cache st)(url \<mapsto> Some (failed_entry msg))\<rparr>, [Resolved_Again])"

text \<open>
  \<open>load\<close>. A jsx module waits for Babel, which is asked for once; when it failed before, the module
  fails too (the rejected promise is kept, its reason an event).
\<close>

definition babel_event :: jstr where "babel_event = (u ''[object Event]'')"

definition ext_load :: "bool \<Rightarrow> bool \<Rightarrow> jstr \<Rightarrow> ext_state \<Rightarrow> ext_state \<times> ext_cmd list" where
  "ext_load has_babel jsx url st =
     (if ex_cache st url \<noteq> None then (st, [])
      else (let st1 = st\<lparr>ex_cache := (ex_cache st)(url \<mapsto> None)\<rparr>
            in if \<not> jsx \<or> has_babel then (st1, [Fetch_Module jsx url])
               else (case ex_babel st of
                       Babel_Absent \<Rightarrow> (st1\<lparr>ex_babel := Babel_Loading, ex_waiting := ex_waiting st @ [url]\<rparr>, [Load_Babel])
                     | Babel_Loading \<Rightarrow> (st1\<lparr>ex_waiting := ex_waiting st @ [url]\<rparr>, [])
                     | Babel_Ready \<Rightarrow> (st1, [Fetch_Module jsx url])
                     | Babel_Failed \<Rightarrow> ext_fail url babel_event st1)))"

definition babel_loaded :: "ext_state \<Rightarrow> ext_state \<times> ext_cmd list" where
  "babel_loaded st =
     (if ex_babel st = Babel_Loading
      then (st\<lparr>ex_babel := Babel_Ready, ex_waiting := []\<rparr>, map (Fetch_Module True) (ex_waiting st)) else (st, []))"

fun fail_all :: "jstr list \<Rightarrow> ext_state \<Rightarrow> ext_state \<times> ext_cmd list" where
  "fail_all [] st = (st, [])"
| "fail_all (url # us) st =
     (let (s1, cs) = ext_fail url babel_event st; (s2, ds) = fail_all us s1 in (s2, cs @ ds))"

definition babel_failed :: "ext_state \<Rightarrow> ext_state \<times> ext_cmd list" where
  "babel_failed st =
     (if ex_babel st = Babel_Loading
      then fail_all (ex_waiting st) (st\<lparr>ex_babel := Babel_Failed, ex_waiting := []\<rparr>)
      else (st, []))"

text \<open>
  The answer to a module's request, and what running its text comes to: an exception with its
  message, or the exports with the window's keys before and its properties after.
\<close>

datatype module_answer = Answer_Bad nat | Answer_Lost jstr | Answer_Text jstr

datatype module_run = Run_Throws jstr | Run_Exports dval "jstr list" "(jstr \<times> dval) list"

text \<open>The message of \<open>Object.keys\<close> on null or undefined is the engine's (\<open>no_keys\<close>).\<close>

definition ext_answer ::
  "dc_world \<Rightarrow> (bool \<Rightarrow> jstr \<Rightarrow> module_run) \<Rightarrow> jstr \<Rightarrow> bool \<Rightarrow> jstr \<Rightarrow> module_answer \<Rightarrow> ext_state \<Rightarrow> ext_state \<times> ext_cmd list" where
  "ext_answer w run_module no_keys jsx url a st =
     (case a of
        Answer_Bad code \<Rightarrow> ext_fail url ((u ''HTTP '') @ nshow code) st
      | Answer_Lost msg \<Rightarrow> ext_fail url msg st
      | Answer_Text src \<Rightarrow>
          (case run_module jsx src of
             Run_Throws msg \<Rightarrow> ext_fail url msg st
           | Run_Exports exports before after \<Rightarrow>
               (if nullish exports then ext_fail url no_keys st
                else (let globals = filter (\<lambda>(k, v). k \<notin> set before \<and> is_function w v) after
                      in (st\<lparr>ex_cache := (ex_cache st)(url \<mapsto> Some \<lparr>xe_mod = Some exports, xe_globals = globals, xe_error = None\<rparr>)\<rparr>,
                          [Resolved_Again])))))"

subsection \<open>Looking a name up\<close>

definition js_or :: "dval \<Rightarrow> dval \<Rightarrow> dval" where "js_or a b = (if vtruthy a then a else b)"

text \<open>\<open>mod && mod[k]\<close>.\<close>

definition mod_prop :: "dc_world \<Rightarrow> dval option \<Rightarrow> jstr \<Rightarrow> dval" where
  "mod_prop w m k =
     (case m of
        None \<Rightarrow> w_proto w ''Object'' k
      | Some v \<Rightarrow> (if vtruthy v then get_prop w v k else v))"

definition own_keys :: "dc_world \<Rightarrow> dval option \<Rightarrow> jstr list" where
  "own_keys w m =
     (case m of
        Some (VRef a) \<Rightarrow>
          (case w_heap w a of
             OArr vs \<Rightarrow> map nshow [0..<length vs]
           | OPlain kvs \<Rightarrow> uniq (map fst kvs)
           | OFun kvs \<Rightarrow> uniq (map fst kvs)
           | OElem kvs \<Rightarrow> uniq (map fst kvs))
      | Some (VP (PStr s)) \<Rightarrow> map nshow [0..<length s]
      | _ \<Rightarrow> [])"

definition missing_text :: "dc_world \<Rightarrow> ext_entry \<Rightarrow> jstr \<Rightarrow> jstr" where
  "missing_text w e name =
     (case xe_error e of
        Some m \<Rightarrow> m
      | None \<Rightarrow>
          (u ''no export named '') @ [34] @ name @ [34] @ (u '' (has: '') @ join_with (u '', '') (own_keys w (xe_mod e)) @ (u '')''))"

definition missing_key :: "jstr \<Rightarrow> jstr \<Rightarrow> jstr" where
  "missing_key url name = url @ 0 # name"

definition ext_candidate :: "page_env \<Rightarrow> ext_entry \<Rightarrow> jstr \<Rightarrow> dval" where
  "ext_candidate env e name =
     (let w = pe_world env
      in js_or (mod_prop w (xe_mod e) name)
          (js_or (kvs_prop w ''Object'' (xe_globals e) name)
            (js_or (get_prop w (pe_window env) name) (mod_prop w (xe_mod e) (u ''default'')))))"

definition ext_resolve :: "page_env \<Rightarrow> jstr \<Rightarrow> jstr \<Rightarrow> ext_state \<Rightarrow> dval option \<times> ext_state" where
  "ext_resolve env url name st =
     (case ex_cache st url of
        Some (Some e) \<Rightarrow>
          (let c = ext_candidate env e name; key = missing_key url name
           in if is_function (pe_world env) c then (Some c, st)
              else if ex_missing st key = None
              then (None, st\<lparr>ex_missing := (ex_missing st)(key \<mapsto> Some (missing_text (pe_world env) e name))\<rparr>)
              else (None, st))
      | _ \<Rightarrow> (None, st))"

text \<open>A component found as a value, or a tag to render as it is.\<close>

datatype ext_type = Type_Value dval | Type_Tag jstr

definition waitForGlobal :: "nat \<Rightarrow> jstr \<Rightarrow> ext_state \<Rightarrow> ext_state" where
  "waitForGlobal now name st =
     (if name \<in> ex_polling st then st
      else st\<lparr>ex_polling := insert name (ex_polling st), ex_timers := ex_timers st @ [(name, now)]\<rparr>)"

definition global_found :: "page_env \<Rightarrow> jstr \<Rightarrow> bool" where
  "global_found env name =
     (if isCustomElementName name then pe_custom env name
      else isRenderableType env (resolveDottedPath (pe_world env) (pe_window env) name))"

definition ext_resolve_global :: "page_env \<Rightarrow> nat \<Rightarrow> jstr \<Rightarrow> jstr \<Rightarrow> ext_state \<Rightarrow> ext_type option \<times> ext_state" where
  "ext_resolve_global env now url name st =
     (let w = pe_world env; isCE = isCustomElementName name
      in if url = [] then
           (if isCE then
              (if pe_custom env name then (Some (Type_Tag name), st) else (None, waitForGlobal now name st))
            else (let g2 = resolveDottedPath w (pe_window env) name
                  in if isRenderableType env g2 then (Some (Type_Value g2), st) else (None, waitForGlobal now name st)))
         else (case ex_cache st url of
                 Some (Some e) \<Rightarrow>
                   (if isCE \<and> pe_custom env name then (Some (Type_Tag name), st)
                    else (let g1 = kvs_prop w ''Object'' (xe_globals e) name;
                              g = (if nullish g1 then resolveDottedPath w (pe_window env) name else g1)
                          in if isRenderableType env g then (Some (Type_Value g), st)
                             else if 46 \<in> set name then (None, st)
                             else (let key = url @ 0 # (u ''global'') @ 0 # name
                                   in (Some (Type_Tag name),
                                       if ex_missing st key = None
                                       then st\<lparr>ex_missing := (ex_missing st)(key \<mapsto> None)\<rparr> else st))))
               | _ \<Rightarrow> (None, st)))"

definition ext_error :: "jstr \<Rightarrow> jstr \<Rightarrow> ext_state \<Rightarrow> jstr option" where
  "ext_error url name st =
     (case ex_cache st url of
        Some (Some e) \<Rightarrow>
          (case xe_error e of
             Some m \<Rightarrow> Some m
           | None \<Rightarrow> (case ex_missing st (missing_key url name) of Some r \<Rightarrow> r | None \<Rightarrow> None))
      | _ \<Rightarrow> (case ex_missing st (missing_key url name) of Some r \<Rightarrow> r | None \<Rightarrow> None))"

subsection \<open>Polling\<close>

definition GLOBAL_POLL_TIMEOUT_MS :: nat where "GLOBAL_POLL_TIMEOUT_MS = 30000"

text \<open>The timer of a name fires, fifty milliseconds after the last time.\<close>

definition poll_tick :: "page_env \<Rightarrow> nat \<Rightarrow> jstr \<Rightarrow> ext_state \<Rightarrow> ext_state \<times> ext_cmd list" where
  "poll_tick env now name st =
     (case map_of (ex_timers st) name of
        None \<Rightarrow> (st, [])
      | Some started \<Rightarrow>
          (if global_found env name
           then (st\<lparr>ex_polling := ex_polling st - {name}, ex_timers := filter (\<lambda>t. fst t \<noteq> name) (ex_timers st)\<rparr>, [Resolved_Again])
           else if GLOBAL_POLL_TIMEOUT_MS \<le> now - started
           then (st\<lparr>ex_timers := filter (\<lambda>t. fst t \<noteq> name) (ex_timers st)\<rparr>, [])
           else (st, [])))"

subsection \<open>Facts\<close>

lemma ext_resolve_function: "fst (ext_resolve env url name st) = Some c \<Longrightarrow> is_function (pe_world env) c"
  by (auto simp: ext_resolve_def Let_def split: option.splits if_splits)

text \<open>An error is reported once: looking the same name up again changes nothing.\<close>

lemma ext_resolve_again:
  "ext_resolve env url name (snd (ext_resolve env url name st)) = (fst (ext_resolve env url name st), snd (ext_resolve env url name st))"
  by (auto simp: ext_resolve_def Let_def split: option.split)

text \<open>Everything that can happen to the state, with the requests made so far.\<close>

datatype ext_event =
    Ask bool bool jstr
  | Babel_Came
  | Babel_Lost
  | Module_Came dc_world "bool \<Rightarrow> jstr \<Rightarrow> module_run" jstr bool jstr module_answer
  | Look page_env jstr jstr
  | Look_Global page_env nat jstr jstr
  | Poll_Timer page_env nat jstr

fun ext_step :: "ext_event \<Rightarrow> ext_state \<Rightarrow> ext_state \<times> ext_cmd list" where
  "ext_step (Ask has_babel jsx url) st = ext_load has_babel jsx url st"
| "ext_step Babel_Came st = babel_loaded st"
| "ext_step Babel_Lost st = babel_failed st"
| "ext_step (Module_Came w rm nk jsx url a) st = ext_answer w rm nk jsx url a st"
| "ext_step (Look env url name) st = (snd (ext_resolve env url name st), [])"
| "ext_step (Look_Global env now url name) st = (snd (ext_resolve_global env now url name st), [])"
| "ext_step (Poll_Timer env now name) st = poll_tick env now name st"

definition ext_log :: "ext_event \<Rightarrow> ext_state \<times> ext_cmd list \<Rightarrow> ext_state \<times> ext_cmd list" where
  "ext_log e sc = (let (st', cs) = ext_step e (fst sc) in (st', snd sc @ cs))"

fun fetched_urls :: "ext_cmd list \<Rightarrow> jstr list" where
  "fetched_urls [] = []"
| "fetched_urls (Fetch_Module k url # cs) = url # fetched_urls cs"
| "fetched_urls (_ # cs) = fetched_urls cs"

lemma fetched_urls_append [simp]: "fetched_urls (cs @ ds) = fetched_urls cs @ fetched_urls ds"
  by (induction cs rule: fetched_urls.induct) auto

lemma fetched_urls_map [simp]: "fetched_urls (map (Fetch_Module k) us) = us"
  by (induction us) auto

text \<open>What has been fetched or waits for Babel is in the cache, and nothing is in two places.\<close>

definition ext_ok :: "ext_state \<times> ext_cmd list \<Rightarrow> bool" where
  "ext_ok sc =
     (distinct (fetched_urls (snd sc) @ ex_waiting (fst sc))
      \<and> set (fetched_urls (snd sc) @ ex_waiting (fst sc)) \<subseteq> dom (ex_cache (fst sc))
      \<and> (ex_waiting (fst sc) \<noteq> [] \<longrightarrow> ex_babel (fst sc) = Babel_Loading))"

lemma ext_fail_facts [simp]:
  "fst (ext_fail url msg st) = st\<lparr>ex_cache := (ex_cache st)(url \<mapsto> Some (failed_entry msg))\<rparr>"
  "snd (ext_fail url msg st) = [Resolved_Again]"
  by (simp_all add: ext_fail_def)

lemma fail_all_facts:
  "ex_waiting (fst (fail_all us st)) = ex_waiting st \<and> fetched_urls (snd (fail_all us st)) = []
     \<and> dom (ex_cache (fst (fail_all us st))) = set us \<union> dom (ex_cache st)
     \<and> ex_polling (fst (fail_all us st)) = ex_polling st \<and> ex_timers (fst (fail_all us st)) = ex_timers st"
proof (induction us arbitrary: st)
  case (Cons url us)
  show ?case
    using Cons.IH [of "st\<lparr>ex_cache := (ex_cache st)(url \<mapsto> Some (failed_entry babel_event))\<rparr>"]
    by (simp add: ext_fail_def split_beta del: fun_upd_apply)
qed simp

text \<open>Answers, lookups and timers ask for no module and keep the waiting list and the cached addresses.\<close>

lemma ext_quiet_step:
  assumes "case e of Module_Came _ _ _ _ _ _ \<Rightarrow> True | Look _ _ _ \<Rightarrow> True | Look_Global _ _ _ _ \<Rightarrow> True | Poll_Timer _ _ _ \<Rightarrow> True | _ \<Rightarrow> False"
  shows "fetched_urls (snd (ext_step e st)) = [] \<and> ex_waiting (fst (ext_step e st)) = ex_waiting st
    \<and> ex_babel (fst (ext_step e st)) = ex_babel st \<and> dom (ex_cache st) \<subseteq> dom (ex_cache (fst (ext_step e st)))"
proof (cases e)
  case (Module_Came w rm nk jsx url a)
  then show ?thesis by (auto simp: ext_answer_def ext_fail_def Let_def split: module_answer.split module_run.split)
next
  case (Look env url name)
  then show ?thesis by (auto simp: ext_resolve_def Let_def split: option.splits)
next
  case (Look_Global env now url name)
  then show ?thesis by (auto simp: ext_resolve_global_def waitForGlobal_def Let_def split: option.splits)
next
  case (Poll_Timer env now name)
  then show ?thesis by (auto simp: poll_tick_def split: option.splits)
qed (use assms in auto)

lemma ext_ok_quiet:
  assumes "ext_ok (st, cs)" "fetched_urls cs' = []" "ex_waiting st' = ex_waiting st" "ex_babel st' = ex_babel st"
    and "dom (ex_cache st) \<subseteq> dom (ex_cache st')"
  shows "ext_ok (st', cs @ cs')"
  using assms unfolding ext_ok_def by (simp only: fst_conv snd_conv fetched_urls_append append_Nil2) (meson order_trans)

lemma ext_ok_quiet_event:
  assumes "case e of Module_Came _ _ _ _ _ _ \<Rightarrow> True | Look _ _ _ \<Rightarrow> True | Look_Global _ _ _ _ \<Rightarrow> True | Poll_Timer _ _ _ \<Rightarrow> True | _ \<Rightarrow> False"
    and "ext_ok (st, cs)"
  shows "ext_ok (ext_log e (st, cs))"
proof -
  have "ext_log e (st, cs) = (fst (ext_step e st), cs @ snd (ext_step e st))" by (simp add: ext_log_def split_beta Let_def)
  with ext_ok_quiet [OF assms(2), of "snd (ext_step e st)" "fst (ext_step e st)"] ext_quiet_step [OF assms(1), of st]
  show ?thesis by presburger
qed

lemma ext_ok_step: "ext_ok sc \<Longrightarrow> ext_ok (ext_log e sc)"
proof -
  obtain st cs where sc: "sc = (st, cs)" by (cases sc)
  assume ok: "ext_ok sc"
  show "ext_ok (ext_log e sc)"
  proof (cases e)
    case (Ask hb jsx url)
    then show ?thesis using ok
      by (cases "ex_babel st")
        (auto simp: sc ext_ok_def ext_log_def ext_load_def ext_fail_def Let_def split_beta split: if_splits)
  next
    case Babel_Came
    then show ?thesis using ok
      by (auto simp: sc ext_ok_def ext_log_def babel_loaded_def Let_def split_beta split: if_splits)
  next
    case Babel_Lost
    then show ?thesis using ok fail_all_facts [of "ex_waiting st" "st\<lparr>ex_babel := Babel_Failed, ex_waiting := []\<rparr>"]
      by (auto simp: sc ext_ok_def ext_log_def split_beta Let_def babel_failed_def)
  qed (use ok ext_ok_quiet_event [of e st cs] in \<open>simp_all add: sc\<close>)
qed

interpretation ext: stepper "(ext_start, [])" ext_log ext_ok
  by unfold_locales (simp add: ext_ok_def ext_start_def, rule ext_ok_step)

lemma fetched_once: "distinct (fetched_urls (snd (run ext_log es (ext_start, []))))"
  using ext.run_inv [of es] by (simp add: ext_ok_def)

text \<open>
  A name whose polling ended without finding it stays in the set of polled names, so nothing ever polls
  for it again, and its components are looked for only when something else renders.
\<close>

definition gave_up :: "jstr \<Rightarrow> ext_state \<Rightarrow> bool" where
  "gave_up name st = (name \<in> ex_polling st \<and> map_of (ex_timers st) name = None)"

lemma map_of_filter_fst: "map_of (filter (\<lambda>t. fst t \<noteq> k) ts) n = (if n = k then None else map_of ts n)"
  by (induction ts) auto

lemma gave_up_stays: "gave_up name st \<Longrightarrow> gave_up name (fst (ext_step e st))"
proof (cases e)
  case (Ask hb jsx url)
  then show "gave_up name st \<Longrightarrow> ?thesis"
    by (cases "ex_babel st") (auto simp: gave_up_def ext_load_def ext_fail_def Let_def)
next
  case Babel_Lost
  then show "gave_up name st \<Longrightarrow> ?thesis" by (simp add: babel_failed_def gave_up_def fail_all_facts)
next
  case (Look_Global env now url n)
  then show "gave_up name st \<Longrightarrow> ?thesis"
    by (auto simp: gave_up_def ext_resolve_global_def waitForGlobal_def Let_def map_add_Some_iff split: option.splits)
qed (auto simp: gave_up_def babel_loaded_def ext_answer_def ext_fail_def ext_resolve_def poll_tick_def Let_def map_of_filter_fst
    split: option.splits module_answer.split module_run.split)

lemma timeout_gives_up:
  assumes "map_of (ex_timers st) name = Some t0" "name \<in> ex_polling st" "\<not> global_found env name" "t0 + GLOBAL_POLL_TIMEOUT_MS \<le> now"
  shows "gave_up name (fst (poll_tick env now name st))"
  using assms by (simp add: gave_up_def poll_tick_def map_of_filter_fst le_diff_conv2)

end
