(* ===== verification/Dc_Compile.thy ===== *)
theory Dc_Compile
  imports Dc_Sheets Dc_External
begin

text \<open>
  Templates (src/compile.ts in src/support.js): a tree of nodes is compiled once into builders, and a
  builder renders it for given values into a tree of React elements. A builder is a function, as it is
  a closure in the code; what compiling and rendering leave outside (the sheet, the head, the modules
  asked for, the warnings given) is the state \<open>dc_doc\<close>, threaded in the order of the calls. Compiling
  may throw (\<open>None\<close>). The environment \<open>host_env\<close> is the browser at the time of a call.
\<close>

subsection \<open>Environment, state, elements\<close>

record host_env =
  he_page :: page_env
  he_now :: nat
  he_css_ok :: "jstr \<Rightarrow> bool"
  he_outer :: "dnode \<Rightarrow> jstr"
  he_atomic_css :: jstr
  he_babel :: bool
  he_editor :: bool

record dc_doc =
  dd_sheet :: pseudo_sheet
  dd_helmet :: helmet
  dd_ext :: ext_state
  dd_cmds :: "ext_cmd list"
  dd_warned :: "jstr list"

definition doc_start :: dc_doc where
  "doc_start = \<lparr>dd_sheet = empty_sheet, dd_helmet = empty_helmet, dd_ext = ext_start, dd_cmds = [], dd_warned = []\<rparr>"

text \<open>What a builder reads of the component it renders for.\<close>

record rctx =
  cx_name :: jstr
  cx_streaming :: bool
  cx_html_streaming :: bool

datatype rprop = PVal dval | PStyle "(jstr \<times> dval) list" | PNodes "rnode list"
and rnode =
    RNull
  | RText jstr
  | RFrag nat "rnode list"
  | RFragVal nat dval
  | RHost jstr "(jstr \<times> rprop) list" "rnode list"
  | RDc jstr "(jstr \<times> rprop) list"
  | RExt ext_type "(jstr \<times> rprop) list"
  | RHolder dval jstr "jstr option" "jstr option"

type_synonym builder = "host_env \<Rightarrow> scope \<Rightarrow> rctx \<Rightarrow> nat \<Rightarrow> dc_doc \<Rightarrow> rnode \<times> dc_doc"

definition pnum :: "nat \<Rightarrow> rprop" where "pnum n = PVal (VNum (of_nat n))"

definition pstr_opt :: "jstr option \<Rightarrow> rprop" where
  "pstr_opt s = PVal (case s of Some x \<Rightarrow> VStr x | None \<Rightarrow> VNull)"

abbreviation world :: "host_env \<Rightarrow> dc_world" where "world he \<equiv> pe_world (he_page he)"

subsection \<open>Attributes\<close>

definition EVENT_MAP :: "(jstr \<times> jstr) list" where
  "EVENT_MAP =
     [((u ''onclick''), (u ''onClick'')), ((u ''onchange''), (u ''onChange'')), ((u ''oninput''), (u ''onInput'')), ((u ''onsubmit''), (u ''onSubmit'')),
      ((u ''onkeydown''), (u ''onKeyDown'')), ((u ''onkeyup''), (u ''onKeyUp'')), ((u ''onkeypress''), (u ''onKeyPress'')),
      ((u ''onmousedown''), (u ''onMouseDown'')), ((u ''onmouseup''), (u ''onMouseUp'')), ((u ''onmouseenter''), (u ''onMouseEnter'')),
      ((u ''onmouseleave''), (u ''onMouseLeave'')), ((u ''onfocus''), (u ''onFocus'')), ((u ''onblur''), (u ''onBlur'')),
      ((u ''ondoubleclick''), (u ''onDoubleClick'')), ((u ''oncontextmenu''), (u ''onContextMenu''))]"

datatype pkind = Kind_Dom | Kind_Dc | Kind_X

text \<open>The property an attribute becomes; \<open>None\<close> for an attribute named \<open>on\<close>, whose third unit is read.
  The names of event attributes are ASCII.\<close>

definition event_key :: "jstr \<Rightarrow> jstr option" where
  "event_key key =
     (case map_of EVENT_MAP key of
        Some k \<Rightarrow> Some k
      | None \<Rightarrow> (case drop 2 key of c # r \<Rightarrow> Some ((u ''on'') @ upper_unit c # r) | [] \<Rightarrow> None))"

definition prop_key :: "pkind \<Rightarrow> jstr \<Rightarrow> jstr option" where
  "prop_key kind key =
     (if kind \<noteq> Kind_Dom then
        Some (if 45 \<in> set key \<and> \<not> (kind = Kind_X \<and> (starts_with key (u ''aria-'') \<or> starts_with key (u ''data-'')))
              then kebabToCamel key else key)
      else if key = (u ''class'') then Some (u ''className'')
      else if key = (u ''for'') then Some (u ''htmlFor'')
      else if starts_with key (u ''on'') then event_key key
      else Some key)"

definition decoded_key :: "jstr \<Rightarrow> jstr" where
  "decoded_key name = (if starts_with name CAMEL_ATTR then kebabToCamel (drop (length CAMEL_ATTR) name) else name)"

record collected =
  co_props :: "(jstr \<times> jstr) list"
  co_classes :: "jstr list"
  co_hint :: "jstr option"

text \<open>\<open>collectProps\<close>: the getters are kept as the attribute texts they compile.\<close>

fun collect_from :: "(jstr \<Rightarrow> bool) \<Rightarrow> pkind \<Rightarrow> (jstr \<times> jstr) list \<Rightarrow> collected \<Rightarrow> pseudo_sheet \<Rightarrow> collected option \<times> pseudo_sheet" where
  "collect_from css_ok kind [] acc st = (Some acc, st)"
| "collect_from css_ok kind ((name, val) # attrs) acc st =
     (if name = (u ''sc-name'') \<or> name = (u ''data-dc-tpl'') then collect_from css_ok kind attrs acc st
      else (let key = decoded_key name
            in if key = (u ''hint-size'') then collect_from css_ok kind attrs (acc\<lparr>co_hint := Some val\<rparr>) st
               else if starts_with key (u ''style-'') then
                 (case pseudo_class css_ok (drop 6 key) val st of
                    (None, st') \<Rightarrow> (None, st')
                  | (Some cls, st') \<Rightarrow> collect_from css_ok kind attrs (acc\<lparr>co_classes := co_classes acc @ [cls]\<rparr>) st')
               else (case prop_key kind key of
                       None \<Rightarrow> (None, st)
                     | Some k \<Rightarrow> collect_from css_ok kind attrs (acc\<lparr>co_props := co_props acc @ [(k, val)]\<rparr>) st)))"

definition collectProps :: "host_env \<Rightarrow> pkind \<Rightarrow> (jstr \<times> jstr) list \<Rightarrow> dc_doc \<Rightarrow> collected option \<times> dc_doc" where
  "collectProps he kind attrs d =
     (let (r, s) = collect_from (he_css_ok he) kind attrs \<lparr>co_props = [], co_classes = [], co_hint = None\<rparr> (dd_sheet d)
      in (r, d\<lparr>dd_sheet := s\<rparr>))"

definition HOST_STYLE_PROPS :: "jstr list" where
  "HOST_STYLE_PROPS =
     [(u ''position''), (u ''left''), (u ''right''), (u ''top''), (u ''bottom''), (u ''inset''), (u ''width''), (u ''height''), (u ''z-index''), (u ''transform'')]"

definition hostPositionStyle :: "dc_world \<Rightarrow> dval \<Rightarrow> (jstr \<times> dval) list option" where
  "hostPositionStyle w style =
     (let all = (case style of
            VP (PStr s) \<Rightarrow> Some (map (\<lambda>(k, v). (k, VStr v)) (cssToObj s))
          | VP _ \<Rightarrow> None
          | VRef a \<Rightarrow> (if is_object w style
                       then Some (map (\<lambda>k. (k, get_prop w style k)) (own_keys w (Some style))) else None))
      in case all of
           None \<Rightarrow> None
         | Some kvs \<Rightarrow>
             (let out = filter (\<lambda>(k, v). camelToKebab k \<in> set HOST_STYLE_PROPS) kvs
              in if out = [] then None else Some out))"

subsection \<open>Warnings\<close>

definition warnUnresolved :: "rctx \<Rightarrow> jstr \<Rightarrow> dc_doc \<Rightarrow> dc_doc" where
  "warnUnresolved cx what d =
     (let key = (if cx_name cx = [] then (u ''?'') else cx_name cx) @ 0 # what
      in if key \<in> set (dd_warned d) then d else d\<lparr>dd_warned := dd_warned d @ [key]\<rparr>)"

definition braced :: "jstr \<Rightarrow> jstr" where
  "braced p = [123, 123, 32] @ trim p @ [32, 125, 125]"

subsection \<open>Texts\<close>

text \<open>One part of a text with holes, the \<open>i\<close>-th.\<close>

definition span_of :: "nat \<Rightarrow> jstr \<Rightarrow> jstr \<Rightarrow> rnode" where
  "span_of i cls s = RHost (u ''span'') [((u ''key''), pnum i), ((u ''className''), PVal (VStr cls))] [RText s]"

definition text_part :: "host_env \<Rightarrow> scope \<Rightarrow> rctx \<Rightarrow> nat \<Rightarrow> bool \<times> jstr \<Rightarrow> dc_doc \<Rightarrow> rnode \<times> dc_doc" where
  "text_part he vals cx i part d =
     (let (hole, p) = part
      in if \<not> hole then (RText p, d)
         else (let w = world he; v = resolve w (Some vals) p
               in if v = VUndef then
                    (if \<not> cx_streaming cx then
                       (if he_editor he then (span_of i (u ''sc-interp sc-unresolved'') (braced p), d)
                        else (RNull, warnUnresolved cx (braced p @ (ux '' never resolved {2014} rendered as empty'')) d))
                     else (span_of i (u ''sc-interp sc-missing'') (trim p), d))
                  else if is_element w v \<or> is_array w v then (RFragVal i v, d)
                  else if v = VNull \<or> type_of w v = (u ''boolean'') then (RNull, d)
                  else (span_of i (u ''sc-interp'') (val_text w v), d)))"

fun text_parts :: "host_env \<Rightarrow> scope \<Rightarrow> rctx \<Rightarrow> nat \<Rightarrow> (bool \<times> jstr) list \<Rightarrow> dc_doc \<Rightarrow> rnode list \<times> dc_doc" where
  "text_parts he vals cx i [] d = ([], d)"
| "text_parts he vals cx i (p # ps) d =
     (let (n, d1) = text_part he vals cx i p d; (ns, d2) = text_parts he vals cx (i + 1) ps d1 in (n # ns, d2))"

definition walkText :: "jstr \<Rightarrow> builder option" where
  "walkText s =
     (if \<not> contains s [123, 123] then
        (if trim s = [] \<and> 32 \<notin> set s then None else Some (\<lambda>he vals cx key d. (RText s, d)))
      else Some (\<lambda>he vals cx key d.
             let (ns, d1) = text_parts he vals cx 0 (hole_split [] s) d in (RFrag key ns, d1)))"

subsection \<open>Builders of elements\<close>

fun build_all :: "builder list \<Rightarrow> nat \<Rightarrow> host_env \<Rightarrow> scope \<Rightarrow> rctx \<Rightarrow> dc_doc \<Rightarrow> rnode list \<times> dc_doc" where
  "build_all [] j he vals cx d = ([], d)"
| "build_all (b # bs) j he vals cx d =
     (let (n, d1) = b he vals cx j d; (ns, d2) = build_all bs (j + 1) he vals cx d1 in (n # ns, d2))"

text \<open>\<open>parseInt(s, 10)\<close> of a count: what is no positive number counts as none.\<close>

definition hint_count :: "jstr \<Rightarrow> nat" where
  "hint_count s =
     (let t = dropWhile is_space s; t' = (if starts_with t (u ''+'') then tl t else t)
      in digits_value (takeWhile is_digit t'))"

fun build_items :: "builder list \<Rightarrow> jstr \<Rightarrow> nat \<Rightarrow> dval list \<Rightarrow> host_env \<Rightarrow> scope \<Rightarrow> rctx \<Rightarrow> dc_doc \<Rightarrow> rnode list \<times> dc_doc" where
  "build_items kids asName i [] he vals cx d = ([], d)"
| "build_items kids asName i (x # xs) he vals cx d =
     (let sub = vals(asName \<mapsto> x, (u ''$index'') \<mapsto> VNum (of_nat i));
          (ns, d1) = build_all kids 0 he sub cx d;
          (fs, d2) = build_items kids asName (i + 1) xs he vals cx d1
      in (RFrag i ns # fs, d2))"

definition elements_of :: "dc_world \<Rightarrow> dval \<Rightarrow> dval list option" where
  "elements_of w v = (case v of VRef a \<Rightarrow> (case w_heap w a of OArr vs \<Rightarrow> Some vs | _ \<Rightarrow> None) | _ \<Rightarrow> None)"

definition build_for :: "(jstr \<times> jstr) list \<Rightarrow> builder list \<Rightarrow> builder" where
  "build_for attrs kids he vals cx key d =
     (let w = world he; src = attr_or (u ''list'') attrs []; v = compileAttr w src vals;
          asName = attr_or (u ''as'') attrs (u ''item'');
          hintN = hint_count (attr_or (u ''hint-placeholder-count'') attrs (u ''0''));
          (items, d1) =
            (case elements_of w v of
               Some vs \<Rightarrow> (vs, d)
             | None \<Rightarrow>
                 (if \<not> cx_streaming cx then
                    ([], if nullish v then d
                         else warnUnresolved cx
                           ((u ''sc-for list='') @ [34] @ src @ [34] @ (u '' is not an array ('') @ type_of w v @ (u '')'')) d)
                  else (replicate hintN VUndef, d)));
          (fs, d2) = build_items kids asName 0 items he vals cx d1
      in (RFrag key fs, d2))"

definition build_if :: "(jstr \<times> jstr) list \<Rightarrow> builder list \<Rightarrow> builder" where
  "build_if attrs kids he vals cx key d =
     (let w = world he; v0 = compileAttr w (attr_or (u ''value'') attrs []) vals;
          v = (case attr_of (u ''hint-placeholder-val'') attrs of
                 Some hint \<Rightarrow> (if v0 = VUndef \<and> cx_streaming cx then compileAttr w hint vals else v0)
               | None \<Rightarrow> v0)
      in if vtruthy v then (let (ns, d1) = build_all kids 0 he vals cx d in (RFrag key ns, d1)) else (RNull, d))"

text \<open>\<open>Object.assign(props, v)\<close>.\<close>

definition assign_object :: "dc_world \<Rightarrow> dval \<Rightarrow> (jstr \<times> rprop) list \<Rightarrow> (jstr \<times> rprop) list" where
  "assign_object w v props =
     (if vtruthy v \<and> is_object w v
      then fold (\<lambda>k ps. AList.update k (PVal (get_prop w v k)) ps) (own_keys w (Some v)) props else props)"

definition set_prop :: "dc_world \<Rightarrow> jstr \<Rightarrow> dval \<Rightarrow> (jstr \<times> rprop) list \<Rightarrow> (jstr \<times> rprop) list" where
  "set_prop w k v props = (if k = (u ''dcProps'') then assign_object w v props else AList.update k (PVal v) props)"

definition style_prop :: "(jstr \<times> dval) list option \<Rightarrow> rprop" where
  "style_prop s = (case s of Some kvs \<Rightarrow> PStyle kvs | None \<Rightarrow> PVal VUndef)"

definition host_style :: "host_env \<Rightarrow> jstr option \<Rightarrow> scope \<Rightarrow> (jstr \<times> dval) list option" where
  "host_style he raw vals =
     (case raw of Some s \<Rightarrow> hostPositionStyle (world he) (compileAttr (world he) s vals) | None \<Rightarrow> None)"

definition build_component ::
  "jstr \<Rightarrow> jstr option \<Rightarrow> jstr option \<Rightarrow> collected \<Rightarrow> builder list \<Rightarrow> builder" where
  "build_component name tplId styleRaw co kids he vals cx key d =
     (let w = world he;
          props0 = [((u ''key''), pnum key), ((u ''__hintSize''), pstr_opt (co_hint co)), ((u ''__tplId''), pstr_opt tplId),
                    ((u ''__hostStyle''), style_prop (host_style he styleRaw vals))];
          props1 = fold (\<lambda>(k, raw). set_prop w k (compileAttr w raw vals)) (co_props co) props0;
          (ns, d1) = build_all kids 0 he vals cx d;
          props2 = (if kids \<noteq> [] then AList.update (u ''children'') (PNodes ns) props1 else props1)
      in (RDc name props2, d1))"

definition build_element :: "jstr \<Rightarrow> jstr option \<Rightarrow> collected \<Rightarrow> builder list \<Rightarrow> builder" where
  "build_element realTag tplId co kids he vals cx key d =
     (let w = world he;
          put = (\<lambda>(k, raw) ps.
            let v = compileAttr w raw vals;
                p = (case v of
                       VP (PStr s) \<Rightarrow>
                         (if k = (u ''style'') then PStyle (map (\<lambda>(a, x). (a, VStr x)) (cssToObj s)) else PVal v)
                     | _ \<Rightarrow> (if (k = (u ''value'') \<or> k = (u ''checked'')) \<and> v = VUndef
                             then PVal (if k = (u ''checked'') then VBool False else VStr []) else PVal v))
            in AList.update k p ps);
          props1 = fold put (co_props co) [((u ''key''), pnum key), ((u ''data-dc-tpl''), pstr_opt tplId)];
          own_class = (case map_of props1 (u ''className'') of
                         Some (PVal v) \<Rightarrow> (if vtruthy v then [val_text w v] else [])
                       | _ \<Rightarrow> []);
          props2 = (if co_classes co \<noteq> []
                    then AList.update (u ''className'') (PVal (VStr (join_with (u '' '') (own_class @ co_classes co)))) props1
                    else props1);
          (ns, d1) = build_all kids 0 he vals cx d
      in (RHost realTag props2 ns, d1))"

subsection \<open>Imports\<close>

text \<open>\<open>/\.(jsx|tsx)(\?|#|$)/i\<close>.\<close>

fun is_jsx :: "jstr \<Rightarrow> bool" where
  "is_jsx [] = False"
| "is_jsx (c # cs) =
     ((case (case ci_prefix (u ''.jsx'') (c # cs) of Some m \<Rightarrow> Some m | None \<Rightarrow> ci_prefix (u ''.tsx'') (c # cs)) of
         Some (_, r) \<Rightarrow> r = [] \<or> hd r = 63 \<or> hd r = 35
       | None \<Rightarrow> False) \<or> is_jsx cs)"

text \<open>What is read of an \<open>x-import\<close> when it is compiled.\<close>

record ximport =
  xi_global :: jstr
  xi_export :: jstr
  xi_url :: jstr
  xi_tpl :: "jstr option"
  xi_style :: "jstr option"
  xi_co :: collected

definition first_of :: "jstr list \<Rightarrow> (jstr \<times> jstr) list \<Rightarrow> jstr" where
  "first_of ks attrs = fold (\<lambda>k acc. if acc = [] then attr_or k attrs [] else acc) ks []"

definition evalName :: "dc_world \<Rightarrow> jstr \<Rightarrow> scope \<Rightarrow> jstr" where
  "evalName w raw vals =
     (let v = compileAttr w raw vals; s = (if nullish v then [] else val_text w v)
      in if contains s [123, 123] then [] else s)"

definition from_cannot_bind :: jstr where
  "from_cannot_bind = (ux ''x-import {60}from{60} cannot contain '') @ [123, 123] @ (ux '' {2026} '') @ [125, 125]
     @ (ux '' {2014} module URLs are resolved at parse time; use a literal URL'')"

text \<open>The component an import stands for, if it has come.\<close>

definition import_target :: "ximport \<Rightarrow> host_env \<Rightarrow> scope \<Rightarrow> dc_doc \<Rightarrow> jstr \<times> ext_type option \<times> dc_doc" where
  "import_target xi he vals d =
     (let w = world he; globalName = evalName w (xi_global xi) vals;
          name = (if globalName \<noteq> [] then globalName else evalName w (xi_export xi) vals)
      in if name = [] \<or> contains (xi_url xi) [123, 123] then (name, None, d)
         else if globalName \<noteq> []
         then (let (c, e) = ext_resolve_global (he_page he) (he_now he) (xi_url xi) globalName (dd_ext d)
               in (name, c, d\<lparr>dd_ext := e\<rparr>))
         else (let (c, e) = ext_resolve (he_page he) (xi_url xi) name (dd_ext d)
               in (name, map_option Type_Value c, d\<lparr>dd_ext := e\<rparr>)))"

text \<open>The properties, and whether one of them was undefined.\<close>

definition import_props :: "ximport \<Rightarrow> host_env \<Rightarrow> scope \<Rightarrow> (jstr \<times> rprop) list \<Rightarrow> (jstr \<times> rprop) list \<times> bool" where
  "import_props xi he vals props0 =
     fold (\<lambda>(k, raw) (ps, hole).
         if k \<in> {(u ''component''), (u ''componentFromGlobalScope''), (u ''from'')} then (ps, hole)
         else (let v = compileAttr (world he) raw vals in (set_prop (world he) k v ps, hole \<or> v = VUndef)))
       (co_props (xi_co xi)) (props0, False)"

definition build_import :: "ximport \<Rightarrow> builder list \<Rightarrow> builder" where
  "build_import xi kids he vals cx key d =
     (let wrap = (xi_tpl xi \<noteq> None \<or> xi_style xi \<noteq> None);
          (name, target, d1) = import_target xi he vals d;
          hostStyle = host_style he (xi_style xi) vals;
          wrapper = [((u ''key''), pnum key), ((u ''className''), PVal (VStr (u ''sc-host-x''))), ((u ''data-dc-tpl''), pstr_opt (xi_tpl xi)),
                     ((u ''style''), case hostStyle of Some kvs \<Rightarrow> PStyle kvs | None \<Rightarrow> PStyle [((u ''display''), VStr (u ''contents''))])];
          outer = (\<lambda>n. if wrap then RHost (u ''div'') wrapper [n] else n);
          holder = (\<lambda>err. RHolder (if wrap then VUndef else VNum (of_nat key)) name (co_hint (xi_co xi)) err)
      in case target of
           None \<Rightarrow>
             (outer (holder (if contains (xi_url xi) [123, 123] then Some from_cannot_bind
                             else ext_error (xi_url xi) name (dd_ext d1))), d1)
         | Some c \<Rightarrow>
             (let (props, hole) = import_props xi he vals (if wrap then [] else [((u ''key''), pnum key)])
              in if hole \<and> cx_html_streaming cx then (outer (holder None), d1)
                 else (let (ns, d2) = build_all kids 0 he vals cx d1;
                           props' = (if kids \<noteq> [] then AList.update (u ''children'') (PNodes ns) props else props)
                       in (outer (RExt c props'), d2))))"

subsection \<open>Walking a template\<close>

definition drop_attrs :: "jstr list \<Rightarrow> (jstr \<times> jstr) list \<Rightarrow> (jstr \<times> jstr) list" where
  "drop_attrs ks as = filter (\<lambda>(k, v). k \<notin> set ks) as"

definition has_content :: "dnode list \<Rightarrow> bool" where
  "has_content kids = (child_elements kids \<noteq> [] \<or> trim (concat (map text_content kids)) \<noteq> [])"

definition load_import :: "host_env \<Rightarrow> jstr \<Rightarrow> dc_doc \<Rightarrow> dc_doc" where
  "load_import he url d =
     (if url \<noteq> [] \<and> \<not> contains url [123, 123]
      then (let (e, cs) = ext_load (he_babel he) (is_jsx url) url (dd_ext d) in d\<lparr>dd_ext := e, dd_cmds := dd_cmds d @ cs\<rparr>)
      else d)"

definition build_helmet :: "bool \<Rightarrow> dnode list \<Rightarrow> builder" where
  "build_helmet helmet_closed kids he vals cx key d =
     (RNull, d\<lparr>dd_helmet := helmet_render (he_outer he) (cx_name cx) (cx_html_streaming cx) helmet_closed kids (dd_helmet d)\<rparr>)"

text \<open>
  \<open>nx\<close>: the node has a next sibling; \<open>pm\<close>: its parent has one. The outer option is an exception, the
  inner one a node that renders nothing and has no builder.
\<close>

fun walk :: "host_env \<Rightarrow> bool \<Rightarrow> bool \<Rightarrow> dnode \<Rightarrow> dc_doc \<Rightarrow> builder option option \<times> dc_doc"
  and walkChildren :: "host_env \<Rightarrow> bool \<Rightarrow> dnode list \<Rightarrow> dc_doc \<Rightarrow> builder list option \<times> dc_doc" where
  "walk he nx pm (DText s) d = (Some (walkText s), d)"
| "walk he nx pm DComment d = (Some None, d)"
| "walk he nx pm (DElem tag attrs kids) d =
     (if tag = (u ''sc-for'') then
        (let (bs, d1) = walkChildren he nx kids d in (map_option (\<lambda>bs. Some (build_for attrs bs)) bs, d1))
      else if tag = (u ''sc-if'') then
        (let (bs, d1) = walkChildren he nx kids d in (map_option (\<lambda>bs. Some (build_if attrs bs)) bs, d1))
      else if tag = (u ''x-import'') then
        (case collectProps he Kind_X (drop_attrs [(u ''style'')] attrs) d of
           (None, d1) \<Rightarrow> (None, d1)
         | (Some co, d1) \<Rightarrow>
             (case (if has_content kids then walkChildren he nx kids d1 else (Some [], d1)) of
                (None, d2) \<Rightarrow> (None, d2)
              | (Some bs, d2) \<Rightarrow>
                  (let url = first_of [(u ''from''), (u ''src''), (u ''import'')] attrs;
                       xi = \<lparr>xi_global = attr_or (u ''component-from-global-scope'') attrs [],
                             xi_export = first_of [(u ''component''), (u ''name'')] attrs, xi_url = url,
                             xi_tpl = attr_of (u ''data-dc-tpl'') attrs, xi_style = attr_of (u ''style'') attrs, xi_co = co\<rparr>
                   in (Some (Some (build_import xi bs)), load_import he url d2))))
      else if tag = (u ''sc-helmet'') then
        (Some (Some (build_helmet (nx \<or> pm) kids)),
         d\<lparr>dd_helmet := helmet_compile (he_atomic_css he) attrs (dd_helmet d)\<rparr>)
      else if tag = (u ''dc-import'') then
        (case collectProps he Kind_Dc (drop_attrs [(u ''name''), (u ''component''), (u ''style'')] attrs) d of
           (None, d1) \<Rightarrow> (None, d1)
         | (Some co, d1) \<Rightarrow>
             (case walkChildren he nx kids d1 of
                (None, d2) \<Rightarrow> (None, d2)
              | (Some bs, d2) \<Rightarrow>
                  (Some (Some (build_component (first_of [(u ''name''), (u ''component'')] attrs) (attr_of (u ''data-dc-tpl'') attrs)
                     (attr_of (u ''style'') attrs) co bs)), d2)))
      else
        (case collectProps he Kind_Dom attrs d of
           (None, d1) \<Rightarrow> (None, d1)
         | (Some co, d1) \<Rightarrow>
             (case walkChildren he nx kids d1 of
                (None, d2) \<Rightarrow> (None, d2)
              | (Some bs, d2) \<Rightarrow>
                  (Some (Some (build_element (case map_of RAW_UNWRAP tag of Some t \<Rightarrow> t | None \<Rightarrow> tag)
                     (attr_of (u ''data-dc-tpl'') attrs) co bs)), d2))))"
| "walkChildren he pm [] d = (Some [], d)"
| "walkChildren he pm (c # cs) d =
     (case walk he (cs \<noteq> []) pm c d of
        (None, d1) \<Rightarrow> (None, d1)
      | (Some b, d1) \<Rightarrow>
          (case walkChildren he pm cs d1 of
             (None, d2) \<Rightarrow> (None, d2)
           | (Some bs, d2) \<Rightarrow> (Some (case b of Some x \<Rightarrow> x # bs | None \<Rightarrow> bs), d2)))"

subsection \<open>Templates\<close>

text \<open>Every element is numbered in document order.\<close>

fun stamp :: "nat \<Rightarrow> dnode \<Rightarrow> dnode \<times> nat" and stamp_all :: "nat \<Rightarrow> dnode list \<Rightarrow> dnode list \<times> nat" where
  "stamp n (DElem tag attrs kids) =
     (let (ks, m) = stamp_all (n + 1) kids in (DElem tag (AList.update (u ''data-dc-tpl'') (nshow n) attrs) ks, m))"
| "stamp n k = (k, n)"
| "stamp_all n [] = ([], n)"
| "stamp_all n (k # ks) = (let (k', m) = stamp n k; (ks', m') = stamp_all m ks in (k' # ks', m'))"

text \<open>
  The template after the walk, as the editor bridge reads it: walking a component import takes its name
  and style off the element, walking a module import its style.
\<close>

fun annotated :: "dnode \<Rightarrow> dnode" where
  "annotated (DElem tag attrs kids) =
     (if tag = (u ''dc-import'') then DElem tag (drop_attrs [(u ''name''), (u ''component''), (u ''style'')] attrs) (map annotated kids)
      else if tag = (u ''x-import'')
      then DElem tag (drop_attrs [(u ''style'')] attrs) (if has_content kids then map annotated kids else kids)
      else if tag = (u ''sc-helmet'') then DElem tag attrs kids
      else DElem tag attrs (map annotated kids))"
| "annotated k = k"

record template =
  tp_builders :: "builder list"
  tp_annotated :: "dnode list"

text \<open>\<open>parse_html\<close> is the HTML parser of the browser.\<close>

definition compileTemplate :: "(jstr \<Rightarrow> dnode list) \<Rightarrow> host_env \<Rightarrow> jstr \<Rightarrow> dc_doc \<Rightarrow> template option \<times> dc_doc" where
  "compileTemplate parse_html he html d =
     (let nodes = fst (stamp_all 0 (parse_html (encodeCase html)));
          (bs, d1) = walkChildren he False nodes d
      in (map_option (\<lambda>bs. \<lparr>tp_builders = bs, tp_annotated = map annotated nodes\<rparr>) bs, d1))"

definition render_template :: "template \<Rightarrow> host_env \<Rightarrow> scope \<Rightarrow> rctx \<Rightarrow> dc_doc \<Rightarrow> rnode list \<times> dc_doc" where
  "render_template t he vals cx d = build_all (tp_builders t) 0 he vals cx d"

subsection \<open>What every template keeps\<close>

text \<open>
  A property of the page's state that the operations the templates call keep is kept by compiling and
  rendering any template.
\<close>

locale doc_invariant =
  fixes P :: "dc_doc \<Rightarrow> bool"
  assumes keep_pseudo: "P d \<Longrightarrow> P (d\<lparr>dd_sheet := snd (pseudo_class ok p css (dd_sheet d))\<rparr>)"
    and keep_mount: "P d \<Longrightarrow> P (d\<lparr>dd_helmet := helmet_compile acss attrs (dd_helmet d)\<rparr>)"
    and keep_helmet: "P d \<Longrightarrow> P (d\<lparr>dd_helmet := helmet_render outer name s c kids (dd_helmet d)\<rparr>)"
    and keep_load: "P d \<Longrightarrow> P (load_import he url d)"
    and keep_resolve: "P d \<Longrightarrow> P (d\<lparr>dd_ext := snd (ext_resolve env url n (dd_ext d))\<rparr>)"
    and keep_global: "P d \<Longrightarrow> P (d\<lparr>dd_ext := snd (ext_resolve_global env now url n (dd_ext d))\<rparr>)"
    and keep_warn: "P d \<Longrightarrow> P (warnUnresolved cx what d)"
begin

definition keeps :: "builder \<Rightarrow> bool" where
  "keeps b = (\<forall>he vals cx key d. P d \<longrightarrow> P (snd (b he vals cx key d)))"

lemma keepsI: "(\<And>he vals cx key d. P d \<Longrightarrow> P (snd (b he vals cx key d))) \<Longrightarrow> keeps b"
  by (simp add: keeps_def)

lemma keepsD: "keeps b \<Longrightarrow> P d \<Longrightarrow> P (snd (b he vals cx key d))"
  by (simp add: keeps_def)

lemma collect_keeps: "P (d\<lparr>dd_sheet := st\<rparr>) \<Longrightarrow> P (d\<lparr>dd_sheet := snd (collect_from ok kind attrs acc st)\<rparr>)"
proof (induction ok kind attrs acc st rule: collect_from.induct)
  case (2 ok kind name val attrs acc st)
  have p: "P (d\<lparr>dd_sheet := snd (pseudo_class ok p css st)\<rparr>)" for p css
    using keep_pseudo [OF "2.prems", of ok p css] by simp
  show ?case using 2 p [of "drop 6 (decoded_key name)" val]
    by (auto simp: Let_def split: option.split prod.split)
qed simp

lemma collectProps_keeps: "P d \<Longrightarrow> P (snd (collectProps he kind attrs d))"
  using collect_keeps [where d = d and st = "dd_sheet d"] by (simp add: collectProps_def split_beta Let_def)

lemma text_part_keeps: "P d \<Longrightarrow> P (snd (text_part he vals cx i part d))"
  by (auto simp: text_part_def Let_def keep_warn split: prod.split)

lemma text_parts_keeps: "P d \<Longrightarrow> P (snd (text_parts he vals cx i ps d))"
proof (induction ps arbitrary: i d)
  case (Cons p ps)
  show ?case using Cons.IH [OF text_part_keeps [OF Cons.prems]] by (simp add: split_beta Let_def)
qed simp

lemma build_all_keeps: "list_all keeps bs \<Longrightarrow> P d \<Longrightarrow> P (snd (build_all bs j he vals cx d))"
proof (induction bs arbitrary: j d)
  case (Cons b bs)
  then show ?case by (simp add: split_beta Let_def keepsD)
qed simp

lemma build_items_keeps: "list_all keeps bs \<Longrightarrow> P d \<Longrightarrow> P (snd (build_items bs a i xs he vals cx d))"
proof (induction xs arbitrary: i d)
  case (Cons x xs)
  then show ?case by (simp add: split_beta Let_def build_all_keeps)
qed simp

lemma walkText_keeps: "walkText s = Some b \<Longrightarrow> keeps b"
  by (auto simp: walkText_def split_beta Let_def keeps_def text_parts_keeps split: if_splits)

lemma build_for_keeps: "list_all keeps bs \<Longrightarrow> keeps (build_for attrs bs)"
proof (rule keepsI)
  fix he vals cx key d
  assume a: "list_all keeps bs" "P (d :: dc_doc)"
  show "P (snd (build_for attrs bs he vals cx key d))"
    using a by (simp add: build_for_def split_beta Let_def build_items_keeps keep_warn split: option.split)
qed

lemma build_if_keeps: "list_all keeps bs \<Longrightarrow> keeps (build_if attrs bs)"
  by (rule keepsI) (simp add: build_if_def split_beta Let_def build_all_keeps split: option.split)

lemma build_component_keeps: "list_all keeps bs \<Longrightarrow> keeps (build_component name t s co bs)"
  by (rule keepsI) (simp add: build_component_def split_beta Let_def build_all_keeps)

lemma build_element_keeps: "list_all keeps bs \<Longrightarrow> keeps (build_element tag t co bs)"
  by (rule keepsI) (simp add: build_element_def split_beta Let_def build_all_keeps)

lemma import_target_keeps: "P d \<Longrightarrow> P (snd (snd (import_target xi he vals d)))"
  by (simp add: import_target_def split_beta Let_def keep_resolve keep_global)

lemma build_import_keeps: "list_all keeps bs \<Longrightarrow> keeps (build_import xi bs)"
proof (rule keepsI)
  fix he vals cx key d
  assume a: "list_all keeps bs" "P (d :: dc_doc)"
  show "P (snd (build_import xi bs he vals cx key d))"
    using a import_target_keeps [OF a(2)] by (simp add: build_import_def split_beta Let_def build_all_keeps split: option.split)
qed

lemma build_helmet_keeps: "keeps (build_helmet c kids)"
  by (rule keepsI) (simp add: build_helmet_def keep_helmet)

lemma walk_keeps:
  "P d \<Longrightarrow> P (snd (walk he nx pm node d)) \<and> (\<forall>b. fst (walk he nx pm node d) = Some (Some b) \<longrightarrow> keeps b)"
  "P d \<Longrightarrow> P (snd (walkChildren he pm nodes d)) \<and> (\<forall>bs. fst (walkChildren he pm nodes d) = Some bs \<longrightarrow> list_all keeps bs)"
proof (induction he nx pm node d and he pm nodes d rule: walk_walkChildren.induct)
  case (1 he nx pm s d)
  then show ?case by (auto dest: walkText_keeps)
next
  case (3 he nx pm tag attrs kids d)
  consider "tag = (u ''sc-for'')" | "tag = (u ''sc-if'')" | "tag = (u ''x-import'')" | "tag = (u ''sc-helmet'')" | "tag = (u ''dc-import'')"
    | "tag \<notin> {(u ''sc-for''), (u ''sc-if''), (u ''x-import''), (u ''sc-helmet''), (u ''dc-import'')}" by auto
  then show ?case
  proof cases
    case 1
    then show ?thesis using "3.IH"(1) [OF 1 "3.prems"] by (auto simp: split_beta Let_def build_for_keeps)
  next
    case 2
    then show ?thesis using "3.IH"(2) [OF _ 2 "3.prems"] by (auto simp: split_beta Let_def build_if_keeps)
  next
    case x: 3
    obtain r d1 where c: "collectProps he Kind_X (drop_attrs [(u ''style'')] attrs) d = (r, d1)" by fastforce
    have d1: "P d1" using collectProps_keeps [OF "3.prems", of he Kind_X "drop_attrs [(u ''style'')] attrs"] c by simp
    show ?thesis
    proof (cases r)
      case None
      then show ?thesis using x c d1 by simp
    next
      case (Some co)
      obtain bs d2 where k: "(if has_content kids then walkChildren he nx kids d1 else (Some [], d1)) = (bs, d2)" by fastforce
      have "P d2" "\<And>b. bs = Some b \<Longrightarrow> list_all keeps b"
        using "3.IH"(3) [OF _ _ x c [symmetric] Some _ d1] x k d1 by (auto split: if_splits)
      then show ?thesis using x c Some k by (cases bs) (auto simp: Let_def keep_load build_import_keeps)
    qed
  next
    case 4
    then show ?thesis using "3.prems" by (auto simp: keep_mount build_helmet_keeps)
  next
    case x: 5
    obtain r d1 where c: "collectProps he Kind_Dc (drop_attrs [(u ''name''), (u ''component''), (u ''style'')] attrs) d = (r, d1)" by fastforce
    have d1: "P d1" using collectProps_keeps [OF "3.prems", of he Kind_Dc "drop_attrs [(u ''name''), (u ''component''), (u ''style'')] attrs"] c by simp
    show ?thesis
    proof (cases r)
      case None
      then show ?thesis using x c d1 by simp
    next
      case (Some co)
      obtain bs d2 where k: "walkChildren he nx kids d1 = (bs, d2)" by fastforce
      have "P d2" "\<And>b. bs = Some b \<Longrightarrow> list_all keeps b"
        using "3.IH"(4) [OF _ _ _ _ x c [symmetric] Some d1] x k by auto
      then show ?thesis using x c Some k by (cases bs) (auto simp: build_component_keeps)
    qed
  next
    case x: 6
    obtain r d1 where c: "collectProps he Kind_Dom attrs d = (r, d1)" by fastforce
    have d1: "P d1" using collectProps_keeps [OF "3.prems", of he Kind_Dom "attrs"] c by simp
    show ?thesis
    proof (cases r)
      case None
      then show ?thesis using x c d1 by simp
    next
      case (Some co)
      obtain bs d2 where k: "walkChildren he nx kids d1 = (bs, d2)" by fastforce
      have "P d2" "\<And>b. bs = Some b \<Longrightarrow> list_all keeps b"
        using "3.IH"(5) [OF _ _ _ _ _ c [symmetric] Some d1] x k by auto
      then show ?thesis using x c Some k by (cases bs) (auto simp: build_element_keeps)
    qed
  qed
next
  case (5 he pm c cs d)
  show ?case
  proof (cases "walk he (cs \<noteq> []) pm c d")
    case (Pair r d1)
    show ?thesis
    proof (cases r)
      case None
      then show ?thesis using 5(1) [OF "5.prems"] Pair by auto
    next
      case (Some b)
      have d1: "P d1" "\<And>x. b = Some x \<Longrightarrow> keeps x" using 5(1) [OF "5.prems"] Pair Some by auto
      have IH: "P (snd (walkChildren he pm cs d1))" "\<And>bs. fst (walkChildren he pm cs d1) = Some bs \<Longrightarrow> list_all keeps bs"
        using 5(2) [OF Pair [symmetric] Some d1(1)] by auto
      show ?thesis using Pair Some d1 IH
        by (cases "walkChildren he pm cs d1"; cases "fst (walkChildren he pm cs d1)"; cases b) auto
    qed
  qed
qed simp_all

lemma compileTemplate_keeps:
  "P d \<Longrightarrow> P (snd (compileTemplate parse_html he html d))"
  "P d \<Longrightarrow> fst (compileTemplate parse_html he html d) = Some t \<Longrightarrow> list_all keeps (tp_builders t)"
  using walk_keeps(2) [of d he False "fst (stamp_all 0 (parse_html (encodeCase html)))"]
  by (auto simp: compileTemplate_def split_beta Let_def)

lemma render_keeps: "list_all keeps (tp_builders t) \<Longrightarrow> P d \<Longrightarrow> P (snd (render_template t he vals cx d))"
  by (simp add: render_template_def build_all_keeps)

end

text \<open>
  The state of the page: distinct classes, every warning once, every script, link and meta mounted once,
  every module asked for once.
\<close>

definition doc_ok :: "dc_doc \<Rightarrow> bool" where
  "doc_ok d =
     (sheet_ok (dd_sheet d) \<and> distinct (dd_warned d) \<and> distinct (hm_mounted (dd_helmet d))
      \<and> ext_ok (dd_ext d, dd_cmds d))"

lemma ext_ok_look:
  "ext_ok (e, cs) \<Longrightarrow> ext_ok (snd (ext_resolve env url n e), cs)"
  "ext_ok (e, cs) \<Longrightarrow> ext_ok (snd (ext_resolve_global env now url n e), cs)"
  using ext_ok_step [of "(e, cs)" "Look env url n"] ext_ok_step [of "(e, cs)" "Look_Global env now url n"]
  by (simp_all add: ext_log_def split_beta Let_def)

lemma ext_ok_load: "ext_ok (e, cs) \<Longrightarrow> ext_ok (fst (ext_load hb jsx url e), cs @ snd (ext_load hb jsx url e))"
  using ext_ok_step [of "(e, cs)" "Ask hb jsx url"] by (simp add: ext_log_def split_beta Let_def)

lemma helmet_compile_distinct: "distinct (hm_mounted st) \<Longrightarrow> distinct (hm_mounted (helmet_compile css attrs st))"
  by (simp add: helmet_compile_def mount_def)

lemma doc_ok_start: "doc_ok doc_start"
  by (simp add: doc_ok_def doc_start_def sheet_ok_empty empty_helmet_def ext.inv_start)

interpretation doc: doc_invariant doc_ok
  by unfold_locales
    (auto simp: doc_ok_def sheet_ok_step helmet_compile_distinct mounted_distinct load_import_def warnUnresolved_def
      ext_ok_look ext_ok_load split_beta Let_def)

text \<open>Using the page: templates are compiled, and compiled ones rendered, in any order.\<close>

datatype page_use =
    Compile "jstr \<Rightarrow> dnode list" host_env jstr
  | Render nat host_env scope rctx

fun page_step :: "page_use \<Rightarrow> template list \<times> dc_doc \<Rightarrow> template list \<times> dc_doc" where
  "page_step (Compile ph he html) (ts, d) =
     (case compileTemplate ph he html d of
        (None, d1) \<Rightarrow> (ts, d1)
      | (Some t, d1) \<Rightarrow> (ts @ [t], d1))"
| "page_step (Render i he vals cx) (ts, d) =
     (if i < length ts then (ts, snd (render_template (ts ! i) he vals cx d)) else (ts, d))"

definition page_ok :: "template list \<times> dc_doc \<Rightarrow> bool" where
  "page_ok p = (doc_ok (snd p) \<and> (\<forall>t \<in> set (fst p). list_all doc.keeps (tp_builders t)))"

lemma page_ok_step: "page_ok p \<Longrightarrow> page_ok (page_step e p)"
proof (cases e)
  case (Compile ph he html)
  assume ok: "page_ok p"
  obtain ts d where p: "p = (ts, d)" by (cases p)
  obtain r d1 where c: "compileTemplate ph he html d = (r, d1)" by fastforce
  show ?thesis using ok doc.compileTemplate_keeps [of d ph he html] c
    by (cases r) (auto simp: Compile p page_ok_def)
next
  case (Render i he vals cx)
  assume ok: "page_ok p"
  obtain ts d where p: "p = (ts, d)" by (cases p)
  show ?thesis using ok doc.render_keeps [of "ts ! i" d he vals cx] nth_mem [of i ts]
    by (auto simp: Render p page_ok_def)
qed

interpretation page: stepper "([], doc_start)" page_step page_ok
  by unfold_locales (simp add: page_ok_def doc_ok_start, rule page_ok_step)

lemma page_use_ok: "doc_ok (snd (run page_step es ([], doc_start)))"
  using page.run_inv [of es] by (simp add: page_ok_def)

subsection \<open>Numbers of elements\<close>

fun tpl_ids :: "dnode \<Rightarrow> jstr option list" where
  "tpl_ids (DElem tag attrs kids) = attr_of (u ''data-dc-tpl'') attrs # concat (map tpl_ids kids)"
| "tpl_ids k = []"

lemma stamp_ids:
  "stamp n k = (k', m) \<Longrightarrow> n \<le> m \<and> tpl_ids k' = map (\<lambda>i. Some (nshow i)) [n..<m]"
  "stamp_all n ks = (ks', m) \<Longrightarrow> n \<le> m \<and> concat (map tpl_ids ks') = map (\<lambda>i. Some (nshow i)) [n..<m]"
proof (induction n k and n ks arbitrary: k' m and ks' m rule: stamp_stamp_all.induct)
  case (1 n tag attrs kids)
  obtain ks m' where s: "stamp_all (n + 1) kids = (ks, m')" by fastforce
  with 1 have "n + 1 \<le> m" "concat (map tpl_ids ks) = map (\<lambda>i. Some (nshow i)) [n + 1..<m]"
    "k' = DElem tag (AList.update (u ''data-dc-tpl'') (nshow n) attrs) ks" by auto
  then show ?case by (simp add: attr_of_def update_conv' upt_conv_Cons)
next
  case (4 n k ks)
  obtain k1 m1 where k: "stamp n k = (k1, m1)" by fastforce
  obtain ks1 m2 where ks: "stamp_all m1 ks = (ks1, m2)" by fastforce
  have "n \<le> m1 \<and> tpl_ids k1 = map (\<lambda>i. Some (nshow i)) [n..<m1]" by (rule 4(1) [OF k])
  moreover have "m1 \<le> m2 \<and> concat (map tpl_ids ks1) = map (\<lambda>i. Some (nshow i)) [m1..<m2]"
    using 4(2) [OF k [symmetric] refl] ks by auto
  moreover have "ks' = k1 # ks1" "m = m2" using 4(3) k ks by auto
  ultimately show ?case using upt_add_eq_append [of n m1 "m2 - m1"] by (auto simp: map_append [symmetric] simp del: map_append)
qed auto

subsection \<open>Names that survive the parser\<close>

text \<open>An attribute renamed before parsing is read back under its own name, and the parser's lowercasing does not touch it.\<close>

lemma encoded_attribute_back:
  assumes "45 \<notin> set name"
  shows "decoded_key (CAMEL_ATTR @ camelToKebab name) = name"
    and "map lower_unit (CAMEL_ATTR @ camelToKebab name) = CAMEL_ATTR @ camelToKebab name"
proof -
  show "decoded_key (CAMEL_ATTR @ camelToKebab name) = name"
    by (simp add: decoded_key_def starts_with_def kebab_camel assms)
  have "map lower_unit (camelToKebab name) = camelToKebab name"
    using camelToKebab_lower [of name] by (intro map_id_on) (auto simp: lower_unit_def)
  moreover have "map lower_unit CAMEL_ATTR = CAMEL_ATTR" by (simp add: CAMEL_ATTR_def u_def lower_unit_def is_upper_def)
  ultimately show "map lower_unit (CAMEL_ATTR @ camelToKebab name) = CAMEL_ATTR @ camelToKebab name" by simp
qed

subsection \<open>Loops\<close>

lemma build_items_length: "length (fst (build_items kids a i xs he vals cx d)) = length xs"
  by (induction xs arbitrary: i d) (simp_all add: split_beta Let_def)

text \<open>One fragment per element of the list; while streaming, as many as the hint says when there is no list yet.\<close>

lemma build_for_count:
  assumes "build_for attrs kids he vals cx key d = (RFrag k fs, d')"
  shows "length fs =
    (case elements_of (world he) (compileAttr (world he) (attr_or (u ''list'') attrs []) vals) of
       Some vs \<Rightarrow> length vs
     | None \<Rightarrow> (if cx_streaming cx then hint_count (attr_or (u ''hint-placeholder-count'') attrs (u ''0'')) else 0))"
  using assms build_items_length by (auto simp: build_for_def split_beta Let_def split: option.splits if_splits)

subsection \<open>Two surprises\<close>

text \<open>An element with an attribute named \<open>on\<close> makes the whole template fail to compile.\<close>

lemma on_attribute_throws: "fst (collectProps he Kind_Dom [((u ''on''), v)] d) = None"
  by (simp add: collectProps_def decoded_key_def prop_key_def event_key_def EVENT_MAP_def starts_with_def CAMEL_ATTR_def u_def Let_def)

text \<open>The template handed to the editor no longer says which component an import stands for.\<close>

lemma annotated_loses_name:
  "annotated (DElem (u ''dc-import'') attrs kids) = DElem (u ''dc-import'') as ks \<Longrightarrow> attr_of (u ''name'') as = None"
  by (auto simp: attr_of_def drop_attrs_def map_of_eq_None_iff)

end
