(* ===== verification/Dc_Parse.thy ===== *)
theory Dc_Parse
  imports Dc_Encode Url
begin

text \<open>
  What the runtime reads of a page before it renders anything (src/parse.ts and the names of
  src/boot.ts in src/support.js): the template between the \<open>x-dc\<close> tags, the declared properties, and the
  name of a component from an address. The HTML parser and the URL parser of the browser, and
  \<open>JSON.parse\<close>, are arguments.
\<close>

subsection \<open>decodeURIComponent\<close>

fun pct_take :: "nat \<Rightarrow> jstr \<Rightarrow> (nat list \<times> jstr) option" where
  "pct_take 0 s = Some ([], s)"
| "pct_take (Suc k) (p # a # b # r) =
     (case (hex_val a, hex_val b) of
        (Some x, Some y) \<Rightarrow> (if p = 37 then map_option (\<lambda>(bs, t). ((16 * x + y) # bs, t)) (pct_take k r) else None)
      | _ \<Rightarrow> None)"
| "pct_take (Suc k) _ = None"

definition utf8_size :: "nat \<Rightarrow> nat" where
  "utf8_size b =
     (if b < 128 then 1 else if 194 \<le> b \<and> b < 224 then 2 else if 224 \<le> b \<and> b < 240 then 3
      else if 240 \<le> b \<and> b < 245 then 4 else 0)"

definition utf8_point :: "nat list \<Rightarrow> nat option" where
  "utf8_point bs =
     (let v = (case bs of
           [b] \<Rightarrow> b
         | [b, c] \<Rightarrow> (b - 192) * 64 + (c - 128)
         | [b, c, d] \<Rightarrow> ((b - 224) * 64 + (c - 128)) * 64 + (d - 128)
         | [b, c, d, e] \<Rightarrow> (((b - 240) * 64 + (c - 128)) * 64 + (d - 128)) * 64 + (e - 128)
         | _ \<Rightarrow> 0)
      in if bs \<noteq> [] \<and> length bs = utf8_size (hd bs) \<and> list_all (\<lambda>b. 128 \<le> b \<and> b < 192) (tl bs)
           \<and> (length bs = 3 \<longrightarrow> 2048 \<le> v \<and> \<not> (55296 \<le> v \<and> v < 57344))
           \<and> (length bs = 4 \<longrightarrow> 65536 \<le> v \<and> v < 1114112)
         then Some v else None)"

lemma pct_take_shorter: "pct_take k s = Some (bs, t) \<Longrightarrow> length t + 3 * k = length s"
  by (induction k s arbitrary: bs rule: pct_take.induct) (auto split: option.splits if_splits)

text \<open>\<open>None\<close> is the URIError of a malformed escape.\<close>

function decodeURIComponent :: "jstr \<Rightarrow> jstr option" where
  "decodeURIComponent s =
     (case s of
        [] \<Rightarrow> Some []
      | c # cs \<Rightarrow>
          (if c \<noteq> 37 then map_option ((#) c) (decodeURIComponent cs)
           else (case pct_take 1 s of
                   None \<Rightarrow> None
                 | Some (b, _) \<Rightarrow>
                     (case pct_take (utf8_size (hd b)) s of
                        None \<Rightarrow> None
                      | Some (bs, t) \<Rightarrow>
                          (case utf8_point bs of
                             None \<Rightarrow> None
                           | Some v \<Rightarrow>
                               (if length t < length s then map_option ((@) (units_of v)) (decodeURIComponent t) else None))))))"
  by pat_completeness auto
termination by (relation "measure length") auto

declare decodeURIComponent.simps [simp del]

lemma decode_Nil [simp]: "decodeURIComponent [] = Some []"
  by (simp add: decodeURIComponent.simps)

lemma decode_unit: "c \<noteq> 37 \<Longrightarrow> decodeURIComponent (c # cs) = map_option ((#) c) (decodeURIComponent cs)"
  by (simp add: decodeURIComponent.simps [of "c # cs"])

lemma decode_escape:
  "decodeURIComponent (37 # cs) =
     (case pct_take 1 (37 # cs) of
        None \<Rightarrow> None
      | Some (b, _) \<Rightarrow>
          (case pct_take (utf8_size (hd b)) (37 # cs) of
             None \<Rightarrow> None
           | Some (bs, t) \<Rightarrow>
               (case utf8_point bs of
                  None \<Rightarrow> None
                | Some v \<Rightarrow>
                    (if length t < length (37 # cs) then map_option ((@) (units_of v)) (decodeURIComponent t) else None))))"
  by (simp add: decodeURIComponent.simps [of "37 # cs"])

lemma decode_plain: "37 \<notin> set s \<Longrightarrow> decodeURIComponent s = Some s"
  by (induction s) (simp_all add: decode_unit)

lemma pct_take_byte:
  "a < 256 \<Longrightarrow> pct_take (Suc k) (pct_byte a @ s) = map_option (\<lambda>(bs, t). (a # bs, t)) (pct_take k s)"
proof -
  assume "a < 256"
  then have "a div 16 < 16" by simp
  then show ?thesis by (simp add: pct_byte_def)
qed

lemma pct_take_bytes:
  "list_all (\<lambda>b. b < 256) bs \<Longrightarrow> pct_take (length bs) (concat (map pct_byte bs) @ e) = Some (bs, e)"
  by (induction bs) (simp_all add: pct_take_byte)

lemma decode_bytes:
  assumes "utf8_point bs = Some v" "list_all (\<lambda>b. b < 256) bs"
  shows "decodeURIComponent (concat (map pct_byte bs) @ e) = map_option ((@) (units_of v)) (decodeURIComponent e)"
proof -
  let ?s = "concat (map pct_byte bs) @ e"
  obtain b bs' where b: "bs = b # bs'" using assms(1) by (cases bs) (auto simp: utf8_point_def Let_def)
  have n: "length bs = utf8_size b" using assms(1) by (auto simp: utf8_point_def Let_def b split: if_splits)
  have "pct_take 1 ?s = Some ([b], concat (map pct_byte bs') @ e)"
    using assms(2) pct_take_byte [of b 0] by (simp add: b)
  moreover have "pct_take (utf8_size b) ?s = Some (bs, e)" using pct_take_bytes [OF assms(2)] n by simp
  moreover have "length e < length ?s" by (simp add: b pct_byte_def)
  moreover obtain cs where "?s = 37 # cs" by (simp add: b pct_byte_def)
  ultimately show ?thesis using assms(1) by (simp add: decode_escape)
qed

lemma point_two: "128 \<le> c \<Longrightarrow> c < 2048 \<Longrightarrow> utf8_point [192 + c div 64, 128 + c mod 64] = Some c"
proof -
  assume c: "128 \<le> c" "c < 2048"
  then have "2 \<le> c div 64" "c div 64 < 32" by (simp_all add: div_less_iff_less_mult)
  then show ?thesis by (simp add: utf8_point_def utf8_size_def Let_def)
qed

lemma point_three:
  "2048 \<le> c \<Longrightarrow> c < 65536 \<Longrightarrow> c < 55296 \<or> 57344 \<le> c \<Longrightarrow>
     utf8_point [224 + c div 4096, 128 + c div 64 mod 64, 128 + c mod 64] = Some c"
proof -
  assume c: "2048 \<le> c" "c < 65536" "c < 55296 \<or> 57344 \<le> c"
  have "c div 4096 < 16" using c(2) by (simp add: div_less_iff_less_mult)
  moreover have "c div 4096 * 64 + c div 64 mod 64 = c div 64"
    using div_mult_mod_eq [of "c div 64" 64] by (simp add: div_mult2_eq [symmetric])
  then have "(c div 4096 * 64 + c div 64 mod 64) * 64 + c mod 64 = c" by simp
  ultimately show ?thesis using c by (auto simp: utf8_point_def utf8_size_def Let_def)
qed

lemma point_four:
  "65536 \<le> v \<Longrightarrow> v < 1114112 \<Longrightarrow>
     utf8_point [240 + v div 262144, 128 + v div 4096 mod 64, 128 + v div 64 mod 64, 128 + v mod 64] = Some v"
proof -
  assume v: "65536 \<le> v" "v < 1114112"
  have "v div 262144 < 5" using v(2) by (simp add: div_less_iff_less_mult)
  moreover have "v div 262144 * 64 + v div 4096 mod 64 = v div 4096"
    using div_mult_mod_eq [of "v div 4096" 64] by (simp add: div_mult2_eq [symmetric])
  moreover have "v div 4096 * 64 + v div 64 mod 64 = v div 64"
    using div_mult_mod_eq [of "v div 64" 64] by (simp add: div_mult2_eq [symmetric])
  ultimately have "v div 262144 < 5"
    "((v div 262144 * 64 + v div 4096 mod 64) * 64 + v div 64 mod 64) * 64 + v mod 64 = v" by simp_all
  then show ?thesis using v by (simp add: utf8_point_def utf8_size_def Let_def)
qed

lemma decode_encode:
  "units s \<Longrightarrow> encodeURIComponent s = Some e \<Longrightarrow> decodeURIComponent e = Some s"
proof (induction s arbitrary: e rule: encodeURIComponent.induct)
  case 1
  then show ?case by (simp add: decodeURIComponent.simps)
next
  case (2 c cs)
  have u: "c < 65536" "units cs" using "2.prems"(1) by simp_all
  consider "c < 128" | "128 \<le> c" "c < 2048" | "55296 \<le> c" "c < 56320"
    | "2048 \<le> c" "c < 55296 \<or> 57344 \<le> c" | "56320 \<le> c" "c < 57344" by linarith
  then show ?case
  proof cases
    case 1
    then obtain r where r: "encodeURIComponent cs = Some r"
      "e = (if unreserved c then [c] else pct_byte c) @ r" using "2.prems"(2) by auto
    have d: "decodeURIComponent r = Some cs" using "2.IH"(1) 1 u r(1) by simp
    show ?thesis
    proof (cases "unreserved c")
      case True
      then have "c \<noteq> 37" by (auto simp: unreserved_def)
      then show ?thesis using True d by (simp add: r(2) decode_unit)
    next
      case False
      have "utf8_point [c] = Some c" using 1 by (simp add: utf8_point_def utf8_size_def)
      from decode_bytes [OF this, of r] show ?thesis using 1 False d by (simp add: r(2) units_of_def)
    qed
  next
    case 2
    then obtain r where r: "encodeURIComponent cs = Some r"
      "e = pct_byte (192 + c div 64) @ pct_byte (128 + c mod 64) @ r" using "2.prems"(2) by auto
    have "decodeURIComponent r = Some cs" using "2.IH"(2) 2 u r(1) by simp
    then show ?thesis
      using decode_bytes [OF point_two [OF 2], of r] 2
      by (simp add: r(2) units_of_def div_less_iff_less_mult order.strict_trans2 [OF six])
  next
    case 3
    then obtain d ds r where r: "cs = d # ds" "56320 \<le> d" "d < 57344" "encodeURIComponent ds = Some r"
      and e: "e = (let v = 65536 + (c - 55296) * 1024 + (d - 56320) in
          pct_byte (240 + v div 262144) @ pct_byte (128 + v div 4096 mod 64)
            @ pct_byte (128 + v div 64 mod 64) @ pct_byte (128 + v mod 64) @ r)"
      using "2.prems"(2) by (auto simp: Let_def split: list.splits if_splits)
    define v where "v = 65536 + (c - 55296) * 1024 + (d - 56320)"
    have w: "units_of v = [c, d]" "v < 1114112" "65536 \<le> v"
      using units_of_pair [OF 3 r(2,3)] by (simp_all add: v_def)
    have "decodeURIComponent r = Some ds" using "2.IH"(3) 3 u r by simp
    moreover have "v div 262144 < 16" using w(2) by (simp add: div_less_iff_less_mult)
    ultimately show ?thesis
      using decode_bytes [OF point_four [OF w(3,2)], of r] six
      by (simp add: e v_def [symmetric] r(1) w(1) Let_def)
  next
    case 4
    then obtain r where r: "encodeURIComponent cs = Some r"
      "e = pct_byte (224 + c div 4096) @ pct_byte (128 + c div 64 mod 64) @ pct_byte (128 + c mod 64) @ r"
      using "2.prems"(2) by auto
    have "decodeURIComponent r = Some cs" using "2.IH"(4) 4 u r(1) by (auto simp: not_less)
    moreover have "c div 4096 < 16" using u(1) by (simp add: div_less_iff_less_mult)
    ultimately show ?thesis
      using decode_bytes [OF point_three [OF 4(1) u(1) 4(2)], of r] six u(1)
      by (simp add: r(2) units_of_def)
  next
    case 5
    then show ?thesis using "2.prems"(2) by simp
  qed
qed

subsection \<open>Names\<close>

definition strip_suffix :: "jstr \<Rightarrow> jstr \<Rightarrow> jstr" where
  "strip_suffix x s =
     (if length x \<le> length s \<and> drop (length s - length x) s = x then take (length s - length x) s else s)"

text \<open>\<open>s.replace(/\.html?$/, "")\<close>.\<close>

definition strip_html :: "jstr \<Rightarrow> jstr" where
  "strip_html s = (if strip_suffix (u ''.html'') s \<noteq> s then strip_suffix (u ''.html'') s else strip_suffix (u ''.htm'') s)"

definition dcNameFromPath :: "jstr \<Rightarrow> jstr" where
  "dcNameFromPath path_name =
     (let p = (case decodeURIComponent path_name of Some q \<Rightarrow> q | None \<Rightarrow> path_name);
          b0 = last (split_on 47 p); base = (if b0 = [] then (u ''Root'') else b0);
          n = strip_html (strip_suffix (u ''.dc.html'') base)
      in if n = [] then (u ''Root'') else n)"

definition safeDecode :: "jstr \<Rightarrow> jstr" where
  "safeDecode s = (case decodeURIComponent s of Some t \<Rightarrow> t | None \<Rightarrow> s)"

definition ends_ci :: "jstr \<Rightarrow> jstr \<Rightarrow> bool" where
  "ends_ci x s = (length x \<le> length s \<and> map lower_unit (drop (length s - length x) s) = x)"

text \<open>
  \<open>doc\<close> is the base address of the document, \<open>url_path\<close> the path of \<open>new URL(\<dots>)\<close> (\<open>None\<close> when it throws).
\<close>

definition rootNameForDocument :: "(jstr \<Rightarrow> jstr option) \<Rightarrow> jstr \<Rightarrow> jstr \<Rightarrow> jstr" where
  "rootNameForDocument url_path base_uri path_name =
     (let bootPath =
        (if ends_ci (u ''.dc.html'') (safeDecode path_name) \<or> ends_ci (u ''.dc.htm'') (safeDecode path_name) then path_name
         else (case url_path (if base_uri = [] then (u ''/'') else base_uri) of Some p \<Rightarrow> p | None \<Rightarrow> path_name))
      in dcNameFromPath bootPath)"

text \<open>The address a component is fetched from (\<open>ensureFetched\<close>); a lone surrogate throws.\<close>

definition component_url :: "jstr \<Rightarrow> jstr option" where
  "component_url name = map_option (\<lambda>e. (u ''./'') @ e @ (u ''.dc.html'')) (encodeURIComponent name)"

lemma strip_suffix_append [simp]: "strip_suffix x (s @ x) = s"
  by (simp add: strip_suffix_def)

lemma decode_append_plain:
  "decodeURIComponent s = Some t \<Longrightarrow> 37 \<notin> set r \<Longrightarrow> decodeURIComponent (s @ r) = Some (t @ r)"
proof (induction s arbitrary: t rule: decodeURIComponent.induct)
  case (1 s)
  show ?case
  proof (cases s)
    case Nil
    then show ?thesis using 1 by (simp add: decode_plain)
  next
    case (Cons c cs)
    show ?thesis
    proof (cases "c = 37")
      case False
      with 1 Cons obtain t' where t': "decodeURIComponent cs = Some t'" "t = c # t'"
        by (auto simp: decode_unit)
      then have "decodeURIComponent (cs @ r) = Some (t' @ r)" using 1 Cons False by simp
      with Cons False t'(2) show ?thesis by (simp add: decode_unit)
    next
      case True
      from 1(3) Cons True obtain b x bs u v t' where
        p: "pct_take 1 s = Some (b, x)" "pct_take (utf8_size (hd b)) s = Some (bs, u)" "utf8_point bs = Some v"
           "length u < length s" "decodeURIComponent u = Some t'" "t = units_of v @ t'"
        by (auto simp: decode_escape split: option.splits prod.splits if_splits)
      have more: "pct_take k a = Some (y, z) \<Longrightarrow> pct_take k (a @ r) = Some (y, z @ r)" for k a y z
        by (induction k a arbitrary: y rule: pct_take.induct) (auto split: option.splits if_splits)
      have "decodeURIComponent (u @ r) = Some (t' @ r)"
        using "1.IH"(2) [OF Cons] True p 1(4) by blast
      with more [OF p(1)] more [OF p(2)] p(3-6) Cons True show ?thesis
        by (simp add: decode_escape)
    qed
  qed
qed

lemma split_on_last: "c \<notin> set s \<Longrightarrow> last (split_on c (r @ c # s)) = s"
proof (induction r)
  case (Cons x r)
  obtain p ps where p: "split_on c (r @ c # s) = p # ps" by (cases "split_on c (r @ c # s)") auto
  then have "ps \<noteq> []"
    using Cons split_on_pieces [of p c "r @ c # s"] join_split [of c "r @ c # s"] by (cases ps) auto
  with Cons p show ?case by auto
qed (simp add: split_on_alone)

text \<open>A fetched component is named as it was asked for, unless the name itself ends like a page or has a slash.\<close>

lemma component_name_back:
  assumes "units name" "component_url name = Some url" "name \<noteq> []" "47 \<notin> set name" "strip_html name = name"
  shows "dcNameFromPath url = name"
proof -
  obtain e where e: "encodeURIComponent name = Some e" "url = (u ''./'') @ e @ (u ''.dc.html'')"
    using assms(2) by (auto simp: component_url_def)
  have "decodeURIComponent (e @ (u ''.dc.html'')) = Some (name @ (u ''.dc.html''))"
    by (rule decode_append_plain [OF decode_encode [OF assms(1) e(1)]]) (simp add: u_def)
  then have "decodeURIComponent url = Some ((u ''./'') @ name @ (u ''.dc.html''))"
    by (simp add: e(2) u_def decode_unit)
  moreover have "last (split_on 47 ((u ''./'') @ name @ (u ''.dc.html''))) = name @ (u ''.dc.html'')"
    using split_on_last [of 47 "name @ (u ''.dc.html'')" "[46]"] assms(4) by (simp add: u_def)
  ultimately show ?thesis using assms(3,5) by (simp add: dcNameFromPath_def Let_def)
qed

subsection \<open>Documents\<close>

text \<open>\<open>parseDataProps\<close>: the keys that do not start with \<open>$\<close>, and the \<open>$preview\<close> object.\<close>

definition parseDataProps :: "(jstr \<Rightarrow> json option) \<Rightarrow> jstr option \<Rightarrow> (jstr \<times> json) list option \<times> json option" where
  "parseDataProps jparse raw =
     (case raw of
        None \<Rightarrow> (None, None)
      | Some s \<Rightarrow>
          (if s = [] then (None, None)
           else (case jparse s of
                   Some (JObj kvs) \<Rightarrow>
                     (let obj = JObj kvs;
                          preview = (case jget (u ''$preview'') obj of
                              JObj p \<Rightarrow> Some (JObj p) | JArr a \<Rightarrow> Some (JArr a) | _ \<Rightarrow> None);
                          rest = map (\<lambda>k. (k, jget k obj)) (filter (\<lambda>k. \<not> starts_with k (u ''$'')) (uniq (map fst kvs)))
                      in (if rest \<noteq> [] then Some rest else None, preview))
                 | _ \<Rightarrow> (None, None))))"

record dc_parsed =
  pd_template :: jstr
  pd_js :: jstr
  pd_props :: "(jstr \<times> json) list option"
  pd_preview :: "json option"

text \<open>The script of a document: its \<open>data-props\<close> attribute and its text.\<close>

type_synonym dc_script = "jstr option \<times> jstr"

definition parsed_of :: "(jstr \<Rightarrow> json option) \<Rightarrow> jstr \<Rightarrow> dc_script option \<Rightarrow> dc_parsed" where
  "parsed_of jparse template script =
     (let (props, preview) = parseDataProps jparse (case script of Some (a, _) \<Rightarrow> a | None \<Rightarrow> None)
      in \<lparr>pd_template = template, pd_js = (case script of Some (_, t) \<Rightarrow> t | None \<Rightarrow> []),
          pd_props = props, pd_preview = preview\<rparr>)"

text \<open>
  \<open>parseDcDocument\<close>: \<open>None\<close> for a document without an \<open>x-dc\<close> element, whose inner HTML is the template.
\<close>

definition parseDcDocument :: "(jstr \<Rightarrow> json option) \<Rightarrow> jstr option \<Rightarrow> dc_script option \<Rightarrow> dc_parsed option" where
  "parseDcDocument jparse inner script = map_option (\<lambda>t. parsed_of jparse t script) inner"

text \<open>The opening tag at the start of a text: its length.\<close>

definition open_tag :: "jstr \<Rightarrow> nat option" where
  "open_tag s =
     (if \<not> starts_with s (u ''<x-dc'') then None
      else (case drop 5 s of
              c # r \<Rightarrow>
                (if c = 62 then Some 6
                 else if is_space c \<and> 62 \<in> set r then Some (7 + length (takeWhile (\<lambda>d. d \<noteq> 62) r)) else None)
            | [] \<Rightarrow> None))"

fun find_open :: "nat \<Rightarrow> jstr \<Rightarrow> (nat \<times> nat) option" where
  "find_open i [] = None"
| "find_open i (c # cs) = (case open_tag (c # cs) of Some n \<Rightarrow> Some (i, n) | None \<Rightarrow> find_open (i + 1) cs)"

text \<open>\<open>s.lastIndexOf(t)\<close>.\<close>

fun last_index :: "jstr \<Rightarrow> jstr \<Rightarrow> nat option" where
  "last_index t [] = (if t = [] then Some 0 else None)"
| "last_index t (c # cs) =
     (case last_index t cs of Some i \<Rightarrow> Some (i + 1) | None \<Rightarrow> (if starts_with (c # cs) t then Some 0 else None))"

definition parseDcText :: "(jstr \<Rightarrow> json option) \<Rightarrow> (jstr \<Rightarrow> dc_script option) \<Rightarrow> jstr \<Rightarrow> dc_parsed option" where
  "parseDcText jparse find_script src =
     (case find_open 0 src of
        None \<Rightarrow> None
      | Some (i, n) \<Rightarrow>
          (case last_index (u ''</x-dc>'') src of
             None \<Rightarrow> None
           | Some close \<Rightarrow>
               (if close < i then None
                else Some (parsed_of jparse (jslice (i + n) close src) (find_script src)))))"

lemma parseDataProps_keys:
  "parseDataProps jparse raw = (Some ps, pv) \<Longrightarrow>
     ps \<noteq> [] \<and> distinct (map fst ps) \<and> (\<forall>(k, v) \<in> set ps. \<not> starts_with k (u ''$''))"
  by (auto simp: parseDataProps_def Let_def comp_def split: option.splits json.splits if_splits)

lemma last_index_at: "last_index t s = Some i \<Longrightarrow> i \<le> length s \<and> starts_with (drop i s) t"
  by (induction t s arbitrary: i rule: last_index.induct) (auto simp: starts_with_def split: if_splits option.splits)

lemma last_index_absent: "last_index t s = None \<Longrightarrow> \<not> contains s t"
  by (induction t s rule: last_index.induct) (auto simp: starts_with_def split: option.splits if_splits)

lemma last_index_none: "\<not> contains s t \<Longrightarrow> last_index t s = None"
  by (induction t s rule: last_index.induct) (auto simp: starts_with_def)

lemma last_index_append: "last_index t y = Some i \<Longrightarrow> last_index t (x @ y) = Some (length x + i)"
  by (induction x) auto

text \<open>
  The template of a text is what stands between the first opening tag and the last closing tag, whatever
  it contains: a template may hold the text of both tags.
\<close>

lemma parseDcText_template:
  assumes "\<And>j. j < length pre \<Longrightarrow> open_tag (drop j (pre @ tag @ body @ (u ''</x-dc>'') @ post)) = None"
    and "open_tag (tag @ body @ (u ''</x-dc>'') @ post) = Some (length tag)" "\<not> contains (tl ((u ''</x-dc>'') @ post)) (u ''</x-dc>'')"
  shows "parseDcText jparse fs (pre @ tag @ body @ (u ''</x-dc>'') @ post)
    = Some (parsed_of jparse body (fs (pre @ tag @ body @ (u ''</x-dc>'') @ post)))"
proof -
  let ?s = "pre @ tag @ body @ (u ''</x-dc>'') @ post"
  have find: "find_open i (x @ y) = Some (i + length x, n)"
    if "\<And>j. j < length x \<Longrightarrow> open_tag (drop j (x @ y)) = None" "open_tag y = Some n" "y \<noteq> []" for i n x and y :: jstr
    using that
  proof (induction x arbitrary: i)
    case Nil
    then show ?case by (cases y) auto
  next
    case (Cons c x)
    have "open_tag (c # x @ y) = None" using Cons.prems(1) [of 0] by simp
    moreover have "open_tag (drop j (x @ y)) = None" if "j < length x" for j using Cons.prems(1) [of "Suc j"] that by simp
    ultimately show ?case using Cons.IH [of "Suc i"] Cons.prems(2,3) by simp
  qed
  have f: "find_open 0 ?s = Some (length pre, length tag)"
    using find [of pre "tag @ body @ (u ''</x-dc>'') @ post" "length tag" 0] assms(1,2) by simp
  have "last_index (u ''</x-dc>'') (tl ((u ''</x-dc>'') @ post)) = None"
    using assms(3) by (rule last_index_none)
  then have "last_index (u ''</x-dc>'') ((u ''</x-dc>'') @ post) = Some 0"
    by (simp add: starts_with_def u_def)
  then have "last_index (u ''</x-dc>'') ?s = Some (length pre + length tag + length body)"
    using last_index_append [of "(u ''</x-dc>'')" "(u ''</x-dc>'') @ post" 0 "pre @ tag @ body"] by simp
  then show ?thesis by (simp add: parseDcText_def f jslice_def)
qed

end
