(* ===== verification/Dc_Runtime.thy ===== *)
theory Dc_Runtime
  imports Dc_Compile Dc_Parse
begin

text \<open>
  The registry of components and the runtime around it (src/registry.ts, src/runtime.ts, src/boot.ts and
  the interface of src/index.ts in src/support.js): what is known of every component, how its parts
  arrive (streamed by a host, fetched from beside the page, read from the page), and who is told. The
  browser's parsers and the evaluation of a logic script are fields of \<open>rt_env\<close>; a script does not call
  the runtime while it is evaluated.
\<close>

subsection \<open>Registry\<close>

record dc_entry =
  en_html :: jstr
  en_tpl :: "template option"
  en_Logic :: "dval option"
  en_jsStreaming :: bool
  en_htmlStreaming :: bool
  en_ver :: nat
  en_subs :: "nat list"
  en_fetched :: bool
  en_propsMeta :: "(jstr \<times> json) list option"
  en_preview :: "json option"
  en_jsSeq :: nat
  en_logicError :: "jstr option"
  en_overrides :: "(jstr \<times> dval) list option"

definition new_entry :: dc_entry where
  "new_entry = \<lparr>en_html = [], en_tpl = None, en_Logic = None, en_jsStreaming = False, en_htmlStreaming = False,
     en_ver = 0, en_subs = [], en_fetched = False, en_propsMeta = None, en_preview = None, en_jsSeq = 0,
     en_logicError = None, en_overrides = None\<rparr>"

record dc_runtime =
  rn_reg :: "(jstr \<times> dc_entry) list"
  rn_doc :: dc_doc
  rn_root :: "jstr option"
  rn_class :: bool
  rn_told :: "nat list"
  rn_fetches :: "jstr list"

definition rt_start :: dc_runtime where
  "rt_start = \<lparr>rn_reg = [], rn_doc = doc_start, rn_root = None, rn_class = False, rn_told = [], rn_fetches = []\<rparr>"

text \<open>\<open>get\<close>: the entry of a name, made when there is none.\<close>

definition reg_find :: "jstr \<Rightarrow> dc_runtime \<Rightarrow> dc_entry" where
  "reg_find name rt = (case map_of (rn_reg rt) name of Some e \<Rightarrow> e | None \<Rightarrow> new_entry)"

definition reg_get :: "jstr \<Rightarrow> dc_runtime \<Rightarrow> dc_runtime" where
  "reg_get name rt = (if map_of (rn_reg rt) name = None then rt\<lparr>rn_reg := rn_reg rt @ [(name, new_entry)]\<rparr> else rt)"

definition reg_put :: "jstr \<Rightarrow> dc_entry \<Rightarrow> dc_runtime \<Rightarrow> dc_runtime" where
  "reg_put name e rt = rt\<lparr>rn_reg := AList.update name e (rn_reg rt)\<rparr>"

text \<open>The entry of a name changed in place.\<close>

definition reg_change :: "jstr \<Rightarrow> (dc_entry \<Rightarrow> dc_entry) \<Rightarrow> dc_runtime \<Rightarrow> dc_runtime" where
  "reg_change name f rt = reg_put name (f (reg_find name rt)) rt"

definition bump :: "jstr \<Rightarrow> dc_runtime \<Rightarrow> dc_runtime" where
  "bump name rt =
     (let rt1 = reg_change name (\<lambda>e. e\<lparr>en_ver := en_ver e + 1\<rparr>) rt
      in rt1\<lparr>rn_told := rn_told rt1 @ en_subs (reg_find name rt1)\<rparr>)"

definition bumpAll :: "dc_runtime \<Rightarrow> dc_runtime" where
  "bumpAll rt = fold (\<lambda>(n, e). bump n) (rn_reg rt) rt"

definition subscribe :: "jstr \<Rightarrow> nat \<Rightarrow> dc_runtime \<Rightarrow> dc_runtime" where
  "subscribe name i = reg_change name (\<lambda>e. e\<lparr>en_subs := (if i \<in> set (en_subs e) then en_subs e else en_subs e @ [i])\<rparr>)"

definition unsubscribe :: "jstr \<Rightarrow> nat \<Rightarrow> dc_runtime \<Rightarrow> dc_runtime" where
  "unsubscribe name i = reg_change name (\<lambda>e. e\<lparr>en_subs := filter (\<lambda>j. j \<noteq> i) (en_subs e)\<rparr>)"

subsection \<open>Parts of a component\<close>

datatype js_eval = Eval_Value dval | Eval_Throws jstr

record rt_env =
  re_host :: host_env
  re_parse_html :: "jstr \<Rightarrow> dnode list"
  re_json :: "jstr \<Rightarrow> json option"
  re_find_script :: "jstr \<Rightarrow> dc_script option"
  re_eval :: "jstr \<Rightarrow> js_eval"
  re_framed :: bool

text \<open>The design mode of the page, read off the template of its root.\<close>

definition root_mode :: "rt_env \<Rightarrow> jstr \<Rightarrow> jstr \<Rightarrow> dc_runtime \<Rightarrow> dc_runtime" where
  "root_mode env name html rt =
     (let mode = design_doc_mode html
      in if rn_root rt = Some name \<and> (mode \<noteq> None \<or> \<not> en_htmlStreaming (reg_find name rt))
         then rt\<lparr>rn_doc := (rn_doc rt)\<lparr>dd_helmet := setDesignDocMode (re_framed env) mode (dd_helmet (rn_doc rt))\<rparr>\<rparr>
         else rt)"

definition updateHtml :: "rt_env \<Rightarrow> jstr \<Rightarrow> jstr \<Rightarrow> dc_runtime \<Rightarrow> dc_runtime" where
  "updateHtml env name html rt =
     (let rt1 = reg_change name (\<lambda>e. e\<lparr>en_html := html\<rparr>) rt;
          rt2 = root_mode env name html rt1;
          (t, d) = compileTemplate (re_parse_html env) (re_host env) html (rn_doc rt2);
          rt3 = rt2\<lparr>rn_doc := d\<rparr>;
          rt4 = (case t of Some tpl \<Rightarrow> reg_change name (\<lambda>e. e\<lparr>en_tpl := Some tpl\<rparr>) rt3 | None \<Rightarrow> rt3)
      in bump name rt4)"

definition must_define :: jstr where
  "must_define = (ux ''.dc.html: <script data-dc-script> must define {60}class Component extends DCLogic{60}'')"

definition updateJs :: "rt_env \<Rightarrow> jstr \<Rightarrow> jstr \<Rightarrow> dc_runtime \<Rightarrow> dc_runtime" where
  "updateJs env name src rt =
     (let seq = en_jsSeq (reg_find name rt) + 1;
          rt1 = reg_change name (\<lambda>e. e\<lparr>en_jsSeq := seq\<rparr>) rt;
          r = re_eval env src
      in if en_jsSeq (reg_find name rt1) \<noteq> seq then rt1
         else (case r of
                 Eval_Value c \<Rightarrow>
                   bump name
                     (if \<not> is_function (world (re_host env)) c
                      then reg_change name (\<lambda>e. e\<lparr>en_logicError := Some (name @ must_define)\<rparr>) rt1
                      else reg_change name (\<lambda>e. e\<lparr>en_logicError := None, en_Logic := Some c\<rparr>) rt1)
               | Eval_Throws msg \<Rightarrow>
                   bump name (reg_change name (\<lambda>e. e\<lparr>en_logicError := Some (name @ (u '': '') @ msg)\<rparr>) rt1)))"

definition entry_streams :: "dc_entry \<Rightarrow> bool" where
  "entry_streams e = (en_htmlStreaming e \<or> en_jsStreaming e)"

definition any_streams :: "dc_runtime \<Rightarrow> bool" where
  "any_streams rt = list_ex (\<lambda>(n, e). entry_streams e) (rn_reg rt)"

definition setStreaming :: "jstr \<Rightarrow> bool \<Rightarrow> bool \<Rightarrow> dc_runtime \<Rightarrow> dc_runtime" where
  "setStreaming name html on rt =
     (let rt1 = reg_change name (\<lambda>e. if html then e\<lparr>en_htmlStreaming := on\<rparr> else e\<lparr>en_jsStreaming := on\<rparr>) rt
      in bump name (rt1\<lparr>rn_class := any_streams rt1\<rparr>))"

datatype part_kind = Part_Html | Part_Js | Part_Props | Part_Other

definition markFetched :: "jstr \<Rightarrow> dc_runtime \<Rightarrow> dc_runtime" where
  "markFetched name = reg_change name (\<lambda>e. e\<lparr>en_fetched := True\<rparr>)"

definition dcUpdate :: "rt_env \<Rightarrow> jstr \<Rightarrow> part_kind \<Rightarrow> jstr \<Rightarrow> bool \<Rightarrow> dc_runtime \<Rightarrow> dc_runtime" where
  "dcUpdate env name kind content streaming rt =
     (let rt1 = (if streaming then markFetched name rt else rt)
      in case kind of
           Part_Html \<Rightarrow> updateHtml env name content (setStreaming name True streaming rt1)
         | Part_Js \<Rightarrow>
             (let rt2 = setStreaming name False streaming rt1
              in if streaming then rt2 else updateJs env name content rt2)
         | Part_Props \<Rightarrow>
             (let (props, preview) = parseDataProps (re_json env) (Some content)
              in bump name (reg_change name (\<lambda>e. e\<lparr>en_propsMeta := props, en_preview := preview\<rparr>) rt1))
         | Part_Other \<Rightarrow> rt1)"

definition setProps :: "dc_world \<Rightarrow> jstr \<Rightarrow> dval \<Rightarrow> dc_runtime \<Rightarrow> dc_runtime" where
  "setProps w name overrides rt =
     bump name (reg_change name (\<lambda>e. e\<lparr>en_overrides :=
       (if is_object w overrides then Some (map (\<lambda>k. (k, get_prop w overrides k)) (own_keys w (Some overrides)))
        else None)\<rparr>) rt)"

definition set_meta :: "dc_parsed \<Rightarrow> dc_entry \<Rightarrow> dc_entry" where
  "set_meta parsed e =
     (let e1 = (case pd_props parsed of Some ps \<Rightarrow> e\<lparr>en_propsMeta := Some ps\<rparr> | None \<Rightarrow> e)
      in (case pd_preview parsed of Some p \<Rightarrow> e1\<lparr>en_preview := Some p\<rparr> | None \<Rightarrow> e1))"

definition adoptParsed :: "rt_env \<Rightarrow> jstr \<Rightarrow> dc_parsed option \<Rightarrow> dc_runtime \<Rightarrow> dc_runtime" where
  "adoptParsed env name parsed rt =
     (case parsed of
        None \<Rightarrow> rt
      | Some p \<Rightarrow>
          (let rt1 = reg_change name (set_meta p) rt;
               rt2 = (if pd_template p \<noteq> [] then updateHtml env name (pd_template p) rt1 else rt1)
           in if pd_js p \<noteq> [] then updateJs env name (pd_js p) rt2 else rt2))"

text \<open>
  \<open>ensureFetched\<close>: a name that cannot be encoded throws (\<open>False\<close>) once its entry is marked.
\<close>

definition ensureFetched :: "jstr \<Rightarrow> dc_runtime \<Rightarrow> bool \<times> dc_runtime" where
  "ensureFetched name rt =
     (let rt0 = reg_get name rt
      in if en_fetched (reg_find name rt0) then (True, rt0)
         else (let rt1 = reg_change name (\<lambda>e. e\<lparr>en_fetched := True\<rparr>) rt0
               in if component_url name = None then (False, rt1)
                  else (True, rt1\<lparr>rn_fetches := rn_fetches rt1 @ [name]\<rparr>)))"

text \<open>What comes back for a component: its page, or nothing (a bad status, an empty body, no network).\<close>

definition component_answer :: "rt_env \<Rightarrow> jstr \<Rightarrow> jstr option \<Rightarrow> dc_runtime \<Rightarrow> dc_runtime" where
  "component_answer env name body rt =
     (case body of
        None \<Rightarrow> rt
      | Some t \<Rightarrow>
          (if t = [] then rt
           else (case parseDcText (re_json env) (re_find_script env) t of
                   None \<Rightarrow> rt
                 | Some p \<Rightarrow>
                     (let rt1 = reg_change name (set_meta p) rt;
                          rt2 = (if pd_template p \<noteq> [] \<and> en_html (reg_find name rt1) = []
                                 then updateHtml env name (pd_template p) rt1 else rt1)
                      in if pd_js p \<noteq> [] \<and> en_Logic (reg_find name rt2) = None
                         then updateJs env name (pd_js p) rt2 else rt2))))"

definition annotatedTemplate :: "jstr \<Rightarrow> dc_runtime \<Rightarrow> dnode list option" where
  "annotatedTemplate name rt = map_option tp_annotated (en_tpl (reg_find name rt))"

definition templateSource :: "jstr \<Rightarrow> dc_runtime \<Rightarrow> jstr option" where
  "templateSource name rt = (let h = en_html (reg_find name rt) in if h = [] then None else Some h)"

subsection \<open>Booting and the interface on the window\<close>

text \<open>The page as it is when the runtime boots.\<close>

record boot_page =
  bp_inner :: "jstr option"
  bp_script :: "dc_script option"
  bp_base :: jstr
  bp_path :: jstr
  bp_url_path :: "jstr \<Rightarrow> jstr option"

text \<open>
  \<open>api_root\<close> is the root name of the interface, \<open>api_mounted\<close> the root rendered in place of the \<open>x-dc\<close>
  element, \<open>api_full\<close> the style of a full page, \<open>api_posts\<close> the messages to the surrounding window.
\<close>

record dc_api =
  api_rt :: dc_runtime
  api_root :: jstr
  api_mounted :: "jstr option"
  api_full :: bool
  api_posts :: "(jstr \<times> (jstr \<times> json) list option \<times> json option) list"

definition api_start :: dc_api where
  "api_start = \<lparr>api_rt = rt_start, api_root = (u ''Root''), api_mounted = None, api_full = False, api_posts = []\<rparr>"

definition notifyHost :: "rt_env \<Rightarrow> dc_api \<Rightarrow> dc_api" where
  "notifyHost env a =
     (if \<not> re_framed env then a
      else (let e = map_of (rn_reg (api_rt a)) (api_root a)
            in a\<lparr>api_posts := api_posts a @
                 [(api_root a, Option.bind e en_propsMeta, Option.bind e en_preview)]\<rparr>))"

text \<open>\<open>boot\<close>: the name of the root, or \<open>None\<close> for a page without a component.\<close>

definition boot :: "rt_env \<Rightarrow> boot_page \<Rightarrow> dc_api \<Rightarrow> jstr option \<times> dc_api" where
  "boot env page a =
     (case parseDcDocument (re_json env) (bp_inner page) (bp_script page) of
        None \<Rightarrow> (None, a)
      | Some parsed \<Rightarrow>
          (let name = rootNameForDocument (bp_url_path page) (bp_base page) (bp_path page);
               rt1 = markFetched name (api_rt a);
               rt2 = rt1\<lparr>rn_root := Some name\<rparr>;
               rt3 = adoptParsed env name (Some parsed) rt2
           in (Some name,
               a\<lparr>api_rt := rt3, api_mounted := Some name,
                 api_full := api_full a \<or> pd_preview parsed = None\<rparr>)))"

definition dcBoot :: "rt_env \<Rightarrow> boot_page \<Rightarrow> dc_api \<Rightarrow> dc_api" where
  "dcBoot env page a =
     (let (r, a1) = boot env page a
      in notifyHost env (case r of Some name \<Rightarrow> a1\<lparr>api_root := name\<rparr> | None \<Rightarrow> a1))"

text \<open>The page's own text, fetched again by \<open>boot\<close>: its template as it was written.\<close>

definition root_text :: "rt_env \<Rightarrow> jstr \<Rightarrow> jstr option \<Rightarrow> dc_runtime \<Rightarrow> dc_runtime" where
  "root_text env name body rt =
     (case body of
        None \<Rightarrow> rt
      | Some t \<Rightarrow>
          (if t = [] then rt
           else (case parseDcText (re_json env) (re_find_script env) t of
                   None \<Rightarrow> rt
                 | Some p \<Rightarrow> (if pd_template p \<noteq> [] then updateHtml env name (pd_template p) rt else rt))))"

definition api_update :: "rt_env \<Rightarrow> jstr \<Rightarrow> part_kind \<Rightarrow> jstr \<Rightarrow> bool \<Rightarrow> dc_api \<Rightarrow> dc_api" where
  "api_update env name kind content streaming a =
     (let a1 = a\<lparr>api_rt := dcUpdate env name kind content streaming (api_rt a)\<rparr>
      in if name = api_root a1 \<and> \<not> streaming \<and> kind = Part_Props then notifyHost env a1 else a1)"

definition external_event :: "ext_event \<Rightarrow> dc_runtime \<Rightarrow> dc_runtime" where
  "external_event e rt =
     (let d = rn_doc rt; (x, cs) = ext_step e (dd_ext d);
          rt1 = rt\<lparr>rn_doc := d\<lparr>dd_ext := x, dd_cmds := dd_cmds d @ cs\<rparr>\<rparr>
      in fold (\<lambda>c r. case c of Resolved_Again \<Rightarrow> bumpAll r | _ \<Rightarrow> r) cs rt1)"

text \<open>A render of a component's template, with what it leaves in the page.\<close>

definition render_event :: "host_env \<Rightarrow> jstr \<Rightarrow> scope \<Rightarrow> rctx \<Rightarrow> dc_runtime \<Rightarrow> dc_runtime" where
  "render_event he name vals cx rt =
     (case en_tpl (reg_find name rt) of
        None \<Rightarrow> rt
      | Some t \<Rightarrow> rt\<lparr>rn_doc := snd (render_template t he vals cx (rn_doc rt))\<rparr>)"

datatype rt_event =
    Ensure jstr
  | Component_Came rt_env jstr "jstr option"
  | Root_Came rt_env jstr "jstr option"
  | Update rt_env jstr part_kind jstr bool
  | Overrides dc_world jstr dval
  | Boot rt_env boot_page
  | External ext_event
  | Rendered host_env jstr scope rctx
  | Subscribed jstr nat
  | Unsubscribed jstr nat

fun api_step :: "rt_event \<Rightarrow> dc_api \<Rightarrow> dc_api" where
  "api_step (Ensure n) a = a\<lparr>api_rt := snd (ensureFetched n (api_rt a))\<rparr>"
| "api_step (Component_Came env n b) a = a\<lparr>api_rt := component_answer env n b (api_rt a)\<rparr>"
| "api_step (Root_Came env n b) a = a\<lparr>api_rt := root_text env n b (api_rt a)\<rparr>"
| "api_step (Update env n k c s) a = api_update env n k c s a"
| "api_step (Overrides w n v) a = a\<lparr>api_rt := setProps w n v (api_rt a)\<rparr>"
| "api_step (Boot env page) a = dcBoot env page a"
| "api_step (External e) a = a\<lparr>api_rt := external_event e (api_rt a)\<rparr>"
| "api_step (Rendered he n vals cx) a = a\<lparr>api_rt := render_event he n vals cx (api_rt a)\<rparr>"
| "api_step (Subscribed n i) a = a\<lparr>api_rt := subscribe n i (api_rt a)\<rparr>"
| "api_step (Unsubscribed n i) a = a\<lparr>api_rt := unsubscribe n i (api_rt a)\<rparr>"

subsection \<open>What holds along any use\<close>

text \<open>
  The entries have different names; the class of the page says whether any component streams; no
  component is fetched twice; the templates keep the page's state in order.
\<close>

definition rt_core :: "dc_runtime \<Rightarrow> bool" where
  "rt_core rt =
     (distinct (map fst (rn_reg rt)) \<and> distinct (rn_fetches rt)
      \<and> (\<forall>n \<in> set (rn_fetches rt). en_fetched (reg_find n rt)) \<and> doc_ok (rn_doc rt)
      \<and> (\<forall>n t. en_tpl (reg_find n rt) = Some t \<longrightarrow> list_all doc.keeps (tp_builders t)))"

definition rt_class :: "dc_runtime \<Rightarrow> bool" where
  "rt_class rt = (rn_class rt = (\<exists>n. entry_streams (reg_find n rt)))"

definition rt_ok :: "dc_runtime \<Rightarrow> bool" where "rt_ok rt = (rt_core rt \<and> rt_class rt)"

lemma find_change [simp]:
  "reg_find n (reg_change name f rt) = (if n = name then f (reg_find name rt) else reg_find n rt)"
  by (simp add: reg_find_def reg_change_def reg_put_def update_conv')

lemma change_frame [frame_simps, simp]:
  "rn_doc (reg_change name f rt) = rn_doc rt" "rn_root (reg_change name f rt) = rn_root rt"
  "rn_class (reg_change name f rt) = rn_class rt" "rn_told (reg_change name f rt) = rn_told rt"
  "rn_fetches (reg_change name f rt) = rn_fetches rt"
  by (simp_all add: reg_change_def reg_put_def)

lemma change_distinct: "distinct (map fst (rn_reg rt)) \<Longrightarrow> distinct (map fst (rn_reg (reg_change name f rt)))"
  by (simp add: reg_change_def reg_put_def distinct_update)

lemma find_fields [simp]:
  "reg_find n (rt\<lparr>rn_doc := d\<rparr>) = reg_find n rt" "reg_find n (rt\<lparr>rn_root := r\<rparr>) = reg_find n rt"
  "reg_find n (rt\<lparr>rn_class := c\<rparr>) = reg_find n rt" "reg_find n (rt\<lparr>rn_told := l\<rparr>) = reg_find n rt"
  "reg_find n (rt\<lparr>rn_fetches := fs\<rparr>) = reg_find n rt"
  by (simp_all add: reg_find_def)

lemma any_streams_find:
  "distinct (map fst (rn_reg rt)) \<Longrightarrow> any_streams rt = (\<exists>n. entry_streams (reg_find n rt))"
proof -
  assume d: "distinct (map fst (rn_reg rt))"
  have new: "\<not> entry_streams new_entry" by (simp add: entry_streams_def new_entry_def)
  show ?thesis
  proof
    assume "any_streams rt"
    then obtain n e where "(n, e) \<in> set (rn_reg rt)" "entry_streams e" by (auto simp: any_streams_def list_ex_iff)
    then have "entry_streams (reg_find n rt)" using d by (simp add: reg_find_def)
    then show "\<exists>n. entry_streams (reg_find n rt)" by blast
  next
    assume "\<exists>n. entry_streams (reg_find n rt)"
    then obtain n where n: "entry_streams (reg_find n rt)" by blast
    then obtain e where "map_of (rn_reg rt) n = Some e" using new by (cases "map_of (rn_reg rt) n") (auto simp: reg_find_def)
    with n show "any_streams rt"
      by (auto simp: any_streams_def list_ex_iff reg_find_def dest: map_of_SomeD)
  qed
qed

text \<open>A change of an entry that is safe for the invariant.\<close>

definition safe_change :: "(dc_entry \<Rightarrow> dc_entry) \<Rightarrow> bool" where
  "safe_change f =
     ((\<forall>e. en_fetched e \<longrightarrow> en_fetched (f e))
      \<and> (\<forall>e t. en_tpl (f e) = Some t \<longrightarrow> en_tpl e = Some t \<or> list_all doc.keeps (tp_builders t)))"

definition quiet_change :: "(dc_entry \<Rightarrow> dc_entry) \<Rightarrow> bool" where
  "quiet_change f = (safe_change f \<and> (\<forall>e. entry_streams (f e) = entry_streams e))"

lemma core_change: "rt_core rt \<Longrightarrow> safe_change f \<Longrightarrow> rt_core (reg_change name f rt)"
  by (simp add: rt_core_def safe_change_def change_distinct) blast

lemma ok_change: "rt_ok rt \<Longrightarrow> quiet_change f \<Longrightarrow> rt_ok (reg_change name f rt)"
  by (auto simp: rt_ok_def rt_class_def quiet_change_def core_change)

lemma core_fields [simp]:
  "rt_core (rt\<lparr>rn_root := r\<rparr>) = rt_core rt" "rt_core (rt\<lparr>rn_class := c\<rparr>) = rt_core rt" "rt_core (rt\<lparr>rn_told := l\<rparr>) = rt_core rt"
  by (simp_all add: rt_core_def)

lemma ok_fields [simp]: "rt_ok (rt\<lparr>rn_root := r\<rparr>) = rt_ok rt" "rt_ok (rt\<lparr>rn_told := l\<rparr>) = rt_ok rt"
  by (simp_all add: rt_ok_def rt_class_def)

lemma ok_doc: "rt_ok rt \<Longrightarrow> doc_ok d \<Longrightarrow> rt_ok (rt\<lparr>rn_doc := d\<rparr>)"
  by (simp add: rt_ok_def rt_core_def rt_class_def)

lemma quiet_changes [simp]:
  "quiet_change (\<lambda>e. e\<lparr>en_ver := v e\<rparr>)" "quiet_change (\<lambda>e. e\<lparr>en_html := h\<rparr>)" "quiet_change (\<lambda>e. e\<lparr>en_subs := su e\<rparr>)"
  "quiet_change (\<lambda>e. e\<lparr>en_jsSeq := q\<rparr>)" "quiet_change (\<lambda>e. e\<lparr>en_logicError := l\<rparr>)"
  "quiet_change (\<lambda>e. e\<lparr>en_logicError := l, en_Logic := c\<rparr>)" "quiet_change (\<lambda>e. e\<lparr>en_fetched := True\<rparr>)"
  "quiet_change (\<lambda>e. e\<lparr>en_propsMeta := pm, en_preview := pv\<rparr>)" "quiet_change (\<lambda>e. e\<lparr>en_overrides := ov\<rparr>)"
  "quiet_change (set_meta p)" "list_all doc.keeps (tp_builders t) \<Longrightarrow> quiet_change (\<lambda>e. e\<lparr>en_tpl := Some t\<rparr>)"
  by (auto simp: quiet_change_def safe_change_def entry_streams_def set_meta_def Let_def split: option.split)

lemma bump_ok: "rt_ok rt \<Longrightarrow> rt_ok (bump name rt)"
  by (simp add: bump_def Let_def ok_change)

lemma bumpAll_ok: "rt_ok rt \<Longrightarrow> rt_ok (bumpAll rt)"
proof -
  have "rt_ok rt \<Longrightarrow> rt_ok (fold (\<lambda>(n, e). bump n) es rt)" for es :: "(jstr \<times> dc_entry) list" and rt
    by (induction es arbitrary: rt) (auto simp: bump_ok)
  then show "rt_ok rt \<Longrightarrow> ?thesis" by (simp add: bumpAll_def)
qed

lemma doc_ok_mode: "doc_ok d \<Longrightarrow> doc_ok (d\<lparr>dd_helmet := setDesignDocMode fr m (dd_helmet d)\<rparr>)"
  by (simp add: doc_ok_def setDesignDocMode_def postDesignMode_def)

lemma root_mode_ok: "rt_ok rt \<Longrightarrow> rt_ok (root_mode env name html rt)"
proof -
  assume ok: "rt_ok rt"
  then have "doc_ok (rn_doc rt)" by (simp add: rt_ok_def rt_core_def)
  with ok show ?thesis by (simp add: root_mode_def Let_def ok_doc doc_ok_mode)
qed

lemma updateHtml_ok: "rt_ok rt \<Longrightarrow> rt_ok (updateHtml env name html rt)"
proof -
  assume ok: "rt_ok rt"
  let ?rt2 = "root_mode env name html (reg_change name (\<lambda>e. e\<lparr>en_html := html\<rparr>) rt)"
  obtain t d where c: "compileTemplate (re_parse_html env) (re_host env) html (rn_doc ?rt2) = (t, d)" by fastforce
  have ok2: "rt_ok ?rt2" by (rule root_mode_ok [OF ok_change [OF ok]]) simp
  then have "doc_ok (rn_doc ?rt2)" by (simp add: rt_ok_def rt_core_def)
  then have k: "doc_ok d" "\<And>x. t = Some x \<Longrightarrow> list_all doc.keeps (tp_builders x)"
    using doc.compileTemplate_keeps [of "rn_doc ?rt2" "re_parse_html env" "re_host env" html] c by simp_all
  have "rt_ok (?rt2\<lparr>rn_doc := d\<rparr>)" by (rule ok_doc [OF ok2 k(1)])
  then have "rt_ok (case t of Some tpl \<Rightarrow> reg_change name (\<lambda>e. e\<lparr>en_tpl := Some tpl\<rparr>) (?rt2\<lparr>rn_doc := d\<rparr>)
      | None \<Rightarrow> ?rt2\<lparr>rn_doc := d\<rparr>)"
    using k(2) by (cases t) (auto intro!: ok_change)
  then show ?thesis by (simp only: updateHtml_def Let_def c prod.case bump_ok)
qed

lemma updateJs_ok: "rt_ok rt \<Longrightarrow> rt_ok (updateJs env name src rt)"
  by (auto simp: updateJs_def Let_def split: js_eval.split intro!: bump_ok ok_change)

lemma setStreaming_ok: "rt_ok rt \<Longrightarrow> rt_ok (setStreaming name html on rt)"
proof -
  assume ok: "rt_ok rt"
  let ?rt1 = "reg_change name (\<lambda>e. if html then e\<lparr>en_htmlStreaming := on\<rparr> else e\<lparr>en_jsStreaming := on\<rparr>) rt"
  have core: "rt_core ?rt1" using ok by (auto simp: rt_ok_def safe_change_def intro!: core_change)
  then have "rt_ok (?rt1\<lparr>rn_class := any_streams ?rt1\<rparr>)"
    using any_streams_find [of ?rt1] by (simp add: rt_ok_def rt_class_def rt_core_def del: find_change)
  then show ?thesis by (simp add: setStreaming_def Let_def bump_ok)
qed

lemma markFetched_ok: "rt_ok rt \<Longrightarrow> rt_ok (markFetched name rt)"
  by (simp add: markFetched_def ok_change)

lemma dcUpdate_ok: "rt_ok rt \<Longrightarrow> rt_ok (dcUpdate env name kind content streaming rt)"
  by (auto simp: dcUpdate_def Let_def split_beta markFetched_ok setStreaming_ok updateHtml_ok updateJs_ok
      split: part_kind.split intro!: bump_ok ok_change)

lemma adoptParsed_ok: "rt_ok rt \<Longrightarrow> rt_ok (adoptParsed env name p rt)"
  by (auto simp: adoptParsed_def Let_def split: option.split intro!: updateHtml_ok updateJs_ok ok_change)

lemma component_answer_ok: "rt_ok rt \<Longrightarrow> rt_ok (component_answer env name body rt)"
  by (auto simp: component_answer_def Let_def split: option.split intro!: updateHtml_ok updateJs_ok ok_change)

lemma root_text_ok: "rt_ok rt \<Longrightarrow> rt_ok (root_text env name body rt)"
  by (auto simp: root_text_def split: option.split intro!: updateHtml_ok)

lemma reg_get_find [simp]: "reg_find n (reg_get name rt) = reg_find n rt"
  by (auto simp: reg_get_def reg_find_def split: option.splits if_splits)

lemma reg_get_ok: "rt_ok rt \<Longrightarrow> rt_ok (reg_get name rt)"
proof -
  assume ok: "rt_ok rt"
  have "distinct (map fst (rn_reg (reg_get name rt)))"
    using ok by (auto simp: reg_get_def rt_ok_def rt_core_def map_of_eq_None_iff)
  moreover have "rn_fetches (reg_get name rt) = rn_fetches rt" "rn_doc (reg_get name rt) = rn_doc rt"
    "rn_class (reg_get name rt) = rn_class rt" by (simp_all add: reg_get_def)
  ultimately show ?thesis using ok by (simp add: rt_ok_def rt_core_def rt_class_def)
qed

lemma ensureFetched_ok: "rt_ok rt \<Longrightarrow> rt_ok (snd (ensureFetched name rt))"
proof -
  assume ok: "rt_ok rt"
  have g: "rt_ok (reg_get name rt)" by (rule reg_get_ok [OF ok])
  have m: "rt_ok (reg_change name (\<lambda>e. e\<lparr>en_fetched := True\<rparr>) (reg_get name rt))" by (rule ok_change [OF g]) simp
  show ?thesis
  proof (cases "en_fetched (reg_find name rt) \<or> component_url name = None")
    case True
    then show ?thesis using g m by (auto simp: ensureFetched_def Let_def)
  next
    case False
    then have "name \<notin> set (rn_fetches rt)" using ok by (auto simp: rt_ok_def rt_core_def)
    moreover have "rn_fetches (reg_get name rt) = rn_fetches rt" by (simp add: reg_get_def)
    ultimately show ?thesis using False m
      by (auto simp: ensureFetched_def Let_def rt_ok_def rt_core_def rt_class_def)
  qed
qed

lemma external_event_ok: "rt_ok rt \<Longrightarrow> rt_ok (external_event e rt)"
proof -
  assume ok: "rt_ok rt"
  have fold: "rt_ok r \<Longrightarrow> rt_ok (fold (\<lambda>c r. case c of Resolved_Again \<Rightarrow> bumpAll r | _ \<Rightarrow> r) cs r)" for cs r
    by (induction cs arbitrary: r) (auto simp: bumpAll_ok split: ext_cmd.split)
  have d: "doc_ok (rn_doc rt)" using ok by (simp add: rt_ok_def rt_core_def)
  have "ext_ok (ext_log e (dd_ext (rn_doc rt), dd_cmds (rn_doc rt)))"
    using d by (intro ext_ok_step) (simp add: doc_ok_def)
  then have "doc_ok ((rn_doc rt)\<lparr>dd_ext := fst (ext_step e (dd_ext (rn_doc rt))),
      dd_cmds := dd_cmds (rn_doc rt) @ snd (ext_step e (dd_ext (rn_doc rt)))\<rparr>)"
    using d by (simp add: doc_ok_def ext_log_def split_beta Let_def)
  then show ?thesis by (simp add: external_event_def Let_def split_beta fold ok_doc [OF ok])
qed

lemma render_event_ok: "rt_ok rt \<Longrightarrow> rt_ok (render_event he name vals cx rt)"
proof -
  assume ok: "rt_ok rt"
  have "doc_ok (snd (render_template t he vals cx (rn_doc rt)))" if "en_tpl (reg_find name rt) = Some t" for t
    using ok that by (intro doc.render_keeps) (auto simp: rt_ok_def rt_core_def)
  then show ?thesis using ok by (auto simp: render_event_def split: option.split intro!: ok_doc)
qed

lemma notifyHost_rt [simp]: "api_rt (notifyHost env a) = api_rt a"
  by (simp add: notifyHost_def Let_def)

lemma api_step_ok: "rt_ok (api_rt a) \<Longrightarrow> rt_ok (api_rt (api_step e a))"
  by (cases e)
    (auto simp: ensureFetched_ok component_answer_ok root_text_ok dcUpdate_ok external_event_ok render_event_ok
      api_update_def setProps_def subscribe_def unsubscribe_def dcBoot_def boot_def split_beta Let_def
      split: option.split intro!: bump_ok ok_change adoptParsed_ok markFetched_ok)

lemma rt_start_ok: "rt_ok rt_start"
  by (simp add: rt_ok_def rt_core_def rt_class_def rt_start_def reg_find_def new_entry_def entry_streams_def doc_ok_start)

interpretation runtime: stepper api_start api_step "\<lambda>a. rt_ok (api_rt a)"
  by unfold_locales (simp add: api_start_def rt_start_ok, rule api_step_ok)

lemma streaming_class: "rn_class (api_rt (run api_step es api_start)) = (\<exists>n. entry_streams (reg_find n (api_rt (run api_step es api_start))))"
  using runtime.run_inv [of es] by (simp add: rt_ok_def rt_class_def)

lemma fetched_at_most_once: "distinct (rn_fetches (api_rt (run api_step es api_start)))"
  using runtime.run_inv [of es] by (simp add: rt_ok_def rt_core_def)

lemma page_in_order: "doc_ok (rn_doc (api_rt (run api_step es api_start)))"
  using runtime.run_inv [of es] by (simp add: rt_ok_def rt_core_def)

subsection \<open>What arrives later does not undo what was there\<close>

lemma find_bump [simp]:
  "reg_find n (bump name rt) = (if n = name then (reg_find name rt)\<lparr>en_ver := en_ver (reg_find name rt) + 1\<rparr> else reg_find n rt)"
  by (simp add: bump_def Let_def)

lemma find_root_mode [simp]: "reg_find n (root_mode env name html rt) = reg_find n rt"
  by (simp add: root_mode_def Let_def)

text \<open>A new template text: the entry's text is the new one, its template the compiled one, or the last that compiled.\<close>

lemma updateHtml_entry:
  "reg_find name (updateHtml env name html rt) =
     (let e = reg_find name rt;
          t = fst (compileTemplate (re_parse_html env) (re_host env) html
                (rn_doc (root_mode env name html (reg_change name (\<lambda>e. e\<lparr>en_html := html\<rparr>) rt))))
      in e\<lparr>en_html := html, en_tpl := (case t of Some x \<Rightarrow> Some x | None \<Rightarrow> en_tpl e), en_ver := en_ver e + 1\<rparr>)"
  by (simp add: updateHtml_def Let_def split_beta split: option.split)

lemma updateHtml_other: "n \<noteq> name \<Longrightarrow> reg_find n (updateHtml env name html rt) = reg_find n rt"
  by (simp add: updateHtml_def Let_def split_beta split: option.split)

lemma updateJs_entry:
  "reg_find name (updateJs env name src rt) =
     (let e = reg_find name rt; e1 = e\<lparr>en_jsSeq := en_jsSeq e + 1, en_ver := en_ver e + 1\<rparr>
      in case re_eval env src of
           Eval_Value c \<Rightarrow>
             (if is_function (world (re_host env)) c then e1\<lparr>en_logicError := None, en_Logic := Some c\<rparr>
              else e1\<lparr>en_logicError := Some (name @ must_define)\<rparr>)
         | Eval_Throws msg \<Rightarrow> e1\<lparr>en_logicError := Some (name @ (u '': '') @ msg)\<rparr>)"
  by (simp add: updateJs_def Let_def split: js_eval.split)

lemma updateJs_other: "n \<noteq> name \<Longrightarrow> reg_find n (updateJs env name src rt) = reg_find n rt"
  by (auto simp: updateJs_def Let_def split: js_eval.split)

lemma set_meta_fields [simp]:
  "en_html (set_meta p e) = en_html e" "en_tpl (set_meta p e) = en_tpl e" "en_Logic (set_meta p e) = en_Logic e"
  "en_fetched (set_meta p e) = en_fetched e"
  by (simp_all add: set_meta_def Let_def split: option.split)

lemma late_answer_keeps:
  assumes "en_html (reg_find name rt) \<noteq> []" "en_Logic (reg_find name rt) = Some c"
  shows "let e = reg_find name rt; e' = reg_find name (component_answer env name body rt)
    in en_html e' = en_html e \<and> en_tpl e' = en_tpl e \<and> en_Logic e' = Some c"
  using assms by (auto simp: component_answer_def Let_def split: option.split)

text \<open>A script that does not define a class leaves the last class in use.\<close>

lemma bad_script_keeps_logic:
  "(\<And>c. re_eval env src = Eval_Value c \<Longrightarrow> \<not> is_function (world (re_host env)) c) \<Longrightarrow>
     en_Logic (reg_find name (updateJs env name src rt)) = en_Logic (reg_find name rt)
     \<and> en_logicError (reg_find name (updateJs env name src rt)) \<noteq> None"
  by (auto simp: updateJs_entry Let_def split: js_eval.split)

subsection \<open>What a host streams is not fetched\<close>

definition fetch_frame :: "dc_runtime \<Rightarrow> dc_runtime \<Rightarrow> bool" where
  "fetch_frame rt rt' =
     (rn_fetches rt' = rn_fetches rt \<and> (\<forall>n. en_fetched (reg_find n rt) \<longrightarrow> en_fetched (reg_find n rt')))"

lemma frame_refl [simp]: "fetch_frame rt rt"
  by (simp add: fetch_frame_def)

lemma frame_trans: "fetch_frame a b \<Longrightarrow> fetch_frame b c \<Longrightarrow> fetch_frame a c"
  by (simp add: fetch_frame_def)

lemma frame_change: "(\<And>e. en_fetched e \<Longrightarrow> en_fetched (f e)) \<Longrightarrow> fetch_frame rt (reg_change name f rt)"
  by (simp add: fetch_frame_def)

lemma frame_bump: "fetch_frame rt (bump name rt)"
  by (simp add: fetch_frame_def) (simp add: bump_def Let_def)

lemma frame_bumpAll: "fetch_frame rt (bumpAll rt)"
proof -
  have "fetch_frame rt (fold (\<lambda>(n, e). bump n) es rt)" for es :: "(jstr \<times> dc_entry) list" and rt
    by (induction es arbitrary: rt) (auto intro: frame_trans [OF frame_bump])
  then show ?thesis by (simp add: bumpAll_def)
qed

lemma frame_updateHtml: "fetch_frame rt (updateHtml env name html rt)"
proof -
  have "en_fetched (reg_find n rt) \<Longrightarrow> en_fetched (reg_find n (updateHtml env name html rt))" for n
    by (cases "n = name") (simp_all add: updateHtml_entry updateHtml_other Let_def)
  moreover have "rn_fetches (updateHtml env name html rt) = rn_fetches rt"
    by (simp add: updateHtml_def bump_def root_mode_def Let_def split_beta split: option.split)
  ultimately show ?thesis by (simp add: fetch_frame_def)
qed

lemma frame_updateJs: "fetch_frame rt (updateJs env name src rt)"
proof -
  have "en_fetched (reg_find n rt) \<Longrightarrow> en_fetched (reg_find n (updateJs env name src rt))" for n
    by (cases "n = name") (simp_all add: updateJs_entry updateJs_other Let_def split: js_eval.split)
  moreover have "rn_fetches (updateJs env name src rt) = rn_fetches rt"
    by (simp add: updateJs_def bump_def Let_def split: js_eval.split)
  ultimately show ?thesis by (simp add: fetch_frame_def)
qed

lemma frame_setStreaming: "fetch_frame rt (setStreaming name html on rt)"
  by (simp add: setStreaming_def Let_def fetch_frame_def) (simp add: bump_def Let_def)

lemma frame_mark: "fetch_frame rt (markFetched name rt)"
  by (simp add: markFetched_def fetch_frame_def)

lemma frame_meta: "fetch_frame rt (reg_change name (set_meta p) rt)"
  by (rule frame_change) simp

lemmas frame_steps =
  frame_trans [OF _ frame_bump] frame_trans [OF _ frame_updateHtml] frame_trans [OF _ frame_updateJs]
  frame_trans [OF _ frame_setStreaming] frame_trans [OF _ frame_mark] frame_trans [OF _ frame_meta]

lemma frame_dcUpdate: "fetch_frame rt (dcUpdate env name kind content streaming rt)"
proof -
  have p: "fetch_frame x (bump name (reg_change name (\<lambda>e. e\<lparr>en_propsMeta := pm, en_preview := pv\<rparr>) x))" for x pm pv
    by (rule frame_trans [OF frame_change frame_bump]) simp
  show ?thesis
    by (cases kind)
      (auto simp: dcUpdate_def Let_def split_beta p intro!: frame_steps frame_trans [OF frame_mark p])
qed

lemma frame_adopt: "fetch_frame rt (adoptParsed env name p rt)"
  by (auto simp: adoptParsed_def Let_def split: option.split intro!: frame_steps)

lemma frame_answer: "fetch_frame rt (component_answer env name body rt)"
  by (auto simp: component_answer_def Let_def split: option.split intro!: frame_steps)

lemma frame_external: "fetch_frame rt (external_event e rt)"
proof -
  have "fetch_frame r (fold (\<lambda>c r. case c of Resolved_Again \<Rightarrow> bumpAll r | _ \<Rightarrow> r) cs r)" for cs r
    by (induction cs arbitrary: r) (auto intro: frame_trans [OF frame_bumpAll] split: ext_cmd.split)
  moreover have "fetch_frame rt (rt\<lparr>rn_doc := d\<rparr>)" for d by (simp add: fetch_frame_def)
  ultimately show ?thesis unfolding external_event_def Let_def split_beta by (blast intro: frame_trans)
qed

text \<open>Held by the host: known as fetched, and not fetched by the runtime.\<close>

definition host_owned :: "jstr \<Rightarrow> dc_runtime \<Rightarrow> bool" where
  "host_owned n rt = (en_fetched (reg_find n rt) \<and> n \<notin> set (rn_fetches rt))"

lemma owned_frame: "fetch_frame rt rt' \<Longrightarrow> host_owned n rt \<Longrightarrow> host_owned n rt'"
  by (simp add: fetch_frame_def host_owned_def)

lemma owned_ensure: "host_owned n rt \<Longrightarrow> host_owned n (snd (ensureFetched name rt))"
proof -
  have "rn_fetches (reg_get name rt) = rn_fetches rt" by (simp add: reg_get_def)
  then show "host_owned n rt \<Longrightarrow> ?thesis" by (auto simp: host_owned_def ensureFetched_def Let_def)
qed

lemma owned_step: "host_owned n (api_rt a) \<Longrightarrow> host_owned n (api_rt (api_step e a))"
proof (cases e)
  case (Ensure m)
  then show "host_owned n (api_rt a) \<Longrightarrow> ?thesis" by (simp add: owned_ensure)
next
  case (Component_Came env m b)
  then show "host_owned n (api_rt a) \<Longrightarrow> ?thesis" using owned_frame [OF frame_answer] by simp
next
  case (Root_Came env m b)
  have "fetch_frame (api_rt a) (root_text env m b (api_rt a))"
    by (auto simp: root_text_def frame_updateHtml split: option.split)
  with Root_Came show "host_owned n (api_rt a) \<Longrightarrow> ?thesis" using owned_frame by simp
next
  case (Update env m k c s)
  then show "host_owned n (api_rt a) \<Longrightarrow> ?thesis" using owned_frame [OF frame_dcUpdate] by (simp add: api_update_def Let_def)
next
  case (Overrides w m v)
  have "fetch_frame (api_rt a) (setProps w m v (api_rt a))"
    unfolding setProps_def by (rule frame_trans [OF frame_change frame_bump]) simp
  with Overrides show "host_owned n (api_rt a) \<Longrightarrow> ?thesis" using owned_frame by simp
next
  case (Boot env page)
  have "fetch_frame (api_rt a) (api_rt (snd (boot env page a)))"
  proof -
    have "fetch_frame (markFetched m rt) (adoptParsed env m p ((markFetched m rt)\<lparr>rn_root := Some m\<rparr>))" for m rt p
      by (rule frame_trans [OF _ frame_adopt]) (simp add: fetch_frame_def)
    then show ?thesis by (auto simp: boot_def Let_def split: option.split intro: frame_trans [OF frame_mark])
  qed
  with Boot show "host_owned n (api_rt a) \<Longrightarrow> ?thesis"
    using owned_frame by (auto simp: dcBoot_def Let_def split_beta split: option.split)
next
  case (External x)
  then show "host_owned n (api_rt a) \<Longrightarrow> ?thesis" using owned_frame [OF frame_external] by simp
next
  case (Rendered he m vals cx)
  then show "host_owned n (api_rt a) \<Longrightarrow> ?thesis" by (simp add: render_event_def host_owned_def split: option.split)
next
  case (Subscribed m i)
  then show "host_owned n (api_rt a) \<Longrightarrow> ?thesis" using owned_frame [OF frame_change] by (simp add: subscribe_def)
next
  case (Unsubscribed m i)
  then show "host_owned n (api_rt a) \<Longrightarrow> ?thesis" using owned_frame [OF frame_change] by (simp add: unsubscribe_def)
qed

lemma owned_run: "host_owned n (api_rt a) \<Longrightarrow> host_owned n (api_rt (run api_step es a))"
  by (induction es arbitrary: a) (auto intro: owned_step)

lemma streamed_is_owned:
  assumes "n \<notin> set (rn_fetches (api_rt a))"
  shows "host_owned n (api_rt (api_step (Update env n k c True) a))"
proof -
  have "host_owned n (markFetched n (api_rt a))" using assms by (simp add: host_owned_def markFetched_def)
  moreover have "dcUpdate env n k c True (api_rt a) = dcUpdate env n k c True (markFetched n (api_rt a))"
    by (simp add: dcUpdate_def markFetched_def reg_change_def reg_put_def reg_find_def update_conv')
  ultimately show ?thesis using owned_frame [OF frame_dcUpdate] by (simp add: api_update_def Let_def)
qed

end
