(* ===== verification/Dc_Component.thy ===== *)
theory Dc_Component
  imports Dc_Runtime
begin

text \<open>
  The component around a logic class (src/logic.ts and src/component.ts in src/support.js): the wrapper
  that makes, swaps and calls instances of the author's class as React mounts, renders, commits and
  unmounts it, what it shows when something fails, and the chain of ancestors that stops a circular
  import. The author's code (constructors, \<open>renderVals\<close>, update functions) is the record \<open>logic_code\<close>;
  the hooks it is called with are logged. React calls the lifecycle methods of a component in its
  documented order, in one go per event. A hint size is a text.
\<close>

subsection \<open>Instances of a logic class\<close>

type_synonym vprops = "(jstr \<times> dval) list"

record logic_obj =
  lo_id :: nat
  lo_class :: dval
  lo_props :: vprops
  lo_state :: vprops

text \<open>
  \<open>lc_base\<close> is the class \<open>StreamableLogic\<close>, \<open>lc_new\<close> the state an author's constructor leaves or what it
  throws, \<open>lc_vals\<close> what \<open>renderVals\<close> gives or throws, \<open>lc_call\<close> a call of an update function, \<open>lc_node\<close>
  the object that a style or a list of nodes among the properties is.
\<close>

record logic_code =
  lc_base :: dval
  lc_new :: "dval \<Rightarrow> vprops \<Rightarrow> jstr + vprops"
  lc_vals :: "logic_obj \<Rightarrow> jstr + vprops"
  lc_call :: "dval \<Rightarrow> vprops \<Rightarrow> dval"
  lc_node :: "rprop \<Rightarrow> dval"

text \<open>\<open>{ ...a, ...b }\<close>.\<close>

definition spread :: "('k \<times> 'v) list \<Rightarrow> ('k \<times> 'v) list \<Rightarrow> ('k \<times> 'v) list" where
  "spread a b = fold (\<lambda>(k, v). AList.update k v) b a"

definition entries_of :: "dc_world \<Rightarrow> dval \<Rightarrow> vprops" where
  "entries_of w v = map (\<lambda>k. (k, get_prop w v k)) (own_keys w (Some v))"

definition base_logic :: "logic_code \<Rightarrow> nat \<Rightarrow> vprops \<Rightarrow> logic_obj" where
  "base_logic lc n ps = \<lparr>lo_id = n, lo_class = lc_base lc, lo_props = ps, lo_state = []\<rparr>"

definition renderVals :: "logic_code \<Rightarrow> logic_obj \<Rightarrow> jstr + vprops" where
  "renderVals lc l = (if lo_class l = lc_base lc then Inr [] else lc_vals lc l)"

definition shallowEqual :: "vprops \<Rightarrow> vprops option \<Rightarrow> bool" where
  "shallowEqual a b =
     (case b of
        None \<Rightarrow> False
      | Some b' \<Rightarrow>
          (let ak = filter (\<lambda>k. k \<noteq> (u ''children'')) (map fst a); bk = filter (\<lambda>k. k \<noteq> (u ''children'')) (map fst b');
               field = (\<lambda>kvs k. case map_of kvs k of Some v \<Rightarrow> v | None \<Rightarrow> VUndef)
           in length ak = length bk \<and> list_all (\<lambda>k. strict_eq (field a k) (field b' k)) ak))"

subsection \<open>Placeholders\<close>

definition hint_parts :: "jstr \<Rightarrow> jstr \<times> dval" where
  "hint_parts s =
     (case split_on 44 s of
        w # hgt # r \<Rightarrow> (trim w, VStr (trim hgt))
      | w # r \<Rightarrow> (trim w, VUndef)
      | [] \<Rightarrow> ([], VUndef))"

definition placeholder :: "jstr \<Rightarrow> jstr option \<Rightarrow> bool \<Rightarrow> jstr option \<Rightarrow> rnode" where
  "placeholder name hint streaming err =
     (let (w, hgt) = hint_parts (case hint of Some (c # s) \<Rightarrow> c # s | _ \<Rightarrow> (u ''100%,60px''))
      in RHost (u ''div'')
           [((u ''className''), PVal (VStr ((u ''sc-placeholder'') @ (if streaming then (u '' sc-streaming'') else [])))),
            ((u ''style''), PStyle [((u ''width''), VStr w), ((u ''height''), hgt)]), ((u ''title''), PVal (VStr name))]
           [case err of
              Some (c # s) \<Rightarrow>
                RHost (u ''div'') [((u ''className''), PVal (VStr (u ''sc-placeholder-error'')))]
                  [RText ((if name \<noteq> [] then name @ (u '': '') else []) @ c # s)]
            | _ \<Rightarrow> RNull])"

definition hintToMin :: "jstr option \<Rightarrow> vprops option" where
  "hintToMin hint =
     (case hint of
        Some (c # s) \<Rightarrow>
          (let (w, hgt) = hint_parts (c # s) in Some [((u ''minWidth''), VStr w), ((u ''minHeight''), hgt)])
      | _ \<Rightarrow> None)"

subsection \<open>State of the wrapper\<close>

datatype hook = Did_Mount (hook_id: nat) | Did_Update (hook_id: nat) | Will_Unmount (hook_id: nat)

text \<open>
  \<open>cm_err\<close> is empty when there is no render error; \<open>cm_next\<close> numbers the instances, \<open>cm_log\<close> is the log
  of their hooks.
\<close>

record dc_comp =
  cm_name :: jstr
  cm_sub :: nat
  cm_props :: "(jstr \<times> rprop) list"
  cm_logic :: logic_obj
  cm_needsDidMount :: bool
  cm_streamingNow :: bool
  cm_htmlStreamingNow :: bool
  cm_failedLogic :: "dval option"
  cm_failedUserProps :: "vprops option"
  cm_failedVer :: int
  cm_ctorError :: "jstr option"
  cm_err :: jstr
  cm_v :: nat
  cm_next :: nat
  cm_log :: "hook list"

definition WIRING :: "jstr list" where
  "WIRING = [(u ''__name''), (u ''__hintSize''), (u ''__tplId''), (u ''__hostStyle'')]"

definition prop_value :: "logic_code \<Rightarrow> rprop \<Rightarrow> dval" where
  "prop_value lc p = (case p of PVal v \<Rightarrow> v | _ \<Rightarrow> lc_node lc p)"

definition userProps :: "logic_code \<Rightarrow> (jstr \<times> rprop) list \<Rightarrow> vprops" where
  "userProps lc ps = map (\<lambda>(k, p). (k, prop_value lc p)) (filter (\<lambda>(k, p). k \<notin> set WIRING) ps)"

text \<open>\<open>__makeLogic\<close>, given the version of the registry entry.\<close>

definition makeLogic :: "logic_code \<Rightarrow> nat \<Rightarrow> dval option \<Rightarrow> vprops option \<Rightarrow> dc_comp \<Rightarrow> dc_comp" where
  "makeLogic lc ver Logic prev c =
     (let ps = userProps lc (cm_props c); n = cm_next c;
          built = (case Logic of
                     None \<Rightarrow> Inr []
                   | Some cl \<Rightarrow> (if cl = lc_base lc then Inr [] else lc_new lc cl ps));
          (l, c1) =
            (case built of
               Inr st \<Rightarrow>
                 (\<lparr>lo_id = n, lo_class = (case Logic of Some cl \<Rightarrow> cl | None \<Rightarrow> lc_base lc), lo_props = ps, lo_state = st\<rparr>,
                  c\<lparr>cm_failedLogic := None, cm_failedUserProps := None, cm_ctorError := None\<rparr>)
             | Inl msg \<Rightarrow>
                 (base_logic lc n ps,
                  c\<lparr>cm_failedLogic := Logic, cm_failedUserProps := Some ps, cm_failedVer := int ver,
                    cm_ctorError := Some (cm_name c @ (u '': '') @ msg)\<rparr>));
          l1 = (case prev of Some st \<Rightarrow> l\<lparr>lo_state := spread (lo_state l) st\<rparr> | None \<Rightarrow> l)
      in c1\<lparr>cm_logic := l1, cm_next := n + 1\<rparr>)"

definition logged :: "hook \<Rightarrow> dc_comp \<Rightarrow> dc_comp" where
  "logged h c = c\<lparr>cm_log := cm_log c @ [h]\<rparr>"

definition setLogicState :: "logic_code \<Rightarrow> dc_world \<Rightarrow> dval \<Rightarrow> dc_comp \<Rightarrow> dc_comp" where
  "setLogicState lc w update c =
     (let prev = lo_state (cm_logic c);
          patch = (if is_function w update then lc_call lc update prev else update)
      in c\<lparr>cm_logic := (cm_logic c)\<lparr>lo_state := spread prev (entries_of w patch)\<rparr>, cm_v := cm_v c + 1\<rparr>)"

text \<open>Whether the instance stays: the class is the one in use, or it failed as it would fail again.\<close>

definition logic_stays :: "logic_code \<Rightarrow> dc_entry \<Rightarrow> dc_comp \<Rightarrow> bool" where
  "logic_stays lc r c =
     (let Next = en_Logic r; Cur = lo_class (cm_logic c)
      in Next = Some Cur \<or> Next = None \<and> Cur = lc_base lc
         \<or> Next = cm_failedLogic c \<and> int (en_ver r) = cm_failedVer c
           \<and> shallowEqual (userProps lc (cm_props c)) (cm_failedUserProps c))"

definition reconcileLogic :: "logic_code \<Rightarrow> dc_entry \<Rightarrow> dc_comp \<Rightarrow> dc_comp" where
  "reconcileLogic lc r c =
     (if logic_stays lc r c then c
      else (let c1 = (if cm_needsDidMount c then c else logged (Will_Unmount (lo_id (cm_logic c))) c)
            in (makeLogic lc (en_ver r) (en_Logic r) (Some (lo_state (cm_logic c))) c1)\<lparr>cm_needsDidMount := True\<rparr>))"

subsection \<open>Lifecycle\<close>

text \<open>The fields a new wrapper starts from, before its constructor makes the first instance.\<close>

definition comp_fields :: "logic_code \<Rightarrow> jstr \<Rightarrow> nat \<Rightarrow> (jstr \<times> rprop) list \<Rightarrow> nat \<Rightarrow> hook list \<Rightarrow> dc_comp" where
  "comp_fields lc name sub ps n lg =
     \<lparr>cm_name = name, cm_sub = sub, cm_props = ps, cm_logic = base_logic lc n [], cm_needsDidMount = False,
      cm_streamingNow = False, cm_htmlStreamingNow = False, cm_failedLogic = None, cm_failedUserProps = None,
      cm_failedVer = -1, cm_ctorError = None, cm_err = [], cm_v = 0, cm_next = n, cm_log = lg\<rparr>"

definition comp_new :: "logic_code \<Rightarrow> jstr \<Rightarrow> nat \<Rightarrow> (jstr \<times> rprop) list \<Rightarrow> nat \<Rightarrow> hook list \<Rightarrow> dc_runtime \<Rightarrow> (dc_comp \<times> bool) \<times> dc_runtime" where
  "comp_new lc name sub ps n lg rt =
     (let rt0 = reg_get name rt; r = reg_find name rt0;
          c = makeLogic lc (en_ver r) (en_Logic r) None (comp_fields lc name sub ps n lg);
          (ok, rt1) = ensureFetched name rt0
      in ((c, ok), rt1))"

definition didMount :: "dc_comp \<Rightarrow> dc_comp" where
  "didMount c = logged (Did_Mount (lo_id (cm_logic c))) c"

definition didUpdate :: "logic_code \<Rightarrow> dc_entry \<Rightarrow> dc_comp \<Rightarrow> dc_comp" where
  "didUpdate lc r c =
     (let c1 = c\<lparr>cm_logic := (cm_logic c)\<lparr>lo_props := userProps lc (cm_props c)\<rparr>\<rparr>
      in if cm_needsDidMount c1 then
           (if cm_err c1 \<noteq> [] \<or> en_tpl r = None then c1 else didMount (c1\<lparr>cm_needsDidMount := False\<rparr>))
         else logged (Did_Update (lo_id (cm_logic c1))) c1)"

definition willUnmount :: "dc_comp \<Rightarrow> dc_comp" where
  "willUnmount c = (if cm_needsDidMount c then c else logged (Will_Unmount (lo_id (cm_logic c))) c)"

text \<open>The callback of the registry, and the error boundary.\<close>

definition comp_told :: "dc_comp \<Rightarrow> dc_comp" where
  "comp_told c = c\<lparr>cm_err := []\<rparr>"

definition comp_caught :: "jstr \<Rightarrow> dc_comp \<Rightarrow> dc_comp" where
  "comp_caught msg c = c\<lparr>cm_err := msg\<rparr>"

subsection \<open>Rendering\<close>

text \<open>The host element, the nodes in it, and the template's nodes with the chain of ancestors they see.\<close>

datatype comp_view = View (view_host: "(jstr \<times> rprop) list") (view_boxes: "rnode list") (view_body: "(jstr list \<times> rnode list) option")

definition prop_text :: "jstr \<Rightarrow> (jstr \<times> rprop) list \<Rightarrow> jstr option" where
  "prop_text k ps = (case map_of ps k of Some (PVal (VP (PStr s))) \<Rightarrow> Some s | _ \<Rightarrow> None)"

definition style_entries :: "dc_world \<Rightarrow> rprop option \<Rightarrow> vprops option" where
  "style_entries w p =
     (case p of
        Some (PStyle kvs) \<Rightarrow> Some kvs
      | Some (PVal v) \<Rightarrow> (if vtruthy v then Some (entries_of w v) else None)
      | _ \<Rightarrow> None)"

definition host_class :: "dc_entry \<Rightarrow> jstr" where
  "host_class r = (u ''sc-host'') @ (if en_htmlStreaming r then (u '' sc-streaming-html'') else [])
     @ (if en_jsStreaming r then (u '' sc-streaming-js'') else [])"

definition host_base :: "dc_world \<Rightarrow> dc_entry \<Rightarrow> bool \<Rightarrow> dc_comp \<Rightarrow> (jstr \<times> rprop) list" where
  "host_base w r err c =
     (let hint = (if en_htmlStreaming r then hintToMin (prop_text (u ''__hintSize'') (cm_props c)) else None);
          given = style_entries w (map_of (cm_props c) (u ''__hostStyle''));
          or_none = (\<lambda>s. case s of Some kvs \<Rightarrow> kvs | None \<Rightarrow> [])
      in [((u ''className''), PVal (VStr (host_class r @ (if err then (u '' sc-has-error'') else [])))),
          ((u ''style''), if given \<noteq> None \<or> hint \<noteq> None then PStyle (spread (or_none hint) (or_none given)) else PVal VUndef),
          ((u ''data-sc-name''), PVal (VStr (cm_name c))),
          ((u ''data-dc-tpl''), case map_of (cm_props c) (u ''__tplId'') of Some p \<Rightarrow> p | None \<Rightarrow> PVal VUndef)])"

definition error_box :: "jstr \<Rightarrow> rnode" where
  "error_box msg =
     RHost (u ''div'') [((u ''className''), PVal (VStr (u ''sc-logic-error''))), ((u ''data-omelette-chrome''), PVal (VStr []))] [RText msg]"

definition cycle_text :: "jstr list \<Rightarrow> jstr \<Rightarrow> jstr" where
  "cycle_text chain name = join_with (ux '' {2192} '') (dropWhile (\<lambda>n. n \<noteq> name) chain @ [name])"

definition first_error :: "jstr option \<Rightarrow> jstr option \<Rightarrow> jstr option" where
  "first_error a b = (case a of Some (c # s) \<Rightarrow> a | _ \<Rightarrow> b)"

definition render_body ::
  "logic_code \<Rightarrow> host_env \<Rightarrow> jstr list \<Rightarrow> dc_entry \<Rightarrow> template \<Rightarrow> dc_comp \<Rightarrow> dc_doc \<Rightarrow> (comp_view \<times> dc_comp) \<times> dc_doc" where
  "render_body lc he chain r tpl c d =
     (let ps = userProps lc (cm_props c);
          c1 = c\<lparr>cm_logic := (cm_logic c)\<lparr>lo_props := ps\<rparr>\<rparr>;
          (vals, err) =
            (case renderVals lc (cm_logic c1) of
               Inr vs \<Rightarrow> (spread ps vs, first_error (en_logicError r) (cm_ctorError c1))
             | Inl msg \<Rightarrow> (ps, Some (cm_name c1 @ (u ''.renderVals(): '') @ msg)));
          c2 = c1\<lparr>cm_streamingNow := entry_streams r, cm_htmlStreamingNow := en_htmlStreaming r\<rparr>;
          cx = \<lparr>cx_name = cm_name c2, cx_streaming = cm_streamingNow c2, cx_html_streaming = cm_htmlStreamingNow c2\<rparr>;
          bad = (case err of Some (x # s) \<Rightarrow> True | _ \<Rightarrow> False);
          (ns, d1) = render_template tpl he (map_of vals) cx d
      in ((View (host_base (world he) r bad c2) (if bad then [error_box (the err)] else []) (Some (chain @ [cm_name c2], ns)), c2), d1))"

definition comp_render ::
  "logic_code \<Rightarrow> host_env \<Rightarrow> jstr list \<Rightarrow> dc_entry \<Rightarrow> dc_comp \<Rightarrow> dc_doc \<Rightarrow> (comp_view \<times> dc_comp) \<times> dc_doc" where
  "comp_render lc he chain r c d =
     (let w = world he; hint = prop_text (u ''__hintSize'') (cm_props c); name = cm_name c
      in if name \<in> set chain then
           ((View (host_base w r True c) [placeholder name hint False (Some ((u ''circular import: '') @ cycle_text chain name))] None, c), d)
         else if cm_err c \<noteq> [] then
           ((View (host_base w r True c) [error_box (name @ (u '': '') @ cm_err c), placeholder name hint False (Some (cm_err c))] None, c), d)
         else (let c1 = reconcileLogic lc r c
               in case en_tpl r of
                    None \<Rightarrow> ((View (host_base w r False c1) [placeholder name hint False None] None, c1), d)
                  | Some tpl \<Rightarrow> render_body lc he chain r tpl c1 d))"

text \<open>A render, and the render after the boundary caught an error below.\<close>

definition comp_rendered ::
  "logic_code \<Rightarrow> host_env \<Rightarrow> jstr list \<Rightarrow> jstr option \<Rightarrow> dc_entry \<Rightarrow> dc_comp \<Rightarrow> dc_doc \<Rightarrow> dc_comp \<times> dc_doc" where
  "comp_rendered lc he chain crash r c d =
     (let ((v, c1), d1) = comp_render lc he chain r c d
      in case crash of
           None \<Rightarrow> (c1, d1)
         | Some msg \<Rightarrow> (let ((v2, c2), d2) = comp_render lc he chain r (comp_caught msg c1) d1 in (c2, d2)))"

text \<open>\<open>getDC\<close>: one dispatcher per name, kept in a map; it renders the wrapper under its name.\<close>

definition getDC :: "jstr \<Rightarrow> (jstr \<times> nat) list \<Rightarrow> nat \<times> (jstr \<times> nat) list" where
  "getDC name named =
     (case map_of named name of Some i \<Rightarrow> (i, named) | None \<Rightarrow> (length named, named @ [(name, length named)]))"

definition dispatch_props :: "jstr \<Rightarrow> (jstr \<times> rprop) list \<Rightarrow> (jstr \<times> rprop) list" where
  "dispatch_props name p = AList.update (u ''__name'') (PVal (VStr name)) p"

subsection \<open>A place in the page where the component is mounted\<close>

record dc_tree =
  tr_comp :: "dc_comp option"
  tr_api :: dc_api
  tr_log :: "hook list"
  tr_next :: nat

definition tree_start :: dc_tree where
  "tree_start = \<lparr>tr_comp = None, tr_api = api_start, tr_log = [], tr_next = 0\<rparr>"

definition tree_log :: "dc_tree \<Rightarrow> hook list" where
  "tree_log t = (case tr_comp t of Some c \<Rightarrow> cm_log c | None \<Rightarrow> tr_log t)"

datatype tree_event =
    Comp_Mount logic_code host_env jstr nat "(jstr \<times> rprop) list" "jstr list" "jstr option"
  | Comp_Update logic_code host_env "(jstr \<times> rprop) list" "jstr list" "jstr option"
  | Comp_Told
  | Comp_State logic_code dc_world dval
  | Comp_Unmount
  | Comp_Page rt_event

definition with_rt :: "dc_runtime \<Rightarrow> dc_tree \<Rightarrow> dc_tree" where
  "with_rt rt t = t\<lparr>tr_api := (tr_api t)\<lparr>api_rt := rt\<rparr>\<rparr>"

definition mount_comp ::
  "logic_code \<Rightarrow> host_env \<Rightarrow> jstr \<Rightarrow> nat \<Rightarrow> (jstr \<times> rprop) list \<Rightarrow> jstr list \<Rightarrow> jstr option \<Rightarrow> dc_tree \<Rightarrow> dc_tree" where
  "mount_comp lc he name sub ps chain crash t =
     (let ((c, ok), rt) = comp_new lc name sub (dispatch_props name ps) (tr_next t) (tr_log t) (api_rt (tr_api t))
      in if \<not> ok then (with_rt rt t)\<lparr>tr_next := cm_next c\<rparr>
         else (let (c1, d) = comp_rendered lc he chain crash (reg_find name rt) c (rn_doc rt)
               in (with_rt (subscribe name sub (rt\<lparr>rn_doc := d\<rparr>)) t)\<lparr>tr_comp := Some (didMount c1)\<rparr>))"

definition update_comp ::
  "logic_code \<Rightarrow> host_env \<Rightarrow> (jstr \<times> rprop) list \<Rightarrow> jstr list \<Rightarrow> jstr option \<Rightarrow> dc_comp \<Rightarrow> dc_tree \<Rightarrow> dc_tree" where
  "update_comp lc he ps chain crash c t =
     (let rt = api_rt (tr_api t); r = reg_find (cm_name c) rt;
          (c1, d) = comp_rendered lc he chain crash r (c\<lparr>cm_props := dispatch_props (cm_name c) ps\<rparr>) (rn_doc rt)
      in (with_rt (rt\<lparr>rn_doc := d\<rparr>) t)\<lparr>tr_comp := Some (didUpdate lc r c1)\<rparr>)"

definition unmount_comp :: "dc_comp \<Rightarrow> dc_tree \<Rightarrow> dc_tree" where
  "unmount_comp c t =
     (let c1 = willUnmount c
      in (with_rt (unsubscribe (cm_name c) (cm_sub c) (api_rt (tr_api t))) t)
           \<lparr>tr_comp := None, tr_log := cm_log c1, tr_next := cm_next c1\<rparr>)"

fun tree_step :: "tree_event \<Rightarrow> dc_tree \<Rightarrow> dc_tree" where
  "tree_step (Comp_Mount lc he name sub ps chain crash) t =
     (case tr_comp t of None \<Rightarrow> mount_comp lc he name sub ps chain crash t | Some c \<Rightarrow> t)"
| "tree_step (Comp_Update lc he ps chain crash) t =
     (case tr_comp t of None \<Rightarrow> t | Some c \<Rightarrow> update_comp lc he ps chain crash c t)"
| "tree_step Comp_Told t = t\<lparr>tr_comp := map_option comp_told (tr_comp t)\<rparr>"
| "tree_step (Comp_State lc w v) t = t\<lparr>tr_comp := map_option (setLogicState lc w v) (tr_comp t)\<rparr>"
| "tree_step Comp_Unmount t = (case tr_comp t of None \<Rightarrow> t | Some c \<Rightarrow> unmount_comp c t)"
| "tree_step (Comp_Page e) t = t\<lparr>tr_api := api_step e (tr_api t)\<rparr>"

subsection \<open>Which hooks an instance is called with, and when\<close>

text \<open>
  Every instance is mounted at most once; it is updated and unmounted only while it is mounted.
\<close>

definition live_in :: "hook list \<Rightarrow> nat \<Rightarrow> bool" where
  "live_in hs i = (Did_Mount i \<in> set hs \<and> Will_Unmount i \<notin> set hs)"

definition fresh_in :: "hook list \<Rightarrow> nat \<Rightarrow> bool" where
  "fresh_in hs i = list_all (\<lambda>h. hook_id h \<noteq> i) hs"

fun hook_fits :: "hook list \<Rightarrow> hook \<Rightarrow> bool" where
  "hook_fits past (Did_Mount i) = fresh_in past i"
| "hook_fits past (Did_Update i) = live_in past i"
| "hook_fits past (Will_Unmount i) = live_in past i"

fun hooks_from :: "hook list \<Rightarrow> hook list \<Rightarrow> bool" where
  "hooks_from past [] = True"
| "hooks_from past (h # hs) = (hook_fits past h \<and> hooks_from (past @ [h]) hs)"

lemma hooks_snoc: "hooks_from past (hs @ [h]) = (hooks_from past hs \<and> hook_fits (past @ hs) h)"
  by (induction hs arbitrary: past) auto

lemma live_snoc:
  "live_in (hs @ [h]) i =
     (case h of Did_Mount j \<Rightarrow> (if j = i then Will_Unmount i \<notin> set hs else live_in hs i)
      | Did_Update j \<Rightarrow> live_in hs i
      | Will_Unmount j \<Rightarrow> j \<noteq> i \<and> live_in hs i)"
  by (cases h) (auto simp: live_in_def)

lemma fresh_snoc [simp]: "fresh_in (hs @ [h]) i = (fresh_in hs i \<and> hook_id h \<noteq> i)"
  by (simp add: fresh_in_def)

lemma fresh_not: "fresh_in hs i \<Longrightarrow> Did_Mount i \<notin> set hs \<and> Will_Unmount i \<notin> set hs \<and> \<not> live_in hs i"
  by (fastforce simp: fresh_in_def list_all_iff live_in_def)

text \<open>The numbers in a log are below \<open>n\<close>; the instances mounted are those of \<open>S\<close>.\<close>

definition log_ok :: "hook list \<Rightarrow> nat \<Rightarrow> nat set \<Rightarrow> bool" where
  "log_ok hs n S = (hooks_from [] hs \<and> (\<forall>i \<ge> n. fresh_in hs i) \<and> {i. live_in hs i} = S)"

lemma log_nil: "log_ok [] n {}"
  by (simp add: log_ok_def fresh_in_def live_in_def)

lemma log_more: "log_ok hs n S \<Longrightarrow> n \<le> m \<Longrightarrow> log_ok hs m S"
  by (simp add: log_ok_def)

lemma log_mount: "log_ok hs n {} \<Longrightarrow> fresh_in hs i \<Longrightarrow> i < n \<Longrightarrow> log_ok (hs @ [Did_Mount i]) n {i}"
  using fresh_not [of hs i] by (auto simp: log_ok_def hooks_snoc live_snoc split: if_splits)

lemma log_update: "log_ok hs n {i} \<Longrightarrow> i < n \<Longrightarrow> log_ok (hs @ [Did_Update i]) n {i}"
  by (auto simp: log_ok_def hooks_snoc live_snoc)

lemma log_unmount: "log_ok hs n {i} \<Longrightarrow> i < n \<Longrightarrow> log_ok (hs @ [Will_Unmount i]) n {}"
  by (auto simp: log_ok_def hooks_snoc live_snoc)

text \<open>The wrapper: its instance waits to be mounted, or is the one that is mounted.\<close>

definition comp_ok :: "dc_comp \<Rightarrow> bool" where
  "comp_ok c =
     (let i = lo_id (cm_logic c)
      in i < cm_next c
         \<and> (if cm_needsDidMount c then log_ok (cm_log c) (cm_next c) {} \<and> fresh_in (cm_log c) i
            else log_ok (cm_log c) (cm_next c) {i}))"

definition comp_unborn :: "dc_comp \<Rightarrow> bool" where
  "comp_unborn c =
     (let i = lo_id (cm_logic c)
      in i < cm_next c \<and> \<not> cm_needsDidMount c \<and> log_ok (cm_log c) (cm_next c) {} \<and> fresh_in (cm_log c) i)"

lemma makeLogic_fields [simp]:
  "cm_log (makeLogic lc v L p c) = cm_log c" "cm_next (makeLogic lc v L p c) = cm_next c + 1"
  "cm_needsDidMount (makeLogic lc v L p c) = cm_needsDidMount c" "lo_id (cm_logic (makeLogic lc v L p c)) = cm_next c"
  "cm_name (makeLogic lc v L p c) = cm_name c" "cm_props (makeLogic lc v L p c) = cm_props c"
  "cm_err (makeLogic lc v L p c) = cm_err c"
  by (auto simp: makeLogic_def base_logic_def Let_def split: option.split sum.split)

lemma logged_fields [simp]:
  "cm_log (logged h c) = cm_log c @ [h]" "cm_next (logged h c) = cm_next c" "cm_logic (logged h c) = cm_logic c"
  "cm_needsDidMount (logged h c) = cm_needsDidMount c" "cm_name (logged h c) = cm_name c"
  "cm_props (logged h c) = cm_props c" "cm_err (logged h c) = cm_err c"
  by (simp_all add: logged_def)

lemma reconcile_ok: "comp_ok c \<Longrightarrow> comp_ok (reconcileLogic lc r c)"
proof -
  assume ok: "comp_ok c"
  let ?i = "lo_id (cm_logic c)" and ?n = "cm_next c"
  let ?c1 = "if cm_needsDidMount c then c else logged (Will_Unmount ?i) c"
  have i: "?i < ?n" using ok by (simp add: comp_ok_def Let_def)
  have "log_ok (cm_log ?c1) ?n {}"
    using ok log_unmount [OF _ i] by (auto simp: comp_ok_def Let_def split: if_splits)
  then have l: "log_ok (cm_log ?c1) (Suc ?n) {}" "fresh_in (cm_log ?c1) ?n" by (auto simp: log_ok_def)
  show ?thesis
  proof (cases "logic_stays lc r c")
    case True
    then show ?thesis using ok by (simp add: reconcileLogic_def)
  next
    case False
    then show ?thesis using l by (cases "cm_needsDidMount c") (simp_all add: reconcileLogic_def Let_def comp_ok_def)
  qed
qed

text \<open>A render changes nothing of this except by the reconciliation.\<close>

definition alike :: "dc_comp \<Rightarrow> dc_comp \<Rightarrow> bool" where
  "alike c c' =
     (cm_log c' = cm_log c \<and> cm_next c' = cm_next c \<and> cm_needsDidMount c' = cm_needsDidMount c
      \<and> lo_id (cm_logic c') = lo_id (cm_logic c) \<and> lo_class (cm_logic c') = lo_class (cm_logic c)
      \<and> cm_failedLogic c' = cm_failedLogic c \<and> cm_failedUserProps c' = cm_failedUserProps c
      \<and> cm_failedVer c' = cm_failedVer c \<and> cm_props c' = cm_props c)"

lemma alike_refl [simp]: "alike c c"
  by (simp add: alike_def)

lemma alike_trans: "alike a b \<Longrightarrow> alike b c \<Longrightarrow> alike a c"
  by (simp add: alike_def)

lemma alike_ok: "alike c c' \<Longrightarrow> comp_ok c' = comp_ok c"
  by (simp add: alike_def comp_ok_def Let_def)

lemma alike_unborn: "alike c c' \<Longrightarrow> comp_unborn c' = comp_unborn c"
  by (simp add: alike_def comp_unborn_def Let_def)

lemma alike_stays: "alike c c' \<Longrightarrow> logic_stays lc r c' = logic_stays lc r c"
  by (simp add: alike_def logic_stays_def Let_def)

lemma alike_caught [simp]: "alike c (comp_caught msg c)" "alike c (comp_told c)" "alike c (setLogicState lc w v c)"
  by (simp_all add: alike_def comp_caught_def comp_told_def setLogicState_def Let_def)

lemma body_alike: "alike c (snd (fst (render_body lc he chain r tpl c d)))"
  by (auto simp: render_body_def Let_def split_beta alike_def)

lemma render_alike:
  "snd (fst (comp_render lc he chain r c d)) = c \<or> alike (reconcileLogic lc r c) (snd (fst (comp_render lc he chain r c d)))"
  by (auto simp: comp_render_def Let_def body_alike split: option.split)

lemma render_ok: "comp_ok c \<Longrightarrow> comp_ok (snd (fst (comp_render lc he chain r c d)))"
  using render_alike [of lc he chain r c d] alike_ok reconcile_ok by metis

lemma rendered_split:
  "fst (comp_rendered lc he chain crash r c d) =
     (let c1 = snd (fst (comp_render lc he chain r c d))
      in case crash of None \<Rightarrow> c1
         | Some msg \<Rightarrow> snd (fst (comp_render lc he chain r (comp_caught msg c1) (snd (comp_render lc he chain r c d)))))"
  by (simp add: comp_rendered_def Let_def split_beta split: option.split)

lemma rendered_ok: "comp_ok c \<Longrightarrow> comp_ok (fst (comp_rendered lc he chain crash r c d))"
  by (simp add: rendered_split Let_def render_ok alike_ok [OF alike_caught(1)] split: option.split)

lemma render_stays: "logic_stays lc r c \<Longrightarrow> alike c (snd (fst (comp_render lc he chain r c d)))"
  using render_alike [of lc he chain r c d] by (auto simp: reconcileLogic_def)

lemma rendered_stays: "logic_stays lc r c \<Longrightarrow> alike c (fst (comp_rendered lc he chain crash r c d))"
proof -
  assume st: "logic_stays lc r c"
  let ?c1 = "snd (fst (comp_render lc he chain r c d))"
  have 1: "alike c ?c1" by (rule render_stays [OF st])
  have "alike c (snd (fst (comp_render lc he chain r (comp_caught msg ?c1) d')))" for msg d'
  proof -
    have 2: "alike c (comp_caught msg ?c1)" by (rule alike_trans [OF 1]) simp
    then have "logic_stays lc r (comp_caught msg ?c1)" using st alike_stays by blast
    then show ?thesis by (rule alike_trans [OF 2 render_stays])
  qed
  then show ?thesis using 1 by (simp add: rendered_split Let_def split: option.split)
qed

subsection \<open>A new wrapper does not swap its first instance\<close>

definition no_nan :: "vprops \<Rightarrow> bool" where
  "no_nan ps = list_all (\<lambda>(k, v). v \<noteq> VP (PNum NNaN)) ps"

lemma shallowEqual_refl: "no_nan ps \<Longrightarrow> shallowEqual ps (Some ps)"
  by (auto simp: shallowEqual_def list_all_iff strict_eq_refl no_nan_def split: option.split dest: map_of_SomeD)

lemma makeLogic_stays:
  assumes "no_nan (userProps lc (cm_props c))" "en_Logic r = L" "en_ver r = v"
  shows "logic_stays lc r (makeLogic lc v L p c)"
  using assms shallowEqual_refl [OF assms(1)]
  by (auto simp: logic_stays_def makeLogic_def base_logic_def Let_def split: option.split sum.split)

lemma ensureFetched_entry:
  "en_Logic (reg_find n (snd (ensureFetched m rt))) = en_Logic (reg_find n rt)"
  "en_ver (reg_find n (snd (ensureFetched m rt))) = en_ver (reg_find n rt)"
  by (auto simp: ensureFetched_def Let_def)

lemma new_comp:
  assumes "no_nan (userProps lc ps)" "log_ok lg n {}"
  shows "let ((c, b), rt') = comp_new lc name sub ps n lg rt
    in comp_unborn c \<and> logic_stays lc (reg_find name rt') c \<and> cm_next c = n + 1 \<and> cm_log c = lg"
proof -
  let ?f = "comp_fields lc name sub ps n lg" and ?r = "reg_find name rt"
  let ?c = "makeLogic lc (en_ver ?r) (en_Logic ?r) None ?f"
  have f: "cm_props ?f = ps" "cm_next ?f = n" "cm_log ?f = lg" "\<not> cm_needsDidMount ?f" by (simp_all add: comp_fields_def)
  have "comp_unborn ?c" using assms(2) f log_more [OF assms(2), of "Suc n"] by (simp add: comp_unborn_def Let_def log_ok_def)
  moreover have "logic_stays lc (reg_find name (snd (ensureFetched name (reg_get name rt)))) ?c"
    by (rule makeLogic_stays) (simp_all add: f assms(1) ensureFetched_entry)
  ultimately show ?thesis by (simp add: comp_new_def Let_def split_beta f)
qed

subsection \<open>The hooks of every instance are called in order\<close>

lemma didMount_ok: "comp_unborn c \<Longrightarrow> comp_ok (didMount c)"
  by (simp add: comp_unborn_def comp_ok_def didMount_def Let_def log_mount)

lemma didUpdate_ok: "comp_ok c \<Longrightarrow> comp_ok (didUpdate lc r c)"
  by (auto simp: comp_ok_def didUpdate_def didMount_def Let_def log_mount log_update)

lemma willUnmount_ok:
  assumes "comp_ok c" shows "log_ok (cm_log (willUnmount c)) (cm_next (willUnmount c)) {}"
  using assms by (auto simp: comp_ok_def willUnmount_def Let_def log_unmount split: if_splits)

definition tree_ok :: "dc_tree \<Rightarrow> bool" where
  "tree_ok t = (case tr_comp t of Some c \<Rightarrow> comp_ok c | None \<Rightarrow> log_ok (tr_log t) (tr_next t) {})"

text \<open>The properties given at a mount hold no NaN, which would differ from itself.\<close>

fun plain_event :: "tree_event \<Rightarrow> bool" where
  "plain_event (Comp_Mount lc he name sub ps chain crash) = no_nan (userProps lc (dispatch_props name ps))"
| "plain_event e = True"

lemma with_rt_fields [simp]:
  "tr_comp (with_rt rt t) = tr_comp t" "tr_log (with_rt rt t) = tr_log t" "tr_next (with_rt rt t) = tr_next t"
  by (simp_all add: with_rt_def)

lemma mount_ok:
  assumes "no_nan (userProps lc (dispatch_props name ps))" "tr_comp t = None" "tree_ok t"
  shows "tree_ok (mount_comp lc he name sub ps chain crash t)"
proof -
  obtain c b rt where new: "comp_new lc name sub (dispatch_props name ps) (tr_next t) (tr_log t) (api_rt (tr_api t)) = ((c, b), rt)"
    by (metis surj_pair)
  have l: "log_ok (tr_log t) (tr_next t) {}" using assms(2, 3) by (simp add: tree_ok_def)
  have c: "comp_unborn c" "logic_stays lc (reg_find name rt) c" "cm_next c = tr_next t + 1"
    using new_comp [OF assms(1) l, of name sub "api_rt (tr_api t)"] new by simp_all
  have "comp_ok (didMount (fst (comp_rendered lc he chain crash (reg_find name rt) c (rn_doc rt))))"
    using rendered_stays [OF c(2)] c(1) alike_unborn by (blast intro: didMount_ok)
  moreover have "log_ok (tr_log t) (tr_next t + 1) {}" by (rule log_more [OF l]) simp
  ultimately show ?thesis using assms(2) c(3) by (simp add: mount_comp_def new Let_def split_beta tree_ok_def)
qed

lemma props_ok: "comp_ok (c\<lparr>cm_props := ps\<rparr>) = comp_ok c"
  by (simp add: comp_ok_def)

lemma tree_step_ok:
  assumes "plain_event e" "tree_ok t"
  shows "tree_ok (tree_step e t)"
proof (cases e)
  case (Comp_Mount lc he name sub ps chain crash)
  then show ?thesis using assms by (simp add: mount_ok split: option.split)
next
  case (Comp_Update lc he ps chain crash)
  then show ?thesis using assms(2)
    by (auto simp: tree_ok_def update_comp_def Let_def split_beta props_ok intro!: didUpdate_ok rendered_ok split: option.split)
next
  case Comp_Unmount
  then show ?thesis using assms(2) by (auto simp: tree_ok_def unmount_comp_def Let_def willUnmount_ok split: option.split)
next
  case Comp_Told
  then show ?thesis using assms(2) alike_ok [OF alike_caught(2)] by (auto simp: tree_ok_def split: option.splits)
next
  case (Comp_State lc w v)
  then show ?thesis using assms(2) alike_ok [OF alike_caught(3)] by (auto simp: tree_ok_def split: option.splits)
next
  case (Comp_Page x)
  then show ?thesis using assms(2) by (simp add: tree_ok_def split: option.splits)
qed

lemma tree_run_ok: "list_all plain_event es \<Longrightarrow> tree_ok t \<Longrightarrow> tree_ok (run tree_step es t)"
  by (induction es arbitrary: t) (auto intro: tree_step_ok)

lemma tree_start_ok: "tree_ok tree_start"
  by (simp add: tree_ok_def tree_start_def log_nil)

lemma tree_hooks:
  assumes "list_all plain_event es"
  shows "hooks_from [] (tree_log (run tree_step es tree_start))"
    and "live_in (tree_log (run tree_step es tree_start)) i \<Longrightarrow>
           \<exists>c. tr_comp (run tree_step es tree_start) = Some c \<and> i = lo_id (cm_logic c)"
proof -
  let ?t = "run tree_step es tree_start"
  have ok: "tree_ok ?t" by (rule tree_run_ok [OF assms tree_start_ok])
  show "hooks_from [] (tree_log ?t)"
    using ok by (auto simp: tree_ok_def tree_log_def comp_ok_def log_ok_def Let_def split: option.splits if_splits)
  show "\<exists>c. tr_comp ?t = Some c \<and> i = lo_id (cm_logic c)" if "live_in (tree_log ?t) i"
    using ok that by (fastforce simp: tree_ok_def tree_log_def comp_ok_def log_ok_def Let_def split: option.splits if_splits)
qed

subsection \<open>Swapping the class\<close>

lemma map_of_spread: "distinct (map fst b) \<Longrightarrow> map_of (spread a b) = map_of a ++ map_of b"
proof (induction b arbitrary: a)
  case (Cons x b)
  obtain k v where x: "x = (k, v)" by (cases x)
  have k: "k \<notin> dom (map_of b)" using Cons.prems x by (auto simp: dom_map_of_conv_image_fst)
  have "spread a (x # b) = spread (AList.update k v a) b" by (simp add: spread_def x)
  then have "map_of (spread a (x # b)) = (map_of a)(k \<mapsto> v) ++ map_of b"
    using Cons by (simp add: update_conv')
  then show ?case using k by (auto simp: x map_add_def fun_eq_iff domIff split: option.split)
qed (simp add: spread_def)

text \<open>The state of the old instance is carried over to the new one, over what its constructor set.\<close>

lemma swap_keeps_state:
  assumes "\<not> logic_stays lc r c" "distinct (map fst (lo_state (cm_logic c)))" "map_of (lo_state (cm_logic c)) k = Some v"
  shows "map_of (lo_state (cm_logic (reconcileLogic lc r c))) k = Some v"
    and "lo_id (cm_logic (reconcileLogic lc r c)) = cm_next c"
    and "cm_needsDidMount (reconcileLogic lc r c)"
  using assms(1, 3) map_of_spread [OF assms(2)]
  by (auto simp: reconcileLogic_def Let_def makeLogic_def base_logic_def logged_def map_add_def split: option.split sum.split)

text \<open>A constructor that threw is tried again when the entry has a new version, and not before.\<close>

lemma failed_class_waits:
  assumes "lc_new lc cl (userProps lc (cm_props c)) = Inl msg" "cl \<noteq> lc_base lc" "no_nan (userProps lc (cm_props c))"
    and "en_Logic r = Some cl"
  shows "logic_stays lc r (makeLogic lc v (Some cl) p c) = (en_ver r = v)"
    and "cm_ctorError (makeLogic lc v (Some cl) p c) = Some (cm_name c @ (u '': '') @ msg)"
  using assms shallowEqual_refl [OF assms(3)]
  by (auto simp: logic_stays_def makeLogic_def base_logic_def Let_def split: option.split)

text \<open>A property that is NaN defeats this: the constructor is tried at every render.\<close>

lemma nan_retries:
  assumes "lc_new lc cl (userProps lc (cm_props c)) = Inl msg" "cl \<noteq> lc_base lc"
    and "map_of (userProps lc (cm_props c)) k = Some (VP (PNum NNaN))" "k \<noteq> (u ''children'')"
    and "en_Logic r = Some cl"
  shows "\<not> logic_stays lc r (makeLogic lc (en_ver r) (Some cl) p c)"
proof -
  let ?ps = "userProps lc (cm_props c)"
  have "k \<in> set (map fst ?ps)" using assms(3) by (force dest: map_of_SomeD)
  then have "\<not> shallowEqual ?ps (Some ?ps)"
    using assms(3, 4) by (auto simp: shallowEqual_def Let_def list_all_iff strict_eq_refl)
  then show ?thesis using assms(1, 2, 5)
    by (auto simp: logic_stays_def makeLogic_def base_logic_def Let_def split: option.split)
qed

subsection \<open>What is shown\<close>

lemma reconcile_name [simp]: "cm_name (reconcileLogic lc r c) = cm_name c" "cm_err (reconcileLogic lc r c) = cm_err c"
  by (simp_all add: reconcileLogic_def Let_def)

text \<open>A component under itself is not rendered again: the chain of names that meets it is shown.\<close>

lemma cycle_shown:
  assumes "cm_name c \<in> set chain"
  shows "comp_render lc he chain r c d =
    ((View (host_base (world he) r True c)
        [placeholder (cm_name c) (prop_text (u ''__hintSize'') (cm_props c)) False
           (Some ((u ''circular import: '') @ cycle_text chain (cm_name c)))] None, c), d)"
  using assms by (simp add: comp_render_def Let_def)

lemma render_chain:
  assumes "view_body (fst (fst (comp_render lc he chain r c d))) = Some (chain', ns)" "distinct chain"
  shows "chain' = chain @ [cm_name c] \<and> distinct chain'"
  using assms by (auto simp: comp_render_def render_body_def Let_def split_beta split: if_splits option.splits)

text \<open>
  Renders inside one another, each with the chain the last one gave: with the names of a page's
  components in \<open>N\<close>, they end.
\<close>

inductive nested_chain :: "jstr list \<Rightarrow> bool" where
  Page_Top: "nested_chain []"
| Render_In: "nested_chain chain \<Longrightarrow> view_body (fst (fst (comp_render lc he chain r c d))) = Some (chain', ns) \<Longrightarrow>
    nested_chain chain'"

lemma nested_distinct: "nested_chain chain \<Longrightarrow> distinct chain"
  by (induction rule: nested_chain.induct) (auto dest: render_chain)

lemma nested_bound: "nested_chain chain \<Longrightarrow> finite N \<Longrightarrow> set chain \<subseteq> N \<Longrightarrow> length chain \<le> card N"
  using distinct_card [OF nested_distinct, of chain] card_mono [of N "set chain"] by simp

text \<open>An error of the class is shown above the template, which is rendered all the same.\<close>

lemma logic_error_shown:
  assumes "cm_name c \<notin> set chain" "cm_err c = []" "en_tpl r = Some tpl" "en_logicError r = Some (x # msg)"
    and "renderVals lc ((cm_logic (reconcileLogic lc r c))\<lparr>lo_props := userProps lc (cm_props (reconcileLogic lc r c))\<rparr>) = Inr vs"
  shows "view_boxes (fst (fst (comp_render lc he chain r c d))) = [error_box (x # msg)]"
    and "view_body (fst (fst (comp_render lc he chain r c d))) \<noteq> None"
  using assms by (simp_all add: comp_render_def render_body_def Let_def split_beta first_error_def)

lemma getDC_again: "getDC name (snd (getDC name named)) = (fst (getDC name named), snd (getDC name named))"
  by (simp add: getDC_def map_add_def split: option.split)

lemma getDC_other:
  assumes "map snd named = [0..<length named]" "m \<noteq> name"
  shows "fst (getDC m (snd (getDC name named))) \<noteq> fst (getDC name named)"
proof -
  have lt: "i < length named" if "(k, i) \<in> set named" for k i
  proof -
    have "i \<in> set (map snd named)" using that by force
    then show ?thesis unfolding assms(1) by simp
  qed
  have inj: "k = k'" if "(k, i) \<in> set named" "(k', i) \<in> set named" for k k' i
  proof -
    have "distinct (map snd named)" unfolding assms(1) by simp
    then have "inj_on snd (set named)" by (simp add: distinct_map)
    from inj_onD [OF this _ that] show ?thesis by simp
  qed
  show ?thesis
    using assms(2) by (auto simp: getDC_def map_add_def split: option.split dest!: map_of_SomeD dest: lt inj)
qed

end
