(* ===== verification/Spec2Isabelle.thy ===== *)
theory Spec2Isabelle
  imports Toasts Notif_Menu Workspace Console Settings_Facts Tasks Prs Interventions Logs Live Dashboard_View Usage Invoices_View
    Cloud_View Knowledge_View Org_View Account Routines Ci Qa Telemetry Onboarding Notifications Audit_Log Pricing
    Web_Api Help_Page Root_Layout Admin_Users Admin_Audit Dc_Component
begin

text \<open>
  A model of the web console of apifor.dev, the Next/React client under src/app/dashboard/app, and of
  the runtime of its design prototypes (src/support.js), with the theorems about them. The console talks to the control plane over HTTP and over one event stream;
  it keeps a session token and a chosen workspace in local storage, polls lists every few seconds,
  and shows them in filtered, paginated pages.

  \<^bold>\<open>How a component is read.\<close> The hooks of a component become a record (its \<open>useState\<close> values), its
  handlers, timers and answers the constructors of an event type, and the handlers themselves one
  step function from an event and a state to the new state and a list of commands: sending a
  request with a tag naming its continuation, writing or deleting a key of local storage, assigning or
  replacing the location, reloading, raising a toast. The answer to a request comes back as a later
  event, so any interleaving of answers, ticks and clicks is a list of events, and \<open>run\<close> folds the
  step over it. What is derived while rendering (filters, pages, counts) is a function of the state,
  and the returned markup is a tree of elements (theory Js_View) that keeps texts, handlers,
  disabled flags, values, links and the sizes computed from data. A theorem about what a user can
  do speaks of \<open>all_clicks\<close> of that tree, one about what is read of \<open>all_texts\<close>.

  \<^bold>\<open>The theories.\<close>
  \<^item> App_Prelude: runs of a step function, the locale \<open>stepper\<close> (a start state, a step and an
    invariant it keeps; interpreted for every state machine below) and its extension \<open>settling\<close> (a
    loading state that waits for a set of first answers: usage, organisation and account pages),
    pages and windows of lists.
  \<^item> Js_Text, Js_Number, Url, Calendar: what the code uses of the language. Strings are lists of
    16-bit code units (\<open>u\<close> embeds an ASCII literal, \<open>ux\<close> writes other units in hexadecimal);
    numbers computed with are exact rationals rounded by \<open>fl\<close> after each operation to 53 bits, ties
    to even; Url has percent-encoding and query parameters, Calendar the days of \<open>new Date(y, m, 0)\<close>.
  \<^item> Browser, Js_View: storage, location, JSON values and the effects of commands; the view tree.
  \<^item> Api_Client: \<open>getToken\<close>, \<open>setToken\<close>, \<open>authHeaders\<close>, \<open>safeJson\<close> and the verbs of ui.tsx.
  \<^item> I18n: the dictionaries, \<open>useLang\<close> with all its mounted instances, \<open>useTheme\<close>.
  \<^item> Ui_Kit: the stateless components of ui.tsx and \<open>useSeries\<close>; Toasts: the toast container;
    Poll: \<open>usePoll\<close>; Nav: the menu, its counters and the command palette; Workspace: the workspace
    menu; Notif_Menu: notifications, language and profile menus, the top bar.
  \<^item> Session: the gate of \<open>Page\<close> in ui.tsx, login/page.tsx and the sign-out.
  \<^item> Paging, Page_Kit: what the list pages repeat. The locale \<open>paged\<close> states what pagination relies on
    (a list that does not depend on the page, and a way to set the page) and is interpreted for
    the queue, task, pull-request, intervention, invoice, cloud, knowledge, organisation, routine,
    CI and QA pages. Ui_Path: a page used through its own markup. The relation \<open>ui_path\<close> admits the
    events the view raises in the state it is in and those from outside; the locale \<open>guarded_page\<close>
    proves an invariant along it, for pages whose guard is in the markup, not in the handler.
  \<^item> Js_Parse: \<open>parseInt\<close>, the number of a text field, the length of a UTF-8 encoding; Series_Hook: the
    \<open>useSeries\<close> hooks of a page taken together.
  \<^item> Queue, Tasks, Prs, Interventions, Logs, Live, Usage, Routines, Ci, Qa, Telemetry, Onboarding,
    Notifications, Audit_Log, Pricing, Web_Api, Help_Page: the pages of those names. Dashboard and
    Dashboard_View: the first page (page.tsx); Invoices and Invoices_View: invoices/page.tsx; Cloud,
    Knowledge, Org, each with a theory for its view: the pages of those names; Account:
    conta/page.tsx; Root_Layout: layout.tsx.
  \<^item> superadmin/: Admin_Shell has the guard, the frame and the amounts (shell.tsx), Admin_Overview,
    Admin_Plans, Admin_Orgs (facts in Admin_Orgs_Facts), Admin_Users and Admin_Audit the five pages.
    A page that can throw while rendering has a view of type option.
  \<^item> Console: one tab as the network sees it, a step relation in which any component sends, any
    request is settled, a login is answered, the user signs out, the workspace menu acts.
  \<^item> config/page.tsx is split by its state. Settings_Conn: the connection dialogs (one record and one
    set of functions indexed by the kind of dialog for its three copies), the GitHub authorisation
    and its poll, the AI engine; Settings_Repos: adding, cloning, editing and removing a repository;
    Settings_Pool: pool configuration and pinned workers; Settings: the page that holds them;
    Settings_View, Settings_Dialogs, Settings_Page: what it renders. Settings_Flow follows the requests
    without an answer, Settings_Types the types of the request bodies, Settings_Facts the dialogs.
  \<^item> The prototype runtime, src/support.js: a small template language and the React components made of
    it. Dc_Value: the JavaScript values templates compute with, their equality and texts. Dc_Expr: the
    expressions between braces (src/expr.ts in it), evaluated while they are scanned. Dc_Encode: the
    rewriting of a template before the HTML parser sees it, declarations, attributes with holes.
    Dc_Parse: names of pages, documents and their \<open>data-props\<close>. Dc_Sheets: pseudo-class rules, the
    design mode and the head of the page. Dc_External: modules asked for by \<open>x-import\<close>. Dc_Compile: the
    walk of a template into builders; the locale \<open>doc_invariant\<close> proves of any template what the
    operations it calls keep. Dc_Runtime: the registry, streaming, fetching, booting and the interface
    on the window. Dc_Component: the component around a logic class and its life in React.

  \<^bold>\<open>What is shown.\<close>
  \<^item> Session (C1-C7): a 401 ends the session and no later request carries its token; requests
    carry exactly the stored token; the address asked for survives the detour through the login page
    (percent-encoding round trip); what a login answer does; tokens come from login answers only,
    and a tab that signed out is silent, whatever the components interleave.
  \<^item> Polling (C8): a poll refines the abstract value \<open>the last payload received\<close>.
  \<^item> Shell (C9-C12): invariants of the toast queue, the palette, the workspace choice and the
    languages over any sequence of events.
  \<^item> Settings (C13-C17): requests have the method, the path and the type of their endpoints; answers
    come to an end and leave nothing in progress but the polled wait for GitHub; the API key does not leave with the save; what is edited comes back unchanged.
  \<^item> Lists (C18-C21): pages partition the filtered list, the buttons reach all of it, filters agree
    with the counters, merged lists have no repetitions.
  \<^item> Dashboard and invoices (C22, C23): bounds of coordinates under rounding, periods.
  \<^item> Account, organisation, cloud, QA (C24-C27): what refusals are taken for, who can remove
    whom, one creation at a time along any use of the page, a mean under rounding.
  \<^item> Platform console (C28-C33): the two guards are complementary, the own account is safe, the join
    of four requests, the revenue computed twice, amounts that can be read back, when rendering throws.
  \<^item> Prototype runtime (C34-C40): expressions against their syntax trees and a grammar, attributes with two holes,
    names of components and their files, what is fetched and what a host streams, the hooks of logic
    classes, circular imports.

  Several theorems describe behaviour that looks unintended (C5, C16, C23 for years below 100, C24, C33, C35); they hold of the
  code as it is written and are stated so on purpose. So do some lemmas of the component theories,
  which stand at their ends.

  \<^bold>\<open>Parameters and bounds.\<close> Functions of the JavaScript engine whose result depends on its locale
  data are arguments: \<open>lc\<close> and \<open>uc\<close> (toLowerCase, toUpperCase), \<open>date_ms\<close> and \<open>parse\<close> (the date
  parser), \<open>month_short\<close> and the money format of \<open>env\<close>. Nothing is assumed of them except where a
  theorem names it. Numbers do not overflow to infinity and are not subnormal; C22 and C27 bound their
  sizes by 2 to the power 53. Amounts of the platform console are whole cents; their sums are exact
  below that bound, and their texts, which go through a division, below 2 to the power 52 (C32). Years
  are natural numbers; the rule that dates are built with years below 100 after 1900 is kept (C23). List payloads of the control plane carry the fields the code reads, with their
  types; the answers of the session, profile, workspace and pool requests are JSON values. There is no fuel: every recursion is
  structural or has a measure. React renders after each event, so a handler sees the state the
  previous event left.

  The runtime of the prototypes works on what the browser and the author of a page provide: the HTML
  and JSON parsers, the evaluation of scripts, the window and its custom elements, constructors and
  \<open>renderVals\<close> of logic classes are fields of \<open>rt_env\<close>, \<open>host_env\<close>, \<open>page_env\<close> and \<open>logic_code\<close>.

  \<^bold>\<open>Not modelled.\<close> Constant styles, icons, focus, hover and scrolling; positions on the screen (one
  flag says that a panel or a menu has been placed). Every page of the console is modelled. Of
  support.js the style sheets, messages to the log and the loading of React from its address are left
  out; src/paginas/support.js is the same file, and the pages around it are static HTML. The control plane
  (Go), the executor (Rust) and the desktop shell stand behind the HTTP interface and are in other languages.
\<close>

section \<open>Session\<close>

text \<open>
  C1: an answer with status 401 ends the session: the token is gone from storage and from the
  headers of every later request, the caller gets an empty object, the browser is sent to the login
  page unless it is there already, and the chosen workspace is kept.
\<close>

theorem session_expired:
  assumes "has_window b" "status r = 401"
  shows "let (b1, out) = api_settle (Answered r) b in
    getToken b1 = None \<and> (\<forall>v. ((u ''Authorization''), v) \<notin> set (authHeaders b1)) \<and> out = Resolved (JObj [])
    \<and> storage b1 wsp_key = storage b wsp_key
    \<and> navs b1 = navs b @ (if starts_with (pathname b) (u ''/login'') then [] else [Replaced (u ''/login'')])"
  using assms
  by (auto simp: api_settle_def safeJson_def Let_def setToken_def getToken_def authorization_header)

lemma session_expired_witness:
  "let b = \<lparr>has_window = True, storage = [token_key \<mapsto> (u ''t0''), wsp_key \<mapsto> (u ''w1'')], pathname = (u ''/queue''), search = [], navs = []\<rparr>;
       (b1, out) = api_settle (Answered \<lparr>status = 401, body = Bad_body\<rparr>) b in
   getToken b1 = None \<and> navs b1 = [Replaced (u ''/login'')]"
  using session_expired [of "\<lparr>has_window = True, storage = [token_key \<mapsto> (u ''t0''), wsp_key \<mapsto> (u ''w1'')], pathname = (u ''/queue''),
      search = [], navs = []\<rparr>" "\<lparr>status = 401, body = Bad_body\<rparr>"]
  by (simp add: Let_def split_beta starts_with_def u_def)

text \<open>
  C2: every request made after a token was stored carries exactly that bearer token, and a request
  made after the token was cleared carries no authorization at all.
\<close>

theorem requests_carry_the_token:
  assumes "has_window b" "t \<noteq> []"
  shows "filter (\<lambda>h. fst h = (u ''Authorization'')) (r_headers (api_request env (setToken (Some t) b) m p bd))
           = [((u ''Authorization''), (u ''Bearer '') @ t)]
    \<and> filter (\<lambda>h. fst h = (u ''Authorization'')) (r_headers (api_request env (setToken None b) m p bd)) = []"
  using assms
  by (cases m) (auto simp: authHeaders_def getToken_def setToken_def filter_empty_conv split: option.splits)

lemma requests_carry_the_token_witness:
  "filter (\<lambda>h. fst h = (u ''Authorization'')) (r_headers (api_request None (setToken (Some (u ''abc''))
     \<lparr>has_window = True, storage = Map.empty, pathname = (u ''/''), search = [], navs = []\<rparr>) POST (u ''/v1/tasks'') None))
   = [((u ''Authorization''), (u ''Bearer abc''))]"
  using requests_carry_the_token [of "\<lparr>has_window = True, storage = Map.empty, pathname = (u ''/''), search = [], navs = []\<rparr>"
      "(u ''abc'')" None POST "(u ''/v1/tasks'')" None]
  by (simp add: u_def)

text \<open>
  C3: a visitor without a session is sent to the login page with an address from which the login
  page recovers exactly the page, query included, that was asked for: whatever characters the
  address has, as long as it can be encoded at all.
\<close>

theorem login_returns_to_the_page:
  assumes "getToken b = None \<or> getToken b = Some []" "units (pathname b @ search b)" "pathname b \<noteq> []"
    and "gate_mount b = Some cs"
  shows "\<exists>srch. cs = [ReplaceTo ((u ''/login'') @ srch)] \<and> login_next srch = pathname b @ search b"
proof -
  obtain e where e: "encodeURIComponent (pathname b @ search b) = Some e" "cs = [ReplaceTo ((u ''/login?next='') @ e)]"
    using assms(1,4) by (auto simp: gate_mount_def)
  let ?s = "63 # (u ''next'') @ 61 # e"
  have "cs = [ReplaceTo ((u ''/login'') @ ?s)]" by (simp add: e(2) u_def)
  moreover have "search_param (u ''next'') ?s = Some (pathname b @ search b)"
    by (rule search_param_single [OF _ assms(2) e(1)]) (simp add: u_def)
  then have "login_next ?s = pathname b @ search b"
    using assms(3) by (simp add: login_next_def or_else_def)
  ultimately show ?thesis by blast
qed

lemma login_returns_to_the_page_witness:
  "let b = \<lparr>has_window = True, storage = Map.empty, pathname = (u ''/p''), search = (ux ''?q={e7}{20ac}''), navs = []\<rparr> in
   \<exists>srch. gate_mount b = Some [ReplaceTo ((u ''/login'') @ srch)] \<and> login_next srch = (ux ''/p?q={e7}{20ac}'')"
proof -
  let ?b = "\<lparr>has_window = True, storage = Map.empty, pathname = (u ''/p''), search = (ux ''?q={e7}{20ac}''), navs = []\<rparr>"
  have g: "gate_mount ?b \<noteq> None"
    by (simp add: gate_mount_def getToken_def u_def ux_def hex_digit.simps unreserved_def)
  then obtain cs where cs: "gate_mount ?b = Some cs" by blast
  have "\<exists>srch. cs = [ReplaceTo ((u ''/login'') @ srch)] \<and> login_next srch = pathname ?b @ search ?b"
    by (rule login_returns_to_the_page [OF _ _ _ cs])
      (simp_all add: getToken_def u_def ux_def hex_digit.simps)
  then show ?thesis unfolding Let_def cs by (simp add: u_def ux_def hex_digit.simps)
qed

text \<open>
  C4: a login answer with a token stores it and leaves for the requested page (a superadmin who
  asked for the root goes to the administration area); one with an empty token shows a message,
  changes no storage and goes nowhere.
\<close>

theorem login_answer_effects:
  assumes "has_window b" "jget (u ''access_token'') j = JStr t"
  shows "let (s', cs) = login_step lang nxt (Auth_answer mail (Resolved j)) s; b' = perform_all cs b in
    (if t = [] then b' = b \<and> err s' \<noteq> []
     else getToken b' = Some t \<and> err s' = err s
       \<and> navs b' = navs b @ [Assigned (if jget (u ''role'') j = JStr (u ''superadmin'') \<and> nxt = (u ''/'') then (u ''/superadmin'') else nxt)])"
  using assms
  by (auto simp: Let_def getToken_def token_key_def useT_def u_def ux_def jtext_or_nonempty)

lemma login_answer_effects_witness:
  "let j = JObj [((u ''access_token''), JStr (u ''tok''))];
       (s', cs) = login_step pt (u ''/prs'') (Auth_answer (u ''a@b.c'') (Resolved j)) login_start;
       b' = perform_all cs \<lparr>has_window = True, storage = Map.empty, pathname = (u ''/login''), search = [], navs = []\<rparr> in
   getToken b' = Some (u ''tok'') \<and> navs b' = [Assigned (u ''/prs'')]"
  using login_answer_effects [of "\<lparr>has_window = True, storage = Map.empty, pathname = (u ''/login''), search = [], navs = []\<rparr>"
      "JObj [((u ''access_token''), JStr (u ''tok''))]" "(u ''tok'')" pt "(u ''/prs'')" "(u ''a@b.c'')" login_start]
  by (simp add: Let_def split_beta)

text \<open>
  C5: the login page follows any \<open>next\<close> address: for every address but the root, a successful
  login of a visitor who came with that address, another site's included, assigns it to the location.
\<close>

theorem login_follows_any_next:
  assumes "units url" "url \<noteq> []" "url \<noteq> (u ''/'')" "encodeURIComponent url = Some e"
    and "jget (u ''access_token'') j = JStr t" "t \<noteq> []"
  shows "GoTo url \<in> set (snd (login_step lang (login_next (63 # (u ''next'') @ 61 # e)) (Auth_answer mail (Resolved j)) s))"
proof -
  have "search_param (u ''next'') (63 # (u ''next'') @ 61 # e) = Some url"
    by (rule search_param_single [OF _ assms(1,4)]) (simp add: u_def)
  then have "login_next (63 # (u ''next'') @ 61 # e) = url"
    using assms(2) by (simp add: login_next_def or_else_def)
  then show ?thesis using assms(3,5,6) by auto
qed

lemma login_follows_any_next_witness:
  "GoTo (u ''//evil.example/'') \<in> set (snd (login_step pt (login_next (63 # (u ''next'') @ 61 # (u ''%2F%2Fevil.example%2F'')))
     (Auth_answer (u ''a@b.c'') (Resolved (JObj [((u ''access_token''), JStr (u ''tok''))]))) login_start))"
proof (rule login_follows_any_next [where t = "(u ''tok'')"])
  show "units (u ''//evil.example/'')" by (simp add: u_def)
  show "encodeURIComponent (u ''//evil.example/'') = Some (u ''%2F%2Fevil.example%2F'')"
    by (simp add: u_def unreserved_def pct_byte_def hex_up_def)
qed (simp_all add: u_def)

text \<open>
  C6: tokens come from login answers only: in a tab that starts signed out with nothing in flight,
  whatever the components do and in whatever order, every bearer token of a request in flight was
  carried by the answer to a login.
\<close>

theorem bearers_come_from_logins:
  assumes "tab_path env as T U" "signed_out (tb T)" "flight T = []" "q \<in> set (flight U)" "v \<in> bearers q"
  shows "\<exists>t \<in> set (issued U). v = (u ''Bearer '') @ t"
proof -
  have "tokens_issued T" using assms(2,3) by (auto simp: tokens_issued_def signed_out_def)
  then have "tokens_issued U" using assms(1) by (rule tokens_issued_path [rotated])
  then have "bearers q \<subseteq> (\<lambda>t. (u ''Bearer '') @ t) ` set (issued U)"
    using assms(4) by (auto simp: tokens_issued_def)
  then show ?thesis using assms(5) by blast
qed

lemma bearers_come_from_logins_witness:
  "\<exists>U q. tab_path None [Signs_in, Sends] fresh_tab U \<and> q \<in> set (flight U) \<and> (u ''Bearer tok'') \<in> bearers q
     \<and> (\<exists>t \<in> set (issued U). (u ''Bearer tok'') = (u ''Bearer '') @ t)"
proof -
  let ?j = "JObj [((u ''access_token''), JStr (u ''tok''))]"
  let ?T1 = "fresh_tab\<lparr>tb := perform_all (snd (login_step pt (u ''/'') (Auth_answer (u ''a@b.c'') (Resolved ?j)) login_start)) (tb fresh_tab),
      issued := token_in ?j @ issued fresh_tab\<rparr>"
  let ?q = "api_request None (tb ?T1) GET (u ''/v1/tasks'') None"
  let ?U = "?T1\<lparr>flight := flight ?T1 @ [?q]\<rparr>"
  have p: "tab_path None [Signs_in, Sends] fresh_tab ?U"
    by (rule Go [OF tab_step.Signs_in Go [OF tab_step.Sends Stay]])
  have q: "?q \<in> set (flight ?U)" by simp
  have b: "(u ''Bearer tok'') \<in> bearers ?q"
    unfolding bearers_request
    by (simp add: fresh_tab_def getToken_def) (simp add: u_def)
  show ?thesis
    using bearers_come_from_logins [OF p _ _ q b] p q b by (auto simp: fresh_tab_def signed_out_def getToken_def)
qed

text \<open>
  C7: after a sign-out the tab is silent: until the next login answer no request that any component
  sends carries a bearer token.
\<close>

theorem signed_out_tab_is_silent:
  assumes "tab_path env (Signs_out # as) T U" "Signs_in \<notin> set as"
  shows "signed_out (tb U) \<and> (\<forall>q \<in> set (flight U). q \<in> set (flight T) \<or> bearers q = {})"
proof -
  obtain V where V: "tab_step env Signs_out T V" "tab_path env as V U"
    using assms(1) by (auto simp: tab_path_Cons)
  have "flight V = flight T" "signed_out (tb V)"
    using V(1) by (auto elim!: tab_step_elim simp: sign_out_token)
  then show ?thesis using silent_path [OF V(2) assms(2)] by simp
qed

lemma signed_out_tab_is_silent_witness:
  "\<exists>U. tab_path None [Signs_out, Sends] fresh_tab U \<and> flight U \<noteq> [] \<and> (\<forall>q \<in> set (flight U). bearers q = {})"
proof -
  let ?T1 = "fresh_tab\<lparr>tb := perform_all sign_out (tb fresh_tab)\<rparr>"
  let ?U = "?T1\<lparr>flight := flight ?T1 @ [api_request None (tb ?T1) GET (u ''/v1/tasks'') None]\<rparr>"
  have p: "tab_path None [Signs_out, Sends] fresh_tab ?U"
    by (rule Go [OF tab_step.Signs_out Go [OF tab_step.Sends Stay]])
  then show ?thesis using signed_out_tab_is_silent [OF p] by (intro exI [of _ ?U]) (auto simp: fresh_tab_def)
qed

section \<open>Polling\<close>

text \<open>
  C8: whatever the order of mounts, ticks, reloads, failed and successful answers, a poll shows the
  data of the last answer that had any, and null before the first one; failures never erase it.
\<close>

theorem poll_shows_last_payload:
  "pd (run (\<lambda>e p. fst (poll_step path e p)) es poll_start) = last_payload Nul es"
  by (simp add: poll_run_data poll_start_def)

section \<open>Shell\<close>

text \<open>
  C9: in every reachable state of the toast queue the numbers are distinct, every item on screen
  has a pending timer, and when those timers have fired the screen is empty.
\<close>

theorem toasts_never_stay:
  "let s = run toast_step es toasts_start in
     distinct (map t_id (items s)) \<and> timers s = map t_id (items s)
     \<and> items (run toast_step (map Timer (timers s)) s) = []"
proof -
  have "toasts_inv (run toast_step es toasts_start)" by (rule toast_queue.run_inv)
  then show ?thesis by (simp add: Let_def timers_drain) (simp add: toasts_inv_def)
qed

text \<open>
  C10: the command palette, driven by any keys, clicks and pointer moves, keeps its selection
  inside the list of matches, and Enter in an open palette with matches closes it and goes to the
  selected one, an address of the navigation table.
\<close>

theorem palette_enter_opens_the_selection:
  assumes "s = run (\<lambda>e s. fst (pal_step lc e s)) es palette_start"
    and "p_open s" "pal_matches lc (p_q s) \<noteq> []"
  shows "\<exists>m \<in> set ALL_ITEMS. m = pal_matches lc (p_q s) ! nat (p_sel s)
     \<and> pal_step lc Enter_key s = (s\<lparr>p_open := False\<rparr>, [GoTo (i_href m)])"
proof -
  have "palette_inv lc s" unfolding assms(1) by (rule palette_machine.run_inv)
  then have r: "0 \<le> p_sel s" "p_sel s < int (length (pal_matches lc (p_q s)))"
    using assms(3) by (auto simp: palette_inv_def)
  then have "pal_matches lc (p_q s) ! nat (p_sel s) \<in> set ALL_ITEMS"
    using pal_matches_subset by (meson nat_less_iff nth_mem subsetD)
  moreover have "pal_step lc Enter_key s
      = (s\<lparr>p_open := False\<rparr>, [GoTo (i_href (pal_matches lc (p_q s) ! nat (p_sel s)))])"
    using r assms(2) by (simp add: Let_def pal_go_def)
  ultimately show ?thesis by blast
qed

lemma palette_enter_opens_the_selection_witness:
  "\<exists>m \<in> set ALL_ITEMS. i_href m = (u ''/queue'') \<and> GoTo (i_href m) \<in> set (snd (pal_step (\<lambda>x. x) Enter_key
     (run (\<lambda>e s. fst (pal_step (\<lambda>x. x) e s)) [Ctrl_K, Type_q (u ''Fila'')] palette_start)))"
proof -
  define s0 where "s0 = run (\<lambda>e s. fst (pal_step (\<lambda>x. x) e s)) [Ctrl_K, Type_q (u ''Fila'')] palette_start"
  have m: "pal_matches (\<lambda>x. x) (u ''Fila'') = [\<lparr>i_href = (u ''/queue''), i_label = (u ''Fila''), i_group = (u ''op'')\<rparr>]" by code_simp
  have s: "p_open s0" "p_q s0 = (u ''Fila'')" "p_sel s0 = 0"
    by (simp_all add: s0_def palette_start_def open_effect_def)
  have "\<exists>m \<in> set ALL_ITEMS. m = pal_matches (\<lambda>x. x) (p_q s0) ! nat (p_sel s0)
     \<and> pal_step (\<lambda>x. x) Enter_key s0 = (s0\<lparr>p_open := False\<rparr>, [GoTo (i_href m)])"
    by (rule palette_enter_opens_the_selection [OF s0_def s(1)]) (simp add: s m)
  then obtain i where i: "i \<in> set ALL_ITEMS" "i = pal_matches (\<lambda>x. x) (p_q s0) ! nat (p_sel s0)"
    and go: "pal_step (\<lambda>x. x) Enter_key s0 = (s0\<lparr>p_open := False\<rparr>, [GoTo (i_href i)])" by blast
  have "i_href i = (u ''/queue'')" using i(2) by (simp add: s m)
  moreover have "GoTo (i_href i) \<in> set (snd (pal_step (\<lambda>x. x) Enter_key s0))" unfolding go by simp
  ultimately show ?thesis using i(1) unfolding s0_def [symmetric] by blast
qed

text \<open>
  C11: whatever the workspace menu does (answers in any order, choices, creations), the choice it
  holds is the one in local storage, so the next request carries exactly it.
\<close>

theorem workspace_choice_reaches_requests:
  assumes "has_window b"
  shows "let (b1, s1) = run (wsp_world_step lang) es (b, wsp_start b) in
    filter (\<lambda>h. fst h = (u ''X-Workspace-ID'')) (authHeaders b1)
      = (if curId s1 = [] then [] else [((u ''X-Workspace-ID''), curId s1)])"
proof -
  have sync: "wsp_synced (run (wsp_world_step lang) es (b, wsp_start b))"
    by (rule wsp_world.run_inv)
  have w: "has_window (fst (run (wsp_world_step lang) es w)) = has_window (fst w)" for w
  proof (induction es arbitrary: w)
    case (Cons e es)
    then show ?case by (cases w) (simp add: Let_def split_beta perform_all_window)
  qed simp
  show ?thesis
    using sync w [of "(b, wsp_start b)"] assms
    by (auto simp: split_beta wsp_synced_def authHeaders_def or_else_def split: option.splits if_splits)
qed

lemma workspace_choice_reaches_requests_witness:
  "let (b1, s1) = run (wsp_world_step pt) [Wsp_mount, Switch_wsp (u ''w2'')]
       (\<lparr>has_window = True, storage = Map.empty, pathname = (u ''/''), search = [], navs = []\<rparr>,
        wsp_start \<lparr>has_window = True, storage = Map.empty, pathname = (u ''/''), search = [], navs = []\<rparr>) in
    filter (\<lambda>h. fst h = (u ''X-Workspace-ID'')) (authHeaders b1) = [((u ''X-Workspace-ID''), (u ''w2''))]"
  using workspace_choice_reaches_requests [of "\<lparr>has_window = True, storage = Map.empty, pathname = (u ''/''), search = [], navs = []\<rparr>"
      pt "[Wsp_mount, Switch_wsp (u ''w2'')]"]
  by (simp add: split_beta Let_def u_def wsp_start_def)

text \<open>
  C12: after any sequence of mounts, unmounts and language changes, every mounted component shows
  the stored language, and the stored language is the last one chosen.
\<close>

theorem languages_agree:
  "let s = run lang_step es \<lparr>lstore = st, langs = []\<rparr> in
     (\<forall>l \<in> set (langs s). l = or_else (lstore s) pt)
     \<and> lstore s = (if chosen es = [] then st else Some (last (chosen es)))"
  using lang_hooks.run_inv [where es = es and st = st]
  by (simp add: Let_def langs_agree_def lang_read_def run_lang_store)

lemma languages_agree_witness:
  "let s = run lang_step [Mount, Mount, SetLang 0 (u ''en''), Mount, Unmount 1] \<lparr>lstore = Some (u ''es''), langs = []\<rparr> in
     (\<forall>l \<in> set (langs s). l = (u ''en'')) \<and> length (langs s) = 2"
  using languages_agree [of "[Mount, Mount, SetLang 0 (u ''en''), Mount, Unmount 1]" "Some (u ''es'')"]
  by (simp add: Let_def on_lang_event_def lang_read_def or_else_def u_def)

section \<open>Settings\<close>

text \<open>
  C13: the settings page sends well-typed requests: as long as every pool configuration it receives
  is an error or has the types of the control plane, and every change of a field has the type of the
  field, as everything the workers tab lets the user do has, each request of each handler has the
  method, the whole path, and the body type of its endpoint. The path names the connection, the
  repository or the worker the event is about: a worker that is edited is posted to its own path, a
  new one to the collection.
\<close>

theorem settings_requests_are_typed:
  assumes "list_all typed_event (es @ [e])"
  shows "let s = run (\<lambda>e s. fst (settings_step home e s)) es settings_start in
    typed_cmds (signature e s) (snd (settings_step home e s)) \<and> typed_view (workers_tab t)"
proof -
  have "typed_pool (pc_pool (se_pool (run (\<lambda>e s. fst (settings_step home e s)) es settings_start)))"
    using assms by (intro settings_typed_run) (simp_all add: typed_pool_def settings_start_def pool_cfg_start_def)
  then show ?thesis using assms by (simp add: Let_def settings_typed_step workers_tab_typed)
qed

lemma settings_requests_are_typed_witness:
  "let s = run (\<lambda>e s. fst (settings_step (Rejected []) e s))
         [S_pool (P_pool (Resolved sample_pool)), S_pool (P_edit sample_worker)] settings_start;
       cs = snd (settings_step (Rejected []) (S_pool P_submit) s) in
   typed_cmds (signature (S_pool P_submit) s) cs \<and> map (\<lambda>(m, p, b, k). (m, p)) (sends cs) = [(POST, (u ''/v1/pinned-workers/w1''))]"
proof -
  let ?s = "run (\<lambda>e s. fst (settings_step (Rejected []) e s))
         [S_pool (P_pool (Resolved sample_pool)), S_pool (P_edit sample_worker)] settings_start"
  have "typed_cmds (signature (S_pool P_submit) ?s) (snd (settings_step (Rejected []) (S_pool P_submit) ?s))"
    by (rule settings_requests_are_typed [unfolded Let_def, THEN conjunct1]) (simp add: sample_pool_typed)
  moreover have "pwEditId (se_pool ?s) = Some (u ''w1'')"
    by (simp add: in_pool_def split_beta) (simp add: sample_worker_def)
  then have "map (\<lambda>(m, p, b, k). (m, p)) (sends (snd (settings_step (Rejected []) (S_pool P_submit) ?s))) = [(POST, (u ''/v1/pinned-workers/w1''))]"
    by (simp add: in_pool_def split_beta sends_retag savePw_def editing_def or_blank_def u_def del: run.simps)
  ultimately show ?thesis unfolding Let_def by blast
qed

text \<open>
  C14: answers come to an end: from any state the settings page can be in, a sequence of events each
  of which answers something outstanding is no longer than the weight of what was outstanding, a
  connection with its reload counting two, a saved repository with its clone four.
\<close>

theorem settings_answers_come_to_an_end:
  assumes "w = run (flow_step home) es (settings_start, [])" "only_answers home fs w"
  shows "length fs + weight (snd (run (flow_step home) fs w)) \<le> weight (snd w)
    \<and> (length fs = weight (snd w) \<longrightarrow> snd (run (flow_step home) fs w) = [])"
  using answers_end [OF assms(2)] by (auto simp: weight_zero [symmetric])

text \<open>
  C15: no button is left saying that work is in progress: in every reachable state, a page with
  nothing outstanding shows no test, connection, start of an authorisation, listing, save, edit or
  deletion under way. The wait for GitHub's authorisation, which has no request of its own, is shown
  only while its poll runs, so the next tick asks again, provided that every answer to a tick came
  while the poll still ran.
\<close>

theorem settings_idle_when_answered:
  "let (s, out) = run (flow_step home) es (settings_start, []) in
     (out = [] \<longrightarrow> idle s)
     \<and> (in_time home es settings_start \<and> gh_waiting (se_conns s)
         \<longrightarrow> From_conns Get_gh_status \<in> set (waits (snd (settings_step home (S_conns Gh_tick) s))))"
proof -
  let ?w = "run (flow_step home) es (settings_start, [])"
  have "snd ?w = [] \<longrightarrow> idle (fst ?w)"
    using flow.run_inv [of home es] by (auto simp: flow_inv_def intro: nothing_waits)
  moreover have "gh_poll (c_gh (se_conns (fst ?w))) \<noteq> None" if "in_time home es settings_start" "gh_waiting (se_conns (fst ?w))"
    using gh_wait_run [of "(settings_start, [])" home es] gh_wait_start that by simp
  ultimately show ?thesis unfolding split_beta Let_def using gh_poll_asks by blast
qed

lemma settings_answers_come_to_an_end_witness:
  "let w = run (flow_step (Rejected [])) [S_conns (C_reuse (u ''github'') (u ''tasks''))] (settings_start, []) in
   only_answers (Rejected []) [S_conns (C_reused (Resolved (JObj []))), S_conns (C_conns (Rejected []))] w
   \<and> snd (run (flow_step (Rejected [])) [S_conns (C_reused (Resolved (JObj []))), S_conns (C_conns (Rejected []))] w) = []"
proof -
  define w where "w = run (flow_step (Rejected [])) [S_conns (C_reuse (u ''github'') (u ''tasks''))] (settings_start, [])"
  have "snd w = [From_conns Post_reuse]"
    by (simp add: w_def flow_step_def rest_def in_conns_def)
  moreover from this have "only_answers (Rejected []) [S_conns (C_reused (Resolved (JObj []))), S_conns (C_conns (Rejected []))] w"
    by (simp add: flow_step_def rest_def in_conns_def reused_def reload_conns_def split_beta)
  ultimately show ?thesis
    using settings_answers_come_to_an_end [OF w_def, of "[S_conns (C_reused (Resolved (JObj []))), S_conns (C_conns (Rejected []))]"]
    unfolding w_def [symmetric] Let_def by simp
qed

lemma settings_idle_when_answered_witness:
  "let es = [S_conns (C_open K_git (u ''github'')), S_conns (Gh_start (u ''code'')),
             S_conns (Gh_oauth_answer (u ''code'') (Resolved (JObj [((u ''url''), JStr (u ''https://github.com''))])))];
       s = fst (run (flow_step (Rejected [])) es (settings_start, [])) in
   idle s \<and> gh_waiting (se_conns s)
   \<and> From_conns Get_gh_status \<in> set (waits (snd (settings_step (Rejected []) (S_conns Gh_tick) s)))"
proof -
  let ?es = "[S_conns (C_open K_git (u ''github'')), S_conns (Gh_start (u ''code'')),
             S_conns (Gh_oauth_answer (u ''code'') (Resolved (JObj [((u ''url''), JStr (u ''https://github.com''))])))]"
  have t: "truthy (JStr (u ''https://github.com''))" by (simp add: u_def)
  define w where "w = run (flow_step (Rejected [])) ?es (settings_start, [])"
  have "snd w = [] \<and> gh_waiting (se_conns (fst w))" "in_time (Rejected []) ?es settings_start"
    using t by (simp_all add: w_def flow_step_def rest_def in_conns_def conns_handlers gh_waiting_def Let_def)
  then show ?thesis
    using settings_idle_when_answered [of "Rejected []" ?es] unfolding w_def [symmetric] Let_def split_beta by simp
qed

text \<open>
  C16: the key typed in the dialog of the Anthropic API leaves the page in a test and nowhere else:
  in a session without a click on the test button, every command issued, the save included, is the
  one issued when nothing is typed. The key is not saved.
\<close>

theorem api_key_is_never_saved:
  assumes "Ia_test_click \<notin> set es"
  shows "trace conns_step es s = trace conns_step (map erase es) s"
  using assms by (rule key_trace) simp

lemma api_key_is_never_saved_witness:
  "trace conns_step [Ia_open Api, Ia_key (u ''sk-ant-1''), Ia_save] conns_start = trace conns_step [Ia_open Api, Ia_key [], Ia_save] conns_start"
  using api_key_is_never_saved [of "[Ia_open Api, Ia_key (u ''sk-ant-1''), Ia_save]" conns_start] by simp

text \<open>
  C17: editing a pinned worker, or switching it on and off, keeps what it does not touch: the form
  opened on a worker sends back its settings, and the switch sends them with the opposite state.
\<close>

theorem pinned_worker_round_trip:
  assumes "pn_id p \<noteq> []" "pn_model p \<noteq> []" "0 < pn_concurrency p"
  shows "\<exists>b b'. sends (snd (pool_cfg_step P_submit (fst (pool_cfg_step (P_edit p) s))))
        = [(POST, (u ''/v1/pinned-workers/'') @ pn_id p, Some b, Post_worker True)]
      \<and> sends (snd (pool_cfg_step (P_toggle p) s)) = [(POST, (u ''/v1/pinned-workers/'') @ pn_id p, Some b', Post_toggle (pn_enabled p = Some False))]
      \<and> same_settings p b \<and> same_settings p b'
      \<and> jget (u ''enabled'') b = JBool (pn_enabled p \<noteq> Some False) \<and> jget (u ''enabled'') b' = JBool (pn_enabled p = Some False)"
  using assms edit_keeps_settings [OF assms(2,3)] toggle_keeps_settings [of p]
  by (simp add: savePw_def editing_def or_blank_def)

lemma pinned_worker_round_trip_witness:
  "let p = \<lparr>pn_id = (u ''w1''), pn_focus = (u ''backend''), pn_repo = [], pn_repo_name = [], pn_concurrency = 2, pn_model = (u ''claude_haiku''),
       pn_rules = None, pn_enabled = Some False, pn_open_pr = None, pn_run_tests = Some False, pn_auto_merge = None\<rparr> in
   \<exists>b. same_settings p b \<and> jget (u ''enabled'') b = JBool True"
  using pinned_worker_round_trip [of "\<lparr>pn_id = (u ''w1''), pn_focus = (u ''backend''), pn_repo = [], pn_repo_name = [], pn_concurrency = 2,
      pn_model = (u ''claude_haiku''), pn_rules = None, pn_enabled = Some False, pn_open_pr = None, pn_run_tests = Some False,
      pn_auto_merge = None\<rparr>" pool_cfg_start]
  unfolding Let_def by auto

section \<open>Queue and tasks\<close>

text \<open>
  C18: the pages of the queue, put one after another, are exactly the tasks that pass the filters,
  in their order; a page has at most twenty rows and the table is empty only if no task passes.
\<close>

theorem queue_pages_show_the_filtered_tasks:
  "concat (map (\<lambda>p. queue_rows lc (s\<lparr>q_page := p\<rparr>)) [0..<total_pages PAGE_SIZE (queue_filtered lc s)])
     = queue_filtered lc s
   \<and> length (queue_rows lc s) \<le> PAGE_SIZE \<and> (queue_rows lc s = [] \<longleftrightarrow> queue_filtered lc s = [])"
proof -
  have "queue_rows lc s = []" if "queue_filtered lc s = []"
    using that by (simp add: queue_rows_def page_rows_def)
  then show ?thesis
    using queue_pages.rows_nonempty [of lc s] queue_pages.pages_partition [of lc s] queue_pages.rows_bound [of lc s]
    by (auto simp: queue_rows_eq)
qed

text \<open>C19: starting on the first page, the next button leads to every task that passes the filters.\<close>

theorem queue_next_reaches_every_task:
  assumes "q_page s = 0" "t \<in> set (queue_filtered lc s)"
  shows "\<exists>k < total_pages PAGE_SIZE (queue_filtered lc s).
    t \<in> set (queue_rows lc (run (queue_step lc) (replicate k Q_next) s))"
  using queue_pages.next_reaches_every_item [of s t lc] assms
  by (simp add: queue_step_run_next queue_rows_eq)

lemma queue_next_reaches_every_task_witness:
  "let t = \<lparr>task_id = (u ''a''), task_title = (u ''b''), task_status = (u ''queued''), task_worker = None, task_repo = None\<rparr>;
       s = queue_start\<lparr>q_tasks := Dat [t]\<rparr> in
   \<exists>k < total_pages PAGE_SIZE (queue_filtered (\<lambda>x. x) s). t \<in> set (queue_rows (\<lambda>x. x) (run (queue_step (\<lambda>x. x)) (replicate k Q_next) s))"
  unfolding Let_def
  by (rule queue_next_reaches_every_task)
    (simp_all add: queue_start_def queue_filtered_def queue_all_def matchState_def search_hit_def)

text \<open>
  C20: the pills and the state bar count the same tasks: the tasks in progress are those of the
  buckets running and in review, the queued ones those of the first bucket, the closed ones those
  of the last two; and the total of the bar is the number of tasks with a known status.
\<close>

theorem filters_agree_with_buckets:
  "let n = (\<lambda>f. length (filter (\<lambda>t. matchState f (task_status t)) (queue_all s))); b = (\<lambda>i. b_n (queue_counts s ! i)) in
     n (u ''andamento'') = b 1 + b 2 \<and> n (u ''fila'') = b 0 \<and> n (u ''encerrado'') = b 3 + b 4
     \<and> stateBar_total (queue_counts s) = n (u ''andamento'') + n (u ''fila'') + n (u ''encerrado'')
     \<and> n (u ''todos'') = length (queue_all s)"
proof -
  have c: "length (filter P xs) + length (filter Q xs) = length (filter (\<lambda>x. P x \<or> Q x) xs)"
    if "\<And>x. \<not> (P x \<and> Q x)" for P Q and xs :: "task list"
    using that by (induction xs) auto
  show ?thesis
    unfolding Let_def stateBar_total_sum
    by (auto simp: queue_counts_def BUCKETS_def matchState_def c intro!: arg_cong [where f = length] filter_cong)
qed

section \<open>Interventions\<close>

text \<open>
  C21: the intervention list has every pending decision and every blocked or failed task, each
  once: when the two polled lists have no repetitions, neither has the merged list.
\<close>

theorem interventions_listed_once:
  assumes "distinct (map iv_task (or_empty (i_ints s)))" "distinct (map task_id (or_empty (i_tasks s)))"
  shows "distinct (map it_id (allItems dm now s))
    \<and> it_id ` set (allItems dm now s) = iv_task ` set (or_empty (i_ints s))
        \<union> task_id ` set (filter (\<lambda>t. task_status t = (u ''blocked'') \<or> task_status t = (u ''failed'')) (or_empty (i_tasks s)))"
proof -
  have "distinct (map it_id (allItems dm now s))"
    using assms by (auto simp: allItems_def decisions_ids blocked_ids distinct_map_filter image_iff)
  moreover have "it_id ` set (allItems dm now s) = set (map it_id (decisions dm now s)) \<union> set (map it_id (blocked_items s))"
    by (simp add: allItems_def image_Un)
  ultimately show ?thesis unfolding decisions_ids blocked_ids by auto
qed

lemma interventions_listed_once_witness:
  "let s = interventions_start\<lparr>
     i_ints := Dat [\<lparr>iv_task = (u ''t1''), iv_title = (u ''x''), iv_branch = (u ''b''), iv_ci = [], iv_ai = [], iv_created = []\<rparr>],
     i_tasks := Dat [\<lparr>task_id = (u ''t1''), task_title = (u ''x''), task_status = (u ''blocked''), task_worker = None, task_repo = None\<rparr>,
                     \<lparr>task_id = (u ''t2''), task_title = (u ''y''), task_status = (u ''failed''), task_worker = None, task_repo = None\<rparr>]\<rparr> in
   it_id ` set (allItems (\<lambda>x. None) 0 s) = {(u ''t1''), (u ''t2'')}"
  using interventions_listed_once [of "interventions_start\<lparr>
     i_ints := Dat [\<lparr>iv_task = (u ''t1''), iv_title = (u ''x''), iv_branch = (u ''b''), iv_ci = [], iv_ai = [], iv_created = []\<rparr>],
     i_tasks := Dat [\<lparr>task_id = (u ''t1''), task_title = (u ''x''), task_status = (u ''blocked''), task_worker = None, task_repo = None\<rparr>,
                     \<lparr>task_id = (u ''t2''), task_title = (u ''y''), task_status = (u ''failed''), task_worker = None, task_repo = None\<rparr>]\<rparr>" "\<lambda>x. None" 0]
  by (auto simp: Let_def)

section \<open>Dashboard\<close>

text \<open>
  C22: every point of a sparkline lies inside its box, computed with rounded arithmetic, for any
  data: between 0 and the width, and between 6 and the height minus 2.
\<close>

theorem sparkline_inside_its_box:
  assumes "(x, y) \<in> set (sparkPath_pts data w h)" "0 \<le> w" "w < 2 ^ 53" "8 \<le> h" "h < 2 ^ 53"
  shows "0 \<le> x \<and> x \<le> of_int w \<and> 6 \<le> y \<and> y \<le> of_int h - 2"
  using assms by (rule sparkPath_box)

lemma sparkline_inside_its_box_witness:
  "let p = hd (sparkPath_pts [3, 1, 4] 120 30) in 0 \<le> fst p \<and> fst p \<le> 120 \<and> 6 \<le> snd p \<and> snd p \<le> 28"
proof -
  have "hd (sparkPath_pts [3, 1, 4] 120 30) \<in> set (sparkPath_pts [3, 1, 4] 120 30)"
    by (rule hd_in_set) (simp add: sparkPath_pts_def sp_data_def Let_def)
  then show ?thesis
    using sparkline_inside_its_box [of "fst (hd (sparkPath_pts [3, 1, 4] 120 30))" "snd (hd (sparkPath_pts [3, 1, 4] 120 30))"
        "[3, 1, 4]" 120 30]
    by (simp add: Let_def)
qed

section \<open>Usage and invoices\<close>

text \<open>
  C23: the period printed on an invoice is the whole calendar month before it: it starts on a first
  day, ends on the last day of the same month, leap years included, and the next day is the first
  of the invoice's month. That is so from the year 100 on; the constructor of dates takes a smaller
  year, such as the year 1 of the control plane's zero date, for one after 1900, and the period
  printed is the month before the same month there.
\<close>

theorem invoice_period_is_the_month_before:
  assumes "parse s = Some d" "valid_date d"
  shows "let (st, e) = period_of d in
    invoicePeriod parse s = pad2 1 @ (u '' '') @ MONTHS_PT ! mo st @ (ux '' {2013} '') @ pad2 (dy e) @ (u '' '') @ MONTHS_PT ! mo e @ (u '' '') @ nshow (yr e)
    \<and> dy st = 1 \<and> mo st = mo e \<and> (yr d \<noteq> 100 \<longrightarrow> yr st = yr e) \<and> valid_date e
    \<and> next_day e = \<lparr>yr = (if yr d < 100 then 1900 + yr d else yr d), mo = mo d, dy = 1\<rparr>"
  using period_facts [OF assms(2)] assms(1) by (auto simp: invoicePeriod_def js_year_def split_beta Let_def)

lemma invoice_period_is_the_month_before_witness:
  "invoicePeriod (\<lambda>x. Some \<lparr>yr = 2024, mo = 2, dy = 5\<rparr>) (u ''2024-03-05'') = (ux ''01 fev {2013} 29 fev 2024'')"
  using invoice_period_is_the_month_before [of "\<lambda>x. Some \<lparr>yr = 2024, mo = 2, dy = 5\<rparr>" "(u ''2024-03-05'')" "\<lparr>yr = 2024, mo = 2, dy = 5\<rparr>"]
  by (simp add: valid_date_def month_days_def leap_def period_of_def day_zero_def day_one_def js_year_def pad2_def pad_start_def
      nshow.simps MONTHS_PT_def u_def ux_def hex_digit.simps)

section \<open>Account, organisation, cloud\<close>

text \<open>
  C24: any answer of the server to a change of password, a refusal included, is announced as
  done, and the three fields are cleared.
\<close>

theorem refused_password_is_announced:
  "let s1 = fst (account_step lang (A_password_answer l (snd (api_settle (Answered r) b))) s) in
     pwd_ok s1 \<and> pwd_msg s1 = useT l (u ''Senha atualizada.'') (Some (u ''Password updated.'')) \<and> \<not> pwd_saving s1
     \<and> pwd_cur s1 = [] \<and> pwd_new s1 = [] \<and> pwd_conf s1 = []"
  by (simp add: password_answer_def api_settle_def Let_def split_beta)

text \<open>
  C25: the member list offers a removal exactly for the members of the page shown whose menu is
  open and placed, who do not own the organisation, and to a user whose role may manage it.
\<close>

theorem only_managers_remove_members:
  "O_remove i \<in> set (all_clicks (org_view lc uc lang s)) \<longleftrightarrow>
     canManage s \<and> og_menu s = Some i \<and> og_pos s
     \<and> (\<exists>m \<in> set (page_rows ORG_PAGE (org_filtered lc s) (og_page s)). mb_id m = i \<and> mb_role m \<noteq> (u ''owner''))"
  by (auto simp: org_view_parts set_all_clicks_map shown_def split: if_splits)

text \<open>
  C26: used through its own buttons and fields, the cloud page never has two instances being
  created: whatever is opened, closed, typed and clicked while the timer runs.
\<close>

theorem one_instance_created_at_a_time:
  assumes "ui_path (cloud_step lc) (cloud_view lc lang) cloud_outside cloud_start es t"
  shows "length (creations t) \<le> 1
    \<and> (CL_create \<in> set (all_clicks (cloud_view lc lang t)) \<longrightarrow> creations t = [])"
  using cloud_use.path_inv [OF assms] create_is_guarded [of lc lang t]
  by (auto simp: one_creation_def split: if_splits)

lemma one_instance_created_at_a_time_witness:
  "creations (run (cloud_step (\<lambda>x. x)) [CL_open, CL_create, CL_close, CL_open] cloud_start) = [NF_START]
   \<and> CL_create \<notin> set (all_clicks (cloud_view (\<lambda>x. x) pt (run (cloud_step (\<lambda>x. x)) [CL_open, CL_create, CL_close, CL_open] cloud_start)))"
proof -
  let ?lc = "\<lambda>x :: jstr. x" and ?es = "[CL_open, CL_create, CL_close, CL_open]"
  have o: "raises (cloud_view ?lc pt s) CL_open" for s
    by (simp add: raises_def cloud_view_def)
  have c: "raises (cloud_view ?lc pt s) CL_close" if "cl_new s" for s
    using that by (simp add: raises_def cloud_view_def new_dialog_def)
  have p: "ui_path (cloud_step ?lc) (cloud_view ?lc pt) cloud_outside cloud_start ?es (run (cloud_step ?lc) ?es cloud_start)"
    by (auto intro!: ui_stop ui_user o c simp: create_raised cloud_start_def createNode_def)
  have q: "creations (run (cloud_step ?lc) ?es cloud_start) = [NF_START]"
    by (simp add: cloud_start_def createNode_def)
  show ?thesis using one_instance_created_at_a_time [OF p] q by auto
qed

text \<open>
  C27: the average coverage, added up and divided in rounded arithmetic, stays between 0 and 100
  when the coverages do, for any number of reports the browser can hold.
\<close>

theorem average_coverage_stays_on_its_scale:
  assumes "covVals s \<noteq> []" "\<forall>x \<in> set (qa_list s). \<forall>c. qa_coverage x = Some c \<longrightarrow> c \<le> 100"
    and "100 * length (qa_list s) < 2 ^ 53"
  shows "avgCov s = to_fixed 1 (mean_of (covVals s)) @ (u ''%'') \<and> 0 \<le> mean_of (covVals s) \<and> mean_of (covVals s) \<le> 100"
proof -
  have "\<forall>c \<in> set (covVals s). 0 \<le> c \<and> c \<le> 100"
    using covVals_in [of _ s] assms(2) by force
  moreover have "100 * length (covVals s) < 2 ^ 53"
    using covVals_length [of s] assms(3) by linarith
  ultimately show ?thesis
    using mean_range [of "covVals s"] assms(1) by (simp add: avgCov_def)
qed

lemma average_coverage_stays_on_its_scale_witness:
  "let s = qa_start\<lparr>qp_reports := Dat (map (\<lambda>c. \<lparr>qa_id = [], qa_task = [], qa_status = (u ''pass''), qa_total = 3, qa_passed = 3, qa_coverage = Some c, qa_ms = 10, qa_repo = [], qa_branch = [], qa_created = []\<rparr>) [100, 75 / 2, 0])\<rparr> in
     covVals s = [100, 75 / 2] \<and> 0 \<le> mean_of [100, 75 / 2] \<and> mean_of [100, 75 / 2] \<le> 100"
  using average_coverage_stays_on_its_scale [of "qa_start\<lparr>qp_reports := Dat (map (\<lambda>c. \<lparr>qa_id = [], qa_task = [], qa_status = (u ''pass''), qa_total = 3, qa_passed = 3, qa_coverage = Some c, qa_ms = 10, qa_repo = [], qa_branch = [], qa_created = []\<rparr>) [100, 75 / 2, 0])\<rparr>"]
  by (simp add: covVals_def qa_list_def)

section \<open>Platform console\<close>

text \<open>
  C28: the gate of the tenant pages and the guard of the platform console are complementary: for
  every answer to the profile request exactly one of the two shows its content, and exactly the
  other one sends the user away, so nobody is sent back and forth.
\<close>

theorem gate_and_console_are_complementary:
  "(page_view (fst (gate_answer r gate_start)) l1 cs = [] \<longleftrightarrow> shell_view (fst (shell_answer r shell_start)) l2 ds \<noteq> [])
   \<and> (snd (gate_answer r gate_start) = [] \<longleftrightarrow> page_view (fst (gate_answer r gate_start)) l1 cs \<noteq> [])
   \<and> (snd (shell_answer r shell_start) = [] \<longleftrightarrow> shell_view (fst (shell_answer r shell_start)) l2 ds \<noteq> [])"
  by (cases r) (auto simp: gate_content gate_answer_def gate_start_def shell_shown shell_answer_def shell_start_def)

text \<open>
  C29: after a sign-in, no button of the user list switches the account that signed in, in any
  state of the list and however the case of the address was typed.
\<close>

theorem own_account_cannot_be_switched:
  assumes "has_window b" "truthy (jget (u ''access_token'') j)" "mail \<noteq> []" "lc (us_email x) = lc mail"
  shows "let b1 = perform_all (snd (login_step lang nxt (Auth_answer mail (Resolved j)) s)) b in
    H_toggle x \<notin> set (all_clicks (users_view lc (getEmail b1) sh up))"
  using own_account_is_safe [OF assms(3,4)] signed_in_email [OF assms(1,2)] by (simp add: Let_def)

lemma own_account_cannot_be_switched_witness:
  "let lc = (\<lambda>s. map (\<lambda>c. if 65 \<le> c \<and> c \<le> 90 then c + 32 else c) s);
       b = \<lparr>has_window = True, storage = Map.empty, pathname = (u ''/login''), search = [], navs = []\<rparr>;
       x = \<lparr>us_id = (u ''u1''), us_email = (u ''Root@x.y''), us_name = [], us_status = (u ''active''), us_created = [], us_org = [], us_role = []\<rparr>;
       b1 = perform_all (snd (login_step pt (u ''/'') (Auth_answer (u ''root@x.y'') (Resolved (JObj [((u ''access_token''), JStr (u ''t''))]))) login_start)) b in
   H_toggle x \<notin> set (all_clicks (users_view lc (getEmail b1) \<lparr>sh_ok = True, sh_email = []\<rparr> (users_start\<lparr>up_users := [x]\<rparr>)))"
  using own_account_cannot_be_switched [of
      "\<lparr>has_window = True, storage = Map.empty, pathname = (u ''/login''), search = [], navs = []\<rparr>" "JObj [((u ''access_token''), JStr (u ''t''))]"
      "(u ''root@x.y'')" "\<lambda>s. map (\<lambda>c. if 65 \<le> c \<and> c \<le> 90 then c + 32 else c) s"
      "\<lparr>us_id = (u ''u1''), us_email = (u ''Root@x.y''), us_name = [], us_status = (u ''active''), us_created = [], us_org = [], us_role = []\<rparr>"
      pt "(u ''/'')" login_start "\<lparr>sh_ok = True, sh_email = []\<rparr>"
      "users_start\<lparr>up_users := [\<lparr>us_id = (u ''u1''), us_email = (u ''Root@x.y''), us_name = [], us_status = (u ''active''), us_created = [], us_org = [], us_role = []\<rparr>]\<rparr>"]
  by (simp add: u_def)

text \<open>
  C30: the overview waits for its four requests. It leaves its loading state exactly when all four
  have been answered, in any order, or at the first rejection. While it loads it is the page as
  opened, with no figures and its texts for empty lists, whatever has been answered so far; after
  that it shows the data of four answers that came, all of them at once, or, only when a request was
  rejected, still the page as opened without its progress bar.
\<close>

theorem overview_waits_for_its_four_answers:
  "let s = run (\<lambda>e s. fst (overview_step e s)) es overview_start; page = overview_view uc sh in
     (ov_loading s \<longleftrightarrow> \<not> list_ex overview_rejected es
        \<and> \<not> ((\<exists>x. OV_stats (Resolved x) \<in> set es) \<and> (\<exists>x. OV_orgs (Resolved x) \<in> set es)
             \<and> (\<exists>x. OV_plans (Resolved x) \<in> set es) \<and> (\<exists>x. OV_audit (Resolved x) \<in> set es)))
     \<and> overview_cards uc overview_start = ([] :: overview_event node list)
     \<and> (if ov_loading s then page s = page overview_start
        else (list_ex overview_rejected es \<and> page s = page (overview_start\<lparr>ov_loading := False\<rparr>))
             \<or> (\<exists>st os ps au. OV_stats (Resolved st) \<in> set es \<and> OV_orgs (Resolved os) \<in> set es
                  \<and> OV_plans (Resolved ps) \<in> set es \<and> OV_audit (Resolved au) \<in> set es
                  \<and> page s = page (overview_shows st os ps au)))"
proof -
  let ?s = "run (\<lambda>e s. fst (overview_step e s)) es overview_start"
  have "overview_cards uc overview_start = ([] :: overview_event node list)" by (simp add: overview_cards_def overview_start_def)
  moreover have "overview_view uc sh ?s = overview_view uc sh overview_start" if "ov_loading ?s"
    using overview_history [of es] that by (intro overview_view_data) (simp_all add: overview_hist_def overview_start_def)
  moreover note overview_shown [OF overview_history [of es], of uc sh]
  ultimately show ?thesis using overview_loading [of es] by (auto simp: Let_def all_came_def list_ex_iff)
qed

text \<open>
  C31: the two pages that estimate the monthly revenue agree, and their figure is the price of the
  team plan per seat plus the price of the pro plan per organisation.
\<close>

theorem revenue_pages_agree:
  "overview_mrr ps = bill_mrr ps
   \<and> bill_mrr ps = (\<Sum>p \<leftarrow> filter (\<lambda>p. pl_plan p = (u ''team'')) ps. price_of p * pl_seats p)
       + (\<Sum>p \<leftarrow> filter (\<lambda>p. pl_plan p = (u ''pro'')) ps. price_of p * pl_orgs p)"
proof -
  have m: "mrrFor p = (if pl_plan p = (u ''team'') then price_of p * pl_seats p else 0)
      + (if pl_plan p = (u ''pro'') then price_of p * pl_orgs p else 0)" for p
    by (auto simp: mrrFor_def no_price_def price_of_def)
  show ?thesis unfolding overview_mrr_sum bill_mrr_sum by (induction ps) (simp_all add: m)
qed

text \<open>
  C32: an amount of the console below \<open>2^52\<close> cents, in any currency, can be read back from its
  text: although the page divides a double, the text without the sign of the currency and the commas
  is the decimal numeral of the cents, so two different amounts below the bound never look the same.
\<close>

theorem amounts_are_read_back:
  assumes "c < 2 ^ 52" "c' < 2 ^ 52"
  shows "(\<exists>t. fmtMoney uc (Some c) cur = money_sign uc cur @ t \<and> money_value t = c)
    \<and> (fmtMoney uc (Some c) cur = fmtMoney uc (Some c') cur \<longleftrightarrow> c = c')"
proof -
  let ?t = "\<lambda>c. commas (nshow (c div 100)) @ cents_text (c mod 100)"
  have t: "fmtMoney uc (Some c) cur = money_sign uc cur @ ?t c" "fmtMoney uc (Some c') cur = money_sign uc cur @ ?t c'"
    using assms by (simp_all only: fmtMoney_below)
  have "c = c'" if "?t c = ?t c'" using that money_value_text by metis
  then show ?thesis unfolding t using money_value_text by auto
qed

theorem amounts_are_read_back_witness:
  "(\<exists>t. fmtMoney (\<lambda>s. s) (Some 123405) (u ''eur'') = money_sign (\<lambda>s. s) (u ''eur'') @ t \<and> money_value t = 123405)
   \<and> fmtMoney (\<lambda>s. s) (Some 123405) (u ''eur'') \<noteq> fmtMoney (\<lambda>s. s) (Some 123450) (u ''eur'')"
  using amounts_are_read_back [of 123405 123450 "\<lambda>s. s" "u ''eur''"] by simp

text \<open>
  C33: rendering the list of organisations throws exactly when the detail dialog is open on an
  object without its organisation or its members; a refused detail request is such an object.
\<close>

theorem refused_detail_breaks_the_page:
  "(orgs_view lc uc lang sh s = None \<longleftrightarrow> (\<exists>d. os_detail s = Some d \<and> (dt_org d = None \<or> dt_members d = None)))
   \<and> orgs_view lc uc lang sh (fst (orgs_step (G_detail (Resolved (Some \<lparr>dt_org = None, dt_members = None, dt_tasks = None\<rparr>))) s)) = None"
  by (simp add: orgs_view_throws detail_answer_def)

section \<open>Prototype runtime\<close>

text \<open>
  C34: what stands between the braces of a template is read as an expression that does not depend on
  the values: evaluating the text while scanning it, as the code does, is evaluating its syntax tree;
  and every text of the grammar is read as the tree it stands for. The grammar has the keywords, every
  number the pattern of the code accepts, paths with names, digits and indices, negation,
  parentheses and right-associative equalities, with white space, nested to any depth; its quoted
  texts are those whose brackets balance and that hold neither \<open>==\<close> nor \<open>!=\<close>.
\<close>

theorem template_expressions:
  "resolve w vals src = deval w vals (dparse src)
   \<and> (expr_text t x \<longrightarrow> dparse t = x \<and> resolve w vals t = deval w vals x)"
  using grammar_read(2) [of t x] by (auto simp: resolve_tree(1))

lemma template_expressions_witness:
  "resolve \<lparr>w_heap = \<lambda>_. OPlain [], w_proto = \<lambda>_ _. VUndef, w_prim = \<lambda>_. PUndef, w_text = \<lambda>_. []\<rparr>
     (Some [(u ''kind'') \<mapsto> VStr (u ''f(x)'')]) ((u '' kind  ==='') @ 39 # (u ''f(x)'') @ [39]) = VBool True"
proof -
  let ?x = "DEq StrictEq (DPath (u ''kind'') []) (DLit (VStr (u ''f(x)'')))"
  have k: "operand_text (u ''kind'' @ []) (DPath (u ''kind'') [])"
    by (rule O_path) (simp_all add: S_end ident_text_def ident_start_def ident_char_def const_words_def u_def)
  have q: "operand_text (39 # u ''f(x)'' @ [39]) (DLit (VStr (u ''f(x)'')))"
    by (rule O_quoted) (simp_all add: quotable_def nested_def starts_with_def u_def)
  have "expr_text ([32] @ ((u ''kind'' @ []) @ [32, 32] @ print_op StrictEq @ (39 # u ''f(x)'' @ [39])) @ []) ?x"
    by (intro E_spaced E_equality k E_operand [OF q]) (simp_all add: is_space_def)
  moreover have "[32] @ ((u ''kind'' @ []) @ [32, 32] @ print_op StrictEq @ (39 # u ''f(x)'' @ [39])) @ [] = (u '' kind  ==='') @ 39 # (u ''f(x)'') @ [39]"
    by (simp add: u_def)
  ultimately show ?thesis
    using template_expressions [of "\<lparr>w_heap = \<lambda>_. OPlain [], w_proto = \<lambda>_ _. VUndef, w_prim = \<lambda>_. PUndef, w_text = \<lambda>_. []\<rparr>"
        "Some [(u ''kind'') \<mapsto> VStr (u ''f(x)'')]" "[]" "(u '' kind  ==='') @ 39 # (u ''f(x)'') @ [39]" ?x]
    by (simp add: compare_def head_value_def u_def)
qed

text \<open>
  C35: an attribute that starts with a hole and ends with another is taken for one hole: it has the
  value of the single expression that everything between the first and the last braces makes, and not
  the text with both values. That value is undefined whatever the variables are when the first hole
  is a path and no equality sign follows it, and when there is neither an opening square bracket nor an equality sign
  and the first hole does not begin with an exclamation mark, a quote or an opening parenthesis.
\<close>

theorem two_holes_are_undefined:
  "let v = compileAttr w ([123, 123] @ p @ [125, 125] @ b @ [123, 123] @ n @ [125, 125]) vals in
     v = resolve w (Some vals) (p @ [125, 125] @ b @ [123, 123] @ n)
     \<and> (path_hole p \<and> 61 \<notin> set (b @ n)
         \<or> set (p @ b @ n) \<inter> {91, 61} = {} \<and> hd (dropWhile is_space (p @ [125])) \<notin> {33, 34, 39, 40}
        \<longrightarrow> v = VUndef)"
  unfolding Let_def by (intro conjI impI two_holes_one_expression two_holes_undefined)

lemma two_holes_are_undefined_witness:
  "\<forall>w. compileAttr w ([123, 123] @ (u '' item.kind '') @ [125, 125] @ (u '' card '') @ [123, 123] @ (u '' size '') @ [125, 125])
     [(u ''size'') \<mapsto> VStr (u ''big'')] = VUndef"
proof
  fix w
  have "set ((u '' item.kind '') @ (u '' card '') @ (u '' size '')) \<inter> {91, 61} = {}"
    "hd (dropWhile is_space ((u '' item.kind '') @ [125])) \<notin> {33, 34, 39, 40}"
    by (simp_all add: u_def is_space_def)
  then show "compileAttr w ([123, 123] @ (u '' item.kind '') @ [125, 125] @ (u '' card '') @ [123, 123] @ (u '' size '') @ [125, 125])
     [(u ''size'') \<mapsto> VStr (u ''big'')] = VUndef"
    using two_holes_are_undefined [of w "u '' item.kind ''" "u '' card ''" "u '' size ''" "[(u ''size'') \<mapsto> VStr (u ''big'')]"]
    unfolding Let_def by blast
qed

text \<open>
  C36: a component can be named by its file: the page name read back from the address it is fetched
  from is its name, whatever characters the name has, as long as it can be encoded and has no slash
  and does not itself end like a page.
\<close>

theorem component_names_come_back:
  assumes "units name" "component_url name = Some url" "name \<noteq> []" "47 \<notin> set name" "strip_html name = name"
  shows "dcNameFromPath url = name"
  by (rule component_name_back [OF assms])

lemma component_names_come_back_witness:
  "dcNameFromPath (u ''./Task%20list.dc.html'') = (u ''Task list'')"
  by (rule component_names_come_back)
    (simp_all add: units_def component_url_def strip_html_def strip_suffix_def u_def unreserved_def pct_byte_def hex_up_def)

text \<open>
  C37: whatever streams, answers, renders and updates come in whatever order, no component is
  fetched twice, the registry has one entry per name, and the page shows that something streams
  exactly while the template or the class of some component does.
\<close>

theorem components_are_fetched_once:
  "let rt = api_rt (run api_step es api_start) in
     distinct (rn_fetches rt) \<and> distinct (map fst (rn_reg rt))
     \<and> rn_class rt = (\<exists>n. entry_streams (reg_find n rt))"
  using runtime.run_inv [of es] by (simp add: Let_def rt_ok_def rt_core_def rt_class_def)

text \<open>
  C38: a component whose parts the host has begun to stream is the host's: if it was not fetched
  before, the runtime never fetches it, whatever happens later.
\<close>

theorem streamed_component_is_never_fetched:
  assumes "n \<notin> set (rn_fetches (api_rt a))"
  shows "n \<notin> set (rn_fetches (api_rt (run api_step (Update env n k c True # es) a)))"
  using owned_run [OF streamed_is_owned [OF assms, of env k c], of es] by (simp add: host_owned_def)

lemma streamed_component_is_never_fetched_witness:
  "\<forall>env. (u ''Card'') \<notin> set (rn_fetches (api_rt (run api_step [Update env (u ''Card'') Part_Js [] True, Ensure (u ''Card'')] api_start)))"
  by (intro allI streamed_component_is_never_fetched) (simp add: api_start_def rt_start_def)

text \<open>
  C39: along any life of a component in the page (mounts, renders that crash or not, swaps of its
  class, state changes, unmounts), every instance of its logic class is mounted at most once, updated
  and unmounted only while it is mounted; and an instance that is mounted is the one in use, so that none
  is left mounted when the component is gone. No mount passes
  a property whose value is NaN, which differs from itself and would pass for a change.
\<close>

theorem hooks_are_called_in_order:
  assumes "list_all plain_event es"
  shows "let t = run tree_step es tree_start in
    hooks_from [] (tree_log t) \<and> (\<forall>i. live_in (tree_log t) i \<longrightarrow> (\<exists>c. tr_comp t = Some c \<and> i = lo_id (cm_logic c)))"
  using tree_hooks [OF assms] by (simp add: Let_def)

lemma hooks_are_called_in_order_witness:
  "\<forall>lc he. let t = run tree_step [Comp_Mount lc he (u ''Card'') 7 [] [] None, Comp_Unmount] tree_start
     in hooks_from [] (tree_log t)"
proof (intro allI)
  fix lc he
  have "list_all plain_event [Comp_Mount lc he (u ''Card'') 7 [] [] None, Comp_Unmount]"
    by (simp add: dispatch_props_def userProps_def WIRING_def no_nan_def)
  from hooks_are_called_in_order [OF this]
  show "let t = run tree_step [Comp_Mount lc he (u ''Card'') 7 [] [] None, Comp_Unmount] tree_start in hooks_from [] (tree_log t)"
    by (simp add: Let_def del: run.simps tree_step.simps)
qed

text \<open>
  C40: imports that go in a circle end: components rendered inside one another are never more than the
  page has components, and one that would be inside itself shows the circle of names instead of its
  template.
\<close>

theorem circular_imports_end:
  assumes "nested_chain chain" "finite N" "set chain \<subseteq> N"
  shows "length chain \<le> card N
    \<and> (cm_name c \<in> set chain \<longrightarrow>
         view_body (fst (fst (comp_render lc he chain r c d))) = None
         \<and> view_boxes (fst (fst (comp_render lc he chain r c d)))
             = [placeholder (cm_name c) (prop_text (u ''__hintSize'') (cm_props c)) False
                  (Some ((u ''circular import: '') @ cycle_text chain (cm_name c)))])"
  using nested_bound [OF assms] by (simp add: cycle_shown)

lemma circular_imports_end_witness:
  "\<forall>lc he r d. view_body (fst (fst (comp_render lc he [(u ''Card'')] r (comp_fields lc (u ''Card'') 0 [] 0 []) d))) = None"
proof (intro allI)
  fix lc he r d
  let ?c = "comp_fields lc (u ''Card'') 0 [] 0 []"
  have "view_body (fst (fst (comp_render lc he [] (new_entry\<lparr>en_tpl := Some \<lparr>tp_builders = [], tp_annotated = []\<rparr>\<rparr>) ?c d)))
      = Some ([(u ''Card'')], [])"
    by (simp add: comp_render_def render_body_def reconcileLogic_def logic_stays_def new_entry_def comp_fields_def
        base_logic_def renderVals_def render_template_def Let_def)
  then have "nested_chain [(u ''Card'')]" by (rule Render_In [OF Page_Top])
  then show "view_body (fst (fst (comp_render lc he [(u ''Card'')] r ?c d))) = None"
    using circular_imports_end [of "[(u ''Card'')]" "{(u ''Card'')}" ?c lc he r d] by (simp add: comp_fields_def)
qed

end
